(* ===== verification/Go_Base.thy ===== *)
theory Go_Base
  imports Main "HOL-Library.Sublist" "HOL-Library.Code_Target_Nat"
begin

text \<open>
  The prelude of the development. It holds what every component shares: the byte view of
  Go strings, the results of fallible functions, and the functions of Go's standard library
  that the sources call on strings and decimal numbers (\<open>strings.TrimSpace\<close>,
  \<open>strings.ToLower\<close>, \<open>strings.EqualFold\<close>, \<open>strings.Split\<close>, \<open>strings.Cut\<close>,
  \<open>strconv.Itoa\<close>, \<open>strconv.Atoi\<close>, \<open>utf8.ValidString\<close>, \<open>unicode.IsControl\<close>).
  A Go string is a byte sequence, and so is \<open>string\<close> here: a \<open>char\<close> is one byte.

  Case mapping is exact on ASCII and on the three runes outside ASCII whose simple case
  mapping meets ASCII (U+0130 and U+212A for \<open>ToLower\<close>, U+017F and U+212A for
  \<open>EqualFold\<close>); every other rune is left as it is. The sources compare the mapped
  values with ASCII constants only, so no such comparison can tell the difference.
\<close>

named_theorems result_simps
  \<open>how the result combinators behave when they succeed\<close>

section \<open>Fallible functions\<close>

text \<open>
  A Go function that returns \<open>(value, error)\<close> is a sum: \<open>Inl\<close> the error. A chain of
  guarded early returns is \<open>first_error\<close> on the list of its checks, in the order of the
  code.
\<close>

definition require :: "bool \<Rightarrow> 'e \<Rightarrow> 'e + unit" where
  "require b e = (if b then Inr () else Inl e)"

primrec first_error :: "('e + unit) list \<Rightarrow> 'e + unit" where
  "first_error [] = Inr ()"
| "first_error (c # cs) = (case c of Inl e \<Rightarrow> Inl e | Inr _ \<Rightarrow> first_error cs)"

definition bind_result :: "'e + 'a \<Rightarrow> ('a \<Rightarrow> 'e + 'b) \<Rightarrow> 'e + 'b" where
  "bind_result r f = (case r of Inl e \<Rightarrow> Inl e | Inr a \<Rightarrow> f a)"

definition map_error :: "('e \<Rightarrow> 'f) \<Rightarrow> 'e + 'a \<Rightarrow> 'f + 'a" where
  "map_error f r = (case r of Inl e \<Rightarrow> Inl (f e) | Inr a \<Rightarrow> Inr a)"

definition succeeds :: "'e + 'a \<Rightarrow> bool" where
  "succeeds r = (case r of Inl _ \<Rightarrow> False | Inr _ \<Rightarrow> True)"

lemma require_ok [result_simps, simp]: "require b e = Inr u \<longleftrightarrow> b"
  by (simp add: require_def)

lemma require_err [simp]: "require b e = Inl e' \<longleftrightarrow> \<not> b \<and> e' = e"
  by (auto simp: require_def)

lemma require_decided [simp]: "require True e = Inr ()" "require False e = Inl e"
  by (simp_all add: require_def)

lemma first_error_Cons_ok [result_simps, simp]:
  "first_error (c # cs) = Inr u \<longleftrightarrow> c = Inr () \<and> first_error cs = Inr ()"
  by (cases c) simp_all

lemma first_error_ok: "first_error cs = Inr u \<longleftrightarrow> (\<forall>c \<in> set cs. c = Inr ())"
  by (induction cs) (simp, simp del: first_error.simps(2))

lemma first_error_append [simp]:
  "first_error (xs @ ys) = Inr u \<longleftrightarrow> first_error xs = Inr () \<and> first_error ys = Inr ()"
  by (simp add: first_error_ok ball_Un)

lemma first_error_map_ok:
  "first_error (map f xs) = Inr u \<longleftrightarrow> (\<forall>x \<in> set xs. f x = Inr ())"
  by (simp add: first_error_ok)

lemma bind_result_ok [result_simps]:
  "bind_result r f = Inr b \<longleftrightarrow> (\<exists>a. r = Inr a \<and> f a = Inr b)"
  by (auto simp: bind_result_def split: sum.splits)

lemma bind_result_Inr [simp]: "bind_result (Inr a) f = f a"
  by (simp add: bind_result_def)

lemma bind_result_Inl [simp]: "bind_result (Inl e) f = Inl e"
  by (simp add: bind_result_def)

lemma bind_result_require [simp]:
  "bind_result (require b e) f = (if b then f () else Inl e)"
  by (simp add: require_def)

lemma map_error_ok [result_simps, simp]: "map_error f r = Inr a \<longleftrightarrow> r = Inr a"
  by (auto simp: map_error_def split: sum.splits)

lemma map_error_Inr [simp]: "map_error f (Inr a) = Inr a"
  by (simp add: map_error_def)

lemma map_error_Inl [simp]: "map_error f (Inl e) = Inl (f e)"
  by (simp add: map_error_def)

lemma succeeds_iff: "succeeds r \<longleftrightarrow> (\<exists>a. r = Inr a)"
  by (auto simp: succeeds_def split: sum.splits)

lemma unit_result_cases: "(r :: 'e + unit) \<noteq> Inr () \<Longrightarrow> \<exists>e. r = Inl e"
  by (cases r) auto

section \<open>Bytes\<close>

definition byte :: "char \<Rightarrow> nat" where
  "byte c = of_char c"

definition is_digit :: "char \<Rightarrow> bool" where
  "is_digit c \<longleftrightarrow> 48 \<le> byte c \<and> byte c \<le> 57"

definition is_upper :: "char \<Rightarrow> bool" where
  "is_upper c \<longleftrightarrow> 65 \<le> byte c \<and> byte c \<le> 90"

definition is_lower :: "char \<Rightarrow> bool" where
  "is_lower c \<longleftrightarrow> 97 \<le> byte c \<and> byte c \<le> 122"

definition is_ascii :: "char \<Rightarrow> bool" where
  "is_ascii c \<longleftrightarrow> byte c < 128"

definition digit_char :: "nat \<Rightarrow> char" where
  "digit_char d = char_of (48 + d)"

definition digit_value :: "char \<Rightarrow> nat" where
  "digit_value c = byte c - 48"

lemma byte_less [simp]: "byte c < 256"
  by (simp add: byte_def)

lemma byte_inject [simp]: "byte a = byte b \<longleftrightarrow> a = b"
  by (simp add: byte_def)

lemma byte_char_of: "n < 256 \<Longrightarrow> byte (char_of n) = n"
  by (simp add: byte_def)

lemma byte_digit_char: "d < 10 \<Longrightarrow> byte (digit_char d) = 48 + d"
  by (simp add: digit_char_def byte_char_of)

lemma is_digit_digit_char [simp]: "d < 10 \<Longrightarrow> is_digit (digit_char d)"
  by (simp add: is_digit_def byte_digit_char)

lemma digit_value_digit_char [simp]: "d < 10 \<Longrightarrow> digit_value (digit_char d) = d"
  by (simp add: digit_value_def byte_digit_char)

lemma digit_char_digit_value [simp]: "is_digit c \<Longrightarrow> digit_char (digit_value c) = c"
  by (simp add: is_digit_def digit_value_def digit_char_def byte_def)

lemma digit_value_less: "is_digit c \<Longrightarrow> digit_value c < 10"
  by (auto simp: is_digit_def digit_value_def)

lemma is_digit_ascii: "is_digit c \<Longrightarrow> is_ascii c"
  by (simp add: is_digit_def is_ascii_def)

section \<open>Decimal numbers\<close>

definition all_digits :: "string \<Rightarrow> bool" where
  "all_digits s \<longleftrightarrow> s \<noteq> [] \<and> list_all is_digit s"

definition dec_value :: "string \<Rightarrow> nat" where
  "dec_value s = foldl (\<lambda>n c. 10 * n + digit_value c) 0 s"

text \<open>\<open>strconv.Itoa\<close> on the values the sources print, which are not negative.\<close>

fun itoa :: "nat \<Rightarrow> string" where
  "itoa n = (if n < 10 then [digit_char n] else itoa (n div 10) @ [digit_char (n mod 10)])"

declare itoa.simps [simp del]

definition max_int :: nat where
  "max_int = 2 ^ 63 - 1"

text \<open>
  \<open>strconv.Atoi\<close> after the callers' test that the text is decimal digits: the value, or
  a range error above the largest \<open>int\<close>. A caller that drops the error reads the
  saturated value.
\<close>

definition atoi :: "string \<Rightarrow> nat option" where
  "atoi s = (if all_digits s \<and> dec_value s \<le> max_int then Some (dec_value s) else None)"

definition atoi_saturated :: "string \<Rightarrow> nat" where
  "atoi_saturated s = (if all_digits s then min (dec_value s) max_int else 0)"

lemma dec_value_Nil [simp]: "dec_value [] = 0"
  by (simp add: dec_value_def)

lemma dec_value_snoc [simp]: "dec_value (s @ [c]) = 10 * dec_value s + digit_value c"
  by (simp add: dec_value_def)

lemma itoa_nonempty [simp]: "itoa n \<noteq> []"
  by (subst itoa.simps) simp

lemma itoa_digits: "list_all is_digit (itoa n)"
proof (induction n rule: itoa.induct)
  case (1 n)
  then show ?case by (subst itoa.simps) simp
qed

lemma all_digits_itoa [simp]: "all_digits (itoa n)"
  by (simp add: all_digits_def itoa_digits)

lemma dec_value_itoa [simp]: "dec_value (itoa n) = n"
proof (induction n rule: itoa.induct)
  case (1 n)
  show ?case
  proof (cases "n < 10")
    case True
    then show ?thesis
      using dec_value_snoc [of "[]" "digit_char n"] by (subst itoa.simps) simp
  next
    case False
    with 1 show ?thesis by (subst itoa.simps) simp
  qed
qed

lemma atoi_itoa: "n \<le> max_int \<Longrightarrow> atoi (itoa n) = Some n"
  by (simp add: atoi_def)

lemma atoi_saturated_itoa: "n \<le> max_int \<Longrightarrow> atoi_saturated (itoa n) = n"
  by (simp add: atoi_saturated_def)

lemma length_itoa_le: "n < 10 ^ k \<Longrightarrow> 0 < k \<Longrightarrow> length (itoa n) \<le> k"
proof (induction n arbitrary: k rule: itoa.induct)
  case (1 n)
  show ?case
  proof (cases "n < 10")
    case True
    with 1 show ?thesis by (subst itoa.simps) simp
  next
    case False
    with 1 have "k \<noteq> 1" by auto
    with \<open>0 < k\<close> obtain j where k: "k = Suc j" "0 < j" by (cases k) auto
    with False 1 have "length (itoa (n div 10)) \<le> j" by simp
    with False k show ?thesis by (subst itoa.simps) simp
  qed
qed

lemma itoa_inject [simp]: "itoa m = itoa n \<longleftrightarrow> m = n"
  by (metis dec_value_itoa)

section \<open>White space\<close>

text \<open>The UTF-8 encodings of the runes for which \<open>unicode.IsSpace\<close> holds.\<close>

definition go_spaces :: "string list" where
  "go_spaces =
     [[CHR 0x09], [CHR 0x0A], [CHR 0x0B], [CHR 0x0C], [CHR 0x0D], [CHR 0x20],
      [CHR 0xC2, CHR 0x85], [CHR 0xC2, CHR 0xA0], [CHR 0xE1, CHR 0x9A, CHR 0x80],
      [CHR 0xE2, CHR 0x80, CHR 0x80], [CHR 0xE2, CHR 0x80, CHR 0x81],
      [CHR 0xE2, CHR 0x80, CHR 0x82], [CHR 0xE2, CHR 0x80, CHR 0x83],
      [CHR 0xE2, CHR 0x80, CHR 0x84], [CHR 0xE2, CHR 0x80, CHR 0x85],
      [CHR 0xE2, CHR 0x80, CHR 0x86], [CHR 0xE2, CHR 0x80, CHR 0x87],
      [CHR 0xE2, CHR 0x80, CHR 0x88], [CHR 0xE2, CHR 0x80, CHR 0x89],
      [CHR 0xE2, CHR 0x80, CHR 0x8A], [CHR 0xE2, CHR 0x80, CHR 0xA8],
      [CHR 0xE2, CHR 0x80, CHR 0xA9], [CHR 0xE2, CHR 0x80, CHR 0xAF],
      [CHR 0xE2, CHR 0x81, CHR 0x9F], [CHR 0xE3, CHR 0x80, CHR 0x80]]"

function strip_any :: "string list \<Rightarrow> string \<Rightarrow> string" where
  "strip_any ps s =
     (case find (\<lambda>p. p \<noteq> [] \<and> prefix p s) ps of
        None \<Rightarrow> s
      | Some p \<Rightarrow> strip_any ps (drop (length p) s))"
  by pat_completeness auto
termination
  by (relation "measure (\<lambda>(ps, s). length s)")
    (auto simp: find_Some_iff prefix_def neq_Nil_conv)

declare strip_any.simps [simp del]

definition trim_space :: "string \<Rightarrow> string" where
  "trim_space s = rev (strip_any (map rev go_spaces) (rev (strip_any go_spaces s)))"

lemma strip_any_fixed:
  "strip_any ps s = s \<longleftrightarrow> (\<forall>p \<in> set ps. p \<noteq> [] \<longrightarrow> \<not> prefix p s)"
proof
  assume fixed: "strip_any ps s = s"
  show "\<forall>p \<in> set ps. p \<noteq> [] \<longrightarrow> \<not> prefix p s"
  proof (rule ccontr)
    assume "\<not> (\<forall>p \<in> set ps. p \<noteq> [] \<longrightarrow> \<not> prefix p s)"
    then have "find (\<lambda>p. p \<noteq> [] \<and> prefix p s) ps \<noteq> None"
      by (auto simp: find_None_iff)
    then obtain p where p: "find (\<lambda>p. p \<noteq> [] \<and> prefix p s) ps = Some p" by auto
    then have "p \<noteq> []" and "prefix p s" by (auto simp: find_Some_iff)
    have shorter: "length (strip_any ps t) \<le> length t" for t
    proof (induction ps t rule: strip_any.induct)
      case (1 ps t)
      show ?case
      proof (cases "find (\<lambda>p. p \<noteq> [] \<and> prefix p t) ps")
        case None
        then show ?thesis by (simp add: strip_any.simps [of ps t])
      next
        case (Some q)
        with 1 have "length (strip_any ps (drop (length q) t)) \<le> length (drop (length q) t)"
          by simp
        with Some show ?thesis by (simp add: strip_any.simps [of ps t])
      qed
    qed
    from p have "strip_any ps s = strip_any ps (drop (length p) s)"
      by (simp add: strip_any.simps [of ps s])
    with fixed shorter [of "drop (length p) s"] have "length s \<le> length (drop (length p) s)"
      by simp
    with \<open>p \<noteq> []\<close> \<open>prefix p s\<close> show False by (auto simp: prefix_def)
  qed
next
  assume "\<forall>p \<in> set ps. p \<noteq> [] \<longrightarrow> \<not> prefix p s"
  then have "find (\<lambda>p. p \<noteq> [] \<and> prefix p s) ps = None"
    by (auto simp: find_None_iff)
  then show "strip_any ps s = s" by (simp add: strip_any.simps)
qed

lemma strip_any_idem [simp]: "strip_any ps (strip_any ps s) = strip_any ps s"
proof (induction ps s rule: strip_any.induct)
  case (1 ps s)
  show ?case
  proof (cases "find (\<lambda>p. p \<noteq> [] \<and> prefix p s) ps")
    case None
    then show ?thesis by (simp add: strip_any.simps [of ps s])
  next
    case (Some p)
    with 1 show ?thesis by (simp add: strip_any.simps [of ps s])
  qed
qed

lemma strip_any_suffix: "suffix (strip_any ps s) s"
proof (induction ps s rule: strip_any.induct)
  case (1 ps s)
  show ?case
  proof (cases "find (\<lambda>p. p \<noteq> [] \<and> prefix p s) ps")
    case None
    then show ?thesis by (simp add: strip_any.simps [of ps s])
  next
    case (Some p)
    with 1 have "suffix (strip_any ps (drop (length p) s)) (drop (length p) s)" by simp
    then have "suffix (strip_any ps (drop (length p) s)) s"
      using suffix_drop suffix_order.trans by blast
    with Some show ?thesis by (simp add: strip_any.simps [of ps s])
  qed
qed

lemma trim_space_fixed:
  "trim_space s = s \<longleftrightarrow>
     (\<forall>p \<in> set go_spaces. \<not> prefix p s \<and> \<not> suffix p s)"
proof -
  have nonempty: "p \<noteq> []" if "p \<in> set go_spaces" for p
    using that by (auto simp: go_spaces_def)
  have len: "length (trim_space s) \<le> length (strip_any go_spaces s)"
    using suffix_length_le [OF strip_any_suffix] by (simp add: trim_space_def) (metis length_rev)
  have "trim_space s = s \<longleftrightarrow>
     strip_any go_spaces s = s \<and> strip_any (map rev go_spaces) (rev s) = rev s"
  proof
    assume t: "trim_space s = s"
    with len have "length s \<le> length (strip_any go_spaces s)" by simp
    with strip_any_suffix [of go_spaces s] have l: "strip_any go_spaces s = s"
      by (auto simp: suffix_def) (metis add_le_same_cancel2 le_zero_eq length_0_conv length_append
          append_Nil)
    with t show "strip_any go_spaces s = s \<and> strip_any (map rev go_spaces) (rev s) = rev s"
      by (simp add: trim_space_def) (metis rev_rev_ident)
  next
    assume "strip_any go_spaces s = s \<and> strip_any (map rev go_spaces) (rev s) = rev s"
    then show "trim_space s = s" by (simp add: trim_space_def)
  qed
  also have "\<dots> \<longleftrightarrow> (\<forall>p \<in> set go_spaces. \<not> prefix p s \<and> \<not> suffix p s)"
    using nonempty by (auto simp: strip_any_fixed suffix_to_prefix)
  finally show ?thesis .
qed

lemma trim_space_idem [simp]: "trim_space (trim_space s) = trim_space s"
proof -
  define u where "u = strip_any go_spaces s"
  define t where "t = rev (strip_any (map rev go_spaces) (rev u))"
  have "strip_any go_spaces u = u" by (simp add: u_def)
  moreover have "prefix t u"
    using strip_any_suffix [of "map rev go_spaces" "rev u"]
    by (simp add: t_def suffix_to_prefix)
  ultimately have "strip_any go_spaces t = t"
    unfolding strip_any_fixed by (meson prefix_order.trans)
  then have "trim_space t = t"
    by (simp add: trim_space_def) (simp add: t_def)
  then show ?thesis by (simp add: trim_space_def t_def u_def)
qed

text \<open>A string that begins and ends with a byte that no white-space rune uses is trimmed.\<close>

definition space_byte :: "char \<Rightarrow> bool" where
  "space_byte c \<longleftrightarrow> (\<exists>p \<in> set go_spaces. c \<in> set p)"

lemma space_byte_code [code]:
  "space_byte c \<longleftrightarrow> list_ex (\<lambda>p. List.member p c) go_spaces"
  by (auto simp: space_byte_def list_ex_iff)

lemma space_byte_range:
  assumes "space_byte c"
  shows "byte c \<le> 32 \<or> 128 \<le> byte c"
proof -
  have "\<forall>p \<in> set go_spaces. \<forall>c \<in> set p. byte c \<le> 32 \<or> 128 \<le> byte c" by code_simp
  with assms show ?thesis unfolding space_byte_def by blast
qed

lemma trim_space_sublist: "sublist (trim_space s) s"
proof -
  have "suffix (strip_any (map rev go_spaces) (rev (strip_any go_spaces s))) (rev (strip_any go_spaces s))"
    by (rule strip_any_suffix)
  then have "prefix (trim_space s) (strip_any go_spaces s)"
    unfolding trim_space_def by (metis rev_rev_ident suffix_to_prefix)
  moreover have "suffix (strip_any go_spaces s) s" by (rule strip_any_suffix)
  ultimately show ?thesis by (metis prefix_imp_sublist sublist_order.order_trans suffix_imp_sublist)
qed

lemma trim_space_clean:
  assumes "s = [] \<or> \<not> space_byte (hd s) \<and> \<not> space_byte (last s)"
  shows "trim_space s = s"
  unfolding trim_space_fixed
proof (intro ballI conjI notI)
  fix p assume p: "p \<in> set go_spaces"
  then have "p \<noteq> []" by (auto simp: go_spaces_def)
  { assume "prefix p s"
    with \<open>p \<noteq> []\<close> have "s \<noteq> []" and "hd s \<in> set p"
      by (auto simp: prefix_def)
    with assms p show False by (auto simp: space_byte_def)
  next
    assume "suffix p s"
    with \<open>p \<noteq> []\<close> have "s \<noteq> []" and "last s \<in> set p"
      by (auto simp: suffix_def)
    with assms p show False by (auto simp: space_byte_def) }
qed

end
