(* ===== verification/Go_Text.thy ===== *)
theory Go_Text
  imports Go_Base
begin

text \<open>
  The second half of the prelude: case mapping, splitting, UTF-8, and the contract of a text
  codec, the interface behind every value the sources parse, normalise and print back.
\<close>

section \<open>Case mapping\<close>

definition lower_char :: "char \<Rightarrow> char" where
  "lower_char c = (if is_upper c then char_of (byte c + 32) else c)"

fun to_lower :: "string \<Rightarrow> string" where
  "to_lower [] = []"
| "to_lower (c # s) =
     (if c = CHR 0xC4 \<and> prefix [CHR 0xB0] s then CHR ''i'' # to_lower (drop 1 s)
      else if c = CHR 0xE2 \<and> prefix [CHR 0x84, CHR 0xAA] s then CHR ''k'' # to_lower (drop 2 s)
      else lower_char c # to_lower s)"

fun fold_case :: "string \<Rightarrow> string" where
  "fold_case [] = []"
| "fold_case (c # s) =
     (if c = CHR 0xC5 \<and> prefix [CHR 0xBF] s then CHR ''s'' # fold_case (drop 1 s)
      else if c = CHR 0xE2 \<and> prefix [CHR 0x84, CHR 0xAA] s then CHR ''k'' # fold_case (drop 2 s)
      else lower_char c # fold_case s)"

definition equal_fold :: "string \<Rightarrow> string \<Rightarrow> bool" where
  "equal_fold s t \<longleftrightarrow> fold_case s = fold_case t"

text \<open>The composition that most validators apply to a user-supplied value.\<close>

definition normalize :: "string \<Rightarrow> string" where
  "normalize s = to_lower (trim_space s)"

lemma lower_char_ascii [simp]: "is_ascii (lower_char c) \<longleftrightarrow> is_ascii c"
  by (auto simp: lower_char_def is_upper_def is_ascii_def byte_char_of)

lemma lower_char_fixed: "\<not> is_upper c \<Longrightarrow> lower_char c = c"
  by (simp add: lower_char_def)

lemma not_upper_lower_char [simp]: "\<not> is_upper (lower_char c)"
  by (auto simp: lower_char_def is_upper_def byte_char_of)

lemma ascii_not_lead:
  "is_ascii c \<Longrightarrow> c \<noteq> CHR 0xC4 \<and> c \<noteq> CHR 0xE2 \<and> c \<noteq> CHR 0xC5"
  by (auto simp: is_ascii_def byte_def)

lemma to_lower_ascii: "list_all is_ascii s \<Longrightarrow> to_lower s = map lower_char s"
  by (induction s) (auto dest: ascii_not_lead)

lemma fold_case_ascii: "list_all is_ascii s \<Longrightarrow> fold_case s = map lower_char s"
  by (induction s) (auto dest: ascii_not_lead)

lemma to_lower_fixed:
  assumes "list_all (\<lambda>c. is_ascii c \<and> \<not> is_upper c) s"
  shows "to_lower s = s"
proof -
  have "to_lower s = map lower_char s"
    using assms by (intro to_lower_ascii) (simp add: list_all_iff)
  with assms show ?thesis by (simp add: list_all_iff map_idI lower_char_fixed)
qed

text \<open>Normalising twice changes nothing: lower-casing creates only letters, so it makes neither
  white space at the ends nor a rune that lower-cases again.\<close>

definition letter_free :: "string \<Rightarrow> bool" where
  "letter_free p \<longleftrightarrow> (\<forall>c \<in> set p. byte c \<le> 32 \<or> 128 \<le> byte c)"

lemma lower_letter_free: "byte c \<le> 32 \<or> 128 \<le> byte c \<Longrightarrow> lower_char d = c \<Longrightarrow> d = c"
  by (auto simp: lower_char_def is_upper_def byte_char_of split: if_splits)

lemma letter_free_Cons: "letter_free (a # p) \<longleftrightarrow> (byte a \<le> 32 \<or> 128 \<le> byte a) \<and> letter_free p"
  by (auto simp: letter_free_def)

lemma prefix_to_lower: "letter_free p \<Longrightarrow> prefix p (to_lower s) \<Longrightarrow> prefix p s"
proof (induction s arbitrary: p rule: to_lower.induct)
  case (2 c s)
  have ik: "byte (CHR ''i'') = 105" "byte (CHR ''k'') = 107" by (simp_all add: byte_def)
  show ?case
  proof (cases p)
    case (Cons a p')
    with 2(4) have a: "byte a \<le> 32 \<or> 128 \<le> byte a" "letter_free p'" by (simp_all add: letter_free_Cons)
    with ik have "a \<noteq> CHR ''i''" "a \<noteq> CHR ''k''" by auto
    with 2(5) Cons have n: "\<not> (c = CHR 0xC4 \<and> prefix [CHR 0xB0] s)"
      "\<not> (c = CHR 0xE2 \<and> prefix [CHR 0x84, CHR 0xAA] s)" and rest: "lower_char c = a" "prefix p' (to_lower s)"
      by (auto split: if_splits)
    have "prefix p' s" by (rule 2(3) [OF n a(2) rest(2)])
    with Cons lower_letter_free [OF a(1) rest(1)] show ?thesis by simp
  qed simp
qed simp

lemma to_lower_letter_free: "letter_free (to_lower s) \<Longrightarrow> to_lower s = s"
proof (induction s rule: to_lower.induct)
  case (2 c s)
  have ik: "byte (CHR ''i'') = 105" "byte (CHR ''k'') = 107" by (simp_all add: byte_def)
  from 2(4) ik have n: "\<not> (c = CHR 0xC4 \<and> prefix [CHR 0xB0] s)"
    "\<not> (c = CHR 0xE2 \<and> prefix [CHR 0x84, CHR 0xAA] s)"
    by (auto simp: letter_free_Cons)
  with 2(4) have "byte (lower_char c) \<le> 32 \<or> 128 \<le> byte (lower_char c)" "letter_free (to_lower s)"
    by (auto simp: letter_free_Cons split: if_splits)
  with 2(3) n lower_letter_free [of "lower_char c" c] show ?case by auto
qed simp

lemma suffix_to_lower: "letter_free p \<Longrightarrow> suffix p (to_lower s) \<Longrightarrow> suffix p s"
proof (induction s rule: to_lower.induct)
  case (2 c s)
  show ?case
  proof (cases "p = to_lower (c # s)")
    case True
    with 2(4) to_lower_letter_free [of "c # s"] show ?thesis by simp
  next
    case False
    have tails: "suffix (drop k s) (c # s)" for k
      using suffix_drop [of k s] by (auto simp: suffix_Cons)
    from False 2 show ?thesis
      by (auto simp: suffix_Cons split: if_splits dest: suffix_order.trans [OF _ suffix_drop])
  qed
qed simp

lemma to_lower_again: "to_lower (to_lower s) = to_lower s"
proof (induction s rule: to_lower.induct)
  case (2 c s)
  have one: "letter_free [CHR 0xB0]" "letter_free [CHR 0x84, CHR 0xAA]" by (simp_all add: letter_free_def byte_def)
  have lead: "lower_char c = CHR 0xC4 \<Longrightarrow> c = CHR 0xC4" "lower_char c = CHR 0xE2 \<Longrightarrow> c = CHR 0xE2"
    by (rule lower_letter_free [of _ c]; simp add: byte_def)+
  have fixed: "lower_char (CHR ''i'') = CHR ''i''" "lower_char (CHR ''k'') = CHR ''k''"
    "lower_char (lower_char c) = lower_char c"
    by (simp_all add: lower_char_fixed) (simp_all add: lower_char_def is_upper_def byte_def)
  show ?case
    using 2 lead fixed prefix_to_lower [OF one(1), of s] prefix_to_lower [OF one(2), of s] by auto
qed simp

lemma go_spaces_letter_free: "p \<in> set go_spaces \<Longrightarrow> letter_free p"
  using space_byte_range by (auto simp: letter_free_def space_byte_def)

lemma normalize_again: "normalize (normalize s) = normalize s"
proof -
  have "trim_space (trim_space s) = trim_space s" by simp
  then have "trim_space (to_lower (trim_space s)) = to_lower (trim_space s)"
    unfolding trim_space_fixed
    using prefix_to_lower [OF go_spaces_letter_free] suffix_to_lower [OF go_spaces_letter_free] by blast
  then show ?thesis by (simp add: normalize_def to_lower_again)
qed

lemma equal_fold_refl [simp]: "equal_fold s s"
  by (simp add: equal_fold_def)

lemma equal_fold_sym: "equal_fold s t \<longleftrightarrow> equal_fold t s"
  by (auto simp: equal_fold_def)

lemma equal_fold_trans: "equal_fold s t \<Longrightarrow> equal_fold t u \<Longrightarrow> equal_fold s u"
  by (simp add: equal_fold_def)

section \<open>Splitting and searching\<close>

fun split_on :: "char \<Rightarrow> string \<Rightarrow> string list" where
  "split_on c [] = [[]]"
| "split_on c (x # xs) =
     (if x = c then [] # split_on c xs
      else case split_on c xs of [] \<Rightarrow> [[x]] | p # ps \<Rightarrow> (x # p) # ps)"

fun join_with :: "string \<Rightarrow> string list \<Rightarrow> string" where
  "join_with sep [] = []"
| "join_with sep [p] = p"
| "join_with sep (p # q # ps) = p @ sep @ join_with sep (q # ps)"

text \<open>\<open>strings.Cut\<close> with a one-byte separator: before, after, found.\<close>

definition cut_at :: "char \<Rightarrow> string \<Rightarrow> string \<times> string \<times> bool" where
  "cut_at c s =
     (if c \<in> set s then (takeWhile (\<lambda>x. x \<noteq> c) s, tl (dropWhile (\<lambda>x. x \<noteq> c) s), True)
      else (s, [], False))"

definition contains_any :: "string \<Rightarrow> string \<Rightarrow> bool" where
  "contains_any s cs \<longleftrightarrow> list_ex (\<lambda>c. List.member cs c) s"

lemma contains_any_iff: "contains_any s cs \<longleftrightarrow> set s \<inter> set cs \<noteq> {}"
  by (auto simp: contains_any_def list_ex_iff)

lemma split_on_nonempty [simp]: "split_on c s \<noteq> []"
  by (induction s) (auto split: list.splits)

lemma split_on_no_sep: "p \<in> set (split_on c s) \<Longrightarrow> c \<notin> set p"
  by (induction s arbitrary: p) (auto split: list.splits if_splits)

lemma join_split [simp]: "join_with [c] (split_on c s) = s"
proof (induction s)
  case Nil
  then show ?case by simp
next
  case (Cons x xs)
  obtain p ps where ps: "split_on c xs = p # ps"
    by (cases "split_on c xs") auto
  with Cons show ?case by (cases ps) auto
qed

lemma split_on_free: "c \<notin> set s \<Longrightarrow> split_on c s = [s]"
  by (induction s) auto

lemma split_on_append:
  "c \<notin> set p \<Longrightarrow> split_on c (p @ c # s) = p # split_on c s"
  by (induction p) auto

lemma split_join:
  "ps \<noteq> [] \<Longrightarrow> \<forall>p \<in> set ps. c \<notin> set p \<Longrightarrow> split_on c (join_with [c] ps) = ps"
  by (induction "[c]" ps rule: join_with.induct) (auto simp: split_on_free split_on_append)

lemma set_join_with: "(\<Union>p \<in> set ps. set p) \<subseteq> set (join_with sep ps)"
  by (induction sep ps rule: join_with.induct) auto

lemma set_split_on: "p \<in> set (split_on c s) \<Longrightarrow> set p \<subseteq> set s"
  using set_join_with [of "split_on c s" "[c]"] by auto

lemma split_on_chars: "(\<Union>p \<in> set (split_on c s). set p) \<subseteq> set s"
  using set_split_on by blast

lemma cut_at_found: "cut_at c s = (a, b, True) \<longleftrightarrow> c \<notin> set a \<and> s = a @ c # b"
proof
  assume "cut_at c s = (a, b, True)"
  then have c: "c \<in> set s" and a: "a = takeWhile (\<lambda>x. x \<noteq> c) s"
    and b: "b = tl (dropWhile (\<lambda>x. x \<noteq> c) s)"
    by (auto simp: cut_at_def split: if_splits)
  from c have "dropWhile (\<lambda>x. x \<noteq> c) s \<noteq> []" by (auto simp: dropWhile_eq_Nil_conv)
  moreover from this have "hd (dropWhile (\<lambda>x. x \<noteq> c) s) = c"
    using hd_dropWhile by blast
  ultimately have "dropWhile (\<lambda>x. x \<noteq> c) s = c # b"
    using b by (metis list.collapse)
  then show "c \<notin> set a \<and> s = a @ c # b"
    using a set_takeWhileD by (metis takeWhile_dropWhile_id)
next
  assume "c \<notin> set a \<and> s = a @ c # b"
  then show "cut_at c s = (a, b, True)"
    by (auto simp: cut_at_def takeWhile_append2 dropWhile_append2 takeWhile_append dropWhile_append)
qed

lemma cut_at_missing: "cut_at c s = (a, b, False) \<longleftrightarrow> c \<notin> set s \<and> a = s \<and> b = []"
  by (auto simp: cut_at_def)

section \<open>UTF-8\<close>

definition is_cont :: "char \<Rightarrow> bool" where
  "is_cont c \<longleftrightarrow> 128 \<le> byte c \<and> byte c < 192"

text \<open>
  \<open>utf8.DecodeRuneInString\<close>: the rune and its width. An invalid encoding is \<open>None\<close>
  of width one, which Go writes as the pair \<open>(utf8.RuneError, 1)\<close>.
\<close>

fun decode_rune :: "string \<Rightarrow> nat option \<times> nat" where
  "decode_rune [] = (None, 0)"
| "decode_rune (c # s) =
     (let b = byte c in
      if b < 128 then (Some b, 1)
      else if 194 \<le> b \<and> b < 224 then
        (case s of
           c1 # _ \<Rightarrow>
             if is_cont c1 then (Some ((b - 192) * 64 + (byte c1 - 128)), 2) else (None, 1)
         | [] \<Rightarrow> (None, 1))
      else if 224 \<le> b \<and> b < 240 then
        (case s of
           c1 # c2 # _ \<Rightarrow>
             if is_cont c1 \<and> is_cont c2 \<and> (b = 224 \<longrightarrow> 160 \<le> byte c1) \<and> (b = 237 \<longrightarrow> byte c1 < 160)
             then (Some ((b - 224) * 4096 + (byte c1 - 128) * 64 + (byte c2 - 128)), 3)
             else (None, 1)
         | _ \<Rightarrow> (None, 1))
      else if 240 \<le> b \<and> b < 245 then
        (case s of
           c1 # c2 # c3 # _ \<Rightarrow>
             if is_cont c1 \<and> is_cont c2 \<and> is_cont c3 \<and>
                (b = 240 \<longrightarrow> 144 \<le> byte c1) \<and> (b = 244 \<longrightarrow> byte c1 < 144)
             then (Some ((b - 240) * 262144 + (byte c1 - 128) * 4096 + (byte c2 - 128) * 64
                    + (byte c3 - 128)), 4)
             else (None, 1)
         | _ \<Rightarrow> (None, 1))
      else (None, 1))"

declare decode_rune.simps(2) [simp del]

text \<open>The runes of \<open>for _, r := range s\<close>, each with its width.\<close>

function runes :: "string \<Rightarrow> (nat option \<times> nat) list" where
  "runes s =
     (if s = [] then []
      else decode_rune s # runes (drop (max 1 (snd (decode_rune s))) s))"
  by pat_completeness auto
termination
  by (relation "measure length") auto

declare runes.simps [simp del]

definition utf8_valid :: "string \<Rightarrow> bool" where
  "utf8_valid s \<longleftrightarrow> list_all (\<lambda>r. fst r \<noteq> None) (runes s)"

text \<open>The coercion of invalid bytes to U+FFFD that \<open>encoding/json\<close> applies to the strings it
  writes.\<close>

function coerce_utf8 :: "string \<Rightarrow> string" where
  "coerce_utf8 s =
     (if s = [] then []
      else (case decode_rune s of
              (None, n) \<Rightarrow> [CHR 0xEF, CHR 0xBF, CHR 0xBD] @ coerce_utf8 (drop (max 1 n) s)
            | (Some _, n) \<Rightarrow> take (max 1 n) s @ coerce_utf8 (drop (max 1 n) s)))"
  by pat_completeness auto
termination
  by (relation "measure length") auto

declare coerce_utf8.simps [simp del]

definition is_control :: "nat \<Rightarrow> bool" where
  "is_control r \<longleftrightarrow> r < 32 \<or> (127 \<le> r \<and> r < 160)"

definition has_control :: "string \<Rightarrow> bool" where
  "has_control s \<longleftrightarrow> list_ex (\<lambda>r. case fst r of None \<Rightarrow> False | Some x \<Rightarrow> is_control x) (runes s)"

lemma runes_ascii: "list_all is_ascii s \<Longrightarrow> runes s = map (\<lambda>c. (Some (byte c), 1)) s"
proof (induction s)
  case Nil
  then show ?case by (simp add: runes.simps)
next
  case (Cons c s)
  then have "decode_rune (c # s) = (Some (byte c), 1)"
    by (simp add: decode_rune.simps is_ascii_def)
  with Cons show ?case by (subst runes.simps) simp
qed

lemma utf8_valid_ascii: "list_all is_ascii s \<Longrightarrow> utf8_valid s"
  by (auto simp: utf8_valid_def runes_ascii list_all_iff)

lemma coerce_utf8_valid: "utf8_valid s \<Longrightarrow> coerce_utf8 s = s"
proof (induction s rule: runes.induct)
  case (1 s)
  show ?case
  proof (cases "s = []")
    case False
    obtain r n where d: "decode_rune s = (r, n)" by (cases "decode_rune s")
    with 1(2) False have "r \<noteq> None" "utf8_valid (drop (max 1 n) s)"
      by (auto simp: utf8_valid_def runes.simps [of s])
    with 1(1) [OF False] d have "coerce_utf8 (drop (max 1 n) s) = drop (max 1 n) s" by simp
    with d \<open>r \<noteq> None\<close> show ?thesis by (subst coerce_utf8.simps) auto
  qed (simp add: coerce_utf8.simps)
qed

lemma has_control_ascii:
  "list_all is_ascii s \<Longrightarrow> has_control s \<longleftrightarrow> list_ex (\<lambda>c. byte c < 32 \<or> byte c = 127) s"
proof (induction s)
  case Nil
  then show ?case by (simp add: has_control_def runes.simps)
next
  case (Cons c s)
  then have "has_control (c # s) \<longleftrightarrow> is_control (byte c) \<or> has_control s"
    by (simp add: has_control_def runes_ascii)
  with Cons show ?case by (auto simp: is_control_def is_ascii_def)
qed

section \<open>The contract of a text codec\<close>

text \<open>
  Several components keep a value in its printed form and parse it again at the next trust
  boundary. What they rely on is one contract: printing a well-formed value and parsing it
  gives the value back, and parsing yields well-formed values only. From it follows what the
  clients need: printing is injective, and normalising a text (parse, then print) is
  idempotent and keeps the meaning.
\<close>

locale text_codec =
  fixes parse :: "string \<Rightarrow> 'a option"
    and print :: "'a \<Rightarrow> string"
    and wf :: "'a \<Rightarrow> bool"
  assumes parse_print: "wf a \<Longrightarrow> parse (print a) = Some a"
    and parse_wf: "parse s = Some a \<Longrightarrow> wf a"
begin

lemma print_inj: "wf a \<Longrightarrow> wf b \<Longrightarrow> print a = print b \<Longrightarrow> a = b"
  by (metis parse_print option.inject)

lemma normalize_meaning: "parse s = Some a \<Longrightarrow> parse (print a) = Some a"
  using parse_print parse_wf by blast

lemma normalize_idem:
  "map_option print (parse s) = Some t \<Longrightarrow> map_option print (parse t) = Some t"
  using normalize_meaning by auto

lemma normalize_eq_iff:
  "parse s = Some a \<Longrightarrow> parse t = Some b \<Longrightarrow> print a = print b \<longleftrightarrow> a = b"
  using print_inj parse_wf by blast

end

interpretation decimal: text_codec atoi itoa "\<lambda>n. n \<le> max_int"
  by unfold_locales (auto simp: atoi_itoa atoi_def split: if_splits)

end
