(* ===== verification/Release_Version.thy ===== *)
theory Release_Version
  imports Go_Text
begin

text \<open>
  \<open>internal/releaseversion\<close>: the recogniser for v-prefixed Semantic Versions that gates
  release tooling, and the grammar it decides.
\<close>

section \<open>The recogniser\<close>

definition ident_char :: "char \<Rightarrow> bool" where
  "ident_char c \<longleftrightarrow> is_digit c \<or> is_upper c \<or> is_lower c \<or> c = CHR ''-''"

definition valid_identifier :: "bool \<Rightarrow> string \<Rightarrow> bool" where
  "valid_identifier reject s \<longleftrightarrow>
     s \<noteq> [] \<and> list_all ident_char s \<and>
     \<not> (reject \<and> list_all is_digit s \<and> 1 < length s \<and> hd s = CHR ''0'')"

definition valid_identifiers :: "string \<Rightarrow> bool \<Rightarrow> bool" where
  "valid_identifiers value reject = list_all (valid_identifier reject) (split_on (CHR ''.'') value)"

definition valid_numeric_identifier :: "string \<Rightarrow> bool" where
  "valid_numeric_identifier s \<longleftrightarrow>
     \<not> (s = [] \<or> 1 < length s \<and> hd s = CHR ''0'') \<and> list_all is_digit s"

definition valid_version :: "string \<Rightarrow> bool" where
  "valid_version v =
     (if length v < 2 \<or> hd v \<noteq> CHR ''v'' then False
      else
        (case cut_at (CHR ''+'') (tl v) of (core_and_pre, build, has_build) \<Rightarrow>
           if has_build \<and> \<not> valid_identifiers build False then False
           else
             (case cut_at (CHR ''-'') core_and_pre of (core, pre, has_pre) \<Rightarrow>
                if has_pre \<and> \<not> valid_identifiers pre True then False
                else
                  (let parts = split_on (CHR ''.'') core
                   in length parts = 3 \<and> list_all valid_numeric_identifier parts))))"

section \<open>The grammar\<close>

text \<open>
  The productions of Semantic Versioning 2.0.0, written down from its grammar and not from the
  code: the characters are listed, an identifier with a letter or a hyphen is alphanumeric, and
  only an identifier of digits can be a number.
\<close>

definition positive_digits :: "char set" where
  "positive_digits = set ''123456789''"

definition decimal_digits :: "char set" where
  "decimal_digits = set ''0123456789''"

definition non_digits :: "char set" where
  "non_digits = set ''ABCDEFGHIJKLMNOPQRSTUVWXYZabcdefghijklmnopqrstuvwxyz-''"

inductive numeric_identifier :: "string \<Rightarrow> bool" where
  zero: "numeric_identifier ''0''"
| positive: "d \<in> positive_digits \<Longrightarrow> set ds \<subseteq> decimal_digits \<Longrightarrow> numeric_identifier (d # ds)"

inductive alphanumeric_identifier :: "string \<Rightarrow> bool" where
  "c \<in> non_digits \<Longrightarrow> set s \<subseteq> decimal_digits \<union> non_digits \<Longrightarrow> set t \<subseteq> decimal_digits \<union> non_digits \<Longrightarrow>
     alphanumeric_identifier (s @ c # t)"

inductive prerelease_identifier :: "string \<Rightarrow> bool" where
  alphanumeric: "alphanumeric_identifier s \<Longrightarrow> prerelease_identifier s"
| numeric: "numeric_identifier s \<Longrightarrow> prerelease_identifier s"

inductive build_identifier :: "string \<Rightarrow> bool" where
  alphanumeric: "alphanumeric_identifier s \<Longrightarrow> build_identifier s"
| digits: "s \<noteq> [] \<Longrightarrow> set s \<subseteq> decimal_digits \<Longrightarrow> build_identifier s"

inductive dot_separated :: "(string \<Rightarrow> bool) \<Rightarrow> string \<Rightarrow> bool" for P where
  one: "P i \<Longrightarrow> dot_separated P i"
| more: "P i \<Longrightarrow> dot_separated P s \<Longrightarrow> dot_separated P (i @ ''.'' @ s)"

inductive version_core :: "string \<Rightarrow> bool" where
  "numeric_identifier a \<Longrightarrow> numeric_identifier b \<Longrightarrow> numeric_identifier c \<Longrightarrow>
     version_core (a @ ''.'' @ b @ ''.'' @ c)"

inductive semantic_version :: "string \<Rightarrow> bool" where
  core: "version_core s \<Longrightarrow> semantic_version s"
| prerelease: "version_core s \<Longrightarrow> dot_separated prerelease_identifier p \<Longrightarrow> semantic_version (s @ ''-'' @ p)"
| build: "version_core s \<Longrightarrow> dot_separated build_identifier b \<Longrightarrow> semantic_version (s @ ''+'' @ b)"
| both: "version_core s \<Longrightarrow> dot_separated prerelease_identifier p \<Longrightarrow> dot_separated build_identifier b \<Longrightarrow>
    semantic_version (s @ ''-'' @ p @ ''+'' @ b)"

section \<open>Identifiers\<close>

lemma byte_list_member: "map char_of ns = s \<Longrightarrow> \<forall>n \<in> set ns. n < 256 \<Longrightarrow> c \<in> set s \<longleftrightarrow> byte c \<in> set ns"
proof -
  assume s: "map char_of ns = s" and small: "\<forall>n \<in> set ns. n < 256"
  have "c = char_of (byte c)" by (simp add: byte_def)
  moreover have "n = byte (char_of n)" if "n \<in> set ns" for n using that small byte_char_of by metis
  ultimately show ?thesis unfolding s [symmetric] set_map image_iff by metis
qed

lemma digit_bytes:
  "c \<in> decimal_digits \<longleftrightarrow> byte c \<in> set [48..<58]"
  "c \<in> positive_digits \<longleftrightarrow> byte c \<in> set [49..<58]"
  "c \<in> non_digits \<longleftrightarrow> byte c \<in> set ([65..<91] @ [97..<123] @ [45])"
  "c \<in> set ''-'' \<longleftrightarrow> byte c \<in> set [45]"
  "c \<in> set ''0'' \<longleftrightarrow> byte c \<in> set [48]"
  unfolding decimal_digits_def positive_digits_def non_digits_def
  by (rule byte_list_member; code_simp)+

lemmas digit_ranges = digit_bytes [unfolded set_append set_upt Un_iff atLeastLessThan_iff]

lemma decimal_digits_iff: "c \<in> decimal_digits \<longleftrightarrow> is_digit c"
  by (auto simp: digit_ranges is_digit_def)

lemma positive_digits_iff: "c \<in> positive_digits \<longleftrightarrow> is_digit c \<and> c \<noteq> CHR ''0''"
proof -
  have "c = CHR ''0'' \<longleftrightarrow> byte c = 48" using digit_bytes(5) [of c] by simp
  then show ?thesis by (auto simp: digit_ranges is_digit_def)
qed

lemma non_digits_iff: "c \<in> non_digits \<longleftrightarrow> ident_char c \<and> \<not> is_digit c"
proof -
  have "c = CHR ''-'' \<longleftrightarrow> byte c = 45" using digit_bytes(4) [of c] by simp
  then show ?thesis by (auto simp: digit_ranges ident_char_def is_digit_def is_upper_def is_lower_def)
qed

lemma ident_char_split: "c \<in> decimal_digits \<union> non_digits \<longleftrightarrow> ident_char c"
  by (auto simp: decimal_digits_iff non_digits_iff ident_char_def)

lemma numeric_identifier_iff: "numeric_identifier s \<longleftrightarrow> valid_numeric_identifier s"
proof
  assume "numeric_identifier s"
  then show "valid_numeric_identifier s"
  proof cases
    case zero
    then show ?thesis by (simp add: valid_numeric_identifier_def is_digit_def byte_def)
  next
    case (positive d ds)
    then show ?thesis
      by (auto simp: valid_numeric_identifier_def positive_digits_iff list_all_iff decimal_digits_iff subset_iff)
  qed
next
  assume v: "valid_numeric_identifier s"
  then obtain d ds where s: "s = d # ds" "is_digit d" "set ds \<subseteq> decimal_digits"
    by (cases s) (auto simp: valid_numeric_identifier_def list_all_iff decimal_digits_iff subset_iff)
  show "numeric_identifier s"
  proof (cases "d = CHR ''0''")
    case True
    with v s(1) have "ds = []" by (auto simp: valid_numeric_identifier_def)
    with True s(1) show ?thesis by (simp add: numeric_identifier.zero)
  qed (use s positive_digits_iff in \<open>auto intro: numeric_identifier.positive\<close>)
qed

lemma alphanumeric_identifier_iff:
  "alphanumeric_identifier s \<longleftrightarrow> list_all ident_char s \<and> \<not> list_all is_digit s"
proof
  assume "alphanumeric_identifier s"
  then show "list_all ident_char s \<and> \<not> list_all is_digit s"
  proof cases
    case (1 c a b)
    then have "list_all ident_char a" "list_all ident_char b" "ident_char c" "\<not> is_digit c"
      by (simp_all only: list_all_iff subset_iff ident_char_split non_digits_iff) blast+
    with 1 show ?thesis by simp
  qed
next
  assume chars: "list_all ident_char s \<and> \<not> list_all is_digit s"
  then obtain c where c: "c \<in> set s" "\<not> is_digit c" by (auto simp: list_all_iff)
  then obtain a b where "s = a @ c # b" by (auto simp: in_set_conv_decomp)
  with chars c have "c \<in> non_digits" "set a \<subseteq> decimal_digits \<union> non_digits" "set b \<subseteq> decimal_digits \<union> non_digits"
    unfolding subset_iff ident_char_split by (simp_all add: list_all_iff non_digits_iff)
  with \<open>s = a @ c # b\<close> show "alphanumeric_identifier s" by (simp add: alphanumeric_identifier.intros)
qed

lemma digits_are_identifiers: "list_all is_digit s \<Longrightarrow> list_all ident_char s"
  by (auto simp: list_all_iff ident_char_def)

lemma valid_identifier_iff:
  "valid_identifier True s \<longleftrightarrow> prerelease_identifier s"
  "valid_identifier False s \<longleftrightarrow> build_identifier s"
proof -
  have empty: "\<not> alphanumeric_identifier []" by (simp add: alphanumeric_identifier_iff)
  show "valid_identifier True s \<longleftrightarrow> prerelease_identifier s"
    unfolding prerelease_identifier.simps alphanumeric_identifier_iff numeric_identifier_iff
    using digits_are_identifiers [of s] by (auto simp: valid_identifier_def valid_numeric_identifier_def)
  show "valid_identifier False s \<longleftrightarrow> build_identifier s"
    unfolding build_identifier.simps alphanumeric_identifier_iff
    using digits_are_identifiers [of s] by (auto simp: valid_identifier_def list_all_iff decimal_digits_iff subset_iff)
qed

section \<open>The recogniser decides the grammar\<close>

lemma identifier_chars:
  "valid_identifier r s \<Longrightarrow> CHR ''.'' \<notin> set s \<and> CHR ''+'' \<notin> set s"
  by (auto simp: valid_identifier_def list_all_iff ident_char_def is_digit_def is_upper_def
      is_lower_def byte_def)

lemma numeric_chars:
  "valid_numeric_identifier s \<Longrightarrow> CHR ''.'' \<notin> set s \<and> CHR ''+'' \<notin> set s \<and> CHR ''-'' \<notin> set s"
  by (auto simp: valid_numeric_identifier_def list_all_iff is_digit_def byte_def)

lemma dot_separated_iff:
  assumes "\<And>i. P i \<Longrightarrow> CHR ''.'' \<notin> set i"
  shows "dot_separated P s \<longleftrightarrow> list_all P (split_on (CHR ''.'') s)"
proof
  assume "dot_separated P s"
  then show "list_all P (split_on (CHR ''.'') s)"
  proof induction
    case (one i)
    with split_join [of "[i]" "CHR ''.''"] assms show ?case by auto
  next
    case (more i s)
    with assms [OF more(1)] show ?case by (simp add: split_on_append)
  qed
next
  have join: "dot_separated P (join_with ''.'' ids)" if "ids \<noteq> []" "list_all P ids" for ids
    using that
    by (induction "''.''" ids rule: join_with.induct)
       (auto intro: dot_separated.one dot_separated.more [of P _ "join_with _ _", unfolded append_Cons append_Nil])
  assume "list_all P (split_on (CHR ''.'') s)"
  with join [of "split_on (CHR ''.'') s"] show "dot_separated P s" by simp
qed

lemma valid_identifiers_iff:
  "valid_identifiers s True \<longleftrightarrow> dot_separated prerelease_identifier s"
  "valid_identifiers s False \<longleftrightarrow> dot_separated build_identifier s"
proof -
  have preds: "prerelease_identifier = valid_identifier True" "build_identifier = valid_identifier False"
    by (simp_all add: fun_eq_iff valid_identifier_iff)
  show "valid_identifiers s True \<longleftrightarrow> dot_separated prerelease_identifier s"
    "valid_identifiers s False \<longleftrightarrow> dot_separated build_identifier s"
    unfolding valid_identifiers_def preds using identifier_chars by (simp_all add: dot_separated_iff)
qed

lemma version_core_iff:
  "version_core s \<longleftrightarrow>
     length (split_on (CHR ''.'') s) = 3 \<and> list_all valid_numeric_identifier (split_on (CHR ''.'') s)"
proof
  assume "version_core s"
  then obtain a b c where s: "s = join_with ''.'' [a, b, c]"
    and n: "list_all valid_numeric_identifier [a, b, c]"
    by cases (auto simp: numeric_identifier_iff)
  from n have "split_on (CHR ''.'') s = [a, b, c]" unfolding s by (intro split_join) (auto dest: numeric_chars)
  with n show "length (split_on (CHR ''.'') s) = 3 \<and> list_all valid_numeric_identifier (split_on (CHR ''.'') s)"
    by simp
next
  assume "length (split_on (CHR ''.'') s) = 3 \<and> list_all valid_numeric_identifier (split_on (CHR ''.'') s)"
  moreover from this obtain a b c where "split_on (CHR ''.'') s = [a, b, c]"
    by (auto simp: numeral_3_eq_3 length_Suc_conv)
  moreover have "s = join_with ''.'' (split_on (CHR ''.'') s)" by simp
  ultimately show "version_core s"
    using version_core.intros [of a b c] by (simp add: numeric_identifier_iff)
qed

lemma version_core_chars: "version_core s \<Longrightarrow> CHR ''+'' \<notin> set s \<and> CHR ''-'' \<notin> set s"
  by (auto elim!: version_core.cases dest!: numeric_chars simp: numeric_identifier_iff)

lemma prerelease_chars: "dot_separated prerelease_identifier s \<Longrightarrow> CHR ''+'' \<notin> set s"
  by (induction rule: dot_separated.induct) (auto dest: identifier_chars simp: valid_identifier_iff [symmetric])

lemma accepted_is_semantic:
  assumes "valid_version v"
  shows "\<exists>s. v = ''v'' @ s \<and> semantic_version s"
proof -
  from assms obtain s where v: "v = ''v'' @ s" by (cases v) (auto simp: valid_version_def split: if_splits)
  obtain cp b hb where plus: "cut_at (CHR ''+'') s = (cp, b, hb)" by (metis prod_cases3)
  obtain core p hp where minus: "cut_at (CHR ''-'') cp = (core, p, hp)" by (metis prod_cases3)
  have facts: "hb \<longrightarrow> dot_separated build_identifier b" "hp \<longrightarrow> dot_separated prerelease_identifier p"
    "version_core core"
    using assms plus minus
    by (auto simp: v valid_version_def Let_def valid_identifiers_iff version_core_iff split: if_splits)
  have "s = cp @ (if hb then ''+'' @ b else [])" using plus by (cases hb) (auto simp: cut_at_found cut_at_missing)
  moreover have "cp = core @ (if hp then ''-'' @ p else [])"
    using minus by (cases hp) (auto simp: cut_at_found cut_at_missing)
  ultimately have "semantic_version s"
    using facts semantic_version.intros [of core] by (cases hb; cases hp) auto
  with v show ?thesis by blast
qed

lemma semantic_is_accepted:
  assumes "semantic_version s"
  shows "valid_version (''v'' @ s)"
proof -
  from assms obtain core p b hp hb where s: "s = core @ (if hp then ''-'' @ p else []) @ (if hb then ''+'' @ b else [])"
    and facts: "version_core core" "hp \<longrightarrow> dot_separated prerelease_identifier p"
      "hb \<longrightarrow> dot_separated build_identifier b"
  proof cases
    case core
    then show ?thesis by (intro that [of s False p False b]) simp_all
  next
    case (prerelease c p)
    then show ?thesis by (intro that [of c True p False b]) simp_all
  next
    case (build c b)
    then show ?thesis by (intro that [of c False p True b]) simp_all
  next
    case (both c p b)
    then show ?thesis by (intro that [of c True p True b]) simp_all
  qed
  define cp where "cp = core @ (if hp then ''-'' @ p else [])"
  have free: "CHR ''+'' \<notin> set core" "CHR ''-'' \<notin> set core" "hp \<longrightarrow> CHR ''+'' \<notin> set p"
    using version_core_chars [OF facts(1)] facts(2) prerelease_chars by auto
  then have "cut_at (CHR ''+'') s = (cp, if hb then b else [], hb)"
    by (cases hb) (auto simp: s cp_def cut_at_found cut_at_missing)
  moreover have "cut_at (CHR ''-'') cp = (core, if hp then p else [], hp)"
    using free by (cases hp) (auto simp: cp_def cut_at_found cut_at_missing)
  moreover have "s \<noteq> []" using facts(1) by (auto simp: s elim: version_core.cases)
  ultimately show ?thesis
    using facts by (simp add: valid_version_def Let_def valid_identifiers_iff version_core_iff Suc_le_eq not_less)
qed

text \<open>C40. \<open>releaseversion.Valid\<close> accepts a string exactly when it is the letter v followed by a
  Semantic Version: three numbers without leading zeros, an optional pre-release part of
  dot-separated identifiers whose numbers have no leading zero either, and an optional build part.
  Nothing else gates a release.\<close>

theorem valid_version_iff_grammar:
  "valid_version v \<longleftrightarrow> (\<exists>s. v = ''v'' @ s \<and> semantic_version s)"
  using accepted_is_semantic semantic_is_accepted by blast

end
