(* ===== verification/Target.thy ===== *)
theory Target
  imports Go_Text
begin

text \<open>
  \<open>internal/target\<close>: the fixed table of client and release targets, the normalisations
  applied before it is consulted, and the two spellings of a platform name.
\<close>

record go_target =
  goos :: string
  goarch :: string

definition mk_target :: "string \<Rightarrow> string \<Rightarrow> go_target" where
  "mk_target os arch = \<lparr>goos = os, goarch = arch\<rparr>"

definition ordered_targets :: "go_target list" where
  "ordered_targets =
     [mk_target ''linux'' ''amd64'', mk_target ''linux'' ''arm64'',
      mk_target ''freebsd'' ''amd64'', mk_target ''freebsd'' ''arm64'',
      mk_target ''openbsd'' ''amd64'', mk_target ''openbsd'' ''arm64'',
      mk_target ''netbsd'' ''amd64'', mk_target ''netbsd'' ''arm64'',
      mk_target ''dragonfly'' ''amd64'']"

definition normalize_architecture :: "string \<Rightarrow> string" where
  "normalize_architecture v =
     (let n = normalize v in
      if n = ''x86_64'' \<or> n = ''x64'' then ''amd64''
      else if n = ''aarch64'' then ''arm64''
      else n)"

definition is_supported :: "string \<Rightarrow> string \<Rightarrow> bool" where
  "is_supported os arch =
     (let o' = normalize os; a' = normalize_architecture arch in
      list_ex (\<lambda>t. goos t = o' \<and> goarch t = a') ordered_targets)"

definition architectures :: "string \<Rightarrow> string list" where
  "architectures os =
     (let o' = normalize os in map goarch (filter (\<lambda>t. goos t = o') ordered_targets))"

definition evidence_platform :: "string \<Rightarrow> string option" where
  "evidence_platform os =
     (let o' = normalize os in
      if o' \<in> {''linux'', ''freebsd'', ''openbsd'', ''netbsd''} then Some o'
      else if o' = ''dragonfly'' then Some ''dragonflybsd''
      else None)"

definition goos_of_platform :: "string \<Rightarrow> string option" where
  "goos_of_platform p =
     (let n = normalize p in
      if n \<in> {''linux'', ''freebsd'', ''openbsd'', ''netbsd''} then Some n
      else if n = ''dragonfly'' \<or> n = ''dragonflybsd'' then Some ''dragonfly''
      else None)"

definition is_supported_evidence_platform :: "string \<Rightarrow> string \<Rightarrow> bool" where
  "is_supported_evidence_platform p arch =
     (case goos_of_platform p of
        None \<Rightarrow> False
      | Some os \<Rightarrow>
          (let a = normalize arch in
           (a = ''amd64'' \<or> a = ''arm64'') \<and> is_supported os a))"

section \<open>Canonical spellings are fixed by normalisation\<close>

lemma normalize_os_names [simp]:
  "normalize ''linux'' = ''linux''" "normalize ''freebsd'' = ''freebsd''"
  "normalize ''openbsd'' = ''openbsd''" "normalize ''netbsd'' = ''netbsd''"
  "normalize ''dragonfly'' = ''dragonfly''" "normalize ''dragonflybsd'' = ''dragonflybsd''"
  by code_simp+

lemma normalize_arch_names [simp]:
  "normalize ''amd64'' = ''amd64''" "normalize ''arm64'' = ''arm64''"
  "normalize ''x86_64'' = ''x86_64''" "normalize ''aarch64'' = ''aarch64''"
  by code_simp+

lemma normalize_architecture_canonical [simp]:
  "normalize_architecture ''amd64'' = ''amd64''" "normalize_architecture ''arm64'' = ''arm64''"
  by (simp_all add: normalize_architecture_def)

section \<open>Properties\<close>

text \<open>A platform name survives the trip to its evidence spelling and back: whatever
  spelling of a supported operating system is given, \<open>EvidencePlatform\<close> followed by
  \<open>GOOS\<close> yields its canonical Go name, and the evidence spelling is stable under
  converting again.\<close>

theorem platform_roundtrip:
  "evidence_platform os = Some p \<Longrightarrow>
     goos_of_platform p = Some (normalize os) \<and>
     map_option evidence_platform (goos_of_platform p) = Some (Some p)"
  by (auto simp: evidence_platform_def goos_of_platform_def Let_def split: if_splits)

theorem platform_roundtrip_witness:
  "goos_of_platform ''dragonflybsd'' = Some ''dragonfly''
     \<and> map_option evidence_platform (goos_of_platform ''dragonflybsd'') = Some (Some ''dragonflybsd'')"
  using platform_roundtrip [of "''dragonfly''" "''dragonflybsd''"]
  by (simp add: evidence_platform_def)

lemma supported_cases:
  "is_supported os arch \<longleftrightarrow>
     normalize os \<in> {''linux'', ''freebsd'', ''openbsd'', ''netbsd''} \<and>
       normalize_architecture arch \<in> {''amd64'', ''arm64''} \<or>
     normalize os = ''dragonfly'' \<and> normalize_architecture arch = ''amd64''"
  unfolding is_supported_def ordered_targets_def mk_target_def Let_def
  by (simp add: eq_commute [of _ "normalize os"] eq_commute [of _ "normalize_architecture arch"]) argo

lemma architectures_set:
  "set (architectures os) =
     (if normalize os \<in> {''linux'', ''freebsd'', ''openbsd'', ''netbsd''} then {''amd64'', ''arm64''}
      else if normalize os = ''dragonfly'' then {''amd64''} else {})"
  by (cases "normalize os = ''linux''"; cases "normalize os = ''freebsd''";
      cases "normalize os = ''openbsd''"; cases "normalize os = ''netbsd''";
      cases "normalize os = ''dragonfly''";
      simp add: architectures_def ordered_targets_def mk_target_def Let_def)

lemma supported_canonical:
  assumes "normalize os = os"
  shows "(normalize arch = ''amd64'' \<or> normalize arch = ''arm64'') \<and> is_supported os (normalize arch)
     \<longleftrightarrow> normalize arch \<in> set (architectures os)"
proof (cases "normalize arch = ''amd64'' \<or> normalize arch = ''arm64''")
  case True
  then show ?thesis by (auto simp: supported_cases architectures_set)
next
  case False
  then show ?thesis by (simp add: architectures_set)
qed

text \<open>The three views of the target table agree: a pair is supported exactly when the
  normalised architecture is listed for that operating system, every listed architecture is
  supported, and an evidence record's platform is accepted exactly when it converts to a
  supported pair with a canonical architecture name; DragonFly on arm64 is accepted by none.\<close>

theorem target_views_agree:
  "(is_supported os arch \<longleftrightarrow> normalize_architecture arch \<in> set (architectures os)) \<and>
   (is_supported_evidence_platform p arch \<longleftrightarrow>
     (\<exists>os'. goos_of_platform p = Some os' \<and> normalize arch \<in> set (architectures os'))) \<and>
   \<not> is_supported ''dragonfly'' ''aarch64''"
proof (intro conjI)
  show "is_supported os arch \<longleftrightarrow> normalize_architecture arch \<in> set (architectures os)"
    by (simp add: supported_cases architectures_set)
  have os: "normalize os' = os'" if "goos_of_platform p = Some os'" for os'
    using that by (auto simp: goos_of_platform_def Let_def split: if_splits)
  show "is_supported_evidence_platform p arch \<longleftrightarrow>
     (\<exists>os'. goos_of_platform p = Some os' \<and> normalize arch \<in> set (architectures os'))"
  proof (cases "goos_of_platform p")
    case None
    then show ?thesis by (simp add: is_supported_evidence_platform_def)
  next
    case (Some os')
    with supported_canonical [OF os [OF Some]] show ?thesis
      by (auto simp: is_supported_evidence_platform_def Let_def)
  qed
  show "\<not> is_supported ''dragonfly'' ''aarch64''"
    by (simp add: supported_cases normalize_architecture_def)
qed

end
