(* ===== verification/Go_Net.thy ===== *)
theory Go_Net
  imports Go_Text
begin

text \<open>
  The parts of Go's \<open>net\<close> and \<open>net/netip\<close> that the sources call: parsing of IPv4 and IPv6
  literals, of hardware addresses, and their printed forms. An address is its list of bytes.
\<close>

section \<open>Hexadecimal digits\<close>

definition hex_value :: "char \<Rightarrow> nat option" where
  "hex_value c =
     (if is_digit c then Some (byte c - 48)
      else if 97 \<le> byte c \<and> byte c \<le> 102 then Some (byte c - 87)
      else if 65 \<le> byte c \<and> byte c \<le> 70 then Some (byte c - 55)
      else None)"

definition is_hex :: "char \<Rightarrow> bool" where
  "is_hex c \<longleftrightarrow> hex_value c \<noteq> None"

definition hex_char :: "nat \<Rightarrow> char" where
  "hex_char d = (if d < 10 then char_of (48 + d) else char_of (87 + d))"

definition hex_run_value :: "string \<Rightarrow> nat" where
  "hex_run_value s = foldl (\<lambda>n c. 16 * n + (case hex_value c of Some d \<Rightarrow> d | None \<Rightarrow> 0)) 0 s"

lemma hex_value_hex_char [simp]: "d < 16 \<Longrightarrow> hex_value (hex_char d) = Some d"
proof -
  have "\<forall>d \<in> set [0..<16]. hex_value (hex_char d) = Some d" by code_simp
  then show "d < 16 \<Longrightarrow> hex_value (hex_char d) = Some d" by simp
qed

lemma hex_value_less: "hex_value c = Some d \<Longrightarrow> d < 16"
  by (auto simp: hex_value_def is_digit_def split: if_splits)

lemma hex_value_ascii: "hex_value c = Some d \<Longrightarrow> is_ascii c"
  by (auto simp: hex_value_def is_digit_def is_ascii_def split: if_splits)

section \<open>IPv4\<close>

text \<open>\<open>parseIPv4Fields\<close>: the running value, the digits seen in it, the finished fields.\<close>

fun ipv4_loop :: "string \<Rightarrow> nat \<Rightarrow> nat \<Rightarrow> nat list \<Rightarrow> nat list option" where
  "ipv4_loop [] val digits fields = (if length fields < 3 then None else Some (fields @ [val]))"
| "ipv4_loop (c # s) val digits fields =
     (if is_digit c then
        (if digits = 1 \<and> val = 0 then None
         else if val * 10 + digit_value c > 255 then None
         else ipv4_loop s (val * 10 + digit_value c) (Suc digits) fields)
      else if c = CHR ''.'' then
        (if digits = 0 \<or> s = [] then None
         else if length fields = 3 then None
         else ipv4_loop s 0 0 (fields @ [val]))
      else None)"

definition parse_ipv4 :: "string \<Rightarrow> nat list option" where
  "parse_ipv4 s = ipv4_loop s 0 0 []"

definition print_ipv4 :: "nat list \<Rightarrow> string" where
  "print_ipv4 fields = join_with ''.'' (map itoa fields)"

definition wf_ipv4 :: "nat list \<Rightarrow> bool" where
  "wf_ipv4 fields \<longleftrightarrow> length fields = 4 \<and> (\<forall>b \<in> set fields. b < 256)"

lemma itoa_two: "10 \<le> n \<Longrightarrow> n < 100 \<Longrightarrow> itoa n = [digit_char (n div 10), digit_char (n mod 10)]"
  by (subst itoa.simps, subst itoa.simps) auto

lemma itoa_three:
  assumes "100 \<le> n" "n < 1000"
  shows "itoa n = [digit_char (n div 100), digit_char (n div 10 mod 10), digit_char (n mod 10)]"
proof -
  have "itoa n = itoa (n div 10) @ [digit_char (n mod 10)]"
    using assms by (subst itoa.simps) simp
  with assms itoa_two [of "n div 10"] show ?thesis
    by (simp add: div_mult2_eq [symmetric])
qed

lemma ipv4_loop_itoa:
  assumes "n < 256"
  shows "ipv4_loop (itoa n @ rest) 0 0 fields = ipv4_loop rest n (length (itoa n)) fields"
proof -
  consider "n < 10" | "10 \<le> n" "n < 100" | "100 \<le> n" "n < 1000" using assms by linarith
  then show ?thesis
  proof cases
    case 1
    then show ?thesis by (simp add: itoa.simps [of n])
  next
    case 2
    then have "n div 10 \<noteq> 0" "n div 10 < 10" by auto
    with 2 show ?thesis by (simp add: itoa_two)
  next
    case 3
    have "n div 100 \<noteq> 0" "n div 100 < 10" using 3 by auto
    moreover have "n div 100 * 10 + n div 10 mod 10 = n div 10"
      using div_mult_mod_eq [of "n div 10" 10] by (simp add: div_mult2_eq [symmetric])
    moreover have "\<not> 255 < n div 10" "n div 10 * 10 + n mod 10 = n" "n div 10 \<noteq> 0"
      "\<not> 255 < n" "\<not> 255 < n div 100"
      using assms 3 by auto
    moreover have small: "n div 10 \<le> 25" using assms by simp
    ultimately show ?thesis by (simp add: itoa_three [OF 3])
  qed
qed

lemma ipv4_loop_dot:
  "digits \<noteq> 0 \<Longrightarrow> s \<noteq> [] \<Longrightarrow> length fields < 3 \<Longrightarrow>
     ipv4_loop (CHR ''.'' # s) v digits fields = ipv4_loop s 0 0 (fields @ [v])"
  by (simp add: is_digit_def byte_def)

lemma ipv4_loop_wf:
  "ipv4_loop s val digits fields = Some r \<Longrightarrow> val < 256 \<Longrightarrow> \<forall>b \<in> set fields. b < 256 \<Longrightarrow>
     length fields \<le> 3 \<Longrightarrow> wf_ipv4 r"
proof (induction s val digits fields rule: ipv4_loop.induct)
  case (1 val digits fields)
  then have "length fields = 3" and "r = fields @ [val]" by (simp_all split: if_splits)
  with 1 show ?case by (simp add: wf_ipv4_def)
next
  case (2 c s val digits fields)
  show ?case
  proof (cases "is_digit c")
    case True
    with 2 show ?thesis by (simp split: if_splits)
  next
    case False
    with 2 show ?thesis by (simp split: if_splits)
  qed
qed

lemma parse_ipv4_wf: "parse_ipv4 s = Some f \<Longrightarrow> wf_ipv4 f"
  unfolding parse_ipv4_def by (erule ipv4_loop_wf) auto

lemma print_ipv4_eq:
  "print_ipv4 [a, b, c, d] =
     itoa a @ CHR ''.'' # itoa b @ CHR ''.'' # itoa c @ CHR ''.'' # itoa d @ []"
  by (simp add: print_ipv4_def)

lemma parse_print_ipv4:
  assumes "wf_ipv4 f"
  shows "parse_ipv4 (print_ipv4 f) = Some f"
proof -
  obtain a b c d where f: "f = [a, b, c, d]"
    using assms by (auto simp: wf_ipv4_def numeral_eq_Suc length_Suc_conv)
  with assms have "a < 256" "b < 256" "c < 256" "d < 256" by (auto simp: wf_ipv4_def)
  then show ?thesis
    by (simp add: f parse_ipv4_def print_ipv4_eq ipv4_loop_itoa ipv4_loop_dot
        del: append_Nil2 ipv4_loop.simps(2))
qed

section \<open>IPv6\<close>

text \<open>
  One round of the group loop of \<open>parseIPv6\<close> on the rest of the text, the bytes stored so
  far and the position of the ellipsis: it fails, leaves the loop, or goes round again.
\<close>

datatype ipv6_step =
    Bad_Group
  | Groups_End "nat list" "nat option"
  | Next_Group string "nat list" "nat option"

definition ipv6_step :: "string \<Rightarrow> nat list \<Rightarrow> nat option \<Rightarrow> ipv6_step" where
  "ipv6_step s ip ell =
     (let group = takeWhile is_hex s; rest = dropWhile is_hex s in
      if 4 < length group \<or> group = [] then Bad_Group
      else if rest \<noteq> [] \<and> hd rest = CHR ''.'' then
        (if ell = None \<and> length ip \<noteq> 12 then Bad_Group
         else if 16 < length ip + 4 then Bad_Group
         else (case parse_ipv4 s of None \<Rightarrow> Bad_Group | Some f \<Rightarrow> Groups_End (ip @ f) ell))
      else
        (let v = hex_run_value group; ip' = ip @ [v div 256, v mod 256] in
         if rest = [] then Groups_End ip' ell
         else if hd rest \<noteq> CHR '':'' \<or> length rest = 1 then Bad_Group
         else if hd (tl rest) = CHR '':'' then
           (if ell \<noteq> None then Bad_Group
            else if tl (tl rest) = [] then Groups_End ip' (Some (length ip'))
            else Next_Group (tl (tl rest)) ip' (Some (length ip')))
         else Next_Group (tl rest) ip' ell))"

lemma ipv6_step_next:
  "ipv6_step s ip ell = Next_Group s' ip' ell' \<Longrightarrow>
     \<exists>g. length g \<le> 4 \<and> ip' = ip @ [hex_run_value g div 256, hex_run_value g mod 256]"
  unfolding ipv6_step_def Let_def
  by (rule exI [of _ "takeWhile is_hex s"]) (simp split: if_splits option.splits)

lemma ipv6_step_end:
  "ipv6_step s ip ell = Groups_End ip' ell' \<Longrightarrow>
     (\<exists>g. length g \<le> 4 \<and> ip' = ip @ [hex_run_value g div 256, hex_run_value g mod 256]) \<or>
     (\<exists>f. wf_ipv4 f \<and> length ip + 4 \<le> 16 \<and> ip' = ip @ f)"
  unfolding ipv6_step_def Let_def
  by (simp split: if_splits option.splits; metis parse_ipv4_wf not_less)

function ipv6_loop :: "string \<Rightarrow> nat list \<Rightarrow> nat option \<Rightarrow> (nat list \<times> nat option) option" where
  "ipv6_loop s ip ell =
     (if 16 \<le> length ip then (if s = [] then Some (ip, ell) else None)
      else
        (case ipv6_step s ip ell of
           Bad_Group \<Rightarrow> None
         | Groups_End ip' ell' \<Rightarrow> Some (ip', ell')
         | Next_Group s' ip' ell' \<Rightarrow> ipv6_loop s' ip' ell'))"
  by pat_completeness auto
termination
  by (relation "measure (\<lambda>(s, ip, ell). 16 - length ip)") (auto dest!: ipv6_step_next)

declare ipv6_loop.simps [simp del]

definition expand_ellipsis :: "nat list \<times> nat option \<Rightarrow> nat list option" where
  "expand_ellipsis r =
     (case r of (ip, ell) \<Rightarrow>
        if length ip < 16 then
          (case ell of None \<Rightarrow> None
           | Some e \<Rightarrow> Some (take e ip @ replicate (16 - length ip) 0 @ drop e ip))
        else if ell \<noteq> None then None else Some ip)"

datatype ip_addr = Addr4 "nat list" | Addr6 "nat list" string

definition parse_ipv6 :: "string \<Rightarrow> ip_addr option" where
  "parse_ipv6 input =
     (case cut_at (CHR ''%'') input of (s, zone, has_zone) \<Rightarrow>
        if has_zone \<and> zone = [] then None
        else if prefix ''::'' s then
          (if drop 2 s = [] then Some (Addr6 (replicate 16 0) zone)
           else map_option (\<lambda>b. Addr6 b zone)
                  (Option.bind (ipv6_loop (drop 2 s) [] (Some 0)) expand_ellipsis))
        else map_option (\<lambda>b. Addr6 b zone)
               (Option.bind (ipv6_loop s [] None) expand_ellipsis))"

definition parse_addr :: "string \<Rightarrow> ip_addr option" where
  "parse_addr s =
     (case dropWhile (\<lambda>c. c \<noteq> CHR ''.'' \<and> c \<noteq> CHR '':'' \<and> c \<noteq> CHR ''%'') s of
        [] \<Rightarrow> None
      | c # _ \<Rightarrow>
          if c = CHR ''.'' then map_option Addr4 (parse_ipv4 s)
          else if c = CHR '':'' then parse_ipv6 s
          else None)"

definition is_addr6 :: "ip_addr option \<Rightarrow> bool" where
  "is_addr6 a = (case a of Some (Addr6 _ _) \<Rightarrow> True | _ \<Rightarrow> False)"

text \<open>\<open>net.ParseIP(s).To4()\<close>: a dotted quad, or an IPv6 literal that maps one.\<close>

definition parse_ip_to4 :: "string \<Rightarrow> nat list option" where
  "parse_ip_to4 s =
     (case parse_addr s of
        None \<Rightarrow> None
      | Some (Addr4 f) \<Rightarrow> Some f
      | Some (Addr6 b zone) \<Rightarrow>
          if zone \<noteq> [] then None
          else if take 12 b = replicate 10 0 @ [255, 255] then Some (drop 12 b)
          else None)"

lemma hex_run_value_snoc [simp]:
  "hex_run_value (s @ [c]) = 16 * hex_run_value s + (case hex_value c of Some d \<Rightarrow> d | None \<Rightarrow> 0)"
  by (simp add: hex_run_value_def)

lemma hex_run_value_less: "hex_run_value s < 16 ^ length s"
proof (induction s rule: rev_induct)
  case Nil
  then show ?case by (simp add: hex_run_value_def)
next
  case (snoc c s)
  have "(case hex_value c of Some d \<Rightarrow> d | None \<Rightarrow> 0) < 16"
    by (auto split: option.splits dest: hex_value_less)
  with snoc show ?case by simp
qed

lemma hex_group_bytes:
  "length g \<le> 4 \<Longrightarrow> hex_run_value g div 256 < 256 \<and> hex_run_value g mod 256 < 256"
proof -
  assume "length g \<le> 4"
  then have "(16::nat) ^ length g \<le> 16 ^ 4" by (intro power_increasing) auto
  with hex_run_value_less [of g] have "hex_run_value g < 65536" by simp
  then show ?thesis by auto
qed

definition wf_bytes :: "nat list \<Rightarrow> bool" where
  "wf_bytes b \<longleftrightarrow> length b \<le> 16 \<and> even (length b) \<and> (\<forall>x \<in> set b. x < 256)"

lemma wf_bytes_group:
  assumes "wf_bytes ip" "\<not> 16 \<le> length ip" "length g \<le> 4"
  shows "wf_bytes (ip @ [hex_run_value g div 256, hex_run_value g mod 256])"
proof -
  obtain k where "length ip = 2 * k" using assms by (auto simp: wf_bytes_def elim: evenE)
  with assms(2) have "length ip + 2 \<le> 16" by simp
  with assms hex_group_bytes [OF assms(3)] show ?thesis by (auto simp: wf_bytes_def)
qed

lemma ipv6_loop_wf:
  "ipv6_loop s ip ell = Some r \<Longrightarrow> wf_bytes ip \<Longrightarrow> wf_bytes (fst r)"
proof (induction s ip ell rule: ipv6_loop.induct)
  case (1 s ip ell)
  show ?case
  proof (cases "16 \<le> length ip")
    case True
    with 1 show ?thesis by (auto simp: ipv6_loop.simps [of s ip ell] split: if_splits)
  next
    case False
    show ?thesis
    proof (cases "ipv6_step s ip ell")
      case Bad_Group
      with False 1 show ?thesis by (simp add: ipv6_loop.simps [of s ip ell])
    next
      case (Groups_End ip' ell')
      from ipv6_step_end [OF this] False "1.prems"(2) have "wf_bytes ip'"
        by (auto intro: wf_bytes_group) (auto simp: wf_bytes_def wf_ipv4_def)
      with Groups_End False "1.prems"(1) show ?thesis
        by (auto simp: ipv6_loop.simps [of s ip ell])
    next
      case (Next_Group s' ip' ell')
      from ipv6_step_next [OF this] False "1.prems"(2) have "wf_bytes ip'"
        by (auto intro: wf_bytes_group)
      with "1.IH" [OF False Next_Group] Next_Group False "1.prems"(1) show ?thesis
        by (simp add: ipv6_loop.simps [of s ip ell])
    qed
  qed
qed

lemma expand_wf:
  "expand_ellipsis (ip, e) = Some b \<Longrightarrow> wf_bytes ip \<Longrightarrow> length b = 16 \<and> (\<forall>x \<in> set b. x < 256)"
  by (auto simp: expand_ellipsis_def wf_bytes_def split: if_splits option.splits)
    (meson in_set_takeD in_set_dropD)+

lemma parse_ipv6_wf:
  assumes "parse_ipv6 s = Some a"
  shows "\<exists>b z. a = Addr6 b z \<and> length b = 16 \<and> (\<forall>x \<in> set b. x < 256)"
proof -
  have loop: "length b = 16 \<and> (\<forall>x \<in> set b. x < 256)"
    if "Option.bind (ipv6_loop t [] ell) expand_ellipsis = Some b" for t ell b
  proof -
    from that obtain r where r: "ipv6_loop t [] ell = Some r" "expand_ellipsis r = Some b"
      by (auto simp: bind_eq_Some_conv)
    have "wf_bytes (fst r)" by (rule ipv6_loop_wf [OF r(1)]) (simp add: wf_bytes_def)
    with r(2) show ?thesis by (cases r) (auto dest: expand_wf)
  qed
  show ?thesis
    using assms unfolding parse_ipv6_def
    by (auto split: prod.splits if_splits dest: loop)
qed

lemma parse_ip_to4_wf: "parse_ip_to4 s = Some f \<Longrightarrow> wf_ipv4 f"
proof -
  assume parsed: "parse_ip_to4 s = Some f"
  then obtain a where a: "parse_addr s = Some a" by (auto simp: parse_ip_to4_def split: option.splits)
  show "wf_ipv4 f"
  proof (cases a)
    case (Addr4 g)
    with a have "parse_ipv4 s = Some g"
      by (auto simp: parse_addr_def parse_ipv6_def split: list.splits if_splits prod.splits)
    with parsed a Addr4 show ?thesis by (auto simp: parse_ip_to4_def dest: parse_ipv4_wf)
  next
    case (Addr6 b z)
    with a have "parse_ipv6 s = Some a"
      by (auto simp: parse_addr_def split: list.splits if_splits)
    from parse_ipv6_wf [OF this] parsed a Addr6 show ?thesis
      by (auto simp: parse_ip_to4_def wf_ipv4_def split: if_splits dest: in_set_dropD)
  qed
qed

lemma parse_addr_print_ipv4: "wf_ipv4 f \<Longrightarrow> parse_addr (print_ipv4 f) = Some (Addr4 f)"
proof -
  assume wf: "wf_ipv4 f"
  then obtain a b c d where f: "f = [a, b, c, d]"
    by (auto simp: wf_ipv4_def numeral_eq_Suc length_Suc_conv)
  have "CHR '':'' \<notin> set (itoa a)" "CHR ''%'' \<notin> set (itoa a)" "CHR ''.'' \<notin> set (itoa a)"
    using itoa_digits [of a] by (auto simp: list_all_iff is_digit_def byte_def)
  then have "dropWhile (\<lambda>c. c \<noteq> CHR ''.'' \<and> c \<noteq> CHR '':'' \<and> c \<noteq> CHR ''%'') (print_ipv4 f)
      = CHR ''.'' # itoa b @ CHR ''.'' # itoa c @ CHR ''.'' # itoa d"
    by (auto simp: f print_ipv4_eq dropWhile_append)
  with parse_print_ipv4 [OF wf] show ?thesis by (simp add: parse_addr_def)
qed

interpretation ipv4: text_codec parse_ip_to4 print_ipv4 wf_ipv4
  by unfold_locales (simp_all add: parse_ip_to4_def [of "print_ipv4 _"] parse_addr_print_ipv4 parse_ip_to4_wf)

section \<open>Hardware addresses\<close>

text \<open>\<open>xtoi2\<close>: two hexadecimal digits, and the separator after them unless the text ends.\<close>

definition xtoi2 :: "string \<Rightarrow> char \<Rightarrow> nat option" where
  "xtoi2 s sep =
     (case s of
        a # b # rest \<Rightarrow>
          if rest \<noteq> [] \<and> hd rest \<noteq> sep then None
          else (case (hex_value a, hex_value b) of
                  (Some x, Some y) \<Rightarrow> Some (16 * x + y)
                | _ \<Rightarrow> None)
      | _ \<Rightarrow> None)"

fun mac_octets :: "char \<Rightarrow> nat \<Rightarrow> string \<Rightarrow> nat list option" where
  "mac_octets sep 0 s = Some []"
| "mac_octets sep (Suc n) s =
     (case xtoi2 s sep of
        None \<Rightarrow> None
      | Some b \<Rightarrow> map_option ((#) b) (mac_octets sep n (drop 3 s)))"

fun mac_words :: "nat \<Rightarrow> string \<Rightarrow> nat list option" where
  "mac_words 0 s = Some []"
| "mac_words (Suc n) s =
     (case (xtoi2 (take 2 s) (CHR 0x00), xtoi2 (drop 2 s) (CHR ''.'')) of
        (Some a, Some b) \<Rightarrow> map_option (\<lambda>r. a # b # r) (mac_words n (drop 5 s))
      | _ \<Rightarrow> None)"

definition parse_mac :: "string \<Rightarrow> nat list option" where
  "parse_mac s =
     (if length s < 14 then None
      else if s ! 2 = CHR '':'' \<or> s ! 2 = CHR ''-'' then
        (let n = (length s + 1) div 3 in
         if (length s + 1) mod 3 \<noteq> 0 \<or> n \<notin> {6, 8, 20} then None
         else mac_octets (s ! 2) n s)
      else if s ! 4 = CHR ''.'' then
        (let n = 2 * (length s + 1) div 5 in
         if (length s + 1) mod 5 \<noteq> 0 \<or> n \<notin> {6, 8, 20} then None
         else mac_words (n div 2) s)
      else None)"

definition print_mac :: "nat list \<Rightarrow> string" where
  "print_mac bs = join_with '':'' (map (\<lambda>b. [hex_char (b div 16), hex_char (b mod 16)]) bs)"

lemma xtoi2_less: "xtoi2 s sep = Some b \<Longrightarrow> b < 256"
proof -
  assume "xtoi2 s sep = Some b"
  then obtain x y c d where "hex_value c = Some x" "hex_value d = Some y" "b = 16 * x + y"
    by (auto simp: xtoi2_def split: list.splits if_splits option.splits)
  then show ?thesis using hex_value_less [of c x] hex_value_less [of d y] by simp
qed

lemma mac_octets_wf: "mac_octets sep n s = Some bs \<Longrightarrow> length bs = n \<and> (\<forall>b \<in> set bs. b < 256)"
  by (induction sep n s arbitrary: bs rule: mac_octets.induct)
    (auto split: option.splits dest: xtoi2_less)

lemma mac_words_wf: "mac_words n s = Some bs \<Longrightarrow> length bs = 2 * n \<and> (\<forall>b \<in> set bs. b < 256)"
  by (induction n s arbitrary: bs rule: mac_words.induct)
    (auto split: option.splits dest: xtoi2_less)

lemma parse_mac_wf: "parse_mac s = Some bs \<Longrightarrow> \<forall>b \<in> set bs. b < 256"
  by (auto simp: parse_mac_def Let_def split: if_splits dest: mac_octets_wf mac_words_wf)

lemma mac_octets_print:
  "\<forall>b \<in> set bs. b < 256 \<Longrightarrow> mac_octets (CHR '':'') (length bs) (print_mac bs) = Some bs"
proof (induction bs rule: induct_list012)
  case 1
  then show ?case by simp
next
  case (2 b)
  then show ?case by (simp add: print_mac_def xtoi2_def)
next
  case (3 a b bs)
  then have "mac_octets (CHR '':'') (length (b # bs)) (print_mac (b # bs)) = Some (b # bs)" by simp
  moreover have "a div 16 < 16" using 3(3) by auto
  ultimately show ?case by (simp add: print_mac_def xtoi2_def)
qed

lemma length_print_mac: "bs \<noteq> [] \<Longrightarrow> length (print_mac bs) + 1 = 3 * length bs"
  by (induction bs rule: induct_list012) (simp_all add: print_mac_def)

lemma parse_print_mac:
  assumes "length bs = 6" "\<forall>b \<in> set bs. b < 256"
  shows "parse_mac (print_mac bs) = Some bs"
proof -
  from assms(1) obtain a b rest where bs: "bs = a # b # rest"
    by (auto simp: numeral_eq_Suc length_Suc_conv)
  then have "print_mac bs ! 2 = CHR '':''" by (simp add: print_mac_def)
  moreover have "length (print_mac bs) = 17" using length_print_mac [of bs] assms(1) bs by simp
  ultimately show ?thesis using mac_octets_print [OF assms(2)] assms(1)
    by (simp add: parse_mac_def)
qed


section \<open>The characters of an address\<close>

definition address_char :: "char \<Rightarrow> bool" where
  "address_char c \<longleftrightarrow> is_hex c \<or> c = CHR ''.'' \<or> c = CHR '':''"

lemma address_char_colon [simp]: "address_char (CHR '':'')"
  by (simp add: address_char_def)

lemma is_digit_hex: "is_digit c \<Longrightarrow> is_hex c"
  by (simp add: is_hex_def hex_value_def)

lemma ipv4_loop_chars: "ipv4_loop s v d f = Some r \<Longrightarrow> list_all address_char s"
  by (induction s v d f rule: ipv4_loop.induct)
     (auto split: if_splits simp: address_char_def is_digit_hex)

lemma parse_ipv4_chars: "parse_ipv4 s = Some f \<Longrightarrow> list_all address_char s"
  unfolding parse_ipv4_def by (rule ipv4_loop_chars)

lemma hex_run_chars: "list_all address_char (takeWhile is_hex s)"
  by (auto simp: list_all_iff address_char_def dest: set_takeWhileD)

lemma ipv6_step_text:
  assumes "ipv6_step s ip ell = Next_Group s' ip' ell'"
  shows "\<exists>colons. colons \<in> {[CHR '':''], [CHR '':'', CHR '':'']} \<and> s = takeWhile is_hex s @ colons @ s' \<and>
    (ell' \<noteq> ell \<longrightarrow> length colons = 2)"
proof -
  let ?rest = "dropWhile is_hex s"
  have s: "s = takeWhile is_hex s @ ?rest" by simp
  have "hd ?rest \<noteq> CHR ''.'' \<or> ?rest = []"
    using assms by (simp add: ipv6_step_def Let_def split: if_splits option.splits)
  with assms have "?rest \<noteq> [] \<and> hd ?rest = CHR '':'' \<and> tl ?rest \<noteq> [] \<and>
      (s' = tl (tl ?rest) \<and> hd (tl ?rest) = CHR '':'' \<or> s' = tl ?rest \<and> ell' = ell)"
    by (cases ?rest) (simp_all add: ipv6_step_def Let_def split: if_splits)
  then obtain t where rest: "?rest = CHR '':'' # t" "t \<noteq> []"
    and "s' = tl t \<and> hd t = CHR '':'' \<or> s' = t \<and> ell' = ell"
    by (cases ?rest) auto
  then consider "s' = tl t" "hd t = CHR '':''" | "s' = t" "ell' = ell" by blast
  then show ?thesis
  proof cases
    case 1
    with rest have r: "?rest = [CHR '':'', CHR '':''] @ s'" by (cases t) auto
    from takeWhile_dropWhile_id [of is_hex s, unfolded r, symmetric] show ?thesis
      by (intro exI [of _ "[CHR '':'', CHR '':'']"]) simp
  next
    case 2
    with rest have r: "?rest = [CHR '':''] @ s'" by auto
    from takeWhile_dropWhile_id [of is_hex s, unfolded r, symmetric] 2 show ?thesis
      by (intro exI [of _ "[CHR '':'']"]) simp
  qed
qed

lemma ipv6_step_end_text:
  assumes "ipv6_step s ip ell = Groups_End ip' ell'"
  shows "list_all address_char s \<and> length ip' \<le> length ip + 4 \<and>
    (ell' \<noteq> ell \<longrightarrow> 2 \<le> count_list s (CHR '':''))"
proof -
  let ?rest = "dropWhile is_hex s"
  have s: "s = takeWhile is_hex s @ ?rest" by simp
  have "(\<exists>f. parse_ipv4 s = Some f \<and> ip' = ip @ f \<and> ell' = ell) \<or>
      (?rest = [] \<and> length ip' = length ip + 2 \<and> ell' = ell) \<or>
      (?rest = [CHR '':'', CHR '':''] \<and> length ip' = length ip + 2)"
  proof (cases ?rest)
    case Nil
    with assms show ?thesis by (auto simp: ipv6_step_def Let_def split: if_splits)
  next
    case (Cons c t)
    show ?thesis
    proof (cases "c = CHR ''.''")
      case True
      with assms Cons show ?thesis
        by (simp add: ipv6_step_def Let_def split: if_splits option.splits)
    next
      case False
      with assms Cons have "c = CHR '':'' \<and> t \<noteq> [] \<and> hd t = CHR '':'' \<and> tl t = [] \<and> length ip' = length ip + 2"
        by (auto simp: ipv6_step_def Let_def split: if_splits)
      with Cons show ?thesis by (cases t) simp_all
    qed
  qed
  then consider f where "parse_ipv4 s = Some f" "ip' = ip @ f" "ell' = ell"
    | "?rest = []" "length ip' = length ip + 2" "ell' = ell"
    | "?rest = [CHR '':'', CHR '':'']" "length ip' = length ip + 2" by blast
  then show ?thesis
  proof cases
    case 1
    then show ?thesis using parse_ipv4_wf [of s f] parse_ipv4_chars [of s f] by (simp add: wf_ipv4_def)
  next
    case 2
    with s hex_run_chars [of s] show ?thesis by simp
  next
    case 3
    have "list_all address_char s"
      by (subst s, subst 3(1)) (simp add: hex_run_chars)
    moreover have "2 \<le> count_list s (CHR '':'')"
      by (subst s, subst 3(1)) simp
    ultimately show ?thesis using 3(2) by simp
  qed
qed

lemma ipv6_loop_text:
  "ipv6_loop s ip ell = Some (ip', ell') \<Longrightarrow>
     list_all address_char s \<and> length ip' \<le> length ip + 2 * count_list s (CHR '':'') + 4 \<and>
     (ell' \<noteq> ell \<longrightarrow> 2 \<le> count_list s (CHR '':''))"
proof (induction s ip ell rule: ipv6_loop.induct)
  case (1 s ip ell)
  show ?case
  proof (cases "16 \<le> length ip")
    case True
    with 1 show ?thesis by (auto simp: ipv6_loop.simps [of s ip ell] split: if_splits)
  next
    case False
    show ?thesis
    proof (cases "ipv6_step s ip ell")
      case Bad_Group
      with False 1 show ?thesis by (simp add: ipv6_loop.simps [of s ip ell])
    next
      case (Groups_End ip'' ell'')
      with False "1.prems" show ?thesis
        using ipv6_step_end_text [OF Groups_End] by (auto simp: ipv6_loop.simps [of s ip ell])
    next
      case (Next_Group s' ip'' ell'')
      with False "1.prems" have "ipv6_loop s' ip'' ell'' = Some (ip', ell')"
        by (simp add: ipv6_loop.simps [of s ip ell])
      note IH = "1.IH" [OF False Next_Group this]
      have len: "length ip'' = length ip + 2" using ipv6_step_next [OF Next_Group] by auto
      obtain colons where c: "colons \<in> {[CHR '':''], [CHR '':'', CHR '':'']}"
          "s = takeWhile is_hex s @ colons @ s'" "ell'' \<noteq> ell \<longrightarrow> length colons = 2"
        using ipv6_step_text [OF Next_Group] by blast
      have count: "length colons + count_list s' (CHR '':'') \<le> count_list s (CHR '':'')"
        by (subst c(2)) (use c(1) in auto)
      have "list_all address_char s"
        by (subst c(2)) (use c(1) IH hex_run_chars [of s] in auto)
      moreover have "1 \<le> length colons" using c(1) by auto
      ultimately show ?thesis using IH len count c(3) by fastforce
    qed
  qed
qed

lemma parse_ipv6_text:
  assumes "parse_ipv6 s = Some a" "CHR ''%'' \<notin> set s"
  shows "list_all address_char s \<and> 2 \<le> count_list s (CHR '':'')"
proof -
  have cut: "cut_at (CHR ''%'') s = (s, [], False)" using assms(2) by (simp add: cut_at_missing)
  show ?thesis
  proof (cases "prefix ''::'' s")
    case True
    then obtain t where t: "s = CHR '':'' # CHR '':'' # t" by (auto simp: prefix_def)
    have "list_all address_char t"
    proof (cases t)
      case (Cons c u)
      with assms cut t obtain r where "ipv6_loop t [] (Some 0) = Some r"
        by (auto simp: parse_ipv6_def bind_eq_Some_conv)
      then show ?thesis by (cases r) (auto dest: ipv6_loop_text)
    qed simp
    with t show ?thesis by (simp add: address_char_def)
  next
    case False
    with assms cut obtain ip ell b
      where l: "ipv6_loop s [] None = Some (ip, ell)" and e: "expand_ellipsis (ip, ell) = Some b"
      by (auto simp: parse_ipv6_def bind_eq_Some_conv)
    from e have "ell \<noteq> None \<or> 16 \<le> length ip" by (auto simp: expand_ellipsis_def split: if_splits option.splits)
    with ipv6_loop_text [OF l] show ?thesis by auto
  qed
qed

lemma is_addr6_text:
  assumes "is_addr6 (parse_addr s)" "CHR ''%'' \<notin> set s"
  shows "list_all address_char s \<and> 2 \<le> count_list s (CHR '':'')"
proof -
  from assms(1) obtain a where "parse_ipv6 s = Some a"
    by (auto simp: is_addr6_def parse_addr_def split: option.splits list.splits if_splits)
  then show ?thesis using assms(2) by (rule parse_ipv6_text)
qed

lemma address_char_range:
  "address_char c \<Longrightarrow> is_digit c \<or> 65 \<le> byte c \<and> byte c \<le> 70 \<or> 97 \<le> byte c \<and> byte c \<le> 102 \<or>
     c = CHR ''.'' \<or> c = CHR '':''"
  by (auto simp: address_char_def is_hex_def hex_value_def split: if_splits)

end
