(* ===== verification/Handoff_Boundary.thy ===== *)
theory Handoff_Boundary
  imports Go_Base
begin

text \<open>
  The interface between a handoff planner and its execution boundary, shared by the
  Wake-on-LAN, hardware-KVM and Moonlight components. A planner turns a request into a plan;
  the plan's exported fields can be read and overwritten by whoever holds the plan, its
  private fields cannot. Before it causes any effect, the executor runs a guard. The contract
  says what the guard owes the planner: it accepts only plans the planner validated, and no
  overwriting of exported fields gets a request past it that the planner did not build.
\<close>

locale handoff_boundary =
  fixes build :: "'req \<Rightarrow> 'err + 'plan"
    and exported :: "'plan \<Rightarrow> 'view"
    and tamper :: "'view \<Rightarrow> 'plan \<Rightarrow> 'plan"
    and validated :: "'plan \<Rightarrow> bool"
    and guard :: "'plan \<Rightarrow> 'gerr + unit"
    and agrees :: "'view \<Rightarrow> 'view \<Rightarrow> bool"
  assumes exported_tamper: "exported (tamper v p) = v"
    and tamper_tamper: "tamper v (tamper w p) = tamper v p"
    and tamper_validated: "validated (tamper v p) = validated p"
    and guard_validated: "guard p = Inr () \<Longrightarrow> validated p"
    and guard_binds: "build r = Inr p \<Longrightarrow> guard (tamper v p) = Inr () \<Longrightarrow> agrees v (exported p)"
begin

lemma forged_refused: "\<not> validated p \<Longrightarrow> \<exists>e. guard (tamper v p) = Inl e"
  using guard_validated [of "tamper v p"] tamper_validated [of v p]
  by (cases "guard (tamper v p)") auto

lemma tamper_sequence:
  "foldl (\<lambda>q v. tamper v q) p (vs @ [v]) = tamper v p"
proof -
  have "foldl (\<lambda>q v. tamper v q) p ws = p \<or> (\<exists>w. foldl (\<lambda>q v. tamper v q) p ws = tamper w p)" for ws
    by (induction ws rule: rev_induct) (auto simp: tamper_tamper)
  from this [of vs] show ?thesis by (auto simp: tamper_tamper)
qed

lemma mutations_refused:
  assumes "build r = Inr p" and "\<not> agrees v (exported p)"
  shows "\<exists>e. guard (foldl (\<lambda>q v. tamper v q) p (vs @ [v])) = Inl e"
  using assms guard_binds [of r p v] unit_result_cases
  by (metis tamper_sequence)

end

text \<open>
  A complete boundary moreover accepts every plan its planner builds, so a handoff that was
  planned is never refused for the plan's own sake.
\<close>

locale complete_boundary = handoff_boundary +
  assumes guard_built: "build r = Inr p \<Longrightarrow> guard p = Inr ()"
    and tamper_exported: "tamper (exported p) p = p"
begin

lemma restored_accepted:
  assumes "build r = Inr p"
  shows "guard (foldl (\<lambda>q v. tamper v q) p (vs @ [exported p])) = Inr ()"
  using assms by (simp only: tamper_sequence tamper_exported guard_built)

end

end
