(* ===== verification/Wake_On_Lan.thy ===== *)
theory Wake_On_Lan
  imports Go_Net Handoff_Boundary
begin

text \<open>
  \<open>internal/wol\<close>: validation of a Wake-on-LAN request, the magic packet, the plan with its
  private snapshots, and the one network boundary. The network is a parameter of the
  executor: the outcome of every call it makes, and the datagrams it sends as a result.
\<close>

datatype wol_error =
    Mac_Required | Mac_Unclean | Mac_Not_Six_Octets | Mac_Not_Unicast
  | Destination_Unclean | Destination_Not_IPv4
  | Port_Out_Of_Range int | Not_Physical_Host | Not_Acknowledged
  | Unvalidated_Plan | Mac_Changed | Destination_Changed | Port_Changed | Packet_Changed
  | Handoff_Canceled | Open_Socket_Failed | Set_Deadline_Failed | Send_Failed
  | Short_Write nat nat

section \<open>Normalisation\<close>

definition default_destination :: string where
  "default_destination = ''255.255.255.255''"

definition max_destination_size :: nat where
  "max_destination_size = 64"

definition unclean :: "string \<Rightarrow> bool" where
  "unclean s \<longleftrightarrow> trim_space s \<noteq> s \<or> contains_any s [CHR 0x00, CHR 0x0D, CHR 0x0A, CHR 0x09]"

definition normalize_mac :: "string \<Rightarrow> wol_error + string" where
  "normalize_mac value =
     (if value = [] then Inl Mac_Required
      else if unclean value then Inl Mac_Unclean
      else
        (case parse_mac value of
           None \<Rightarrow> Inl Mac_Not_Six_Octets
         | Some address \<Rightarrow>
             if length address \<noteq> 6 then Inl Mac_Not_Six_Octets
             else if list_all (\<lambda>b. b = 0) address \<or> odd (hd address) then Inl Mac_Not_Unicast
             else Inr (print_mac address)))"

definition normalize_destination :: "string \<Rightarrow> wol_error + string" where
  "normalize_destination value0 =
     (let value = (if value0 = [] then default_destination else value0) in
      if max_destination_size < length value \<or> unclean value then Inl Destination_Unclean
      else
        (case parse_ip_to4 value of
           None \<Rightarrow> Inl Destination_Not_IPv4
         | Some address \<Rightarrow> Inr (print_ipv4 address)))"

section \<open>The magic packet\<close>

text \<open>Go's \<open>copy(dst[off:], src)\<close>.\<close>

definition copy_at :: "nat \<Rightarrow> 'a list \<Rightarrow> 'a list \<Rightarrow> 'a list" where
  "copy_at off src dst =
     take off dst @ take (length dst - off) src @ drop (off + length src) dst"

definition magic_packet :: "string \<Rightarrow> nat list" where
  "magic_packet mac =
     (let address = (case parse_mac mac of Some a \<Rightarrow> a | None \<Rightarrow> []);
          packet0 = replicate 6 255 @ replicate 96 0
      in foldl (\<lambda>p rep. copy_at (6 + rep * 6) address p) packet0 [0..<16])"

section \<open>Plans\<close>

record wol_request =
  wol_req_mac :: string
  wol_req_destination :: string
  wol_req_port :: int
  wol_physical_host_confirmed :: bool
  wol_accept_unverified_handoff :: bool

record wol_plan =
  wol_mac :: string
  wol_destination :: string
  wol_port :: int
  wol_plan_warnings :: "string list"
  wol_validated :: bool
  wol_private_mac :: string
  wol_private_destination :: string
  wol_private_port :: int
  wol_packet :: "nat list"
  wol_packet_binding :: "nat list"
  wol_request_binding :: "string \<times> string \<times> int"

definition wol_warnings :: "string list" where
  "wol_warnings =
     [''Wake-on-LAN only powers or wakes the physical host; it does not start League, authenticate, or prove Vanguard/gameplay.'',
      ''After the host wakes, verify the physical Windows/macOS session and use the separate remote pair/list/stream or KVM flow.'',
      ''The packet is sent without authentication; restrict the destination to a trusted LAN or private network.'']"

definition wol_build_plan :: "wol_request \<Rightarrow> wol_error + wol_plan" where
  "wol_build_plan request =
     bind_result (normalize_mac (wol_req_mac request)) (\<lambda>mac.
     bind_result (normalize_destination (wol_req_destination request)) (\<lambda>destination.
       if wol_req_port request < 1 \<or> 65535 < wol_req_port request
         then Inl (Port_Out_Of_Range (wol_req_port request))
       else if \<not> wol_physical_host_confirmed request then Inl Not_Physical_Host
       else if \<not> wol_accept_unverified_handoff request then Inl Not_Acknowledged
       else Inr \<lparr>wol_mac = mac, wol_destination = destination, wol_port = wol_req_port request,
                 wol_plan_warnings = wol_warnings, wol_validated = True,
                 wol_private_mac = mac, wol_private_destination = destination, wol_private_port = wol_req_port request,
                 wol_packet = magic_packet mac, wol_packet_binding = magic_packet mac,
                 wol_request_binding = (mac, destination, wol_req_port request)\<rparr>))"

section \<open>The network boundary\<close>

definition wol_guard :: "wol_plan \<Rightarrow> wol_error + unit" where
  "wol_guard plan =
     (case wol_request_binding plan of (bound_mac, bound_destination, bound_port) \<Rightarrow>
        first_error
          [require (wol_validated plan) Unvalidated_Plan,
           (case normalize_mac (wol_mac plan) of
              Inl _ \<Rightarrow> Inl Mac_Changed
            | Inr mac \<Rightarrow> require (mac = bound_mac \<and> mac = wol_private_mac plan) Mac_Changed),
           (case normalize_destination (wol_destination plan) of
              Inl _ \<Rightarrow> Inl Destination_Changed
            | Inr d \<Rightarrow> require (d = bound_destination \<and> d = wol_private_destination plan) Destination_Changed),
           require (wol_port plan = bound_port \<and> wol_port plan = wol_private_port plan
                    \<and> 1 \<le> wol_port plan \<and> wol_port plan \<le> 65535) Port_Changed,
           (case normalize_mac (wol_mac plan) of
              Inl _ \<Rightarrow> Inl Mac_Changed
            | Inr mac \<Rightarrow>
                require (wol_packet plan = wol_packet_binding plan \<and> wol_packet plan = magic_packet mac)
                  Packet_Changed)])"

text \<open>The outcomes of the calls the executor makes on its context and socket.\<close>

record wol_world =
  wol_ctx_canceled :: bool
  dial_fails :: "string \<Rightarrow> int \<Rightarrow> bool"
  has_deadline :: bool
  set_deadline_fails :: bool
  write_outcome :: "nat list \<Rightarrow> nat option"

type_synonym datagram = "string \<times> int \<times> nat list"

definition wol_execute :: "wol_world \<Rightarrow> wol_plan \<Rightarrow> (wol_error + unit) \<times> datagram list" where
  "wol_execute w plan =
     (case wol_guard plan of
        Inl e \<Rightarrow> (Inl e, [])
      | Inr _ \<Rightarrow>
          if wol_ctx_canceled w then (Inl Handoff_Canceled, [])
          else
            (case normalize_destination (wol_destination plan) of
               Inl e \<Rightarrow> (Inl Destination_Changed, [])
             | Inr destination \<Rightarrow>
                 if dial_fails w destination (wol_port plan) then (Inl Open_Socket_Failed, [])
                 else if has_deadline w \<and> set_deadline_fails w then (Inl Set_Deadline_Failed, [])
                 else
                   (case write_outcome w (wol_packet plan) of
                      None \<Rightarrow> (Inl Send_Failed, [])
                    | Some written \<Rightarrow>
                        (if written \<noteq> length (wol_packet plan)
                         then Inl (Short_Write written (length (wol_packet plan))) else Inr (),
                         [(destination, wol_port plan, take written (wol_packet plan))]))))"

section \<open>Normalisation is idempotent\<close>

lemma hex_char_byte: "d < 16 \<Longrightarrow> 48 \<le> byte (hex_char d) \<and> byte (hex_char d) < 103"
  by (simp add: hex_char_def byte_char_of)

lemma clean_printable:
  assumes "\<forall>c \<in> set s. 32 < byte c \<and> byte c < 128"
  shows "\<not> unclean s"
proof -
  have "trim_space s = s"
  proof (rule trim_space_clean)
    have "\<not> space_byte c" if "c \<in> set s" for c
      using assms that space_byte_range [of c] by force
    then show "s = [] \<or> \<not> space_byte (hd s) \<and> \<not> space_byte (last s)"
      by (cases "s = []") auto
  qed
  moreover have "set s \<inter> {CHR 0x00, CHR 0x0D, CHR 0x0A, CHR 0x09} = {}"
    using assms by (auto simp: byte_def)
  ultimately show ?thesis by (simp add: unclean_def contains_any_iff)
qed

lemma join_with_chars:
  "(\<And>p. p \<in> set ps \<Longrightarrow> set p \<subseteq> A) \<Longrightarrow> set sep \<subseteq> A \<Longrightarrow> set (join_with sep ps) \<subseteq> A"
  by (induction sep ps rule: join_with.induct) auto

lemma print_mac_clean:
  assumes "\<forall>b \<in> set bs. b < 256"
  shows "\<not> unclean (print_mac bs)"
proof (rule clean_printable)
  have colon: "32 < byte (CHR '':'') \<and> byte (CHR '':'') < 128" by code_simp
  have "set (print_mac bs) \<subseteq> {c. 32 < byte c \<and> byte c < 128}"
    unfolding print_mac_def
  proof (rule join_with_chars)
    fix p assume "p \<in> set (map (\<lambda>b. [hex_char (b div 16), hex_char (b mod 16)]) bs)"
    then obtain b where "b \<in> set bs" "p = [hex_char (b div 16), hex_char (b mod 16)]" by auto
    with assms hex_char_byte [of "b div 16"] hex_char_byte [of "b mod 16"]
    show "set p \<subseteq> {c. 32 < byte c \<and> byte c < 128}" by fastforce
  qed (use colon in simp)
  then show "\<forall>c \<in> set (print_mac bs). 32 < byte c \<and> byte c < 128" by blast
qed

lemma print_ipv4_clean: "\<not> unclean (print_ipv4 f)"
proof (rule clean_printable)
  have dot: "32 < byte (CHR ''.'') \<and> byte (CHR ''.'') < 128" by code_simp
  have "set (print_ipv4 f) \<subseteq> {c. 32 < byte c \<and> byte c < 128}"
    unfolding print_ipv4_def
  proof (rule join_with_chars)
    fix p assume "p \<in> set (map itoa f)"
    then obtain n where "p = itoa n" by auto
    then show "set p \<subseteq> {c. 32 < byte c \<and> byte c < 128}"
      using itoa_digits [of n] by (auto simp: list_all_iff is_digit_def)
  qed (use dot in simp)
  then show "\<forall>c \<in> set (print_ipv4 f). 32 < byte c \<and> byte c < 128" by blast
qed

definition unicast_mac :: "nat list \<Rightarrow> bool" where
  "unicast_mac bs \<longleftrightarrow>
     length bs = 6 \<and> (\<forall>b \<in> set bs. b < 256) \<and> (\<exists>b \<in> set bs. b \<noteq> 0) \<and> even (hd bs)"

lemma normalize_mac_ok:
  "normalize_mac v = Inr m \<Longrightarrow> \<exists>bs. unicast_mac bs \<and> parse_mac v = Some bs \<and> m = print_mac bs"
  by (auto simp: normalize_mac_def unicast_mac_def list_all_iff
      split: if_splits option.splits dest: parse_mac_wf)

lemma normalize_mac_print: "unicast_mac bs \<Longrightarrow> normalize_mac (print_mac bs) = Inr (print_mac bs)"
proof -
  assume u: "unicast_mac bs"
  then have "length (print_mac bs) + 1 = 18"
    using length_print_mac [of bs] by (cases bs) (auto simp: unicast_mac_def)
  then have "print_mac bs \<noteq> []" by auto
  with u print_mac_clean [of bs] parse_print_mac [of bs] show ?thesis
    by (auto simp: normalize_mac_def unicast_mac_def list_all_iff)
qed

lemma length_join: "length (join_with [c] ps) \<le> sum_list (map length ps) + length ps"
  by (induction "[c]" ps rule: join_with.induct) auto

lemma length_print_ipv4: "wf_ipv4 f \<Longrightarrow> length (print_ipv4 f) \<le> 16"
proof -
  assume wf: "wf_ipv4 f"
  then obtain a b c d where f: "f = [a, b, c, d]" and "a < 256" "b < 256" "c < 256" "d < 256"
    by (auto simp: wf_ipv4_def numeral_eq_Suc length_Suc_conv)
  then have "length (itoa a) \<le> 3" "length (itoa b) \<le> 3" "length (itoa c) \<le> 3" "length (itoa d) \<le> 3"
    by (auto intro!: length_itoa_le)
  with length_join [of "CHR ''.''" "map itoa f"] f show ?thesis by (simp add: print_ipv4_def)
qed

lemma normalize_destination_ok:
  "normalize_destination v = Inr d \<Longrightarrow> \<exists>f. wf_ipv4 f \<and> d = print_ipv4 f"
  by (auto simp: normalize_destination_def Let_def split: if_splits option.splits
      dest: ipv4.parse_wf)

lemma print_ipv4_nonempty: "wf_ipv4 f \<Longrightarrow> print_ipv4 f \<noteq> []"
proof
  assume "wf_ipv4 f" "print_ipv4 f = []"
  with parse_print_ipv4 [of f] show False by (simp add: parse_ipv4_def)
qed

lemma normalize_destination_print:
  "wf_ipv4 f \<Longrightarrow> normalize_destination (print_ipv4 f) = Inr (print_ipv4 f)"
  using length_print_ipv4 [of f] print_ipv4_clean [of f] ipv4.parse_print [of f] print_ipv4_nonempty [of f]
  by (simp add: normalize_destination_def max_destination_size_def)

lemma normalize_mac_idem: "normalize_mac v = Inr m \<Longrightarrow> normalize_mac m = Inr m"
  using normalize_mac_ok normalize_mac_print by blast

lemma normalize_destination_idem:
  "normalize_destination v = Inr d \<Longrightarrow> normalize_destination d = Inr d"
  using normalize_destination_ok normalize_destination_print by blast

section \<open>The packet\<close>

text \<open>The standard layout: six FF bytes, then sixteen copies of the address.\<close>

definition magic_bytes :: "nat list \<Rightarrow> nat list" where
  "magic_bytes a = replicate 6 255 @ concat (replicate 16 a)"

lemma copy_fill:
  assumes "length a = 6" and "k \<le> 16"
  shows "foldl (\<lambda>p rep. copy_at (6 + rep * 6) a p) (replicate 6 x @ replicate 96 y) [0..<k]
     = replicate 6 x @ concat (replicate k a) @ replicate (96 - 6 * k) y"
  using assms(2)
proof (induction k)
  case 0
  then show ?case by simp
next
  case (Suc k)
  have len: "length (concat (replicate k a)) = 6 * k"
    using assms(1) by (simp add: length_concat sum_list_replicate)
  have split: "replicate (96 - 6 * k) y = replicate 6 y @ replicate (90 - 6 * k) y"
    using Suc.prems by (simp add: replicate_add [symmetric])
  have "concat (replicate (Suc k) a) = concat (replicate k a) @ a"
    by (induction k) auto
  with Suc assms(1) len show ?case
    by (simp add: copy_at_def split add.commute)
qed

lemma magic_packet_layout:
  assumes "parse_mac mac = Some a" and "length a = 6"
  shows "magic_packet mac = magic_bytes a"
proof -
  have "foldl (\<lambda>p rep. copy_at (6 + rep * 6) a p) (replicate 6 255 @ replicate 96 0) [0..<16]
      = replicate 6 255 @ concat (replicate 16 a) @ replicate (96 - 6 * 16) 0"
    by (rule copy_fill) (simp_all add: assms(2))
  with assms(1) show ?thesis by (simp add: magic_packet_def magic_bytes_def)
qed

section \<open>The boundary contract\<close>

type_synonym wol_view = "string \<times> string \<times> int \<times> string list"

definition wol_exported :: "wol_plan \<Rightarrow> wol_view" where
  "wol_exported p = (wol_mac p, wol_destination p, wol_port p, wol_plan_warnings p)"

definition wol_tamper :: "wol_view \<Rightarrow> wol_plan \<Rightarrow> wol_plan" where
  "wol_tamper v p =
     (case v of (m, d, n, ws) \<Rightarrow>
        p\<lparr>wol_mac := m, wol_destination := d, wol_port := n, wol_plan_warnings := ws\<rparr>)"

text \<open>Two views order the same handoff when their normal forms and ports agree.\<close>

definition wol_agrees :: "wol_view \<Rightarrow> wol_view \<Rightarrow> bool" where
  "wol_agrees v w =
     (case (v, w) of ((m, d, n, _), (m', d', n', _)) \<Rightarrow>
        normalize_mac m = Inr m' \<and> normalize_destination d = Inr d' \<and> n = n')"

lemma wol_build_plan_ok:
  "wol_build_plan r = Inr p \<longleftrightarrow>
     (\<exists>m d. normalize_mac (wol_req_mac r) = Inr m \<and> normalize_destination (wol_req_destination r) = Inr d \<and>
        1 \<le> wol_req_port r \<and> wol_req_port r \<le> 65535 \<and>
        wol_physical_host_confirmed r \<and> wol_accept_unverified_handoff r \<and>
        p = \<lparr>wol_mac = m, wol_destination = d, wol_port = wol_req_port r,
             wol_plan_warnings = wol_warnings, wol_validated = True,
             wol_private_mac = m, wol_private_destination = d, wol_private_port = wol_req_port r,
             wol_packet = magic_packet m, wol_packet_binding = magic_packet m,
             wol_request_binding = (m, d, wol_req_port r)\<rparr>)"
  unfolding wol_build_plan_def bind_result_ok by (auto simp: not_less split: if_splits)

lemma wol_guard_ok:
  "wol_guard p = Inr () \<longleftrightarrow>
     wol_validated p \<and>
     wol_request_binding p = (wol_private_mac p, wol_private_destination p, wol_private_port p) \<and>
     normalize_mac (wol_mac p) = Inr (wol_private_mac p) \<and>
     normalize_destination (wol_destination p) = Inr (wol_private_destination p) \<and>
     wol_port p = wol_private_port p \<and> 1 \<le> wol_port p \<and> wol_port p \<le> 65535 \<and>
     wol_packet p = wol_packet_binding p \<and> wol_packet p = magic_packet (wol_private_mac p)"
  by (auto simp: wol_guard_def split: prod.splits sum.splits)

interpretation wol: complete_boundary wol_build_plan wol_exported wol_tamper wol_validated wol_guard wol_agrees
proof unfold_locales
  fix r p v assume "wol_build_plan r = Inr p" and "wol_guard (wol_tamper v p) = Inr ()"
  then show "wol_agrees v (wol_exported p)"
    by (auto simp: wol_build_plan_ok wol_guard_ok wol_agrees_def wol_exported_def wol_tamper_def
        split: prod.splits)
next
  fix r p assume "wol_build_plan r = Inr p"
  then show "wol_guard p = Inr ()"
    by (auto simp: wol_build_plan_ok wol_guard_ok dest: normalize_mac_idem normalize_destination_idem)
qed (auto simp: wol_exported_def wol_tamper_def wol_guard_ok split: prod.splits)

section \<open>Properties\<close>

text \<open>Normalising a MAC address or a destination is idempotent, and the normal form is the
  printed form of what was parsed: six octets, not all zero, with the group bit clear, and a
  dotted quad (also when the destination was an IPv6 literal mapping one).\<close>

theorem wol_normal_forms:
  "(normalize_mac v = Inr m \<longrightarrow>
      normalize_mac m = Inr m \<and> (\<exists>bs. unicast_mac bs \<and> parse_mac v = Some bs \<and> m = print_mac bs)) \<and>
   (normalize_destination d = Inr n \<longrightarrow>
      normalize_destination n = Inr n \<and> (\<exists>f. wf_ipv4 f \<and> n = print_ipv4 f))"
  using normalize_mac_idem normalize_mac_ok normalize_destination_idem normalize_destination_ok
  by blast

theorem wol_normal_forms_witness:
  "normalize_mac ''00-1A-2B-3C-4D-5E'' = Inr ''00:1a:2b:3c:4d:5e'' \<and>
   normalize_mac ''00:1a:2b:3c:4d:5e'' = Inr ''00:1a:2b:3c:4d:5e'' \<and>
   normalize_destination ''::ffff:10.0.0.7'' = Inr ''10.0.0.7'' \<and>
   normalize_destination ''10.0.0.7'' = Inr ''10.0.0.7''"
proof -
  have m: "normalize_mac ''00-1A-2B-3C-4D-5E'' = Inr ''00:1a:2b:3c:4d:5e''" by code_simp
  have d: "normalize_destination ''::ffff:10.0.0.7'' = Inr ''10.0.0.7''" by code_simp
  show ?thesis
    using m d wol_normal_forms [of "''00-1A-2B-3C-4D-5E''" "''00:1a:2b:3c:4d:5e''"
        "''::ffff:10.0.0.7''" "''10.0.0.7''"] by blast
qed

lemma guard_packet:
  assumes "wol_guard p = Inr ()"
  shows "\<exists>a. parse_mac (wol_mac p) = Some a \<and> unicast_mac a \<and> wol_packet p = magic_bytes a"
proof -
  from assms have n: "normalize_mac (wol_mac p) = Inr (wol_private_mac p)"
    and pk: "wol_packet p = magic_packet (wol_private_mac p)"
    by (auto simp: wol_guard_ok)
  from normalize_mac_ok [OF n] obtain a where a: "unicast_mac a" "wol_private_mac p = print_mac a"
    and read: "parse_mac (wol_mac p) = Some a"
    by blast
  then have "parse_mac (wol_private_mac p) = Some a"
    by (simp add: unicast_mac_def parse_print_mac)
  from magic_packet_layout [OF this] a read pk show ?thesis by (auto simp: unicast_mac_def)
qed

lemma length_magic: "unicast_mac a \<Longrightarrow> length (magic_bytes a) = 102"
  by (simp add: magic_bytes_def unicast_mac_def length_concat sum_list_replicate)

lemma wol_execute_cases:
  assumes "wol_execute w p = (res, sent)"
  obtains (unsent) e where "res = Inl e" "sent = []"
  | (sent) d k where "wol_guard p = Inr ()" "normalize_destination (wol_destination p) = Inr d"
      "write_outcome w (wol_packet p) = Some k"
      "sent = [(d, wol_port p, take k (wol_packet p))]"
      "res = (if k \<noteq> length (wol_packet p) then Inl (Short_Write k (length (wol_packet p))) else Inr ())"
proof (cases "wol_guard p")
  case (Inl e)
  with assms show ?thesis by (intro unsent [of e]) (simp_all add: wol_execute_def)
next
  case (Inr u)
  with assms unsent sent show ?thesis
    by (auto simp: wol_execute_def split: sum.splits if_splits option.splits)
qed

text \<open>C37. Whatever plan the executor is given and whatever the network does, it sends at most one
  datagram, and only for a validated plan. The datagram goes to the dotted quad that the plan's
  destination normalises to and to the plan's port, in 1..65535, and its bytes are the first of the
  standard magic packet (six FF, then sixteen copies) of the address that the plan's own MAC text
  is read as, a unicast one. Success is reported exactly when all 102 bytes went out.\<close>

theorem wol_only_magic_packets:
  assumes "wol_execute w plan = (res, sent)"
  shows "length sent \<le> 1 \<and>
     (\<forall>(d, n, bytes) \<in> set sent.
        wol_validated plan \<and> normalize_destination (wol_destination plan) = Inr d \<and> (\<exists>f. wf_ipv4 f \<and> d = print_ipv4 f) \<and>
        n = wol_port plan \<and> 1 \<le> n \<and> n \<le> 65535 \<and>
        (\<exists>a k. parse_mac (wol_mac plan) = Some a \<and> unicast_mac a \<and>
           bytes = take k (magic_bytes a) \<and> write_outcome w (magic_bytes a) = Some k)) \<and>
     (res = Inr () \<longleftrightarrow> (\<exists>d n bytes. sent = [(d, n, bytes)] \<and> length bytes = 102 \<and>
        write_outcome w bytes = Some 102))"
  using assms
proof (cases rule: wol_execute_cases)
  case unsent
  then show ?thesis by simp
next
  case (sent d k)
  obtain a where a: "parse_mac (wol_mac plan) = Some a" "unicast_mac a" "wol_packet plan = magic_bytes a"
    using guard_packet [OF sent(1)] by blast
  have len: "length (wol_packet plan) = 102" using length_magic [OF a(2)] a(3) by simp
  have "take k (wol_packet plan) = wol_packet plan" if "length (take k (wol_packet plan)) = 102"
    using that len by simp
  then have "res = Inr () \<longleftrightarrow> (\<exists>d n bytes. sent = [(d, n, bytes)] \<and> length bytes = 102 \<and>
      write_outcome w bytes = Some 102)"
    using sent(3,4,5) len by auto
  moreover have "\<exists>f. wf_ipv4 f \<and> d = print_ipv4 f"
    using normalize_destination_ok [OF sent(2)] by blast
  moreover have "wol_validated plan" "1 \<le> wol_port plan" "wol_port plan \<le> 65535"
    using sent(1) by (simp_all add: wol_guard_ok)
  ultimately show ?thesis
    using sent(2,3,4) a by auto
qed

definition sample_request :: wol_request where
  "sample_request = \<lparr>wol_req_mac = ''00-1A-2B-3C-4D-5E'', wol_req_destination = [], wol_req_port = 9,
     wol_physical_host_confirmed = True, wol_accept_unverified_handoff = True\<rparr>"

definition sample_plan :: wol_plan where
  "sample_plan = (case wol_build_plan sample_request of Inr p \<Rightarrow> p | Inl _ \<Rightarrow> undefined)"

definition open_world :: wol_world where
  "open_world = \<lparr>wol_ctx_canceled = False, dial_fails = (\<lambda>_ _. False), has_deadline = True,
     set_deadline_fails = False, write_outcome = (\<lambda>b. Some (length b))\<rparr>"

lemma sample_normal:
  "normalize_mac ''00-1A-2B-3C-4D-5E'' = Inr ''00:1a:2b:3c:4d:5e''"
  "normalize_mac ''00:1a:2b:3c:4d:5e'' = Inr ''00:1a:2b:3c:4d:5e''"
  "normalize_destination [] = Inr ''255.255.255.255''"
  "normalize_destination ''255.255.255.255'' = Inr ''255.255.255.255''"
  by code_simp+

lemma sample_built: "wol_build_plan sample_request = Inr sample_plan"
  by (simp add: sample_plan_def wol_build_plan_def sample_request_def sample_normal)

lemma sample_guard: "wol_guard sample_plan = Inr ()"
  by (rule wol.guard_built [OF sample_built])

lemma sample_sent:
  "wol_execute open_world sample_plan =
     (Inr (), [(''255.255.255.255'', 9, wol_packet sample_plan)])"
proof -
  have "wol_destination sample_plan = ''255.255.255.255'' \<and> wol_port sample_plan = 9"
    by (simp add: sample_plan_def wol_build_plan_def sample_request_def sample_normal)
  then show ?thesis
    by (simp add: wol_execute_def sample_guard open_world_def sample_normal)
qed

theorem wol_only_magic_packets_witness:
  "wol_validated sample_plan \<and> length (wol_packet sample_plan) = 102"
  using wol_only_magic_packets [OF sample_sent] by auto



end
