(* ===== verification/Host_Endpoint.thy ===== *)
theory Host_Endpoint
  imports Go_Net
begin

text \<open>
  The host part of \<open>internal/config/config.go\<close>: \<open>ParseHostEndpoint\<close> with its port and zone
  parsers, \<open>ValidateHost\<close> and \<open>ValidateAppName\<close>. Both the configuration and the Moonlight
  launcher (\<open>internal/remote\<close>) call them.
\<close>

section \<open>Errors and results\<close>

datatype host_error =
    Host_Encoding | Host_Control | Host_Surrounding_Space | Host_Too_Long | Host_Not_A_Name
  | Bracket_Not_Closed | Bracket_Suffix | Invalid_Port | Brackets_Only_For_IPv6 | Invalid_Zone
  | Invalid_IPv6 | Invalid_Label | Invalid_DNS_Character

datatype app_error =
    App_Empty | App_Encoding | App_Surrounding_Space | App_Option_Like | App_Too_Long | App_Control

record host_endpoint =
  endpoint_address :: string
  endpoint_port :: nat

abbreviation host_endpoint_of :: "string \<Rightarrow> nat \<Rightarrow> host_endpoint" where
  "host_endpoint_of a p \<equiv> \<lparr>endpoint_address = a, endpoint_port = p\<rparr>"

section \<open>The parsers\<close>

definition parse_host_endpoint_port :: "string \<Rightarrow> host_error + nat" where
  "parse_host_endpoint_port value =
     (if value = [] \<or> 5 < length value \<or> \<not> all_digits value then Inl Invalid_Port
      else
        (case atoi value of
           None \<Rightarrow> Inl Invalid_Port
         | Some port \<Rightarrow>
             if port < 1 \<or> 65535 < port \<or> itoa port \<noteq> value then Inl Invalid_Port else Inr port))"

definition decode_ipv6_zone :: "string \<Rightarrow> host_error + string" where
  "decode_ipv6_zone value =
     (case cut_at (CHR ''%'') value of
        (_, _, False) \<Rightarrow> Inr value
      | (before, after, True) \<Rightarrow>
          if take 2 after = ''25'' then
            (if CHR ''%'' \<in> set (drop 2 after) then Inl Invalid_Zone
             else Inr (before @ ''%'' @ drop 2 after))
          else if CHR ''%'' \<in> set after then Inl Invalid_Zone
          else Inr value)"

definition dns_char :: "char \<Rightarrow> bool" where
  "dns_char c \<longleftrightarrow> is_lower c \<or> is_upper c \<or> is_digit c \<or> c = CHR ''-'' \<or> c = CHR ''_''"

definition check_label :: "string \<Rightarrow> host_error + unit" where
  "check_label label =
     (if label = [] \<or> 63 < length label \<or> hd label = CHR ''-'' \<or> last label = CHR ''-''
      then Inl Invalid_Label
      else if \<not> list_all dns_char label then Inl Invalid_DNS_Character
      else Inr ())"

definition forbidden_host_chars :: string where
  "forbidden_host_chars = CHR 0x00 # ''/'' @ [CHR 0x5C] @ ''@ '' @ [CHR 0x09, CHR 0x0D, CHR 0x0A]
     @ '';&|'' @ [CHR 0x60] @ ''$<>(){}''"

definition host_text_check :: "string \<Rightarrow> host_error + unit" where
  "host_text_check host =
     first_error
       [require (host \<noteq> [] \<and> utf8_valid host) Host_Encoding,
        require (\<not> has_control host) Host_Control,
        require (trim_space host = host) Host_Surrounding_Space,
        require (length host \<le> 253) Host_Too_Long,
        require (\<not> prefix ''-'' host \<and> \<not> sublist ''://'' host \<and> \<not> contains_any host forbidden_host_chars)
          Host_Not_A_Name]"

text \<open>The address text, the port (zero when there is none) and whether brackets were used.\<close>

definition split_host :: "string \<Rightarrow> host_error + string \<times> nat \<times> bool" where
  "split_host host =
     (if prefix ''['' host then
        (case cut_at (CHR '']'') (tl host) of
           (_, _, False) \<Rightarrow> Inl Bracket_Not_Closed
         | (inner, rest, True) \<Rightarrow>
             if rest = [] then Inr (inner, 0, True)
             else if hd rest \<noteq> CHR '':'' then Inl Bracket_Suffix
             else bind_result (parse_host_endpoint_port (tl rest)) (\<lambda>port. Inr (inner, port, True)))
      else if contains_any host ''[]'' then Inl Brackets_Only_For_IPv6
      else if count_list host (CHR '':'') = 1 then
        (case cut_at (CHR '':'') host of
           (before, after, _) \<Rightarrow>
             bind_result (parse_host_endpoint_port after) (\<lambda>port. Inr (before, port, False)))
      else Inr (host, 0, False))"

definition check_address :: "string \<Rightarrow> nat \<Rightarrow> bool \<Rightarrow> host_error + host_endpoint" where
  "check_address address_text port bracketed =
     (if CHR '':'' \<in> set address_text then
        bind_result (decode_ipv6_zone address_text)
          (\<lambda>decoded.
             if is_addr6 (parse_addr decoded) then Inr (host_endpoint_of decoded port)
             else Inl Invalid_IPv6)
      else if bracketed then Inl Brackets_Only_For_IPv6
      else
        bind_result (first_error (map check_label (split_on (CHR ''.'') address_text)))
          (\<lambda>_. Inr (host_endpoint_of address_text port)))"

definition parse_host_endpoint :: "string \<Rightarrow> host_error + host_endpoint" where
  "parse_host_endpoint host =
     bind_result (host_text_check host)
       (\<lambda>_. bind_result (split_host host)
         (\<lambda>(address_text, port, bracketed). check_address address_text port bracketed))"

definition validate_host :: "string \<Rightarrow> host_error + unit" where
  "validate_host host = bind_result (parse_host_endpoint host) (\<lambda>_. Inr ())"

definition validate_app_name :: "string \<Rightarrow> app_error + unit" where
  "validate_app_name app =
     first_error
       [require (app \<noteq> []) App_Empty,
        require (utf8_valid app) App_Encoding,
        require (trim_space app = app) App_Surrounding_Space,
        require (\<not> prefix ''-'' app) App_Option_Like,
        require (length app \<le> 128) App_Too_Long,
        require (\<not> has_control app) App_Control]"

section \<open>Ports\<close>

lemma port_result_iff:
  "parse_host_endpoint_port value = Inr port \<longleftrightarrow> 1 \<le> port \<and> port \<le> 65535 \<and> value = itoa port"
proof
  assume "parse_host_endpoint_port value = Inr port"
  then show "1 \<le> port \<and> port \<le> 65535 \<and> value = itoa port"
    by (auto simp: parse_host_endpoint_port_def split: if_splits option.splits)
next
  assume p: "1 \<le> port \<and> port \<le> 65535 \<and> value = itoa port"
  then have "length value \<le> 5" using length_itoa_le [of port 5] by simp
  moreover have "port \<le> max_int" using p by (simp add: max_int_def)
  ultimately show "parse_host_endpoint_port value = Inr port"
    using p by (simp add: parse_host_endpoint_port_def atoi_itoa)
qed

section \<open>Addresses\<close>

text \<open>The bytes that cannot upset the text checks.\<close>

definition plain_host_char :: "char \<Rightarrow> bool" where
  "plain_host_char c \<longleftrightarrow> is_ascii c \<and> 32 < byte c \<and> byte c \<noteq> 127 \<and> c \<notin> set forbidden_host_chars"

lemma forbidden_host_bytes:
  "map byte forbidden_host_chars =
     [0, 47, 92, 64, 32, 9, 13, 10, 59, 38, 124, 96, 36, 60, 62, 40, 41, 123, 125]"
  by code_simp

lemma punctuation_bytes:
  "byte (CHR ''-'') = 45" "byte (CHR ''_'') = 95" "byte (CHR ''.'') = 46" "byte (CHR '':'') = 58"
  "byte (CHR ''['') = 91" "byte (CHR '']'') = 93"
  by code_simp+

lemma plain_host_char_intro:
  assumes "dns_char c \<or> address_char c \<or> c = CHR ''['' \<or> c = CHR '']''"
  shows "plain_host_char c"
proof -
  from assms have range: "byte c \<in> {45, 46, 58, 91, 93, 95} \<or> 48 \<le> byte c \<and> byte c \<le> 57 \<or>
      65 \<le> byte c \<and> byte c \<le> 90 \<or> 97 \<le> byte c \<and> byte c \<le> 122"
    by (auto simp: dns_char_def is_lower_def is_upper_def is_digit_def punctuation_bytes
        dest!: address_char_range)
  have "c \<notin> set forbidden_host_chars"
  proof
    assume "c \<in> set forbidden_host_chars"
    then have "byte c \<in> set (map byte forbidden_host_chars)" by auto
    with range show False unfolding forbidden_host_bytes by auto
  qed
  with range show ?thesis by (auto simp: plain_host_char_def is_ascii_def)
qed

lemma plain_not_space: "plain_host_char c \<Longrightarrow> \<not> space_byte c"
  using space_byte_range [of c] by (auto simp: plain_host_char_def is_ascii_def)

lemma host_text_check_plain:
  assumes "s \<noteq> []" "list_all plain_host_char s" "hd s \<noteq> CHR ''-''" "length s \<le> 253"
  shows "host_text_check s = Inr ()"
proof -
  have ascii: "list_all is_ascii s" using assms(2) by (auto simp: list_all_iff plain_host_char_def)
  have "\<not> has_control s"
    using assms(2) by (auto simp: has_control_ascii [OF ascii] list_all_iff list_ex_iff plain_host_char_def)
  moreover have "trim_space s = s"
    using assms(1,2) by (intro trim_space_clean) (auto simp: list_all_iff plain_not_space)
  moreover have free: "set s \<inter> set forbidden_host_chars = {}"
    using assms(2) by (auto simp: list_all_iff plain_host_char_def)
  moreover have "\<not> sublist ''://'' s"
  proof
    assume "sublist ''://'' s"
    then have "CHR ''/'' \<in> set s" by (auto simp: sublist_def)
    moreover have "CHR ''/'' \<in> set forbidden_host_chars" by (simp add: forbidden_host_chars_def)
    ultimately show False using free by blast
  qed
  moreover have "\<not> prefix ''-'' s" using assms(1,3) by (cases s) auto
  ultimately show ?thesis
    using assms(1,4) utf8_valid_ascii [OF ascii]
    by (simp add: host_text_check_def contains_any_iff del: first_error.simps(2))
qed

lemma dns_char_facts: "dns_char c \<Longrightarrow> c \<noteq> CHR '':'' \<and> c \<noteq> CHR ''['' \<and> c \<noteq> CHR '']'' \<and> c \<noteq> CHR ''%''"
  by (auto simp: dns_char_def is_lower_def is_upper_def is_digit_def byte_def)

text \<open>The two shapes of an accepted address.\<close>

definition dns_name :: "string \<Rightarrow> bool" where
  "dns_name a \<longleftrightarrow> first_error (map check_label (split_on (CHR ''.'') a)) = Inr ()"

lemma dns_name_chars: "dns_name a \<Longrightarrow> a \<noteq> [] \<and> hd a \<noteq> CHR ''-'' \<and> (\<forall>c \<in> set a. dns_char c \<or> c = CHR ''.'')"
proof -
  assume d: "dns_name a"
  obtain l ls where ls: "split_on (CHR ''.'') a = l # ls"
    using split_on_nonempty by (cases "split_on (CHR ''.'') a") auto
  have labels: "\<forall>l \<in> set (l # ls). l \<noteq> [] \<and> hd l \<noteq> CHR ''-'' \<and> list_all dns_char l"
    using d unfolding dns_name_def ls first_error_map_ok
    by (auto simp: check_label_def split: if_splits)
  have a: "a = join_with ''.'' (l # ls)" using join_split [of "CHR ''.''" a] ls by simp
  have "\<forall>c \<in> set (join_with ''.'' ks). dns_char c \<or> c = CHR ''.''"
    if "\<forall>l \<in> set ks. list_all dns_char l" for ks
    using that by (induction "''.''" ks rule: join_with.induct) (auto simp: list_all_iff)
  from this [of "l # ls"] have "\<forall>c \<in> set a. dns_char c \<or> c = CHR ''.''" using labels a by auto
  moreover have "a \<noteq> [] \<and> hd a = hd l" using a labels by (cases ls) auto
  ultimately show ?thesis using labels by auto
qed

lemma check_address_ok:
  "check_address t p b = Inr e \<longleftrightarrow>
     (CHR '':'' \<in> set t \<and>
        (\<exists>a. decode_ipv6_zone t = Inr a \<and> is_addr6 (parse_addr a) \<and> e = host_endpoint_of a p)) \<or>
     (CHR '':'' \<notin> set t \<and> \<not> b \<and> dns_name t \<and> e = host_endpoint_of t p)"
  by (auto simp: check_address_def dns_name_def bind_result_ok)

lemma decode_zone_free:
  assumes "CHR ''%'' \<notin> set t"
  shows "decode_ipv6_zone t = Inr t"
proof -
  have "cut_at (CHR ''%'') t = (t, [], False)" using assms by (simp add: cut_at_missing)
  then show ?thesis by (simp add: decode_ipv6_zone_def)
qed

lemma decode_zone_id:
  assumes "decode_ipv6_zone t = Inr a" "CHR ''%'' \<notin> set a"
  shows "t = a"
  using assms
  by (auto simp: decode_ipv6_zone_def cut_at_missing cut_at_found split: prod.splits bool.splits if_splits)

text \<open>How an endpoint is written: the address, in brackets where asked, and the port.\<close>

definition print_endpoint :: "bool \<Rightarrow> host_endpoint \<Rightarrow> string" where
  "print_endpoint bracketed e =
     (if bracketed then ''['' @ endpoint_address e @ '']'' else endpoint_address e) @
     (if endpoint_port e = 0 then '''' else '':'' @ itoa (endpoint_port e))"

definition endpoint_ok :: "host_endpoint \<Rightarrow> bool" where
  "endpoint_ok e \<longleftrightarrow> endpoint_port e \<le> 65535 \<and>
     (dns_name (endpoint_address e) \<or>
      CHR '':'' \<in> set (endpoint_address e) \<and> is_addr6 (parse_addr (endpoint_address e)))"

lemma split_host_ok:
  assumes "split_host h = Inr (t, p, b)"
  shows "p \<le> 65535 \<and> h = print_endpoint b (host_endpoint_of t p) \<and>
    (\<not> b \<longrightarrow> count_list t (CHR '':'') \<noteq> 1 \<and> CHR ''['' \<notin> set t \<and> (p \<noteq> 0 \<longrightarrow> CHR '':'' \<notin> set t)) \<and>
    (b \<longrightarrow> CHR '']'' \<notin> set t)"
proof (cases "prefix ''['' h")
  case True
  then obtain u where u: "h = CHR ''['' # u" by (auto simp: prefix_def)
  obtain inner rest found where c: "cut_at (CHR '']'') u = (inner, rest, found)" by (cases "cut_at (CHR '']'') u")
  with assms u have f: "found" by (auto simp: split_host_def split: bool.splits)
  with c u have h: "h = ''['' @ inner @ '']'' @ rest" "CHR '']'' \<notin> set inner"
    by (auto simp: cut_at_found)
  from assms u c f consider "rest = []" "t = inner" "p = 0" "b"
    | q where "rest = CHR '':'' # q" "parse_host_endpoint_port q = Inr p" "t = inner" "b"
    by (cases rest) (auto simp: split_host_def bind_result_ok split: if_splits)
  then show ?thesis
    by cases (use h in \<open>auto simp: print_endpoint_def simp: port_result_iff\<close>)
next
  case False
  with assms have "\<not> contains_any h ''[]''" by (auto simp: split_host_def split: if_splits)
  then have free: "CHR ''['' \<notin> set h" by (auto simp: contains_any_iff)
  show ?thesis
  proof (cases "count_list h (CHR '':'') = 1")
    case True
    obtain x y f where c: "cut_at (CHR '':'') h = (x, y, f)" by (cases "cut_at (CHR '':'') h")
    have "f" using c True by (cases f) (auto simp: cut_at_missing count_list_0_iff)
    with c have h: "h = x @ CHR '':'' # y" "CHR '':'' \<notin> set x" by (auto simp: cut_at_found)
    from assms False True c have "parse_host_endpoint_port y = Inr p" "t = x" "\<not> b"
      by (auto simp: split_host_def bind_result_ok split: if_splits)
    then show ?thesis
      using h free by (auto simp: print_endpoint_def count_list_0_iff simp: port_result_iff)
  next
    case c: False
    with assms False have "t = h" "p = 0" "\<not> b" by (auto simp: split_host_def split: if_splits)
    then show ?thesis using c free by (simp add: print_endpoint_def)
  qed
qed

lemma split_host_bracketed:
  assumes "CHR '']'' \<notin> set a" "p \<le> 65535"
  shows "split_host (print_endpoint True (host_endpoint_of a p)) = Inr (a, p, True)"
proof -
  have cut: "cut_at (CHR '']'') (a @ CHR '']'' # rest) = (a, rest, True)" for rest
    using assms(1) by (simp add: cut_at_found)
  show ?thesis
    using assms(2) cut [of "[]"] cut [of "CHR '':'' # itoa p"] port_result_iff [of "itoa p" p]
    by (auto simp: split_host_def print_endpoint_def)
qed

lemma split_host_plain:
  assumes "CHR ''['' \<notin> set a" "CHR '']'' \<notin> set a" "p \<le> 65535"
    and "if p = 0 then count_list a (CHR '':'') \<noteq> 1 else CHR '':'' \<notin> set a"
  shows "split_host (print_endpoint False (host_endpoint_of a p)) = Inr (a, p, False)"
proof (cases "p = 0")
  case True
  with assms show ?thesis
    by (cases a) (auto simp: split_host_def print_endpoint_def contains_any_iff)
next
  case False
  let ?h = "a @ CHR '':'' # itoa p"
  have digits: "c \<in> set (itoa p) \<Longrightarrow> is_digit c" for c
    using itoa_digits [of p] by (auto simp: list_all_iff)
  have nd: "\<not> is_digit (CHR '':'')" "\<not> is_digit (CHR ''['')" "\<not> is_digit (CHR '']'')"
    by code_simp+
  have "count_list ?h (CHR '':'') = 1"
    using assms(4) False digits nd by (auto simp: count_list_0_iff)
  moreover have "\<not> contains_any ?h ''[]''"
    using assms(1,2) digits nd by (auto simp: contains_any_iff)
  moreover have "\<not> prefix ''['' ?h" using assms(1) by (cases a) auto
  moreover have "cut_at (CHR '':'') ?h = (a, itoa p, True)"
    using assms(4) False by (simp add: cut_at_found)
  moreover have "parse_host_endpoint_port (itoa p) = Inr p"
    using port_result_iff [of "itoa p" p] assms(3) False by simp
  ultimately show ?thesis
    using False by (simp add: split_host_def print_endpoint_def)
qed

lemma endpoint_address_chars:
  assumes "endpoint_ok e" "CHR ''%'' \<notin> set (endpoint_address e)"
  shows "endpoint_address e \<noteq> [] \<and> hd (endpoint_address e) \<noteq> CHR ''-'' \<and>
    (\<forall>c \<in> set (endpoint_address e). dns_char c \<or> address_char c) \<and>
    (if CHR '':'' \<in> set (endpoint_address e)
     then 2 \<le> count_list (endpoint_address e) (CHR '':'') \<and> is_addr6 (parse_addr (endpoint_address e))
     else dns_name (endpoint_address e))"
proof (cases "dns_name (endpoint_address e)")
  case True
  have "\<not> dns_char (CHR '':'')" using dns_char_facts by blast
  with dns_name_chars [OF True] True show ?thesis by (auto simp: address_char_def)
next
  case False
  with assms(1) have c: "CHR '':'' \<in> set (endpoint_address e)"
    and a: "is_addr6 (parse_addr (endpoint_address e))" by (auto simp: endpoint_ok_def)
  note t = is_addr6_text [OF a assms(2)]
  have "\<not> address_char (CHR ''-'')" by code_simp
  with t c have "hd (endpoint_address e) \<noteq> CHR ''-''"
    by (cases "endpoint_address e") auto
  with t c a show ?thesis by (auto simp: list_all_iff)
qed

lemma parse_printed_endpoint:
  assumes ok: "endpoint_ok e" "CHR ''%'' \<notin> set (endpoint_address e)"
    and len: "length (print_endpoint b e) \<le> 253"
    and form: "if CHR '':'' \<in> set (endpoint_address e) then b \<or> endpoint_port e = 0 else \<not> b"
  shows "parse_host_endpoint (print_endpoint b e) = Inr e"
proof -
  let ?a = "endpoint_address e" and ?p = "endpoint_port e"
  have e: "e = host_endpoint_of ?a ?p" by simp
  note chars = endpoint_address_chars [OF ok]
  have "\<not> dns_char (CHR ''['') \<and> \<not> address_char (CHR ''['')"
    "\<not> dns_char (CHR '']'') \<and> \<not> address_char (CHR '']'')" by code_simp+
  with chars have brackets: "CHR ''['' \<notin> set ?a" "CHR '']'' \<notin> set ?a" by blast+
  have port: "?p \<le> 65535" using ok(1) by (simp add: endpoint_ok_def)
  have split: "split_host (print_endpoint b e) = Inr (?a, ?p, b)"
  proof (cases b)
    case True
    then show ?thesis using split_host_bracketed [OF brackets(2) port] e by metis
  next
    case False
    have "if ?p = 0 then count_list ?a (CHR '':'') \<noteq> 1 else CHR '':'' \<notin> set ?a"
      using chars form False by (auto split: if_splits simp: count_list_0_iff)
    from split_host_plain [OF brackets port this] False e show ?thesis by metis
  qed
  have "c \<in> set (itoa ?p) \<Longrightarrow> address_char c" for c
    using itoa_digits [of ?p] by (auto simp: list_all_iff address_char_def is_digit_hex)
  then have "list_all plain_host_char (print_endpoint b e)"
    using chars by (auto simp: list_all_iff print_endpoint_def intro!: plain_host_char_intro)
  then have checked: "host_text_check (print_endpoint b e) = Inr ()"
    using len chars by (intro host_text_check_plain) (auto simp: print_endpoint_def)
  have "check_address ?a ?p b = Inr e"
    using chars form ok(2) decode_zone_free by (auto simp: check_address_ok split: if_splits)
  with checked split show ?thesis by (simp add: parse_host_endpoint_def)
qed

lemma parse_host_endpoint_shape:
  assumes "parse_host_endpoint h = Inr e" "CHR ''%'' \<notin> set (endpoint_address e)"
  shows "endpoint_ok e \<and> length h \<le> 253 \<and>
    (\<exists>b. h = print_endpoint b e \<and>
       (if CHR '':'' \<in> set (endpoint_address e) then b \<or> endpoint_port e = 0 else \<not> b))"
proof -
  from assms(1) obtain t p b where checked: "host_text_check h = Inr ()" and s: "split_host h = Inr (t, p, b)"
    and a: "check_address t p b = Inr e"
    by (auto simp: parse_host_endpoint_def bind_result_ok)
  note shape = split_host_ok [OF s]
  have len: "length h \<le> 253"
    using checked by (simp add: host_text_check_def del: first_error.simps(2))
  show ?thesis
  proof (cases "CHR '':'' \<in> set t")
    case True
    with a obtain u where u: "decode_ipv6_zone t = Inr u" "is_addr6 (parse_addr u)" "e = host_endpoint_of u p"
      by (auto simp: check_address_ok)
    with assms(2) have "t = u" using decode_zone_id by simp
    with u shape True len show ?thesis by (auto simp: endpoint_ok_def)
  next
    case False
    with a have "\<not> b" "dns_name t" "e = host_endpoint_of t p" by (auto simp: check_address_ok)
    with False shape len show ?thesis by (auto simp: endpoint_ok_def)
  qed
qed

lemma length_address_le: "length (endpoint_address e) \<le> length (print_endpoint b e)"
  by (simp add: print_endpoint_def)

text \<open>Endpoints without an interface zone round-trip: a text is accepted with a result
  precisely when it is that result written out (a DNS name or IPv4 address bare, an IPv6
  literal bare or in brackets, the port after a colon when there is one) within the length
  limit, for a result that is a valid address with a port up to 65535.\<close>

theorem endpoint_roundtrip:
  assumes "CHR ''%'' \<notin> set (endpoint_address e)"
  shows "parse_host_endpoint h = Inr e \<longleftrightarrow>
    endpoint_ok e \<and> length h \<le> 253 \<and>
    (\<exists>b. h = print_endpoint b e \<and>
       (if CHR '':'' \<in> set (endpoint_address e) then b \<or> endpoint_port e = 0 else \<not> b))"
  using parse_host_endpoint_shape [OF _ assms] parse_printed_endpoint [OF _ assms] by blast

theorem endpoint_roundtrip_witness:
  "parse_host_endpoint ''[fe80::1]:47989'' = Inr (host_endpoint_of ''fe80::1'' 47989)"
proof -
  have "endpoint_ok (host_endpoint_of ''fe80::1'' 47989) \<and> length ''[fe80::1]:47989'' \<le> 253 \<and>
      ''[fe80::1]:47989'' = print_endpoint True (host_endpoint_of ''fe80::1'' 47989)"
    by code_simp
  then have "endpoint_ok (host_endpoint_of ''fe80::1'' 47989) \<and> length ''[fe80::1]:47989'' \<le> 253 \<and>
      (\<exists>b. ''[fe80::1]:47989'' = print_endpoint b (host_endpoint_of ''fe80::1'' 47989) \<and>
        (if CHR '':'' \<in> set (endpoint_address (host_endpoint_of ''fe80::1'' 47989))
         then b \<or> endpoint_port (host_endpoint_of ''fe80::1'' 47989) = 0 else \<not> b))"
    by (auto simp del: length_Cons list.size)
  moreover have "CHR ''%'' \<notin> set (endpoint_address (host_endpoint_of ''fe80::1'' 47989))" by simp
  ultimately show ?thesis using endpoint_roundtrip by blast
qed

text \<open>The address of a parsed endpoint parses again, to itself without a port.\<close>

lemma parse_address_again:
  assumes "parse_host_endpoint h = Inr e" "CHR ''%'' \<notin> set (endpoint_address e)"
  shows "parse_host_endpoint (endpoint_address e) = Inr (host_endpoint_of (endpoint_address e) 0)"
proof -
  let ?e = "host_endpoint_of (endpoint_address e) 0"
  from parse_host_endpoint_shape [OF assms] obtain b
    where "endpoint_ok e" "length h \<le> 253" "h = print_endpoint b e" by blast
  then have "endpoint_ok ?e" "length (print_endpoint False ?e) \<le> 253"
    using length_address_le [of e b] by (auto simp: endpoint_ok_def print_endpoint_def)
  from parse_printed_endpoint [OF this(1) _ this(2)] assms(2) show ?thesis
    by (simp add: print_endpoint_def)
qed

text \<open>The address of a parsed endpoint is itself an endpoint without a port: parsing it
  again gives the same address. The Embedded launcher passes the address and the port as
  separate arguments and its execution boundary parses the address a second time.\<close>

theorem endpoint_address_fixed:
  assumes "parse_host_endpoint h = Inr e" "CHR ''%'' \<notin> set (endpoint_address e)"
  shows "parse_host_endpoint (endpoint_address e) = Inr (host_endpoint_of (endpoint_address e) 0)"
  using assms by (rule parse_address_again)

theorem endpoint_address_fixed_witness:
  "parse_host_endpoint ''gaming-pc.local'' = Inr (host_endpoint_of ''gaming-pc.local'' 0)"
proof -
  have "parse_host_endpoint ''gaming-pc.local:47989'' = Inr (host_endpoint_of ''gaming-pc.local'' 47989)"
    by code_simp
  from endpoint_address_fixed [OF this] show ?thesis by simp
qed

end
