(* ===== verification/Go_Url.thy ===== *)
theory Go_Url
  imports Go_Net
begin

text \<open>
  \<open>net/url.Parse\<close> as far as the sources look at its result: the scheme, whether the rest is
  opaque, whether there is user information, the host (with and without its port), the query
  and the fragment. The order of the cuts, the escapes and the host rules are those of the
  standard library of Go 1.25; user information is only recognised, since every caller refuses
  it whether or not it is well formed.
\<close>

section \<open>Escapes\<close>

definition is_alnum :: "char \<Rightarrow> bool" where
  "is_alnum c \<longleftrightarrow> is_lower c \<or> is_upper c \<or> is_digit c"

text \<open>The ASCII bytes that need no escape in a host or zone.\<close>

definition host_byte :: "char \<Rightarrow> bool" where
  "host_byte c \<longleftrightarrow> is_alnum c \<or> List.member (''!$&()*+,;=:[]<>-_.~'' @ [CHR 0x22, CHR 0x27]) c"

datatype escape_mode = Host_Mode | Zone_Mode | Path_Mode

definition hex_pair :: "char \<Rightarrow> char \<Rightarrow> nat option" where
  "hex_pair a b =
     (case (hex_value a, hex_value b) of (Some x, Some y) \<Rightarrow> Some (16 * x + y) | _ \<Rightarrow> None)"

definition escape_allowed :: "escape_mode \<Rightarrow> nat \<Rightarrow> bool" where
  "escape_allowed mode v =
     (case mode of
        Path_Mode \<Rightarrow> True
      | Host_Mode \<Rightarrow> 128 \<le> v \<or> v = 37
      | Zone_Mode \<Rightarrow> v = 37 \<or> v = 32 \<or> host_byte (char_of v))"

fun unescape :: "escape_mode \<Rightarrow> string \<Rightarrow> string option" where
  "unescape mode [] = Some []"
| "unescape mode (c # s) =
     (if c = CHR ''%'' then
        (case s of
           a # b # rest \<Rightarrow>
             (case hex_pair a b of
                None \<Rightarrow> None
              | Some v \<Rightarrow>
                  if escape_allowed mode v then map_option ((#) (char_of v)) (unescape mode rest) else None)
         | _ \<Rightarrow> None)
      else if mode \<noteq> Path_Mode \<and> is_ascii c \<and> \<not> host_byte c then None
      else map_option ((#) c) (unescape mode s))"

section \<open>Hosts\<close>

definition valid_optional_port :: "string \<Rightarrow> bool" where
  "valid_optional_port p \<longleftrightarrow> p = [] \<or> hd p = CHR '':'' \<and> list_all is_digit (tl p)"

text \<open>The text before and after the last occurrence of a byte.\<close>

definition cut_last :: "char \<Rightarrow> string \<Rightarrow> string \<times> string \<times> bool" where
  "cut_last c s =
     (case cut_at c (rev s) of
        (after, before, found) \<Rightarrow> if found then (rev before, rev after, True) else (s, [], False))"

text \<open>The offset of \<open>%25\<close>, where the zone of a bracketed address begins.\<close>

fun split_zone :: "string \<Rightarrow> string \<times> string" where
  "split_zone [] = ([], [])"
| "split_zone (c # s) =
     (if prefix ''%25'' (c # s) then ([], c # s)
      else (case split_zone s of (a, z) \<Rightarrow> (c # a, z)))"

definition parse_url_host :: "string \<Rightarrow> string option" where
  "parse_url_host host =
     (case cut_last (CHR ''['') host of
        (_, inside, True) \<Rightarrow>
          (case cut_last (CHR '']'') inside of
             (_, _, False) \<Rightarrow> None
           | (hostname, colon_port, True) \<Rightarrow>
               if \<not> valid_optional_port colon_port then None
               else
                 (case split_zone hostname of
                    (a, z) \<Rightarrow>
                      (case (unescape Host_Mode a, unescape Zone_Mode z) of
                         (Some a', Some z') \<Rightarrow>
                           if is_addr6 (parse_addr (a' @ z'))
                           then Some (''['' @ a' @ z' @ '']'' @ colon_port) else None
                       | _ \<Rightarrow> None)))
      | (_, _, False) \<Rightarrow>
          (case cut_last (CHR '':'') host of
             (_, port, True) \<Rightarrow>
               if list_all is_digit port then unescape Host_Mode host else None
           | (_, _, False) \<Rightarrow> unescape Host_Mode host))"

text \<open>\<open>URL.Hostname\<close>.\<close>

definition url_hostname :: "string \<Rightarrow> string" where
  "url_hostname host_port =
     (let host = (case cut_last (CHR '':'') host_port of
                    (h, p, True) \<Rightarrow> if list_all is_digit p then h else host_port
                  | (_, _, False) \<Rightarrow> host_port)
      in if prefix ''['' host \<and> suffix '']'' host then butlast (tl host) else host)"

section \<open>URLs\<close>

record parsed_url =
  url_scheme :: string
  url_opaque :: string
  url_has_user :: bool
  url_host :: string
  url_raw_query :: string
  url_fragment :: string

definition has_ctl_byte :: "string \<Rightarrow> bool" where
  "has_ctl_byte s \<longleftrightarrow> list_ex (\<lambda>c. byte c < 32 \<or> byte c = 127) s"

text \<open>\<open>getScheme\<close>, scanning from the front with the bytes passed so far: \<open>None\<close> for a missing
  scheme before a colon.\<close>

fun get_scheme :: "string \<Rightarrow> string \<Rightarrow> (string \<times> string) option" where
  "get_scheme seen [] = Some ([], seen)"
| "get_scheme seen (c # s) =
     (if is_lower c \<or> is_upper c then get_scheme (seen @ [c]) s
      else if is_digit c \<or> c = CHR ''+'' \<or> c = CHR ''-'' \<or> c = CHR ''.'' then
        (if seen = [] then Some ([], seen @ c # s) else get_scheme (seen @ [c]) s)
      else if c = CHR '':'' then (if seen = [] then None else Some (seen, s))
      else Some ([], seen @ c # s))"

definition cut_query :: "string \<Rightarrow> string \<times> string" where
  "cut_query rest =
     (if suffix ''?'' rest \<and> count_list rest (CHR ''?'') = 1 then (butlast rest, [])
      else (case cut_at (CHR ''?'') rest of (before, query, _) \<Rightarrow> (before, query)))"

definition parse_authority :: "string \<Rightarrow> (bool \<times> string) option" where
  "parse_authority authority =
     (case cut_last (CHR ''@'') authority of
        (_, host, True) \<Rightarrow> map_option (Pair True) (parse_url_host host)
      | (_, _, False) \<Rightarrow> map_option (Pair False) (parse_url_host authority))"

definition parse_hierarchy :: "string \<Rightarrow> string \<Rightarrow> string \<Rightarrow> parsed_url option" where
  "parse_hierarchy scheme rest query =
     (let mk = (\<lambda>opaque user host. \<lparr>url_scheme = scheme, url_opaque = opaque, url_has_user = user,
                  url_host = host, url_raw_query = query, url_fragment = []\<rparr>)
      in
        if \<not> prefix ''/'' rest \<and> scheme \<noteq> [] then Some (mk rest False [])
        else if \<not> prefix ''/'' rest \<and> CHR '':'' \<in> set (fst (cut_at (CHR ''/'') rest)) then None
        else if (scheme \<noteq> [] \<or> \<not> prefix ''///'' rest) \<and> prefix ''//'' rest then
          (let authority = takeWhile (\<lambda>c. c \<noteq> CHR ''/'') (drop 2 rest);
               path = dropWhile (\<lambda>c. c \<noteq> CHR ''/'') (drop 2 rest)
           in (case parse_authority authority of
                 None \<Rightarrow> None
               | Some (user, host) \<Rightarrow>
                   if unescape Path_Mode path = None then None else Some (mk [] user host)))
        else if unescape Path_Mode rest = None then None
        else Some (mk [] False []))"

definition url_parse :: "string \<Rightarrow> parsed_url option" where
  "url_parse raw =
     (case cut_at (CHR ''#'') raw of
        (u, frag, _) \<Rightarrow>
          if has_ctl_byte u then None
          else if unescape Path_Mode frag = None then None
          else if u = ''*'' then
            Some \<lparr>url_scheme = [], url_opaque = [], url_has_user = False, url_host = [],
                  url_raw_query = [], url_fragment = frag\<rparr>
          else
            (case get_scheme [] u of
               None \<Rightarrow> None
             | Some (scheme, rest) \<Rightarrow>
                 (case cut_query rest of
                    (rest', query) \<Rightarrow>
                      map_option (\<lambda>r. r\<lparr>url_fragment := frag\<rparr>)
                        (parse_hierarchy (to_lower scheme) rest' query))))"

end
