(* ===== verification/Json_Tokens.thy ===== *)
theory Json_Tokens
  imports Go_Text
begin

text \<open>
  The strict JSON layer: the duplicate-key walkers that \<open>internal/config\<close>,
  \<open>internal/compat\<close> and \<open>internal/readiness\<close> run over a document before decoding it, and
  \<open>internal/exactjson\<close>, which compares the decoded document with the destination type.
  A document is what \<open>json.Decoder.Token\<close> delivers of it: its tokens, with \<open>Bad\<close> where the
  decoder reports a syntax error.
\<close>

section \<open>Documents\<close>

datatype json_token = Delim char | Str string | Num string | Boolean bool | Null | Bad

datatype json =
    JNull | JBool bool | JNum string | JStr string | JArr "json list" | JObj "(string \<times> json) list"

fun tokens :: "json \<Rightarrow> json_token list"
  and element_tokens :: "json list \<Rightarrow> json_token list"
  and member_tokens :: "(string \<times> json) list \<Rightarrow> json_token list" where
  "tokens JNull = [Null]"
| "tokens (JBool b) = [Boolean b]"
| "tokens (JNum n) = [Num n]"
| "tokens (JStr s) = [Str s]"
| "tokens (JArr js) = Delim (CHR ''['') # element_tokens js @ [Delim (CHR '']'')]"
| "tokens (JObj ms) = Delim (CHR ''{'') # member_tokens ms @ [Delim (CHR ''}'')]"
| "element_tokens [] = []"
| "element_tokens (j # js) = tokens j @ element_tokens js"
| "member_tokens [] = []"
| "member_tokens ((k, j) # ms) = Str k # tokens j @ member_tokens ms"

text \<open>The levels of nesting below a value, and whether no object in it repeats a key.\<close>

fun nesting :: "json \<Rightarrow> nat"
  and nesting_elements :: "json list \<Rightarrow> nat"
  and nesting_members :: "(string \<times> json) list \<Rightarrow> nat" where
  "nesting (JArr js) = nesting_elements js"
| "nesting (JObj ms) = nesting_members ms"
| "nesting _ = 0"
| "nesting_elements [] = 0"
| "nesting_elements (j # js) = max (Suc (nesting j)) (nesting_elements js)"
| "nesting_members [] = 0"
| "nesting_members ((k, j) # ms) = max (Suc (nesting j)) (nesting_members ms)"

fun unique_keys :: "json \<Rightarrow> bool"
  and unique_keys_elements :: "json list \<Rightarrow> bool"
  and unique_keys_members :: "(string \<times> json) list \<Rightarrow> bool" where
  "unique_keys (JArr js) \<longleftrightarrow> unique_keys_elements js"
| "unique_keys (JObj ms) \<longleftrightarrow> distinct (map fst ms) \<and> unique_keys_members ms"
| "unique_keys _ \<longleftrightarrow> True"
| "unique_keys_elements [] \<longleftrightarrow> True"
| "unique_keys_elements (j # js) \<longleftrightarrow> unique_keys j \<and> unique_keys_elements js"
| "unique_keys_members [] \<longleftrightarrow> True"
| "unique_keys_members ((k, j) # ms) \<longleftrightarrow> unique_keys j \<and> unique_keys_members ms"

section \<open>The duplicate-key walkers\<close>

text \<open>
  \<open>walkConfigJSON\<close>, \<open>walkJSONValue\<close> and \<open>walkJSON\<close> are one recursion with different depth
  limits; the \<open>strict_close\<close> flag says whether the closing delimiter is compared
  (the config walker takes whatever token closes the value). The mode tells which part of the
  function runs: a value at a depth, the rest of an object's members with the keys seen, the
  rest of an array's elements.
\<close>

datatype walk_error =
    Nesting_Too_Deep | Unexpected_EOF | Syntax_Error | Key_Not_String | Duplicate_Key string
  | Unexpected_Delimiter char | Malformed_Container

datatype walk_mode = Value nat | Members nat "string list" | Elements nat

definition next_token :: "json_token list \<Rightarrow> walk_error + (json_token \<times> json_token list)" where
  "next_token ts =
     (case ts of
        [] \<Rightarrow> Inl Unexpected_EOF
      | t # ts' \<Rightarrow> (if t = Bad then Inl Syntax_Error else Inr (t, ts')))"

text \<open>\<open>decoder.More()\<close>: another token is there, and it does not close a container.\<close>

definition more :: "json_token list \<Rightarrow> bool" where
  "more ts =
     (case ts of [] \<Rightarrow> False | t # _ \<Rightarrow> t \<noteq> Delim (CHR '']'') \<and> t \<noteq> Delim (CHR ''}''))"

definition close_container :: "bool \<Rightarrow> char \<Rightarrow> json_token list \<Rightarrow> walk_error + json_token list" where
  "close_container strict_close c ts =
     (case next_token ts of
        Inl e \<Rightarrow> Inl e
      | Inr (t, ts') \<Rightarrow> if strict_close \<and> t \<noteq> Delim c then Inl Malformed_Container else Inr ts')"

function (domintros) walk ::
    "nat \<Rightarrow> bool \<Rightarrow> walk_mode \<Rightarrow> json_token list \<Rightarrow> walk_error + json_token list" where
  "walk limit strict_close (Value depth) ts =
     (if limit < depth then Inl Nesting_Too_Deep
      else
        (case next_token ts of
           Inl e \<Rightarrow> Inl e
         | Inr (t, ts') \<Rightarrow>
             (case t of
                Delim c \<Rightarrow>
                  if c = CHR ''{'' then walk limit strict_close (Members depth []) ts'
                  else if c = CHR ''['' then walk limit strict_close (Elements depth) ts'
                  else Inl (Unexpected_Delimiter c)
              | _ \<Rightarrow> Inr ts')))"
| "walk limit strict_close (Members depth seen) ts =
     (if more ts then
        (case next_token ts of
           Inl e \<Rightarrow> Inl e
         | Inr (t, ts') \<Rightarrow>
             (case t of
                Str key \<Rightarrow>
                  if key \<in> set seen then Inl (Duplicate_Key key)
                  else
                    (case walk limit strict_close (Value (Suc depth)) ts' of
                       Inl e \<Rightarrow> Inl e
                     | Inr ts'' \<Rightarrow> walk limit strict_close (Members depth (key # seen)) ts'')
              | _ \<Rightarrow> Inl Key_Not_String))
      else close_container strict_close (CHR ''}'') ts)"
| "walk limit strict_close (Elements depth) ts =
     (if more ts then
        (case walk limit strict_close (Value (Suc depth)) ts of
           Inl e \<Rightarrow> Inl e
         | Inr ts' \<Rightarrow> walk limit strict_close (Elements depth) ts')
      else close_container strict_close (CHR '']'') ts)"
  by pat_completeness auto

lemma next_token_shorter: "next_token ts = Inr (t, ts') \<Longrightarrow> length ts' < length ts"
  by (auto simp: next_token_def split: list.splits if_splits)

lemma close_container_shorter: "close_container b c ts = Inr ts' \<Longrightarrow> length ts' < length ts"
  by (auto simp: close_container_def split: sum.splits if_splits prod.splits dest: next_token_shorter)

lemma walk_shorter_partial:
  "walk_dom (limit, b, m, ts) \<Longrightarrow> walk limit b m ts = Inr ts' \<Longrightarrow> length ts' < length ts"
proof (induction limit b m ts arbitrary: ts' rule: walk.pinduct)
  case (1 limit b depth ts)
  show ?case
  proof (cases "next_token ts")
    case (Inr r)
    obtain t rest where r: "r = (t, rest)" by (cases r)
    note less = next_token_shorter [OF Inr [unfolded r]]
    show ?thesis
    proof (cases t)
      case (Delim c)
      with 1 Inr r less show ?thesis
        by (auto simp: walk.psimps split: if_splits) (meson less_trans)+
    qed (use 1 Inr r less in \<open>auto simp: walk.psimps split: if_splits\<close>)
  qed (use 1 in \<open>auto simp: walk.psimps split: if_splits\<close>)
next
  case (2 limit b depth seen ts)
  show ?case
  proof (cases "more ts")
    case False
    with 2 show ?thesis by (auto simp: walk.psimps dest: close_container_shorter)
  next
    case True
    with 2(1,4) obtain key rest where t: "next_token ts = Inr (Str key, rest)" "key \<notin> set seen"
      by (auto simp: walk.psimps split: sum.splits json_token.splits if_splits prod.splits)
    note less = next_token_shorter [OF t(1)]
    from 2(1,4) True t obtain rest' where v: "walk limit b (Value (Suc depth)) rest = Inr rest'"
      and tl: "walk limit b (Members depth (key # seen)) rest' = Inr ts'"
      by (auto simp: walk.psimps split: sum.splits)
    from 2(2) [OF True t(1) refl refl t(2) v] 2(3) [OF True t(1) refl refl t(2) v tl] less
    show ?thesis by simp
  qed
next
  case (3 limit b depth ts)
  show ?case
  proof (cases "more ts")
    case False
    with 3 show ?thesis by (auto simp: walk.psimps dest: close_container_shorter)
  next
    case True
    with 3(1,4) obtain rest where v: "walk limit b (Value (Suc depth)) ts = Inr rest"
      and tl: "walk limit b (Elements depth) rest = Inr ts'"
      by (auto simp: walk.psimps split: sum.splits)
    from 3(2) [OF True v] 3(3) [OF True v tl] show ?thesis by simp
  qed
qed

termination walk
proof (relation "measures [\<lambda>(limit, b, m, ts). length ts, \<lambda>(limit, b, m, ts). case m of Elements _ \<Rightarrow> 1 | _ \<Rightarrow> 0]")
qed (auto dest: next_token_shorter walk_shorter_partial,
    metis less_trans next_token_shorter walk_shorter_partial)

section \<open>What the walkers accept\<close>

lemma next_token_simps [simp]:
  "next_token [] = Inl Unexpected_EOF"
  "next_token (t # ts) = (if t = Bad then Inl Syntax_Error else Inr (t, ts))"
  by (simp_all add: next_token_def)

definition opens_value :: "json_token \<Rightarrow> bool" where
  "opens_value t \<longleftrightarrow> t \<noteq> Bad \<and> t \<noteq> Delim (CHR '']'') \<and> t \<noteq> Delim (CHR ''}'')"

lemma tokens_open: "\<exists>t ts. tokens j = t # ts \<and> opens_value t"
  by (cases j) (auto simp: opens_value_def)

lemma more_tokens [simp]: "more (tokens j @ ts)"
  using tokens_open [of j] by (auto simp: more_def opens_value_def)

lemma more_simps [simp]:
  "more (Delim (CHR '']'') # ts) = False" "more (Delim (CHR ''}'') # ts) = False"
  "more (Str k # ts) = True" "more [] = False"
  by (simp_all add: more_def)

lemma close_simps [simp]:
  "close_container b (CHR '']'') (Delim (CHR '']'') # ts) = Inr ts"
  "close_container b (CHR ''}'') (Delim (CHR ''}'') # ts) = Inr ts"
  by (simp_all add: close_container_def)

declare walk.simps [simp del]

lemma walk_tokens:
  "walk l b (Value d) (tokens j @ ts) = Inr r \<longleftrightarrow> unique_keys j \<and> d + nesting j \<le> l \<and> r = ts"
  "d \<le> l \<Longrightarrow> walk l b (Elements d) (element_tokens js @ Delim (CHR '']'') # ts) = Inr r \<longleftrightarrow>
     unique_keys_elements js \<and> d + nesting_elements js \<le> l \<and> r = ts"
  "d \<le> l \<Longrightarrow> walk l b (Members d seen) (member_tokens ms @ Delim (CHR ''}'') # ts) = Inr r \<longleftrightarrow>
     unique_keys_members ms \<and> distinct (map fst ms) \<and> set seen \<inter> fst ` set ms = {} \<and>
     d + nesting_members ms \<le> l \<and> r = ts"
proof (induction j and js and ms arbitrary: d ts r and d ts r and d seen ts r
    rule: tokens_element_tokens_member_tokens.induct)
  case (5 js)
  show ?case
    using 5 [of d] by (auto simp: walk.simps(1))
next
  case (6 ms)
  show ?case
    using 6 [of d "[]"] by (auto simp: walk.simps(1))
next
  case (8 j js)
  note IHv = 8(1) [of "Suc d" "element_tokens js @ Delim (CHR '']'') # ts"]
  show ?case
  proof (cases "unique_keys j \<and> Suc d + nesting j \<le> l")
    case True
    then have "walk l b (Value (Suc d)) (tokens j @ element_tokens js @ Delim (CHR '']'') # ts)
        = Inr (element_tokens js @ Delim (CHR '']'') # ts)"
      using IHv by blast
    with True 8(2) [OF 8(3)] show ?thesis by (auto simp: walk.simps(3) [of l b d "tokens j @ _"])
  next
    case False
    then have "\<exists>e. walk l b (Value (Suc d)) (tokens j @ element_tokens js @ Delim (CHR '']'') # ts) = Inl e"
      using IHv by (cases "walk l b (Value (Suc d)) (tokens j @ element_tokens js @ Delim (CHR '']'') # ts)") auto
    with False show ?thesis by (auto simp: walk.simps(3) [of l b d "tokens j @ _"])
  qed
next
  case (10 k j ms)
  let ?rest = "member_tokens ms @ Delim (CHR ''}'') # ts"
  note IHv = 10(1) [of "Suc d" ?rest]
  show ?case
  proof (cases "k \<notin> set seen \<and> unique_keys j \<and> Suc d + nesting j \<le> l")
    case True
    then have "walk l b (Value (Suc d)) (tokens j @ ?rest) = Inr ?rest" using IHv by blast
    with True 10(2) [OF 10(3), of "k # seen"] show ?thesis by (auto simp: walk.simps(2))
  next
    case False
    have "\<exists>e. walk l b (Value (Suc d)) (tokens j @ ?rest) = Inl e" if "k \<notin> set seen"
      using IHv False that by (cases "walk l b (Value (Suc d)) (tokens j @ ?rest)") auto
    with False show ?thesis by (auto simp: walk.simps(2))
  qed
qed (auto simp: walk.simps)

lemma walk_members_ok:
  assumes "walk l b (Members d seen) ts = Inr r" "more ts"
  shows "\<exists>k rest. next_token ts = Inr (Str k, rest) \<and> ts = Str k # rest \<and> k \<notin> set seen"
proof (cases ts)
  case Nil
  with assms show ?thesis by simp
next
  case (Cons t rest)
  with assms have "t \<noteq> Bad" by (auto simp: walk.simps(2))
  with Cons assms have "case t of Str k \<Rightarrow> k \<notin> set seen | _ \<Rightarrow> False"
    by (cases t) (auto simp: walk.simps(2) split: if_splits)
  with Cons show ?thesis by (cases t) auto
qed

lemma walk_strict_sound:
  "walk l True m ts = Inr r \<Longrightarrow>
     (case m of
        Value d \<Rightarrow> \<exists>j. ts = tokens j @ r
      | Members d seen \<Rightarrow> \<exists>ms. ts = member_tokens ms @ Delim (CHR ''}'') # r
      | Elements d \<Rightarrow> \<exists>js. ts = element_tokens js @ Delim (CHR '']'') # r)"
proof (induction l True m ts arbitrary: r rule: walk.induct)
  case (1 l d ts)
  then obtain t ts' where t: "ts = t # ts'" "t \<noteq> Bad" and "\<not> l < d"
    by (cases ts) (auto simp: walk.simps(1) split: if_splits)
  show ?case
  proof (cases t)
    case (Delim c)
    with 1(3) t \<open>\<not> l < d\<close> consider
        "c = CHR ''{''" "walk l True (Members d []) ts' = Inr r"
      | "c = CHR ''[''" "walk l True (Elements d) ts' = Inr r"
      by (auto simp: walk.simps(1) split: if_splits)
    then show ?thesis
    proof cases
      case 1
      with "1.hyps"(1) [OF \<open>\<not> l < d\<close>, of "(t, ts')" t ts' c r] t Delim
      obtain ms where "ts' = member_tokens ms @ Delim (CHR ''}'') # r" by auto
      with t Delim \<open>c = CHR ''{''\<close> have "ts = tokens (JObj ms) @ r" by simp
      then show ?thesis by (simp only: walk_mode.case) blast
    next
      case 2
      with "1.hyps"(2) [OF \<open>\<not> l < d\<close>, of "(t, ts')" t ts' c r] t Delim
      obtain js where "ts' = element_tokens js @ Delim (CHR '']'') # r" by auto
      with t Delim \<open>c = CHR ''[''\<close> have "ts = tokens (JArr js) @ r" by simp
      then show ?thesis by (simp only: walk_mode.case) blast
    qed
  next
    case (Str s)
    with 1(3) t \<open>\<not> l < d\<close> have "ts = tokens (JStr s) @ r" by (simp add: walk.simps(1))
    then show ?thesis by (simp only: walk_mode.case) blast
  next
    case (Num s)
    with 1(3) t \<open>\<not> l < d\<close> have "ts = tokens (JNum s) @ r" by (simp add: walk.simps(1))
    then show ?thesis by (simp only: walk_mode.case) blast
  next
    case (Boolean x)
    with 1(3) t \<open>\<not> l < d\<close> have "ts = tokens (JBool x) @ r" by (simp add: walk.simps(1))
    then show ?thesis by (simp only: walk_mode.case) blast
  next
    case Null
    with 1(3) t \<open>\<not> l < d\<close> have "ts = tokens JNull @ r" by (simp add: walk.simps(1))
    then show ?thesis by (simp only: walk_mode.case) blast
  next
    case Bad
    with t show ?thesis by simp
  qed
next
  case (2 l d seen ts)
  show ?case
  proof (cases "more ts")
    case False
    with 2(3) have "ts = member_tokens [] @ Delim (CHR ''}'') # r"
      by (cases ts) (auto simp: walk.simps(2) close_container_def split: if_splits)
    then show ?thesis by (simp only: walk_mode.case) blast
  next
    case True
    with 2(3) obtain k rest where t: "next_token ts = Inr (Str k, rest)" "ts = Str k # rest" "k \<notin> set seen"
      using walk_members_ok [of l True d seen ts r] by blast
    from 2(3) True t obtain rest' where v: "walk l True (Value (Suc d)) rest = Inr rest'"
      and tl: "walk l True (Members d (k # seen)) rest' = Inr r"
      by (auto simp: walk.simps(2) [of l True d seen "Str k # rest"] split: sum.splits)
    from 2(1) [OF True t(1) refl refl t(3) v] obtain j where "rest = tokens j @ rest'" by auto
    moreover from 2(2) [OF True t(1) refl refl t(3) v tl] obtain ms
      where "rest' = member_tokens ms @ Delim (CHR ''}'') # r" by auto
    ultimately have "ts = member_tokens ((k, j) # ms) @ Delim (CHR ''}'') # r" using t by simp
    then show ?thesis by (simp only: walk_mode.case) blast
  qed
next
  case (3 l d ts)
  show ?case
  proof (cases "more ts")
    case False
    with 3(3) have "ts = element_tokens [] @ Delim (CHR '']'') # r"
      by (cases ts) (auto simp: walk.simps(3) close_container_def split: if_splits)
    then show ?thesis by (simp only: walk_mode.case) blast
  next
    case True
    with 3(3) obtain rest where v: "walk l True (Value (Suc d)) ts = Inr rest"
      and tl: "walk l True (Elements d) rest = Inr r"
      by (auto simp: walk.simps(3) [of l True d ts] split: sum.splits)
    from 3(1) [OF True v] obtain j where "ts = tokens j @ rest" by auto
    moreover from 3(2) [OF True v tl] obtain js
      where "rest = element_tokens js @ Delim (CHR '']'') # r" by auto
    ultimately have "ts = element_tokens (j # js) @ Delim (CHR '']'') # r" by simp
    then show ?thesis by (simp only: walk_mode.case) blast
  qed
qed

text \<open>C32. The streaming duplicate-key walkers decide a property of the document: with the
  closing delimiters compared, the walk succeeds exactly when the tokens begin with a JSON
  value in which no object repeats a key and which nests no deeper than the limit, and it
  stops right after that value; on the tokens of a value the config walker, which does not
  compare them, decides the same.\<close>

theorem walk_decides_unique_keys:
  "(walk l True (Value 0) ts = Inr r \<longleftrightarrow>
      (\<exists>j. ts = tokens j @ r \<and> unique_keys j \<and> nesting j \<le> l)) \<and>
   (walk l False (Value 0) (tokens j @ ts) = Inr r \<longleftrightarrow> unique_keys j \<and> nesting j \<le> l \<and> r = ts)"
proof (intro conjI iffI)
  assume w: "walk l True (Value 0) ts = Inr r"
  then obtain j where j: "ts = tokens j @ r" using walk_strict_sound [of l "Value 0" ts r] by auto
  with w walk_tokens(1) [of l True 0 j r r] show "\<exists>j. ts = tokens j @ r \<and> unique_keys j \<and> nesting j \<le> l"
    by auto
qed (auto simp: walk_tokens(1))

section \<open>Reading a value\<close>

text \<open>
  \<open>Decoder.Decode\<close> into an \<open>any\<close>: the containers still open, innermost first. A finished
  value goes into the innermost one.
\<close>

datatype frame = In_Array "json list" | In_Object "(string \<times> json) list" | At_Key "(string \<times> json) list" string

fun read_tokens :: "frame list \<Rightarrow> json_token list \<Rightarrow> (json \<times> json_token list) option"
  and deliver :: "frame list \<Rightarrow> json \<Rightarrow> json_token list \<Rightarrow> (json \<times> json_token list) option" where
  "read_tokens st [] = None"
| "read_tokens st (t # ts) =
     (case (st, t) of
        (In_Object ms # up, Str k) \<Rightarrow> read_tokens (At_Key ms k # up) ts
      | (In_Object ms # up, Delim c) \<Rightarrow> if c = CHR ''}'' then deliver up (JObj ms) ts else None
      | (In_Object ms # up, _) \<Rightarrow> None
      | (_, Str s) \<Rightarrow> deliver st (JStr s) ts
      | (_, Num n) \<Rightarrow> deliver st (JNum n) ts
      | (_, Boolean b) \<Rightarrow> deliver st (JBool b) ts
      | (_, Null) \<Rightarrow> deliver st JNull ts
      | (_, Bad) \<Rightarrow> None
      | (_, Delim c) \<Rightarrow>
          if c = CHR ''{'' then read_tokens (In_Object [] # st) ts
          else if c = CHR ''['' then read_tokens (In_Array [] # st) ts
          else (case st of
                  In_Array js # up \<Rightarrow> if c = CHR '']'' then deliver up (JArr js) ts else None
                | _ \<Rightarrow> None))"
| "deliver [] j ts = Some (j, ts)"
| "deliver (In_Array js # up) j ts = read_tokens (In_Array (js @ [j]) # up) ts"
| "deliver (At_Key ms k # up) j ts = read_tokens (In_Object (ms @ [(k, j)]) # up) ts"
| "deliver (In_Object ms # up) j ts = None"

definition read_value :: "json_token list \<Rightarrow> (json \<times> json_token list) option" where
  "read_value ts = read_tokens [] ts"

text \<open>The tokens an open stack of containers has consumed.\<close>

fun consumed :: "frame list \<Rightarrow> json_token list" where
  "consumed [] = []"
| "consumed (In_Array js # up) = consumed up @ Delim (CHR ''['') # element_tokens js"
| "consumed (In_Object ms # up) = consumed up @ Delim (CHR ''{'') # member_tokens ms"
| "consumed (At_Key ms k # up) = consumed up @ Delim (CHR ''{'') # member_tokens ms @ [Str k]"

lemma element_tokens_append [simp]: "element_tokens (js @ ks) = element_tokens js @ element_tokens ks"
  by (induction js) auto

lemma member_tokens_append [simp]: "member_tokens (ms @ ns) = member_tokens ms @ member_tokens ns"
  by (induction ms) auto

lemma read_tokens_sound:
  "read_tokens st ts = Some (j, r) \<Longrightarrow> consumed st @ ts = tokens j @ r"
  "deliver st v ts = Some (j, r) \<Longrightarrow> consumed st @ tokens v @ ts = tokens j @ r"
  by (induction st ts and st v ts rule: read_tokens_deliver.induct)
     (auto split: list.splits frame.splits json_token.splits if_splits)

definition at_value :: "frame list \<Rightarrow> bool" where
  "at_value st \<longleftrightarrow> (case st of In_Object _ # _ \<Rightarrow> False | _ \<Rightarrow> True)"

lemma at_value_simps [simp]:
  "at_value []" "at_value (In_Array js # up)" "at_value (At_Key ms k # up)"
  by (simp_all add: at_value_def)

lemma read_tokens_complete:
  "at_value st \<Longrightarrow> read_tokens st (tokens j @ ts) = deliver st j ts"
  "read_tokens (In_Array js # up) (element_tokens ks @ Delim (CHR '']'') # ts) = deliver up (JArr (js @ ks)) ts"
  "read_tokens (In_Object ms # up) (member_tokens ns @ Delim (CHR ''}'') # ts) = deliver up (JObj (ms @ ns)) ts"
proof (induction j and ks and ns arbitrary: st ts and js up ts and ms up ts
    rule: tokens_element_tokens_member_tokens.induct)
qed (auto simp: at_value_def split: list.splits frame.splits)

lemma read_value_iff: "read_value ts = Some (j, r) \<longleftrightarrow> ts = tokens j @ r"
  using read_tokens_sound(1) [of "[]" ts j r] read_tokens_complete(1) [of "[]" j r]
  by (auto simp: read_value_def)

end
