(* ===== verification/Exact_Json.thy ===== *)
theory Exact_Json
  imports Json_Tokens
begin

text \<open>
  \<open>internal/exactjson/exactjson.go\<close>: the comparison of a decoded document with the json tags
  of the type it is decoded into. A destination type is the part of \<open>reflect.Type\<close> the code
  looks at; \<open>Opaque_Type\<close> stands for the types \<open>opaqueType\<close> recognises (raw messages and the
  types with an unmarshaler of their own). Go visits the members of an object in an unspecified
  order, so which of several faults is reported is not determined by the code; the model takes
  the document's order.
\<close>

section \<open>Destination types\<close>

datatype go_type =
    Boolean_Type | String_Type | Number_Type | Bytes_Type | Slice_Of go_type | Map_Of go_type
  | Pointer_To go_type | Struct_Of "go_field list" | Opaque_Type | Any_Type
and go_field =
    Go_Field (field_name: string) (field_exported: bool) (field_anonymous: bool) (field_tag: string)
      (field_type: go_type)

record field_definition =
  destination_type :: go_type
  optional :: bool

datatype exact_error =
    Nil_Destination | Undecodable | Multiple_Values | Too_Deep string | Null_Value string
  | Not_Object string | Unknown_Field string string | Missing_Field string string | Not_Base64 string
  | Not_Array string | Not_Boolean string | Not_String string | Not_Number string
  | Ambiguous_Field string

fun strip_pointers :: "go_type \<Rightarrow> go_type" where
  "strip_pointers (Pointer_To t) = strip_pointers t"
| "strip_pointers t = t"

definition is_pointer :: "go_type \<Rightarrow> bool" where
  "is_pointer t \<longleftrightarrow> (case t of Pointer_To _ \<Rightarrow> True | _ \<Rightarrow> False)"

lemma strip_pointers_size: "size (strip_pointers t) \<le> size t"
  by (induction t rule: strip_pointers.induct) auto

text \<open>The fields of an embedded struct that is inlined.\<close>

definition embedded_fields :: "go_field \<Rightarrow> go_field list option" where
  "embedded_fields f =
     (if field_anonymous f \<and> hd (split_on (CHR '','') (field_tag f)) = ''''
      then (case strip_pointers (field_type f) of Struct_Of inner \<Rightarrow> Some inner | _ \<Rightarrow> None)
      else None)"

definition json_name :: "go_field \<Rightarrow> string" where
  "json_name f =
     (let name = hd (split_on (CHR '','') (field_tag f)) in if name = '''' then field_name f else name)"

function collect_fields ::
    "go_field list \<Rightarrow> (string \<times> field_definition) list \<Rightarrow> exact_error + (string \<times> field_definition) list" where
  "collect_fields [] known = Inr known"
| "collect_fields (f # rest) known =
     (let parts = split_on (CHR '','') (field_tag f) in
      if \<not> field_exported f \<or> hd parts = ''-'' then collect_fields rest known
      else
        (case embedded_fields f of
           Some inner \<Rightarrow>
             (case collect_fields inner known of
                Inl e \<Rightarrow> Inl e
              | Inr known' \<Rightarrow> collect_fields rest known')
         | None \<Rightarrow>
             if json_name f \<in> fst ` set known then Inl (Ambiguous_Field (json_name f))
             else collect_fields rest
               (known @ [(json_name f, \<lparr>destination_type = field_type f,
                                         optional = ''omitempty'' \<in> set (tl parts)\<rparr>)])))"
  by pat_completeness auto

lemma embedded_fields_size: "embedded_fields f = Some inner \<Longrightarrow> size_list size inner < size f"
  using strip_pointers_size [of "field_type f"]
  by (cases f) (auto simp: embedded_fields_def split: if_splits go_type.splits)

termination collect_fields
  by (relation "measure (\<lambda>(fs, _). size_list size fs)") (auto dest: embedded_fields_size)

definition fields_for :: "go_field list \<Rightarrow> exact_error + (string \<times> field_definition) list" where
  "fields_for fs = collect_fields fs []"

section \<open>The comparison\<close>

definition maximum_depth :: nat where
  "maximum_depth = 128"

definition check_required ::
    "(string \<times> field_definition) list \<Rightarrow> (string \<times> json) list \<Rightarrow> string \<Rightarrow> exact_error + unit" where
  "check_required known ms location =
     (case find (\<lambda>(name, f). name \<notin> fst ` set ms \<and> \<not> optional f) known of
        Some (name, f) \<Rightarrow> Inl (Missing_Field location name)
      | None \<Rightarrow> Inr ())"

definition validate_leaf :: "json \<Rightarrow> go_type \<Rightarrow> string \<Rightarrow> exact_error + unit" where
  "validate_leaf v t location =
     (case t of
        Bytes_Type \<Rightarrow> (case v of JStr _ \<Rightarrow> Inr () | _ \<Rightarrow> Inl (Not_Base64 location))
      | Boolean_Type \<Rightarrow> (case v of JBool _ \<Rightarrow> Inr () | _ \<Rightarrow> Inl (Not_Boolean location))
      | String_Type \<Rightarrow> (case v of JStr _ \<Rightarrow> Inr () | _ \<Rightarrow> Inl (Not_String location))
      | Number_Type \<Rightarrow> (case v of JNum _ \<Rightarrow> Inr () | _ \<Rightarrow> Inl (Not_Number location))
      | _ \<Rightarrow> Inr ())"

definition as_object :: "json \<Rightarrow> (string \<times> json) list option" where
  "as_object v = (case v of JObj ms \<Rightarrow> Some ms | _ \<Rightarrow> None)"

definition as_array :: "json \<Rightarrow> json list option" where
  "as_array v = (case v of JArr js \<Rightarrow> Some js | _ \<Rightarrow> None)"

text \<open>A decoded object keeps the last of several members of one name: an earlier one is passed
  over.\<close>

function (sequential) validate_value :: "json \<Rightarrow> go_type \<Rightarrow> string \<Rightarrow> nat \<Rightarrow> exact_error + unit"
  and validate_fields ::
    "(string \<times> json) list \<Rightarrow> (string \<times> field_definition) list \<Rightarrow> string \<Rightarrow> nat \<Rightarrow> exact_error + unit"
  and validate_entries :: "(string \<times> json) list \<Rightarrow> go_type \<Rightarrow> string \<Rightarrow> nat \<Rightarrow> exact_error + unit"
  and validate_elements :: "json list \<Rightarrow> go_type \<Rightarrow> string \<Rightarrow> nat \<Rightarrow> nat \<Rightarrow> exact_error + unit" where
  "validate_value v t location depth =
     (if maximum_depth < depth then Inl (Too_Deep location)
      else if v = JNull then (if is_pointer t then Inr () else Inl (Null_Value location))
      else
        (case strip_pointers t of
           Struct_Of fs \<Rightarrow>
             (case as_object v of
                None \<Rightarrow> Inl (Not_Object location)
              | Some ms \<Rightarrow>
                  (case fields_for fs of
                     Inl e \<Rightarrow> Inl e
                   | Inr known \<Rightarrow>
                       (case validate_fields ms known location (Suc depth) of
                          Inl e \<Rightarrow> Inl e
                        | Inr _ \<Rightarrow> check_required known ms location)))
         | Slice_Of t' \<Rightarrow>
             (case as_array v of
                None \<Rightarrow> Inl (Not_Array location)
              | Some js \<Rightarrow> validate_elements js t' location 0 (Suc depth))
         | Map_Of t' \<Rightarrow>
             (case as_object v of
                None \<Rightarrow> Inl (Not_Object location)
              | Some ms \<Rightarrow> validate_entries ms t' location (Suc depth))
         | leaf \<Rightarrow> validate_leaf v leaf location))"
| "validate_fields [] known location depth = Inr ()"
| "validate_fields ((key, child) # ms) known location depth =
     (if key \<in> fst ` set ms then validate_fields ms known location depth
      else
        (case map_of known key of
           None \<Rightarrow> Inl (Unknown_Field location key)
         | Some f \<Rightarrow>
             (case validate_value child (destination_type f) (location @ ''.'' @ key) depth of
                Inl e \<Rightarrow> Inl e
              | Inr _ \<Rightarrow> validate_fields ms known location depth)))"
| "validate_entries [] t location depth = Inr ()"
| "validate_entries ((key, child) # ms) t location depth =
     (if key \<in> fst ` set ms then validate_entries ms t location depth
      else
        (case validate_value child t (location @ ''.'' @ key) depth of
           Inl e \<Rightarrow> Inl e
         | Inr _ \<Rightarrow> validate_entries ms t location depth))"
| "validate_elements [] t location index depth = Inr ()"
| "validate_elements (child # js) t location index depth =
     (case validate_value child t (location @ ''['' @ itoa index @ '']'') depth of
        Inl e \<Rightarrow> Inl e
      | Inr _ \<Rightarrow> validate_elements js t location (Suc index) depth)"
  by pat_completeness auto

lemma as_object_Some [simp]: "as_object v = Some ms \<longleftrightarrow> v = JObj ms"
  by (auto simp: as_object_def split: json.splits)

lemma as_array_Some [simp]: "as_array v = Some js \<longleftrightarrow> v = JArr js"
  by (auto simp: as_array_def split: json.splits)

termination validate_value
  by (relation "measure (\<lambda>x. case x of
        Inl (Inl (v, _)) \<Rightarrow> size v
      | Inl (Inr (ms, _)) \<Rightarrow> size_list (size_prod (\<lambda>_. 0) size) ms
      | Inr (Inl (ms, _)) \<Rightarrow> size_list (size_prod (\<lambda>_. 0) size) ms
      | Inr (Inr (js, _)) \<Rightarrow> size_list size js)") auto

text \<open>\<open>ValidateKeys\<close>; the destination is \<open>None\<close> for a nil interface.\<close>

definition validate_keys :: "json_token list \<Rightarrow> go_type option \<Rightarrow> exact_error + unit" where
  "validate_keys ts destination =
     (case destination of
        None \<Rightarrow> Inl Nil_Destination
      | Some t \<Rightarrow>
          (case read_value ts of
             None \<Rightarrow> Inl Undecodable
           | Some (v, rest) \<Rightarrow>
               if rest \<noteq> []
               then Inl (case read_value rest of Some _ \<Rightarrow> Multiple_Values | None \<Rightarrow> Undecodable)
               else validate_value v t ''$'' 0))"

section \<open>What an accepted document looks like\<close>

text \<open>
  The contract is stated over the type as it is declared, without the code's way of collecting
  fields. A json tag is a name and options with commas between them; a field's tag gives its
  member name, the field's own name where it gives none, and the option \<open>omitempty\<close>.
\<close>

inductive tag_name :: "string \<Rightarrow> string \<Rightarrow> bool" where
  alone: "CHR '','' \<notin> set name \<Longrightarrow> tag_name name name"
| options: "CHR '','' \<notin> set name \<Longrightarrow> tag_name (name @ '','' @ options) name"

inductive omits_empty :: "string \<Rightarrow> bool" where
  last: "omits_empty (before @ '',omitempty'')"
| further: "omits_empty (before @ '',omitempty,'' @ after)"

inductive points_to :: "go_type \<Rightarrow> go_type \<Rightarrow> bool" where
  direct: "points_to t t"
| pointer: "points_to t u \<Longrightarrow> points_to (Pointer_To t) u"

text \<open>
  The members of a struct in the order of its declaration: the name, the type, and whether the
  member may be left out. An embedded struct without a name of its own stands for its members.
\<close>

inductive declares :: "go_field list \<Rightarrow> (string \<times> go_type \<times> bool) list \<Rightarrow> bool" where
  nothing: "declares [] []"
| unexported: "\<not> field_exported f \<Longrightarrow> declares fs ds \<Longrightarrow> declares (f # fs) ds"
| ignored: "tag_name (field_tag f) ''-'' \<Longrightarrow> declares fs ds \<Longrightarrow> declares (f # fs) ds"
| inlined: "field_exported f \<Longrightarrow> field_anonymous f \<Longrightarrow> tag_name (field_tag f) '''' \<Longrightarrow>
    points_to (field_type f) (Struct_Of inner) \<Longrightarrow> declares inner es \<Longrightarrow> declares fs ds \<Longrightarrow>
    declares (f # fs) (es @ ds)"
| tagged: "field_exported f \<Longrightarrow> tag_name (field_tag f) name \<Longrightarrow> name \<noteq> '''' \<Longrightarrow> name \<noteq> ''-'' \<Longrightarrow>
    declares fs ds \<Longrightarrow> declares (f # fs) ((name, field_type f, omits_empty (field_tag f)) # ds)"
| untagged: "field_exported f \<Longrightarrow> tag_name (field_tag f) '''' \<Longrightarrow>
    \<not> (field_anonymous f \<and> (\<exists>inner. points_to (field_type f) (Struct_Of inner))) \<Longrightarrow>
    declares fs ds \<Longrightarrow> declares (f # fs) ((field_name f, field_type f, omits_empty (field_tag f)) # ds)"

inductive_cases declares_ConsE: "declares (f # fs) ds"
inductive_simps declares_Nil [simp]: "declares [] ds"

text \<open>
  A value matches a type exactly when it has the type's shape, every object that stands for a
  struct has members of the declared names only (letter case included) and has all those that
  may not be left out, no name is declared twice, and the members match in turn. Null matches
  pointers only. The number bounds the nesting; of several members of one name the last counts.
\<close>

definition object_members :: "(string \<times> json) list \<Rightarrow> string \<Rightarrow> json option" where
  "object_members ms = map_of (rev ms)"

inductive exact_match :: "nat \<Rightarrow> go_type \<Rightarrow> json \<Rightarrow> bool" where
  absent: "exact_match n (Pointer_To t) JNull"
| pointer: "exact_match n t v \<Longrightarrow> exact_match n (Pointer_To t) v"
| boolean: "exact_match n Boolean_Type (JBool b)"
| string: "exact_match n String_Type (JStr s)"
| number: "exact_match n Number_Type (JNum s)"
| bytes: "exact_match n Bytes_Type (JStr s)"
| opaque: "v \<noteq> JNull \<Longrightarrow> exact_match n Opaque_Type v"
| anything: "v \<noteq> JNull \<Longrightarrow> exact_match n Any_Type v"
| slice: "\<forall>v\<in>set js. 0 < n \<and> exact_match (n - 1) t v \<Longrightarrow> exact_match n (Slice_Of t) (JArr js)"
| map_type: "\<forall>k v. object_members ms k = Some v \<longrightarrow> 0 < n \<and> exact_match (n - 1) t v \<Longrightarrow>
    exact_match n (Map_Of t) (JObj ms)"
| struct: "declares fs ds \<Longrightarrow> distinct (map fst ds) \<Longrightarrow>
    \<forall>k v. object_members ms k = Some v \<longrightarrow>
      (\<exists>t omit. (k, t, omit) \<in> set ds \<and> 0 < n \<and> exact_match (n - 1) t v) \<Longrightarrow>
    \<forall>(k, t, omit)\<in>set ds. omit \<or> object_members ms k \<noteq> None \<Longrightarrow>
    exact_match n (Struct_Of fs) (JObj ms)"

inductive_simps exact_match_shapes:
  "exact_match n Boolean_Type v" "exact_match n String_Type v" "exact_match n Number_Type v"
  "exact_match n Bytes_Type v" "exact_match n Opaque_Type v" "exact_match n Any_Type v"
  "exact_match n (Slice_Of t) v" "exact_match n (Map_Of t) v"
inductive_simps exact_match_struct_simp: "exact_match n (Struct_Of fs) v"
inductive_simps exact_match_pointer: "exact_match n (Pointer_To t) v"

section \<open>The fields the code collects are the declared ones\<close>

lemma tag_name_iff: "tag_name tag name \<longleftrightarrow> hd (split_on (CHR '','') tag) = name"
proof
  assume "tag_name tag name"
  then show "hd (split_on (CHR '','') tag) = name"
    by cases (simp_all add: split_on_free split_on_append)
next
  assume hd: "hd (split_on (CHR '','') tag) = name"
  obtain ps where ps: "split_on (CHR '','') tag = name # ps"
    using hd split_on_nonempty by (cases "split_on (CHR '','') tag") auto
  have free: "CHR '','' \<notin> set name" using split_on_no_sep [of name "CHR '',''" tag] ps by simp
  have "tag = join_with '','' (name # ps)" using join_split [of "CHR '',''" tag] ps by simp
  then show "tag_name tag name"
    using free tag_name.intros [of name] by (cases ps) auto
qed

lemma join_with_append:
  "ps \<noteq> [] \<Longrightarrow> qs \<noteq> [] \<Longrightarrow> join_with sep (ps @ qs) = join_with sep ps @ sep @ join_with sep qs"
  by (induction sep ps rule: join_with.induct) (auto simp: neq_Nil_conv)

lemma split_on_two: "split_on c (a @ c # b) = split_on c a @ split_on c b"
proof -
  have "join_with [c] (split_on c a @ split_on c b) = a @ c # b" by (simp add: join_with_append)
  moreover have "\<forall>p \<in> set (split_on c a @ split_on c b). c \<notin> set p" using split_on_no_sep by auto
  ultimately show ?thesis using split_join [of "split_on c a @ split_on c b" c] by simp
qed

lemma omits_empty_iff: "omits_empty tag \<longleftrightarrow> ''omitempty'' \<in> set (tl (split_on (CHR '','') tag))"
proof
  have word: "split_on (CHR '','') ''omitempty'' = [''omitempty'']" by code_simp
  assume "omits_empty tag"
  then show "''omitempty'' \<in> set (tl (split_on (CHR '','') tag))"
  proof cases
    case (last a)
    then have "split_on (CHR '','') tag = split_on (CHR '','') a @ [''omitempty'']"
      using split_on_two [of "CHR '',''" a "''omitempty''"] word by simp
    then show ?thesis by simp
  next
    case (further a b)
    then have "split_on (CHR '','') tag = split_on (CHR '','') a @ ''omitempty'' # split_on (CHR '','') b"
      using split_on_two [of "CHR '',''" a "''omitempty'' @ CHR '','' # b"]
        split_on_two [of "CHR '',''" "''omitempty''" b] word by simp
    then show ?thesis by simp
  qed
next
  assume "''omitempty'' \<in> set (tl (split_on (CHR '','') tag))"
  then obtain ys zs where "tl (split_on (CHR '','') tag) = ys @ ''omitempty'' # zs" by (auto dest: split_list)
  then obtain p where s: "split_on (CHR '','') tag = (p # ys) @ ''omitempty'' # zs"
    by (cases "split_on (CHR '','') tag") auto
  have "tag = join_with '','' (p # ys) @ '','' @ join_with '','' (''omitempty'' # zs)"
    using join_split [of "CHR '',''" tag] join_with_append [of "p # ys" "''omitempty'' # zs" "'',''"]
    unfolding s by simp
  then show "omits_empty tag"
    using omits_empty.intros [of "join_with '','' (p # ys)"] by (cases zs) auto
qed

lemma points_to_iff: "\<not> is_pointer u \<Longrightarrow> points_to t u \<longleftrightarrow> strip_pointers t = u"
proof
  assume "points_to t u" "\<not> is_pointer u"
  then show "strip_pointers t = u"
    by induction (auto simp: is_pointer_def split: go_type.splits)
next
  show "strip_pointers t = u \<Longrightarrow> points_to t u"
    by (induction t rule: strip_pointers.induct) (auto intro: points_to.intros)
qed

lemma points_to_struct: "points_to t (Struct_Of inner) \<longleftrightarrow> strip_pointers t = Struct_Of inner"
  by (simp add: points_to_iff is_pointer_def)

lemma embedded_fields_Some:
  "embedded_fields f = Some inner \<longleftrightarrow>
     field_anonymous f \<and> tag_name (field_tag f) '''' \<and> points_to (field_type f) (Struct_Of inner)"
  by (auto simp: embedded_fields_def tag_name_iff points_to_struct split: go_type.splits)

lemma declares_skipped:
  assumes "\<not> field_exported f \<or> tag_name (field_tag f) ''-''"
  shows "declares (f # fs) ds \<longleftrightarrow> declares fs ds"
  using assms by (auto simp: tag_name_iff elim!: declares_ConsE intro: declares.intros)

lemma declares_inlined:
  assumes "field_exported f" "embedded_fields f = Some inner"
  shows "declares (f # fs) ds \<longleftrightarrow> (\<exists>es ds'. declares inner es \<and> declares fs ds' \<and> ds = es @ ds')"
  using assms unfolding embedded_fields_Some
  by (auto simp: tag_name_iff points_to_struct elim!: declares_ConsE intro: declares.inlined)

lemma declares_named:
  assumes "field_exported f" "\<not> tag_name (field_tag f) ''-''" "embedded_fields f = None"
  shows "declares (f # fs) ds \<longleftrightarrow>
    (\<exists>ds'. declares fs ds' \<and> ds = (json_name f, field_type f, omits_empty (field_tag f)) # ds')"
proof -
  have "\<not> (field_anonymous f \<and> tag_name (field_tag f) '''' \<and> points_to (field_type f) (Struct_Of inner))" for inner
    using assms(3) embedded_fields_Some [of f inner] by simp
  with assms(1,2) show ?thesis
    by (auto simp: json_name_def tag_name_iff Let_def elim!: declares_ConsE
        intro: declares.tagged [of f "hd (split_on (CHR '','') (field_tag f))"] declares.untagged)
qed

abbreviation definition_of :: "string \<times> go_type \<times> bool \<Rightarrow> string \<times> field_definition" where
  "definition_of d \<equiv> (fst d, \<lparr>destination_type = fst (snd d), optional = snd (snd d)\<rparr>)"

lemma collect_fields_ok:
  "collect_fields fs known = Inr known' \<longleftrightarrow>
     (\<exists>ds. declares fs ds \<and> distinct (map fst ds) \<and> fst ` set known \<inter> fst ` set ds = {} \<and>
        known' = known @ map definition_of ds)"
proof (induction fs known arbitrary: known' rule: collect_fields.induct)
  case (1 known)
  then show ?case by auto
next
  case (2 f fs known)
  let ?parts = "split_on (CHR '','') (field_tag f)"
  consider (skip) "\<not> field_exported f \<or> hd ?parts = ''-''"
    | (inline) inner where "field_exported f" "hd ?parts \<noteq> ''-''" "embedded_fields f = Some inner"
    | (named) "field_exported f" "hd ?parts \<noteq> ''-''" "embedded_fields f = None"
    by (cases "embedded_fields f") auto
  then show ?case
  proof cases
    case skip
    with 2(1) [OF refl skip] declares_skipped [of f fs] show ?thesis by (simp add: tag_name_iff)
  next
    case inline
    have keep: "\<not> (\<not> field_exported f \<or> hd ?parts = ''-'')" using inline by simp
    note inner = 2(3) [OF refl keep inline(3)] and rest = 2(4) [OF refl keep inline(3)]
    have "collect_fields (f # fs) known = Inr known' \<longleftrightarrow>
        (\<exists>k. collect_fields inner known = Inr k \<and> collect_fields fs k = Inr known')"
      using keep inline(3) by (auto split: sum.splits)
    also have "\<dots> \<longleftrightarrow> (\<exists>es ds. declares inner es \<and> declares fs ds \<and> distinct (map fst (es @ ds)) \<and>
        fst ` set known \<inter> fst ` set (es @ ds) = {} \<and> known' = known @ map definition_of (es @ ds))"
    proof
      assume "\<exists>k. collect_fields inner known = Inr k \<and> collect_fields fs k = Inr known'"
      then obtain k where k: "collect_fields inner known = Inr k" "collect_fields fs k = Inr known'" by blast
      obtain es where es: "declares inner es" "distinct (map fst es)" "fst ` set known \<inter> fst ` set es = {}"
        "k = known @ map definition_of es" using inner k(1) by blast
      obtain ds where "declares fs ds" "distinct (map fst ds)" "fst ` set k \<inter> fst ` set ds = {}"
        "known' = k @ map definition_of ds" using rest [OF k(1)] k(2) by blast
      with es show "\<exists>es ds. declares inner es \<and> declares fs ds \<and> distinct (map fst (es @ ds)) \<and>
          fst ` set known \<inter> fst ` set (es @ ds) = {} \<and> known' = known @ map definition_of (es @ ds)"
        by (intro exI [of _ es] exI [of _ ds]) (auto simp: image_Un image_image)
    next
      assume "\<exists>es ds. declares inner es \<and> declares fs ds \<and> distinct (map fst (es @ ds)) \<and>
          fst ` set known \<inter> fst ` set (es @ ds) = {} \<and> known' = known @ map definition_of (es @ ds)"
      then obtain es ds where ds: "declares inner es" "declares fs ds" "distinct (map fst (es @ ds))"
        "fst ` set known \<inter> fst ` set (es @ ds) = {}" "known' = known @ map definition_of (es @ ds)" by blast
      then have k: "collect_fields inner known = Inr (known @ map definition_of es)"
        unfolding inner by (auto simp: image_Un)
      from ds have "collect_fields fs (known @ map definition_of es) = Inr known'"
        unfolding rest [OF k] by (intro exI [of _ ds]) (auto simp: image_Un image_image)
      with k show "\<exists>k. collect_fields inner known = Inr k \<and> collect_fields fs k = Inr known'" by blast
    qed
    finally show ?thesis unfolding declares_inlined [OF inline(1,3)] by blast
  next
    case named
    have keep: "\<not> (\<not> field_exported f \<or> hd ?parts = ''-'')" using named by simp
    have shape: "declares (f # fs) ds \<longleftrightarrow>
        (\<exists>ds'. declares fs ds' \<and> ds = (json_name f, field_type f, omits_empty (field_tag f)) # ds')" for ds
      using declares_named [OF named(1) _ named(3)] named(2) by (simp add: tag_name_iff)
    show ?thesis
    proof (cases "json_name f \<in> fst ` set known")
      case True
      with keep named(3) shape show ?thesis by auto
    next
      case False
      let ?d = "(json_name f, field_type f, omits_empty (field_tag f))"
      have "collect_fields (f # fs) known = Inr known' \<longleftrightarrow>
          (\<exists>ds. declares fs ds \<and> distinct (map fst ds) \<and> fst ` set (known @ [definition_of ?d]) \<inter> fst ` set ds = {} \<and>
             known' = (known @ [definition_of ?d]) @ map definition_of ds)"
        using 2(2) [OF refl keep named(3) False] keep named(3) False by (simp add: omits_empty_iff Let_def)
      also have "\<dots> \<longleftrightarrow> (\<exists>ds. declares fs ds \<and> distinct (map fst (?d # ds)) \<and>
          fst ` set known \<inter> fst ` set (?d # ds) = {} \<and> known' = known @ map definition_of (?d # ds))"
        using False by (intro ex_cong1) auto
      finally show ?thesis unfolding shape by blast
    qed
  qed
qed

lemma fields_for_ok:
  "fields_for fs = Inr known \<longleftrightarrow> (\<exists>ds. declares fs ds \<and> distinct (map fst ds) \<and> known = map definition_of ds)"
  by (simp add: fields_for_def collect_fields_ok)

section \<open>The check decides the contract\<close>

lemma strip_pointers_not_pointer [simp]: "strip_pointers t \<noteq> Pointer_To u"
  by (induction t rule: strip_pointers.induct) auto

lemma object_members_Cons:
  "object_members ((k, v) # ms) = (if k \<in> fst ` set ms then object_members ms else (object_members ms)(k \<mapsto> v))"
proof
  fix x
  show "object_members ((k, v) # ms) x =
      (if k \<in> fst ` set ms then object_members ms else (object_members ms)(k \<mapsto> v)) x"
  proof (cases "x = k")
    case True
    have "map_of (rev ms) k = None \<longleftrightarrow> k \<notin> fst ` set ms" by (simp add: map_of_eq_None_iff)
    with True show ?thesis
      by (auto simp: object_members_def map_add_def split: option.splits)
  next
    case False
    then show ?thesis by (auto simp: object_members_def map_add_def split: option.splits)
  qed
qed

lemma object_members_None [simp]: "object_members ms k = None \<longleftrightarrow> k \<notin> fst ` set ms"
  by (simp add: object_members_def map_of_eq_None_iff)

lemma object_members_Nil [simp]: "object_members [] = Map.empty"
  by (simp add: object_members_def)

lemma object_members_all_Cons:
  assumes "k \<notin> fst ` set ms"
  shows "(\<forall>k' v'. object_members ((k, v) # ms) k' = Some v' \<longrightarrow> Q k' v') \<longleftrightarrow>
    Q k v \<and> (\<forall>k' v'. object_members ms k' = Some v' \<longrightarrow> Q k' v')"
proof -
  have "object_members ms k = None" using assms by simp
  then have "object_members ms k' = Some v' \<Longrightarrow> k' \<noteq> k" for k' v' by (cases "k' = k") simp_all
  with assms show ?thesis by (simp add: object_members_Cons) blast
qed

lemma find_SomeD: "find P xs = Some x \<Longrightarrow> x \<in> set xs \<and> P x"
  by (induction xs) (auto split: if_splits)

lemma check_required_ok:
  "check_required known ms location = Inr u \<longleftrightarrow>
     (\<forall>(k, f)\<in>set known. optional f \<or> object_members ms k \<noteq> None)"
proof (cases "find (\<lambda>(name, f). name \<notin> fst ` set ms \<and> \<not> optional f) known")
  case None
  then have "\<forall>(name, f)\<in>set known. \<not> (name \<notin> fst ` set ms \<and> \<not> optional f)"
    by (auto simp: find_None_iff)
  with None show ?thesis by (simp add: check_required_def) fastforce
next
  case (Some p)
  have "p \<in> set known" "fst p \<notin> fst ` set ms" "\<not> optional (snd p)"
    using find_SomeD [OF Some] by (simp_all add: split_def)
  with Some show ?thesis by (cases p) (auto simp: check_required_def)
qed

declare validate_value.simps [simp del]

lemma validate_fields_ok:
  assumes "\<And>k v t loc. (k, v) \<in> set ms \<Longrightarrow> validate_value v t loc d = Inr () \<longleftrightarrow> P t v"
  shows "validate_fields ms known loc d = Inr () \<longleftrightarrow>
    (\<forall>k v. object_members ms k = Some v \<longrightarrow>
       (\<exists>f. map_of known k = Some f \<and> P (destination_type f) v))"
  using assms
proof (induction ms)
  case (Cons m ms)
  obtain k v where m: "m = (k, v)" by (cases m)
  have IH: "validate_fields ms known loc d = Inr () \<longleftrightarrow>
    (\<forall>k v. object_members ms k = Some v \<longrightarrow> (\<exists>f. map_of known k = Some f \<and> P (destination_type f) v))"
    by (rule Cons.IH) (use Cons.prems in auto)
  have v: "validate_value v t loc' d = Inr () \<longleftrightarrow> P t v" for t loc'
    using Cons.prems [of k v] m by simp
  show ?case
  proof (cases "k \<in> fst ` set ms")
    case True
    with IH m show ?thesis by (simp add: object_members_Cons)
  next
    case False
    let ?Q = "\<lambda>k v. \<exists>f. map_of known k = Some f \<and> P (destination_type f) v"
    have "(\<forall>k' v'. object_members (m # ms) k' = Some v' \<longrightarrow> ?Q k' v') \<longleftrightarrow>
        ?Q k v \<and> (\<forall>k' v'. object_members ms k' = Some v' \<longrightarrow> ?Q k' v')"
      using object_members_all_Cons [OF False, where Q = ?Q] m by simp
    moreover have "validate_fields (m # ms) known loc d = Inr () \<longleftrightarrow>
        ?Q k v \<and> validate_fields ms known loc d = Inr ()"
    proof (cases "map_of known k")
      case (Some f)
      with False m v [of "destination_type f" "loc @ ''.'' @ k"] show ?thesis
        by (cases "validate_value v (destination_type f) (loc @ ''.'' @ k) d") auto
    qed (use False m in simp)
    ultimately show ?thesis using IH by simp
  qed
qed simp

lemma validate_entries_ok:
  assumes "\<And>k v t loc. (k, v) \<in> set ms \<Longrightarrow> validate_value v t loc d = Inr () \<longleftrightarrow> P t v"
  shows "validate_entries ms t loc d = Inr () \<longleftrightarrow> (\<forall>k v. object_members ms k = Some v \<longrightarrow> P t v)"
  using assms
proof (induction ms)
  case (Cons m ms)
  obtain k v where m: "m = (k, v)" by (cases m)
  have IH: "validate_entries ms t loc d = Inr () \<longleftrightarrow> (\<forall>k v. object_members ms k = Some v \<longrightarrow> P t v)"
    by (rule Cons.IH) (use Cons.prems in auto)
  have v: "validate_value v t loc' d = Inr () \<longleftrightarrow> P t v" for loc'
    using Cons.prems [of k v] m by simp
  show ?case
  proof (cases "k \<in> fst ` set ms")
    case False
    have "(\<forall>k' v'. object_members (m # ms) k' = Some v' \<longrightarrow> P t v') \<longleftrightarrow>
        P t v \<and> (\<forall>k' v'. object_members ms k' = Some v' \<longrightarrow> P t v')"
      using object_members_all_Cons [OF False, where Q = "\<lambda>_. P t"] m by simp
    with False IH v m show ?thesis
      by (cases "validate_value v t (loc @ ''.'' @ k) d") auto
  qed (use IH m in \<open>simp add: object_members_Cons\<close>)
qed simp

lemma validate_elements_ok:
  assumes "\<And>v t loc. v \<in> set js \<Longrightarrow> validate_value v t loc d = Inr () \<longleftrightarrow> P t v"
  shows "validate_elements js t loc i d = Inr () \<longleftrightarrow> (\<forall>v\<in>set js. P t v)"
  using assms
proof (induction js arbitrary: i)
  case (Cons v js)
  have v: "validate_value v t loc' d = Inr () \<longleftrightarrow> P t v" for loc' using Cons.prems by simp
  have IH: "validate_elements js t loc i d = Inr () \<longleftrightarrow> (\<forall>v\<in>set js. P t v)" for i
    by (rule Cons.IH) (use Cons.prems in auto)
  show ?case
    using v [of "loc @ ''['' @ itoa i @ '']''"] IH
    by (cases "validate_value v t (loc @ ''['' @ itoa i @ '']'') d") auto
qed simp

lemma exact_match_struct:
  assumes "fields_for fs = Inr known"
  shows "exact_match n (Struct_Of fs) (JObj ms) \<longleftrightarrow>
    (\<forall>k v. object_members ms k = Some v \<longrightarrow>
      (\<exists>f. map_of known k = Some f \<and> 0 < n \<and> exact_match (n - 1) (destination_type f) v)) \<and>
    (\<forall>(k, f)\<in>set known. optional f \<or> object_members ms k \<noteq> None)"
proof -
  from assms obtain ds where ds: "declares fs ds" "distinct (map fst ds)" "known = map definition_of ds"
    unfolding fields_for_ok by blast
  have unique: "ds' = ds" if "declares fs ds'" "distinct (map fst ds')" for ds'
  proof -
    have "map definition_of ds' = map definition_of ds"
      using assms that fields_for_ok [of fs "map definition_of ds'"] by (auto simp: ds(3))
    moreover have "inj definition_of" by (auto intro: injI)
    ultimately show ?thesis by (simp add: inj_map_eq_map)
  qed
  have lookup: "map_of known k = Some f \<longleftrightarrow> (k, destination_type f, optional f) \<in> set ds" for k f
  proof -
    have "map fst known = map fst ds" by (simp add: ds(3))
    then have "map_of known k = Some f \<longleftrightarrow> (k, f) \<in> set known" using ds(2) by (simp add: map_of_eq_Some_iff)
    moreover have "(k, f) = definition_of d \<longleftrightarrow> d = (k, destination_type f, optional f)" for d
      by (cases d; cases f) auto
    then have "(k, f) \<in> set known \<longleftrightarrow> (k, destination_type f, optional f) \<in> set ds"
      unfolding ds(3) set_map image_iff by simp
    ultimately show ?thesis by simp
  qed
  have member: "(\<exists>f. map_of known k = Some f \<and> P (destination_type f)) \<longleftrightarrow> (\<exists>t omit. (k, t, omit) \<in> set ds \<and> P t)"
    for k P
  proof
    assume "\<exists>t omit. (k, t, omit) \<in> set ds \<and> P t"
    then obtain t omit where "(k, t, omit) \<in> set ds" "P t" by blast
    then show "\<exists>f. map_of known k = Some f \<and> P (destination_type f)"
      using lookup [of k "\<lparr>destination_type = t, optional = omit\<rparr>"]
      by (intro exI [of _ "\<lparr>destination_type = t, optional = omit\<rparr>"]) simp
  qed (use lookup in blast)
  have required: "(\<forall>(k, f)\<in>set known. optional f \<or> object_members ms k \<noteq> None) \<longleftrightarrow>
      (\<forall>(k, t, omit)\<in>set ds. omit \<or> object_members ms k \<noteq> None)"
    by (auto simp: ds(3) simp del: object_members_None)
  have "exact_match n (Struct_Of fs) (JObj ms) \<longleftrightarrow>
      (\<forall>k v. object_members ms k = Some v \<longrightarrow>
        (\<exists>t omit. (k, t, omit) \<in> set ds \<and> 0 < n \<and> exact_match (n - 1) t v)) \<and>
      (\<forall>(k, t, omit)\<in>set ds. omit \<or> object_members ms k \<noteq> None)"
  proof
    assume "exact_match n (Struct_Of fs) (JObj ms)"
    then have "\<exists>ds. declares fs ds \<and> distinct (map fst ds) \<and>
        (\<forall>k v. object_members ms k = Some v \<longrightarrow>
          (\<exists>t omit. (k, t, omit) \<in> set ds \<and> 0 < n \<and> exact_match (n - 1) t v)) \<and>
        (\<forall>(k, t, omit)\<in>set ds. omit \<or> object_members ms k \<noteq> None)"
      by (simp add: exact_match_struct_simp del: object_members_None)
    then obtain ds' where "declares fs ds'" "distinct (map fst ds')"
      and m: "\<forall>k v. object_members ms k = Some v \<longrightarrow>
        (\<exists>t omit. (k, t, omit) \<in> set ds' \<and> 0 < n \<and> exact_match (n - 1) t v)"
      "\<forall>(k, t, omit)\<in>set ds'. omit \<or> object_members ms k \<noteq> None" by blast
    with unique have "ds' = ds" by simp
    with m show "(\<forall>k v. object_members ms k = Some v \<longrightarrow>
        (\<exists>t omit. (k, t, omit) \<in> set ds \<and> 0 < n \<and> exact_match (n - 1) t v)) \<and>
      (\<forall>(k, t, omit)\<in>set ds. omit \<or> object_members ms k \<noteq> None)" by simp
  qed (auto intro!: exact_match.struct [OF ds(1,2)] simp del: object_members_None)
  then show ?thesis unfolding required member [of _ "\<lambda>t. 0 < n \<and> exact_match (n - 1) t _"] .
qed

lemma exact_match_null: "exact_match n t JNull \<longleftrightarrow> is_pointer t"
  by (cases t) (auto simp: is_pointer_def exact_match_shapes exact_match_struct_simp exact_match_pointer)

lemma exact_match_strip: "v \<noteq> JNull \<Longrightarrow> exact_match n t v \<longleftrightarrow> exact_match n (strip_pointers t) v"
  by (induction t rule: strip_pointers.induct) (auto simp: exact_match_pointer)

lemma validate_value_ok:
  "validate_value v t loc d = Inr () \<longleftrightarrow> d \<le> maximum_depth \<and> exact_match (maximum_depth - d) t v"
proof (induction v arbitrary: t loc d)
  case JNull
  show ?case by (auto simp: validate_value.simps exact_match_null)
next
  case (JBool b)
  have "JBool b \<noteq> JNull" by simp
  from exact_match_strip [OF this, of "maximum_depth - d" t] show ?case
    by (cases "strip_pointers t")
       (auto simp: validate_value.simps validate_leaf_def as_object_def as_array_def exact_match_shapes
         exact_match_struct_simp)
next
  case (JNum s)
  have "JNum s \<noteq> JNull" by simp
  from exact_match_strip [OF this, of "maximum_depth - d" t] show ?case
    by (cases "strip_pointers t")
       (auto simp: validate_value.simps validate_leaf_def as_object_def as_array_def exact_match_shapes
         exact_match_struct_simp)
next
  case (JStr s)
  have "JStr s \<noteq> JNull" by simp
  from exact_match_strip [OF this, of "maximum_depth - d" t] show ?case
    by (cases "strip_pointers t")
       (auto simp: validate_value.simps validate_leaf_def as_object_def as_array_def exact_match_shapes
         exact_match_struct_simp)
next
  case (JArr js)
  note elements = validate_elements_ok [of js "Suc d"
      "\<lambda>t v. Suc d \<le> maximum_depth \<and> exact_match (maximum_depth - Suc d) t v", OF JArr]
  have "JArr js \<noteq> JNull" by simp
  from exact_match_strip [OF this, of "maximum_depth - d" t] show ?case
    by (cases "strip_pointers t")
       (auto simp: validate_value.simps validate_leaf_def as_object_def as_array_def elements exact_match_shapes
         exact_match_struct_simp Suc_le_eq)
next
  case (JObj ms)
  then have IH: "(k, v) \<in> set ms \<Longrightarrow> validate_value v t loc (Suc d) = Inr () \<longleftrightarrow>
      Suc d \<le> maximum_depth \<and> exact_match (maximum_depth - Suc d) t v" for k v t loc
    by (metis snds.intros snd_conv)
  let ?P = "\<lambda>t v. Suc d \<le> maximum_depth \<and> exact_match (maximum_depth - Suc d) t v"
  have members:
    "validate_fields ms known loc (Suc d) = Inr () \<longleftrightarrow> (\<forall>k v. object_members ms k = Some v \<longrightarrow>
       (\<exists>f. map_of known k = Some f \<and> ?P (destination_type f) v))"
    "validate_entries ms t' loc (Suc d) = Inr () \<longleftrightarrow>
       (\<forall>k v. object_members ms k = Some v \<longrightarrow> ?P t' v)" for known t'
    by (rule validate_fields_ok validate_entries_ok, rule IH, assumption)+
  have "JObj ms \<noteq> JNull" by simp
  note strip = exact_match_strip [OF this, of "maximum_depth - d" t]
  show ?case
  proof (cases "strip_pointers t")
    case (Struct_Of fs)
    show ?thesis
    proof (cases "fields_for fs")
      case (Inl e)
      then have "\<not> (declares fs ds \<and> distinct (map fst ds))" for ds
        using fields_for_ok [of fs "map definition_of ds"] by auto
      with Inl Struct_Of show ?thesis
        by (auto simp: validate_value.simps as_object_def strip exact_match_struct_simp)
    next
      case (Inr known)
      with Struct_Of members(1) [of known] show ?thesis
        by (cases "validate_fields ms known loc (Suc d)")
           (auto simp: validate_value.simps as_object_def check_required_ok Suc_le_eq strip
             exact_match_struct [OF Inr] simp del: object_members_None)
    qed
  qed (auto simp: validate_value.simps validate_leaf_def as_object_def as_array_def members strip
         exact_match_shapes Suc_le_eq)
qed

text \<open>C33. The exact-key check accepts a document exactly when the document is one JSON value,
  with nothing after it, that matches the destination type as it is declared, within the depth
  limit of 128: every member of an object standing for a struct is spelled as the tag is, letter
  case included, every declared field whose tag has no \<open>omitempty\<close> is present, no name is
  declared twice, nothing but a pointer is null, and every value has the kind of its field.\<close>

theorem validate_keys_decides_exact_match:
  "validate_keys ts (Some t) = Inr () \<longleftrightarrow> (\<exists>v. ts = tokens v \<and> exact_match 128 t v)"
proof (cases "read_value ts")
  case None
  then have "ts \<noteq> tokens v" for v using read_value_iff [of ts v "[]"] by auto
  with None show ?thesis by (simp add: validate_keys_def)
next
  case (Some p)
  obtain v rest where p: "p = (v, rest)" by (cases p)
  have "ts = tokens u \<longleftrightarrow> u = v \<and> rest = []" for u
    using Some p read_value_iff [of ts u "[]"] by auto
  with Some p show ?thesis by (auto simp: validate_keys_def validate_value_ok maximum_depth_def)
qed

end
