(* ===== verification/Json_Values.thy ===== *)
theory Json_Values
  imports Exact_Json
begin

text \<open>
  Members of decoded JSON objects, numbers decoded into Go integers, and what \<open>json.Marshal\<close>
  makes of Go strings and integers.
\<close>

text \<open>A JSON number decoded into an \<open>int\<close>: \<open>strconv.ParseInt\<close> in base 10.\<close>

definition decode_int :: "string \<Rightarrow> int option" where
  "decode_int s =
     (let negative = prefix ''-'' s; digits = (if negative then tl s else s);
          v = (if negative then - int (dec_value digits) else int (dec_value digits))
      in if all_digits digits \<and> - (2 ^ 63) \<le> v \<and> v < 2 ^ 63 then Some v else None)"

definition member :: "json \<Rightarrow> string \<Rightarrow> json option" where
  "member v k = (case v of JObj ms \<Rightarrow> object_members ms k | _ \<Rightarrow> None)"

text \<open>What is written: a string is made valid UTF-8, an integer is its decimal.\<close>

definition json_string :: "string \<Rightarrow> json" where
  "json_string s = JStr (coerce_utf8 s)"

definition json_int :: "int \<Rightarrow> json" where
  "json_int n = JNum (if n < 0 then CHR ''-'' # itoa (nat (- n)) else itoa (nat n))"

text \<open>The texts that are written unchanged are those in valid UTF-8.\<close>

lemma decode_replacement: "decode_rune ([CHR 0xEF, CHR 0xBF, CHR 0xBD] @ s) = (Some 65533, 3)"
  by (simp add: decode_rune.simps is_cont_def byte_def)

lemma coerced_valid: "coerce_utf8 s = s \<Longrightarrow> utf8_valid s"
proof (induction s rule: runes.induct)
  case (1 s)
  show ?case
  proof (cases "s = []")
    case False
    obtain r n where d: "decode_rune s = (r, n)" by (cases "decode_rune s")
    show ?thesis
    proof (cases r)
      case None
      with False d 1(2) have "s = [CHR 0xEF, CHR 0xBF, CHR 0xBD] @ coerce_utf8 (drop (max 1 n) s)"
        by (simp add: coerce_utf8.simps [of s])
      with d None decode_replacement show ?thesis by (metis option.distinct(1) prod.inject)
    next
      case (Some x)
      with False d 1(2) have "take (max 1 n) s @ coerce_utf8 (drop (max 1 n) s) = take (max 1 n) s @ drop (max 1 n) s"
        by (simp add: coerce_utf8.simps [of s])
      then have "coerce_utf8 (drop (max 1 n) s) = drop (max 1 n) s" by (simp only: same_append_eq)
      with 1(1) [OF False] d Some show ?thesis by (simp add: utf8_valid_def runes.simps [of s])
    qed
  qed (simp add: utf8_valid_def runes.simps)
qed

lemma coerce_fixed_iff: "coerce_utf8 s = s \<longleftrightarrow> utf8_valid s"
  using coerced_valid coerce_utf8_valid by blast

lemma object_member_simps [simp]:
  "member (JObj ms) k = object_members ms k"
  by (simp add: member_def)

lemma decode_json_int: "- (2 ^ 63) \<le> n \<Longrightarrow> n < 2 ^ 63 \<Longrightarrow> json_int n = JNum s \<Longrightarrow> decode_int s = Some n"
proof -
  assume n: "- (2 ^ 63) \<le> n" "n < 2 ^ 63" and s: "json_int n = JNum s"
  have plain: "\<not> prefix ''-'' (itoa m)" for m
    using itoa_digits [of m] itoa_nonempty [of m] by (cases "itoa m") (auto simp: is_digit_def byte_def)
  show "decode_int s = Some n"
  proof (cases "n < 0")
    case True
    with s have "s = CHR ''-'' # itoa (nat (- n))" by (simp add: json_int_def)
    with True n show ?thesis by (simp add: decode_int_def Let_def)
  next
    case False
    with s have "s = itoa (nat n)" by (simp add: json_int_def)
    with False n plain show ?thesis by (simp add: decode_int_def Let_def)
  qed
qed

end
