(* ===== verification/Config.thy ===== *)
theory Config
  imports Host_Endpoint Go_Url Json_Values
begin

text \<open>
  \<open>internal/config/config.go\<close>: the configuration record, its routes and defaults, the KVM
  endpoint check, validation, and reading a document in the current or the legacy schema. A
  document is its token stream; the file it came from is its size and its tokens. Decoding
  follows \<open>encoding/json\<close> on the documents the exact-key check lets through, where every
  object member is spelled as its tag.
\<close>

section \<open>Data\<close>

datatype endpoint_error =
    Endpoint_Required | Endpoint_Too_Long | Endpoint_Unclean | Endpoint_Unparsable | Endpoint_Not_Absolute
  | Endpoint_Plain_Http | Endpoint_Scheme | Endpoint_Credentials | Endpoint_Query | Endpoint_Fragment

datatype config_error =
    Config_Not_Found | Config_Open | Config_Read | Config_Too_Large
  | Config_Structure walk_error | Config_Keys exact_error | Config_Decode | Config_Trailing
  | Config_Not_Object | Config_Version_Missing | Config_Version_Not_Integer
  | Config_Unsupported_Version int | Config_Legacy_Backend string
  | Config_Route string | Config_Host host_error | Config_App app_error | Config_Client string
  | Config_Endpoint endpoint_error

record remote_host =
  rh_host :: string
  rh_app :: string
  rh_client :: string
  rh_physical_host_confirmed :: bool

record kvm_config =
  kvm_endpoint :: string

record config =
  schema_version :: int
  route_id :: string
  config_remote_host :: remote_host
  config_kvm :: "kvm_config option"

record legacy_config =
  legacy_schema_version :: int
  legacy_backend :: string
  legacy_remote_windows :: remote_host

definition current_schema_version :: int where
  "current_schema_version = 2"

definition legacy_schema :: int where
  "legacy_schema = 1"

definition max_file_size :: nat where
  "max_file_size = 64 * 1024"

definition max_kvm_endpoint_size :: nat where
  "max_kvm_endpoint_size = 2048"

definition route_windows :: string where
  "route_windows = ''physical-windows-remote''"

definition route_macos :: string where
  "route_macos = ''physical-macos-remote''"

section \<open>Routes and defaults\<close>

definition default_for_route :: "string \<Rightarrow> config_error + config" where
  "default_for_route route =
     (if route = route_windows \<or> route = route_macos then
        Inr \<lparr>schema_version = current_schema_version, route_id = route,
             config_remote_host = \<lparr>rh_host = [], rh_app = ''League of Legends'', rh_client = ''auto'',
                                   rh_physical_host_confirmed = False\<rparr>,
             config_kvm = None\<rparr>
      else Inl (Config_Route route))"

definition parse_route :: "string \<Rightarrow> config_error + string" where
  "parse_route value =
     (let v = to_lower (trim_space value) in
      if v = ''windows'' \<or> v = route_windows then Inr route_windows
      else if v = ''macos'' \<or> v = route_macos then Inr route_macos
      else Inl (Config_Route value))"

definition config_route :: "config \<Rightarrow> config_error + string" where
  "config_route c =
     (if route_id c = route_windows \<or> route_id c = route_macos then Inr (route_id c)
      else Inl (Config_Route (route_id c)))"

definition active_remote :: "config \<Rightarrow> config_error + remote_host \<times> string" where
  "active_remote c = bind_result (config_route c) (\<lambda>route. Inr (config_remote_host c, route))"

text \<open>\<open>MarshalExampleForRoute\<close>, up to the printing of the record.\<close>

definition example_for_route :: "string \<Rightarrow> config_error + config" where
  "example_for_route route =
     bind_result (default_for_route route)
       (\<lambda>cfg. bind_result (active_remote cfg)
         (\<lambda>(target, _). Inr (cfg\<lparr>config_remote_host :=
            target\<lparr>rh_host := if route = route_macos then ''gaming-mac.local'' else ''gaming-pc.local''\<rparr>\<rparr>)))"

section \<open>Validation\<close>

definition validate_kvm_endpoint :: "string \<Rightarrow> bool \<Rightarrow> endpoint_error + unit" where
  "validate_kvm_endpoint endpoint allow_http =
     (if endpoint = [] then Inl Endpoint_Required
      else if max_kvm_endpoint_size < length endpoint then Inl Endpoint_Too_Long
      else if trim_space endpoint \<noteq> endpoint \<or> contains_any endpoint [CHR 0x0D, CHR 0x0A, CHR 0x09]
      then Inl Endpoint_Unclean
      else
        (case url_parse endpoint of
           None \<Rightarrow> Inl Endpoint_Unparsable
         | Some parsed \<Rightarrow>
             first_error
               [require (url_opaque parsed = [] \<and> url_host parsed \<noteq> [] \<and> url_hostname (url_host parsed) \<noteq> [])
                  Endpoint_Not_Absolute,
                (let scheme = to_lower (url_scheme parsed) in
                 if scheme = ''https'' then Inr ()
                 else if scheme = ''http'' then require allow_http Endpoint_Plain_Http
                 else Inl Endpoint_Scheme),
                require (\<not> url_has_user parsed) Endpoint_Credentials,
                require (url_raw_query parsed = []) Endpoint_Query,
                require (url_fragment parsed = []) Endpoint_Fragment]))"

definition client_names :: "string list" where
  "client_names = [''auto'', ''moonlight'', ''moonlight-embedded'', ''moonlight-qt'', ''flatpak'']"

definition validate_remote_host :: "remote_host \<Rightarrow> config_error + unit" where
  "validate_remote_host t =
     first_error
       [map_error Config_Host (validate_host (rh_host t)),
        map_error Config_App (validate_app_name (rh_app t)),
        require (List.member client_names (rh_client t)) (Config_Client (rh_client t))]"

definition validate_config :: "config \<Rightarrow> config_error + unit" where
  "validate_config c =
     first_error
       [require (schema_version c = current_schema_version) (Config_Unsupported_Version (schema_version c)),
        bind_result (config_route c) (\<lambda>_. Inr ()),
        validate_remote_host (config_remote_host c),
        (case config_kvm c of
           None \<Rightarrow> Inr ()
         | Some k \<Rightarrow> map_error Config_Endpoint (validate_kvm_endpoint (kvm_endpoint k) False))]"

section \<open>Reading a document\<close>

definition plain_field :: "string \<Rightarrow> string \<Rightarrow> go_type \<Rightarrow> go_field" where
  "plain_field name tag t = Go_Field name True False tag t"

definition remote_host_type :: go_type where
  "remote_host_type = Struct_Of
     [plain_field ''Host'' ''host'' String_Type, plain_field ''App'' ''app'' String_Type,
      plain_field ''Client'' ''client'' String_Type,
      plain_field ''PhysicalHostConfirmed'' ''physical_host_confirmed'' Boolean_Type]"

definition config_type :: go_type where
  "config_type = Pointer_To (Struct_Of
     [plain_field ''SchemaVersion'' ''schema_version'' Number_Type,
      plain_field ''RouteID'' ''route_id'' String_Type,
      plain_field ''RemoteHost'' ''remote_host'' remote_host_type,
      plain_field ''KVM'' ''kvm,omitempty''
        (Pointer_To (Struct_Of [plain_field ''Endpoint'' ''endpoint'' String_Type]))])"

definition legacy_config_type :: go_type where
  "legacy_config_type = Pointer_To (Struct_Of
     [plain_field ''SchemaVersion'' ''schema_version'' Number_Type,
      plain_field ''Backend'' ''backend'' String_Type,
      plain_field ''RemoteWindows'' ''remote_windows'' remote_host_type])"

definition get_string :: "json \<Rightarrow> string \<Rightarrow> config_error + string" where
  "get_string v k = (case member v k of Some (JStr s) \<Rightarrow> Inr s | _ \<Rightarrow> Inl Config_Decode)"

definition get_bool :: "json \<Rightarrow> string \<Rightarrow> config_error + bool" where
  "get_bool v k = (case member v k of Some (JBool b) \<Rightarrow> Inr b | _ \<Rightarrow> Inl Config_Decode)"

definition get_int :: "json \<Rightarrow> string \<Rightarrow> config_error + int" where
  "get_int v k =
     (case member v k of
        Some (JNum s) \<Rightarrow> (case decode_int s of Some n \<Rightarrow> Inr n | None \<Rightarrow> Inl Config_Decode)
      | _ \<Rightarrow> Inl Config_Decode)"

definition get_object :: "json \<Rightarrow> string \<Rightarrow> config_error + json" where
  "get_object v k = (case member v k of Some (JObj ms) \<Rightarrow> Inr (JObj ms) | _ \<Rightarrow> Inl Config_Decode)"

definition decode_remote_host :: "json \<Rightarrow> config_error + remote_host" where
  "decode_remote_host v =
     bind_result (get_string v ''host'') (\<lambda>host.
     bind_result (get_string v ''app'') (\<lambda>app.
     bind_result (get_string v ''client'') (\<lambda>client.
     bind_result (get_bool v ''physical_host_confirmed'') (\<lambda>confirmed.
       Inr \<lparr>rh_host = host, rh_app = app, rh_client = client, rh_physical_host_confirmed = confirmed\<rparr>))))"

definition decode_kvm :: "json \<Rightarrow> config_error + kvm_config option" where
  "decode_kvm v =
     (case member v ''kvm'' of
        None \<Rightarrow> Inr None
      | Some JNull \<Rightarrow> Inr None
      | Some k \<Rightarrow> bind_result (get_string k ''endpoint'') (\<lambda>e. Inr (Some \<lparr>kvm_endpoint = e\<rparr>)))"

text \<open>\<open>decodeConfig\<close> reads one value and requires the end of the document after it.\<close>

definition read_document :: "json_token list \<Rightarrow> config_error + json" where
  "read_document ts =
     (case read_value ts of
        None \<Rightarrow> Inl Config_Decode
      | Some (v, rest) \<Rightarrow> if rest = [] then Inr v else Inl Config_Trailing)"

definition decode_config :: "json_token list \<Rightarrow> config_error + config" where
  "decode_config ts =
     bind_result (read_document ts) (\<lambda>v.
     bind_result (get_int v ''schema_version'') (\<lambda>version.
     bind_result (get_string v ''route_id'') (\<lambda>route.
     bind_result (bind_result (get_object v ''remote_host'') decode_remote_host) (\<lambda>remote.
     bind_result (decode_kvm v) (\<lambda>kvm.
       Inr \<lparr>schema_version = version, route_id = route, config_remote_host = remote, config_kvm = kvm\<rparr>)))))"

definition decode_legacy :: "json_token list \<Rightarrow> config_error + legacy_config" where
  "decode_legacy ts =
     bind_result (read_document ts) (\<lambda>v.
     bind_result (get_int v ''schema_version'') (\<lambda>version.
     bind_result (get_string v ''backend'') (\<lambda>backend.
     bind_result (bind_result (get_object v ''remote_windows'') decode_remote_host) (\<lambda>remote.
       Inr \<lparr>legacy_schema_version = version, legacy_backend = backend, legacy_remote_windows = remote\<rparr>))))"

text \<open>\<open>decodeConfigHeader\<close>: the document as a map from names to raw values.\<close>

definition decode_config_header :: "json_token list \<Rightarrow> config_error + int" where
  "decode_config_header ts =
     (case read_value ts of
        None \<Rightarrow> Inl Config_Decode
      | Some (v, rest) \<Rightarrow>
          (case v of
             JNull \<Rightarrow> Inl Config_Not_Object
           | JObj ms \<Rightarrow>
               if rest \<noteq> [] then Inl Config_Trailing
               else
                 (case object_members ms ''schema_version'' of
                    None \<Rightarrow> Inl Config_Version_Missing
                  | Some (JNum s) \<Rightarrow>
                      (case decode_int s of Some n \<Rightarrow> Inr n | None \<Rightarrow> Inl Config_Version_Not_Integer)
                  | Some _ \<Rightarrow> Inl Config_Version_Not_Integer)
           | _ \<Rightarrow> Inl Config_Decode))"

definition reject_duplicate_keys :: "json_token list \<Rightarrow> config_error + unit" where
  "reject_duplicate_keys ts =
     map_error Config_Structure (bind_result (walk 32 False (Value 0) ts) (\<lambda>_. Inr ()))"

definition parse_config :: "json_token list \<Rightarrow> config_error + config" where
  "parse_config ts =
     bind_result (reject_duplicate_keys ts) (\<lambda>_.
     bind_result (decode_config_header ts) (\<lambda>version.
       if version = current_schema_version then
         bind_result (map_error Config_Keys (validate_keys ts (Some config_type))) (\<lambda>_.
         bind_result (decode_config ts) (\<lambda>cfg.
         bind_result (validate_config cfg) (\<lambda>_. Inr cfg)))
       else if version = legacy_schema then
         bind_result (map_error Config_Keys (validate_keys ts (Some legacy_config_type))) (\<lambda>_.
         bind_result (decode_legacy ts) (\<lambda>legacy.
           if legacy_backend legacy \<noteq> ''remote-physical-windows''
           then Inl (Config_Legacy_Backend (legacy_backend legacy))
           else
             bind_result (validate_remote_host (legacy_remote_windows legacy)) (\<lambda>_.
               Inr \<lparr>schema_version = current_schema_version, route_id = route_windows,
                    config_remote_host = legacy_remote_windows legacy, config_kvm = None\<rparr>)))
       else Inl (Config_Unsupported_Version version)))"

text \<open>What opening the file gives: nothing there, some other failure, a failing read, or its
  size and tokens.\<close>

datatype config_file = Absent | Unopenable | Unreadable | Contents nat "json_token list"

definition load_config :: "config_file \<Rightarrow> config_error + config" where
  "load_config f =
     (case f of
        Absent \<Rightarrow> Inl Config_Not_Found
      | Unopenable \<Rightarrow> Inl Config_Open
      | Unreadable \<Rightarrow> Inl Config_Read
      | Contents n ts \<Rightarrow> if max_file_size < n then Inl Config_Too_Large else parse_config ts)"

section \<open>Writing a document\<close>

text \<open>What \<open>json.Marshal\<close> makes of a configuration.\<close>

definition remote_host_json :: "remote_host \<Rightarrow> json" where
  "remote_host_json t = JObj
     [(''host'', json_string (rh_host t)), (''app'', json_string (rh_app t)),
      (''client'', json_string (rh_client t)),
      (''physical_host_confirmed'', JBool (rh_physical_host_confirmed t))]"

definition config_json :: "config \<Rightarrow> json" where
  "config_json c = JObj
     ([(''schema_version'', json_int (schema_version c)), (''route_id'', json_string (route_id c)),
       (''remote_host'', remote_host_json (config_remote_host c))] @
      (case config_kvm c of
         None \<Rightarrow> []
       | Some k \<Rightarrow> [(''kvm'', JObj [(''endpoint'', json_string (kvm_endpoint k))])]))"

section \<open>KVM endpoints\<close>

lemma cut_last_found: "cut_last c s = (a, b, True) \<Longrightarrow> s = a @ c # b"
proof -
  assume "cut_last c s = (a, b, True)"
  then obtain x y where "cut_at c (rev s) = (x, y, True)" "a = rev y" "b = rev x"
    by (auto simp: cut_last_def split: prod.splits if_splits)
  then have "rev s = rev b @ c # rev a" by (simp add: cut_at_found)
  then show ?thesis by (metis append_Cons append_assoc append_self_conv2 rev_append rev_rev_ident rev_singleton_conv singleton_rev_conv self_append_conv2 rev.simps(2))
qed

lemma cut_last_missing: "cut_last c s = (a, b, False) \<Longrightarrow> c \<notin> set s"
  by (auto simp: cut_last_def cut_at_def split: prod.splits if_splits)

lemma get_scheme_text:
  "get_scheme seen u = Some (s, rest) \<Longrightarrow> s \<noteq> [] \<Longrightarrow> list_all is_ascii seen \<Longrightarrow>
     seen @ u = s @ CHR '':'' # rest \<and> list_all is_ascii s"
proof (induction seen u rule: get_scheme.induct)
  case (2 seen c u)
  have "is_ascii c" if "is_lower c \<or> is_upper c \<or> is_digit c \<or> c = CHR ''+'' \<or> c = CHR ''-'' \<or> c = CHR ''.''"
    using that by (auto simp: is_lower_def is_upper_def is_digit_def is_ascii_def byte_def)
  with 2 show ?case by (auto split: if_splits)
qed auto

lemma cut_query_text: "cut_query rest = (r, []) \<Longrightarrow> CHR ''?'' \<notin> set r \<and> (rest = r \<or> rest = r @ ''?'')"
proof (cases "suffix ''?'' rest \<and> count_list rest (CHR ''?'') = 1")
  case True
  assume c: "cut_query rest = (r, [])"
  from True obtain q where q: "rest = q @ ''?''" by (auto simp: suffix_def)
  with True c show ?thesis by (auto simp: cut_query_def count_list_0_iff)
next
  case False
  assume c: "cut_query rest = (r, [])"
  obtain a b f where cut: "cut_at (CHR ''?'') rest = (a, b, f)" by (cases "cut_at (CHR ''?'') rest")
  with c False have ab: "a = r" "b = []" by (auto simp: cut_query_def)
  show ?thesis
  proof (cases f)
    case True
    with cut ab have "CHR ''?'' \<notin> set r" "rest = r @ ''?''" by (auto simp: cut_at_found)
    then show ?thesis by simp
  next
    case False
    with cut ab show ?thesis by (simp add: cut_at_missing)
  qed
qed

lemma parse_authority_user_free:
  assumes "parse_authority a = Some (False, host)" "host \<noteq> []"
  shows "CHR ''@'' \<notin> set a \<and> a \<noteq> []"
proof -
  obtain x y f where c: "cut_last (CHR ''@'') a = (x, y, f)" by (cases "cut_last (CHR ''@'') a")
  with assms have "\<not> f" by (cases f) (auto simp: parse_authority_def)
  with c have "CHR ''@'' \<notin> set a" using cut_last_missing by simp
  moreover have "a \<noteq> []"
  proof
    assume "a = []"
    moreover have "parse_authority [] = Some (False, [])" by code_simp
    ultimately show False using assms by simp
  qed
  ultimately show ?thesis by simp
qed

lemma to_lower_idem_ascii: "list_all is_ascii s \<Longrightarrow> to_lower (to_lower s) = to_lower s"
  by (subst (1 2 3) to_lower_ascii) (auto simp: list_all_iff to_lower_ascii lower_char_fixed)

lemma url_parse_hierarchical:
  assumes "url_parse raw = Some r" "url_host r \<noteq> []" "\<not> url_has_user r" "url_raw_query r = []"
    "url_fragment r = []" "url_scheme r \<noteq> []"
  shows "\<exists>s a p t. raw = s @ ''://'' @ a @ p @ t \<and> url_scheme r = to_lower s \<and> list_all is_ascii s \<and>
    a \<noteq> [] \<and> set a \<inter> set ''/?#@'' = {} \<and> (p = [] \<or> hd p = CHR ''/'') \<and> set p \<inter> set ''?#'' = {} \<and>
    t \<in> {[], ''?'', ''#'', ''?#''}"
proof -
  obtain u frag f where cut: "cut_at (CHR ''#'') raw = (u, frag, f)" by (cases "cut_at (CHR ''#'') raw")
  from assms cut have frag: "frag = []"
    by (auto simp: url_parse_def split: if_splits option.splits prod.splits)
  have u: "CHR ''#'' \<notin> set u" "raw = u \<or> raw = u @ ''#''"
    using cut frag by (cases f; simp add: cut_at_found cut_at_missing)+
  from assms cut obtain s rest where gs: "get_scheme [] u = Some (s, rest)"
    by (auto simp: url_parse_def split: if_splits option.splits prod.splits)
  obtain rest' query where cq: "cut_query rest = (rest', query)" by (cases "cut_query rest")
  from assms cut gs cq obtain h where h: "parse_hierarchy (to_lower s) rest' query = Some h"
    and r: "r = h\<lparr>url_fragment := frag\<rparr>"
    by (auto simp: url_parse_def split: if_splits)
  have hs: "url_host h \<noteq> []" "\<not> url_has_user h" using assms(2,3) r by simp_all
  have q: "query = []" and sch: "url_scheme r = to_lower s"
    using h assms(4) r
    by (auto simp: parse_hierarchy_def Let_def split: if_splits option.splits prod.splits)
  have ne: "s \<noteq> []" using sch assms(6) by auto
  note st = get_scheme_text [OF gs ne, simplified]
  note qt = cut_query_text [OF cq [unfolded q]]
  let ?a = "takeWhile (\<lambda>c. c \<noteq> CHR ''/'') (drop 2 rest')"
  let ?p = "dropWhile (\<lambda>c. c \<noteq> CHR ''/'') (drop 2 rest')"
  have "prefix ''//'' rest' \<and> (\<exists>host. host \<noteq> [] \<and> parse_authority ?a = Some (False, host))"
    using h hs by (auto simp: parse_hierarchy_def Let_def split: if_splits option.splits prod.splits)
  then obtain host where pre: "prefix ''//'' rest'" and pa: "parse_authority ?a = Some (False, host)" "host \<noteq> []"
    by blast
  note a = parse_authority_user_free [OF pa]
  have rest': "rest' = ''//'' @ ?a @ ?p" using pre by (auto simp: prefix_def)
  have chars: "set ?a \<subseteq> set rest'" "set ?p \<subseteq> set rest'"
    by (auto dest!: set_takeWhileD set_dropWhileD dest: in_set_dropD)
  have no_hash: "CHR ''#'' \<notin> set rest'" using u(1) st qt by auto
  obtain t1 where t1: "t1 \<in> {[], ''?''}" "rest = rest' @ t1" using qt by auto
  obtain t2 where t2: "t2 \<in> {[], ''#''}" "raw = u @ t2" using u(2) by auto
  have raw: "raw = s @ ''://'' @ ?a @ ?p @ (t1 @ t2)"
  proof -
    have "u = s @ CHR '':'' # rest" using st by simp
    also have "rest = ''//'' @ ?a @ ?p @ t1" using t1(2) rest' by (metis append.assoc)
    finally show ?thesis using t2(2) by simp
  qed
  have "?p = [] \<or> hd ?p = CHR ''/''" using hd_dropWhile by blast
  moreover have "CHR ''/'' \<notin> set ?a" by (auto dest: set_takeWhileD)
  then have "set ?a \<inter> set ''/?#@'' = {}" using a chars no_hash qt by auto
  moreover have "set ?p \<inter> set ''?#'' = {}" using chars no_hash qt by auto
  moreover have "t1 @ t2 \<in> {[], ''?'', ''#'', ''?#''}" using t1(1) t2(1) by auto
  moreover have "?a \<noteq> []" "list_all is_ascii s" using a st by blast+
  ultimately show ?thesis using raw sch by blast
qed

lemma to_lower_Nil_iff: "list_all is_ascii s \<Longrightarrow> to_lower s = [] \<longleftrightarrow> s = []"
  by (simp add: to_lower_ascii)

text \<open>C38. A KVM endpoint that passes the check carries nothing but an address: it is a scheme,
  an authority and a path written out in full, where the scheme is https (or http, when the
  caller allows it), the authority has no user information, and there is no query and no
  fragment, save for a bare question mark or hash sign at the end; the text is at most 2048
  bytes.\<close>

theorem kvm_endpoint_clean:
  assumes "validate_kvm_endpoint endpoint allow_http = Inr ()"
  shows "length endpoint \<le> 2048 \<and>
    (\<exists>scheme authority path tail. endpoint = scheme @ ''://'' @ authority @ path @ tail \<and>
      (to_lower scheme = ''https'' \<or> allow_http \<and> to_lower scheme = ''http'') \<and>
      authority \<noteq> [] \<and> set authority \<inter> set ''/?#@'' = {} \<and>
      (path = [] \<or> hd path = CHR ''/'') \<and> set path \<inter> set ''?#'' = {} \<and>
      tail \<in> {[], ''?'', ''#'', ''?#''})"
proof -
  from assms obtain r where r: "url_parse endpoint = Some r" and len: "length endpoint \<le> 2048"
    and checks: "url_host r \<noteq> []" "\<not> url_has_user r" "url_raw_query r = []" "url_fragment r = []"
    and scheme: "to_lower (url_scheme r) = ''https'' \<or> allow_http \<and> to_lower (url_scheme r) = ''http''"
    by (auto simp: validate_kvm_endpoint_def max_kvm_endpoint_size_def Let_def
        simp del: first_error.simps(2) split: if_splits option.splits)
  have "url_scheme r \<noteq> []" using scheme by auto
  from url_parse_hierarchical [OF r checks this] obtain s a p t where
    "endpoint = s @ ''://'' @ a @ p @ t" "url_scheme r = to_lower s" "list_all is_ascii s"
    "a \<noteq> []" "set a \<inter> set ''/?#@'' = {}" "p = [] \<or> hd p = CHR ''/''" "set p \<inter> set ''?#'' = {}"
    "t \<in> {[], ''?'', ''#'', ''?#''}" by blast
  with scheme len to_lower_idem_ascii [of s] show ?thesis by metis
qed

theorem kvm_endpoint_clean_witness:
  "length ''https://kvm.lan:8443/ui'' \<le> 2048"
proof -
  have "validate_kvm_endpoint ''https://kvm.lan:8443/ui'' False = Inr ()" by code_simp
  from kvm_endpoint_clean [OF this] show ?thesis by blast
qed

section \<open>Documents and configurations\<close>

lemma validate_keys_tokens: "validate_keys (tokens v) (Some t) = validate_value v t ''$'' 0"
  using read_value_iff [of "tokens v" v "[]"] by (simp add: validate_keys_def)

lemma validate_keys_reads:
  "validate_keys ts (Some t) = Inr u \<Longrightarrow> \<exists>v. ts = tokens v \<and> exact_match maximum_depth t v"
proof -
  assume k: "validate_keys ts (Some t) = Inr u"
  then obtain v rest where "read_value ts = Some (v, rest)" "rest = []" "validate_value v t ''$'' 0 = Inr ()"
    by (auto simp: validate_keys_def split: option.splits if_splits)
  then show ?thesis using read_value_iff [of ts v "[]"] validate_value_ok [of v t "''$''" 0] by auto
qed

lemma read_document_tokens [simp]: "read_document (tokens v) = Inr v"
  using read_value_iff [of "tokens v" v "[]"] by (simp add: read_document_def)

abbreviation field_of :: "go_type \<Rightarrow> bool \<Rightarrow> field_definition" where
  "field_of t b \<equiv> \<lparr>destination_type = t, optional = b\<rparr>"

lemma remote_host_fields:
  "fields_for [plain_field ''Host'' ''host'' String_Type, plain_field ''App'' ''app'' String_Type,
      plain_field ''Client'' ''client'' String_Type,
      plain_field ''PhysicalHostConfirmed'' ''physical_host_confirmed'' Boolean_Type] =
   Inr [(''host'', field_of String_Type False), (''app'', field_of String_Type False),
        (''client'', field_of String_Type False),
        (''physical_host_confirmed'', field_of Boolean_Type False)]"
  by code_simp

lemma kvm_fields:
  "fields_for [plain_field ''Endpoint'' ''endpoint'' String_Type] = Inr [(''endpoint'', field_of String_Type False)]"
  by code_simp

lemma config_fields:
  "fields_for
     [plain_field ''SchemaVersion'' ''schema_version'' Number_Type,
      plain_field ''RouteID'' ''route_id'' String_Type,
      plain_field ''RemoteHost'' ''remote_host'' remote_host_type,
      plain_field ''KVM'' ''kvm,omitempty''
        (Pointer_To (Struct_Of [plain_field ''Endpoint'' ''endpoint'' String_Type]))] =
   Inr [(''schema_version'', field_of Number_Type False), (''route_id'', field_of String_Type False),
        (''remote_host'', field_of remote_host_type False),
        (''kvm'', field_of (Pointer_To (Struct_Of [plain_field ''Endpoint'' ''endpoint'' String_Type])) True)]"
  by code_simp

lemmas scalar_value_simps =
  validate_value.simps [of "JStr s"] validate_value.simps [of "JBool b"] validate_value.simps [of "JNum n"]
  for s b n

lemma validate_remote_host_json:
  "d \<le> 100 \<Longrightarrow> validate_value (remote_host_json t) remote_host_type loc d = Inr ()"
  unfolding remote_host_json_def remote_host_type_def json_string_def
  by (subst validate_value.simps)
     (simp add: remote_host_fields as_object_def scalar_value_simps validate_leaf_def check_required_def
       maximum_depth_def)

lemma validate_kvm_json:
  "d \<le> 100 \<Longrightarrow> validate_value (JObj [(''endpoint'', JStr e)])
     (Pointer_To (Struct_Of [plain_field ''Endpoint'' ''endpoint'' String_Type])) loc d = Inr ()"
  by (subst validate_value.simps)
     (simp add: kvm_fields as_object_def scalar_value_simps validate_leaf_def check_required_def
       maximum_depth_def)

lemma validate_config_json: "validate_value (config_json c) config_type loc 0 = Inr ()"
  unfolding config_json_def config_type_def json_string_def json_int_def
  by (subst validate_value.simps)
     (cases "config_kvm c"; simp add: config_fields as_object_def scalar_value_simps validate_leaf_def
       check_required_def validate_remote_host_json validate_kvm_json maximum_depth_def)

lemma config_json_unique: "unique_keys (config_json c) \<and> nesting (config_json c) \<le> 32"
  by (cases "config_kvm c")
     (simp_all add: config_json_def json_int_def json_string_def remote_host_json_def)

lemma reject_duplicate_keys_ok:
  "reject_duplicate_keys (tokens v) = Inr u \<longleftrightarrow> unique_keys v \<and> nesting v \<le> 32"
  using walk_tokens(1) [of 32 False 0 v "[]"] by (auto simp: reject_duplicate_keys_def bind_result_ok)

lemma validate_host_ok: "validate_host h = Inr u \<longleftrightarrow> (\<exists>e. parse_host_endpoint h = Inr e)"
  by (simp add: validate_host_def bind_result_ok)

lemma validate_config_texts:
  assumes "validate_config c = Inr ()"
  shows "schema_version c = 2 \<and> coerce_utf8 (route_id c) = route_id c \<and>
    coerce_utf8 (rh_host (config_remote_host c)) = rh_host (config_remote_host c) \<and>
    coerce_utf8 (rh_app (config_remote_host c)) = rh_app (config_remote_host c) \<and>
    coerce_utf8 (rh_client (config_remote_host c)) = rh_client (config_remote_host c)"
proof -
  from assms have v: "schema_version c = 2" "config_route c = Inr (route_id c)"
    and r: "validate_remote_host (config_remote_host c) = Inr ()"
    by (auto simp: validate_config_def current_schema_version_def bind_result_ok config_route_def
        simp del: first_error.simps(2) split: if_splits)
  have "coerce_utf8 route_windows = route_windows" "coerce_utf8 route_macos = route_macos" by code_simp+
  with v(2) have "coerce_utf8 (route_id c) = route_id c" by (auto simp: config_route_def split: if_splits)
  moreover from r have "utf8_valid (rh_host (config_remote_host c))" "utf8_valid (rh_app (config_remote_host c))"
    and client: "rh_client (config_remote_host c) \<in> set client_names"
    by (auto simp: validate_remote_host_def validate_host_ok parse_host_endpoint_def bind_result_ok
        host_text_check_def validate_app_name_def simp del: first_error.simps(2))
  moreover have "\<forall>n \<in> set client_names. coerce_utf8 n = n" by code_simp
  ultimately show ?thesis using v(1) coerce_utf8_valid by blast
qed

lemma decode_int_2: "decode_int ''2'' = Some 2"
  by code_simp

lemma json_int_2: "json_int 2 = JNum ''2''"
  by code_simp

lemma decode_remote_host_json [simp]:
  "decode_remote_host (JObj
     [(''host'', JStr h), (''app'', JStr a), (''client'', JStr cl), (''physical_host_confirmed'', JBool b)]) =
   Inr \<lparr>rh_host = h, rh_app = a, rh_client = cl, rh_physical_host_confirmed = b\<rparr>"
  by (simp add: decode_remote_host_def get_string_def get_bool_def member_def object_members_def)

lemma read_config_json:
  assumes "validate_config c = Inr ()"
    and "case config_kvm c of None \<Rightarrow> True | Some k \<Rightarrow> utf8_valid (kvm_endpoint k)"
  shows "decode_config_header (tokens (config_json c)) = Inr 2 \<and>
    decode_config (tokens (config_json c)) = Inr c"
proof -
  note t = validate_config_texts [OF assms(1)]
  obtain ms where ms: "config_json c = JObj ms"
    and m: "object_members ms ''schema_version'' = Some (JNum ''2'')"
      "object_members ms ''route_id'' = Some (JStr (route_id c))"
      "object_members ms ''remote_host'' = Some (remote_host_json (config_remote_host c))"
      "object_members ms ''kvm'' =
         map_option (\<lambda>k. JObj [(''endpoint'', JStr (kvm_endpoint k))]) (config_kvm c)"
    using t assms(2) json_int_2
    by (cases "config_kvm c")
       (simp_all add: config_json_def json_string_def object_members_def coerce_utf8_valid)
  have remote: "decode_remote_host (remote_host_json (config_remote_host c)) = Inr (config_remote_host c)"
    using t by (simp add: remote_host_json_def json_string_def)
  have kvm: "decode_kvm (config_json c) = Inr (config_kvm c)"
    using m(4) ms
    by (cases "config_kvm c") (simp_all add: decode_kvm_def member_def get_string_def object_members_def)
  have "get_object (config_json c) ''remote_host'' = Inr (remote_host_json (config_remote_host c))"
    using m(3) ms by (simp add: get_object_def member_def remote_host_json_def)
  moreover have "get_int (config_json c) ''schema_version'' = Inr 2"
    "get_string (config_json c) ''route_id'' = Inr (route_id c)"
    using m(1,2) ms by (simp_all add: get_int_def get_string_def member_def decode_int_2)
  ultimately have "decode_config (tokens (config_json c)) = Inr c"
    using remote kvm t by (simp add: decode_config_def)
  moreover have "decode_config_header (tokens (config_json c)) = Inr 2"
    using m(1) ms read_value_iff [of "tokens (config_json c)" "config_json c" "[]"]
    by (simp add: decode_config_header_def decode_int_2)
  ultimately show ?thesis by simp
qed

lemma config_reads_back:
  assumes "validate_config c = Inr ()"
    and "case config_kvm c of None \<Rightarrow> True | Some k \<Rightarrow> utf8_valid (kvm_endpoint k)"
  shows "parse_config (tokens (config_json c)) = Inr c"
proof -
  have "reject_duplicate_keys (tokens (config_json c)) = Inr ()"
    using config_json_unique by (simp only: reject_duplicate_keys_ok)
  with assms(1) read_config_json [OF assms] show ?thesis
    by (simp add: parse_config_def current_schema_version_def validate_keys_tokens validate_config_json)
qed

text \<open>A KVM endpoint that comes back is one that marshalling did not change.\<close>

lemma decode_config_kvm:
  assumes "decode_config (tokens (config_json c)) = Inr c" "config_kvm c = Some k"
  shows "utf8_valid (kvm_endpoint k)"
proof -
  have "read_value (tokens (config_json c)) = Some (config_json c, [])" by (simp add: read_value_iff)
  with assms(1) have "decode_kvm (config_json c) = Inr (config_kvm c)"
    by (auto simp: decode_config_def bind_result_ok split: if_splits)
  moreover have "decode_kvm (config_json c) = Inr (Some \<lparr>kvm_endpoint = coerce_utf8 (kvm_endpoint k)\<rparr>)"
    by (simp add: config_json_def assms(2) decode_kvm_def object_members_def get_string_def json_string_def)
  ultimately have "k = \<lparr>kvm_endpoint = coerce_utf8 (kvm_endpoint k)\<rparr>" by (simp add: assms(2))
  then have "coerce_utf8 (kvm_endpoint k) = kvm_endpoint k" by (metis kvm_config.select_convs(1))
  then show ?thesis by (rule coerced_valid)
qed

text \<open>C34. A valid configuration survives being written and read back exactly when a KVM endpoint
  in it is valid UTF-8: then the document that marshalling makes of it passes the duplicate-key walk,
  the version check and the exact-key check, and parsing returns the same configuration. The
  endpoint's own check does not ask for valid UTF-8, and an endpoint without it does not come back.\<close>

theorem config_roundtrip:
  assumes "validate_config c = Inr ()"
  shows "parse_config (tokens (config_json c)) = Inr c \<longleftrightarrow>
    (case config_kvm c of None \<Rightarrow> True | Some k \<Rightarrow> utf8_valid (kvm_endpoint k))"
proof
  assume p: "parse_config (tokens (config_json c)) = Inr c"
  show "case config_kvm c of None \<Rightarrow> True | Some k \<Rightarrow> utf8_valid (kvm_endpoint k)"
  proof (cases "config_kvm c")
    case (Some k)
    from p Some have "decode_config (tokens (config_json c)) = Inr c"
      by (auto simp: parse_config_def bind_result_ok split: if_splits)
    from decode_config_kvm [OF this Some] show ?thesis by (simp add: Some)
  qed simp
qed (rule config_reads_back [OF assms])

definition sample_config :: config where
  "sample_config =
     \<lparr>schema_version = 2, route_id = ''physical-macos-remote'',
      config_remote_host = \<lparr>rh_host = ''gaming-mac.local'', rh_app = ''League of Legends'', rh_client = ''auto'',
                            rh_physical_host_confirmed = True\<rparr>,
      config_kvm = Some \<lparr>kvm_endpoint = ''https://kvm.lan/''\<rparr>\<rparr>"

theorem config_roundtrip_witness:
  "parse_config (tokens (config_json sample_config)) = Inr sample_config"
proof -
  have "validate_config sample_config = Inr ()" by code_simp
  moreover have "case config_kvm sample_config of None \<Rightarrow> True | Some k \<Rightarrow> utf8_valid (kvm_endpoint k)" by code_simp
  ultimately show ?thesis by (simp only: config_roundtrip)
qed

text \<open>C35. Nothing unvalidated comes out of parsing: a parsed configuration passes validation,
  and its document is a single JSON value without repeated keys and no deeper than 32 levels
  that matches the current schema exactly, or the legacy schema, in which case the route is
  the Windows one and there is no KVM endpoint.\<close>

theorem parsed_config_valid:
  assumes "parse_config ts = Inr c"
  shows "validate_config c = Inr () \<and>
    (\<exists>v. ts = tokens v \<and> unique_keys v \<and> nesting v \<le> 32 \<and>
       (exact_match maximum_depth config_type v \<or>
        exact_match maximum_depth legacy_config_type v \<and> route_id c = route_windows \<and> config_kvm c = None))"
proof -
  from assms obtain version where dup: "reject_duplicate_keys ts = Inr ()"
    and version: "decode_config_header ts = Inr version"
    by (auto simp: parse_config_def bind_result_ok)
  consider "version = current_schema_version"
    | "version = legacy_schema" "version \<noteq> current_schema_version"
    using assms dup version by (auto simp: parse_config_def split: if_splits)
  then show ?thesis
  proof cases
    case 1
    with assms dup version have "validate_keys ts (Some config_type) = Inr ()" "validate_config c = Inr ()"
      by (auto simp: parse_config_def bind_result_ok)
    with dup validate_keys_reads reject_duplicate_keys_ok show ?thesis by blast
  next
    case 2
    with assms dup version have k: "validate_keys ts (Some legacy_config_type) = Inr ()"
      and c: "validate_remote_host (config_remote_host c) = Inr ()" "schema_version c = current_schema_version"
        "route_id c = route_windows" "config_kvm c = None"
      by (auto simp: parse_config_def bind_result_ok split: if_splits)
    have "validate_config c = Inr ()"
      using c by (simp add: validate_config_def config_route_def del: first_error.simps(2))
    with k c dup validate_keys_reads reject_duplicate_keys_ok show ?thesis by blast
  qed
qed

definition legacy_document :: json where
  "legacy_document = JObj
     [(''schema_version'', JNum ''1''), (''backend'', JStr ''remote-physical-windows''),
      (''remote_windows'', JObj [(''host'', JStr ''192.168.1.20''), (''app'', JStr ''Desktop''),
         (''client'', JStr ''moonlight''), (''physical_host_confirmed'', JBool True)])]"

definition legacy_result :: config where
  "legacy_result =
     \<lparr>schema_version = 2, route_id = ''physical-windows-remote'',
      config_remote_host = \<lparr>rh_host = ''192.168.1.20'', rh_app = ''Desktop'', rh_client = ''moonlight'',
                            rh_physical_host_confirmed = True\<rparr>,
      config_kvm = None\<rparr>"

theorem parsed_config_valid_witness:
  "validate_config legacy_result = Inr () \<and> parse_config (tokens legacy_document) = Inr legacy_result"
proof -
  have p: "parse_config (tokens legacy_document) = Inr legacy_result" by code_simp
  from parsed_config_valid [OF p] p show ?thesis by blast
qed

end
