(* ===== verification/Host_Files.thy ===== *)
theory Host_Files
  imports Go_Base "HOL-Library.Word"
begin

unbundle bit_operations_syntax

text \<open>
  What the launchers ask of the host's file system: the answer of \<open>os.Stat\<close>, the executable
  bits of a mode, the identity that \<open>os.SameFile\<close> compares, and absolute Unix paths.
\<close>

record file_info =
  fi_file :: nat
  fi_regular :: bool
  fi_perm :: "32 word"

text \<open>\<open>Mode().Perm()&0o111 != 0\<close>.\<close>

definition executable_mode :: "file_info \<Rightarrow> bool" where
  "executable_mode info \<longleftrightarrow> fi_perm info AND 511 AND 73 \<noteq> 0"

definition same_file :: "file_info \<Rightarrow> file_info \<Rightarrow> bool" where
  "same_file a b \<longleftrightarrow> fi_file a = fi_file b"

definition is_abs :: "string \<Rightarrow> bool" where
  "is_abs path \<longleftrightarrow> prefix ''/'' path"

end
