(* ===== verification/Kvm_Launch.thy ===== *)
theory Kvm_Launch
  imports Config Handoff_Boundary Host_Files
begin

text \<open>
  \<open>internal/kvm/kvm.go\<close>: the launcher of a browser for a hardware KVM. Discovery and
  execution look at the operating system through a world of outcomes: what \<open>LookPath\<close> and
  \<open>os.Stat\<close> answer, whether the context is canceled at each poll, and how the runner ends.
  The model is of the Unix builds, where the executable bits are checked and a path is
  absolute when it begins with a slash.
\<close>

section \<open>Data\<close>

datatype kvm_error =
    Kvm_No_Environment | Kvm_Discovery_Canceled | Kvm_Unsupported_Launcher string | Kvm_No_Launcher
  | Kvm_Empty_Binary | Kvm_Unexpected_Prefix | Kvm_Gio_Prefix | Kvm_Endpoint endpoint_error
  | Kvm_Not_Physical | Kvm_Not_Acknowledged | Kvm_Not_Discovered | Kvm_Launcher_Changed
  | Kvm_Unvalidated | Kvm_Arguments_Changed | Kvm_Argument_Count | Kvm_Argument_Prefix
  | Kvm_Relative_Binary | Kvm_Unbound_Binary | Kvm_Unavailable_Binary | Kvm_Not_Regular
  | Kvm_Not_Executable | Kvm_Binary_Replaced | Kvm_No_Runner | Kvm_Canceled | Kvm_Handoff_Failed

record launcher_binding =
  lb_name :: string
  lb_binary :: string
  lb_prefix :: "string list"
  lb_executable_info :: "file_info option"

record kvm_launcher =
  kl_name :: string
  kl_binary :: string
  kl_prefix :: "string list"
  kl_discovered :: bool
  kl_executable_info :: "file_info option"
  kl_discovery_binding :: "launcher_binding option"

record kvm_request =
  kr_endpoint :: string
  kr_allow_http :: bool
  kr_physical_host_confirmed :: bool
  kr_accept_unverified_handoff :: bool

record kvm_plan =
  kp_launcher :: kvm_launcher
  kp_arguments :: "string list"
  kp_warnings :: "string list"
  kp_validated :: bool
  kp_launcher_binding :: launcher_binding
  kp_argument_binding :: "string list"
  kp_endpoint :: string
  kp_allow_http :: bool

definition bind_launcher :: "kvm_launcher \<Rightarrow> launcher_binding" where
  "bind_launcher l = \<lparr>lb_name = kl_name l, lb_binary = kl_binary l, lb_prefix = kl_prefix l,
     lb_executable_info = kl_executable_info l\<rparr>"

definition binding_matches :: "launcher_binding \<Rightarrow> kvm_launcher \<Rightarrow> bool" where
  "binding_matches b l \<longleftrightarrow>
     lb_name b = kl_name l \<and> lb_binary b = kl_binary l \<and> length (lb_prefix b) = length (kl_prefix l) \<and>
     list_all2 (=) (lb_prefix b) (kl_prefix l)"

text \<open>A launcher that was never discovered carries the zero binding.\<close>

definition launcher_matches :: "launcher_binding option \<Rightarrow> kvm_launcher \<Rightarrow> bool" where
  "launcher_matches b l =
     binding_matches
       (case b of Some x \<Rightarrow> x
        | None \<Rightarrow> \<lparr>lb_name = [], lb_binary = [], lb_prefix = [], lb_executable_info = None\<rparr>) l"

definition launcher_names :: "string list" where
  "launcher_names =
     [''xdg-open'', ''gio'', ''sensible-browser'', ''firefox'', ''firefox-esr'', ''chromium'',
      ''chromium-browser'', ''google-chrome'', ''google-chrome-stable'', ''brave'', ''brave-browser'',
      ''qutebrowser'', ''epiphany'', ''vivaldi'', ''vivaldi-stable'']"

definition direct_browser_names :: "string list" where
  "direct_browser_names =
     [''firefox'', ''firefox-esr'', ''chromium'', ''chromium-browser'', ''google-chrome'',
      ''google-chrome-stable'', ''brave'', ''brave-browser'', ''qutebrowser'', ''epiphany'', ''vivaldi'',
      ''vivaldi-stable'']"

record kvm_world =
  kw_look_path :: "string \<Rightarrow> string option"
  kw_stat :: "string \<Rightarrow> file_info option"
  kw_canceled :: "nat \<Rightarrow> bool"
  kw_has_runner :: bool
  kw_run_succeeds :: "string \<Rightarrow> string list \<Rightarrow> bool"

section \<open>Discovery\<close>

definition found_launcher :: "kvm_world \<Rightarrow> string \<Rightarrow> string \<Rightarrow> kvm_launcher" where
  "found_launcher w name path =
     (let info = (case kw_stat w path of
                    Some i \<Rightarrow> if fi_regular i \<and> executable_mode i then Some i else None
                  | None \<Rightarrow> None);
          l = \<lparr>kl_name = name, kl_binary = path, kl_prefix = (if name = ''gio'' then [''open''] else []),
               kl_discovered = True, kl_executable_info = info, kl_discovery_binding = None\<rparr>
      in l\<lparr>kl_discovery_binding := Some (bind_launcher l)\<rparr>)"

text \<open>The loop over the candidates; the number counts the polls of the context.\<close>

fun discover_loop :: "kvm_world \<Rightarrow> nat \<Rightarrow> string list \<Rightarrow> kvm_error + kvm_launcher" where
  "discover_loop w polls [] =
     (if kw_canceled w polls then Inl Kvm_Discovery_Canceled else Inl Kvm_No_Launcher)"
| "discover_loop w polls (name # names) =
     (if kw_canceled w polls then Inl Kvm_Discovery_Canceled
      else
        (case kw_look_path w name of
           None \<Rightarrow> discover_loop w (Suc polls) names
         | Some path \<Rightarrow>
             if kw_canceled w (Suc polls) then Inl Kvm_Discovery_Canceled
             else Inr (found_launcher w name path)))"

definition kvm_discover :: "kvm_world option \<Rightarrow> string \<Rightarrow> kvm_error + kvm_launcher" where
  "kvm_discover env preferred0 =
     (case env of
        None \<Rightarrow> Inl Kvm_No_Environment
      | Some w \<Rightarrow>
          (let p = normalize preferred0; preferred = (if p = [] then ''auto'' else p) in
           if preferred = ''auto'' then discover_loop w 0 launcher_names
           else if List.member [''xdg-open'', ''gio'', ''sensible-browser''] preferred
           then discover_loop w 0 [preferred]
           else if List.member direct_browser_names preferred then discover_loop w 0 [preferred]
           else Inl (Kvm_Unsupported_Launcher preferred)))"

section \<open>Planning\<close>

definition validate_launcher :: "kvm_launcher \<Rightarrow> kvm_error + unit" where
  "validate_launcher l =
     (if kl_name l = ''xdg-open'' \<or> kl_name l = ''sensible-browser'' then
        require (kl_prefix l = []) Kvm_Unexpected_Prefix
      else if kl_name l = ''gio'' then require (kl_prefix l = [''open'']) Kvm_Gio_Prefix
      else if List.member direct_browser_names (kl_name l) then
        require (kl_prefix l = []) Kvm_Unexpected_Prefix
      else Inl (Kvm_Unsupported_Launcher (kl_name l)))"

definition kvm_warnings :: "string \<Rightarrow> string list" where
  "kvm_warnings endpoint =
     [''The KVM browser route is a manual candidate; League and Vanguard remain on the physical Windows or macOS host.'',
      ''LeagueBridge does not authenticate to, validate, or control the KVM device; use its own protected browser session on a private LAN or VPN.'',
      ''USB HID behavior and Riot/Vanguard acceptance remain unvalidated; stop immediately if Riot software reports an error.'',
      ''A newly started browser may keep this command running for the KVM session; close the browser or interrupt the command when finished.''] @
     (if prefix ''http://'' (to_lower endpoint)
      then [''The KVM endpoint uses unencrypted HTTP because --allow-http was supplied; limit it to a trusted LAN bootstrap and prefer HTTPS.'']
      else [])"

definition kvm_build_plan :: "kvm_launcher \<Rightarrow> kvm_request \<Rightarrow> kvm_error + kvm_plan" where
  "kvm_build_plan l r =
     bind_result
       (first_error
          [require (kl_binary l \<noteq> []) Kvm_Empty_Binary,
           validate_launcher l,
           map_error Kvm_Endpoint (validate_kvm_endpoint (kr_endpoint r) (kr_allow_http r)),
           require (kr_physical_host_confirmed r) Kvm_Not_Physical,
           require (kr_accept_unverified_handoff r) Kvm_Not_Acknowledged])
       (\<lambda>_. Inr
          \<lparr>kp_launcher = l, kp_arguments = kl_prefix l @ [kr_endpoint r],
           kp_warnings = kvm_warnings (kr_endpoint r), kp_validated = True,
           kp_launcher_binding = bind_launcher l, kp_argument_binding = kl_prefix l @ [kr_endpoint r],
           kp_endpoint = kr_endpoint r, kp_allow_http = kr_allow_http r\<rparr>)"

definition kvm_build_discovered_plan :: "kvm_launcher \<Rightarrow> kvm_request \<Rightarrow> kvm_error + kvm_plan" where
  "kvm_build_discovered_plan l r =
     (if \<not> kl_discovered l then Inl Kvm_Not_Discovered
      else if \<not> launcher_matches (kl_discovery_binding l) l then Inl Kvm_Launcher_Changed
      else kvm_build_plan l r)"

section \<open>Execution\<close>

definition validate_arguments :: "kvm_launcher \<Rightarrow> string list \<Rightarrow> bool \<Rightarrow> kvm_error + unit" where
  "validate_arguments l arguments allow_http =
     first_error
       [validate_launcher l,
        (if length arguments \<noteq> length (kl_prefix l) + 1 then Inl Kvm_Argument_Count
         else if take (length (kl_prefix l)) arguments \<noteq> kl_prefix l then Inl Kvm_Argument_Prefix
         else map_error Kvm_Endpoint (validate_kvm_endpoint (last arguments) allow_http))]"

text \<open>The checks of \<open>Execute\<close> that look at the plan alone.\<close>

definition kvm_plan_check :: "kvm_plan \<Rightarrow> kvm_error + unit" where
  "kvm_plan_check p =
     first_error
       [require (kp_validated p) Kvm_Unvalidated,
        require (kl_discovered (kp_launcher p)) Kvm_Not_Discovered,
        require (binding_matches (kp_launcher_binding p) (kp_launcher p)) Kvm_Launcher_Changed,
        require (kp_argument_binding p = kp_arguments p) Kvm_Arguments_Changed,
        validate_arguments (kp_launcher p) (kp_arguments p) (kp_allow_http p)]"

text \<open>The checks of \<open>Execute\<close> on the executable.\<close>

definition kvm_binary_check :: "kvm_world \<Rightarrow> kvm_launcher \<Rightarrow> kvm_error + unit" where
  "kvm_binary_check w l =
     (if \<not> is_abs (kl_binary l) then Inl Kvm_Relative_Binary
      else
        (case kl_executable_info l of
           None \<Rightarrow> Inl Kvm_Unbound_Binary
         | Some bound \<Rightarrow>
             (case kw_stat w (kl_binary l) of
                None \<Rightarrow> Inl Kvm_Unavailable_Binary
              | Some info \<Rightarrow>
                  first_error
                    [require (fi_regular info) Kvm_Not_Regular,
                     require (executable_mode info) Kvm_Not_Executable,
                     require (same_file bound info) Kvm_Binary_Replaced])))"

text \<open>The result of \<open>Execute\<close> and the processes it started.\<close>

definition kvm_execute ::
    "kvm_world \<Rightarrow> kvm_plan \<Rightarrow> (kvm_error + unit) \<times> (string \<times> string list) list" where
  "kvm_execute w p =
     (case first_error
             [kvm_plan_check p,
              kvm_binary_check w (kp_launcher p),
              require (kw_has_runner w) Kvm_No_Runner,
              require (\<not> kw_canceled w 0) Kvm_Canceled] of
        Inl e \<Rightarrow> (Inl e, [])
      | Inr _ \<Rightarrow>
          (if kw_run_succeeds w (kl_binary (kp_launcher p)) (kp_arguments p) then Inr ()
           else Inl Kvm_Handoff_Failed,
           [(kl_binary (kp_launcher p), kp_arguments p)]))"

section \<open>What the checks accept\<close>

lemma binding_matches_iff:
  "binding_matches b l \<longleftrightarrow> lb_name b = kl_name l \<and> lb_binary b = kl_binary l \<and> lb_prefix b = kl_prefix l"
  by (auto simp: binding_matches_def list.rel_eq)

lemma kvm_build_plan_ok:
  "kvm_build_plan l r = Inr p \<longleftrightarrow>
     kl_binary l \<noteq> [] \<and> validate_launcher l = Inr () \<and>
     validate_kvm_endpoint (kr_endpoint r) (kr_allow_http r) = Inr () \<and>
     kr_physical_host_confirmed r \<and> kr_accept_unverified_handoff r \<and>
     p = \<lparr>kp_launcher = l, kp_arguments = kl_prefix l @ [kr_endpoint r],
          kp_warnings = kvm_warnings (kr_endpoint r), kp_validated = True,
          kp_launcher_binding = bind_launcher l, kp_argument_binding = kl_prefix l @ [kr_endpoint r],
          kp_endpoint = kr_endpoint r, kp_allow_http = kr_allow_http r\<rparr>"
  by (auto simp: kvm_build_plan_def bind_result_ok simp del: first_error.simps(2))

lemma prefix_and_one:
  "length args = length pre + 1 \<and> take (length pre) args = pre \<longleftrightarrow> (\<exists>e. args = pre @ [e])"
proof (intro iffI)
  assume a: "length args = length pre + 1 \<and> take (length pre) args = pre"
  then have "length (drop (length pre) args) = 1" by simp
  then obtain e where "drop (length pre) args = [e]" by (cases "drop (length pre) args") auto
  with a show "\<exists>e. args = pre @ [e]" by (metis append_take_drop_id)
qed auto

lemma validate_arguments_ok:
  "validate_arguments l args allow = Inr () \<longleftrightarrow>
     validate_launcher l = Inr () \<and>
     (\<exists>e. args = kl_prefix l @ [e] \<and> validate_kvm_endpoint e allow = Inr ())"
  using prefix_and_one [of args "kl_prefix l"]
  by (auto simp: validate_arguments_def simp del: first_error.simps(2) split: if_splits)

lemma kvm_plan_check_ok:
  "kvm_plan_check p = Inr () \<longleftrightarrow>
     kp_validated p \<and> kl_discovered (kp_launcher p) \<and>
     binding_matches (kp_launcher_binding p) (kp_launcher p) \<and> kp_argument_binding p = kp_arguments p \<and>
     validate_launcher (kp_launcher p) = Inr () \<and>
     (\<exists>e. kp_arguments p = kl_prefix (kp_launcher p) @ [e] \<and> validate_kvm_endpoint e (kp_allow_http p) = Inr ())"
  by (auto simp: kvm_plan_check_def validate_arguments_ok simp del: first_error.simps(2))

lemma kvm_binary_check_ok:
  "kvm_binary_check w l = Inr () \<longleftrightarrow>
     is_abs (kl_binary l) \<and>
     (\<exists>bound info. kl_executable_info l = Some bound \<and> kw_stat w (kl_binary l) = Some info \<and>
        fi_regular info \<and> executable_mode info \<and> same_file bound info)"
  by (auto simp: kvm_binary_check_def simp del: first_error.simps(2) split: option.splits)

section \<open>The boundary contract\<close>

text \<open>The exported fields of a plan: the launcher's name, binary and prefix, the arguments and
  the warnings.\<close>

type_synonym kvm_view = "string \<times> string \<times> string list \<times> string list \<times> string list"

definition kvm_exported :: "kvm_plan \<Rightarrow> kvm_view" where
  "kvm_exported p =
     (kl_name (kp_launcher p), kl_binary (kp_launcher p), kl_prefix (kp_launcher p), kp_arguments p,
      kp_warnings p)"

definition kvm_tamper :: "kvm_view \<Rightarrow> kvm_plan \<Rightarrow> kvm_plan" where
  "kvm_tamper v p =
     (case v of (n, b, pre, args, ws) \<Rightarrow>
        p\<lparr>kp_launcher := (kp_launcher p)\<lparr>kl_name := n, kl_binary := b, kl_prefix := pre\<rparr>,
          kp_arguments := args, kp_warnings := ws\<rparr>)"

text \<open>Two views order the same command.\<close>

definition kvm_agrees :: "kvm_view \<Rightarrow> kvm_view \<Rightarrow> bool" where
  "kvm_agrees v w =
     (case (v, w) of ((n, b, pre, args, _), (n', b', pre', args', _)) \<Rightarrow>
        n = n' \<and> b = b' \<and> pre = pre' \<and> args = args')"

lemma kvm_build_discovered_ok:
  "kvm_build_discovered_plan l r = Inr p \<longleftrightarrow>
     kl_discovered l \<and> launcher_matches (kl_discovery_binding l) l \<and> kvm_build_plan l r = Inr p"
  by (simp add: kvm_build_discovered_plan_def)

interpretation kvm: complete_boundary "\<lambda>(l, r). kvm_build_discovered_plan l r" kvm_exported kvm_tamper
    kp_validated kvm_plan_check kvm_agrees
proof unfold_locales
  fix x p v
  assume "(case x of (l, r) \<Rightarrow> kvm_build_discovered_plan l r) = Inr p"
    and "kvm_plan_check (kvm_tamper v p) = Inr ()"
  then show "kvm_agrees v (kvm_exported p)"
    by (auto simp: kvm_build_discovered_ok kvm_build_plan_ok kvm_plan_check_ok kvm_agrees_def
        kvm_exported_def kvm_tamper_def binding_matches_iff bind_launcher_def split: prod.splits)
next
  fix x p assume "(case x of (l, r) \<Rightarrow> kvm_build_discovered_plan l r) = Inr p"
  then show "kvm_plan_check p = Inr ()"
    by (auto simp: kvm_build_discovered_ok kvm_build_plan_ok kvm_plan_check_ok binding_matches_iff
        bind_launcher_def split: prod.splits)
qed (auto simp: kvm_exported_def kvm_tamper_def kvm_plan_check_ok split: prod.splits)

section \<open>Properties\<close>

lemma discover_loop_found:
  "discover_loop w k names = Inr l \<Longrightarrow>
     \<exists>before name after path. names = before @ name # after \<and> kw_look_path w name = Some path \<and>
       (\<forall>n\<in>set before. kw_look_path w n = None) \<and> l = found_launcher w name path"
proof (induction w k names rule: discover_loop.induct)
  case (2 w k name names)
  then have "\<not> kw_canceled w k" by (auto split: if_splits)
  show ?case
  proof (cases "kw_look_path w name")
    case None
    with 2 \<open>\<not> kw_canceled w k\<close> obtain before n after path where
      "names = before @ n # after" "kw_look_path w n = Some path"
      "\<forall>n\<in>set before. kw_look_path w n = None" "l = found_launcher w n path" by auto
    with None show ?thesis by (intro exI [of _ "name # before"]) auto
  next
    case (Some path)
    with 2(2) have "l = found_launcher w name path" by (auto split: if_splits)
    with Some show ?thesis
      by (intro exI [of _ "[]"] exI [of _ name] exI [of _ names] exI [of _ path]) simp
  qed
qed (auto split: if_splits)

lemma found_launcher_valid:
  assumes "name \<in> set launcher_names"
  shows "validate_launcher (found_launcher w name path) = Inr () \<and>
    launcher_matches (kl_discovery_binding (found_launcher w name path)) (found_launcher w name path) \<and>
    kl_discovered (found_launcher w name path) \<and> kl_binary (found_launcher w name path) = path \<and>
    kl_name (found_launcher w name path) = name"
  using assms
  by (auto simp: launcher_names_def found_launcher_def validate_launcher_def Let_def launcher_matches_def
      binding_matches_iff bind_launcher_def direct_browser_names_def)

lemma preferred_candidates:
  assumes "kvm_discover (Some w) pref = Inr l"
  shows "\<exists>names. discover_loop w 0 names = Inr l \<and> set names \<subseteq> set launcher_names \<and>
    (names = launcher_names \<or> names = [normalize pref])"
proof -
  have lists: "set [''xdg-open'', ''gio'', ''sensible-browser''] \<subseteq> set launcher_names"
    "set direct_browser_names \<subseteq> set launcher_names"
    by (auto simp: launcher_names_def direct_browser_names_def)
  let ?p = "normalize pref"
  let ?preferred = "if ?p = [] then ''auto'' else ?p"
  consider "discover_loop w 0 launcher_names = Inr l"
    | "discover_loop w 0 [?p] = Inr l" "?p \<in> set [''xdg-open'', ''gio'', ''sensible-browser''] \<union> set direct_browser_names"
    using assms by (auto simp: kvm_discover_def Let_def split: if_splits)
  then show ?thesis
  proof cases
    case 2
    then show ?thesis using lists by (intro exI [of _ "[?p]"]) auto
  qed auto
qed

text \<open>Discovery returns the first allowlisted launcher that is installed, in the order of
  preference, and what it returns is fit for planning: its name and fixed prefix are
  allowlisted, its binary is the path that was looked up, it is bound to itself, and the
  executable it is bound to is a regular file with an executable bit.\<close>

theorem kvm_discovery_first:
  assumes "kvm_discover (Some w) pref = Inr l"
  shows "(\<exists>before name after path. (before @ name # after = launcher_names \<or>
        before = [] \<and> after = [] \<and> name = normalize pref) \<and>
      name \<in> set launcher_names \<and> kw_look_path w name = Some path \<and>
      (\<forall>n\<in>set before. kw_look_path w n = None) \<and> l = found_launcher w name path) \<and>
    validate_launcher l = Inr () \<and> kl_discovered l \<and> launcher_matches (kl_discovery_binding l) l \<and>
    (\<forall>info. kl_executable_info l = Some info \<longrightarrow>
       kw_stat w (kl_binary l) = Some info \<and> fi_regular info \<and> executable_mode info)"
proof -
  obtain names where n: "discover_loop w 0 names = Inr l" "set names \<subseteq> set launcher_names"
    "names = launcher_names \<or> names = [normalize pref]"
    using preferred_candidates [OF assms] by blast
  obtain before name after path where d: "names = before @ name # after" "kw_look_path w name = Some path"
    "\<forall>n\<in>set before. kw_look_path w n = None" "l = found_launcher w name path"
    using discover_loop_found [OF n(1)] by blast
  have name: "name \<in> set launcher_names" using n(2) d(1) by auto
  have "before @ name # after = launcher_names \<or> before = [] \<and> after = [] \<and> name = normalize pref"
    using n(3) d(1) by (auto simp: append_eq_Cons_conv)
  moreover have "kl_executable_info l = Some info \<longrightarrow>
      kw_stat w (kl_binary l) = Some info \<and> fi_regular info \<and> executable_mode info" for info
    unfolding d(4) by (auto simp: found_launcher_def Let_def split: option.splits if_splits)
  ultimately show ?thesis using name d found_launcher_valid [OF name, of w path] by blast
qed

definition desktop_world :: kvm_world where
  "desktop_world =
     \<lparr>kw_look_path = (\<lambda>n. if n = ''gio'' then Some ''/usr/bin/gio'' else None),
      kw_stat = (\<lambda>p. if p = ''/usr/bin/gio'' then Some \<lparr>fi_file = 7, fi_regular = True, fi_perm = 493\<rparr> else None),
      kw_canceled = (\<lambda>_. False), kw_has_runner = True, kw_run_succeeds = (\<lambda>_ _. True)\<rparr>"

definition desktop_launcher :: kvm_launcher where
  "desktop_launcher = found_launcher desktop_world ''gio'' ''/usr/bin/gio''"

theorem kvm_discovery_first_witness:
  "kvm_discover (Some desktop_world) '' Auto '' = Inr desktop_launcher \<and>
   validate_launcher desktop_launcher = Inr ()"
proof -
  have "normalize '' Auto '' = ''auto''" by code_simp
  then have d: "kvm_discover (Some desktop_world) '' Auto '' = Inr desktop_launcher"
    by (simp add: kvm_discover_def launcher_names_def desktop_world_def desktop_launcher_def)
  from kvm_discovery_first [OF d] d show ?thesis by blast
qed

lemma validate_launcher_prefix:
  "validate_launcher l = Inr () \<Longrightarrow>
     kl_name l \<in> set launcher_names \<and> kl_prefix l = (if kl_name l = ''gio'' then [''open''] else [])"
  by (auto simp: validate_launcher_def launcher_names_def direct_browser_names_def split: if_splits)

lemma kvm_execute_cases:
  assumes "kvm_execute w p = (res, procs)"
  obtains (refused) e where "res = Inl e" "procs = []"
  | (started) "kvm_plan_check p = Inr ()" "kvm_binary_check w (kp_launcher p) = Inr ()" "kw_has_runner w"
      "\<not> kw_canceled w 0" "procs = [(kl_binary (kp_launcher p), kp_arguments p)]"
      "res = (if kw_run_succeeds w (kl_binary (kp_launcher p)) (kp_arguments p) then Inr ()
              else Inl Kvm_Handoff_Failed)"
proof -
  let ?checks = "first_error [kvm_plan_check p, kvm_binary_check w (kp_launcher p),
      require (kw_has_runner w) Kvm_No_Runner, require (\<not> kw_canceled w 0) Kvm_Canceled]"
  show thesis
  proof (cases ?checks)
    case (Inl e)
    with assms have "res = Inl e" "procs = []" by (simp_all add: kvm_execute_def del: first_error.simps)
    then show thesis by (rule refused)
  next
    case (Inr u)
    with assms started show thesis by (auto simp: kvm_execute_def simp del: first_error.simps(2))
  qed
qed


text \<open>C12. Whatever plan the KVM executor is given, it starts at most one process, and only an
  allowlisted browser or opener with the endpoint as its argument: the binary is an absolute
  path to the regular executable found at discovery, the arguments are the endpoint alone
  (after the word open for gio), the endpoint passes the endpoint check, and the plan and its
  launcher went through the planner and discovery. Success means the process was started.\<close>

theorem kvm_spawns_only_allowlisted:
  assumes "kvm_execute w p = (res, procs)"
  shows "(procs = [] \<and> res \<noteq> Inr ()) \<or>
    (\<exists>binary args endpoint bound info.
       procs = [(binary, args)] \<and> is_abs binary \<and>
       args = (if kl_name (kp_launcher p) = ''gio'' then [''open'', endpoint] else [endpoint]) \<and>
       kl_name (kp_launcher p) \<in> set launcher_names \<and>
       validate_kvm_endpoint endpoint (kp_allow_http p) = Inr () \<and>
       kl_executable_info (kp_launcher p) = Some bound \<and> kw_stat w binary = Some info \<and>
       fi_regular info \<and> executable_mode info \<and> same_file bound info \<and>
       kp_validated p \<and> kl_discovered (kp_launcher p) \<and> \<not> kw_canceled w 0 \<and>
       (res = Inr () \<longleftrightarrow> kw_run_succeeds w binary args))"
  using assms
proof (cases rule: kvm_execute_cases)
  case refused
  then show ?thesis by simp
next
  case started
  from started(1) obtain e where e: "kp_arguments p = kl_prefix (kp_launcher p) @ [e]"
      "validate_kvm_endpoint e (kp_allow_http p) = Inr ()"
    and v: "validate_launcher (kp_launcher p) = Inr ()" "kp_validated p" "kl_discovered (kp_launcher p)"
    unfolding kvm_plan_check_ok by blast
  from started(2) obtain bound info where b: "is_abs (kl_binary (kp_launcher p))"
      "kl_executable_info (kp_launcher p) = Some bound" "kw_stat w (kl_binary (kp_launcher p)) = Some info"
      "fi_regular info" "executable_mode info" "same_file bound info"
    unfolding kvm_binary_check_ok by blast
  note l = validate_launcher_prefix [OF v(1)]
  show ?thesis
    using started(4,5,6) e v(2,3) b l
    by (intro disjI2 exI [of _ "kl_binary (kp_launcher p)"] exI [of _ "kp_arguments p"] exI [of _ e]
        exI [of _ bound] exI [of _ info]) simp
qed

definition desktop_request :: kvm_request where
  "desktop_request = \<lparr>kr_endpoint = ''https://kvm.lan/'', kr_allow_http = False,
     kr_physical_host_confirmed = True, kr_accept_unverified_handoff = True\<rparr>"

definition desktop_plan :: kvm_plan where
  "desktop_plan = (case kvm_build_discovered_plan desktop_launcher desktop_request of
     Inr p \<Rightarrow> p | Inl _ \<Rightarrow> undefined)"

lemma desktop_endpoint: "validate_kvm_endpoint ''https://kvm.lan/'' False = Inr ()"
  by code_simp

lemma desktop_launcher_valid:
  "validate_launcher desktop_launcher = Inr ()" "launcher_matches (kl_discovery_binding desktop_launcher) desktop_launcher"
  "kl_discovered desktop_launcher" "kl_binary desktop_launcher = ''/usr/bin/gio''" "kl_name desktop_launcher = ''gio''"
  using found_launcher_valid [of "''gio''" desktop_world "''/usr/bin/gio''"]
  by (simp_all add: desktop_launcher_def launcher_names_def)

lemma desktop_built: "kvm_build_discovered_plan desktop_launcher desktop_request = Inr desktop_plan"
  using desktop_launcher_valid desktop_endpoint
  by (auto simp: desktop_plan_def kvm_build_discovered_ok kvm_build_plan_ok desktop_request_def split: sum.splits)
     (simp add: kvm_build_discovered_plan_def kvm_build_plan_def)

lemma desktop_executed:
  "kvm_execute desktop_world desktop_plan = (Inr (), [(''/usr/bin/gio'', [''open'', ''https://kvm.lan/''])])"
proof -
  have mode: "executable_mode \<lparr>fi_file = 7, fi_regular = True, fi_perm = 493\<rparr>"
    by (simp add: executable_mode_def)
  have info: "kl_executable_info desktop_launcher = Some \<lparr>fi_file = 7, fi_regular = True, fi_perm = 493\<rparr>"
    using mode by (simp add: desktop_launcher_def found_launcher_def desktop_world_def Let_def)
  have check: "kvm_plan_check desktop_plan = Inr ()"
    using kvm.guard_built [of "(desktop_launcher, desktop_request)"] desktop_built by simp
  have p: "kp_launcher desktop_plan = desktop_launcher"
    "kp_arguments desktop_plan = kl_prefix desktop_launcher @ [''https://kvm.lan/'']"
    using desktop_built unfolding kvm_build_discovered_ok kvm_build_plan_ok
    by (metis kvm_plan.select_convs(1,2) kvm_request.select_convs(1) desktop_request_def)+
  have "kl_prefix desktop_launcher = [''open'']"
    using validate_launcher_prefix [OF desktop_launcher_valid(1)] desktop_launcher_valid(5) by simp
  moreover have "kvm_binary_check desktop_world desktop_launcher = Inr ()"
    unfolding kvm_binary_check_ok
    using info mode desktop_launcher_valid(4) by (simp add: is_abs_def desktop_world_def same_file_def)
  ultimately show ?thesis
    using check p desktop_launcher_valid(4) by (simp add: kvm_execute_def desktop_world_def)
qed

theorem kvm_spawns_only_allowlisted_witness:
  "kp_validated desktop_plan \<and> kl_name (kp_launcher desktop_plan) \<in> set launcher_names"
  using kvm_spawns_only_allowlisted [OF desktop_executed] by auto



end
