(* ===== verification/Moonlight_Text.thy ===== *)
theory Moonlight_Text
  imports Host_Endpoint
begin

text \<open>
  What \<open>internal/remote\<close> reads of a Moonlight client's output: the removal of terminal control
  sequences and the application-list match (\<open>remote.go\<close>), and the bounded capture and the
  verification of Embedded's pairing output (\<open>control.go\<close>).
\<close>

section \<open>Flavors and operations\<close>

datatype flavor = Embedded | Qt | Flatpak | Other_Flavor string

datatype operation = Pair_Op | Unpair_Op | List_Op | Stream_Op | Quit_Op | Map_Op | Other_Op string

fun operation_text :: "operation \<Rightarrow> string" where
  "operation_text Pair_Op = ''pair''"
| "operation_text Unpair_Op = ''unpair''"
| "operation_text List_Op = ''list''"
| "operation_text Stream_Op = ''stream''"
| "operation_text Quit_Op = ''quit''"
| "operation_text Map_Op = ''map''"
| "operation_text (Other_Op s) = s"

section \<open>Terminal control sequences\<close>

datatype terminal_state = Plain_Text | Escape_Seen | In_Csi | In_Osc | Osc_Escape

abbreviation esc :: char where
  "esc \<equiv> CHR 0x1B"

text \<open>One byte: the next state, and whether the byte is written out.\<close>

fun terminal_step :: "terminal_state \<Rightarrow> char \<Rightarrow> terminal_state \<times> bool" where
  "terminal_step Plain_Text c = (if c = esc then (Escape_Seen, False) else (Plain_Text, True))"
| "terminal_step Escape_Seen c =
     (if c = CHR ''['' then In_Csi else if c = CHR '']'' then In_Osc else Plain_Text, False)"
| "terminal_step In_Csi c = (if 64 \<le> byte c \<and> byte c \<le> 126 then Plain_Text else In_Csi, False)"
| "terminal_step In_Osc c =
     (if c = CHR 0x07 then Plain_Text else if c = esc then Osc_Escape else In_Osc, False)"
| "terminal_step Osc_Escape c =
     (if c = CHR 0x5C then Plain_Text else if c = esc then Osc_Escape else In_Osc, False)"

fun strip_from :: "terminal_state \<Rightarrow> string \<Rightarrow> string" where
  "strip_from st [] = []"
| "strip_from st (c # s) =
     (case terminal_step st c of (st', keep) \<Rightarrow> if keep then c # strip_from st' s else strip_from st' s)"

definition strip_terminal_control_sequences :: "string \<Rightarrow> string" where
  "strip_terminal_control_sequences value = strip_from Plain_Text value"

section \<open>The application list\<close>

text \<open>The forms a line may take around a name, for a test of the name.\<close>

definition line_forms :: "(string \<Rightarrow> bool) \<Rightarrow> string \<Rightarrow> bool" where
  "line_forms matches line =
     (let digits = takeWhile is_digit line; after = dropWhile is_digit line
      in
        if matches line then True
        else
          (case cut_at (CHR '':'') line of
             (before, rest, colon) \<Rightarrow>
               if colon \<and> before \<noteq> [] \<and>
                  (equal_fold (trim_space before) ''application'' \<or> equal_fold (trim_space before) ''app'')
               then matches (trim_space rest)
               else if 1 < length line \<and> (hd line = CHR ''-'' \<or> hd line = CHR ''*'') \<and>
                       matches (trim_space (tl line))
               then True
               else
                 (case cut_at (CHR '']'') line of
                    (bracket, rest', closed) \<Rightarrow>
                      if closed \<and> 2 < length line \<and> hd line = CHR ''['' \<and> 1 < length bracket \<and>
                         all_digits (tl bracket) \<and> matches (trim_space rest')
                      then True
                      else
                        digits \<noteq> [] \<and> after \<noteq> [] \<and> hd after \<in> set ''.):-'' \<and>
                        matches (trim_space (tl after)))))"

definition application_line_matches :: "string \<Rightarrow> string \<Rightarrow> bool \<Rightarrow> bool" where
  "application_line_matches line application caseless =
     line_forms (\<lambda>candidate. if caseless then equal_fold candidate application else candidate = application)
       line"

definition application_listed :: "string \<Rightarrow> string \<Rightarrow> bool \<Rightarrow> bool" where
  "application_listed output application caseless \<longleftrightarrow>
     validate_app_name application = Inr () \<and>
     list_ex (\<lambda>line. application_line_matches (trim_space (strip_terminal_control_sequences line))
                       application caseless)
       (split_on (CHR 0x0A) output)"

definition application_listed_for_flavor :: "string \<Rightarrow> string \<Rightarrow> flavor \<Rightarrow> bool" where
  "application_listed_for_flavor output application fl =
     application_listed output application (fl = Qt \<or> fl = Flatpak)"

section \<open>Verifying Embedded's control output\<close>

definition maximum_control_output :: nat where
  "maximum_control_output = push_bit 10 64"

record control_capture =
  cc_buffer :: string
  cc_truncated :: bool

definition empty_capture :: control_capture where
  "empty_capture = \<lparr>cc_buffer = [], cc_truncated = False\<rparr>"

definition capture_write :: "control_capture \<Rightarrow> string \<Rightarrow> control_capture" where
  "capture_write c data =
     (let remaining = maximum_control_output - length (cc_buffer c) in
      if remaining < length data
      then \<lparr>cc_buffer = cc_buffer c @ take remaining data, cc_truncated = True\<rparr>
      else c\<lparr>cc_buffer := cc_buffer c @ data\<rparr>)"

datatype control_error = Output_Exceeded | Reported_Failure | Unconfirmed

text \<open>The loop over the lines of one stream; the flag says whether it is the standard output.\<close>

fun scan_control :: "operation \<Rightarrow> bool \<Rightarrow> string list \<Rightarrow> bool \<Rightarrow> control_error + bool" where
  "scan_control op is_stdout [] success = Inr success"
| "scan_control op is_stdout (l # ls) success =
     (let line = trim_space (strip_terminal_control_sequences l);
          verb = (if op = Unpair_Op then ''unpaired'' else ''paired'')
      in
        if prefix (''Failed to '' @ operation_text op @ '' to server:'') line then Inl Reported_Failure
        else scan_control op is_stdout ls
          (success \<or> is_stdout \<and> (line = ''Succesfully '' @ verb \<or> line = ''Successfully '' @ verb)))"

definition verify_embedded_control :: "operation \<Rightarrow> control_capture \<Rightarrow> control_capture \<Rightarrow> control_error + unit" where
  "verify_embedded_control op out err =
     (if cc_truncated out \<or> cc_truncated err then Inl Output_Exceeded
      else
        bind_result (scan_control op True (split_on (CHR 0x0A) (cc_buffer out)) False) (\<lambda>success.
        bind_result (scan_control op False (split_on (CHR 0x0A) (cc_buffer err)) success) (\<lambda>success'.
          if success' then Inr () else Inl Unconfirmed)))"

section \<open>What is left of a line\<close>

lemma terminal_step_keeps: "terminal_step st c = (st', True) \<Longrightarrow> st = Plain_Text \<and> c \<noteq> esc"
  by (cases st) (auto split: if_splits)

lemma strip_from_no_esc: "esc \<notin> set (strip_from st s)"
proof (induction st s rule: strip_from.induct)
  case (2 st c s)
  obtain st' keep where t: "terminal_step st c = (st', keep)" by (cases "terminal_step st c")
  with 2 terminal_step_keeps [of st c st'] show ?case by (cases keep) auto
qed simp

lemma strip_from_subseq: "subseq (strip_from st s) s"
  by (induction st s rule: strip_from.induct) (auto split: prod.splits)

lemma strip_plain_append: "esc \<notin> set p \<Longrightarrow> strip_from Plain_Text (p @ s) = p @ strip_from Plain_Text s"
  by (induction p) auto

lemma strip_csi:
  "\<forall>c \<in> set ps. \<not> (64 \<le> byte c \<and> byte c \<le> 126) \<Longrightarrow> 64 \<le> byte f \<Longrightarrow> byte f \<le> 126 \<Longrightarrow>
     strip_from In_Csi (ps @ f # s) = strip_from Plain_Text s"
  by (induction ps) auto

lemma strip_osc:
  "esc \<notin> set body \<Longrightarrow> CHR 0x07 \<notin> set body \<Longrightarrow> strip_from In_Osc (body @ s) = strip_from In_Osc s"
  by (induction body) auto

inductive control_sequence :: "string \<Rightarrow> bool" where
  two_byte: "c \<noteq> CHR ''['' \<Longrightarrow> c \<noteq> CHR '']'' \<Longrightarrow> control_sequence [esc, c]"
| csi: "\<forall>c \<in> set ps. \<not> (64 \<le> byte c \<and> byte c \<le> 126) \<Longrightarrow> 64 \<le> byte f \<Longrightarrow> byte f \<le> 126 \<Longrightarrow>
    control_sequence (esc # CHR ''['' # ps @ [f])"
| osc_bel: "esc \<notin> set body \<Longrightarrow> CHR 0x07 \<notin> set body \<Longrightarrow> control_sequence (esc # CHR '']'' # body @ [CHR 0x07])"
| osc_st: "esc \<notin> set body \<Longrightarrow> CHR 0x07 \<notin> set body \<Longrightarrow>
    control_sequence (esc # CHR '']'' # body @ [esc, CHR 0x5C])"

lemma strip_control_sequence:
  "control_sequence q \<Longrightarrow> strip_from Plain_Text (q @ s) = strip_from Plain_Text s"
  by (induction rule: control_sequence.induct) (auto simp: strip_csi strip_osc)

text \<open>A decorated text: plain bytes with whole control sequences between them, and the plain
  bytes alone.\<close>

inductive decorates :: "string \<Rightarrow> string \<Rightarrow> bool" where
  nothing: "decorates [] []"
| plain: "c \<noteq> esc \<Longrightarrow> decorates s t \<Longrightarrow> decorates (c # s) (c # t)"
| sequence: "control_sequence q \<Longrightarrow> decorates s t \<Longrightarrow> decorates (q @ s) t"

lemma strip_decorated: "decorates s t \<Longrightarrow> strip_from Plain_Text s = t"
  by (induction rule: decorates.induct) (auto simp: strip_control_sequence)

text \<open>Cleaning a line of client output leaves no escape byte and only bytes of the line in
  their order, removes every complete two-byte, CSI and OSC sequence (ended by BEL or ST)
  wherever it stands between plain bytes, and keeps the plain bytes.\<close>

theorem strip_terminal_correct:
  "esc \<notin> set (strip_terminal_control_sequences s) \<and>
   subseq (strip_terminal_control_sequences s) s \<and>
   (decorates s t \<longrightarrow> strip_terminal_control_sequences s = t)"
  by (simp add: strip_terminal_control_sequences_def strip_from_no_esc strip_from_subseq strip_decorated)

theorem strip_terminal_correct_witness:
  "strip_terminal_control_sequences
     (''Desk'' @ [esc, CHR ''['', CHR ''3'', CHR ''1'', CHR ''m''] @ ''top'') = ''Desktop''"
proof -
  have "control_sequence [esc, CHR ''['', CHR ''3'', CHR ''1'', CHR ''m'']"
    using control_sequence.csi [of "''31''" "CHR ''m''"] by (simp add: byte_def)
  then have "decorates ([esc, CHR ''['', CHR ''3'', CHR ''1'', CHR ''m''] @ ''top'') ''top''"
    by (intro decorates.sequence) (auto intro!: decorates.intros)
  then have "decorates (''Desk'' @ [esc, CHR ''['', CHR ''3'', CHR ''1'', CHR ''m''] @ ''top'') ''Desktop''"
    by (auto intro!: decorates.plain)
  then show ?thesis using strip_terminal_correct by blast
qed

section \<open>The application list and the captured output\<close>

lemma ladder_elim:
  "(if A then True else if c \<and> B then P else if C1 \<and> C2 \<and> Q then True
    else if c' \<and> D1 \<and> D2 \<and> D3 \<and> D4 \<and> R then True else E1 \<and> E2 \<and> E3 \<and> S) \<Longrightarrow>
   A \<or> c \<and> P \<or> Q \<or> c' \<and> R \<or> S"
  by (auto split: if_splits)

lemma ladder_mono:
  "(if A then True else if B then P else if C1 \<and> C2 \<and> Q then True
    else if D0 \<and> D1 \<and> D2 \<and> D3 \<and> D4 \<and> R then True else E1 \<and> E2 \<and> E3 \<and> S) \<Longrightarrow>
   (A \<Longrightarrow> A') \<Longrightarrow> (P \<Longrightarrow> P') \<Longrightarrow> (Q \<Longrightarrow> Q') \<Longrightarrow> (R \<Longrightarrow> R') \<Longrightarrow> (S \<Longrightarrow> S') \<Longrightarrow>
   (if A' then True else if B then P' else if C1 \<and> C2 \<and> Q' then True
    else if D0 \<and> D1 \<and> D2 \<and> D3 \<and> D4 \<and> R' then True else E1 \<and> E2 \<and> E3 \<and> S')"
  by (auto split: if_splits)

lemma line_forms_part: "line_forms m line \<Longrightarrow> \<exists>part. sublist part line \<and> m part"
proof -
  have tl_part: "sublist (trim_space (tl l)) l" for l
    by (metis sublist_tl sublist_order.order_trans trim_space_sublist)
  have cut_part: "sublist (trim_space r) l" if "cut_at c l = (b, r, True)" for c l b r
  proof -
    from that have "l = (b @ [c]) @ r" by (simp add: cut_at_found)
    then have "suffix r l" by (auto simp: suffix_def)
    then show ?thesis using trim_space_sublist suffix_imp_sublist sublist_order.order_trans by blast
  qed
  have after_part: "sublist (trim_space (tl (dropWhile is_digit l))) l" for l
    by (metis suffix_dropWhile suffix_imp_sublist sublist_order.order_trans tl_part)
  assume m: "line_forms m line"
  obtain b r c where colon: "cut_at (CHR '':'') line = (b, r, c)" by (cases "cut_at (CHR '':'') line")
  obtain b' r' c' where bracket: "cut_at (CHR '']'') line = (b', r', c')" by (cases "cut_at (CHR '']'') line")
  from m have "m line \<or> c \<and> m (trim_space r) \<or> m (trim_space (tl line)) \<or> c' \<and> m (trim_space r') \<or>
      m (trim_space (tl (dropWhile is_digit line)))"
    unfolding line_forms_def Let_def colon bracket prod.case by (rule ladder_elim)
  then show ?thesis
  proof (elim disjE conjE, goal_cases)
    case 1 then show ?case by (intro exI [of _ line]) simp
  next
    case 2 then show ?case using cut_part [of _ line b r] colon by (intro exI [of _ "trim_space r"]) simp
  next
    case 3 then show ?case using tl_part [of line] by (intro exI [of _ "trim_space (tl line)"]) simp
  next
    case 4 then show ?case using cut_part [of _ line b' r'] bracket by (intro exI [of _ "trim_space r'"]) simp
  next
    case 5 then show ?case
      using after_part [of line] by (intro exI [of _ "trim_space (tl (dropWhile is_digit line))"]) simp
  qed
qed

lemma line_forms_mono: "(\<And>c. m c \<Longrightarrow> m' c) \<Longrightarrow> line_forms m line \<Longrightarrow> line_forms m' line"
proof -
  obtain b r c where colon: "cut_at (CHR '':'') line = (b, r, c)" by (cases "cut_at (CHR '':'') line")
  obtain b' r' c' where bracket: "cut_at (CHR '']'') line = (b', r', c')" by (cases "cut_at (CHR '']'') line")
  assume mono: "\<And>c. m c \<Longrightarrow> m' c" and "line_forms m line"
  from this(2) show ?thesis
    unfolding line_forms_def Let_def colon bracket prod.case by (rule ladder_mono) (rule mono, assumption)+
qed

lemma line_matches_part:
  "application_line_matches line app f \<Longrightarrow>
     \<exists>part. sublist part line \<and> (if f then equal_fold part app else part = app)"
  unfolding application_line_matches_def by (rule line_forms_part)

lemma line_matches_caseless:
  "application_line_matches line app False \<Longrightarrow> application_line_matches line app True"
  unfolding application_line_matches_def by (erule line_forms_mono [rotated]) simp
text \<open>The application-list check is neither fooled by nor lost to decoration: a listed
  application occurs as a contiguous part of some line of the cleaned output (exactly, or up
  to letter case for the Qt clients), what the exact check finds the caseless one finds too,
  and a valid name alone on a line, with control sequences around its bytes, is always found.\<close>

theorem application_listed_correct:
  "(application_listed output app f \<longrightarrow>
      validate_app_name app = Inr () \<and>
      (\<exists>line \<in> set (split_on (CHR 0x0A) output). \<exists>part.
         sublist part (trim_space (strip_terminal_control_sequences line)) \<and>
         (if f then equal_fold part app else part = app))) \<and>
   (application_listed output app False \<longrightarrow> application_listed output app True) \<and>
   (validate_app_name app = Inr () \<and> line \<in> set (split_on (CHR 0x0A) output) \<and> decorates line app \<longrightarrow>
      application_listed output app f)"
proof (intro conjI impI)
  assume "application_listed output app f"
  then show "\<exists>line \<in> set (split_on (CHR 0x0A) output). \<exists>part.
         sublist part (trim_space (strip_terminal_control_sequences line)) \<and>
         (if f then equal_fold part app else part = app)"
    using line_matches_part unfolding application_listed_def list_ex_iff by blast
next
  assume "application_listed output app False"
  then show "application_listed output app True"
    using line_matches_caseless unfolding application_listed_def list_ex_iff by blast
next
  assume a: "validate_app_name app = Inr () \<and> line \<in> set (split_on (CHR 0x0A) output) \<and> decorates line app"
  then have "trim_space app = app" by (simp add: validate_app_name_def del: first_error.simps(2))
  then have "application_line_matches (trim_space (strip_terminal_control_sequences line)) app f"
    using strip_decorated [of line app] a
    by (simp add: strip_terminal_control_sequences_def application_line_matches_def line_forms_def)
  with a show "application_listed output app f" by (auto simp: application_listed_def list_ex_iff)
qed (simp add: application_listed_def)

theorem application_listed_correct_witness:
  "application_listed (''Desktop'' @ [CHR 0x0A] @ ''League of Legends'') ''League of Legends'' True"
proof -
  have "validate_app_name ''League of Legends'' = Inr ()" by code_simp
  moreover have "decorates ''League of Legends'' ''League of Legends''"
    by (simp add: decorates.intros)
  moreover have "''League of Legends'' \<in> set (split_on (CHR 0x0A) (''Desktop'' @ [CHR 0x0A] @ ''League of Legends''))"
    by simp
  ultimately show ?thesis using application_listed_correct by blast
qed

text \<open>What a capture holds after a sequence of writes.\<close>

lemma capture_writes:
  "foldl capture_write empty_capture ws =
     \<lparr>cc_buffer = take maximum_control_output (concat ws),
      cc_truncated = (maximum_control_output < length (concat ws))\<rparr>"
proof (induction ws rule: rev_induct)
  case (snoc w ws)
  have "maximum_control_output - min (length (concat ws)) maximum_control_output =
      maximum_control_output - length (concat ws)" by simp
  with snoc show ?case by (auto simp: capture_write_def Let_def)
qed (simp add: empty_capture_def)

lemma scan_control_ok:
  "scan_control op std ls s = Inr r \<longleftrightarrow>
     (\<forall>l \<in> set ls. \<not> prefix (''Failed to '' @ operation_text op @ '' to server:'')
         (trim_space (strip_terminal_control_sequences l))) \<and>
     r = (s \<or> std \<and> (\<exists>l \<in> set ls. trim_space (strip_terminal_control_sequences l) \<in>
        {''Succesfully '' @ (if op = Unpair_Op then ''unpaired'' else ''paired''),
         ''Successfully '' @ (if op = Unpair_Op then ''unpaired'' else ''paired'')}))"
  by (induction op std ls s rule: scan_control.induct) (auto simp: Let_def)

text \<open>Embedded's pairing counts as done only when its output says so: after any sequence of
  writes to the two captures, verification succeeds exactly when neither stream was longer than
  64 KiB, no line of either reports a failure of the operation, and some line of the standard
  output, cleaned and trimmed, is the success message.\<close>

theorem embedded_control_verified:
  "verify_embedded_control op (foldl capture_write empty_capture ws) (foldl capture_write empty_capture es) = Inr () \<longleftrightarrow>
     length (concat ws) \<le> 65536 \<and> length (concat es) \<le> 65536 \<and>
     (\<forall>l \<in> set (split_on (CHR 0x0A) (concat ws)) \<union> set (split_on (CHR 0x0A) (concat es)).
        \<not> prefix (''Failed to '' @ operation_text op @ '' to server:'')
           (trim_space (strip_terminal_control_sequences l))) \<and>
     (\<exists>l \<in> set (split_on (CHR 0x0A) (concat ws)). trim_space (strip_terminal_control_sequences l) \<in>
        {''Succesfully '' @ (if op = Unpair_Op then ''unpaired'' else ''paired''),
         ''Successfully '' @ (if op = Unpair_Op then ''unpaired'' else ''paired'')})"
proof -
  have m: "maximum_control_output = 65536" by code_simp
  show ?thesis
    unfolding capture_writes verify_embedded_control_def
    by (auto simp: bind_result_ok scan_control_ok m split: if_splits)
qed

theorem embedded_control_verified_witness:
  "verify_embedded_control Pair_Op
     (foldl capture_write empty_capture [''Succesf'', ''ully paired'']) (foldl capture_write empty_capture []) = Inr ()"
  unfolding embedded_control_verified by code_simp

end
