(* ===== verification/Moonlight_Options.thy ===== *)
theory Moonlight_Options
  imports Moonlight_Text
begin

text \<open>
  The stream options of \<open>internal/remote/remote.go\<close>: the record, its validation, and the
  arguments it contributes to a client's command line. The Go functions are long runs of
  independent \<open>if\<close> blocks; each block is a definition here, and \<open>validate_options\<close> and
  \<open>stream_arguments\<close> list the blocks in the order of the code.
\<close>

section \<open>Data\<close>

text \<open>The errors name the option they are about.\<close>

datatype stream_error =
    Bad_Value string | Bad_Resolution string | Bad_Selector string | Bad_Device string | Bad_Mapping string
  | Conflict string string | Too_Many_Devices
  | Wrong_Client string | Repeated string | Missing_Value string | Unknown_Option string

record stream_options =
  so_resolution :: string
  so_fps :: int
  so_bitrate_kbps :: int
  so_packet_size_bytes :: int
  so_codec :: string
  so_audio_config :: string
  so_audio_on_host :: bool
  so_audio_device :: string
  so_preserve_host_settings :: bool
  so_disable_gamepad_mouse_emulation :: bool
  so_input_device :: string
  so_input_devices :: "string list"
  so_input_mapping :: string
  so_network_mode :: string
  so_frame_pacing :: string
  so_vsync :: string
  so_keep_awake :: bool
  so_quit_after :: bool
  so_capture_system_keys :: string
  so_platform :: string
  so_decoder :: string
  so_display_mode :: string
  so_mouse_mode :: string
  so_multi_controller :: bool
  so_mouse_buttons_swap :: bool
  so_touchscreen_trackpad :: bool
  so_mute_on_focus_loss :: bool
  so_background_gamepad :: bool
  so_reverse_scroll_direction :: bool
  so_swap_gamepad_buttons :: bool
  so_performance_overlay :: bool
  so_hdr :: bool
  so_yuv444 :: bool

definition no_options :: stream_options where
  "no_options =
     \<lparr>so_resolution = [], so_fps = 0, so_bitrate_kbps = 0, so_packet_size_bytes = 0, so_codec = [],
      so_audio_config = [], so_audio_on_host = False, so_audio_device = [],
      so_preserve_host_settings = False, so_disable_gamepad_mouse_emulation = False,
      so_input_device = [], so_input_devices = [], so_input_mapping = [], so_network_mode = [],
      so_frame_pacing = [], so_vsync = [], so_keep_awake = False, so_quit_after = False,
      so_capture_system_keys = [], so_platform = [], so_decoder = [], so_display_mode = [],
      so_mouse_mode = [], so_multi_controller = False, so_mouse_buttons_swap = False,
      so_touchscreen_trackpad = False, so_mute_on_focus_loss = False, so_background_gamepad = False,
      so_reverse_scroll_direction = False, so_swap_gamepad_buttons = False,
      so_performance_overlay = False, so_hdr = False, so_yuv444 = False\<rparr>"

definition options_empty :: "stream_options \<Rightarrow> bool" where
  "options_empty o' = (o' = no_options)"

section \<open>Values\<close>

definition decimal_argument :: "string \<Rightarrow> bool" where
  "decimal_argument value = all_digits value"

definition bounded_selector :: "string \<Rightarrow> nat \<Rightarrow> string \<Rightarrow> stream_error + unit" where
  "bounded_selector label maximum value =
     first_error
       [require (trim_space value \<noteq> []) (Bad_Selector label),
        require (trim_space value = value) (Bad_Selector label),
        require (length (trim_space value) \<le> maximum) (Bad_Selector label),
        require (\<not> prefix ''-'' (trim_space value)) (Bad_Selector label),
        require (\<not> list_ex (\<lambda>r. case fst r of None \<Rightarrow> False | Some x \<Rightarrow> x < 32 \<or> x = 127) (runes (trim_space value)))
          (Bad_Selector label)]"

definition device_selector :: "string \<Rightarrow> string \<Rightarrow> stream_error + unit" where
  "device_selector label value = bounded_selector label 128 value"

definition max_embedded_input_devices :: nat where
  "max_embedded_input_devices = 6"

definition embedded_input_device :: "string \<Rightarrow> stream_error + unit" where
  "embedded_input_device value =
     first_error
       [device_selector ''input device'' value,
        require (prefix ''/dev/input/event'' value) (Bad_Device value),
        require (decimal_argument (drop (length ''/dev/input/event'') value)) (Bad_Device value)]"

definition input_mapping_path :: "string \<Rightarrow> stream_error + unit" where
  "input_mapping_path value =
     first_error
       [bounded_selector ''input mapping'' 4096 value,
        require (prefix ''/'' value) (Bad_Mapping value)]"

record resolution_spec =
  rs_name :: string
  rs_width :: nat
  rs_height :: nat

definition parse_resolution_dimension :: "string \<Rightarrow> nat \<Rightarrow> nat \<Rightarrow> stream_error + nat" where
  "parse_resolution_dimension value minimum maximum =
     (if \<not> decimal_argument value then Inl (Bad_Resolution value)
      else
        (case atoi value of
           None \<Rightarrow> Inl (Bad_Resolution value)
         | Some parsed \<Rightarrow>
             if parsed < minimum \<or> maximum < parsed then Inl (Bad_Resolution value) else Inr parsed))"

definition parse_width :: "string \<Rightarrow> stream_error + nat" where
  "parse_width value = parse_resolution_dimension value 640 7680"

definition parse_height :: "string \<Rightarrow> stream_error + nat" where
  "parse_height value = parse_resolution_dimension value 360 4320"

definition named_resolutions :: "string list" where
  "named_resolutions = [''720'', ''1080'', ''1440'', ''4k'']"

definition parse_resolution_spec :: "string \<Rightarrow> stream_error + resolution_spec" where
  "parse_resolution_spec value =
     (let normalized = normalize value in
      if List.member named_resolutions normalized
      then Inr \<lparr>rs_name = normalized, rs_width = 0, rs_height = 0\<rparr>
      else
        (case split_on (CHR ''x'') normalized of
           [w, h] \<Rightarrow>
             bind_result (parse_width w) (\<lambda>width.
             bind_result (parse_height h) (\<lambda>height.
               Inr \<lparr>rs_name = itoa width @ ''x'' @ itoa height, rs_width = width, rs_height = height\<rparr>))
         | _ \<Rightarrow> Inl (Bad_Resolution value)))"

definition packet_size_ok :: "int \<Rightarrow> stream_error + unit" where
  "packet_size_ok value =
     first_error
       [require (1024 \<le> value \<and> value \<le> 9000) (Bad_Value ''packet size''),
        require (value mod 16 = 0) (Bad_Value ''packet size'')]"

definition normalized_codec :: "string \<Rightarrow> string" where
  "normalized_codec codec = (if normalize codec = ''h265'' then ''hevc'' else normalize codec)"

definition qt_codec_name :: "string \<Rightarrow> string" where
  "qt_codec_name codec =
     (if codec = ''h264'' then ''H.264'' else if codec = ''hevc'' then ''HEVC''
      else if codec = ''av1'' then ''AV1'' else ''auto'')"

definition stream_option_flavor :: "flavor \<Rightarrow> flavor" where
  "stream_option_flavor fl = (if fl = Flatpak then Qt else fl)"

section \<open>Validation\<close>

definition one_of :: "string \<Rightarrow> string list \<Rightarrow> string \<Rightarrow> stream_error + unit" where
  "one_of label allowed value =
     (if value = [] then Inr () else require (List.member allowed (normalize value)) (Bad_Value label))"

definition check_resolution :: "stream_options \<Rightarrow> stream_error + unit" where
  "check_resolution s =
     (if so_resolution s = [] then Inr ()
      else bind_result (parse_resolution_spec (so_resolution s)) (\<lambda>_. Inr ()))"

definition check_numbers :: "stream_options \<Rightarrow> stream_error + unit" where
  "check_numbers s =
     first_error
       [require (so_fps s = 0 \<or> 10 \<le> so_fps s \<and> so_fps s \<le> 480) (Bad_Value ''fps''),
        require (so_bitrate_kbps s = 0 \<or> 500 \<le> so_bitrate_kbps s \<and> so_bitrate_kbps s \<le> 500000) (Bad_Value ''bitrate''),
        (if so_packet_size_bytes s = 0 then Inr () else packet_size_ok (so_packet_size_bytes s))]"

definition check_codec :: "stream_options \<Rightarrow> stream_error + unit" where
  "check_codec s =
     (if so_codec s = [] then Inr ()
      else
        first_error
          [one_of ''codec'' [''auto'', ''h264'', ''h265'', ''hevc'', ''av1''] (so_codec s),
           require (\<not> (so_hdr s \<and> equal_fold (trim_space (so_codec s)) ''h264'')) (Conflict ''hdr'' ''h264'')])"

definition check_devices :: "stream_options \<Rightarrow> stream_error + unit" where
  "check_devices s =
     first_error
       [(if so_audio_device s = [] then Inr () else device_selector ''audio device'' (so_audio_device s)),
        (if so_input_device s = [] then Inr () else embedded_input_device (so_input_device s)),
        require (so_input_device s = [] \<or> so_input_devices s = []) (Conflict ''input_device'' ''input_devices''),
        require (length (so_input_devices s) \<le> max_embedded_input_devices) Too_Many_Devices,
        first_error (map embedded_input_device (so_input_devices s)),
        (if so_input_mapping s = [] then Inr () else input_mapping_path (so_input_mapping s))]"

definition check_platform :: "stream_options \<Rightarrow> stream_error + unit" where
  "check_platform s =
     (if so_platform s = [] then Inr ()
      else
        first_error
          [one_of ''platform'' [''auto'', ''x11'', ''x11_vdpau'', ''x11_vaapi'', ''sdl''] (so_platform s),
           (if equal_fold (trim_space (so_platform s)) ''sdl'' then
              first_error
                [require (so_audio_device s = []) (Conflict ''sdl'' ''audio device''),
                 require (so_input_device s = [] \<and> so_input_devices s = []) (Conflict ''sdl'' ''input devices'')]
            else Inr ())])"

definition validate_options :: "stream_options \<Rightarrow> stream_error + unit" where
  "validate_options s =
     first_error
       [check_resolution s,
        check_numbers s,
        check_codec s,
        one_of ''audio config'' [''stereo'', ''5.1-surround'', ''7.1-surround''] (so_audio_config s),
        check_devices s,
        one_of ''network mode'' [''auto'', ''lan'', ''wan''] (so_network_mode s),
        one_of ''frame pacing'' [''auto'', ''on'', ''off''] (so_frame_pacing s),
        one_of ''vsync'' [''auto'', ''on'', ''off''] (so_vsync s),
        one_of ''capture system keys'' [''auto'', ''never'', ''fullscreen'', ''always''] (so_capture_system_keys s),
        check_platform s,
        one_of ''decoder'' [''auto'', ''software'', ''hardware''] (so_decoder s),
        one_of ''display mode'' [''fullscreen'', ''windowed'', ''borderless''] (so_display_mode s),
        one_of ''mouse mode'' [''absolute'', ''relative''] (so_mouse_mode s)]"

section \<open>The arguments of a stream\<close>

text \<open>
  Each block of \<open>arguments\<close> is a definition here that yields the arguments the block appends;
  \<open>fl\<close> is the option flavor, Qt for a Flatpak client. \<open>strconv.Itoa\<close> is applied to fields the
  validation has bounded from below.
\<close>

definition itoa_int :: "int \<Rightarrow> string" where
  "itoa_int i = (if i < 0 then ''-'' @ itoa (nat (- i)) else itoa (nat i))"

definition resolution_arguments :: "flavor \<Rightarrow> stream_options \<Rightarrow> stream_error + string list" where
  "resolution_arguments fl s =
     (if so_resolution s = [] then Inr []
      else bind_result (parse_resolution_spec (so_resolution s)) (\<lambda>r. Inr
        (if rs_name r = ''1440'' then
           (if fl = Qt then [''-1440''] else [''-width'', ''2560'', ''-height'', ''1440''])
         else if rs_name r = ''4k'' then [if fl = Qt then ''-4K'' else ''-4k'']
         else if rs_name r = ''720'' \<or> rs_name r = ''1080'' then [''-'' @ rs_name r]
         else if fl = Qt then [''-resolution'', rs_name r]
         else [''-width'', itoa (rs_width r), ''-height'', itoa (rs_height r)])))"

definition number_arguments :: "flavor \<Rightarrow> stream_options \<Rightarrow> stream_error + string list" where
  "number_arguments fl s = Inr
     ((if so_fps s \<noteq> 0 then [''-fps'', itoa_int (so_fps s)] else []) @
      (if so_bitrate_kbps s \<noteq> 0 then [''-bitrate'', itoa_int (so_bitrate_kbps s)] else []) @
      (if so_packet_size_bytes s \<noteq> 0
       then [if fl = Qt then ''-packet-size'' else ''-packetsize'', itoa_int (so_packet_size_bytes s)]
       else []))"

definition codec_arguments :: "flavor \<Rightarrow> stream_options \<Rightarrow> stream_error + string list" where
  "codec_arguments fl s = Inr
     (if so_codec s = [] then []
      else if fl = Qt then [''-video-codec'', qt_codec_name (normalized_codec (so_codec s))]
      else [''-codec'', normalized_codec (so_codec s)])"

definition audio_config_arguments :: "flavor \<Rightarrow> stream_options \<Rightarrow> stream_error + string list" where
  "audio_config_arguments fl s =
     (if so_audio_config s = [] then Inr []
      else
        (case fl of
           Qt \<Rightarrow> Inr [''-audio-config'', normalize (so_audio_config s)]
         | Embedded \<Rightarrow> Inr
             (if normalize (so_audio_config s) = ''5.1-surround'' then [''-surround'', ''5.1'']
              else if normalize (so_audio_config s) = ''7.1-surround'' then [''-surround'', ''7.1'']
              else [])
         | _ \<Rightarrow> Inl (Wrong_Client ''audio configuration'')))"

text \<open>A switch that both clients have under their own names.\<close>

definition shared_flag :: "bool \<Rightarrow> string \<Rightarrow> string \<Rightarrow> flavor \<Rightarrow> stream_error + string list" where
  "shared_flag enabled embedded qt fl =
     (if \<not> enabled then Inr []
      else
        (case fl of
           Embedded \<Rightarrow> Inr [embedded]
         | Qt \<Rightarrow> Inr [qt]
         | _ \<Rightarrow> Inl (Wrong_Client qt)))"

text \<open>Arguments only one of the two clients has.\<close>

definition only_for :: "flavor \<Rightarrow> bool \<Rightarrow> string \<Rightarrow> string list \<Rightarrow> flavor \<Rightarrow> stream_error + string list" where
  "only_for client enabled label arguments fl =
     (if \<not> enabled then Inr [] else if fl \<noteq> client then Inl (Wrong_Client label) else Inr arguments)"

definition audio_device_arguments :: "flavor \<Rightarrow> stream_options \<Rightarrow> stream_error + string list" where
  "audio_device_arguments fl s =
     only_for Embedded (so_audio_device s \<noteq> []) ''audio-device'' [''-audio'', trim_space (so_audio_device s)] fl"

definition mouse_emulation_arguments :: "flavor \<Rightarrow> stream_options \<Rightarrow> stream_error + string list" where
  "mouse_emulation_arguments fl s =
     only_for Embedded (so_disable_gamepad_mouse_emulation s) ''mouse-emulation'' [''-nomouseemulation''] fl"

definition planned_devices :: "stream_options \<Rightarrow> string list" where
  "planned_devices s = (if so_input_device s \<noteq> [] then [so_input_device s] else so_input_devices s)"

definition input_arguments :: "flavor \<Rightarrow> stream_options \<Rightarrow> stream_error + string list" where
  "input_arguments fl s =
     only_for Embedded (planned_devices s \<noteq> []) ''input-device''
       (concat (map (\<lambda>d. [''-input'', trim_space d]) (planned_devices s))) fl"

definition mapping_arguments :: "flavor \<Rightarrow> stream_options \<Rightarrow> stream_error + string list" where
  "mapping_arguments fl s =
     only_for Embedded (so_input_mapping s \<noteq> []) ''input-mapping'' [''-mapping'', trim_space (so_input_mapping s)] fl"

text \<open>A mode outside the map of the code is the zero value of its strings.\<close>

definition network_arguments :: "flavor \<Rightarrow> stream_options \<Rightarrow> stream_error + string list" where
  "network_arguments fl s =
     only_for Embedded (so_network_mode s \<noteq> []) ''network mode''
       [''-remote'',
        (case map_of [(''auto'', ''auto''), (''lan'', ''no''), (''wan'', ''yes'')]
                (normalize (so_network_mode s)) of Some m \<Rightarrow> m | None \<Rightarrow> [])] fl"

definition on_off :: "string \<Rightarrow> string \<Rightarrow> string list" where
  "on_off flag value =
     (if normalize value = ''on'' then [''-'' @ flag]
      else if normalize value = ''off'' then [''-no-'' @ flag] else [])"

definition pacing_arguments :: "flavor \<Rightarrow> stream_options \<Rightarrow> stream_error + string list" where
  "pacing_arguments fl s =
     only_for Qt (so_frame_pacing s \<noteq> []) ''frame-pacing'' (on_off ''frame-pacing'' (so_frame_pacing s)) fl"

definition vsync_arguments :: "flavor \<Rightarrow> stream_options \<Rightarrow> stream_error + string list" where
  "vsync_arguments fl s = only_for Qt (so_vsync s \<noteq> []) ''vsync'' (on_off ''vsync'' (so_vsync s)) fl"

definition keep_awake_arguments :: "flavor \<Rightarrow> stream_options \<Rightarrow> stream_error + string list" where
  "keep_awake_arguments fl s = only_for Qt (so_keep_awake s) ''keep-awake'' [''-keep-awake''] fl"

definition capture_keys_arguments :: "flavor \<Rightarrow> stream_options \<Rightarrow> stream_error + string list" where
  "capture_keys_arguments fl s =
     only_for Qt (so_capture_system_keys s \<noteq> []) ''system-key capture''
       (if normalize (so_capture_system_keys s) \<noteq> ''auto''
        then [''-capture-system-keys'', normalize (so_capture_system_keys s)] else []) fl"

definition platform_arguments :: "flavor \<Rightarrow> stream_options \<Rightarrow> stream_error + string list" where
  "platform_arguments fl s =
     only_for Embedded (so_platform s \<noteq> []) ''platform''
       (if normalize (so_platform s) \<noteq> ''auto'' then [''-platform'', normalize (so_platform s)] else []) fl"

definition decoder_arguments :: "flavor \<Rightarrow> stream_options \<Rightarrow> stream_error + string list" where
  "decoder_arguments fl s =
     only_for Qt (so_decoder s \<noteq> []) ''decoder'' [''-video-decoder'', normalize (so_decoder s)] fl"

definition display_arguments :: "flavor \<Rightarrow> stream_options \<Rightarrow> stream_error + string list" where
  "display_arguments fl s =
     (if so_display_mode s = [] then Inr []
      else if fl = Embedded then
        (if normalize (so_display_mode s) = ''fullscreen'' then Inr []
         else if normalize (so_display_mode s) = ''windowed'' then Inr [''-windowed'']
         else Inl (Wrong_Client ''borderless''))
      else Inr [''-display-mode'', normalize (so_display_mode s)])"

definition mouse_arguments :: "flavor \<Rightarrow> stream_options \<Rightarrow> stream_error + string list" where
  "mouse_arguments fl s =
     only_for Qt (so_mouse_mode s \<noteq> []) ''mouse mode''
       [if equal_fold (trim_space (so_mouse_mode s)) ''absolute'' then ''-absolute-mouse'' else ''-no-absolute-mouse''] fl"

text \<open>The table of switches: enabled, option, valid for Embedded too.\<close>

definition qt_controls :: "stream_options \<Rightarrow> (bool \<times> string \<times> bool) list" where
  "qt_controls s =
     [(so_multi_controller s, ''-multi-controller'', False),
      (so_mouse_buttons_swap s, ''-mouse-buttons-swap'', False),
      (so_touchscreen_trackpad s, ''-touchscreen-trackpad'', False),
      (so_mute_on_focus_loss s, ''-mute-on-focus-loss'', False),
      (so_background_gamepad s, ''-background-gamepad'', False),
      (so_reverse_scroll_direction s, ''-reverse-scroll-direction'', False),
      (so_swap_gamepad_buttons s, ''-swap-gamepad-buttons'', False),
      (so_performance_overlay s, ''-performance-overlay'', False),
      (so_hdr s, ''-hdr'', True),
      (so_yuv444 s, ''-yuv444'', False)]"

definition control_argument :: "flavor \<Rightarrow> bool \<times> string \<times> bool \<Rightarrow> stream_error + string list" where
  "control_argument fl c =
     (case c of (enabled, option, embedded_valid) \<Rightarrow>
        if \<not> enabled then Inr []
        else if fl \<noteq> Qt \<and> \<not> (embedded_valid \<and> fl = Embedded) then Inl (Wrong_Client option)
        else Inr [option])"

text \<open>The arguments of a list of blocks, or the first error.\<close>

primrec collect_arguments :: "(stream_error + string list) list \<Rightarrow> stream_error + string list" where
  "collect_arguments [] = Inr []"
| "collect_arguments (r # rs) = bind_result r (\<lambda>a. bind_result (collect_arguments rs) (\<lambda>b. Inr (a @ b)))"

definition argument_blocks :: "flavor \<Rightarrow> stream_options \<Rightarrow> (stream_error + string list) list" where
  "argument_blocks fl s =
     [resolution_arguments fl s, number_arguments fl s, codec_arguments fl s, audio_config_arguments fl s,
      shared_flag (so_audio_on_host s) ''-localaudio'' ''-audio-on-host'' fl,
      audio_device_arguments fl s,
      shared_flag (so_preserve_host_settings s) ''-nosops'' ''-no-game-optimization'' fl,
      mouse_emulation_arguments fl s, input_arguments fl s, mapping_arguments fl s, network_arguments fl s,
      pacing_arguments fl s, vsync_arguments fl s, keep_awake_arguments fl s,
      shared_flag (so_quit_after s) ''-quitappafter'' ''-quit-after'' fl,
      capture_keys_arguments fl s, platform_arguments fl s, decoder_arguments fl s, display_arguments fl s,
      mouse_arguments fl s] @ map (control_argument fl) (qt_controls s)"

definition stream_arguments :: "flavor \<Rightarrow> stream_options \<Rightarrow> stream_error + string list" where
  "stream_arguments fl s =
     bind_result (validate_options s)
       (\<lambda>_. collect_arguments (argument_blocks (stream_option_flavor fl) s))"

lemma collect_arguments_ok:
  "collect_arguments rs = Inr a \<longleftrightarrow> (\<exists>as. rs = map Inr as \<and> a = concat as)"
  by (induction rs arbitrary: a) (auto simp: bind_result_ok Cons_eq_map_conv)

end
