(* ===== verification/Moonlight_Argv.thy ===== *)
theory Moonlight_Argv
  imports Moonlight_Options
begin

text \<open>
  The argument grammar that \<open>Execute\<close> of \<open>internal/remote/remote.go\<close> checks again before it
  starts a client: \<open>splitStreamOptions\<close> with one definition per case of its switch, the host,
  pairing and Flatpak prefix checks, and \<open>validatePlanArguments\<close>.
\<close>

section \<open>Stream options\<close>

text \<open>What the parser remembers: the options it has seen, and three values. The slot of a switch
  is its text, as in the map of the code.\<close>

datatype slot =
    Resolution | Embedded_Width | Embedded_Height | Fps | Bitrate | Packet_Size | Codec | Audio_Config
  | Audio_On_Host | Audio_Device | Host_Settings | Mouse_Emulation | Input_Mapping | Network_Mode
  | Frame_Pacing | Vsync | Keep_Awake | Quit_After | Capture_System_Keys | Platform | Decoder
  | Display_Mode | Mouse_Mode | Control string

record split_state =
  ss_seen :: "slot list"
  ss_codec :: string
  ss_platform :: string
  ss_input_count :: nat

definition initial_split :: split_state where
  "initial_split = \<lparr>ss_seen = [], ss_codec = [], ss_platform = [], ss_input_count = 0\<rparr>"

definition seen :: "split_state \<Rightarrow> slot \<Rightarrow> bool" where
  "seen st x = List.member (ss_seen st) x"

definition mark :: "slot \<Rightarrow> split_state \<Rightarrow> split_state" where
  "mark x st = st\<lparr>ss_seen := x # ss_seen st\<rparr>"

text \<open>A case yields the next state and whether it took the next argument as a value.\<close>

type_synonym split_result = "stream_error + split_state \<times> bool"

definition spelled :: "flavor \<Rightarrow> string \<Rightarrow> string \<Rightarrow> string \<Rightarrow> bool" where
  "spelled fl option embedded qt \<longleftrightarrow>
     \<not> (fl = Embedded \<and> option \<noteq> embedded) \<and> \<not> (fl = Qt \<and> option \<noteq> qt)"

definition flag_option :: "bool \<Rightarrow> slot \<Rightarrow> string \<Rightarrow> split_state \<Rightarrow> split_result" where
  "flag_option right_client x option st =
     bind_result
       (first_error [require right_client (Wrong_Client option), require (\<not> seen st x) (Repeated option)])
       (\<lambda>_. Inr (mark x st, False))"

definition value_option ::
    "bool \<Rightarrow> slot \<Rightarrow> string \<Rightarrow> (string \<Rightarrow> stream_error + unit) \<Rightarrow> split_state \<Rightarrow> string list \<Rightarrow> split_result" where
  "value_option right_client x option check st rest =
     bind_result
       (first_error [require right_client (Wrong_Client option), require (\<not> seen st x) (Repeated option)])
       (\<lambda>_. case rest of
          [] \<Rightarrow> Inl (Missing_Value option)
        | v # _ \<Rightarrow> bind_result (check v) (\<lambda>_. Inr (mark x st, True)))"

definition decimal_check :: "string \<Rightarrow> (int \<Rightarrow> stream_error + unit) \<Rightarrow> string \<Rightarrow> stream_error + unit" where
  "decimal_check option check v =
     (if \<not> decimal_argument v then Inl (Missing_Value option) else check (int (atoi_saturated v)))"

definition text_check :: "string \<Rightarrow> string list \<Rightarrow> string \<Rightarrow> stream_error + unit" where
  "text_check option allowed v = require (List.member allowed (normalize v)) (Bad_Value option)"

definition split_resolution_flag :: "flavor \<Rightarrow> string \<Rightarrow> split_state \<Rightarrow> split_result" where
  "split_resolution_flag fl option st =
     flag_option (\<not> (fl = Embedded \<and> option = ''-1440'')) Resolution option st"

definition split_dimension :: "flavor \<Rightarrow> string \<Rightarrow> split_state \<Rightarrow> string list \<Rightarrow> split_result" where
  "split_dimension fl option st rest =
     (if fl \<noteq> Embedded then Inl (Wrong_Client option)
      else
        (case rest of
           [] \<Rightarrow> Inl (Missing_Value option)
         | v # _ \<Rightarrow>
             if \<not> decimal_argument v then Inl (Missing_Value option)
             else if option = ''-width'' then
               bind_result (require (\<not> (seen st Resolution \<or> seen st Embedded_Width)) (Repeated option)) (\<lambda>_.
               bind_result (parse_width v) (\<lambda>_. Inr (mark Embedded_Width (mark Resolution st), True)))
             else
               bind_result (require (seen st Embedded_Width \<and> \<not> seen st Embedded_Height) (Repeated option)) (\<lambda>_.
               bind_result (parse_height v) (\<lambda>_. Inr (mark Embedded_Height st, True)))))"

definition split_custom_resolution :: "flavor \<Rightarrow> split_state \<Rightarrow> string list \<Rightarrow> split_result" where
  "split_custom_resolution fl st rest =
     value_option (fl = Qt) Resolution ''-resolution''
       (\<lambda>v. case parse_resolution_spec v of
          Inl e \<Rightarrow> Inl (Bad_Resolution v)
        | Inr r \<Rightarrow> require (\<not> List.member [''720'', ''1080'', ''1440'', ''4k''] (rs_name r)) (Bad_Resolution v))
       st rest"

definition split_4k :: "flavor \<Rightarrow> string \<Rightarrow> split_state \<Rightarrow> split_result" where
  "split_4k fl option st =
     flag_option (\<not> (fl = Qt \<and> option \<noteq> ''-4K'' \<or> fl \<noteq> Qt \<and> option \<noteq> ''-4k'')) Resolution option st"

definition split_rate :: "string \<Rightarrow> split_state \<Rightarrow> string list \<Rightarrow> split_result" where
  "split_rate option st rest =
     (if option = ''-fps'' then
        value_option True Fps option
          (decimal_check option (\<lambda>i. require (10 \<le> i \<and> i \<le> 480) (Bad_Value option))) st rest
      else
        value_option True Bitrate option
          (decimal_check option (\<lambda>i. require (500 \<le> i \<and> i \<le> 500000) (Bad_Value option))) st rest)"

definition split_packet_size :: "flavor \<Rightarrow> string \<Rightarrow> split_state \<Rightarrow> string list \<Rightarrow> split_result" where
  "split_packet_size fl option st rest =
     value_option (spelled fl option ''-packetsize'' ''-packet-size'') Packet_Size option
       (decimal_check option packet_size_ok) st rest"

definition split_codec :: "flavor \<Rightarrow> string \<Rightarrow> split_state \<Rightarrow> string list \<Rightarrow> split_result" where
  "split_codec fl option st rest =
     bind_result
       (value_option (spelled fl option ''-codec'' ''-video-codec'') Codec option
          (\<lambda>v. require ((fl = Embedded \<or> fl = Qt) \<and>
                 List.member [''auto'', ''h264'', ''hevc'', ''av1''] (normalized_codec v)) (Bad_Value option))
          st rest)
       (\<lambda>(st', t). Inr (st'\<lparr>ss_codec := normalized_codec (hd rest)\<rparr>, t))"

definition split_audio_config :: "flavor \<Rightarrow> string \<Rightarrow> split_state \<Rightarrow> string list \<Rightarrow> split_result" where
  "split_audio_config fl option st rest =
     value_option (spelled fl option ''-surround'' ''-audio-config'') Audio_Config option
       (text_check option
          (if fl = Embedded then [''5.1'', ''7.1''] else [''stereo'', ''5.1-surround'', ''7.1-surround'']))
       st rest"

definition split_audio_on_host :: "flavor \<Rightarrow> string \<Rightarrow> split_state \<Rightarrow> split_result" where
  "split_audio_on_host fl option st =
     flag_option (spelled fl option ''-localaudio'' ''-audio-on-host'') Audio_On_Host option st"

definition split_audio_device :: "flavor \<Rightarrow> split_state \<Rightarrow> string list \<Rightarrow> split_result" where
  "split_audio_device fl st rest =
     value_option (fl = Embedded) Audio_Device ''-audio'' (device_selector ''audio device'') st rest"

definition split_host_settings :: "flavor \<Rightarrow> string \<Rightarrow> split_state \<Rightarrow> split_result" where
  "split_host_settings fl option st =
     flag_option (spelled fl option ''-nosops'' ''-no-game-optimization'') Host_Settings option st"

definition split_mouse_emulation :: "flavor \<Rightarrow> split_state \<Rightarrow> split_result" where
  "split_mouse_emulation fl st = flag_option (fl = Embedded) Mouse_Emulation ''-nomouseemulation'' st"

definition split_input :: "flavor \<Rightarrow> split_state \<Rightarrow> string list \<Rightarrow> split_result" where
  "split_input fl st rest =
     bind_result
       (first_error
          [require (fl = Embedded) (Wrong_Client ''-input''),
           require (ss_input_count st < max_embedded_input_devices) Too_Many_Devices])
       (\<lambda>_. case rest of
          [] \<Rightarrow> Inl (Missing_Value ''-input'')
        | v # _ \<Rightarrow>
            bind_result (embedded_input_device v)
              (\<lambda>_. Inr (st\<lparr>ss_input_count := ss_input_count st + 1\<rparr>, True)))"

definition split_mapping :: "flavor \<Rightarrow> split_state \<Rightarrow> string list \<Rightarrow> split_result" where
  "split_mapping fl st rest = value_option (fl = Embedded) Input_Mapping ''-mapping'' input_mapping_path st rest"

definition split_remote :: "flavor \<Rightarrow> split_state \<Rightarrow> string list \<Rightarrow> split_result" where
  "split_remote fl st rest =
     value_option (fl = Embedded) Network_Mode ''-remote'' (text_check ''-remote'' [''auto'', ''yes'', ''no'']) st rest"

definition split_pacing :: "flavor \<Rightarrow> string \<Rightarrow> split_state \<Rightarrow> split_result" where
  "split_pacing fl option st = flag_option (fl = Qt) Frame_Pacing option st"

definition split_vsync :: "flavor \<Rightarrow> string \<Rightarrow> split_state \<Rightarrow> split_result" where
  "split_vsync fl option st = flag_option (fl = Qt) Vsync option st"

definition split_keep_awake :: "flavor \<Rightarrow> split_state \<Rightarrow> split_result" where
  "split_keep_awake fl st = flag_option (fl = Qt) Keep_Awake ''-keep-awake'' st"

definition split_quit_after :: "flavor \<Rightarrow> string \<Rightarrow> split_state \<Rightarrow> split_result" where
  "split_quit_after fl option st =
     flag_option (spelled fl option ''-quitappafter'' ''-quit-after'') Quit_After option st"

definition split_capture_keys :: "flavor \<Rightarrow> split_state \<Rightarrow> string list \<Rightarrow> split_result" where
  "split_capture_keys fl st rest =
     value_option (fl = Qt) Capture_System_Keys ''-capture-system-keys''
       (text_check ''-capture-system-keys'' [''never'', ''fullscreen'', ''always'']) st rest"

definition split_platform :: "flavor \<Rightarrow> split_state \<Rightarrow> string list \<Rightarrow> split_result" where
  "split_platform fl st rest =
     bind_result
       (value_option (fl = Embedded) Platform ''-platform''
          (text_check ''-platform'' [''auto'', ''x11'', ''x11_vdpau'', ''x11_vaapi'', ''sdl'']) st rest)
       (\<lambda>(st', t). Inr (st'\<lparr>ss_platform := normalize (hd rest)\<rparr>, t))"

definition split_decoder :: "flavor \<Rightarrow> split_state \<Rightarrow> string list \<Rightarrow> split_result" where
  "split_decoder fl st rest =
     value_option (fl = Qt) Decoder ''-video-decoder''
       (text_check ''-video-decoder'' [''auto'', ''software'', ''hardware'']) st rest"

text \<open>The display mode is the one value that is not trimmed.\<close>

definition split_display_mode :: "flavor \<Rightarrow> split_state \<Rightarrow> string list \<Rightarrow> split_result" where
  "split_display_mode fl st rest =
     value_option (fl = Qt) Display_Mode ''-display-mode''
       (\<lambda>v. require (List.member [''fullscreen'', ''windowed'', ''borderless''] (to_lower v)) (Bad_Value ''-display-mode''))
       st rest"

definition split_windowed :: "flavor \<Rightarrow> split_state \<Rightarrow> split_result" where
  "split_windowed fl st = flag_option (fl = Embedded) Display_Mode ''-windowed'' st"

definition split_mouse_mode :: "flavor \<Rightarrow> string \<Rightarrow> split_state \<Rightarrow> split_result" where
  "split_mouse_mode fl option st = flag_option (fl = Qt) Mouse_Mode option st"

definition split_hdr :: "flavor \<Rightarrow> split_state \<Rightarrow> split_result" where
  "split_hdr fl st = flag_option (fl = Embedded \<or> fl = Qt) (Control ''-hdr'') ''-hdr'' st"

definition qt_only_controls :: "string list" where
  "qt_only_controls =
     [''-multi-controller'', ''-mouse-buttons-swap'', ''-touchscreen-trackpad'', ''-mute-on-focus-loss'',
      ''-background-gamepad'', ''-reverse-scroll-direction'', ''-swap-gamepad-buttons'',
      ''-performance-overlay'', ''-yuv444'']"

definition split_control :: "flavor \<Rightarrow> string \<Rightarrow> split_state \<Rightarrow> split_result" where
  "split_control fl option st = flag_option (fl = Qt) (Control option) option st"

text \<open>The switch.\<close>

definition split_option :: "flavor \<Rightarrow> string \<Rightarrow> split_state \<Rightarrow> string list \<Rightarrow> split_result" where
  "split_option fl option st rest =
     (if option = ''-720'' \<or> option = ''-1080'' \<or> option = ''-1440'' then split_resolution_flag fl option st
      else if option = ''-width'' \<or> option = ''-height'' then split_dimension fl option st rest
      else if option = ''-resolution'' then split_custom_resolution fl st rest
      else if option = ''-4K'' \<or> option = ''-4k'' then split_4k fl option st
      else if option = ''-fps'' \<or> option = ''-bitrate'' then split_rate option st rest
      else if option = ''-packet-size'' \<or> option = ''-packetsize'' then split_packet_size fl option st rest
      else if option = ''-codec'' \<or> option = ''-video-codec'' then split_codec fl option st rest
      else if option = ''-audio-config'' \<or> option = ''-surround'' then split_audio_config fl option st rest
      else if option = ''-audio-on-host'' \<or> option = ''-localaudio'' then split_audio_on_host fl option st
      else if option = ''-audio'' then split_audio_device fl st rest
      else if option = ''-nosops'' \<or> option = ''-no-game-optimization'' then split_host_settings fl option st
      else if option = ''-nomouseemulation'' then split_mouse_emulation fl st
      else if option = ''-input'' then split_input fl st rest
      else if option = ''-mapping'' then split_mapping fl st rest
      else if option = ''-remote'' then split_remote fl st rest
      else if option = ''-frame-pacing'' \<or> option = ''-no-frame-pacing'' then split_pacing fl option st
      else if option = ''-vsync'' \<or> option = ''-no-vsync'' then split_vsync fl option st
      else if option = ''-keep-awake'' then split_keep_awake fl st
      else if option = ''-quit-after'' \<or> option = ''-quitappafter'' then split_quit_after fl option st
      else if option = ''-capture-system-keys'' then split_capture_keys fl st rest
      else if option = ''-platform'' then split_platform fl st rest
      else if option = ''-video-decoder'' then split_decoder fl st rest
      else if option = ''-display-mode'' then split_display_mode fl st rest
      else if option = ''-windowed'' then split_windowed fl st
      else if option = ''-absolute-mouse'' \<or> option = ''-no-absolute-mouse'' then split_mouse_mode fl option st
      else if option = ''-hdr'' then split_hdr fl st
      else if List.member qt_only_controls option then split_control fl option st
      else Inl (Unknown_Option option))"

fun split_loop :: "flavor \<Rightarrow> split_state \<Rightarrow> string list \<Rightarrow> stream_error + split_state \<times> string list" where
  "split_loop fl st [] = Inr (st, [])"
| "split_loop fl st (option # rest) =
     (if \<not> prefix ''-'' option \<or> fl = Embedded \<and> option = ''-app'' then Inr (st, option # rest)
      else
        (case split_option fl option st rest of
           Inl e \<Rightarrow> Inl e
         | Inr (st', took_value) \<Rightarrow> split_loop fl st' (drop (if took_value then 1 else 0) rest)))"

definition final_checks :: "split_state \<Rightarrow> stream_error + unit" where
  "final_checks st =
     first_error
       [require (\<not> (seen st Embedded_Width \<and> \<not> seen st Embedded_Height)) (Missing_Value ''-height''),
        (if ss_platform st = ''sdl'' then
           first_error
             [require (\<not> seen st Audio_Device) (Conflict ''-platform sdl'' ''-audio''),
              require (ss_input_count st = 0) (Conflict ''-platform sdl'' ''-input'')]
         else Inr ()),
        require (\<not> (seen st (Control ''-hdr'') \<and> ss_codec st = ''h264'')) (Conflict ''-hdr'' ''h264'')]"

definition split_stream_options :: "flavor \<Rightarrow> string list \<Rightarrow> stream_error + string list" where
  "split_stream_options fl args =
     bind_result (split_loop (stream_option_flavor fl) initial_split args) (\<lambda>(st, rest).
     bind_result (final_checks st) (\<lambda>_. Inr rest))"

section \<open>Hosts, pairing and the Qt platform\<close>

datatype argv_error =
    Argv_Stream stream_error | Argv_Host host_error | Argv_App app_error | Argv_Port
  | Embedded_Address_Too_Long | Embedded_Host_Shape | Host_Shape | Pair_Shape | Bad_Pin | Embedded_Zero_Pin
  | Bad_Qt_Platform | Qt_Platform_Operation | Flatpak_Prefix | Flatpak_Environment
  | No_Operation | Map_Client | Map_Shape | Unpair_Client | Stream_Shape | Unsupported_Operation string

definition operation_of :: "string \<Rightarrow> operation" where
  "operation_of s =
     (if s = ''pair'' then Pair_Op else if s = ''unpair'' then Unpair_Op else if s = ''list'' then List_Op
      else if s = ''stream'' then Stream_Op else if s = ''quit'' then Quit_Op else if s = ''map'' then Map_Op
      else Other_Op s)"

definition max_embedded_host_address_bytes :: nat where
  "max_embedded_host_address_bytes = 116"

definition validate_embedded_host_address :: "string \<Rightarrow> argv_error + unit" where
  "validate_embedded_host_address address =
     require (length address \<le> max_embedded_host_address_bytes) Embedded_Address_Too_Long"

definition validate_moonlight_port :: "string \<Rightarrow> argv_error + unit" where
  "validate_moonlight_port value =
     (if value = [] \<or> 5 < length value \<or> \<not> decimal_argument value then Inl Argv_Port
      else
        (case atoi value of
           None \<Rightarrow> Inl Argv_Port
         | Some port \<Rightarrow> require (1 \<le> port \<and> port \<le> 65535 \<and> itoa port = value) Argv_Port))"

definition validate_plan_host_arguments :: "flavor \<Rightarrow> string list \<Rightarrow> argv_error + unit" where
  "validate_plan_host_arguments fl args =
     (if fl = Embedded then
        (if length args \<noteq> 1 \<and> length args \<noteq> 3 then Inl Embedded_Host_Shape
         else
           bind_result (map_error Argv_Host (parse_host_endpoint (args ! 0))) (\<lambda>e.
             first_error
               [require (\<not> (endpoint_address e \<noteq> args ! 0 \<or> endpoint_port e \<noteq> 0)) Embedded_Host_Shape,
                validate_embedded_host_address (endpoint_address e),
                (if length args = 3 then
                   first_error
                     [require (args ! 1 = ''-port'') Embedded_Host_Shape, validate_moonlight_port (args ! 2)]
                 else Inr ())]))
      else
        (if length args \<noteq> 1 then Inl Host_Shape else map_error Argv_Host (validate_host (args ! 0))))"

definition validate_pairing_pin :: "string \<Rightarrow> argv_error + unit" where
  "validate_pairing_pin value = require (length value = 4 \<and> decimal_argument value) Bad_Pin"

definition validate_pair_arguments :: "flavor \<Rightarrow> string list \<Rightarrow> argv_error + unit" where
  "validate_pair_arguments fl args =
     (if 0 < length args \<and> args ! 0 = ''-pin'' then
        (if length args < 3 then Inl Pair_Shape
         else
           first_error
             [validate_pairing_pin (args ! 1),
              require (\<not> (fl = Embedded \<and> args ! 1 = ''0000'')) Embedded_Zero_Pin,
              validate_plan_host_arguments fl (drop 2 args)])
      else validate_plan_host_arguments fl args)"

definition validate_qt_platform :: "string \<Rightarrow> argv_error + unit" where
  "validate_qt_platform value =
     require (List.member [''auto'', ''xcb'', ''wayland'', ''eglfs'', ''linuxfb''] (normalize value)) Bad_Qt_Platform"

definition validate_qt_platform_value :: "string \<Rightarrow> argv_error + unit" where
  "validate_qt_platform_value value =
     (if normalize value = ''offscreen'' then Inr () else validate_qt_platform value)"

definition validate_qt_platform_for :: "string \<Rightarrow> operation \<Rightarrow> argv_error + unit" where
  "validate_qt_platform_for value op =
     (if op = Pair_Op \<or> op = List_Op \<or> op = Quit_Op then validate_qt_platform_value value
      else if op = Stream_Op then validate_qt_platform value
      else Inl Qt_Platform_Operation)"

definition moonlight_flatpak_app_id :: string where
  "moonlight_flatpak_app_id = ''com.moonlight_stream.Moonlight''"

definition environment_prefix :: string where
  "environment_prefix = ''--env=QT_QPA_PLATFORM=''"

text \<open>The override at position 1, when there is one: the platform and the next position.\<close>

definition flatpak_environment :: "string \<Rightarrow> argv_error + string \<times> nat" where
  "flatpak_environment arg =
     (if prefix ''--env='' arg then
        (if \<not> prefix environment_prefix arg then Inl Flatpak_Environment
         else
           (let platform = normalize (drop (length environment_prefix) arg) in
            if platform = ''auto'' then Inl Flatpak_Environment
            else bind_result (validate_qt_platform_value platform) (\<lambda>_. Inr (platform, 2))))
      else Inr ([], 1))"

definition split_flatpak_prefix :: "string list \<Rightarrow> argv_error + string list \<times> string" where
  "split_flatpak_prefix args =
     (if length args < 2 \<or> args ! 0 \<noteq> ''run'' then Inl Flatpak_Prefix
      else
        bind_result (flatpak_environment (args ! 1)) (\<lambda>(platform, position).
          if length args \<le> position \<or> args ! position \<noteq> moonlight_flatpak_app_id then Inl Flatpak_Prefix
          else if platform \<noteq> [] then
            (if length args \<le> position + 1 then Inl No_Operation
             else
               bind_result (validate_qt_platform_for platform (operation_of (args ! (position + 1))))
                 (\<lambda>_. Inr (drop (position + 1) args, platform)))
          else Inr (drop (position + 1) args, platform)))"

section \<open>The whole vector\<close>

definition validate_stream_arguments :: "flavor \<Rightarrow> string list \<Rightarrow> argv_error + unit" where
  "validate_stream_arguments fl args =
     bind_result (map_error Argv_Stream (split_stream_options fl args)) (\<lambda>rest.
       if fl = Embedded then
         (if (length rest \<noteq> 3 \<and> length rest \<noteq> 5) \<or> rest ! 0 \<noteq> ''-app'' then Inl Stream_Shape
          else
            first_error
              [map_error Argv_App (validate_app_name (rest ! 1)),
               validate_plan_host_arguments Embedded (drop 2 rest)])
       else if length rest \<noteq> 2 then Inl Stream_Shape
       else
         first_error
           [validate_plan_host_arguments (stream_option_flavor fl) (take 1 rest),
            map_error Argv_App (validate_app_name (rest ! 1))])"

definition validate_operation_arguments :: "flavor \<Rightarrow> string list \<Rightarrow> argv_error + unit" where
  "validate_operation_arguments fl rest =
     (case rest of
        [] \<Rightarrow> Inl No_Operation
      | name # args \<Rightarrow>
          (case operation_of name of
             Map_Op \<Rightarrow>
               (if fl \<noteq> Embedded then Inl Map_Client
                else if length rest \<noteq> 3 \<or> rest ! 1 \<noteq> ''-input'' then Inl Map_Shape
                else map_error Argv_Stream (embedded_input_device (rest ! 2)))
           | Pair_Op \<Rightarrow> validate_pair_arguments (stream_option_flavor fl) args
           | List_Op \<Rightarrow> validate_plan_host_arguments (stream_option_flavor fl) args
           | Quit_Op \<Rightarrow> validate_plan_host_arguments (stream_option_flavor fl) args
           | Unpair_Op \<Rightarrow>
               (if fl \<noteq> Embedded then Inl Unpair_Client else validate_plan_host_arguments Embedded args)
           | Stream_Op \<Rightarrow> validate_stream_arguments fl args
           | Other_Op s \<Rightarrow> Inl (Unsupported_Operation s)))"

definition validate_plan_arguments :: "flavor \<Rightarrow> string list \<Rightarrow> argv_error + unit" where
  "validate_plan_arguments fl args =
     (if fl = Flatpak
      then bind_result (split_flatpak_prefix args) (\<lambda>(rest, _). validate_operation_arguments fl rest)
      else validate_operation_arguments fl args)"

end
