(* ===== verification/Moonlight_Plan.thy ===== *)
theory Moonlight_Plan
  imports Moonlight_Argv Config Host_Files Handoff_Boundary
begin

text \<open>
  The Moonlight planner of \<open>internal/remote/remote.go\<close>: clients and their bindings, requests,
  plans, \<open>BuildPlan\<close> and the discovered and input-mapping builders. Operations and flavors are
  Go strings with named constants; \<open>Other_Op\<close> and \<open>Other_Flavor\<close> stand for every other
  string.
\<close>

section \<open>Data\<close>

record client_binding =
  cb_flavor :: flavor
  cb_binary :: string
  cb_prefix :: "string list"
  cb_executable_info :: "file_info option"

record client =
  mc_flavor :: flavor
  mc_binary :: string
  mc_prefix :: "string list"
  mc_discovered :: bool
  mc_executable_info :: "file_info option"
  mc_discovery_binding :: client_binding

text \<open>The zero value of the private binding, which a client that was never discovered carries.\<close>

definition no_binding :: client_binding where
  "no_binding = \<lparr>cb_flavor = Other_Flavor [], cb_binary = [], cb_prefix = [], cb_executable_info = None\<rparr>"

definition bind_client :: "client \<Rightarrow> client_binding" where
  "bind_client c =
     \<lparr>cb_flavor = mc_flavor c, cb_binary = mc_binary c, cb_prefix = mc_prefix c,
      cb_executable_info = mc_executable_info c\<rparr>"

definition client_matches :: "client_binding \<Rightarrow> client \<Rightarrow> bool" where
  "client_matches b c \<longleftrightarrow>
     \<not> (cb_flavor b \<noteq> mc_flavor c \<or> cb_binary b \<noteq> mc_binary c \<or> length (cb_prefix b) \<noteq> length (mc_prefix c)) \<and>
     list_all2 (=) (cb_prefix b) (mc_prefix c)"

record request =
  rq_route :: string
  rq_operation :: operation
  rq_host :: string
  rq_app :: string
  rq_pairing_pin :: string
  rq_qt_platform :: string
  rq_physical_host_confirmed :: bool
  rq_accept_unverified_handoff :: bool
  rq_stream :: stream_options

record plan =
  mp_route :: string
  mp_client :: client
  mp_arguments :: "string list"
  mp_warnings :: "string list"
  mp_local_field :: bool
  mp_qt_platform :: string
  mp_validated :: bool
  mp_client_discovered :: bool
  mp_client_binding :: client_binding
  mp_argument_binding :: "string list"
  mp_qt_platform_binding :: string
  mp_local :: bool

datatype plan_error =
    Plan_Route string | Plan_Host host_error | Plan_Argv argv_error | Plan_App app_error | Plan_Stream stream_error
  | Plan_Operation operation | Platform_Client flavor | Pin_Operation | Pin_Client flavor | Options_Operation
  | Empty_Binary | Prefix_Not_Empty | Flatpak_Client_Prefix | Unknown_Flavor flavor | Unpair_Flavor flavor
  | Mapping_Flavor flavor | Not_Physical string | Not_Acknowledged | Not_Discovered | Client_Changed

section \<open>Parts of the planner\<close>

definition validate_plan_route :: "string \<Rightarrow> plan_error + unit" where
  "validate_plan_route route = require (route = route_windows \<or> route = route_macos) (Plan_Route route)"

definition validate_client_prefix :: "client \<Rightarrow> plan_error + unit" where
  "validate_client_prefix c =
     (case mc_flavor c of
        Embedded \<Rightarrow> require (length (mc_prefix c) = 0) Prefix_Not_Empty
      | Qt \<Rightarrow> require (length (mc_prefix c) = 0) Prefix_Not_Empty
      | Flatpak \<Rightarrow>
          require (length (mc_prefix c) = 2 \<and> mc_prefix c ! 0 = ''run'' \<and>
            mc_prefix c ! 1 = ''com.moonlight_stream.Moonlight'') Flatpak_Client_Prefix
      | Other_Flavor s \<Rightarrow> Inl (Unknown_Flavor (Other_Flavor s)))"

definition check_operation :: "operation \<Rightarrow> plan_error + unit" where
  "check_operation op =
     require (op = Pair_Op \<or> op = Unpair_Op \<or> op = List_Op \<or> op = Stream_Op \<or> op = Quit_Op) (Plan_Operation op)"

definition plan_qt_platform :: "client \<Rightarrow> request \<Rightarrow> plan_error + string" where
  "plan_qt_platform c r =
     (if rq_qt_platform r = [] then Inr []
      else if mc_flavor c \<noteq> Qt \<and> mc_flavor c \<noteq> Flatpak then Inl (Platform_Client (mc_flavor c))
      else
        bind_result (map_error Plan_Argv (validate_qt_platform_for (rq_qt_platform r) (rq_operation r)))
          (\<lambda>_. Inr (normalize (rq_qt_platform r))))"

definition check_pin :: "client \<Rightarrow> request \<Rightarrow> plan_error + unit" where
  "check_pin c r =
     (if rq_pairing_pin r = [] then Inr ()
      else
        first_error
          [require (rq_operation r = Pair_Op) Pin_Operation,
           require (mc_flavor c = Embedded \<or> mc_flavor c = Qt \<or> mc_flavor c = Flatpak) (Pin_Client (mc_flavor c)),
           map_error Plan_Argv (validate_pairing_pin (rq_pairing_pin r)),
           require (\<not> (mc_flavor c = Embedded \<and> rq_pairing_pin r = ''0000'')) (Plan_Argv Embedded_Zero_Pin)])"

definition append_embedded_endpoint :: "string list \<Rightarrow> host_endpoint \<Rightarrow> string list" where
  "append_embedded_endpoint arguments e =
     arguments @ [endpoint_address e] @
     (if endpoint_port e \<noteq> 0 then [''-port'', itoa (endpoint_port e)] else [])"

definition launcher_arguments :: "client \<Rightarrow> string \<Rightarrow> string list" where
  "launcher_arguments c platform =
     (if mc_flavor c = Flatpak \<and> platform \<noteq> [] \<and> platform \<noteq> ''auto''
      then [mc_prefix c ! 0, environment_prefix @ platform, mc_prefix c ! 1]
      else mc_prefix c)"

definition pin_arguments :: "request \<Rightarrow> string list" where
  "pin_arguments r =
     (if rq_operation r = Pair_Op \<and> rq_pairing_pin r \<noteq> [] then [''-pin'', rq_pairing_pin r] else [])"

definition operation_arguments :: "client \<Rightarrow> request \<Rightarrow> host_endpoint \<Rightarrow> plan_error + string list" where
  "operation_arguments c r e =
     (case mc_flavor c of
        Embedded \<Rightarrow>
          (if rq_operation r = Stream_Op then
             bind_result (map_error Plan_Stream (stream_arguments Embedded (rq_stream r)))
               (\<lambda>options. Inr (append_embedded_endpoint ([''stream''] @ options @ [''-app'', rq_app r]) e))
           else Inr (append_embedded_endpoint ([operation_text (rq_operation r)] @ pin_arguments r) e))
      | Other_Flavor s \<Rightarrow> Inl (Unknown_Flavor (Other_Flavor s))
      | fl \<Rightarrow>
          (if rq_operation r = Stream_Op then
             bind_result (map_error Plan_Stream (stream_arguments fl (rq_stream r)))
               (\<lambda>options. Inr ([operation_text (rq_operation r)] @ pin_arguments r @ options @ [rq_host r, rq_app r]))
           else Inr ([operation_text (rq_operation r)] @ pin_arguments r @ [rq_host r])))"

definition plan_warnings :: "string \<Rightarrow> operation \<Rightarrow> string \<Rightarrow> string list" where
  "plan_warnings route op platform =
     (if route = route_macos then
        [''League runs through Riot's native client on the physical Mac, not on Linux or BSD.'',
         ''Sunshine's macOS host behavior is experimental; gamepad hosting is unavailable, while capture, audio, keyboard/mouse, and gameplay behavior remain unvalidated.'',
         ''Remote streaming is not endorsed or guaranteed by Riot; stop if Riot software reports an error.'']
      else
        [''League runs on the physical Windows host, not on Linux or BSD.'',
         ''Remote-streaming input compatibility is not endorsed or guaranteed by Riot; stop if Vanguard reports an error.'']) @
     (if op = Stream_Op \<and> route = route_windows then
        [''For League mouse input, verify that the physical Windows host is using Sunshine's licensed Virtual HID Raw Input path with relative mouse mode; if the host is headless, keep a physical mouse attached while testing because Raw Input games can fail without one. A SendInput fallback may be rejected after League starts, so use the host's physical input or a hardware KVM instead. LeagueBridge never installs or alters that driver.'']
      else []) @
     (if platform \<noteq> [] \<and> platform \<noteq> ''auto'' then
        [''QT_QPA_PLATFORM='' @ platform @ '' will be applied only to this Moonlight process; the parent shell environment is unchanged.'']
      else [])"

text \<open>An empty route is the Windows route of the original request shape.\<close>

definition effective_route :: "request \<Rightarrow> string" where
  "effective_route r = (if rq_route r = [] then route_windows else rq_route r)"

text \<open>The checks between the host and the arguments that do not yield a value.\<close>

definition request_checks :: "client \<Rightarrow> request \<Rightarrow> plan_error + unit" where
  "request_checks c r =
     first_error
       [check_pin c r,
        require (\<not> (rq_operation r \<noteq> Stream_Op \<and> \<not> options_empty (rq_stream r))) Options_Operation,
        require (mc_binary c \<noteq> []) Empty_Binary,
        validate_client_prefix c,
        require (\<not> (rq_operation r = Unpair_Op \<and> mc_flavor c \<noteq> Embedded)) (Unpair_Flavor (mc_flavor c)),
        require (rq_physical_host_confirmed r) (Not_Physical (effective_route r)),
        require (\<not> (rq_operation r = Stream_Op \<and> \<not> rq_accept_unverified_handoff r)) Not_Acknowledged,
        (if rq_operation r = Stream_Op then map_error Plan_App (validate_app_name (rq_app r)) else Inr ())]"

text \<open>The plan that is returned once every check has passed.\<close>

definition make_plan :: "client \<Rightarrow> request \<Rightarrow> string \<Rightarrow> string list \<Rightarrow> plan" where
  "make_plan c r platform args =
     \<lparr>mp_route = effective_route r, mp_client = c, mp_arguments = args,
      mp_warnings = plan_warnings (effective_route r) (rq_operation r) platform,
      mp_local_field = False, mp_qt_platform = platform, mp_validated = True,
      mp_client_discovered = mc_discovered c, mp_client_binding = bind_client c,
      mp_argument_binding = args, mp_qt_platform_binding = platform, mp_local = False\<rparr>"

definition build_plan :: "client \<Rightarrow> request \<Rightarrow> plan_error + plan" where
  "build_plan c r =
     bind_result (validate_plan_route (effective_route r)) (\<lambda>_.
     bind_result (map_error Plan_Host (parse_host_endpoint (rq_host r))) (\<lambda>e.
     bind_result
       (if mc_flavor c = Embedded then map_error Plan_Argv (validate_embedded_host_address (endpoint_address e))
        else Inr ()) (\<lambda>_.
     bind_result (check_operation (rq_operation r)) (\<lambda>_.
     bind_result (plan_qt_platform c r) (\<lambda>platform.
     bind_result (request_checks c r) (\<lambda>_.
     bind_result (operation_arguments c r e) (\<lambda>arguments.
       Inr (make_plan c r platform (launcher_arguments c platform @ arguments)))))))))"

section \<open>The builders\<close>

definition discovered_only :: "client \<Rightarrow> plan_error + plan \<Rightarrow> plan_error + plan" where
  "discovered_only c planned =
     (if \<not> mc_discovered c then Inl Not_Discovered
      else if \<not> client_matches (mc_discovery_binding c) c then Inl Client_Changed
      else planned)"

definition build_discovered_plan :: "client \<Rightarrow> request \<Rightarrow> plan_error + plan" where
  "build_discovered_plan c r = discovered_only c (build_plan c r)"

definition build_input_mapping_plan :: "client \<Rightarrow> string \<Rightarrow> plan_error + plan" where
  "build_input_mapping_plan c device =
     bind_result
       (first_error
          [require (mc_binary c \<noteq> []) Empty_Binary,
           require (mc_flavor c = Embedded) (Mapping_Flavor (mc_flavor c)),
           validate_client_prefix c,
           map_error Plan_Stream (embedded_input_device device)])
       (\<lambda>_. let args = mc_prefix c @ [''map'', ''-input'', device] in
          Inr \<lparr>mp_route = [], mp_client = c, mp_arguments = args,
               mp_warnings =
                 [''Moonlight Embedded map is a local controller-mapping action; it does not pair with or stream from a host.'',
                  ''Save the printed SDL mapping to a user-owned file and pass it with --input-mapping on a later remote stream.''],
               mp_local_field = True, mp_qt_platform = [], mp_validated = True,
               mp_client_discovered = mc_discovered c, mp_client_binding = bind_client c,
               mp_argument_binding = args, mp_qt_platform_binding = [], mp_local = True\<rparr>)"

definition build_discovered_input_mapping_plan :: "client \<Rightarrow> string \<Rightarrow> plan_error + plan" where
  "build_discovered_input_mapping_plan c device = discovered_only c (build_input_mapping_plan c device)"

end
