(* ===== verification/Moonlight_Execute.thy ===== *)
theory Moonlight_Execute
  imports Moonlight_Plan
begin

text \<open>
  The execution boundary of \<open>internal/remote/remote.go\<close>: \<open>Execute\<close> and \<open>ExecRunner\<close>. What the
  environment answers (the file's state, the context, the runner's outcome with the output it
  wrote) is a world record; the calls of the runner are the effects. The model is of the Unix
  builds, and the caller's writers accept what is written to them.
\<close>

section \<open>The world\<close>

datatype exec_error =
    Exec_Empty_Client | Exec_Local_Route | Exec_Plan plan_error | Exec_Empty_Arguments | Exec_Argv argv_error
  | Exec_Platform_Mismatch | Exec_Platform_Changed | Exec_Platform_Client | Exec_Platform_Operation
  | Exec_Not_Map | Exec_Unmarked_Map | Exec_Unvalidated | Exec_No_Runner | Exec_Canceled | Exec_Not_Discovered
  | Exec_Client_Changed | Exec_Arguments_Changed | Exec_Unbound | Exec_Unavailable | Exec_Replaced
  | Exec_Plain_Runner | Exec_Handoff_Failed | Exec_Control control_error

datatype runner = Plain_Runner | Platform_Runner

datatype runner_call = Run string "string list" | Run_With_Platform string string "string list"

record run_outcome =
  ro_succeeds :: bool
  ro_stdout :: "string list"
  ro_stderr :: "string list"

record moonlight_world =
  mw_stat :: "string \<Rightarrow> file_info option"
  mw_canceled :: bool
  mw_runner :: "runner option"
  mw_run :: "runner_call \<Rightarrow> run_outcome"

section \<open>Execute\<close>

text \<open>The operation's arguments behind the Flatpak prefix, and the platform in that prefix.\<close>

definition boundary_arguments :: "plan \<Rightarrow> exec_error + string list \<times> string" where
  "boundary_arguments p =
     (if mc_flavor (mp_client p) = Flatpak
      then
        bind_result (map_error Exec_Argv (split_flatpak_prefix (mp_arguments p))) (\<lambda>(rest, platform).
          (let expected = normalize (mp_qt_platform p) in
           if platform \<noteq> expected \<and> \<not> (platform = [] \<and> (expected = [] \<or> expected = ''auto''))
           then Inl Exec_Platform_Mismatch else Inr (rest, platform)))
      else Inr (mp_arguments p, []))"

definition check_platform_binding :: "plan \<Rightarrow> string list \<Rightarrow> exec_error + unit" where
  "check_platform_binding p arguments =
     first_error
       [require (mp_qt_platform_binding p = normalize (mp_qt_platform p)) Exec_Platform_Changed,
        (if mp_qt_platform p = [] then Inr ()
         else if mc_flavor (mp_client p) \<noteq> Qt \<and> mc_flavor (mp_client p) \<noteq> Flatpak then Inl Exec_Platform_Client
         else if length arguments = 0 then Inl Exec_Platform_Operation
         else map_error Exec_Argv (validate_qt_platform_for (mp_qt_platform p) (operation_of (arguments ! 0))))]"

definition check_local_marker :: "plan \<Rightarrow> exec_error + unit" where
  "check_local_marker p =
     (if mp_local p
      then require (\<not> (mc_flavor (mp_client p) \<noteq> Embedded \<or> length (mp_arguments p) = 0 \<or>
             mp_arguments p ! 0 \<noteq> ''map'')) Exec_Not_Map
      else require (\<not> (mc_flavor (mp_client p) = Embedded \<and> 0 < length (mp_arguments p) \<and>
             mp_arguments p ! 0 = ''map'')) Exec_Unmarked_Map)"

text \<open>The checks of the plan alone, up to the mark of the planner.\<close>

definition plan_shape_check :: "plan \<Rightarrow> exec_error + string list" where
  "plan_shape_check p =
     bind_result
       (first_error
          [require (mc_binary (mp_client p) \<noteq> []) Exec_Empty_Client,
           (if mp_local p then require (mp_route p = []) Exec_Local_Route
            else map_error Exec_Plan (validate_plan_route (mp_route p))),
           map_error Exec_Plan (validate_client_prefix (mp_client p)),
           require (length (mp_arguments p) \<noteq> 0) Exec_Empty_Arguments,
           map_error Exec_Argv (validate_plan_arguments (mc_flavor (mp_client p)) (mp_arguments p))]) (\<lambda>_.
     bind_result (boundary_arguments p) (\<lambda>(arguments, _).
     bind_result
       (first_error
          [check_platform_binding p arguments,
           check_local_marker p,
           require (mp_validated p) Exec_Unvalidated])
       (\<lambda>_. Inr arguments)))"

definition arguments_match :: "string list \<Rightarrow> string list \<Rightarrow> bool" where
  "arguments_match binding arguments = list_all2 (=) binding arguments"

text \<open>The checks of the plan against what the planner recorded.\<close>

definition plan_binding_check :: "plan \<Rightarrow> exec_error + unit" where
  "plan_binding_check p =
     first_error
       [require (mp_client_discovered p) Exec_Not_Discovered,
        require (client_matches (mp_client_binding p) (mp_client p)) Exec_Client_Changed,
        require (arguments_match (mp_argument_binding p) (mp_arguments p)) Exec_Arguments_Changed,
        require (cb_executable_info (mp_client_binding p) \<noteq> None) Exec_Unbound]"

definition executable_check :: "moonlight_world \<Rightarrow> plan \<Rightarrow> exec_error + unit" where
  "executable_check w p =
     (case mw_stat w (mc_binary (mp_client p)) of
        None \<Rightarrow> Inl Exec_Unavailable
      | Some current \<Rightarrow>
          (case cb_executable_info (mp_client_binding p) of
             None \<Rightarrow> Inl Exec_Unbound
           | Some bound \<Rightarrow> require (same_file bound current) Exec_Replaced))"

text \<open>The call of the runner, once every check has passed.\<close>

definition runner_call_of :: "plan \<Rightarrow> runner_call" where
  "runner_call_of p =
     (if mp_qt_platform p \<noteq> [] \<and> normalize (mp_qt_platform p) \<noteq> ''auto''
      then Run_With_Platform (mp_qt_platform p) (mc_binary (mp_client p)) (mp_arguments p)
      else Run (mc_binary (mp_client p)) (mp_arguments p))"

definition can_apply :: "moonlight_world \<Rightarrow> runner_call \<Rightarrow> bool" where
  "can_apply w call =
     (case call of Run _ _ \<Rightarrow> True | Run_With_Platform _ _ _ \<Rightarrow> mw_runner w = Some Platform_Runner)"

definition controls_host :: "plan \<Rightarrow> string list \<Rightarrow> bool" where
  "controls_host p arguments \<longleftrightarrow>
     mc_flavor (mp_client p) = Embedded \<and> (arguments ! 0 = ''pair'' \<or> arguments ! 0 = ''unpair'')"

definition handoff_result :: "plan \<Rightarrow> string list \<Rightarrow> run_outcome \<Rightarrow> exec_error + unit" where
  "handoff_result p arguments outcome =
     (if \<not> ro_succeeds outcome then Inl Exec_Handoff_Failed
      else if controls_host p arguments then
        map_error Exec_Control
          (verify_embedded_control (operation_of (arguments ! 0))
             (foldl capture_write empty_capture (ro_stdout outcome))
             (foldl capture_write empty_capture (ro_stderr outcome)))
      else Inr ())"

definition execution_checks :: "moonlight_world \<Rightarrow> plan \<Rightarrow> exec_error + string list" where
  "execution_checks w p =
     bind_result (plan_shape_check p) (\<lambda>arguments.
     bind_result
       (first_error
          [require (mw_runner w \<noteq> None) Exec_No_Runner,
           require (\<not> mw_canceled w) Exec_Canceled,
           plan_binding_check p,
           executable_check w p,
           require (can_apply w (runner_call_of p)) Exec_Plain_Runner])
       (\<lambda>_. Inr arguments))"

definition execute :: "moonlight_world \<Rightarrow> plan \<Rightarrow> (exec_error + unit) \<times> runner_call list" where
  "execute w p =
     (case execution_checks w p of
        Inl e \<Rightarrow> (Inl e, [])
      | Inr arguments \<Rightarrow>
          (handoff_result p arguments (mw_run w (runner_call_of p)), [runner_call_of p]))"

section \<open>ExecRunner\<close>

datatype spawn_error =
    Spawn_Empty | Spawn_Relative | Spawn_Unavailable | Spawn_Not_Regular | Spawn_Not_Executable
  | Spawn_Platform argv_error

text \<open>The process \<open>runExecutable\<close> starts: the overrides of its environment, binary, arguments.\<close>

type_synonym process = "string list \<times> string \<times> string list"

definition run_executable ::
    "(string \<Rightarrow> file_info option) \<Rightarrow> string \<Rightarrow> string list \<Rightarrow> string list \<Rightarrow> spawn_error + process" where
  "run_executable stat name overrides args =
     (if name = [] then Inl Spawn_Empty
      else if \<not> is_abs name then Inl Spawn_Relative
      else
        (case stat name of
           None \<Rightarrow> Inl Spawn_Unavailable
         | Some info \<Rightarrow>
             if \<not> fi_regular info then Inl Spawn_Not_Regular
             else if \<not> executable_mode info then Inl Spawn_Not_Executable
             else Inr (overrides, name, args)))"

definition exec_runner :: "(string \<Rightarrow> file_info option) \<Rightarrow> runner_call \<Rightarrow> spawn_error + process" where
  "exec_runner stat call =
     (case call of
        Run name args \<Rightarrow> run_executable stat name [] args
      | Run_With_Platform platform name args \<Rightarrow>
          bind_result (map_error Spawn_Platform (validate_qt_platform_value platform)) (\<lambda>_.
            if normalize platform = ''auto'' then run_executable stat name [] args
            else run_executable stat name [''QT_QPA_PLATFORM='' @ normalize platform] args))"

definition overridden :: "string list \<Rightarrow> string \<Rightarrow> bool" where
  "overridden overrides entry \<longleftrightarrow>
     list_ex (\<lambda>override.
       case cut_at (CHR ''='') override of
         (key, _, found) \<Rightarrow> found \<and> prefix (key @ ''='') entry) overrides"

definition environment_with_overrides :: "string list \<Rightarrow> string list \<Rightarrow> string list" where
  "environment_with_overrides base overrides = filter (\<lambda>entry. \<not> overridden overrides entry) base @ overrides"

end
