(* ===== verification/Moonlight_Grammar.thy ===== *)
theory Moonlight_Grammar
  imports Moonlight_Argv
begin

text \<open>
  The two sides of the Moonlight argument grammar meet here: the options a stream request
  contributes (\<open>arguments\<close>) and the parser of the execution boundary (\<open>splitStreamOptions\<close>).
  A segment is a run of options the parser consumes whatever follows it; each block of
  \<open>arguments\<close> yields a segment, and segments with disjoint slots compose.
\<close>

named_theorems option_cases \<open>the case of the switch an option selects\<close>

section \<open>Dispatch\<close>

lemma split_option_resolution [option_cases]:
  "split_option fl ''-720'' st rest = split_resolution_flag fl ''-720'' st"
  "split_option fl ''-1080'' st rest = split_resolution_flag fl ''-1080'' st"
  "split_option fl ''-1440'' st rest = split_resolution_flag fl ''-1440'' st"
  "split_option fl ''-width'' st rest = split_dimension fl ''-width'' st rest"
  "split_option fl ''-height'' st rest = split_dimension fl ''-height'' st rest"
  "split_option fl ''-resolution'' st rest = split_custom_resolution fl st rest"
  "split_option fl ''-4K'' st rest = split_4k fl ''-4K'' st"
  "split_option fl ''-4k'' st rest = split_4k fl ''-4k'' st"
  by (simp_all add: split_option_def)

lemma split_option_quality [option_cases]:
  "split_option fl ''-fps'' st rest = split_rate ''-fps'' st rest"
  "split_option fl ''-bitrate'' st rest = split_rate ''-bitrate'' st rest"
  "split_option fl ''-packet-size'' st rest = split_packet_size fl ''-packet-size'' st rest"
  "split_option fl ''-packetsize'' st rest = split_packet_size fl ''-packetsize'' st rest"
  "split_option fl ''-codec'' st rest = split_codec fl ''-codec'' st rest"
  "split_option fl ''-video-codec'' st rest = split_codec fl ''-video-codec'' st rest"
  "split_option fl ''-audio-config'' st rest = split_audio_config fl ''-audio-config'' st rest"
  "split_option fl ''-surround'' st rest = split_audio_config fl ''-surround'' st rest"
  "split_option fl ''-audio-on-host'' st rest = split_audio_on_host fl ''-audio-on-host'' st"
  "split_option fl ''-localaudio'' st rest = split_audio_on_host fl ''-localaudio'' st"
  "split_option fl ''-audio'' st rest = split_audio_device fl st rest"
  "split_option fl ''-nosops'' st rest = split_host_settings fl ''-nosops'' st"
  "split_option fl ''-no-game-optimization'' st rest = split_host_settings fl ''-no-game-optimization'' st"
  by (simp_all add: split_option_def)

lemma split_option_input [option_cases]:
  "split_option fl ''-nomouseemulation'' st rest = split_mouse_emulation fl st"
  "split_option fl ''-input'' st rest = split_input fl st rest"
  "split_option fl ''-mapping'' st rest = split_mapping fl st rest"
  "split_option fl ''-remote'' st rest = split_remote fl st rest"
  "split_option fl ''-frame-pacing'' st rest = split_pacing fl ''-frame-pacing'' st"
  "split_option fl ''-no-frame-pacing'' st rest = split_pacing fl ''-no-frame-pacing'' st"
  "split_option fl ''-vsync'' st rest = split_vsync fl ''-vsync'' st"
  "split_option fl ''-no-vsync'' st rest = split_vsync fl ''-no-vsync'' st"
  "split_option fl ''-keep-awake'' st rest = split_keep_awake fl st"
  "split_option fl ''-quit-after'' st rest = split_quit_after fl ''-quit-after'' st"
  "split_option fl ''-quitappafter'' st rest = split_quit_after fl ''-quitappafter'' st"
  "split_option fl ''-capture-system-keys'' st rest = split_capture_keys fl st rest"
  by (simp_all add: split_option_def)

lemma split_option_display [option_cases]:
  "split_option fl ''-platform'' st rest = split_platform fl st rest"
  "split_option fl ''-video-decoder'' st rest = split_decoder fl st rest"
  "split_option fl ''-display-mode'' st rest = split_display_mode fl st rest"
  "split_option fl ''-windowed'' st rest = split_windowed fl st"
  "split_option fl ''-absolute-mouse'' st rest = split_mouse_mode fl ''-absolute-mouse'' st"
  "split_option fl ''-no-absolute-mouse'' st rest = split_mouse_mode fl ''-no-absolute-mouse'' st"
  "split_option fl ''-hdr'' st rest = split_hdr fl st"
  by (simp_all add: split_option_def)

lemma split_option_control [option_cases]:
  "split_option fl ''-multi-controller'' st rest = split_control fl ''-multi-controller'' st"
  "split_option fl ''-mouse-buttons-swap'' st rest = split_control fl ''-mouse-buttons-swap'' st"
  "split_option fl ''-touchscreen-trackpad'' st rest = split_control fl ''-touchscreen-trackpad'' st"
  "split_option fl ''-mute-on-focus-loss'' st rest = split_control fl ''-mute-on-focus-loss'' st"
  "split_option fl ''-background-gamepad'' st rest = split_control fl ''-background-gamepad'' st"
  "split_option fl ''-reverse-scroll-direction'' st rest = split_control fl ''-reverse-scroll-direction'' st"
  "split_option fl ''-swap-gamepad-buttons'' st rest = split_control fl ''-swap-gamepad-buttons'' st"
  "split_option fl ''-performance-overlay'' st rest = split_control fl ''-performance-overlay'' st"
  "split_option fl ''-yuv444'' st rest = split_control fl ''-yuv444'' st"
  by (simp_all add: split_option_def qt_only_controls_def)

section \<open>Segments\<close>

definition consumes :: "flavor \<Rightarrow> split_state \<Rightarrow> string list \<Rightarrow> split_state \<Rightarrow> bool" where
  "consumes fl st seg st' \<longleftrightarrow> (\<forall>rest. split_loop fl st (seg @ rest) = split_loop fl st' rest)"

lemma consumes_Nil [simp]: "consumes fl st [] st"
  by (simp add: consumes_def)

lemma consumes_append: "consumes fl st a st' \<Longrightarrow> consumes fl st' b st'' \<Longrightarrow> consumes fl st (a @ b) st''"
  by (simp add: consumes_def)

lemma consumes_flag:
  "(\<And>rest. split_option fl o' st rest = Inr (st', False)) \<Longrightarrow> prefix ''-'' o' \<Longrightarrow> o' \<noteq> ''-app'' \<Longrightarrow>
     consumes fl st [o'] st'"
  by (simp add: consumes_def)

lemma consumes_value:
  "(\<And>rest. split_option fl o' st (v # rest) = Inr (st', True)) \<Longrightarrow> prefix ''-'' o' \<Longrightarrow> o' \<noteq> ''-app'' \<Longrightarrow>
     consumes fl st [o', v] st'"
  by (simp add: consumes_def)

text \<open>What the parser's state may remember of a request.\<close>

definition reflects :: "stream_options \<Rightarrow> split_state \<Rightarrow> bool" where
  "reflects s st \<longleftrightarrow>
     (seen st Embedded_Width \<longrightarrow> seen st Embedded_Height) \<and>
     (ss_codec st = [] \<or> ss_codec st = normalized_codec (so_codec s)) \<and>
     (ss_platform st = [] \<or> so_platform s \<noteq> [] \<and> ss_platform st = normalize (so_platform s)) \<and>
     (seen st Audio_Device \<longrightarrow> so_audio_device s \<noteq> []) \<and>
     (0 < ss_input_count st \<longrightarrow> planned_devices s \<noteq> []) \<and>
     (seen st (Control ''-hdr'') \<longrightarrow> so_hdr s)"

text \<open>The slots in use; \<open>None\<close> is the counter of input devices.\<close>

definition used :: "split_state \<Rightarrow> slot option set" where
  "used st = Some ` set (ss_seen st) \<union> (if 0 < ss_input_count st then {None} else {})"

definition segment :: "flavor \<Rightarrow> stream_options \<Rightarrow> slot option set \<Rightarrow> string list \<Rightarrow> bool" where
  "segment fl s slots seg \<longleftrightarrow>
     (\<forall>st. reflects s st \<and> used st \<inter> slots = {} \<longrightarrow>
        (\<exists>st'. consumes fl st seg st' \<and> reflects s st' \<and> used st' \<subseteq> used st \<union> slots))"

lemma segment_Nil: "segment fl s slots []"
  unfolding segment_def by (meson Un_upper1 consumes_Nil)

lemma segment_mono: "segment fl s A seg \<Longrightarrow> A \<subseteq> B \<Longrightarrow> segment fl s B seg"
  unfolding segment_def by blast

lemma segment_append:
  assumes a: "segment fl s A a" and b: "segment fl s B b" and "A \<inter> B = {}"
  shows "segment fl s (A \<union> B) (a @ b)"
  unfolding segment_def
proof (intro allI impI)
  fix st assume st: "reflects s st \<and> used st \<inter> (A \<union> B) = {}"
  with a obtain st' where st': "consumes fl st a st'" "reflects s st'" "used st' \<subseteq> used st \<union> A"
    unfolding segment_def by (metis Int_Un_distrib Un_empty)
  with st \<open>A \<inter> B = {}\<close> have "used st' \<inter> B = {}" by blast
  with b st'(2) obtain st'' where "consumes fl st' b st''" "reflects s st''" "used st'' \<subseteq> used st' \<union> B"
    unfolding segment_def by blast
  with st' show "\<exists>st'. consumes fl st (a @ b) st' \<and> reflects s st' \<and> used st' \<subseteq> used st \<union> (A \<union> B)"
    using consumes_append by (intro exI [of _ st'']) blast
qed

primrec disjoint_slots :: "slot option set list \<Rightarrow> bool" where
  "disjoint_slots [] \<longleftrightarrow> True"
| "disjoint_slots (A # As) \<longleftrightarrow> (\<forall>B \<in> set As. A \<inter> B = {}) \<and> disjoint_slots As"

lemma segments_collect:
  assumes "list_all2 (\<lambda>A r. \<forall>a. r = Inr a \<longrightarrow> segment fl s A a) As rs" "disjoint_slots As"
    "collect_arguments rs = Inr args"
  shows "segment fl s (\<Union> (set As)) args"
  using assms
proof (induction arbitrary: args rule: list_all2_induct)
  case Nil
  then show ?case by (simp add: segment_Nil)
next
  case (Cons A As r rs)
  from Cons.prems(2) obtain a b where ab: "r = Inr a" "collect_arguments rs = Inr b" "args = a @ b"
    by (auto simp: bind_result_ok)
  have "A \<inter> \<Union> (set As) = {}" using Cons.prems(1) by auto
  with Cons ab show ?case by (auto intro: segment_append)
qed

section \<open>One option\<close>

definition may_mark :: "stream_options \<Rightarrow> slot \<Rightarrow> bool" where
  "may_mark s x \<longleftrightarrow> x \<noteq> Embedded_Width \<and> (x = Audio_Device \<longrightarrow> so_audio_device s \<noteq> []) \<and>
     (x = Control ''-hdr'' \<longrightarrow> so_hdr s)"

lemma seen_mark [simp]: "seen (mark x st) y \<longleftrightarrow> y = x \<or> seen st y"
  by (simp add: seen_def mark_def)

lemma seen_update [simp]:
  "seen (st\<lparr>ss_codec := c\<rparr>) y = seen st y" "seen (st\<lparr>ss_platform := c\<rparr>) y = seen st y"
  "seen (st\<lparr>ss_input_count := n\<rparr>) y = seen st y"
  by (simp_all add: seen_def)

lemma mark_fields [simp]:
  "ss_codec (mark x st) = ss_codec st" "ss_platform (mark x st) = ss_platform st"
  "ss_input_count (mark x st) = ss_input_count st" "ss_seen (mark x st) = x # ss_seen st"
  by (simp_all add: mark_def)

lemma used_mark [simp]: "used (mark x st) = insert (Some x) (used st)"
  by (simp add: used_def)

lemma used_update [simp]:
  "used (st\<lparr>ss_codec := c\<rparr>) = used st" "used (st\<lparr>ss_platform := c\<rparr>) = used st"
  by (simp_all add: used_def)

lemma seen_used: "seen st x \<longleftrightarrow> Some x \<in> used st"
  by (auto simp: seen_def used_def)

lemma reflects_mark: "reflects s st \<Longrightarrow> may_mark s x \<Longrightarrow> reflects s (mark x st)"
  by (auto simp: reflects_def may_mark_def)

lemma segment_flag:
  assumes "\<And>st rest. split_option fl o' st rest = flag_option True x o' st"
    "prefix ''-'' o'" "o' \<noteq> ''-app''" "may_mark s x"
  shows "segment fl s {Some x} [o']"
  unfolding segment_def
proof (intro allI impI)
  fix st assume st: "reflects s st \<and> used st \<inter> {Some x} = {}"
  then have "\<not> seen st x" by (simp add: seen_used)
  then have "consumes fl st [o'] (mark x st)"
    using assms(1-3) by (intro consumes_flag) (simp_all add: flag_option_def)
  with st assms(4) show "\<exists>st'. consumes fl st [o'] st' \<and> reflects s st' \<and> used st' \<subseteq> used st \<union> {Some x}"
    by (intro exI [of _ "mark x st"]) (simp add: reflects_mark)
qed

lemma segment_value:
  assumes "\<And>st rest. split_option fl o' st rest = value_option True x o' check st rest"
    "check v = Inr ()" "prefix ''-'' o'" "o' \<noteq> ''-app''" "may_mark s x"
  shows "segment fl s {Some x} [o', v]"
  unfolding segment_def
proof (intro allI impI)
  fix st assume st: "reflects s st \<and> used st \<inter> {Some x} = {}"
  then have "\<not> seen st x" by (simp add: seen_used)
  then have "consumes fl st [o', v] (mark x st)"
    using assms(1-4) by (intro consumes_value) (simp_all add: value_option_def)
  with st assms(5) show "\<exists>st'. consumes fl st [o', v] st' \<and> reflects s st' \<and> used st' \<subseteq> used st \<union> {Some x}"
    by (intro exI [of _ "mark x st"]) (simp add: reflects_mark)
qed

text \<open>The normal forms the allowlists hold are their own normal forms.\<close>

definition normal_texts :: "string list" where
  "normal_texts =
     [''auto'', ''h264'', ''hevc'', ''av1'', ''stereo'', ''5.1-surround'', ''7.1-surround'', ''lan'', ''wan'',
      ''on'', ''off'', ''never'', ''fullscreen'', ''always'', ''x11'', ''x11_vdpau'', ''x11_vaapi'', ''sdl'',
      ''software'', ''hardware'', ''windowed'', ''borderless'', ''absolute'', ''relative'', ''yes'', ''no'',
      ''5.1'', ''7.1'']"

lemma normal_texts_fixed: "\<forall>t \<in> set normal_texts. trim_space t = t \<and> to_lower t = t"
proof -
  have "list_all (\<lambda>t. trim_space t = t \<and> to_lower t = t) normal_texts" by code_simp
  then show ?thesis by (simp add: list_all_iff)
qed

lemma normal_text_simps [simp]:
  "t \<in> set normal_texts \<Longrightarrow> normalize t = t" "t \<in> set normal_texts \<Longrightarrow> to_lower t = t"
  using normal_texts_fixed by (auto simp: normalize_def)

lemma one_of_ok: "one_of label allowed v = Inr () \<longleftrightarrow> v = [] \<or> normalize v \<in> set allowed"
  by (simp add: one_of_def)

lemma normalized_again: "normalize v \<in> set normal_texts \<Longrightarrow> normalize (normalize v) = normalize v"
  by simp

lemma text_check_ok [simp]: "text_check o' allowed v = Inr () \<longleftrightarrow> normalize v \<in> set allowed"
  by (simp add: text_check_def)

lemma decimal_check_itoa:
  "n \<le> max_int \<Longrightarrow> decimal_check o' check (itoa n) = check (int n)"
  by (simp add: decimal_check_def decimal_argument_def atoi_saturated_itoa)

lemma decimal_check_itoa_int:
  assumes "0 \<le> i" "i \<le> 500000"
  shows "decimal_check o' check (itoa_int i) = check i"
proof -
  from assms have "nat i \<le> max_int" by (simp add: max_int_def)
  with assms show ?thesis by (simp add: itoa_int_def decimal_check_itoa)
qed

section \<open>The blocks of a request\<close>

lemma segment_only_for:
  "only_for client enabled label args fl = Inr a \<Longrightarrow>
     (fl = client \<Longrightarrow> enabled \<Longrightarrow> segment fl s A args) \<Longrightarrow> segment fl s A a"
  by (auto simp: only_for_def segment_Nil split: if_splits)

lemma segment_shared_flag:
  "shared_flag enabled embedded qt fl = Inr a \<Longrightarrow>
     (fl = Embedded \<Longrightarrow> enabled \<Longrightarrow> segment fl s A [embedded]) \<Longrightarrow>
     (fl = Qt \<Longrightarrow> enabled \<Longrightarrow> segment fl s A [qt]) \<Longrightarrow> segment fl s A a"
  by (auto simp: shared_flag_def segment_Nil split: if_splits flavor.splits)

lemmas block_defs =
  split_audio_on_host_def split_host_settings_def split_quit_after_def split_mouse_emulation_def
  split_keep_awake_def split_pacing_def split_vsync_def split_windowed_def split_mouse_mode_def
  split_hdr_def split_control_def split_resolution_flag_def split_4k_def split_custom_resolution_def
  split_rate_def split_packet_size_def split_audio_config_def split_audio_device_def split_mapping_def
  split_remote_def split_capture_keys_def split_decoder_def split_display_mode_def spelled_def

lemma audio_on_host_segment:
  "shared_flag b ''-localaudio'' ''-audio-on-host'' fl = Inr a \<Longrightarrow> segment fl s {Some Audio_On_Host} a"
  by (erule segment_shared_flag) (auto intro!: segment_flag simp: option_cases block_defs may_mark_def)

lemma host_settings_segment:
  "shared_flag b ''-nosops'' ''-no-game-optimization'' fl = Inr a \<Longrightarrow> segment fl s {Some Host_Settings} a"
  by (erule segment_shared_flag) (auto intro!: segment_flag simp: option_cases block_defs may_mark_def)

lemma quit_after_segment:
  "shared_flag b ''-quitappafter'' ''-quit-after'' fl = Inr a \<Longrightarrow> segment fl s {Some Quit_After} a"
  by (erule segment_shared_flag) (auto intro!: segment_flag simp: option_cases block_defs may_mark_def)

lemma mouse_emulation_segment:
  "mouse_emulation_arguments fl s = Inr a \<Longrightarrow> segment fl s {Some Mouse_Emulation} a"
  unfolding mouse_emulation_arguments_def
  by (erule segment_only_for) (auto intro!: segment_flag simp: option_cases block_defs may_mark_def)

lemma keep_awake_segment: "keep_awake_arguments fl s = Inr a \<Longrightarrow> segment fl s {Some Keep_Awake} a"
  unfolding keep_awake_arguments_def
  by (erule segment_only_for) (auto intro!: segment_flag simp: option_cases block_defs may_mark_def)

lemma pacing_segment: "pacing_arguments fl s = Inr a \<Longrightarrow> segment fl s {Some Frame_Pacing} a"
  unfolding pacing_arguments_def on_off_def
  by (erule segment_only_for) (auto intro!: segment_flag segment_Nil simp: option_cases block_defs may_mark_def)

lemma vsync_segment: "vsync_arguments fl s = Inr a \<Longrightarrow> segment fl s {Some Vsync} a"
  unfolding vsync_arguments_def on_off_def
  by (erule segment_only_for) (auto intro!: segment_flag segment_Nil simp: option_cases block_defs may_mark_def)

lemma mouse_segment: "mouse_arguments fl s = Inr a \<Longrightarrow> segment fl s {Some Mouse_Mode} a"
  unfolding mouse_arguments_def
  by (erule segment_only_for) (auto intro!: segment_flag simp: option_cases block_defs may_mark_def)

lemma audio_device_segment:
  assumes "audio_device_arguments fl s = Inr a" "check_devices s = Inr ()"
  shows "segment fl s {Some Audio_Device} a"
  using assms(1) unfolding audio_device_arguments_def
proof (rule segment_only_for)
  assume fl: "fl = Embedded" and d: "so_audio_device s \<noteq> []"
  with assms(2) have ok: "device_selector ''audio device'' (so_audio_device s) = Inr ()"
    by (simp add: check_devices_def del: first_error.simps(2))
  then have "trim_space (so_audio_device s) = so_audio_device s"
    by (simp add: device_selector_def bounded_selector_def del: first_error.simps(2))
  with ok fl d show "segment fl s {Some Audio_Device} [''-audio'', trim_space (so_audio_device s)]"
    by (auto intro!: segment_value simp: option_cases block_defs may_mark_def)
qed

lemma mapping_segment:
  assumes "mapping_arguments fl s = Inr a" "check_devices s = Inr ()"
  shows "segment fl s {Some Input_Mapping} a"
  using assms(1) unfolding mapping_arguments_def
proof (rule segment_only_for)
  assume fl: "fl = Embedded" and d: "so_input_mapping s \<noteq> []"
  with assms(2) have ok: "input_mapping_path (so_input_mapping s) = Inr ()"
    by (simp add: check_devices_def del: first_error.simps(2))
  then have "trim_space (so_input_mapping s) = so_input_mapping s"
    by (simp add: input_mapping_path_def bounded_selector_def del: first_error.simps(2))
  with ok fl show "segment fl s {Some Input_Mapping} [''-mapping'', trim_space (so_input_mapping s)]"
    by (auto intro!: segment_value simp: option_cases block_defs may_mark_def)
qed

text \<open>A text value of an allowlist is read back by the parser's allowlist.\<close>

lemma allowed_text:
  "one_of label allowed v = Inr () \<Longrightarrow> v \<noteq> [] \<Longrightarrow> set allowed \<subseteq> set normal_texts \<Longrightarrow>
     normalize v \<in> set allowed \<and> normalize (normalize v) = normalize v \<and> to_lower (normalize v) = normalize v"
  by (auto simp: one_of_ok)

lemma decoder_segment:
  assumes "decoder_arguments fl s = Inr a"
    and "one_of ''decoder'' [''auto'', ''software'', ''hardware''] (so_decoder s) = Inr ()"
  shows "segment fl s {Some Decoder} a"
  using assms(1) unfolding decoder_arguments_def
proof (rule segment_only_for)
  assume fl: "fl = Qt" and d: "so_decoder s \<noteq> []"
  from allowed_text [OF assms(2) d] fl
  show "segment fl s {Some Decoder} [''-video-decoder'', normalize (so_decoder s)]"
    by (auto intro!: segment_value simp: option_cases block_defs may_mark_def normal_texts_def)
qed

lemma network_segment:
  assumes "network_arguments fl s = Inr a"
    and "one_of ''network mode'' [''auto'', ''lan'', ''wan''] (so_network_mode s) = Inr ()"
  shows "segment fl s {Some Network_Mode} a"
  using assms(1) unfolding network_arguments_def
proof (rule segment_only_for)
  assume fl: "fl = Embedded" and d: "so_network_mode s \<noteq> []"
  have again: "normalize ''auto'' = ''auto''" "normalize ''yes'' = ''yes''" "normalize ''no'' = ''no''"
    by (simp_all add: normal_texts_def)
  from assms(2) d have "normalize (so_network_mode s) \<in> {''auto'', ''lan'', ''wan''}"
    by (simp add: one_of_ok)
  with fl again show "segment fl s {Some Network_Mode} [''-remote'',
        (case map_of [(''auto'', ''auto''), (''lan'', ''no''), (''wan'', ''yes'')]
                (normalize (so_network_mode s)) of Some m \<Rightarrow> m | None \<Rightarrow> [])]"
    by (intro segment_value [where check = "text_check ''-remote'' [''auto'', ''yes'', ''no'']"])
      (auto simp: option_cases block_defs may_mark_def)
qed

lemma capture_keys_segment:
  assumes "capture_keys_arguments fl s = Inr a"
    and "one_of ''capture system keys'' [''auto'', ''never'', ''fullscreen'', ''always'']
       (so_capture_system_keys s) = Inr ()"
  shows "segment fl s {Some Capture_System_Keys} a"
  using assms(1) unfolding capture_keys_arguments_def
proof (rule segment_only_for)
  assume fl: "fl = Qt" and d: "so_capture_system_keys s \<noteq> []"
  from allowed_text [OF assms(2) d] fl
  show "segment fl s {Some Capture_System_Keys}
      (if normalize (so_capture_system_keys s) \<noteq> ''auto''
       then [''-capture-system-keys'', normalize (so_capture_system_keys s)] else [])"
    by (auto intro!: segment_value segment_Nil simp: option_cases block_defs may_mark_def normal_texts_def)
qed

lemma display_segment:
  assumes "display_arguments fl s = Inr a" "fl = Embedded \<or> fl = Qt"
    and "one_of ''display mode'' [''fullscreen'', ''windowed'', ''borderless''] (so_display_mode s) = Inr ()"
  shows "segment fl s {Some Display_Mode} a"
proof (cases "so_display_mode s = []")
  case True
  with assms(1) show ?thesis by (simp add: display_arguments_def segment_Nil)
next
  case False
  show ?thesis
  proof (cases "fl = Embedded")
    case True
    with assms(1) False have "a = [] \<or> a = [''-windowed'']"
      by (simp add: display_arguments_def split: if_splits)
    with True show ?thesis
      by (auto intro!: segment_flag segment_Nil simp: option_cases block_defs may_mark_def)
  next
    case qt: False
    with assms(1) False have "a = [''-display-mode'', normalize (so_display_mode s)]"
      by (simp add: display_arguments_def)
    with allowed_text [OF assms(3) False] qt assms(2) show ?thesis
      by (auto intro!: segment_value simp: option_cases block_defs may_mark_def normal_texts_def)
  qed
qed

lemma audio_config_segment:
  assumes "audio_config_arguments fl s = Inr a"
    and "one_of ''audio config'' [''stereo'', ''5.1-surround'', ''7.1-surround''] (so_audio_config s) = Inr ()"
  shows "segment fl s {Some Audio_Config} a"
proof (cases "so_audio_config s = []")
  case True
  with assms(1) show ?thesis by (simp add: audio_config_arguments_def segment_Nil)
next
  case False
  have again: "normalize ''5.1'' = ''5.1''" "normalize ''7.1'' = ''7.1''" by (simp_all add: normal_texts_def)
  show ?thesis
  proof (cases fl)
    case Embedded
    with assms(1) False have "a \<in> {[''-surround'', ''5.1''], [''-surround'', ''7.1''], []}"
      by (auto simp: audio_config_arguments_def split: if_splits)
    with Embedded again show ?thesis
      by (auto intro!: segment_value segment_Nil simp: option_cases block_defs may_mark_def)
  next
    case Qt
    with assms(1) False have "a = [''-audio-config'', normalize (so_audio_config s)]"
      by (simp add: audio_config_arguments_def)
    with allowed_text [OF assms(2) False] Qt show ?thesis
      by (auto intro!: segment_value simp: option_cases block_defs may_mark_def normal_texts_def)
  qed (use assms(1) False in \<open>simp_all add: audio_config_arguments_def\<close>)
qed

lemma platform_segment:
  assumes "platform_arguments fl s = Inr a"
    and "one_of ''platform'' [''auto'', ''x11'', ''x11_vdpau'', ''x11_vaapi'', ''sdl''] (so_platform s) = Inr ()"
  shows "segment fl s {Some Platform} a"
  using assms(1) unfolding platform_arguments_def
proof (rule segment_only_for)
  assume fl: "fl = Embedded" and d: "so_platform s \<noteq> []"
  let ?p = "normalize (so_platform s)"
  from allowed_text [OF assms(2) d]
  have p: "?p \<in> {''auto'', ''x11'', ''x11_vdpau'', ''x11_vaapi'', ''sdl''}" "normalize ?p = ?p"
    by (simp_all add: normal_texts_def)
  have "segment fl s {Some Platform} [''-platform'', ?p]"
    unfolding segment_def
  proof (intro allI impI)
    fix st assume st: "reflects s st \<and> used st \<inter> {Some Platform} = {}"
    then have "\<not> seen st Platform" by (simp add: seen_used)
    let ?st' = "(mark Platform st)\<lparr>ss_platform := ?p\<rparr>"
    have check: "text_check ''-platform'' [''auto'', ''x11'', ''x11_vdpau'', ''x11_vaapi'', ''sdl''] ?p = Inr ()"
      using p by simp
    have "consumes fl st [''-platform'', ?p] ?st'"
      using fl p(2) \<open>\<not> seen st Platform\<close>
      by (intro consumes_value) (simp_all add: option_cases split_platform_def value_option_def check)
    moreover have "reflects s ?st'" using st d by (auto simp: reflects_def)
    ultimately show "\<exists>st'. consumes fl st [''-platform'', ?p] st' \<and> reflects s st' \<and>
        used st' \<subseteq> used st \<union> {Some Platform}"
      by (intro exI [of _ ?st']) simp
  qed
  then show "segment fl s {Some Platform} (if ?p \<noteq> ''auto'' then [''-platform'', ?p] else [])"
    by (simp add: segment_Nil)
qed

definition codec_readable :: "flavor \<Rightarrow> stream_options \<Rightarrow> bool" where
  "codec_readable fl s \<longleftrightarrow> \<not> (fl = Qt \<and> normalized_codec (so_codec s) = ''h264'')"

lemma codec_segment:
  assumes "codec_arguments fl s = Inr a" "fl = Embedded \<or> fl = Qt" "check_codec s = Inr ()" "codec_readable fl s"
  shows "segment fl s {Some Codec} a"
proof (cases "so_codec s = []")
  case True
  with assms(1) show ?thesis by (simp add: codec_arguments_def segment_Nil)
next
  case False
  let ?c = "normalized_codec (so_codec s)"
  from assms(3) False have "normalize (so_codec s) \<in> {''auto'', ''h264'', ''h265'', ''hevc'', ''av1''}"
    by (simp add: check_codec_def one_of_ok del: first_error.simps(2))
  then have c: "?c \<in> {''auto'', ''h264'', ''hevc'', ''av1''}" by (auto simp: normalized_codec_def)
  define o' v where "o' = (if fl = Qt then ''-video-codec'' else ''-codec'')"
    and "v = (if fl = Qt then qt_codec_name ?c else ?c)"
  have again: "normalized_codec ''auto'' = ''auto''" "normalized_codec ''h264'' = ''h264''"
    "normalized_codec ''hevc'' = ''hevc''" "normalized_codec ''av1'' = ''av1''"
    "normalized_codec ''HEVC'' = ''hevc''" "normalized_codec ''AV1'' = ''av1''"
    by code_simp+
  have v: "normalized_codec v = ?c"
    using c assms(4) by (auto simp: v_def qt_codec_name_def again codec_readable_def)
  have a: "a = [o', v]" using assms(1) False by (auto simp: codec_arguments_def o'_def v_def)
  show ?thesis
    unfolding a segment_def
  proof (intro allI impI)
    fix st assume st: "reflects s st \<and> used st \<inter> {Some Codec} = {}"
    then have "\<not> seen st Codec" by (simp add: seen_used)
    let ?st' = "(mark Codec st)\<lparr>ss_codec := ?c\<rparr>"
    have "consumes fl st [o', v] ?st'"
      using assms(2) c v \<open>\<not> seen st Codec\<close>
      by (intro consumes_value)
        (auto simp: o'_def option_cases split_codec_def value_option_def spelled_def)
    moreover have "reflects s ?st'" using st by (auto simp: reflects_def)
    ultimately show "\<exists>st'. consumes fl st [o', v] st' \<and> reflects s st' \<and> used st' \<subseteq> used st \<union> {Some Codec}"
      by (intro exI [of _ ?st']) simp
  qed
qed

lemma rate_segment:
  assumes "check_numbers s = Inr ()" "number_arguments fl s = Inr a" "fl = Embedded \<or> fl = Qt"
  shows "segment fl s ({Some Fps} \<union> ({Some Bitrate} \<union> {Some Packet_Size})) a"
proof -
  from assms(1) have fps: "so_fps s \<noteq> 0 \<Longrightarrow> 10 \<le> so_fps s \<and> so_fps s \<le> 480"
    and bitrate: "so_bitrate_kbps s \<noteq> 0 \<Longrightarrow> 500 \<le> so_bitrate_kbps s \<and> so_bitrate_kbps s \<le> 500000"
    and packet: "so_packet_size_bytes s \<noteq> 0 \<Longrightarrow> packet_size_ok (so_packet_size_bytes s) = Inr ()"
    by (auto simp: check_numbers_def simp del: first_error.simps(2))
  have range: "packet_size_ok i = Inr () \<Longrightarrow> 0 \<le> i \<and> i \<le> 500000" for i
    by (simp add: packet_size_ok_def del: first_error.simps(2))
  have f: "segment fl s {Some Fps} (if so_fps s \<noteq> 0 then [''-fps'', itoa_int (so_fps s)] else [])"
    using fps by (auto intro!: segment_value segment_Nil
        simp: option_cases block_defs may_mark_def decimal_check_itoa_int)
  have b: "segment fl s {Some Bitrate}
      (if so_bitrate_kbps s \<noteq> 0 then [''-bitrate'', itoa_int (so_bitrate_kbps s)] else [])"
    using bitrate by (auto intro!: segment_value segment_Nil
        simp: option_cases block_defs may_mark_def decimal_check_itoa_int)
  have p: "segment fl s {Some Packet_Size} (if so_packet_size_bytes s \<noteq> 0
       then [if fl = Qt then ''-packet-size'' else ''-packetsize'', itoa_int (so_packet_size_bytes s)] else [])"
    using packet range assms(3) by (auto intro!: segment_value segment_Nil
        simp: option_cases block_defs may_mark_def decimal_check_itoa_int)
  from assms(2) show ?thesis
    unfolding number_arguments_def sum.inject by (rule subst) (rule segment_append [OF f segment_append [OF b p]], simp_all)
qed

lemma dimension_itoa:
  "minimum \<le> n \<Longrightarrow> n \<le> maximum \<Longrightarrow> maximum \<le> 7680 \<Longrightarrow> parse_resolution_dimension (itoa n) minimum maximum = Inr n"
  by (simp add: parse_resolution_dimension_def decimal_argument_def atoi_itoa max_int_def)

lemma dimension_bounds:
  "parse_resolution_dimension v minimum maximum = Inr n \<Longrightarrow> minimum \<le> n \<and> n \<le> maximum"
  by (auto simp: parse_resolution_dimension_def split: if_splits option.splits)

lemma resolution_spec_cases:
  assumes "parse_resolution_spec v = Inr r"
  obtains (named) "rs_name r \<in> set named_resolutions"
  | (custom) w h where "640 \<le> w" "w \<le> 7680" "360 \<le> h" "h \<le> 4320"
      "r = \<lparr>rs_name = itoa w @ ''x'' @ itoa h, rs_width = w, rs_height = h\<rparr>"
proof (cases "normalize v \<in> set named_resolutions")
  case True
  with assms have "rs_name r \<in> set named_resolutions"
    by (auto simp: parse_resolution_spec_def Let_def)
  then show thesis by (rule named)
next
  case False
  with assms obtain wt ht w h where "parse_width wt = Inr w" "parse_height ht = Inr h"
    "r = \<lparr>rs_name = itoa w @ ''x'' @ itoa h, rs_width = w, rs_height = h\<rparr>"
    by (auto simp: parse_resolution_spec_def Let_def bind_result_ok split: list.splits)
  then show thesis using dimension_bounds custom by (metis parse_width_def parse_height_def)
qed

lemma digit_facts: "is_digit c \<Longrightarrow> is_ascii c \<and> \<not> is_upper c \<and> \<not> space_byte c \<and> c \<noteq> CHR ''x''"
  using space_byte_range [of c] by (auto simp: is_digit_def is_ascii_def is_upper_def byte_def)

lemma custom_name:
  fixes w h
  defines "name \<equiv> itoa w @ ''x'' @ itoa h"
  assumes "640 \<le> w" "w \<le> 7680" "360 \<le> h" "h \<le> 4320"
  shows "parse_resolution_spec name = Inr \<lparr>rs_name = name, rs_width = w, rs_height = h\<rparr> \<and>
    name \<notin> set named_resolutions"
proof -
  have x: "CHR ''x'' \<notin> set (itoa n)" for n
    using itoa_digits [of n] digit_facts by (auto simp: list_all_iff)
  have plain: "list_all (\<lambda>c. is_ascii c \<and> \<not> is_upper c) name"
    using itoa_digits [of w] itoa_digits [of h] digit_facts
    by (auto simp: name_def list_all_iff is_ascii_def is_upper_def byte_def)
  have "hd name \<in> set (itoa w)" "last name \<in> set (itoa h)" by (simp_all add: name_def)
  with itoa_digits [of w] itoa_digits [of h] digit_facts
  have "\<not> space_byte (hd name)" "\<not> space_byte (last name)" by (auto simp: list_all_iff)
  then have norm: "normalize name = name"
    using to_lower_fixed [OF plain] trim_space_clean [of name] by (simp add: normalize_def)
  have "CHR ''x'' \<in> set name" by (simp add: name_def)
  moreover have "\<forall>t \<in> set named_resolutions. CHR ''x'' \<notin> set t" by (simp add: named_resolutions_def)
  ultimately have no: "name \<notin> set named_resolutions" by blast
  have "split_on (CHR ''x'') name = [itoa w, itoa h]"
    using split_on_append [OF x] split_on_free [OF x] by (simp add: name_def)
  then have "parse_resolution_spec name = Inr \<lparr>rs_name = name, rs_width = w, rs_height = h\<rparr>"
    using norm no assms(2-5)
    by (simp add: parse_resolution_spec_def parse_width_def parse_height_def dimension_itoa name_def)
  with no show ?thesis by blast
qed

lemma dimensions_segment:
  assumes "640 \<le> w" "w \<le> 7680" "360 \<le> h" "h \<le> 4320"
  shows "segment Embedded s {Some Resolution, Some Embedded_Width, Some Embedded_Height}
    [''-width'', itoa w, ''-height'', itoa h]"
  unfolding segment_def
proof (intro allI impI)
  fix st assume st: "reflects s st \<and> used st \<inter> {Some Resolution, Some Embedded_Width, Some Embedded_Height} = {}"
  then have fresh: "\<not> seen st Resolution" "\<not> seen st Embedded_Width" "\<not> seen st Embedded_Height"
    by (auto simp: seen_used)
  let ?w = "mark Embedded_Width (mark Resolution st)" and ?st' = "mark Embedded_Height (mark Embedded_Width (mark Resolution st))"
  have "consumes Embedded st [''-width'', itoa w] ?w"
    using assms fresh by (intro consumes_value)
      (simp_all add: option_cases split_dimension_def decimal_argument_def parse_width_def dimension_itoa)
  moreover have "consumes Embedded ?w [''-height'', itoa h] ?st'"
    using assms fresh by (intro consumes_value)
      (simp_all add: option_cases split_dimension_def decimal_argument_def parse_height_def dimension_itoa)
  ultimately have "consumes Embedded st ([''-width'', itoa w] @ [''-height'', itoa h]) ?st'"
    by (rule consumes_append)
  moreover have "reflects s ?st'" using st by (auto simp: reflects_def)
  ultimately show "\<exists>st'. consumes Embedded st [''-width'', itoa w, ''-height'', itoa h] st' \<and> reflects s st' \<and>
      used st' \<subseteq> used st \<union> {Some Resolution, Some Embedded_Width, Some Embedded_Height}"
    by (intro exI [of _ ?st']) auto
qed

lemma resolution_segment:
  assumes "resolution_arguments fl s = Inr a" "fl = Embedded \<or> fl = Qt"
  shows "segment fl s {Some Resolution, Some Embedded_Width, Some Embedded_Height} a"
proof (cases "so_resolution s = []")
  case True
  with assms(1) show ?thesis by (simp add: resolution_arguments_def segment_Nil)
next
  case False
  with assms(1) obtain r where r: "parse_resolution_spec (so_resolution s) = Inr r"
    by (auto simp: resolution_arguments_def bind_result_ok)
  have one: "segment fl s {Some Resolution} b \<Longrightarrow> ?thesis" if "a = b" for b
    using that segment_mono by blast
  from r show ?thesis
  proof (cases rule: resolution_spec_cases)
    case named
    have d: "[''-width'', ''2560'', ''-height'', ''1440''] = [''-width'', itoa 2560, ''-height'', itoa 1440]"
      by code_simp
    have flags: "segment fl s {Some Resolution} [''-720'']" "segment fl s {Some Resolution} [''-1080'']"
      "fl = Qt \<Longrightarrow> segment fl s {Some Resolution} [''-1440'']" "fl = Qt \<Longrightarrow> segment fl s {Some Resolution} [''-4K'']"
      "fl = Embedded \<Longrightarrow> segment fl s {Some Resolution} [''-4k'']"
      using assms(2) by (auto intro!: segment_flag simp: option_cases block_defs may_mark_def)
    from named assms r False consider
      "a = [''-720'']" | "a = [''-1080'']" | "a = [''-1440'']" "fl = Qt" | "a = [''-4K'']" "fl = Qt"
      | "a = [''-4k'']" "fl = Embedded" | "a = [''-width'', itoa 2560, ''-height'', itoa 1440]" "fl = Embedded"
      unfolding d [symmetric] by (auto simp: resolution_arguments_def named_resolutions_def split: if_splits)
    then show ?thesis using flags one dimensions_segment [of 2560 1440 s] by cases simp_all
  next
    case (custom w h)
    let ?name = "itoa w @ ''x'' @ itoa h"
    note c = custom_name [OF custom(1-4)]
    then have "?name \<notin> {''1440'', ''4k'', ''720'', ''1080''}" by (auto simp: named_resolutions_def)
    with r False assms(1) custom(5) have a: "a = (if fl = Qt then [''-resolution'', ?name]
        else [''-width'', itoa w, ''-height'', itoa h])"
      by (cases "fl = Qt") (simp_all add: resolution_arguments_def)
    show ?thesis
    proof (cases "fl = Qt")
      case True
      have "segment fl s {Some Resolution} [''-resolution'', ?name]"
        using c True by (intro segment_value [where check = "\<lambda>v. case parse_resolution_spec v of
            Inl e \<Rightarrow> Inl (Bad_Resolution v)
          | Inr r \<Rightarrow> require (\<not> List.member [''720'', ''1080'', ''1440'', ''4k''] (rs_name r)) (Bad_Resolution v)"])
          (simp_all add: option_cases block_defs may_mark_def named_resolutions_def)
      with a True one show ?thesis by simp
    next
      case False
      with a assms(2) dimensions_segment [OF custom(1-4)] show ?thesis by simp
    qed
  qed
qed

end
