(* ===== verification/Moonlight_Allowlist.thy ===== *)
theory Moonlight_Allowlist
  imports Moonlight_Grammar
begin

text \<open>
  Soundness of the option parser: every vector it accepts is a run of options of a fixed table,
  each filling its slot at most once and no value looking like an option, followed by the
  positional arguments. No other flag reaches a Moonlight client.
\<close>

section \<open>Only allowlisted options are consumed\<close>

text \<open>The grammar as a table: the option, the clients that have it, whether it takes a value, and
  the slot it may fill once (none for the counted input devices).\<close>

type_synonym option_entry = "flavor list \<times> bool \<times> slot option"

definition option_table :: "(string \<times> option_entry) list" where
  "option_table =
     [(''-720'', [Embedded, Qt], False, Some Resolution), (''-1080'', [Embedded, Qt], False, Some Resolution),
      (''-1440'', [Qt], False, Some Resolution), (''-4K'', [Qt], False, Some Resolution),
      (''-4k'', [Embedded], False, Some Resolution), (''-resolution'', [Qt], True, Some Resolution),
      (''-width'', [Embedded], True, Some Resolution), (''-height'', [Embedded], True, Some Embedded_Height),
      (''-fps'', [Embedded, Qt], True, Some Fps), (''-bitrate'', [Embedded, Qt], True, Some Bitrate),
      (''-packet-size'', [Qt], True, Some Packet_Size), (''-packetsize'', [Embedded], True, Some Packet_Size),
      (''-codec'', [Embedded], True, Some Codec), (''-video-codec'', [Qt], True, Some Codec),
      (''-audio-config'', [Qt], True, Some Audio_Config), (''-surround'', [Embedded], True, Some Audio_Config),
      (''-audio-on-host'', [Qt], False, Some Audio_On_Host), (''-localaudio'', [Embedded], False, Some Audio_On_Host),
      (''-audio'', [Embedded], True, Some Audio_Device), (''-nosops'', [Embedded], False, Some Host_Settings),
      (''-no-game-optimization'', [Qt], False, Some Host_Settings),
      (''-nomouseemulation'', [Embedded], False, Some Mouse_Emulation), (''-input'', [Embedded], True, None),
      (''-mapping'', [Embedded], True, Some Input_Mapping), (''-remote'', [Embedded], True, Some Network_Mode),
      (''-frame-pacing'', [Qt], False, Some Frame_Pacing), (''-no-frame-pacing'', [Qt], False, Some Frame_Pacing),
      (''-vsync'', [Qt], False, Some Vsync), (''-no-vsync'', [Qt], False, Some Vsync),
      (''-keep-awake'', [Qt], False, Some Keep_Awake), (''-quit-after'', [Qt], False, Some Quit_After),
      (''-quitappafter'', [Embedded], False, Some Quit_After),
      (''-capture-system-keys'', [Qt], True, Some Capture_System_Keys),
      (''-platform'', [Embedded], True, Some Platform), (''-video-decoder'', [Qt], True, Some Decoder),
      (''-display-mode'', [Qt], True, Some Display_Mode), (''-windowed'', [Embedded], False, Some Display_Mode),
      (''-absolute-mouse'', [Qt], False, Some Mouse_Mode), (''-no-absolute-mouse'', [Qt], False, Some Mouse_Mode),
      (''-hdr'', [Embedded, Qt], False, Some (Control ''-hdr''))] @
     map (\<lambda>c. (c, [Qt], False, Some (Control c))) qt_only_controls"

text \<open>A run of options, with the slots already filled.\<close>

fun option_run :: "flavor \<Rightarrow> slot list \<Rightarrow> string list \<Rightarrow> bool" where
  "option_run fl filled [] \<longleftrightarrow> True"
| "option_run fl filled (x # rest) \<longleftrightarrow>
     (case map_of option_table x of
        None \<Rightarrow> False
      | Some (clients, takes_value, slot) \<Rightarrow>
          List.member clients fl \<and>
          (case slot of None \<Rightarrow> True | Some y \<Rightarrow> \<not> List.member filled y) \<and>
          (let filled' = (case slot of None \<Rightarrow> filled | Some y \<Rightarrow> y # filled) in
           if takes_value
           then (case rest of [] \<Rightarrow> False | v # rest' \<Rightarrow> \<not> prefix ''-'' v \<and> option_run fl filled' rest')
           else option_run fl filled' rest))"

section \<open>One step\<close>

lemma flag_option_ok:
  "flag_option c x o' st = Inr (st', took) \<longleftrightarrow> c \<and> \<not> seen st x \<and> st' = mark x st \<and> \<not> took"
  by (auto simp: flag_option_def bind_result_ok simp del: first_error.simps(2))

lemma value_option_ok:
  "value_option c x o' check st rest = Inr (st', took) \<longleftrightarrow>
     c \<and> \<not> seen st x \<and> (\<exists>v vs. rest = v # vs \<and> check v = Inr ()) \<and> st' = mark x st \<and> took"
  by (cases rest) (auto simp: value_option_def bind_result_ok simp del: first_error.simps(2))

definition dashless :: "string \<Rightarrow> bool" where
  "dashless v \<longleftrightarrow> \<not> prefix ''-'' v"

lemma dash_not_space: "\<not> space_byte (CHR ''-'')"
  by code_simp

lemma trim_dash: "prefix ''-'' v \<Longrightarrow> trim_space v = [] \<or> prefix ''-'' (trim_space v)"
proof -
  assume "prefix ''-'' v"
  then obtain u where v: "v = CHR ''-'' # u" by (auto simp: prefix_def)
  have "\<forall>p \<in> set go_spaces. p \<noteq> [] \<longrightarrow> \<not> prefix p v"
    using dash_not_space by (auto simp: v prefix_Cons space_byte_def)
  then have front: "strip_any go_spaces v = v" by (simp add: strip_any_fixed)
  have "suffix (strip_any (map rev go_spaces) (rev v)) (rev v)" by (rule strip_any_suffix)
  then have "prefix (trim_space v) v"
    unfolding trim_space_def front by (metis rev_rev_ident suffix_to_prefix)
  then show ?thesis by (auto simp: v prefix_Cons)
qed

lemma to_lower_dash: "prefix ''-'' v \<Longrightarrow> prefix ''-'' (to_lower v)"
  by (cases v) (auto simp: lower_char_def is_upper_def byte_def)

lemma normalize_dash: "prefix ''-'' v \<Longrightarrow> normalize v = [] \<or> prefix ''-'' (normalize v)"
  using trim_dash [of v] to_lower_dash [of "trim_space v"] by (auto simp: normalize_def)

lemma dashless_text: "normalize v = c # t \<Longrightarrow> c \<noteq> CHR ''-'' \<Longrightarrow> dashless v"
  using normalize_dash [of v] by (auto simp: dashless_def)

lemma dashless_digits: "all_digits v \<Longrightarrow> dashless v"
  by (cases v) (auto simp: dashless_def all_digits_def is_digit_def byte_def)

lemma dashless_decimal: "decimal_check o' check v = Inr () \<Longrightarrow> dashless v"
  by (auto simp: decimal_check_def decimal_argument_def split: if_splits intro: dashless_digits)

lemma dashless_selector: "bounded_selector l n v = Inr () \<Longrightarrow> dashless v"
  by (auto simp: bounded_selector_def dashless_def simp del: first_error.simps(2))

lemma dashless_device: "device_selector l v = Inr () \<Longrightarrow> dashless v"
  by (simp add: device_selector_def dashless_selector)

lemma dashless_input: "embedded_input_device v = Inr () \<Longrightarrow> dashless v"
  by (auto simp: embedded_input_device_def dashless_device simp del: first_error.simps(2))

lemma dashless_mapping: "input_mapping_path v = Inr () \<Longrightarrow> dashless v"
  by (auto simp: input_mapping_path_def dashless_selector simp del: first_error.simps(2))

lemma dashless_resolution: "parse_resolution_spec v = Inr r \<Longrightarrow> dashless v"
proof -
  assume r: "parse_resolution_spec v = Inr r"
  show ?thesis
  proof (cases "normalize v \<in> set named_resolutions")
    case True
    then show ?thesis using normalize_dash [of v] by (auto simp: dashless_def named_resolutions_def)
  next
    case False
    with r obtain w h where wh: "split_on (CHR ''x'') (normalize v) = [w, h]" "all_digits w"
      by (auto simp: parse_resolution_spec_def Let_def bind_result_ok parse_width_def
          parse_resolution_dimension_def decimal_argument_def split: list.splits if_splits)
    have "normalize v = w @ ''x'' @ h" using join_split [of "CHR ''x''" "normalize v"] wh(1) by simp
    with wh(2) have "normalize v \<noteq> []" "dashless (normalize v)"
      using dashless_digits [of w] by (auto simp: dashless_def all_digits_def prefix_def append_eq_Cons_conv Cons_eq_append_conv)
    then show ?thesis using normalize_dash [of v] by (auto simp: dashless_def)
  qed
qed

text \<open>What a case of the switch guarantees of its option, for the clients the parser knows.\<close>

definition step_sound :: "string \<Rightarrow> bool" where
  "step_sound x \<longleftrightarrow>
     (\<forall>fl st rest st' took. (fl = Embedded \<or> fl = Qt) \<and> split_option fl x st rest = Inr (st', took) \<longrightarrow>
        (\<exists>clients slot. map_of option_table x = Some (clients, took, slot) \<and> fl \<in> set clients \<and>
           (\<forall>y. slot = Some y \<longrightarrow> \<not> seen st y \<and> seen st' y) \<and> (\<forall>y. seen st y \<longrightarrow> seen st' y) \<and>
           (took \<longrightarrow> (\<exists>v vs. rest = v # vs \<and> dashless v))))"

lemma step_sound_flag:
  assumes "\<And>fl st rest. split_option fl x st rest = flag_option (ok fl) y x st"
    "map_of option_table x = Some (clients, False, Some y)" "\<And>fl. ok fl \<Longrightarrow> fl = Embedded \<or> fl = Qt \<Longrightarrow> fl \<in> set clients"
  shows "step_sound x"
  unfolding step_sound_def using assms by (auto simp: flag_option_ok)

lemma table_controls:
  "c \<in> set qt_only_controls \<Longrightarrow> map_of option_table c = Some ([Qt], False, Some (Control c))"
proof -
  have "list_all (\<lambda>c. map_of option_table c = Some ([Qt], False, Some (Control c))) qt_only_controls"
    by code_simp
  then show "c \<in> set qt_only_controls \<Longrightarrow> ?thesis" by (simp add: list_all_iff)
qed

lemma flags_sound:
  "list_all step_sound
     [''-720'', ''-1080'', ''-1440'', ''-4K'', ''-4k'', ''-audio-on-host'', ''-localaudio'', ''-nosops'',
      ''-no-game-optimization'', ''-nomouseemulation'']"
  by (auto simp: step_sound_def option_cases block_defs flag_option_ok option_table_def)

lemma more_flags_sound:
  "list_all step_sound
     [''-frame-pacing'', ''-no-frame-pacing'', ''-vsync'', ''-no-vsync'', ''-keep-awake'', ''-quit-after'',
      ''-quitappafter'', ''-windowed'', ''-absolute-mouse'', ''-no-absolute-mouse'', ''-hdr'']"
  by (auto simp: step_sound_def option_cases block_defs flag_option_ok option_table_def)

lemma controls_sound: "list_all step_sound qt_only_controls"
  unfolding list_all_iff
proof
  fix c assume c: "c \<in> set qt_only_controls"
  then have "\<And>fl st rest. split_option fl c st rest = flag_option (fl = Qt) (Control c) c st"
    unfolding qt_only_controls_def by (auto simp: option_cases split_control_def)
  then show "step_sound c" by (rule step_sound_flag) (use table_controls [OF c] in auto)
qed

lemma values_sound:
  "list_all step_sound
     [''-fps'', ''-bitrate'', ''-packet-size'', ''-packetsize'', ''-audio-config'', ''-surround'', ''-audio'',
      ''-mapping'', ''-remote'', ''-capture-system-keys'', ''-video-decoder'']"
  by (auto simp: step_sound_def option_cases block_defs value_option_ok option_table_def
      elim: dashless_decimal dashless_device dashless_mapping intro: dashless_text)

lemma dashless_lower: "to_lower v = c # t \<Longrightarrow> c \<noteq> CHR ''-'' \<Longrightarrow> dashless v"
  using to_lower_dash [of v] by (auto simp: dashless_def)

lemma dashless_codec: "normalized_codec v = c # t \<Longrightarrow> c \<noteq> CHR ''-'' \<Longrightarrow> dashless v"
  using normalize_dash [of v] by (auto simp: normalized_codec_def dashless_def split: if_splits)

lemma split_dimension_ok:
  assumes "split_dimension fl x st rest = Inr (st', took)"
  shows "fl = Embedded \<and> took \<and> (\<exists>v vs. rest = v # vs \<and> dashless v) \<and>
    (if x = ''-width'' then \<not> seen st Resolution \<and> st' = mark Embedded_Width (mark Resolution st)
     else \<not> seen st Embedded_Height \<and> st' = mark Embedded_Height st)"
  using assms
  by (cases rest; cases "x = ''-width''")
    (auto simp: split_dimension_def bind_result_ok decimal_argument_def dashless_digits split: if_splits)

lemma other_values_sound:
  "list_all step_sound
     [''-codec'', ''-video-codec'', ''-platform'', ''-display-mode'', ''-input'', ''-resolution'', ''-width'', ''-height'']"
proof -
  have codec: "dashless v" if "List.member [''auto'', ''h264'', ''hevc'', ''av1''] (normalized_codec v)" for v
    using that by (auto intro: dashless_codec)
  have "step_sound ''-codec''" "step_sound ''-video-codec''"
    by (auto simp: step_sound_def option_cases split_codec_def bind_result_ok value_option_ok option_table_def
        spelled_def intro!: codec simp del: List.member_iff)
  moreover have "step_sound ''-platform''"
    by (auto simp: step_sound_def option_cases split_platform_def bind_result_ok value_option_ok option_table_def
        intro: dashless_text)
  moreover have "step_sound ''-display-mode''"
    by (auto simp: step_sound_def option_cases block_defs value_option_ok option_table_def intro: dashless_lower)
  moreover have "step_sound ''-input''"
    by (auto simp: step_sound_def option_cases split_input_def bind_result_ok option_table_def
        intro: dashless_input split: list.splits simp del: first_error.simps(2))
  moreover have "dashless v" if "(case parse_resolution_spec v of Inl e \<Rightarrow> Inl (Bad_Resolution v)
      | Inr r \<Rightarrow> f r) = Inr ()" for v f
    using that dashless_resolution by (auto split: sum.splits)
  then have "step_sound ''-resolution''"
    by (auto simp: step_sound_def option_cases block_defs value_option_ok option_table_def simp del: List.member_iff)
  moreover have "step_sound ''-width''" "step_sound ''-height''"
    by (auto simp: step_sound_def option_cases option_table_def dest!: split_dimension_ok)
  ultimately show ?thesis by simp
qed

lemma option_names:
  "map fst option_table =
     [''-720'', ''-1080'', ''-1440'', ''-4K'', ''-4k'', ''-resolution'', ''-width'', ''-height'', ''-fps'', ''-bitrate'',
      ''-packet-size'', ''-packetsize'', ''-codec'', ''-video-codec'', ''-audio-config'', ''-surround'',
      ''-audio-on-host'', ''-localaudio'', ''-audio'', ''-nosops'', ''-no-game-optimization'', ''-nomouseemulation'',
      ''-input'', ''-mapping'', ''-remote'', ''-frame-pacing'', ''-no-frame-pacing'', ''-vsync'', ''-no-vsync'',
      ''-keep-awake'', ''-quit-after'', ''-quitappafter'', ''-capture-system-keys'', ''-platform'',
      ''-video-decoder'', ''-display-mode'', ''-windowed'', ''-absolute-mouse'', ''-no-absolute-mouse'', ''-hdr''] @
     qt_only_controls"
  by (simp add: option_table_def comp_def)

lemma all_steps_sound: "step_sound x"
proof (cases "x \<in> set (map fst option_table)")
  case True
  then show ?thesis
    using flags_sound more_flags_sound controls_sound values_sound other_values_sound
    unfolding option_names by (auto simp: list_all_iff)
next
  case False
  then have "split_option fl x st rest = Inl (Unknown_Option x)" for fl st rest
    unfolding option_names split_option_def by simp
  then show ?thesis by (simp add: step_sound_def)
qed

lemma step_soundE:
  assumes "split_option fl x st rest = Inr (st', took)" "fl = Embedded \<or> fl = Qt"
  obtains clients slot where "map_of option_table x = Some (clients, took, slot)" "fl \<in> set clients"
    "\<forall>y. slot = Some y \<longrightarrow> \<not> seen st y \<and> seen st' y" "\<forall>y. seen st y \<longrightarrow> seen st' y"
    "took \<longrightarrow> (\<exists>v vs. rest = v # vs \<and> dashless v)"
  using all_steps_sound [of x, unfolded step_sound_def, rule_format, of fl st rest st' took] assms by metis

section \<open>The whole run\<close>

lemma split_loop_run:
  assumes "split_loop fl st args = Inr (st', rest)" "fl = Embedded \<or> fl = Qt" "\<forall>y \<in> set filled. seen st y"
  shows "\<exists>opts. args = opts @ rest \<and> option_run fl filled opts \<and>
    (rest = [] \<or> \<not> prefix ''-'' (hd rest) \<or> fl = Embedded \<and> hd rest = ''-app'')"
  using assms
proof (induction fl st args arbitrary: filled rule: split_loop.induct)
  case (1 fl st)
  then show ?case by simp
next
  case (2 fl st x xs)
  show ?case
  proof (cases "\<not> prefix ''-'' x \<or> fl = Embedded \<and> x = ''-app''")
    case True
    with 2 show ?thesis by (intro exI [of _ "[]"]) auto
  next
    case go: False
    note loop0 = 2(2) [unfolded split_loop.simps(2) if_not_P [OF go]]
    obtain st1 took where step: "split_option fl x st xs = Inr (st1, took)"
    proof (cases "split_option fl x st xs")
      case (Inr r)
      then show thesis using that by (cases r) simp
    next
      case (Inl e)
      with loop0 show thesis by (simp only: sum.case sum.distinct)
    qed
    with loop0 have loop: "split_loop fl st1 (drop (if took then 1 else 0) xs) = Inr (st', rest)"
      by (simp only: sum.case prod.case)
    from step_soundE [OF step 2(3)] obtain clients slot where
      entry: "map_of option_table x = Some (clients, took, slot)" "fl \<in> set clients"
      and slot: "\<forall>y. slot = Some y \<longrightarrow> \<not> seen st y \<and> seen st1 y" "\<forall>y. seen st y \<longrightarrow> seen st1 y"
      and val: "took \<longrightarrow> (\<exists>v vs. xs = v # vs \<and> dashless v)" .
    define filled' where "filled' = (case slot of None \<Rightarrow> filled | Some y \<Rightarrow> y # filled)"
    have "\<forall>y \<in> set filled'. seen st1 y" using slot 2(4) by (auto simp: filled'_def split: option.splits)
    from 2(1) [OF go step refl loop 2(3) this] obtain opts where
      opts: "drop (if took then 1 else 0) xs = opts @ rest" "option_run fl filled' opts"
        "rest = [] \<or> \<not> prefix ''-'' (hd rest) \<or> fl = Embedded \<and> hd rest = ''-app''"
      by blast
    have fresh: "case slot of None \<Rightarrow> True | Some y \<Rightarrow> \<not> List.member filled y"
      using slot 2(4) by (auto split: option.splits)
    show ?thesis
    proof (cases took)
      case True
      with val obtain v vs where v: "xs = v # vs" "dashless v" by blast
      with True opts entry fresh show ?thesis
        by (intro exI [of _ "x # v # opts"]) (simp add: dashless_def filled'_def Let_def)
    next
      case False
      with opts entry fresh show ?thesis
        by (intro exI [of _ "x # opts"]) (simp add: filled'_def Let_def)
    qed
  qed
qed

text \<open>No option injection: whatever vector the option parser of the execution boundary
  accepts, the part it consumes is a run of options of the fixed table, each one belonging to
  the selected client and filling its slot for the first time, every value a text that does not
  begin with a dash, and what follows is the positional arguments it returns; these begin with a
  dash in one case only, the -app of Embedded.\<close>

theorem accepted_options_allowlisted:
  assumes "split_stream_options fl args = Inr rest" and "fl = Embedded \<or> fl = Qt \<or> fl = Flatpak"
  shows "\<exists>opts. args = opts @ rest \<and> option_run (stream_option_flavor fl) [] opts \<and>
    (rest = [] \<or> \<not> prefix ''-'' (hd rest) \<or> fl = Embedded \<and> hd rest = ''-app'')"
proof -
  from assms(1) obtain st where loop: "split_loop (stream_option_flavor fl) initial_split args = Inr (st, rest)"
    by (auto simp: split_stream_options_def bind_result_ok)
  have fl: "stream_option_flavor fl = Embedded \<or> stream_option_flavor fl = Qt"
    "stream_option_flavor fl = Embedded \<longleftrightarrow> fl = Embedded"
    using assms(2) by (auto simp: stream_option_flavor_def)
  from split_loop_run [OF loop fl(1), of "[]"] fl(2) show ?thesis by simp
qed

theorem accepted_options_allowlisted_witness:
  "\<exists>opts. [''-hdr'', ''-fps'', ''120'', ''pc'', ''Desktop''] = opts @ [''pc'', ''Desktop''] \<and>
     option_run Qt [] opts"
proof -
  have s: "split_stream_options Flatpak [''-hdr'', ''-fps'', ''120'', ''pc'', ''Desktop''] = Inr [''pc'', ''Desktop'']"
    by code_simp
  have "stream_option_flavor Flatpak = Qt" by (simp add: stream_option_flavor_def)
  with accepted_options_allowlisted [OF s] show ?thesis by simp
qed

end
