(* ===== verification/Moonlight_Boundary.thy ===== *)
theory Moonlight_Boundary
  imports Moonlight_Execute Moonlight_Allowlist
begin

text \<open>
  What can cross the execution boundary. An inductive grammar says which argument vectors are
  Moonlight commands; everything the boundary's check accepts is one, and the executor calls the
  runner at most once, with such a vector and the executable that discovery bound.
\<close>

section \<open>The grammar of commands\<close>

inductive host_words :: "flavor \<Rightarrow> string list \<Rightarrow> bool" where
  address: "parse_host_endpoint a = Inr (host_endpoint_of a 0) \<Longrightarrow> length a \<le> 116 \<Longrightarrow> host_words Embedded [a]"
| address_port: "parse_host_endpoint a = Inr (host_endpoint_of a 0) \<Longrightarrow> length a \<le> 116 \<Longrightarrow>
    1 \<le> port \<Longrightarrow> port \<le> 65535 \<Longrightarrow> host_words Embedded [a, ''-port'', itoa port]"
| endpoint: "parse_host_endpoint h = Inr e \<Longrightarrow> host_words Qt [h]"

inductive operation_words :: "flavor \<Rightarrow> string list \<Rightarrow> bool" where
  map_device: "embedded_input_device d = Inr () \<Longrightarrow> operation_words Embedded [''map'', ''-input'', d]"
| control: "x \<in> {''pair'', ''list'', ''quit''} \<Longrightarrow> host_words fl ws \<Longrightarrow> operation_words fl (x # ws)"
| pin: "length digits = 4 \<Longrightarrow> all_digits digits \<Longrightarrow> (fl = Embedded \<Longrightarrow> digits \<noteq> ''0000'') \<Longrightarrow> host_words fl ws \<Longrightarrow>
    operation_words fl (''pair'' # ''-pin'' # digits # ws)"
| unpair: "host_words Embedded ws \<Longrightarrow> operation_words Embedded (''unpair'' # ws)"
| stream_embedded: "option_run Embedded [] opts \<Longrightarrow> validate_app_name app = Inr () \<Longrightarrow> host_words Embedded ws \<Longrightarrow>
    operation_words Embedded (''stream'' # opts @ ''-app'' # app # ws)"
| stream_qt: "option_run Qt [] opts \<Longrightarrow> validate_app_name app = Inr () \<Longrightarrow> host_words Qt [h] \<Longrightarrow>
    operation_words Qt (''stream'' # opts @ [h, app])"

inductive command_words :: "flavor \<Rightarrow> string list \<Rightarrow> bool" where
  direct: "fl = Embedded \<or> fl = Qt \<Longrightarrow> operation_words fl ws \<Longrightarrow> command_words fl ws"
| flatpak: "operation_words Qt ws \<Longrightarrow> command_words Flatpak (''run'' # moonlight_flatpak_app_id # ws)"
| flatpak_platform: "operation_words Qt ws \<Longrightarrow>
    normalize v \<in> {''xcb'', ''wayland'', ''eglfs'', ''linuxfb'', ''offscreen''} \<Longrightarrow>
    command_words Flatpak (''run'' # (environment_prefix @ v) # moonlight_flatpak_app_id # ws)"

inductive_simps host_words_embedded: "host_words Embedded ws"
inductive_simps host_words_qt: "host_words Qt ws"
inductive_simps command_words_direct: "command_words Embedded ws" "command_words Qt ws"
inductive_cases command_words_flatpakE: "command_words Flatpak ws"

section \<open>The checks accept commands only\<close>

lemma length_three: "length xs = 3 \<longleftrightarrow> (\<exists>a b c. xs = [a, b, c])"
  by (auto simp: numeral_3_eq_3 length_Suc_conv)

lemma length_five: "length xs = 5 \<longleftrightarrow> (\<exists>a b c d e. xs = [a, b, c, d, e])"
  by (auto simp: eval_nat_numeral length_Suc_conv)

lemma length_one: "length xs = 1 \<longleftrightarrow> (\<exists>a. xs = [a])"
  by (auto simp: length_Suc_conv)

lemma length_two: "length xs = 2 \<longleftrightarrow> (\<exists>a b. xs = [a, b])"
  by (auto simp: numeral_2_eq_2 length_Suc_conv)

lemma moonlight_port_ok:
  "validate_moonlight_port v = Inr () \<longleftrightarrow> (\<exists>port. 1 \<le> port \<and> port \<le> 65535 \<and> v = itoa port)"
proof
  assume "validate_moonlight_port v = Inr ()"
  then show "\<exists>port. 1 \<le> port \<and> port \<le> 65535 \<and> v = itoa port"
    by (auto simp: validate_moonlight_port_def split: if_splits option.splits)
next
  assume "\<exists>port. 1 \<le> port \<and> port \<le> 65535 \<and> v = itoa port"
  then obtain port where p: "1 \<le> port" "port \<le> 65535" "v = itoa port" by blast
  then have "port \<le> max_int" "length v \<le> 5" using length_itoa_le [of port 5] by (simp_all add: max_int_def)
  with p show "validate_moonlight_port v = Inr ()"
    by (simp add: validate_moonlight_port_def decimal_argument_def atoi_itoa)
qed

lemma plan_host_ok_embedded:
  "validate_plan_host_arguments Embedded ws = Inr () \<longleftrightarrow> host_words Embedded ws"
proof
  assume v: "validate_plan_host_arguments Embedded ws = Inr ()"
  then have "length ws = 1 \<or> length ws = 3" by (auto simp: validate_plan_host_arguments_def split: if_splits)
  with v show "host_words Embedded ws"
    unfolding host_words_embedded length_one length_three
    by (auto simp: validate_plan_host_arguments_def bind_result_ok moonlight_port_ok
        validate_embedded_host_address_def max_embedded_host_address_bytes_def simp del: first_error.simps(2))
      blast
next
  assume "host_words Embedded ws"
  then show "validate_plan_host_arguments Embedded ws = Inr ()"
    unfolding host_words_embedded
    by (auto simp: validate_plan_host_arguments_def moonlight_port_ok validate_embedded_host_address_def
        max_embedded_host_address_bytes_def simp del: first_error.simps(2))
qed

lemma plan_host_ok_qt: "validate_plan_host_arguments Qt ws = Inr () \<longleftrightarrow> host_words Qt ws"
  unfolding host_words_qt
  by (auto simp: validate_plan_host_arguments_def validate_host_def bind_result_ok length_one [unfolded One_nat_def]
      split: if_splits)

lemma plan_host_ok:
  "fl = Embedded \<or> fl = Qt \<Longrightarrow> validate_plan_host_arguments fl ws = Inr () \<longleftrightarrow> host_words fl ws"
  using plan_host_ok_embedded plan_host_ok_qt by auto

lemma pair_words:
  assumes "validate_pair_arguments fl args = Inr ()" "fl = Embedded \<or> fl = Qt"
  shows "operation_words fl (''pair'' # args)"
proof (cases "0 < length args \<and> args ! 0 = ''-pin''")
  case True
  with assms(1) have "3 \<le> length args" by (auto simp: validate_pair_arguments_def split: if_splits)
  then obtain a b ws where args: "args = a # b # ws" by (cases args; cases "tl args") auto
  with True assms have "a = ''-pin''" "length b = 4" "all_digits b" "fl = Embedded \<Longrightarrow> b \<noteq> ''0000''"
    "host_words fl ws"
    by (auto simp: validate_pair_arguments_def validate_pairing_pin_def decimal_argument_def plan_host_ok
        simp del: first_error.simps(2) split: if_splits)
  with args show ?thesis by (auto intro: operation_words.pin)
next
  case False
  from assms have "host_words fl args"
    unfolding validate_pair_arguments_def if_not_P [OF False] by (simp add: plan_host_ok)
  then show ?thesis by (simp add: operation_words.control)
qed

lemma stream_words:
  assumes "validate_stream_arguments fl args = Inr ()" "fl = Embedded \<or> fl = Qt \<or> fl = Flatpak"
  shows "operation_words (stream_option_flavor fl) (''stream'' # args)"
proof -
  from assms(1) obtain rest where split: "split_stream_options fl args = Inr rest"
    by (auto simp: validate_stream_arguments_def bind_result_ok)
  then obtain st where loop: "split_loop (stream_option_flavor fl) initial_split args = Inr (st, rest)"
    by (auto simp: split_stream_options_def bind_result_ok)
  have known: "stream_option_flavor fl = Embedded \<or> stream_option_flavor fl = Qt"
    using assms(2) by (auto simp: stream_option_flavor_def)
  from split_loop_run [OF loop known, of "[]"] obtain opts
    where opts: "args = opts @ rest" "option_run (stream_option_flavor fl) [] opts" by auto
  show ?thesis
  proof (cases "fl = Embedded")
    case True
    with assms(1) split have "length rest = 3 \<or> length rest = 5"
      by (auto simp: validate_stream_arguments_def split: if_splits)
    then obtain x app ws where rest: "rest = x # app # ws" by (cases rest; cases "tl rest") auto
    with True assms(1) split have "x = ''-app''" "validate_app_name app = Inr ()" "host_words Embedded ws"
      by (auto simp: validate_stream_arguments_def plan_host_ok simp del: first_error.simps(2) split: if_splits)
    with True opts rest show ?thesis by (auto simp: stream_option_flavor_def intro: operation_words.stream_embedded)
  next
    case False
    then have qt: "stream_option_flavor fl = Qt" using known by (auto simp: stream_option_flavor_def split: if_splits)
    from False assms(1) split have "length rest = 2"
      by (auto simp: validate_stream_arguments_def split: if_splits)
    then obtain h app where rest: "rest = [h, app]" unfolding length_two by blast
    with False assms(1) split qt have "validate_app_name app = Inr ()" "host_words Qt [h]"
      by (auto simp: validate_stream_arguments_def plan_host_ok simp del: first_error.simps(2) split: if_splits)
    with opts rest qt show ?thesis by (auto intro: operation_words.stream_qt)
  qed
qed

lemma operation_of_cases:
  "operation_of s = Pair_Op \<longleftrightarrow> s = ''pair''" "operation_of s = Unpair_Op \<longleftrightarrow> s = ''unpair''"
  "operation_of s = List_Op \<longleftrightarrow> s = ''list''" "operation_of s = Stream_Op \<longleftrightarrow> s = ''stream''"
  "operation_of s = Quit_Op \<longleftrightarrow> s = ''quit''" "operation_of s = Map_Op \<longleftrightarrow> s = ''map''"
  by (auto simp: operation_of_def)

lemma operation_words_ok:
  assumes "validate_operation_arguments fl ws = Inr ()" "fl = Embedded \<or> fl = Qt \<or> fl = Flatpak"
  shows "operation_words (stream_option_flavor fl) ws"
proof (cases ws)
  case Nil
  with assms(1) show ?thesis by (simp add: validate_operation_arguments_def)
next
  case (Cons x args)
  have known: "stream_option_flavor fl = Embedded \<or> stream_option_flavor fl = Qt"
    "fl = Embedded \<Longrightarrow> stream_option_flavor fl = Embedded"
    using assms(2) by (auto simp: stream_option_flavor_def)
  note valid = assms(1) [unfolded validate_operation_arguments_def Cons list.case]
  show ?thesis
  proof (cases "operation_of x")
    case Map_Op
    with valid have fl: "fl = Embedded" "length (x # args) = 3" "(x # args) ! 1 = ''-input''"
        "embedded_input_device ((x # args) ! 2) = Inr ()"
      by (auto split: if_splits)
    moreover from Map_Op have "x = ''map''" by (simp add: operation_of_cases)
    ultimately show ?thesis
      using known Cons unfolding length_three by (auto intro: operation_words.map_device)
  next
    case Pair_Op
    with valid known(1) pair_words Cons show ?thesis by (simp add: operation_of_cases)
  next
    case Stream_Op
    with valid assms(2) stream_words Cons show ?thesis by (simp add: operation_of_cases)
  next
    case Unpair_Op
    with valid have "fl = Embedded" "host_words Embedded args" by (auto simp: plan_host_ok split: if_splits)
    with Unpair_Op known(2) Cons show ?thesis by (auto simp: operation_of_cases intro: operation_words.unpair)
  next
    case List_Op
    with valid known(1) have "host_words (stream_option_flavor fl) args" by (simp add: plan_host_ok)
    with List_Op Cons show ?thesis by (auto simp: operation_of_cases intro: operation_words.control)
  next
    case Quit_Op
    with valid known(1) have "host_words (stream_option_flavor fl) args" by (simp add: plan_host_ok)
    with Quit_Op Cons show ?thesis by (auto simp: operation_of_cases intro: operation_words.control)
  next
    case (Other_Op s)
    with valid show ?thesis by simp
  qed
qed

text \<open>The two shapes of a Flatpak prefix.\<close>

definition concrete_platforms :: "string list" where
  "concrete_platforms = [''xcb'', ''wayland'', ''eglfs'', ''linuxfb'', ''offscreen'']"

lemma qt_platform_value_ok:
  "validate_qt_platform_value v = Inr () \<longleftrightarrow> normalize v = ''auto'' \<or> normalize v \<in> set concrete_platforms"
  by (auto simp: validate_qt_platform_value_def validate_qt_platform_def concrete_platforms_def)

lemma platform_texts_fixed: "p = ''auto'' \<or> p \<in> set concrete_platforms \<Longrightarrow> normalize p = p"
proof -
  have "list_all (\<lambda>p. normalize p = p) (''auto'' # concrete_platforms)" by code_simp
  then show "p = ''auto'' \<or> p \<in> set concrete_platforms \<Longrightarrow> normalize p = p" by (auto simp: list_all_iff)
qed

lemma app_id_plain: "\<not> prefix ''--env='' moonlight_flatpak_app_id" "prefix ''--env='' environment_prefix"
  by (simp_all add: moonlight_flatpak_app_id_def environment_prefix_def)

lemma flatpak_environment_ok:
  "flatpak_environment a = Inr (platform, position) \<longleftrightarrow>
     \<not> prefix ''--env='' a \<and> platform = [] \<and> position = 1 \<or>
     (\<exists>v. a = environment_prefix @ v \<and> platform = normalize v \<and> platform \<in> set concrete_platforms \<and> position = 2)"
proof (cases "prefix ''--env='' a")
  case True
  show ?thesis
  proof (cases "prefix environment_prefix a")
    case env: True
    then obtain v where v: "a = environment_prefix @ v" by (auto simp: prefix_def)
    have auto_free: "''auto'' \<notin> set concrete_platforms" by (simp add: concrete_platforms_def)
    show ?thesis
      using True env auto_free
      by (auto simp: flatpak_environment_def v Let_def bind_result_ok qt_platform_value_ok normalize_again)
  next
    case False
    with True show ?thesis by (auto simp: flatpak_environment_def)
  qed
next
  case False
  moreover from False app_id_plain(2) have "\<nexists>v. a = environment_prefix @ v"
    by (metis prefix_order.trans prefixI)
  ultimately show ?thesis by (auto simp: flatpak_environment_def)
qed

lemma split_flatpak_ok:
  "split_flatpak_prefix args = Inr (rest, platform) \<longleftrightarrow>
     platform = [] \<and> args = ''run'' # moonlight_flatpak_app_id # rest \<or>
     (\<exists>v. args = ''run'' # (environment_prefix @ v) # moonlight_flatpak_app_id # rest \<and> rest \<noteq> [] \<and>
        platform = normalize v \<and> platform \<in> set concrete_platforms \<and>
        validate_qt_platform_for platform (operation_of (hd rest)) = Inr ())" (is "?l \<longleftrightarrow> ?r")
proof
  have nonempty: "[] \<notin> set concrete_platforms" by (simp add: concrete_platforms_def)
  {
    assume l: ?l
    then obtain x y zs where args: "args = x # y # zs"
      by (cases args; cases "tl args") (auto simp: split_flatpak_prefix_def)
    with l obtain pl pos where env: "flatpak_environment y = Inr (pl, pos)" and x: "x = ''run''"
      by (auto simp: split_flatpak_prefix_def bind_result_ok split: if_splits)
    from env [unfolded flatpak_environment_ok] show ?r
    proof (elim disjE exE conjE)
      assume "pl = []" "pos = 1" "\<not> prefix ''--env='' y"
      with l args x env show ?r by (auto simp: split_flatpak_prefix_def split: if_splits)
    next
      fix v assume v: "y = environment_prefix @ v" "pl = normalize v" "pl \<in> set concrete_platforms" "pos = 2"
      with nonempty have "pl \<noteq> []" by auto
      then have "2 < length args \<and> args ! 2 = moonlight_flatpak_app_id \<and> 3 < length args \<and>
          validate_qt_platform_for pl (operation_of (args ! 3)) = Inr () \<and> rest = drop 3 args \<and> platform = pl"
        using l args x env v(4)
        by (auto simp: split_flatpak_prefix_def bind_result_ok numeral_2_eq_2 numeral_3_eq_3 split: if_splits)
      then show ?r using args x v
        by (cases zs; cases "tl zs") (auto simp: numeral_2_eq_2 numeral_3_eq_3)
    qed
  }
  assume ?r
  then show ?l
  proof (elim disjE exE conjE)
    assume r: "platform = []" "args = ''run'' # moonlight_flatpak_app_id # rest"
    have "flatpak_environment moonlight_flatpak_app_id = Inr ([], 1)"
      using app_id_plain(1) by (simp add: flatpak_environment_ok)
    with r show ?l by (simp add: split_flatpak_prefix_def)
  next
    fix v assume r: "args = ''run'' # (environment_prefix @ v) # moonlight_flatpak_app_id # rest" "rest \<noteq> []"
      "platform = normalize v" "platform \<in> set concrete_platforms"
      "validate_qt_platform_for platform (operation_of (hd rest)) = Inr ()"
    then have "flatpak_environment (environment_prefix @ v) = Inr (platform, 2)"
      by (auto simp: flatpak_environment_ok)
    moreover have "platform \<noteq> []" using r(4) nonempty by auto
    ultimately show ?l using r
      by (cases rest) (simp_all add: split_flatpak_prefix_def numeral_2_eq_2 numeral_3_eq_3)
  qed
qed

lemma accepted_words:
  assumes "validate_plan_arguments fl args = Inr ()" and "fl = Embedded \<or> fl = Qt \<or> fl = Flatpak"
  shows "command_words fl args"
proof (cases "fl = Flatpak")
  case False
  with assms have "operation_words (stream_option_flavor fl) args"
    by (auto simp: validate_plan_arguments_def intro: operation_words_ok)
  with False assms(2) show ?thesis by (auto simp: stream_option_flavor_def intro: command_words.direct)
next
  case True
  with assms(1) obtain rest platform where split: "split_flatpak_prefix args = Inr (rest, platform)"
    and words: "validate_operation_arguments Flatpak rest = Inr ()"
    by (auto simp: validate_plan_arguments_def bind_result_ok)
  from operation_words_ok [OF words] have ops: "operation_words Qt rest"
    by (simp add: stream_option_flavor_def)
  from split [unfolded split_flatpak_ok] show ?thesis
    unfolding True using ops
    by (auto simp: concrete_platforms_def intro: command_words.flatpak command_words.flatpak_platform)
qed

text \<open>C5. The argument check of the execution boundary accepts Moonlight commands only: every
  vector that passes is, for its client, the operation words map, pair, unpair, list, quit or
  stream with a checked host, a four-digit PIN, an evdev device or an application name in their
  places, the options of a stream a run of allowlisted options; a Flatpak vector has the fixed
  run prefix in front, with at most one environment override, the Qt platform, and only to one
  of five platforms.\<close>

theorem accepted_commands:
  assumes "validate_plan_arguments fl args = Inr ()" and "fl = Embedded \<or> fl = Qt \<or> fl = Flatpak"
  shows "command_words fl args"
  using assms by (rule accepted_words)

theorem accepted_commands_witness:
  "command_words Flatpak
     [''run'', ''--env=QT_QPA_PLATFORM=wayland'', ''com.moonlight_stream.Moonlight'',
      ''stream'', ''-fps'', ''60'', ''gaming-pc'', ''Desktop'']"
proof -
  have "validate_plan_arguments Flatpak
     [''run'', ''--env=QT_QPA_PLATFORM=wayland'', ''com.moonlight_stream.Moonlight'',
      ''stream'', ''-fps'', ''60'', ''gaming-pc'', ''Desktop''] = Inr ()"
    by code_simp
  then show ?thesis using accepted_commands by blast
qed

end
