(* ===== verification/Moonlight_Accepts.thy ===== *)
theory Moonlight_Accepts
  imports Moonlight_Grammar
begin

text \<open>
  What the argument grammar of the execution boundary accepts. Completeness: the options of
  every valid request are consumed, whatever positional arguments follow. Soundness: every
  vector it accepts is a run of allowlisted options followed by positional arguments.
\<close>

section \<open>Every valid request is consumed\<close>

lemma input_consumes:
  assumes "\<forall>d \<in> set ds. embedded_input_device d = Inr ()" "ss_input_count st + length ds \<le> 6"
  shows "consumes Embedded st (concat (map (\<lambda>d. [''-input'', trim_space d]) ds))
    (st\<lparr>ss_input_count := ss_input_count st + length ds\<rparr>)"
  using assms
proof (induction ds arbitrary: st)
  case (Cons d ds)
  let ?st' = "st\<lparr>ss_input_count := ss_input_count st + 1\<rparr>"
  have d: "embedded_input_device d = Inr ()" using Cons.prems(1) by simp
  then have "trim_space d = d"
    by (simp add: embedded_input_device_def device_selector_def bounded_selector_def del: first_error.simps(2))
  with d Cons.prems(2) have "consumes Embedded st [''-input'', trim_space d] ?st'"
    by (intro consumes_value) (simp_all add: option_cases split_input_def max_embedded_input_devices_def)
  moreover have "consumes Embedded ?st' (concat (map (\<lambda>d. [''-input'', trim_space d]) ds))
      (?st'\<lparr>ss_input_count := ss_input_count ?st' + length ds\<rparr>)"
    using Cons by (intro Cons.IH) simp_all
  ultimately have "consumes Embedded st
      ([''-input'', trim_space d] @ concat (map (\<lambda>d. [''-input'', trim_space d]) ds))
      (?st'\<lparr>ss_input_count := ss_input_count ?st' + length ds\<rparr>)"
    by (rule consumes_append)
  then show ?case by simp
qed simp

lemma input_segment:
  assumes "input_arguments fl s = Inr a" "check_devices s = Inr ()"
  shows "segment fl s {None} a"
  using assms(1) unfolding input_arguments_def
proof (rule segment_only_for)
  assume fl: "fl = Embedded" and some: "planned_devices s \<noteq> []"
  from assms(2) have devices: "\<forall>d \<in> set (planned_devices s). embedded_input_device d = Inr ()"
      "length (planned_devices s) \<le> 6"
    by (auto simp: check_devices_def planned_devices_def first_error_map_ok max_embedded_input_devices_def
        simp del: first_error.simps(2))
  show "segment fl s {None} (concat (map (\<lambda>d. [''-input'', trim_space d]) (planned_devices s)))"
    unfolding segment_def
  proof (intro allI impI)
    fix st assume st: "reflects s st \<and> used st \<inter> {None} = {}"
    then have "ss_input_count st = 0" by (auto simp: used_def split: if_splits)
    with devices have "consumes fl st (concat (map (\<lambda>d. [''-input'', trim_space d]) (planned_devices s)))
        (st\<lparr>ss_input_count := length (planned_devices s)\<rparr>)"
      using input_consumes [of "planned_devices s" st] fl by simp
    moreover have "reflects s (st\<lparr>ss_input_count := length (planned_devices s)\<rparr>)"
      using st some by (auto simp: reflects_def)
    ultimately show "\<exists>st'. consumes fl st (concat (map (\<lambda>d. [''-input'', trim_space d]) (planned_devices s))) st' \<and>
        reflects s st' \<and> used st' \<subseteq> used st \<union> {None}"
      by (intro exI [of _ "st\<lparr>ss_input_count := length (planned_devices s)\<rparr>"]) (auto simp: used_def)
  qed
qed

lemma control_segment:
  assumes "control_argument fl (enabled, o', embedded_valid) = Inr a"
    and "o' \<in> set qt_only_controls \<and> \<not> embedded_valid \<or> o' = ''-hdr'' \<and> (enabled \<longrightarrow> so_hdr s)"
  shows "segment fl s {Some (Control o')} a"
proof (cases enabled)
  case True
  from assms(2) show ?thesis
  proof (elim disjE conjE)
    assume o': "o' \<in> set qt_only_controls" "\<not> embedded_valid"
    with assms(1) True have a: "a = [o']" "fl = Qt" by (auto simp: control_argument_def split: if_splits)
    have "\<And>st rest. split_option fl o' st rest = split_control fl o' st"
      using o'(1) unfolding qt_only_controls_def by (auto simp: option_cases)
    moreover have "prefix ''-'' o'" "o' \<noteq> ''-app''" "o' \<noteq> ''-hdr''"
      using o'(1) unfolding qt_only_controls_def by auto
    ultimately show ?thesis
      unfolding a by (intro segment_flag) (auto simp: split_control_def may_mark_def)
  next
    assume o': "o' = ''-hdr''" "enabled \<longrightarrow> so_hdr s"
    with assms(1) True have "a = [o']" "fl = Qt \<or> fl = Embedded" by (auto simp: control_argument_def split: if_splits)
    with o' True show ?thesis by (auto intro!: segment_flag simp: option_cases split_hdr_def may_mark_def)
  qed
next
  case False
  with assms(1) show ?thesis by (simp add: control_argument_def segment_Nil)
qed

definition block_slots :: "slot option set list" where
  "block_slots =
     [{Some Resolution, Some Embedded_Width, Some Embedded_Height}, {Some Fps} \<union> ({Some Bitrate} \<union> {Some Packet_Size}),
      {Some Codec}, {Some Audio_Config}, {Some Audio_On_Host}, {Some Audio_Device}, {Some Host_Settings},
      {Some Mouse_Emulation}, {None}, {Some Input_Mapping}, {Some Network_Mode}, {Some Frame_Pacing},
      {Some Vsync}, {Some Keep_Awake}, {Some Quit_After}, {Some Capture_System_Keys}, {Some Platform},
      {Some Decoder}, {Some Display_Mode}, {Some Mouse_Mode}]"

definition control_slots :: "slot option set list" where
  "control_slots = map (\<lambda>c. {Some (Control (fst (snd c)))}) (qt_controls no_options)"

lemma slots_disjoint: "disjoint_slots (block_slots @ control_slots)"
  by (simp add: block_slots_def control_slots_def qt_controls_def)

lemma valid_parts:
  assumes "validate_options s = Inr ()"
  shows "check_numbers s = Inr ()" "check_codec s = Inr ()" "check_devices s = Inr ()"
    "one_of ''audio config'' [''stereo'', ''5.1-surround'', ''7.1-surround''] (so_audio_config s) = Inr ()"
    "one_of ''network mode'' [''auto'', ''lan'', ''wan''] (so_network_mode s) = Inr ()"
    "one_of ''capture system keys'' [''auto'', ''never'', ''fullscreen'', ''always''] (so_capture_system_keys s) = Inr ()"
    "check_platform s = Inr ()"
    "one_of ''decoder'' [''auto'', ''software'', ''hardware''] (so_decoder s) = Inr ()"
    "one_of ''display mode'' [''fullscreen'', ''windowed'', ''borderless''] (so_display_mode s) = Inr ()"
  using assms by (simp_all add: validate_options_def del: first_error.simps(2))

lemma valid_platform:
  "check_platform s = Inr () \<Longrightarrow>
     one_of ''platform'' [''auto'', ''x11'', ''x11_vdpau'', ''x11_vaapi'', ''sdl''] (so_platform s) = Inr ()"
  by (auto simp: check_platform_def one_of_def simp del: first_error.simps(2) split: if_splits)

lemma block_segments:
  assumes "validate_options s = Inr ()" "fl = Embedded \<or> fl = Qt" "codec_readable fl s"
  shows "list_all2 (\<lambda>A r. \<forall>a. r = Inr a \<longrightarrow> segment fl s A a) (block_slots @ control_slots) (argument_blocks fl s)"
proof -
  note parts = valid_parts [OF assms(1)]
  note blocks = resolution_segment rate_segment codec_segment audio_config_segment
    audio_on_host_segment audio_device_segment host_settings_segment mouse_emulation_segment input_segment
    mapping_segment network_segment pacing_segment vsync_segment keep_awake_segment quit_after_segment
    capture_keys_segment platform_segment decoder_segment display_segment mouse_segment
  show ?thesis
    unfolding argument_blocks_def
  proof (rule list_all2_appendI)
    show "list_all2 (\<lambda>A r. \<forall>a. r = Inr a \<longrightarrow> segment fl s A a) control_slots (map (control_argument fl) (qt_controls s))"
      unfolding control_slots_def qt_controls_def list.map list.rel_inject fst_conv snd_conv
      by (intro conjI allI impI control_segment list.rel_intros)
        (assumption | simp add: qt_only_controls_def)+
  qed (use blocks parts valid_platform assms(2,3) in \<open>simp add: block_slots_def\<close>)
qed

lemma to_lower_plain: "CHR ''i'' \<notin> set (to_lower x) \<Longrightarrow> CHR ''k'' \<notin> set (to_lower x) \<Longrightarrow> to_lower x = map lower_char x"
  by (induction x rule: to_lower.induct) (auto split: if_splits)

text \<open>A value that lower-cases to an ASCII text without i and k is that text up to case.\<close>

lemma to_lower_equal_fold:
  assumes "to_lower x = t" "list_all is_ascii t" "CHR ''i'' \<notin> set t" "CHR ''k'' \<notin> set t"
  shows "equal_fold x t"
proof -
  have m: "map lower_char x = t" using to_lower_plain [of x] assms by auto
  have "list_all is_ascii x" using assms(2) by (simp add: m [symmetric] list_all_iff)
  then have "fold_case x = t" by (simp add: fold_case_ascii m)
  moreover have "fold_case t = map lower_char t" using assms(2) by (rule fold_case_ascii)
  moreover have "map lower_char t = t"
    by (simp add: m [symmetric] lower_char_fixed)
  ultimately show ?thesis by (simp add: equal_fold_def)
qed

lemma ascii_texts: "list_all is_ascii ''h264''" "list_all is_ascii ''sdl''"
  by code_simp+

lemma reflected_final:
  assumes "validate_options s = Inr ()" "reflects s st"
  shows "final_checks st = Inr ()"
proof -
  note parts = valid_parts [OF assms(1)]
  have hdr: "so_hdr s \<Longrightarrow> so_codec s \<noteq> [] \<Longrightarrow> normalized_codec (so_codec s) \<noteq> ''h264''"
  proof
    assume h: "so_hdr s" "so_codec s \<noteq> []" "normalized_codec (so_codec s) = ''h264''"
    then have "to_lower (trim_space (so_codec s)) = ''h264''"
      by (auto simp: normalized_codec_def normalize_def split: if_splits)
    then have "equal_fold (trim_space (so_codec s)) ''h264''"
      using ascii_texts by (auto intro: to_lower_equal_fold)
    with h parts(2) show False by (simp add: check_codec_def del: first_error.simps(2))
  qed
  have empty: "normalized_codec [] \<noteq> ''h264''" by code_simp
  have sdl: "so_audio_device s = [] \<and> planned_devices s = []"
    if "so_platform s \<noteq> []" "normalize (so_platform s) = ''sdl''"
  proof -
    from that have "equal_fold (trim_space (so_platform s)) ''sdl''"
      using ascii_texts by (auto simp: normalize_def intro: to_lower_equal_fold)
    with that parts(7) show ?thesis
      by (simp add: check_platform_def planned_devices_def del: first_error.simps(2))
  qed
  show ?thesis
    using assms(2) hdr empty sdl
    by (cases "so_codec s = []")
      (auto simp: final_checks_def reflects_def simp del: first_error.simps(2))
qed

text \<open>Where the option loop stops: at a positional argument, or at \<open>-app\<close> of Embedded.\<close>

definition stops :: "flavor \<Rightarrow> string list \<Rightarrow> bool" where
  "stops fl rest \<longleftrightarrow>
     (case rest of [] \<Rightarrow> True | x # _ \<Rightarrow> \<not> prefix ''-'' x \<or> fl = Embedded \<and> x = ''-app'')"

lemma split_loop_stops: "stops fl rest \<Longrightarrow> split_loop fl st rest = Inr (st, rest)"
  by (cases rest) (simp_all add: stops_def)

lemma reflects_initial: "reflects s initial_split \<and> used initial_split = {}"
  by (simp add: reflects_def initial_split_def used_def seen_def)

lemma readable_options:
  assumes "stream_arguments fl s = Inr args" "fl = Embedded \<or> fl = Qt \<or> fl = Flatpak"
    "codec_readable (stream_option_flavor fl) s" "stops (stream_option_flavor fl) rest"
  shows "split_stream_options fl (args @ rest) = Inr rest"
proof -
  let ?fl = "stream_option_flavor fl"
  from assms(1) have valid: "validate_options s = Inr ()"
    and args: "collect_arguments (argument_blocks ?fl s) = Inr args"
    by (auto simp: stream_arguments_def bind_result_ok)
  have "?fl = Embedded \<or> ?fl = Qt" using assms(2) by (auto simp: stream_option_flavor_def)
  from segments_collect [OF block_segments [OF valid this assms(3)] slots_disjoint args]
  obtain st where "consumes ?fl initial_split args st" "reflects s st"
    using reflects_initial unfolding segment_def by (metis inf_bot_left)
  with reflected_final [OF valid] split_loop_stops [OF assms(4)] show ?thesis
    by (simp add: split_stream_options_def consumes_def bind_result_def)
qed

lemma unreadable_options:
  assumes "stream_arguments fl s = Inr args" "fl = Qt \<or> fl = Flatpak"
    "\<not> codec_readable (stream_option_flavor fl) s"
  shows "\<exists>e. split_stream_options fl (args @ rest) = Inl e"
proof -
  have fl: "stream_option_flavor fl = Qt" using assms(2) by (auto simp: stream_option_flavor_def)
  from assms(1) fl have valid: "validate_options s = Inr ()"
    and args: "collect_arguments (argument_blocks Qt s) = Inr args"
    by (auto simp: stream_arguments_def bind_result_ok)
  have h264: "normalized_codec (so_codec s) = ''h264''" using assms(3) fl by (simp add: codec_readable_def)
  have "normalized_codec [] \<noteq> ''h264''" by code_simp
  with h264 have some: "so_codec s \<noteq> []" by auto
  obtain a b c where abc: "resolution_arguments Qt s = Inr a" "number_arguments Qt s = Inr b"
      "args = (a @ b) @ [''-video-codec'', ''H.264''] @ c"
    using args some h264
    by (auto simp: argument_blocks_def bind_result_ok codec_arguments_def qt_codec_name_def)
  have "segment Qt s ({Some Resolution, Some Embedded_Width, Some Embedded_Height} \<union>
      ({Some Fps} \<union> ({Some Bitrate} \<union> {Some Packet_Size}))) (a @ b)"
    using abc valid_parts(1) [OF valid] by (intro segment_append resolution_segment rate_segment) auto
  then obtain st where st: "consumes Qt initial_split (a @ b) st"
    using reflects_initial unfolding segment_def by (metis inf_bot_left)
  have "normalized_codec ''H.264'' = ''h.264''" by code_simp
  then have "\<exists>e. split_option Qt ''-video-codec'' st (''H.264'' # c @ rest) = Inl e"
    by (auto simp: option_cases split_codec_def value_option_def spelled_def require_def bind_result_def
        split: sum.splits)
  then have "\<exists>e. split_loop Qt st ([''-video-codec'', ''H.264''] @ c @ rest) = Inl e"
    by auto
  with st fl abc(3) show ?thesis
    by (auto simp: split_stream_options_def consumes_def)
qed

text \<open>C27. The options of a stream request and the option parser of the execution boundary agree,
  but for one codec: whatever positional arguments follow, the options of a valid request are
  consumed and exactly the positional arguments are left, for Embedded, Qt and Flatpak clients
  and every combination of options, unless the client is a Qt one and the codec is H.264; then
  the vector is always refused, because the planner spells the codec H.264 and the parser
  knows only h264.\<close>

theorem planned_options_accepted:
  assumes "stream_arguments fl s = Inr args" and "fl = Embedded \<or> fl = Qt \<or> fl = Flatpak"
    and "stops (stream_option_flavor fl) rest"
  shows "if fl \<noteq> Embedded \<and> normalized_codec (so_codec s) = ''h264''
    then \<exists>e. split_stream_options fl (args @ rest) = Inl e
    else split_stream_options fl (args @ rest) = Inr rest"
proof (cases "codec_readable (stream_option_flavor fl) s")
  case True
  with readable_options [OF assms(1,2) True assms(3)] assms(2) show ?thesis
    by (auto simp: codec_readable_def stream_option_flavor_def)
next
  case False
  then have fl: "fl = Qt \<or> fl = Flatpak" "normalized_codec (so_codec s) = ''h264''"
    using assms(2) by (auto simp: codec_readable_def stream_option_flavor_def)
  from unreadable_options [OF assms(1) fl(1) False, of rest] fl show ?thesis by auto
qed

definition sample_options :: stream_options where
  "sample_options = no_options\<lparr>so_resolution := ''1920x1080'', so_fps := 60, so_codec := ''h265'', so_hdr := True,
     so_input_devices := [''/dev/input/event3'', ''/dev/input/event4'']\<rparr>"

definition h264_options :: stream_options where
  "h264_options = no_options\<lparr>so_codec := ''H264''\<rparr>"

theorem planned_options_accepted_witness:
  "split_stream_options Embedded
     ([''-width'', ''1920'', ''-height'', ''1080'', ''-fps'', ''60'', ''-codec'', ''hevc'',
       ''-input'', ''/dev/input/event3'', ''-input'', ''/dev/input/event4'', ''-hdr''] @ [''-app'', ''Desktop'', ''pc''])
     = Inr [''-app'', ''Desktop'', ''pc''] \<and>
   split_stream_options Flatpak ([''-video-codec'', ''H.264''] @ [''pc'', ''Desktop'']) \<noteq> Inr [''pc'', ''Desktop'']"
proof
  have a: "stream_arguments Embedded sample_options = Inr
      [''-width'', ''1920'', ''-height'', ''1080'', ''-fps'', ''60'', ''-codec'', ''hevc'',
       ''-input'', ''/dev/input/event3'', ''-input'', ''/dev/input/event4'', ''-hdr'']"
    by code_simp
  show "split_stream_options Embedded
     ([''-width'', ''1920'', ''-height'', ''1080'', ''-fps'', ''60'', ''-codec'', ''hevc'',
       ''-input'', ''/dev/input/event3'', ''-input'', ''/dev/input/event4'', ''-hdr''] @ [''-app'', ''Desktop'', ''pc''])
     = Inr [''-app'', ''Desktop'', ''pc'']"
    using planned_options_accepted [OF a, of "[''-app'', ''Desktop'', ''pc'']"]
    by (simp add: stops_def stream_option_flavor_def)
next
  have b: "stream_arguments Flatpak h264_options = Inr [''-video-codec'', ''H.264'']" by code_simp
  have "normalized_codec (so_codec h264_options) = ''h264''" by code_simp
  with planned_options_accepted [OF b, of "[''pc'', ''Desktop'']"]
  show "split_stream_options Flatpak ([''-video-codec'', ''H.264''] @ [''pc'', ''Desktop'']) \<noteq> Inr [''pc'', ''Desktop'']"
    by (auto simp: stops_def stream_option_flavor_def)
qed

end
