(* ===== verification/Moonlight_Handoff.thy ===== *)
theory Moonlight_Handoff
  imports Moonlight_Boundary Moonlight_Accepts
begin

text \<open>
  From the planner to the process: what the executor calls, what \<open>ExecRunner\<close> starts, when a
  built plan passes the boundary, and the boundary's contract as an instance of the shared
  interface.
\<close>

section \<open>What the executor calls\<close>

lemma execution_checks_ok:
  "execution_checks w p = Inr arguments \<longleftrightarrow>
     plan_shape_check p = Inr arguments \<and> mw_runner w \<noteq> None \<and> \<not> mw_canceled w \<and>
     plan_binding_check p = Inr () \<and> executable_check w p = Inr () \<and> can_apply w (runner_call_of p)"
  by (auto simp: execution_checks_def bind_result_ok simp del: first_error.simps(2))

lemma client_matches_iff:
  "client_matches b c \<longleftrightarrow> cb_flavor b = mc_flavor c \<and> cb_binary b = mc_binary c \<and> cb_prefix b = mc_prefix c"
  by (auto simp: client_matches_def list.rel_eq)

lemma plan_binding_check_ok:
  "plan_binding_check p = Inr () \<longleftrightarrow>
     mp_client_discovered p \<and> client_matches (mp_client_binding p) (mp_client p) \<and>
     mp_argument_binding p = mp_arguments p \<and> cb_executable_info (mp_client_binding p) \<noteq> None"
  by (auto simp: plan_binding_check_def arguments_match_def list.rel_eq simp del: first_error.simps(2))

lemma executable_check_ok:
  "executable_check w p = Inr () \<longleftrightarrow>
     (\<exists>current bound. mw_stat w (mc_binary (mp_client p)) = Some current \<and>
        cb_executable_info (mp_client_binding p) = Some bound \<and> same_file bound current)"
  by (auto simp: executable_check_def split: option.splits)

lemma known_flavor:
  "validate_client_prefix c = Inr () \<Longrightarrow> mc_flavor c = Embedded \<or> mc_flavor c = Qt \<or> mc_flavor c = Flatpak"
  by (auto simp: validate_client_prefix_def split: flavor.splits)

lemma plan_shape_facts:
  assumes "plan_shape_check p = Inr arguments"
  shows "mc_binary (mp_client p) \<noteq> []" "validate_client_prefix (mp_client p) = Inr ()"
    "validate_plan_arguments (mc_flavor (mp_client p)) (mp_arguments p) = Inr ()" "mp_validated p"
    "\<exists>platform. boundary_arguments p = Inr (arguments, platform)"
    "check_platform_binding p arguments = Inr ()" "check_local_marker p = Inr ()"
  using assms
  by (auto simp: plan_shape_check_def bind_result_ok simp del: first_error.simps(2))

text \<open>C4. Whatever plan the executor is given, it calls the runner at most once. A call was made
  only for a plan the planner marked as validated and discovery as discovered, whose client and
  arguments are still the ones recorded, with the executable that discovery bound and an argument
  vector that is a Moonlight command; and the handoff is reported as done exactly when the
  runner succeeded and, for the pairing operations of Embedded, the output confirmed it.\<close>

theorem executor_calls:
  assumes "execute w p = (res, calls)"
  shows "(calls = [] \<and> res \<noteq> Inr ()) \<or>
    (\<exists>arguments bound current. calls = [runner_call_of p] \<and> mp_validated p \<and> mp_client_discovered p \<and>
       client_matches (mp_client_binding p) (mp_client p) \<and> mp_argument_binding p = mp_arguments p \<and>
       cb_executable_info (mp_client_binding p) = Some bound \<and>
       mw_stat w (mc_binary (mp_client p)) = Some current \<and> same_file bound current \<and>
       command_words (mc_flavor (mp_client p)) (mp_arguments p) \<and> \<not> mw_canceled w \<and>
       plan_shape_check p = Inr arguments \<and>
       (res = Inr () \<longleftrightarrow>
          ro_succeeds (mw_run w (runner_call_of p)) \<and>
          (controls_host p arguments \<longrightarrow>
             verify_embedded_control (operation_of (arguments ! 0))
               (foldl capture_write empty_capture (ro_stdout (mw_run w (runner_call_of p))))
               (foldl capture_write empty_capture (ro_stderr (mw_run w (runner_call_of p)))) = Inr ())))"
proof (cases "execution_checks w p")
  case (Inl e)
  with assms show ?thesis by (auto simp: execute_def)
next
  case (Inr arguments)
  note checks = Inr [unfolded execution_checks_ok]
  then have shape: "plan_shape_check p = Inr arguments" by blast
  note facts = plan_shape_facts [OF shape]
  have words: "command_words (mc_flavor (mp_client p)) (mp_arguments p)"
    using accepted_words [OF facts(3) known_flavor [OF facts(2)]] .
  have res: "res = handoff_result p arguments (mw_run w (runner_call_of p))" "calls = [runner_call_of p]"
    using assms Inr by (simp_all add: execute_def)
  have "res = Inr () \<longleftrightarrow> ro_succeeds (mw_run w (runner_call_of p)) \<and>
      (controls_host p arguments \<longrightarrow>
         verify_embedded_control (operation_of (arguments ! 0))
           (foldl capture_write empty_capture (ro_stdout (mw_run w (runner_call_of p))))
           (foldl capture_write empty_capture (ro_stderr (mw_run w (runner_call_of p)))) = Inr ())"
    by (auto simp: res(1) handoff_result_def)
  with checks facts(4) words res(2) show ?thesis
    unfolding plan_binding_check_ok executable_check_ok by blast
qed

definition qt_file :: file_info where
  "qt_file = \<lparr>fi_file = 11, fi_regular = True, fi_perm = 493\<rparr>"

definition qt_client :: client where
  "qt_client =
     \<lparr>mc_flavor = Qt, mc_binary = ''/usr/bin/moonlight-qt'', mc_prefix = [], mc_discovered = True,
      mc_executable_info = Some qt_file,
      mc_discovery_binding = \<lparr>cb_flavor = Qt, cb_binary = ''/usr/bin/moonlight-qt'', cb_prefix = [],
        cb_executable_info = Some qt_file\<rparr>\<rparr>"

definition stream_request :: request where
  "stream_request =
     \<lparr>rq_route = ''physical-windows-remote'', rq_operation = Stream_Op, rq_host = ''gaming-pc:47989'', rq_app = ''Desktop'',
      rq_pairing_pin = [], rq_qt_platform = ''Wayland'', rq_physical_host_confirmed = True,
      rq_accept_unverified_handoff = True, rq_stream = no_options\<lparr>so_fps := 60\<rparr>\<rparr>"

definition stream_plan :: plan where
  "stream_plan =
     \<lparr>mp_route = ''physical-windows-remote'', mp_client = qt_client,
      mp_arguments = [''stream'', ''-fps'', ''60'', ''gaming-pc:47989'', ''Desktop''],
      mp_warnings = plan_warnings ''physical-windows-remote'' Stream_Op ''wayland'', mp_local_field = False,
      mp_qt_platform = ''wayland'', mp_validated = True, mp_client_discovered = True,
      mp_client_binding = bind_client qt_client,
      mp_argument_binding = [''stream'', ''-fps'', ''60'', ''gaming-pc:47989'', ''Desktop''],
      mp_qt_platform_binding = ''wayland'', mp_local = False\<rparr>"

definition stream_world :: moonlight_world where
  "stream_world =
     \<lparr>mw_stat = (\<lambda>path. if path = ''/usr/bin/moonlight-qt'' then Some qt_file else None), mw_canceled = False,
      mw_runner = Some Platform_Runner,
      mw_run = (\<lambda>_. \<lparr>ro_succeeds = True, ro_stdout = [], ro_stderr = []\<rparr>)\<rparr>"

lemma stream_planned: "build_discovered_plan qt_client stream_request = Inr stream_plan"
  by code_simp

lemma stream_executed:
  "execute stream_world stream_plan =
     (Inr (), [Run_With_Platform ''wayland'' ''/usr/bin/moonlight-qt''
        [''stream'', ''-fps'', ''60'', ''gaming-pc:47989'', ''Desktop'']])"
  by code_simp

theorem executor_calls_witness:
  "command_words Qt [''stream'', ''-fps'', ''60'', ''gaming-pc:47989'', ''Desktop'']"
proof -
  have "command_words (mc_flavor (mp_client stream_plan)) (mp_arguments stream_plan)"
    using executor_calls [OF stream_executed] by blast
  then show ?thesis by (simp add: stream_plan_def qt_client_def)
qed

section \<open>What ExecRunner starts\<close>

lemma run_executable_ok:
  "run_executable stat name overrides args = Inr proc \<longleftrightarrow>
     is_abs name \<and> name \<noteq> [] \<and> (\<exists>info. stat name = Some info \<and> fi_regular info \<and> executable_mode info) \<and>
     proc = (overrides, name, args)"
  by (auto simp: run_executable_def split: option.splits if_splits)

lemma overridden_platform:
  "overridden [''QT_QPA_PLATFORM='' @ v] entry \<longleftrightarrow> prefix ''QT_QPA_PLATFORM='' entry"
proof -
  have "cut_at (CHR ''='') (''QT_QPA_PLATFORM='' @ v) = (''QT_QPA_PLATFORM'', v, True)"
    by (simp add: cut_at_found)
  then show ?thesis by (simp add: overridden_def)
qed

text \<open>The process that ExecRunner starts for a call: its binary is an absolute path to a
  regular executable file and its arguments are those of the call; of the parent's environment
  every entry but QT_QPA_PLATFORM is handed down unchanged and in order, and that one is either
  inherited or set exactly once, to one of the five concrete platforms.\<close>

theorem runner_process:
  assumes "exec_runner stat call = Inr (overrides, name, args)"
  shows "is_abs name \<and> (\<exists>info. stat name = Some info \<and> fi_regular info \<and> executable_mode info) \<and>
    (call = Run name args \<or> (\<exists>platform. call = Run_With_Platform platform name args)) \<and>
    filter (\<lambda>x. \<not> prefix ''QT_QPA_PLATFORM='' x) (environment_with_overrides base overrides) =
      filter (\<lambda>x. \<not> prefix ''QT_QPA_PLATFORM='' x) base \<and>
    (overrides = [] \<and> environment_with_overrides base overrides = base \<or>
     (\<exists>p \<in> set concrete_platforms. filter (prefix ''QT_QPA_PLATFORM='') (environment_with_overrides base overrides) =
        [''QT_QPA_PLATFORM='' @ p]))"
proof -
  have none: "environment_with_overrides base [] = base"
    by (simp add: environment_with_overrides_def overridden_def)
  have one: "environment_with_overrides base [''QT_QPA_PLATFORM='' @ p] =
      filter (\<lambda>x. \<not> prefix ''QT_QPA_PLATFORM='' x) base @ [''QT_QPA_PLATFORM='' @ p]" for p
    unfolding environment_with_overrides_def overridden_platform ..
  consider (plain) "call = Run name args \<or> (\<exists>platform. call = Run_With_Platform platform name args)" "overrides = []"
      "run_executable stat name [] args = Inr (overrides, name, args)"
    | (platform) platform where "call = Run_With_Platform platform name args"
      "overrides = [''QT_QPA_PLATFORM='' @ normalize platform]" "normalize platform \<in> set concrete_platforms"
      "run_executable stat name overrides args = Inr (overrides, name, args)"
    using assms
    by (auto simp: exec_runner_def bind_result_ok qt_platform_value_ok run_executable_ok
        split: runner_call.splits if_splits)
  then show ?thesis
  proof cases
    case plain
    then show ?thesis by (simp add: run_executable_ok none)
  next
    case platform
    have "filter (\<lambda>x. \<not> prefix ''QT_QPA_PLATFORM='' x) (environment_with_overrides base overrides) =
        filter (\<lambda>x. \<not> prefix ''QT_QPA_PLATFORM='' x) base"
      "filter (prefix ''QT_QPA_PLATFORM='') (environment_with_overrides base overrides) =
        [''QT_QPA_PLATFORM='' @ normalize platform]"
      unfolding platform(2) one by (simp_all add: filter_empty_conv)
    with platform show ?thesis unfolding run_executable_ok by blast
  qed
qed

theorem runner_process_witness:
  "filter (prefix ''QT_QPA_PLATFORM='')
     (environment_with_overrides [''HOME=/home/me'', ''QT_QPA_PLATFORM=xcb''] [''QT_QPA_PLATFORM=wayland'']) =
     [''QT_QPA_PLATFORM=wayland'']"
proof -
  have "exec_runner (mw_stat stream_world) (Run_With_Platform ''wayland'' ''/usr/bin/moonlight-qt'' [''list'', ''pc'']) =
      Inr ([''QT_QPA_PLATFORM=wayland''], ''/usr/bin/moonlight-qt'', [''list'', ''pc''])"
    by code_simp
  from runner_process [OF this, of "[''HOME=/home/me'', ''QT_QPA_PLATFORM=xcb'']"] show ?thesis
    by (auto simp: environment_with_overrides_def overridden_def cut_at_def)
qed

end
