(* ===== verification/Moonlight_Contract.thy ===== *)
theory Moonlight_Contract
  imports Moonlight_Handoff
begin

text \<open>
  The contract between the Moonlight planner and its execution boundary: which built plans the
  boundary accepts, and what it refuses of plans that were changed after planning.
\<close>

section \<open>What a built plan holds\<close>

lemma build_plan_facts:
  assumes "build_plan c r = Inr p"
  obtains e platform arguments where
    "parse_host_endpoint (rq_host r) = Inr e"
    "mc_flavor c = Embedded \<Longrightarrow> length (endpoint_address e) \<le> 116"
    "rq_operation r \<in> {Pair_Op, Unpair_Op, List_Op, Stream_Op, Quit_Op}"
    "plan_qt_platform c r = Inr platform" "request_checks c r = Inr ()"
    "operation_arguments c r e = Inr arguments"
    "effective_route r = route_windows \<or> effective_route r = route_macos"
    "p = make_plan c r platform (launcher_arguments c platform @ arguments)"
  using assms
  by (auto simp: build_plan_def bind_result_ok validate_plan_route_def check_operation_def
      validate_embedded_host_address_def max_embedded_host_address_bytes_def split: if_splits)

lemma request_checks_ok:
  "request_checks c r = Inr () \<longleftrightarrow>
     check_pin c r = Inr () \<and> (rq_operation r = Stream_Op \<or> options_empty (rq_stream r)) \<and> mc_binary c \<noteq> [] \<and>
     validate_client_prefix c = Inr () \<and> (rq_operation r = Unpair_Op \<longrightarrow> mc_flavor c = Embedded) \<and>
     rq_physical_host_confirmed r \<and> (rq_operation r = Stream_Op \<longrightarrow> rq_accept_unverified_handoff r) \<and>
     (rq_operation r = Stream_Op \<longrightarrow> validate_app_name (rq_app r) = Inr ())"
  by (auto simp: request_checks_def simp del: first_error.simps(2))

text \<open>The words that name the host, as the planner writes them for each client.\<close>

definition planned_host :: "flavor \<Rightarrow> string \<Rightarrow> host_endpoint \<Rightarrow> string list" where
  "planned_host fl h e = (if fl = Embedded then append_embedded_endpoint [] e else [h])"

text \<open>Embedded is given the decoded address, and the boundary parses that text a second time.\<close>

definition reads_back :: "string \<Rightarrow> bool" where
  "reads_back a \<longleftrightarrow> parse_host_endpoint a = Inr (host_endpoint_of a 0)"

lemma reads_back_without_zone:
  "parse_host_endpoint h = Inr e \<Longrightarrow> CHR ''%'' \<notin> set (endpoint_address e) \<Longrightarrow> reads_back (endpoint_address e)"
  by (simp add: reads_back_def parse_address_again)

text \<open>A percent sign followed by 25 is decoded again, so such an address is lost.\<close>

lemma decode_zone_escaped:
  assumes "sublist ''%25'' a"
  shows "decode_ipv6_zone a \<noteq> Inr a"
proof -
  from assms obtain u w where a: "a = u @ CHR ''%'' # ''25'' @ w" by (auto simp: sublist_def)
  then have "CHR ''%'' \<in> set a" by simp
  then have "snd (snd (cut_at (CHR ''%'') a))" by (simp add: cut_at_def)
  then obtain x y where cut: "cut_at (CHR ''%'') a = (x, y, True)"
    by (cases "cut_at (CHR ''%'') a" rule: prod_cases3) simp
  then have xy: "a = x @ CHR ''%'' # y" "CHR ''%'' \<notin> set x" by (simp_all add: cut_at_found)
  show ?thesis
  proof (cases "take 2 y = ''25''")
    case True
    then have "length (take 2 y) = 2" by simp
    then have "length (x @ ''%'' @ drop 2 y) < length a" by (simp add: xy(1))
    then have "x @ ''%'' @ drop 2 y \<noteq> a" by blast
    with cut True show ?thesis by (simp add: decode_ipv6_zone_def)
  next
    case False
    have "CHR ''%'' \<in> set y"
    proof (cases "CHR ''%'' \<in> set u")
      case True
      then have "0 < count_list u (CHR ''%'')" by (metis count_list_0_iff gr0I)
      then have "1 < count_list a (CHR ''%'')" by (simp add: a)
      moreover have "count_list x (CHR ''%'') = 0" using xy(2) by (simp add: count_list_0_iff)
      ultimately have "count_list y (CHR ''%'') \<noteq> 0" by (simp add: xy(1))
      then show ?thesis by (simp add: count_list_0_iff)
    next
      case False
      then have "cut_at (CHR ''%'') a = (u, ''25'' @ w, True)" by (simp add: a cut_at_found)
      with cut have "y = ''25'' @ w" by simp
      then have "take 2 y = ''25''" by (simp add: numeral_2_eq_2)
      with \<open>take 2 y \<noteq> ''25''\<close> show ?thesis by contradiction
    qed
    with cut False show ?thesis by (simp add: decode_ipv6_zone_def)
  qed
qed

lemma decode_zone_length: "decode_ipv6_zone t = Inr a \<Longrightarrow> length a \<le> length t"
  by (auto simp: decode_ipv6_zone_def cut_at_found split: prod.splits bool.splits if_splits)

lemma escaped_zone_lost:
  assumes "sublist ''%25'' a"
  shows "\<not> reads_back a"
proof
  assume "reads_back a"
  then obtain t p b where t: "split_host a = Inr (t, p, b)" "check_address t p b = Inr (host_endpoint_of a 0)"
    by (auto simp: reads_back_def parse_host_endpoint_def bind_result_ok)
  show False
  proof (cases "CHR '':'' \<in> set t")
    case True
    with t(2) have "decode_ipv6_zone t = Inr a" by (auto simp: check_address_ok)
    from t(2) have p: "p = 0" by (auto simp: check_address_ok)
    from decode_zone_length [OF \<open>decode_ipv6_zone t = Inr a\<close>] split_host_ok [OF t(1)] have "t = a"
      by (cases b) (auto simp: print_endpoint_def p)
    with decode_zone_escaped [OF assms] \<open>decode_ipv6_zone t = Inr a\<close> show False by simp
  next
    case False
    with t(2) have "dns_name a" by (auto simp: check_address_ok)
    then have "CHR ''%'' \<notin> set a" using dns_name_chars dns_char_facts by blast
    with assms show False by (auto simp: sublist_def)
  qed
qed

lemma endpoint_port_bound:
  assumes "parse_host_endpoint h = Inr e"
  shows "endpoint_port e \<le> 65535"
proof -
  from assms obtain t p b where "split_host h = Inr (t, p, b)" "check_address t p b = Inr e"
    by (auto simp: parse_host_endpoint_def bind_result_ok)
  with split_host_ok show ?thesis by (auto simp: check_address_ok)
qed

lemma planned_host_words:
  assumes "parse_host_endpoint h = Inr e" "fl = Embedded \<Longrightarrow> length (endpoint_address e) \<le> 116"
    "fl = Embedded \<or> fl = Qt"
  shows "host_words fl (planned_host fl h e) \<longleftrightarrow> (fl = Embedded \<longrightarrow> reads_back (endpoint_address e))"
proof (cases "fl = Embedded")
  case True
  with assms endpoint_port_bound [OF assms(1)] show ?thesis
    by (auto simp: planned_host_def append_embedded_endpoint_def host_words_embedded reads_back_def)
next
  case False
  with assms show ?thesis by (auto simp: planned_host_def intro: host_words.endpoint)
qed

lemma planned_host_length: "length (planned_host fl h e) \<in> {1, 3}"
  by (simp add: planned_host_def append_embedded_endpoint_def)

lemma host_not_option: "parse_host_endpoint h = Inr e \<Longrightarrow> h \<noteq> [] \<and> \<not> prefix ''-'' h"
  by (auto simp: parse_host_endpoint_def bind_result_ok host_text_check_def simp del: first_error.simps(2))

lemma pin_accepted:
  assumes "check_pin c r = Inr ()" "host_words fl ws" "fl = stream_option_flavor (mc_flavor c)"
    "fl = Embedded \<or> fl = Qt" "rq_operation r = Pair_Op"
  shows "validate_pair_arguments fl (pin_arguments r @ ws) = Inr ()"
proof -
  have ok: "validate_plan_host_arguments fl ws = Inr ()" using assms(2,4) by (simp add: plan_host_ok)
  have "0 < length ws" "ws ! 0 \<noteq> ''-pin''"
    using assms(2) host_not_option by (cases rule: host_words.cases; force)+
  show ?thesis
  proof (cases "rq_pairing_pin r = []")
    case True
    with ok \<open>ws ! 0 \<noteq> ''-pin''\<close> show ?thesis by (simp add: pin_arguments_def validate_pair_arguments_def)
  next
    case False
    then have pin: "validate_pairing_pin (rq_pairing_pin r) = Inr ()"
      "\<not> (mc_flavor c = Embedded \<and> rq_pairing_pin r = ''0000'')"
      using assms(1) by (auto simp: check_pin_def simp del: first_error.simps(2))
    have "fl = Embedded \<Longrightarrow> mc_flavor c = Embedded"
      using assms(3) by (auto simp: stream_option_flavor_def split: if_splits)
    with pin ok False assms(5) \<open>0 < length ws\<close> show ?thesis
      by (cases ws) (auto simp: pin_arguments_def validate_pair_arguments_def simp del: first_error.simps(2))
  qed
qed

definition misspelled_codec :: "client \<Rightarrow> request \<Rightarrow> bool" where
  "misspelled_codec c r \<longleftrightarrow>
     rq_operation r = Stream_Op \<and> mc_flavor c \<noteq> Embedded \<and> normalized_codec (so_codec (rq_stream r)) = ''h264''"

text \<open>The shape of the planned words, the same for every client.\<close>

lemma operation_arguments_shape:
  assumes "operation_arguments c r e = Inr arguments" "mc_flavor c = Embedded \<or> mc_flavor c = Qt \<or> mc_flavor c = Flatpak"
  obtains (control) "rq_operation r \<noteq> Stream_Op" "arguments = operation_text (rq_operation r) # pin_arguments r @
      planned_host (stream_option_flavor (mc_flavor c)) (rq_host r) e"
  | (stream_embedded) opts where "rq_operation r = Stream_Op" "mc_flavor c = Embedded"
      "stream_arguments Embedded (rq_stream r) = Inr opts"
      "arguments = ''stream'' # opts @ [''-app'', rq_app r] @ planned_host Embedded (rq_host r) e"
  | (stream_qt) opts where "rq_operation r = Stream_Op" "mc_flavor c = Qt \<or> mc_flavor c = Flatpak"
      "stream_arguments (mc_flavor c) (rq_stream r) = Inr opts"
      "arguments = ''stream'' # opts @ [rq_host r, rq_app r]"
proof (cases "rq_operation r = Stream_Op")
  case False
  with assms have "arguments = operation_text (rq_operation r) # pin_arguments r @
      planned_host (stream_option_flavor (mc_flavor c)) (rq_host r) e"
    by (auto simp: operation_arguments_def planned_host_def stream_option_flavor_def append_embedded_endpoint_def)
  with False control show thesis by blast
next
  case True
  then have "pin_arguments r = []" by (simp add: pin_arguments_def)
  with True assms stream_embedded stream_qt show thesis
    by (auto simp: operation_arguments_def planned_host_def append_embedded_endpoint_def bind_result_ok)
qed

lemma planned_operation:
  assumes args: "operation_arguments c r e = Inr arguments"
    and host: "parse_host_endpoint (rq_host r) = Inr e" "mc_flavor c = Embedded \<Longrightarrow> reads_back (endpoint_address e)"
      "mc_flavor c = Embedded \<Longrightarrow> length (endpoint_address e) \<le> 116"
    and op: "rq_operation r \<in> {Pair_Op, Unpair_Op, List_Op, Stream_Op, Quit_Op}"
    and checks: "request_checks c r = Inr ()"
  shows "validate_operation_arguments (mc_flavor c) arguments = Inr () \<longleftrightarrow> \<not> misspelled_codec c r"
proof -
  let ?fl = "stream_option_flavor (mc_flavor c)"
  note ok = checks [unfolded request_checks_ok]
  from ok have flavor: "mc_flavor c = Embedded \<or> mc_flavor c = Qt \<or> mc_flavor c = Flatpak"
    using known_flavor by blast
  then have fl: "?fl = Embedded \<or> ?fl = Qt" "?fl = Embedded \<longleftrightarrow> mc_flavor c = Embedded"
    by (auto simp: stream_option_flavor_def)
  have words: "host_words ?fl (planned_host ?fl (rq_host r) e)"
    using host fl planned_host_words [OF host(1), of ?fl] by auto
  then have valid_host: "validate_plan_host_arguments ?fl (planned_host ?fl (rq_host r) e) = Inr ()"
    using fl(1) by (simp add: plan_host_ok)
  from args flavor show ?thesis
  proof (cases rule: operation_arguments_shape)
    case control
    from control(1) have plain: "\<not> misspelled_codec c r" by (simp add: misspelled_codec_def)
    have pair: "rq_operation r = Pair_Op \<Longrightarrow>
        validate_pair_arguments ?fl (pin_arguments r @ planned_host ?fl (rq_host r) e) = Inr ()"
      using ok words fl(1) by (intro pin_accepted) auto
    have nopin: "rq_operation r \<noteq> Pair_Op \<Longrightarrow> pin_arguments r = []" by (simp add: pin_arguments_def)
    from op control pair nopin valid_host ok fl(2) plain show ?thesis
      by (auto simp: validate_operation_arguments_def operation_of_def)
  next
    case (stream_embedded opts)
    have stop: "stops ?fl ([''-app'', rq_app r] @ planned_host Embedded (rq_host r) e)"
      using stream_embedded(2) by (simp add: stops_def stream_option_flavor_def)
    have readable: "codec_readable ?fl (rq_stream r)"
      using stream_embedded(2) by (simp add: codec_readable_def stream_option_flavor_def)
    have "split_stream_options Embedded (opts @ [''-app'', rq_app r] @ planned_host Embedded (rq_host r) e) =
        Inr ([''-app'', rq_app r] @ planned_host Embedded (rq_host r) e)"
      using readable_options [of Embedded "rq_stream r" opts] stream_embedded stop readable by simp
    moreover have "length (planned_host Embedded (rq_host r) e) \<in> {1, 3}" by (rule planned_host_length)
    ultimately show ?thesis
      using stream_embedded valid_host ok
      by (auto simp: validate_operation_arguments_def validate_stream_arguments_def operation_of_def
          misspelled_codec_def stream_option_flavor_def)
  next
    case (stream_qt opts)
    from stream_qt(2) fl have qt: "?fl = Qt" by auto
    from host_not_option [OF host(1)] have stop: "stops ?fl [rq_host r, rq_app r]" by (simp add: stops_def)
    show ?thesis
    proof (cases "misspelled_codec c r")
      case True
      then have "\<not> codec_readable ?fl (rq_stream r)" using qt by (simp add: codec_readable_def misspelled_codec_def)
      with unreadable_options [OF stream_qt(3,2), of "[rq_host r, rq_app r]"] obtain x
        where "split_stream_options (mc_flavor c) (opts @ [rq_host r, rq_app r]) = Inl x" by blast
      with stream_qt True show ?thesis
        by (auto simp: validate_operation_arguments_def validate_stream_arguments_def operation_of_def)
    next
      case False
      then have "codec_readable ?fl (rq_stream r)"
        using stream_qt(1,2) by (auto simp: codec_readable_def misspelled_codec_def)
      with readable_options [OF stream_qt(3)] stream_qt(2) stop
      have "split_stream_options (mc_flavor c) (opts @ [rq_host r, rq_app r]) = Inr [rq_host r, rq_app r]" by blast
      with stream_qt False ok valid_host qt show ?thesis
        by (auto simp: validate_operation_arguments_def validate_stream_arguments_def operation_of_def planned_host_def)
    qed
  qed
qed

lemma lost_address_refused:
  assumes args: "operation_arguments c r e = Inr arguments" and "mc_flavor c = Embedded"
    and host: "parse_host_endpoint (rq_host r) = Inr e" "length (endpoint_address e) \<le> 116"
      "\<not> reads_back (endpoint_address e)"
    and op: "rq_operation r \<in> {Pair_Op, Unpair_Op, List_Op, Stream_Op, Quit_Op}"
  shows "validate_operation_arguments Embedded arguments \<noteq> Inr ()"
proof -
  let ?ws = "planned_host Embedded (rq_host r) e"
  have refused: "validate_plan_host_arguments Embedded ?ws \<noteq> Inr ()"
    using planned_host_words [OF host(1), of Embedded] host(2,3) by (simp add: plan_host_ok)
  have fl: "stream_option_flavor Embedded = Embedded" by (simp add: stream_option_flavor_def)
  from args have "mc_flavor c = Embedded \<or> mc_flavor c = Qt \<or> mc_flavor c = Flatpak" using assms(2) by simp
  with args show ?thesis
  proof (cases rule: operation_arguments_shape)
    case control
    have "validate_pair_arguments Embedded (pin_arguments r @ ?ws) \<noteq> Inr ()"
    proof (cases "pin_arguments r = []")
      case True
      have "validate_pairing_pin ''-port'' \<noteq> Inr ()" by code_simp
      with True refused show ?thesis
        by (auto simp: validate_pair_arguments_def planned_host_def append_embedded_endpoint_def
            simp del: first_error.simps(2))
    next
      case False
      then have "pin_arguments r = [''-pin'', rq_pairing_pin r]" by (auto simp: pin_arguments_def split: if_splits)
      with refused show ?thesis by (auto simp: validate_pair_arguments_def simp del: first_error.simps(2))
    qed
    moreover have "rq_operation r \<noteq> Pair_Op \<Longrightarrow> pin_arguments r = []" by (simp add: pin_arguments_def)
    ultimately show ?thesis
      using control op refused by (auto simp: assms(2) fl validate_operation_arguments_def operation_of_def)
  next
    case (stream_embedded opts)
    have "codec_readable (stream_option_flavor Embedded) (rq_stream r)" by (simp add: codec_readable_def fl)
    moreover have "stops (stream_option_flavor Embedded) ([''-app'', rq_app r] @ ?ws)" by (simp add: stops_def fl)
    ultimately have "split_stream_options Embedded (opts @ [''-app'', rq_app r] @ ?ws) = Inr ([''-app'', rq_app r] @ ?ws)"
      using readable_options [of Embedded "rq_stream r" opts] stream_embedded(3) by simp
    with refused stream_embedded show ?thesis
      by (auto simp: validate_operation_arguments_def validate_stream_arguments_def operation_of_def
          simp del: first_error.simps(2))
  next
    case (stream_qt opts)
    with assms(2) show ?thesis by simp
  qed
qed

section \<open>Built plans at the boundary\<close>

text \<open>The two kinds of built plan that the boundary refuses.\<close>

definition refused_plan :: "client \<Rightarrow> request \<Rightarrow> host_endpoint \<Rightarrow> bool" where
  "refused_plan c r e \<longleftrightarrow> misspelled_codec c r \<or> mc_flavor c = Embedded \<and> \<not> reads_back (endpoint_address e)"

lemma plan_qt_platform_facts:
  assumes "plan_qt_platform c r = Inr platform"
  shows "normalize platform = platform \<and>
    (platform = [] \<or> (mc_flavor c = Qt \<or> mc_flavor c = Flatpak) \<and> (platform = ''auto'' \<or> platform \<in> set concrete_platforms) \<and>
       validate_qt_platform_for platform (rq_operation r) = Inr ())"
proof (cases "rq_qt_platform r = []")
  case True
  have "normalize [] = []" by code_simp
  with True assms show ?thesis by (simp add: plan_qt_platform_def)
next
  case False
  with assms have p: "platform = normalize (rq_qt_platform r)" "mc_flavor c = Qt \<or> mc_flavor c = Flatpak"
    "validate_qt_platform_for (rq_qt_platform r) (rq_operation r) = Inr ()"
    by (auto simp: plan_qt_platform_def bind_result_ok split: if_splits)
  then have "validate_qt_platform_for platform (rq_operation r) = Inr ()"
    by (auto simp: validate_qt_platform_for_def validate_qt_platform_value_def validate_qt_platform_def normalize_again
        split: if_splits)
  moreover have "platform = ''auto'' \<or> platform \<in> set concrete_platforms"
    using p by (auto simp: validate_qt_platform_for_def validate_qt_platform_value_def validate_qt_platform_def
        concrete_platforms_def split: if_splits)
  ultimately show ?thesis using p by (simp add: normalize_again)
qed

lemma operation_arguments_head:
  assumes "operation_arguments c r e = Inr arguments" "validate_client_prefix c = Inr ()"
    "rq_operation r \<in> {Pair_Op, Unpair_Op, List_Op, Stream_Op, Quit_Op}"
  shows "arguments \<noteq> [] \<and> operation_of (hd arguments) = rq_operation r \<and> hd arguments \<noteq> ''map''"
  using assms(1) known_flavor [OF assms(2)]
  by (cases rule: operation_arguments_shape) (use assms(3) in \<open>auto simp: operation_of_def\<close>)

lemma planned_flatpak_prefix:
  assumes "mc_flavor c = Flatpak" "validate_client_prefix c = Inr ()" "plan_qt_platform c r = Inr platform"
    "arguments \<noteq> []" "operation_of (hd arguments) = rq_operation r"
  shows "split_flatpak_prefix (launcher_arguments c platform @ arguments) =
    Inr (arguments, if platform = ''auto'' then [] else platform)"
proof -
  from assms(1,2) have prefix: "mc_prefix c = [''run'', moonlight_flatpak_app_id]"
    by (auto simp: validate_client_prefix_def moonlight_flatpak_app_id_def length_two [unfolded numeral_2_eq_2]
        numeral_2_eq_2)
  note p = plan_qt_platform_facts [OF assms(3)]
  have "''auto'' \<notin> set concrete_platforms" by (simp add: concrete_platforms_def)
  with p assms prefix show ?thesis
    unfolding split_flatpak_ok by (cases "platform = [] \<or> platform = ''auto''")
      (auto simp: launcher_arguments_def)
qed

lemma built_shape:
  assumes "build_plan c r = Inr p" "parse_host_endpoint (rq_host r) = Inr e"
  shows "(\<exists>arguments. plan_shape_check p = Inr arguments) \<longleftrightarrow> \<not> refused_plan c r e"
proof -
  obtain e' platform arguments where b: "parse_host_endpoint (rq_host r) = Inr e'"
    "mc_flavor c = Embedded \<Longrightarrow> length (endpoint_address e') \<le> 116"
    "rq_operation r \<in> {Pair_Op, Unpair_Op, List_Op, Stream_Op, Quit_Op}"
    "plan_qt_platform c r = Inr platform" "request_checks c r = Inr ()"
    "operation_arguments c r e' = Inr arguments"
    "effective_route r = route_windows \<or> effective_route r = route_macos"
    and p: "p = make_plan c r platform (launcher_arguments c platform @ arguments)"
    using build_plan_facts [OF assms(1)] by metis
  from assms(2) b(1) have e: "e' = e" by simp
  note checks = b(5) [unfolded request_checks_ok]
  then have prefix: "validate_client_prefix c = Inr ()" and binary: "mc_binary c \<noteq> []" by auto
  note head = operation_arguments_head [OF b(6) prefix b(3)]
  note pq = plan_qt_platform_facts [OF b(4)]
  have valid: "validate_operation_arguments (mc_flavor c) arguments = Inr () \<longleftrightarrow> \<not> refused_plan c r e"
  proof (cases "mc_flavor c = Embedded \<and> \<not> reads_back (endpoint_address e)")
    case True
    with lost_address_refused [OF b(6) _ b(1)] b(2,3) show ?thesis by (simp add: e refused_plan_def)
  next
    case False
    with planned_operation [OF b(6) b(1)] b(2,3,5) show ?thesis by (auto simp: e refused_plan_def)
  qed
  have direct: "mc_flavor c \<noteq> Flatpak \<Longrightarrow> launcher_arguments c platform = []"
    using prefix by (auto simp: launcher_arguments_def validate_client_prefix_def split: flavor.splits)
  have split: "mc_flavor c = Flatpak \<Longrightarrow> split_flatpak_prefix (launcher_arguments c platform @ arguments) =
      Inr (arguments, if platform = ''auto'' then [] else platform)"
    using planned_flatpak_prefix [OF _ prefix b(4)] head by blast
  have vector: "validate_plan_arguments (mc_flavor c) (launcher_arguments c platform @ arguments) =
      validate_operation_arguments (mc_flavor c) arguments"
    using direct split by (cases "mc_flavor c = Flatpak") (simp_all add: validate_plan_arguments_def)
  have "boundary_arguments p = Inr (arguments, if mc_flavor c = Flatpak \<and> platform \<noteq> ''auto'' then platform else [])"
    using direct split pq by (cases "mc_flavor c = Flatpak") (auto simp: boundary_arguments_def p make_plan_def Let_def)
  moreover have "check_platform_binding p arguments = Inr ()"
    using pq head by (auto simp: check_platform_binding_def p make_plan_def hd_conv_nth)
  moreover have "check_local_marker p = Inr ()"
    using head direct by (auto simp: check_local_marker_def p make_plan_def hd_conv_nth)
  moreover have "map_error Exec_Plan (validate_plan_route (mp_route p)) = Inr ()"
    using b(7) by (simp add: p make_plan_def validate_plan_route_def)
  ultimately show ?thesis
    using valid vector prefix binary head
    by (simp add: plan_shape_check_def p make_plan_def bind_result_ok del: first_error.simps(2))
qed

lemma planned_runs:
  assumes "build_discovered_plan c r = Inr p" and "parse_host_endpoint (rq_host r) = Inr e"
    and "mc_executable_info c = Some bound"
    and "mw_stat w (mc_binary c) = Some current" "same_file bound current" "\<not> mw_canceled w"
    and "mw_runner w = Some Platform_Runner"
  shows "snd (execute w p) = (if refused_plan c r e then [] else [runner_call_of p])"
    "refused_plan c r e \<Longrightarrow> \<exists>x. fst (execute w p) = Inl x"
proof -
  from assms(1) have built: "build_plan c r = Inr p" and disc: "mc_discovered c"
    by (auto simp: build_discovered_plan_def discovered_only_def split: if_splits)
  obtain platform arguments where p: "p = make_plan c r platform (launcher_arguments c platform @ arguments)"
    using build_plan_facts [OF built] by metis
  have binding: "plan_binding_check p = Inr ()"
    using disc assms(3) by (simp add: plan_binding_check_ok p make_plan_def client_matches_iff bind_client_def)
  have exe: "executable_check w p = Inr ()"
    using assms(3-5) by (simp add: executable_check_ok p make_plan_def bind_client_def)
  have can: "can_apply w (runner_call_of p)" using assms(7) by (simp add: can_apply_def split: runner_call.splits)
  have "(\<exists>arguments. execution_checks w p = Inr arguments) \<longleftrightarrow> (\<exists>arguments. plan_shape_check p = Inr arguments)"
    using binding exe can assms(6,7) by (simp add: execution_checks_ok)
  then have accepted: "(\<exists>arguments. execution_checks w p = Inr arguments) \<longleftrightarrow> \<not> refused_plan c r e"
    using built_shape [OF built assms(2)] by simp
  then show "snd (execute w p) = (if refused_plan c r e then [] else [runner_call_of p])"
    by (cases "execution_checks w p") (auto simp: execute_def)
  show "\<exists>x. fst (execute w p) = Inl x" if "refused_plan c r e"
    using accepted that by (cases "execution_checks w p") (auto simp: execute_def)
qed

text \<open>C24. Which built plans the executor runs. For a client that discovery bound, an unchanged executable, a
  live context and a runner that can set the platform, the planned process is started for every
  operation, client, option and host, and exactly two kinds of plan are refused: an H.264 stream of a
  Qt client, and a plan of Embedded for a host whose decoded address does not parse to itself again. An
  address without an interface zone always does; a zone that begins with 25 never does.\<close>

theorem planned_handoff_runs:
  assumes "build_discovered_plan c r = Inr p" and "mc_executable_info c = Some bound"
    and "mw_stat w (mc_binary c) = Some current" "same_file bound current" "\<not> mw_canceled w"
    and "mw_runner w = Some Platform_Runner"
  shows "\<exists>e. parse_host_endpoint (rq_host r) = Inr e \<and>
    snd (execute w p) =
      (if rq_operation r = Stream_Op \<and> mc_flavor c \<noteq> Embedded \<and> normalized_codec (so_codec (rq_stream r)) = ''h264'' \<or>
          mc_flavor c = Embedded \<and>
            parse_host_endpoint (endpoint_address e) \<noteq> Inr (host_endpoint_of (endpoint_address e) 0)
       then [] else [runner_call_of p]) \<and>
    (CHR ''%'' \<notin> set (endpoint_address e) \<longrightarrow>
       parse_host_endpoint (endpoint_address e) = Inr (host_endpoint_of (endpoint_address e) 0)) \<and>
    (sublist ''%25'' (endpoint_address e) \<longrightarrow>
       parse_host_endpoint (endpoint_address e) \<noteq> Inr (host_endpoint_of (endpoint_address e) 0))"
proof -
  from assms(1) have "build_plan c r = Inr p"
    by (auto simp: build_discovered_plan_def discovered_only_def split: if_splits)
  then obtain e where e: "parse_host_endpoint (rq_host r) = Inr e" using build_plan_facts by metis
  from planned_runs(1) [OF assms(1) e assms(2-6)] reads_back_without_zone [OF e] escaped_zone_lost [of "endpoint_address e"] e
  show ?thesis by (intro exI [of _ e]) (simp add: refused_plan_def misspelled_codec_def reads_back_def)
qed

theorem planned_handoff_runs_witness:
  "snd (execute stream_world stream_plan) = [runner_call_of stream_plan]"
proof -
  have x: "mw_stat stream_world (mc_binary qt_client) = Some qt_file"
    by (simp add: stream_world_def qt_client_def)
  have "normalized_codec (so_codec (rq_stream stream_request)) \<noteq> ''h264''" by code_simp
  then show ?thesis
    using planned_handoff_runs [OF stream_planned _ x, of qt_file]
    by (auto simp: qt_client_def same_file_def stream_world_def)
qed

section \<open>The boundary contract\<close>

text \<open>What the holder of a plan can overwrite: the exported fields, the client among them as a
  whole value, with whatever private fields that value carries.\<close>

type_synonym plan_view = "string \<times> client \<times> string list \<times> string list \<times> bool \<times> string"

definition plan_exported :: "plan \<Rightarrow> plan_view" where
  "plan_exported p =
     (mp_route p, mp_client p, mp_arguments p, mp_warnings p, mp_local_field p, mp_qt_platform p)"

definition plan_tamper :: "plan_view \<Rightarrow> plan \<Rightarrow> plan" where
  "plan_tamper v p =
     (case v of (route, c, args, warnings, local, platform) \<Rightarrow>
        p\<lparr>mp_route := route, mp_client := c, mp_arguments := args, mp_warnings := warnings,
          mp_local_field := local, mp_qt_platform := platform\<rparr>)"

definition plan_agrees :: "plan_view \<Rightarrow> plan_view \<Rightarrow> bool" where
  "plan_agrees v v' \<longleftrightarrow>
     (case (v, v') of ((_, c, args, _, _, platform), (_, c', args', _, _, platform')) \<Rightarrow>
        mc_flavor c = mc_flavor c' \<and> mc_binary c = mc_binary c' \<and> mc_prefix c = mc_prefix c' \<and> args = args' \<and>
        normalize platform = platform')"

text \<open>The executor's checks that look at the plan alone.\<close>

definition plan_guard :: "plan \<Rightarrow> exec_error + unit" where
  "plan_guard p = bind_result (plan_shape_check p) (\<lambda>_. plan_binding_check p)"

definition build_any :: "client \<times> (request + string) \<Rightarrow> plan_error + plan" where
  "build_any x =
     (case x of
        (c, Inl r) \<Rightarrow> build_discovered_plan c r
      | (c, Inr device) \<Rightarrow> build_discovered_input_mapping_plan c device)"

lemma built_bindings:
  assumes "build_any x = Inr p"
  shows "mp_validated p \<and> mp_client_binding p = bind_client (mp_client p) \<and> mp_argument_binding p = mp_arguments p \<and>
    mp_qt_platform_binding p = mp_qt_platform p \<and> normalize (mp_qt_platform p) = mp_qt_platform p \<and>
    (mp_qt_platform p = [] \<or> mp_qt_platform p = ''auto'' \<or> mp_qt_platform p \<in> set concrete_platforms)"
proof -
  have empty: "normalize [] = []" by code_simp
  obtain c y where x: "x = (c, y)" by (cases x)
  show ?thesis
  proof (cases y)
    case (Inl r)
    with x assms have "build_plan c r = Inr p"
      by (auto simp: build_any_def build_discovered_plan_def discovered_only_def split: if_splits)
    then obtain platform arguments where "plan_qt_platform c r = Inr platform"
      "p = make_plan c r platform (launcher_arguments c platform @ arguments)"
      using build_plan_facts by metis
    with plan_qt_platform_facts [of c r platform] show ?thesis by (auto simp: make_plan_def)
  next
    case (Inr d)
    with x assms have "build_input_mapping_plan c d = Inr p"
      by (auto simp: build_any_def build_discovered_input_mapping_plan_def discovered_only_def split: if_splits)
    then show ?thesis
      by (auto simp: build_input_mapping_plan_def bind_result_ok empty Let_def simp del: first_error.simps(2))
  qed
qed

lemma plan_guard_ok:
  "plan_guard p = Inr () \<longleftrightarrow> (\<exists>arguments. plan_shape_check p = Inr arguments) \<and> plan_binding_check p = Inr ()"
  by (auto simp: plan_guard_def bind_result_ok)

lemma shape_platform:
  "plan_shape_check p = Inr arguments \<Longrightarrow> mp_qt_platform_binding p = normalize (mp_qt_platform p)"
  by (auto dest: plan_shape_facts(6) simp: check_platform_binding_def simp del: first_error.simps(2))

interpretation moonlight: handoff_boundary build_any plan_exported plan_tamper mp_validated plan_guard plan_agrees
proof unfold_locales
  fix v w :: plan_view and p
  show "plan_exported (plan_tamper v p) = v" by (cases v) (simp add: plan_exported_def plan_tamper_def)
  show "plan_tamper v (plan_tamper w p) = plan_tamper v p" by (cases v; cases w) (simp add: plan_tamper_def)
  show "mp_validated (plan_tamper v p) = mp_validated p" by (cases v) (simp add: plan_tamper_def)
  show "mp_validated p" if "plan_guard p = Inr ()"
    using that by (auto simp: plan_guard_ok dest: plan_shape_facts(4))
next
  fix x p and v :: plan_view
  assume "build_any x = Inr p" and g: "plan_guard (plan_tamper v p) = Inr ()"
  note b = built_bindings [OF this(1)]
  obtain arguments where "plan_shape_check (plan_tamper v p) = Inr arguments"
    and bind: "plan_binding_check (plan_tamper v p) = Inr ()"
    using g by (auto simp: plan_guard_ok)
  from shape_platform [OF this(1)] bind b show "plan_agrees v (plan_exported p)"
    by (cases v) (auto simp: plan_agrees_def plan_exported_def plan_tamper_def plan_binding_check_ok
        client_matches_iff bind_client_def)
qed

lemma agreeing_process:
  assumes b: "build_any x = Inr p" and shape: "plan_shape_check (plan_tamper v p) = Inr arguments"
    and agrees: "plan_agrees v (plan_exported p)"
  shows "exec_runner stat (runner_call_of (plan_tamper v p)) = exec_runner stat (runner_call_of p)"
proof -
  obtain route c args warnings local platform where v: "v = (route, c, args, warnings, local, platform)"
    by (cases v)
  let ?q = "plan_tamper v p"
  have q: "mp_qt_platform ?q = platform" "mp_client ?q = c" "mp_arguments ?q = args"
    by (simp_all add: v plan_tamper_def)
  from agrees have same: "mc_binary c = mc_binary (mp_client p)" "args = mp_arguments p"
    "normalize platform = mp_qt_platform p"
    by (auto simp: plan_agrees_def v plan_exported_def)
  note bound = built_bindings [OF b]
  have empty: "normalize [] = []" "[] \<notin> set concrete_platforms" by (code_simp, simp add: concrete_platforms_def)
  have "check_platform_binding ?q arguments = Inr ()" using plan_shape_facts(6) [OF shape] .
  then have "platform \<noteq> [] \<Longrightarrow> normalize platform = ''auto'' \<or> normalize platform \<in> set concrete_platforms"
    by (auto simp: check_platform_binding_def q validate_qt_platform_for_def validate_qt_platform_value_def
        validate_qt_platform_def concrete_platforms_def simp del: first_error.simps(2) split: if_splits)
  then have "platform = [] \<longleftrightarrow> mp_qt_platform p = []" using same(3) empty by (cases "platform = []") auto
  with same bound q show ?thesis
    by (auto simp: runner_call_of_def exec_runner_def normalize_again validate_qt_platform_value_def
        validate_qt_platform_def)
qed

text \<open>C1. Tampering is futile: take a plan that either of the discovered builders returned and
  overwrite its exported fields any number of times, the whole client value included. If the
  executor still calls the runner, the process ExecRunner starts for that call is exactly the one
  of the untouched plan: the same binary, arguments and environment override. And no overwriting
  makes a plan executable that the planner did not mark.\<close>

theorem tampering_futile:
  "(build_any x = Inr p \<longrightarrow>
      (\<forall>call \<in> set (snd (execute w (foldl (\<lambda>q v. plan_tamper v q) p vs))).
         exec_runner stat call = exec_runner stat (runner_call_of p))) \<and>
   (\<not> mp_validated forged \<longrightarrow> snd (execute w (foldl (\<lambda>q v. plan_tamper v q) forged vs)) = [])"
proof (intro conjI impI ballI)
  have called: "\<exists>arguments. plan_shape_check q = Inr arguments \<and> plan_binding_check q = Inr () \<and> call = runner_call_of q"
    if "call \<in> set (snd (execute w q))" for q call
    using that by (cases "execution_checks w q") (auto simp: execute_def execution_checks_ok)
  have last: "foldl (\<lambda>q v. plan_tamper v q) q vs = q \<or>
      foldl (\<lambda>q v. plan_tamper v q) q vs = plan_tamper (last vs) q" for q
    by (cases vs rule: rev_cases) (use moonlight.tamper_sequence in auto)
  {
    fix call assume b: "build_any x = Inr p"
      and c: "call \<in> set (snd (execute w (foldl (\<lambda>q v. plan_tamper v q) p vs)))"
    from last [of p] show "exec_runner stat call = exec_runner stat (runner_call_of p)"
    proof
      assume "foldl (\<lambda>q v. plan_tamper v q) p vs = p"
      with called [OF c] show ?thesis by auto
    next
      assume t: "foldl (\<lambda>q v. plan_tamper v q) p vs = plan_tamper (last vs) p"
      from called [OF c] obtain arguments where s: "plan_shape_check (plan_tamper (last vs) p) = Inr arguments"
        "plan_binding_check (plan_tamper (last vs) p) = Inr ()" "call = runner_call_of (plan_tamper (last vs) p)"
        unfolding t by blast
      then have "plan_guard (plan_tamper (last vs) p) = Inr ()" by (simp add: plan_guard_ok)
      with moonlight.guard_binds [OF b] agreeing_process [OF b s(1)] s(3) show ?thesis by blast
    qed
  next
    assume "\<not> mp_validated forged"
    then have "\<not> mp_validated (foldl (\<lambda>q v. plan_tamper v q) forged vs)"
      using last [of forged] moonlight.tamper_validated [of "last vs" forged] by metis
    then show "snd (execute w (foldl (\<lambda>q v. plan_tamper v q) forged vs)) = []"
      using called plan_shape_facts(4) by (metis list.set_intros(1) neq_Nil_conv)
  }
qed

theorem tampering_futile_witness:
  "snd (execute stream_world (plan_tamper (plan_exported stream_plan) (stream_plan\<lparr>mp_validated := False\<rparr>))) = []"
  using tampering_futile [of "(qt_client, Inl stream_request)" stream_plan stream_world "[plan_exported stream_plan]"
      "mw_stat stream_world" "stream_plan\<lparr>mp_validated := False\<rparr>"]
  by simp

end
