(* ===== verification/Moonlight_Discovery.thy ===== *)
theory Moonlight_Discovery
  imports Moonlight_Contract
begin

text \<open>
  Discovery of a Moonlight client (\<open>internal/remote/remote.go\<close>): the lookup order of each
  selection, the Flatpak installation check and the binding of the executable. The environment is
  a record of answers; its flag says whether it is the real one, the only one that binds
  executables and inspects the Flatpak installation. The context is a sequence of polls.
\<close>

section \<open>Data\<close>

datatype lookup_result = Found string | Missing | Lookup_Canceled

record discovery_env =
  de_real :: bool
  de_look_path :: "string \<Rightarrow> lookup_result"
  de_stat :: "string \<Rightarrow> file_info option"
  de_getenv :: "string \<Rightarrow> string"
  de_plain_directory :: "string \<Rightarrow> bool"
  de_canceled :: "nat \<Rightarrow> bool"

datatype discovery_error =
    No_Environment | Discovery_Canceled | Unsupported_Selection string | Client_Not_Found | Relative_Client
  | Client_Unavailable | Client_Not_Regular | Client_Not_Executable | Flatpak_Not_Installed | Flatpak_Unsupported

section \<open>Platforms\<close>

definition generic_moonlight_is_embedded :: "string \<Rightarrow> bool" where
  "generic_moonlight_is_embedded goos \<longleftrightarrow> normalize goos = ''freebsd'' \<or> normalize goos = ''dragonfly''"

definition default_moonlight_flavor_for :: "string \<Rightarrow> flavor" where
  "default_moonlight_flavor_for goos = (if generic_moonlight_is_embedded goos then Embedded else Qt)"

definition flatpak_supported_for_platform :: "string \<Rightarrow> bool" where
  "flatpak_supported_for_platform goos = equal_fold (trim_space goos) ''linux''"

definition automatic_client_selections :: "string \<Rightarrow> string list" where
  "automatic_client_selections goos =
     [''moonlight-qt'', ''moonlight-embedded'', ''moonlight''] @
     (if flatpak_supported_for_platform goos then [''flatpak''] else [])"

definition canonical_automatic_client_selection :: "string \<Rightarrow> string \<Rightarrow> string" where
  "canonical_automatic_client_selection goos selection =
     (if normalize selection = ''moonlight'' \<and> \<not> generic_moonlight_is_embedded goos then ''moonlight-qt''
      else normalize selection)"

section \<open>The Flatpak installation\<close>

text \<open>\<open>filepath.Clean\<close> on absolute Unix paths, the only ones the check passes to it.\<close>

definition clean_step :: "string list \<Rightarrow> string \<Rightarrow> string list" where
  "clean_step done part =
     (if part = [] \<or> part = ''.'' then done else if part = ''..'' then butlast done else done @ [part])"

definition clean_path :: "string \<Rightarrow> string" where
  "clean_path path = ''/'' @ join_with ''/'' (foldl clean_step [] (split_on (CHR ''/'') path))"

definition join_path :: "string list \<Rightarrow> string" where
  "join_path parts = clean_path (join_with ''/'' parts)"

definition clean_root :: "string \<Rightarrow> string list" where
  "clean_root value0 =
     (let value = trim_space value0 in if value = [] \<or> \<not> is_abs value then [] else [clean_path value])"

definition flatpak_roots :: "(string \<Rightarrow> string) \<Rightarrow> string list" where
  "flatpak_roots getenv =
     [''/var/lib/flatpak'', ''/usr/local/share/flatpak'', ''/usr/share/flatpak''] @
     clean_root (getenv ''FLATPAK_USER_DIR'') @
     concat (map clean_root (split_on (CHR '':'') (getenv ''FLATPAK_SYSTEM_DIR''))) @
     map (\<lambda>d. join_path [d, ''flatpak'']) (clean_root (getenv ''XDG_DATA_HOME'')) @
     map (\<lambda>d. join_path [d, ''.local'', ''share'', ''flatpak'']) (clean_root (getenv ''HOME'')) @
     map (\<lambda>d. join_path [d, ''flatpak''])
       (concat (map clean_root (split_on (CHR '':'') (getenv ''XDG_DATA_DIRS''))))"

text \<open>The loop over the roots, each looked at once.\<close>

fun any_installed :: "(string \<Rightarrow> bool) \<Rightarrow> string list \<Rightarrow> string list \<Rightarrow> bool" where
  "any_installed directory seen_roots [] = False"
| "any_installed directory seen_roots (r # rs) =
     (let root = clean_path r in
      if List.member seen_roots root then any_installed directory seen_roots rs
      else directory (join_path [root, ''app'', moonlight_flatpak_app_id]) \<or>
           any_installed directory (root # seen_roots) rs)"

definition flatpak_application_installed :: "discovery_env \<Rightarrow> bool" where
  "flatpak_application_installed env = any_installed (de_plain_directory env) [] (flatpak_roots (de_getenv env))"

section \<open>Binding\<close>

definition bind_executable :: "(string \<Rightarrow> file_info option) \<Rightarrow> string \<Rightarrow> discovery_error + file_info" where
  "bind_executable stat path =
     (case stat path of
        None \<Rightarrow> Inl Client_Unavailable
      | Some info \<Rightarrow>
          if \<not> fi_regular info then Inl Client_Not_Regular
          else if \<not> executable_mode info then Inl Client_Not_Executable
          else Inr info)"

text \<open>\<open>RealEnvironment.LookPath\<close>, over the answers of \<open>exec.LookPath\<close> and \<open>filepath.Abs\<close>.\<close>

definition real_look_path ::
    "(string \<Rightarrow> string option) \<Rightarrow> (string \<Rightarrow> string option) \<Rightarrow> (string \<Rightarrow> file_info option) \<Rightarrow> string \<Rightarrow> lookup_result" where
  "real_look_path look absolute stat file =
     (case look file of
        None \<Rightarrow> Missing
      | Some resolved \<Rightarrow>
          (case absolute resolved of
             None \<Rightarrow> Missing
           | Some path \<Rightarrow> (case bind_executable stat path of Inl _ \<Rightarrow> Missing | Inr _ \<Rightarrow> Found path)))"

definition new_client :: "flavor \<Rightarrow> string \<Rightarrow> string list \<Rightarrow> client" where
  "new_client fl binary pre =
     \<lparr>mc_flavor = fl, mc_binary = binary, mc_prefix = pre, mc_discovered = True,
      mc_executable_info = None, mc_discovery_binding = no_binding\<rparr>"

definition bind_discovered_client :: "discovery_env \<Rightarrow> client \<Rightarrow> discovery_error + client" where
  "bind_discovered_client env c =
     (if de_real env \<and> \<not> is_abs (mc_binary c) then Inl Relative_Client
      else
        bind_result
          (if de_real env
           then bind_result (bind_executable (de_stat env) (mc_binary c)) (\<lambda>info. Inr (c\<lparr>mc_executable_info := Some info\<rparr>))
           else Inr c)
          (\<lambda>c'. Inr (c'\<lparr>mc_discovery_binding := bind_client c'\<rparr>)))"

section \<open>Lookups\<close>

text \<open>A lookup polls the context before and after; the number counts the polls.\<close>

definition lookup_name :: "discovery_env \<Rightarrow> string \<Rightarrow> nat \<Rightarrow> lookup_result \<times> nat" where
  "lookup_name env name n =
     (if de_canceled env n then (Lookup_Canceled, n + 1)
      else if de_canceled env (n + 1) then (Lookup_Canceled, n + 2)
      else (de_look_path env name, n + 2))"

text \<open>The end of every selection that found nothing.\<close>

definition nothing_found :: "discovery_env \<Rightarrow> nat \<Rightarrow> discovery_error + client" where
  "nothing_found env n = (if de_canceled env n then Inl Discovery_Canceled else Inl Client_Not_Found)"

definition finish_native :: "discovery_env \<Rightarrow> flavor \<Rightarrow> lookup_result \<times> nat \<Rightarrow> discovery_error + client" where
  "finish_native env fl found =
     (case found of
        (Found path, _) \<Rightarrow> bind_discovered_client env (new_client fl path [])
      | (Lookup_Canceled, _) \<Rightarrow> Inl Discovery_Canceled
      | (Missing, n) \<Rightarrow> nothing_found env n)"

definition finish_flatpak :: "discovery_env \<Rightarrow> lookup_result \<times> nat \<Rightarrow> discovery_error + client" where
  "finish_flatpak env found =
     (case found of
        (Found path, _) \<Rightarrow>
          if de_real env \<and> \<not> flatpak_application_installed env then Inl Flatpak_Not_Installed
          else bind_discovered_client env (new_client Flatpak path [''run'', moonlight_flatpak_app_id])
      | (Lookup_Canceled, _) \<Rightarrow> Inl Discovery_Canceled
      | (Missing, n) \<Rightarrow> nothing_found env n)"

text \<open>The automatic selection: the native candidates in turn, then Flatpak on Linux.\<close>

fun discover_auto :: "discovery_env \<Rightarrow> string \<Rightarrow> (string \<times> flavor) list \<Rightarrow> nat \<Rightarrow> discovery_error + client" where
  "discover_auto env goos [] n =
     (if flatpak_supported_for_platform goos then finish_flatpak env (lookup_name env ''flatpak'' n)
      else nothing_found env n)"
| "discover_auto env goos ((name, fl) # candidates) n =
     (case lookup_name env name n of
        (Found path, _) \<Rightarrow> bind_discovered_client env (new_client fl path [])
      | (Lookup_Canceled, _) \<Rightarrow> Inl Discovery_Canceled
      | (Missing, n') \<Rightarrow> discover_auto env goos candidates n')"

definition auto_candidates :: "string \<Rightarrow> (string \<times> flavor) list" where
  "auto_candidates goos =
     [(''moonlight-qt'', Qt), (''moonlight-embedded'', Embedded), (''moonlight'', default_moonlight_flavor_for goos)]"

definition discover_qt :: "discovery_env \<Rightarrow> string \<Rightarrow> discovery_error + client" where
  "discover_qt env goos =
     (case lookup_name env ''moonlight-qt'' 0 of
        (Found path, n) \<Rightarrow> finish_native env Qt (Found path, n)
      | (failed, n) \<Rightarrow>
          finish_native env Qt
            (if generic_moonlight_is_embedded goos then (failed, n) else lookup_name env ''moonlight'' n))"

definition discover_embedded :: "discovery_env \<Rightarrow> string \<Rightarrow> string \<Rightarrow> discovery_error + client" where
  "discover_embedded env preferred goos =
     (case lookup_name env (if preferred = ''moonlight-embedded'' then ''moonlight-embedded'' else ''moonlight'') 0 of
        (Missing, n) \<Rightarrow>
          finish_native env Embedded
            (if preferred = ''moonlight-embedded'' \<and> generic_moonlight_is_embedded goos
             then lookup_name env ''moonlight'' n else (Missing, n))
      | found \<Rightarrow> finish_native env Embedded found)"

definition discover_for_platform :: "discovery_env option \<Rightarrow> string \<Rightarrow> string \<Rightarrow> discovery_error + client" where
  "discover_for_platform environment preferred0 goos0 =
     (case environment of
        None \<Rightarrow> Inl No_Environment
      | Some env \<Rightarrow>
          (let preferred = normalize preferred0; goos = normalize goos0 in
           if preferred = '''' \<or> preferred = ''auto'' then discover_auto env goos (auto_candidates goos) 0
           else if preferred = ''moonlight-qt'' then discover_qt env goos
           else if preferred = ''flatpak'' then
             (if \<not> flatpak_supported_for_platform goos then Inl Flatpak_Unsupported
              else finish_flatpak env (lookup_name env ''flatpak'' 0))
           else if preferred = ''moonlight'' \<or> preferred = ''moonlight-embedded'' then
             discover_embedded env preferred goos
           else Inl (Unsupported_Selection preferred)))"

definition discover_automatic_client_for_platform ::
    "discovery_env option \<Rightarrow> string \<Rightarrow> string \<Rightarrow> discovery_error + client" where
  "discover_automatic_client_for_platform environment selection0 goos =
     (let selection = normalize selection0 in
      if selection = ''moonlight'' \<and> canonical_automatic_client_selection goos selection = ''moonlight-qt''
      then bind_result (discover_for_platform environment selection goos)
             (\<lambda>c. let c' = c\<lparr>mc_flavor := Qt\<rparr> in Inr (c'\<lparr>mc_discovery_binding := bind_client c'\<rparr>))
      else discover_for_platform environment selection goos)"

section \<open>What discovery returns\<close>

lemma bind_executable_ok:
  "bind_executable stat path = Inr info \<longleftrightarrow> stat path = Some info \<and> fi_regular info \<and> executable_mode info"
  by (auto simp: bind_executable_def split: option.splits if_splits)

text \<open>A client bound by an environment.\<close>

definition bound_client :: "discovery_env \<Rightarrow> client \<Rightarrow> bool" where
  "bound_client env c \<longleftrightarrow>
     mc_discovered c \<and> client_matches (mc_discovery_binding c) c \<and> validate_client_prefix c = Inr () \<and>
     (if de_real env
      then is_abs (mc_binary c) \<and>
        (\<exists>info. de_stat env (mc_binary c) = Some info \<and> fi_regular info \<and> executable_mode info \<and>
           mc_executable_info c = Some info)
      else mc_executable_info c = None)"

lemma bind_discovered_ok:
  assumes "bind_discovered_client env (new_client fl path pre) = Inr c"
    and "fl = Flatpak \<and> pre = [''run'', moonlight_flatpak_app_id] \<or> (fl = Qt \<or> fl = Embedded) \<and> pre = []"
  shows "bound_client env c \<and> mc_flavor c = fl \<and> mc_binary c = path"
  using assms
  by (cases "de_real env")
    (auto simp: bind_discovered_client_def bind_result_ok bind_executable_ok bound_client_def client_matches_iff
      bind_client_def new_client_def validate_client_prefix_def moonlight_flatpak_app_id_def split: if_splits)

lemma finish_native_ok:
  assumes "finish_native env fl found = Inr c" "fl = Qt \<or> fl = Embedded"
  shows "bound_client env c \<and> mc_flavor c = fl"
proof -
  from assms(1) obtain path where "bind_discovered_client env (new_client fl path []) = Inr c"
    by (auto simp: finish_native_def nothing_found_def split: prod.splits lookup_result.splits if_splits)
  with bind_discovered_ok [OF this] assms(2) show ?thesis by blast
qed

lemma finish_flatpak_ok:
  assumes "finish_flatpak env found = Inr c"
  shows "bound_client env c \<and> mc_flavor c = Flatpak \<and> (de_real env \<longrightarrow> flatpak_application_installed env)"
proof -
  from assms obtain path
    where "bind_discovered_client env (new_client Flatpak path [''run'', moonlight_flatpak_app_id]) = Inr c"
      "de_real env \<longrightarrow> flatpak_application_installed env"
    by (auto simp: finish_flatpak_def nothing_found_def split: prod.splits lookup_result.splits if_splits)
  with bind_discovered_ok [OF this(1)] show ?thesis by blast
qed

lemma discover_auto_ok:
  assumes "discover_auto env goos cs n = Inr c" "\<forall>(name, fl) \<in> set cs. fl = Qt \<or> fl = Embedded"
  shows "bound_client env c \<and>
    (mc_flavor c = Flatpak \<longrightarrow> flatpak_supported_for_platform goos \<and> (de_real env \<longrightarrow> flatpak_application_installed env))"
  using assms
proof (induction env goos cs n rule: discover_auto.induct)
  case (1 env goos n)
  then show ?case
    using finish_flatpak_ok by (auto simp: nothing_found_def split: if_splits)
next
  case (2 env goos name fl cs n)
  from 2(3) have fl: "fl = Qt \<or> fl = Embedded" by auto
  show ?case
  proof (cases "lookup_name env name n")
    case (Pair result n')
    show ?thesis
    proof (cases result)
      case (Found path)
      with 2(2) Pair have "bind_discovered_client env (new_client fl path []) = Inr c" by simp
      with bind_discovered_ok [OF this] fl show ?thesis by auto
    next
      case Missing
      with 2 Pair show ?thesis by simp
    next
      case Lookup_Canceled
      with 2(2) Pair show ?thesis by simp
    qed
  qed
qed

lemma discover_qt_ok: "discover_qt env goos = Inr c \<Longrightarrow> bound_client env c \<and> mc_flavor c = Qt"
  unfolding discover_qt_def by (auto split: prod.splits lookup_result.splits dest!: finish_native_ok)

lemma discover_embedded_ok:
  "discover_embedded env preferred goos = Inr c \<Longrightarrow> bound_client env c \<and> mc_flavor c = Embedded"
  unfolding discover_embedded_def by (auto split: prod.splits lookup_result.splits dest!: finish_native_ok)

lemma discovered:
  assumes "discover_for_platform (Some env) preferred goos = Inr c"
  shows "bound_client env c \<and>
    (mc_flavor c = Flatpak \<longrightarrow> flatpak_supported_for_platform (normalize goos) \<and>
       (de_real env \<longrightarrow> flatpak_application_installed env)) \<and>
    (normalize preferred = ''moonlight-qt'' \<longrightarrow> mc_flavor c = Qt) \<and>
    (normalize preferred \<in> {''moonlight'', ''moonlight-embedded''} \<longrightarrow> mc_flavor c = Embedded) \<and>
    (normalize preferred = ''flatpak'' \<longrightarrow> mc_flavor c = Flatpak)"
proof -
  have autos: "\<forall>(name, fl) \<in> set (auto_candidates goos'). fl = Qt \<or> fl = Embedded" for goos'
    by (simp add: auto_candidates_def default_moonlight_flavor_for_def)
  let ?p = "normalize preferred"
  from assms consider
      "?p = [] \<or> ?p = ''auto''" "discover_auto env (normalize goos) (auto_candidates (normalize goos)) 0 = Inr c"
    | "?p = ''moonlight-qt''" "discover_qt env (normalize goos) = Inr c"
    | "?p = ''flatpak''" "flatpak_supported_for_platform (normalize goos)"
      "finish_flatpak env (lookup_name env ''flatpak'' 0) = Inr c"
    | "?p = ''moonlight'' \<or> ?p = ''moonlight-embedded''" "discover_embedded env ?p (normalize goos) = Inr c"
    by (auto simp: discover_for_platform_def Let_def split: if_splits)
  then show ?thesis
  proof cases
    case 1
    with discover_auto_ok [OF 1(2) autos] show ?thesis by auto
  next
    case 2
    with discover_qt_ok [OF 2(2)] show ?thesis by auto
  next
    case 3
    with finish_flatpak_ok [OF 3(3)] show ?thesis by auto
  next
    case 4
    with discover_embedded_ok [OF 4(2)] show ?thesis by auto
  qed
qed

text \<open>Every client that discovery returns was bound by it: it is marked as discovered, its
  fields match the recorded binding, its launcher prefix is the fixed one of its flavor; an
  explicit selection yields that flavor (both generic names mean Embedded); a Flatpak client is
  returned for Linux only and, in the real environment, only when the Moonlight application is
  installed; and a real environment returns an absolute path to a regular executable file with
  that file's identity.\<close>

theorem discovered_client_bound:
  assumes "discover_for_platform (Some env) preferred goos = Inr c"
  shows "mc_discovered c \<and> client_matches (mc_discovery_binding c) c \<and> validate_client_prefix c = Inr () \<and>
    (normalize preferred = ''moonlight-qt'' \<longrightarrow> mc_flavor c = Qt) \<and>
    (normalize preferred \<in> {''moonlight'', ''moonlight-embedded''} \<longrightarrow> mc_flavor c = Embedded) \<and>
    (normalize preferred = ''flatpak'' \<longrightarrow> mc_flavor c = Flatpak) \<and>
    (mc_flavor c = Flatpak \<longrightarrow> flatpak_supported_for_platform (normalize goos) \<and>
       (de_real env \<longrightarrow> flatpak_application_installed env)) \<and>
    (de_real env \<longrightarrow> is_abs (mc_binary c) \<and>
       (\<exists>info. de_stat env (mc_binary c) = Some info \<and> fi_regular info \<and> executable_mode info \<and>
          mc_executable_info c = Some info))"
  using discovered [OF assms] by (auto simp: bound_client_def split: if_splits)

definition linux_env :: discovery_env where
  "linux_env =
     \<lparr>de_real = True,
      de_look_path = (\<lambda>n. if n = ''flatpak'' then Found ''/usr/bin/flatpak'' else Missing),
      de_stat = (\<lambda>path. if path = ''/usr/bin/flatpak'' then Some qt_file else None),
      de_getenv = (\<lambda>n. if n = ''HOME'' then ''/home/me'' else []),
      de_plain_directory =
        (\<lambda>path. path = ''/home/me/.local/share/flatpak/app/com.moonlight_stream.Moonlight''),
      de_canceled = (\<lambda>_. False)\<rparr>"

definition flatpak_client :: client where
  "flatpak_client =
     \<lparr>mc_flavor = Flatpak, mc_binary = ''/usr/bin/flatpak'', mc_prefix = [''run'', moonlight_flatpak_app_id],
      mc_discovered = True, mc_executable_info = Some qt_file,
      mc_discovery_binding = \<lparr>cb_flavor = Flatpak, cb_binary = ''/usr/bin/flatpak'',
        cb_prefix = [''run'', moonlight_flatpak_app_id], cb_executable_info = Some qt_file\<rparr>\<rparr>"

lemma flatpak_discovered: "discover_for_platform (Some linux_env) ''Auto'' ''Linux'' = Inr flatpak_client"
  by code_simp

theorem discovered_client_bound_witness:
  "flatpak_application_installed linux_env \<and> validate_client_prefix flatpak_client = Inr ()"
  using discovered_client_bound [OF flatpak_discovered] by (simp add: flatpak_client_def linux_env_def)

text \<open>A context that is not canceled, and lookups that do not report a cancellation.\<close>

definition live_env :: "discovery_env \<Rightarrow> bool" where
  "live_env env \<longleftrightarrow> (\<forall>n. \<not> de_canceled env n) \<and> (\<forall>name. de_look_path env name \<noteq> Lookup_Canceled)"

lemma live_lookup: "live_env env \<Longrightarrow> \<exists>n'. lookup_name env name n = (de_look_path env name, n')"
  by (simp add: live_env_def lookup_name_def)

lemma discover_auto_find:
  assumes "live_env env"
  shows "\<exists>n'. discover_auto env goos cs n =
    (case find (\<lambda>(name, fl). \<exists>path. de_look_path env name = Found path) cs of
       Some (name, fl) \<Rightarrow>
         (case de_look_path env name of Found path \<Rightarrow> bind_discovered_client env (new_client fl path []))
     | None \<Rightarrow> discover_auto env goos [] n')"
proof (induction cs arbitrary: n)
  case Nil
  then show ?case by auto
next
  case (Cons x cs)
  obtain name fl where x: "x = (name, fl)" by (cases x)
  obtain n' where l: "lookup_name env name n = (de_look_path env name, n')"
    using live_lookup [OF assms] by blast
  show ?case
  proof (cases "de_look_path env name")
    case (Found path)
    with x l show ?thesis by simp
  next
    case Missing
    with x l Cons [of n'] show ?thesis by simp
  next
    case Lookup_Canceled
    with assms show ?thesis by (simp add: live_env_def)
  qed
qed

text \<open>C29. The automatic selection, for an empty preference and for the preference \<open>auto\<close>, honours
  one priority: moonlight-qt, then moonlight-embedded, then the generic moonlight, read as Embedded
  on FreeBSD and DragonFly and as Qt elsewhere, then Flatpak on Linux. With a live context the first
  of these that is found is the one that is bound, and nothing later is taken instead when binding it
  fails; the selections offered for automatic recovery are the same names in the same order.\<close>

theorem automatic_priority:
  assumes "live_env env" and "normalize preferred = [] \<or> normalize preferred = ''auto''"
  shows "let names = [''moonlight-qt'', ''moonlight-embedded'', ''moonlight''] @
        (if flatpak_supported_for_platform (normalize goos) then [''flatpak''] else [])
    in automatic_client_selections (normalize goos) = names \<and>
      discover_for_platform (Some env) preferred goos =
      (case find (\<lambda>name. \<exists>path. de_look_path env name = Found path) names of
         None \<Rightarrow> Inl Client_Not_Found
       | Some name \<Rightarrow>
           (case de_look_path env name of Found path \<Rightarrow>
              if name = ''flatpak''
              then (if de_real env \<and> \<not> flatpak_application_installed env then Inl Flatpak_Not_Installed
                    else bind_discovered_client env (new_client Flatpak path [''run'', moonlight_flatpak_app_id]))
              else bind_discovered_client env
                     (new_client
                        (if name = ''moonlight-embedded'' \<or>
                            name = ''moonlight'' \<and> (normalize goos = ''freebsd'' \<or> normalize goos = ''dragonfly'')
                         then Embedded else Qt) path [])))"
proof -
  let ?goos = "normalize goos"
  from assms(1) have live: "\<not> de_canceled env n" "de_look_path env name \<noteq> Lookup_Canceled" for n name
    by (simp_all add: live_env_def)
  obtain n where auto: "discover_auto env ?goos (auto_candidates ?goos) 0 =
      (case find (\<lambda>(name, fl). \<exists>path. de_look_path env name = Found path) (auto_candidates ?goos) of
         Some (name, fl) \<Rightarrow>
           (case de_look_path env name of Found path \<Rightarrow> bind_discovered_client env (new_client fl path []))
       | None \<Rightarrow> discover_auto env ?goos [] n)"
    using discover_auto_find [OF assms(1)] by blast
  obtain n' where flatpak: "lookup_name env ''flatpak'' n = (de_look_path env ''flatpak'', n')"
    using live_lookup [OF assms(1)] by blast
  have d: "discover_for_platform (Some env) preferred goos =
      discover_auto env ?goos (auto_candidates ?goos) 0"
    using assms(2) by (auto simp: discover_for_platform_def Let_def)
  show ?thesis
    unfolding d auto Let_def
    by (cases "de_look_path env ''moonlight-qt''"; cases "de_look_path env ''moonlight-embedded''";
        cases "de_look_path env ''moonlight''"; cases "de_look_path env ''flatpak''")
      (use live in \<open>simp_all add: auto_candidates_def automatic_client_selections_def generic_moonlight_is_embedded_def
        normalize_again default_moonlight_flavor_for_def flatpak nothing_found_def finish_flatpak_def\<close>)
qed

theorem automatic_priority_witness:
  "discover_for_platform (Some (linux_env\<lparr>de_real := False\<rparr>)) ''Auto '' ''linux'' =
     bind_discovered_client (linux_env\<lparr>de_real := False\<rparr>)
       (new_client Flatpak ''/usr/bin/flatpak'' [''run'', moonlight_flatpak_app_id])"
proof -
  have "live_env (linux_env\<lparr>de_real := False\<rparr>)" by (simp add: live_env_def linux_env_def)
  moreover have "normalize ''Auto '' = ''auto''" by code_simp
  moreover have "flatpak_supported_for_platform (normalize ''linux'')" by code_simp
  ultimately show ?thesis
    using automatic_priority [of "linux_env\<lparr>de_real := False\<rparr>" "''Auto ''" "''linux''"]
    by (simp add: linux_env_def Let_def)
qed

text \<open>What an accepted plan of a bound client starts.\<close>

lemma started_process:
  assumes "build_plan c r = Inr p" and shape: "plan_shape_check p = Inr arguments"
    and abs: "is_abs (mc_binary c)" and stat: "stat (mc_binary c) = Some info" "fi_regular info" "executable_mode info"
    and run: "snd (execute w p) = [runner_call_of p]"
  shows "\<exists>call overrides. snd (execute w p) = [call] \<and>
    exec_runner stat call = Inr (overrides, mc_binary c, mp_arguments p) \<and>
    command_words (mc_flavor c) (mp_arguments p)"
proof -
  from assms(1) obtain platform args where p: "p = make_plan c r platform args" "plan_qt_platform c r = Inr platform"
    using build_plan_facts by metis
  have client: "mp_client p = c" "mp_qt_platform p = platform" by (simp_all add: p(1) make_plan_def)
  note facts = plan_shape_facts [OF shape, unfolded client]
  have words: "command_words (mc_flavor c) (mp_arguments p)"
    using accepted_words [OF facts(3) known_flavor [OF facts(2)]] .
  have "mc_binary c \<noteq> []" using abs by (auto simp: is_abs_def)
  moreover have "platform = [] \<or> validate_qt_platform_value platform = Inr ()"
    using plan_qt_platform_facts [OF p(2)] by (auto simp: qt_platform_value_ok)
  ultimately have "\<exists>overrides. exec_runner stat (runner_call_of p) = Inr (overrides, mc_binary c, mp_arguments p)"
    using abs stat by (auto simp: runner_call_of_def client exec_runner_def run_executable_ok)
  with run words show ?thesis by blast
qed

text \<open>C8. The whole handoff, for every request: a client that discovery returned in the real environment,
  a plan built for it, and an executor that finds the file system as discovery did, a live context and
  the real runner. Two kinds of plan are refused with an error, and nothing is started: an H.264 stream
  of a Qt client, and a plan of Embedded for a host whose decoded address, which then has an interface
  zone, does not parse to itself again. For every other plan the runner is called once and starts the
  discovered binary, with exactly the planned arguments, which are a Moonlight command of the client.\<close>

theorem discovered_handoff:
  assumes "discover_for_platform (Some env) preferred goos = Inr c" and "de_real env"
    and "build_discovered_plan c r = Inr p"
    and "mw_stat w = de_stat env" and "\<not> mw_canceled w" and "mw_runner w = Some Platform_Runner"
  shows "\<exists>e. parse_host_endpoint (rq_host r) = Inr e \<and>
    (CHR ''%'' \<notin> set (endpoint_address e) \<longrightarrow>
       parse_host_endpoint (endpoint_address e) = Inr (host_endpoint_of (endpoint_address e) 0)) \<and>
    (if rq_operation r = Stream_Op \<and> mc_flavor c \<noteq> Embedded \<and> normalized_codec (so_codec (rq_stream r)) = ''h264'' \<or>
        mc_flavor c = Embedded \<and>
          parse_host_endpoint (endpoint_address e) \<noteq> Inr (host_endpoint_of (endpoint_address e) 0)
     then (\<exists>x. execute w p = (Inl x, []))
     else (\<exists>call overrides. snd (execute w p) = [call] \<and>
       exec_runner (mw_stat w) call = Inr (overrides, mc_binary c, mp_arguments p) \<and>
       command_words (mc_flavor c) (mp_arguments p)))"
proof -
  from discovered [OF assms(1)] assms(2) obtain info where abs: "is_abs (mc_binary c)"
    and info: "de_stat env (mc_binary c) = Some info" "fi_regular info" "executable_mode info"
      "mc_executable_info c = Some info"
    unfolding bound_client_def by auto
  have stat: "mw_stat w (mc_binary c) = Some info" using assms(4) info(1) by simp
  from assms(3) have built: "build_plan c r = Inr p"
    by (auto simp: build_discovered_plan_def discovered_only_def split: if_splits)
  then obtain e where e: "parse_host_endpoint (rq_host r) = Inr e" using build_plan_facts by metis
  have same: "same_file info info" by (simp add: same_file_def)
  note runs = planned_runs [OF assms(3) e info(4) stat same assms(5,6)]
  have "\<exists>x. execute w p = (Inl x, [])" if "refused_plan c r e"
    using runs that by (cases "execute w p") auto
  moreover have "\<exists>call overrides. snd (execute w p) = [call] \<and>
      exec_runner (mw_stat w) call = Inr (overrides, mc_binary c, mp_arguments p) \<and>
      command_words (mc_flavor c) (mp_arguments p)" if "\<not> refused_plan c r e"
  proof -
    from runs(1) that have run: "snd (execute w p) = [runner_call_of p]" by simp
    from built_shape [OF built e] that obtain arguments where "plan_shape_check p = Inr arguments" by blast
    with built abs stat info run show ?thesis by (intro started_process) auto
  qed
  ultimately show ?thesis
    using e reads_back_without_zone [OF e]
    by (intro exI [of _ e]) (auto simp: refused_plan_def misspelled_codec_def reads_back_def)
qed

theorem discovered_handoff_witness:
  "command_words Flatpak
     [''run'', ''--env=QT_QPA_PLATFORM=wayland'', moonlight_flatpak_app_id, ''stream'', ''-fps'', ''60'',
      ''gaming-pc:47989'', ''Desktop'']"
proof -
  define w where "w = stream_world\<lparr>mw_stat := de_stat linux_env\<rparr>"
  have planned: "\<exists>p. build_discovered_plan flatpak_client stream_request = Inr p \<and> mp_arguments p =
      [''run'', ''--env=QT_QPA_PLATFORM=wayland'', moonlight_flatpak_app_id, ''stream'', ''-fps'', ''60'',
       ''gaming-pc:47989'', ''Desktop'']"
  proof -
    have "(case build_discovered_plan flatpak_client stream_request of Inl _ \<Rightarrow> False | Inr p \<Rightarrow> mp_arguments p =
      [''run'', ''--env=QT_QPA_PLATFORM=wayland'', moonlight_flatpak_app_id, ''stream'', ''-fps'', ''60'',
       ''gaming-pc:47989'', ''Desktop''])" by code_simp
    then show ?thesis by (auto split: sum.splits)
  qed
  then obtain p where p: "build_discovered_plan flatpak_client stream_request = Inr p" "mp_arguments p =
      [''run'', ''--env=QT_QPA_PLATFORM=wayland'', moonlight_flatpak_app_id, ''stream'', ''-fps'', ''60'',
       ''gaming-pc:47989'', ''Desktop'']" by blast
  have codec: "normalized_codec (so_codec (rq_stream stream_request)) \<noteq> ''h264''" by code_simp
  have "de_real linux_env" "mw_stat w = de_stat linux_env" "\<not> mw_canceled w" "mw_runner w = Some Platform_Runner"
    by (simp_all add: linux_env_def w_def stream_world_def)
  then have "\<exists>call overrides. snd (execute w p) = [call] \<and>
      exec_runner (mw_stat w) call = Inr (overrides, mc_binary flatpak_client, mp_arguments p) \<and>
      command_words (mc_flavor flatpak_client) (mp_arguments p)"
    using codec discovered_handoff [OF flatpak_discovered _ p(1), of w] by (auto simp: flatpak_client_def split: if_splits)
  then show ?thesis by (auto simp: p(2) flatpak_client_def)
qed

end
