(* ===== verification/Go_Time.thy ===== *)
theory Go_Time
  imports Go_Base
begin

text \<open>
  Calendar dates as \<open>time.Time\<close> keeps them at midnight UTC: a date is its number of days since
  0000-01-01 of the proleptic Gregorian calendar, so \<open>Before\<close> and \<open>After\<close> are the order of
  the integers and \<open>AddDate(0, 0, n)\<close> is addition. The conversions to and from year, month
  and day, and the text form \<open>2006-01-02\<close>. Instants, in seconds and nanoseconds since that day,
  with the order of \<open>Before\<close>, \<open>After\<close> and \<open>Equal\<close>, and the text form RFC 3339.
\<close>

section \<open>The calendar\<close>

definition leap_year :: "nat \<Rightarrow> bool" where
  "leap_year y \<longleftrightarrow> y mod 4 = 0 \<and> (y mod 100 \<noteq> 0 \<or> y mod 400 = 0)"

definition month_lengths :: "nat \<Rightarrow> nat list" where
  "month_lengths y = [31, if leap_year y then 29 else 28, 31, 30, 31, 30, 31, 31, 30, 31, 30, 31]"

definition days_before_year :: "nat \<Rightarrow> nat" where
  "days_before_year y = 365 * y + (y + 3) div 4 - (y + 99) div 100 + (y + 399) div 400"

record civil =
  civil_year :: nat
  civil_month :: nat
  civil_day :: nat

definition valid_civil :: "civil \<Rightarrow> bool" where
  "valid_civil c \<longleftrightarrow> 1 \<le> civil_month c \<and> civil_month c \<le> 12 \<and> 1 \<le> civil_day c \<and>
     civil_day c \<le> month_lengths (civil_year c) ! (civil_month c - 1)"

definition day_number :: "civil \<Rightarrow> nat" where
  "day_number c =
     days_before_year (civil_year c) + sum_list (take (civil_month c - 1) (month_lengths (civil_year c))) +
     (civil_day c - 1)"

text \<open>The month and the day of a day of the year.\<close>

fun month_and_day :: "nat list \<Rightarrow> nat \<Rightarrow> nat \<times> nat" where
  "month_and_day [] d = (1, d + 1)"
| "month_and_day (l # ls) d =
     (if d < l then (1, d + 1) else (case month_and_day ls (d - l) of (m, e) \<Rightarrow> (m + 1, e)))"

text \<open>The year of a day: within its cycle of 400 years, the last year that begins no later.\<close>

definition year_of_day :: "nat \<Rightarrow> nat" where
  "year_of_day n =
     (let era = n div 146097; r = n mod 146097; guess = r div 365
      in 400 * era + (if days_before_year guess \<le> r then guess else guess - 1))"

definition civil_of_day :: "nat \<Rightarrow> civil" where
  "civil_of_day n =
     (let y = year_of_day n
      in case month_and_day (month_lengths y) (n - days_before_year y) of
           (m, d) \<Rightarrow> \<lparr>civil_year = y, civil_month = m, civil_day = d\<rparr>)"

section \<open>The text form\<close>

definition two_digits :: "nat \<Rightarrow> string" where
  "two_digits n = [digit_char (n div 10 mod 10), digit_char (n mod 10)]"

text \<open>The year is padded to four digits and not cut.\<close>

definition pad_year :: "nat \<Rightarrow> string" where
  "pad_year y = replicate (4 - length (itoa y)) (CHR ''0'') @ itoa y"

definition format_date :: "nat \<Rightarrow> string" where
  "format_date n =
     (let c = civil_of_day n
      in pad_year (civil_year c) @ ''-'' @ two_digits (civil_month c) @ ''-'' @ two_digits (civil_day c))"

text \<open>\<open>time.Parse("2006-01-02", value)\<close>: four, two and two digits that name a day of the calendar.\<close>

definition time_parse_date :: "string \<Rightarrow> nat option" where
  "time_parse_date s =
     (if length s \<noteq> 10 then None
      else
        (let c = \<lparr>civil_year = dec_value (take 4 s), civil_month = dec_value (take 2 (drop 5 s)),
                  civil_day = dec_value (drop 8 s)\<rparr>
         in if list_all is_digit (take 4 s) \<and> s ! 4 = CHR ''-'' \<and> list_all is_digit (take 2 (drop 5 s)) \<and>
               s ! 7 = CHR ''-'' \<and> list_all is_digit (drop 8 s) \<and> valid_civil c
            then Some (day_number c) else None))"

section \<open>The calendar is a bijection\<close>

lemma div_step:
  assumes "0 < (m :: nat)"
  shows "(y + m) div m = (y + (m - 1)) div m + (if y mod m = 0 then 1 else 0)"
proof -
  have cut: "(m * q + r) div m = q" if "r < m" for q r using that by simp
  have y: "y = m * (y div m) + y mod m" by simp
  show ?thesis
  proof (cases "y mod m = 0")
    case True
    with y have "y + (m - 1) = m * (y div m) + (m - 1)" by simp
    with cut [of "m - 1" "y div m"] assms have "(y + (m - 1)) div m = y div m" by simp
    with True div_add_self2 [of m y] assms show ?thesis by simp
  next
    case False
    with y assms have "y + (m - 1) = (m * (y div m) + m) + (y mod m - 1)" by linarith
    then have "y + (m - 1) = m * (y div m + 1) + (y mod m - 1)" by (simp add: distrib_left)
    moreover have "y mod m - 1 < m" using assms mod_less_divisor [of m y] by linarith
    ultimately have "(y + (m - 1)) div m = y div m + 1" using cut by metis
    with False div_add_self2 [of m y] assms show ?thesis by simp
  qed
qed

lemma leaps_le: "(y + 99) div 100 \<le> (y + 3) div (4 :: nat)"
proof -
  have "(y + 99) div 100 = ((y + 99) div 4) div 25" by (simp add: div_mult2_eq [symmetric])
  also have "(y + 99) div 4 = (y + 3) div 4 + 24"
    using div_mult_self1 [of 4 "y + 3" 24] by (simp add: add.commute add.left_commute)
  also have "((y + 3) div 4 + 24) div 25 \<le> (y + 3) div 4" by (cases "(y + 3) div 4 = 0") auto
  finally show ?thesis .
qed

lemma days_before_Suc: "days_before_year (Suc y) = days_before_year y + (if leap_year y then 366 else 365)"
proof -
  note s4 = div_step [of 4 y, simplified] and s100 = div_step [of 100 y, simplified]
    and s400 = div_step [of 400 y, simplified]
  have c: "y mod 400 = 0 \<Longrightarrow> y mod 100 = 0" "y mod 100 = 0 \<Longrightarrow> y mod 4 = 0"
    using mod_mod_cancel [of 100 400 y] mod_mod_cancel [of 4 100 y] by (auto simp: dvd_def)
  have "days_before_year (Suc y) = 365 * y + 365 + (y + 4) div 4 - (y + 100) div 100 + (y + 400) div 400"
    by (simp add: days_before_year_def add.commute)
  also have "\<dots> = 365 * y + 365 + ((y + 3) div 4 + (if y mod 4 = 0 then 1 else 0)) -
      ((y + 99) div 100 + (if y mod 100 = 0 then 1 else 0)) + ((y + 399) div 400 + (if y mod 400 = 0 then 1 else 0))"
    by (simp only: s4 s100 s400)
  also have "\<dots> = (365 * y + (y + 3) div 4 - (y + 99) div 100 + (y + 399) div 400) +
      (365 + (if y mod 4 = 0 then 1 else 0) - (if y mod 100 = 0 then 1 else 0) + (if y mod 400 = 0 then 1 else 0))"
  proof -
    have "365 * y + 365 + (A + p) - (B + q) + (C + r) = (365 * y + A - B + C) + (365 + p - q + r)"
      if "B \<le> A" "q \<le> p" for A B C p q r :: nat
      using that by simp
    moreover have "(if y mod 100 = 0 then 1 else 0) \<le> (if y mod 4 = 0 then 1 else (0 :: nat))"
      using c(2) by simp
    ultimately show ?thesis using leaps_le [of y] by blast
  qed
  also have "365 + (if y mod 4 = 0 then 1 else 0) - (if y mod 100 = 0 then 1 else 0) + (if y mod 400 = 0 then 1 else 0) =
      (if leap_year y then 366 else (365 :: nat))"
    using c by (simp add: leap_year_def)
  finally show ?thesis by (simp only: days_before_year_def)
qed

lemma days_before_mono: "a \<le> b \<Longrightarrow> days_before_year a \<le> days_before_year b"
  by (rule lift_Suc_mono_le [of days_before_year]) (simp_all add: days_before_Suc)

lemma sum_month_lengths: "sum_list (month_lengths y) = (if leap_year y then 366 else 365)"
  by (simp add: month_lengths_def)

lemma month_and_day_take:
  "m < length ls \<Longrightarrow> d < ls ! m \<Longrightarrow> month_and_day ls (sum_list (take m ls) + d) = (m + 1, d + 1)"
proof (induction ls arbitrary: m)
  case (Cons l ls)
  then show ?case by (cases m) auto
qed simp

lemma day_in_year:
  assumes "valid_civil c"
  shows "days_before_year (civil_year c) \<le> day_number c \<and> day_number c < days_before_year (Suc (civil_year c))"
proof -
  let ?ls = "month_lengths (civil_year c)" and ?m = "civil_month c - 1"
  have m: "?m < length ?ls" using assms by (auto simp: valid_civil_def month_lengths_def)
  have d: "civil_day c - 1 < ?ls ! ?m" using assms by (auto simp: valid_civil_def)
  have "sum_list ?ls = sum_list (take ?m ?ls) + ?ls ! ?m + sum_list (drop (Suc ?m) ?ls)"
    using m by (metis append.assoc id_take_nth_drop sum_list.Cons sum_list_append add.assoc)
  with d sum_month_lengths [of "civil_year c"] show ?thesis
    by (simp add: day_number_def days_before_Suc)
qed

lemma days_before_era: "days_before_year (400 * e + k) = 146097 * e + days_before_year k"
proof -
  have four: "(400 * e + k + 3) div 4 = 100 * e + (k + 3) div 4"
    using div_mult_self1 [of 4 "k + 3" "100 * e"] by (simp add: add.commute add.left_commute)
  have hundred: "(400 * e + k + 99) div 100 = 4 * e + (k + 99) div 100"
    using div_mult_self1 [of 100 "k + 99" "4 * e"] by (simp add: add.commute add.left_commute)
  have four_hundred: "(400 * e + k + 399) div 400 = e + (k + 399) div 400"
    using div_mult_self1 [of 400 "k + 399" e] by (simp add: add.commute add.left_commute)
  have "A + 4 * e \<le> B + 100 * e" if "A \<le> B" for A B :: nat using that by simp
  have shape: "365 * (400 * e + k) + (100 * e + A) - (4 * e + B) + (e + C) = 146097 * e + (365 * k + A - B + C)"
    if "B \<le> A" for A B C :: nat using that by simp
  show ?thesis
    unfolding days_before_year_def four hundred four_hundred by (rule shape [OF leaps_le])
qed

lemma year_of_day:
  assumes "days_before_year y \<le> n" "n < days_before_year (Suc y)"
  shows "year_of_day n = y"
proof -
  let ?e = "y div 400" and ?k = "y mod 400"
  have y: "y = 400 * ?e + ?k" by simp
  have k: "?k < 400" by simp
  have lo: "146097 * ?e + days_before_year ?k \<le> n" using assms(1) days_before_era [of ?e ?k] by simp
  have hi: "n < 146097 * ?e + days_before_year (Suc ?k)"
    using assms(2) days_before_era [of ?e "Suc ?k"] by simp
  have cycle: "days_before_year 400 = 146097" by (simp add: days_before_year_def)
  have top: "days_before_year (Suc ?k) \<le> 146097"
    using days_before_mono [of "Suc ?k" 400] k by (simp add: cycle)
  define r where "r = n - 146097 * ?e"
  have n: "n = 146097 * ?e + r" and r: "days_before_year ?k \<le> r" "r < days_before_year (Suc ?k)"
    using lo hi by (auto simp: r_def)
  from r(2) top have "r < 146097" by simp
  with n have era: "n div 146097 = ?e" "n mod 146097 = r" by simp_all
  have small: "days_before_year (Suc ?k) < 365 * (?k + 2)"
  proof -
    have bounds: "(Suc ?k + 3) div 4 \<le> 101" "(Suc ?k + 399) div 400 \<le> 2"
      using k by (simp_all add: div_le_mono less_Suc_eq_le Suc_le_eq del: mod_less_divisor)
    have "365 * Suc j + A - B + C < 365 * (j + 2)" if "A \<le> 101" "C \<le> 2" for A B C j :: nat
      using that by simp
    from this [OF bounds] show ?thesis unfolding days_before_year_def .
  qed
  have "365 * ?k \<le> days_before_year ?k"
  proof -
    have "365 * j \<le> 365 * j + A - B + C" if "B \<le> A" for A B C j :: nat using that by simp
    from this [OF leaps_le] show ?thesis unfolding days_before_year_def .
  qed
  with r(1) have "?k \<le> r div 365" by simp
  moreover have "r div 365 < ?k + 2" using r(2) small by (simp add: less_mult_imp_div_less mult.commute)
  ultimately have "r div 365 = ?k \<or> r div 365 = Suc ?k" by linarith
  then show ?thesis
    using r y by (auto simp: year_of_day_def era Let_def)
qed

lemma civil_of_day_number: "valid_civil c \<Longrightarrow> civil_of_day (day_number c) = c"
proof -
  assume c: "valid_civil c"
  let ?ls = "month_lengths (civil_year c)"
  have year: "year_of_day (day_number c) = civil_year c" using day_in_year [OF c] year_of_day by blast
  have m: "civil_month c - 1 < length ?ls" "civil_day c - 1 < ?ls ! (civil_month c - 1)"
    using c by (auto simp: valid_civil_def month_lengths_def)
  have "day_number c - days_before_year (civil_year c) = sum_list (take (civil_month c - 1) ?ls) + (civil_day c - 1)"
    by (simp add: day_number_def)
  then have "civil_of_day (day_number c) =
      \<lparr>civil_year = civil_year c, civil_month = civil_month c - 1 + 1, civil_day = civil_day c - 1 + 1\<rparr>"
    using month_and_day_take [OF m] by (simp add: civil_of_day_def Let_def year)
  with c show ?thesis by (simp add: valid_civil_def)
qed

lemma day_number_inject: "valid_civil a \<Longrightarrow> valid_civil b \<Longrightarrow> day_number a = day_number b \<Longrightarrow> a = b"
  by (metis civil_of_day_number)

section \<open>The text form round-trips\<close>

lemma two_digits_value: "n < 100 \<Longrightarrow> dec_value (two_digits n) = n"
proof -
  assume n: "n < 100"
  have "dec_value [digit_char (n div 10 mod 10), digit_char (n mod 10)] = 10 * (n div 10 mod 10) + n mod 10"
    by (simp add: dec_value_def)
  with n show ?thesis by (simp add: two_digits_def)
qed

lemma two_digits_of_value: "length s = 2 \<Longrightarrow> list_all is_digit s \<Longrightarrow> two_digits (dec_value s) = s"
proof -
  assume "length s = 2" and d: "list_all is_digit s"
  then obtain a b where s: "s = [a, b]" by (auto simp: numeral_2_eq_2 length_Suc_conv)
  have v: "dec_value s = 10 * digit_value a + digit_value b" by (simp add: s dec_value_def)
  have "digit_value a < 10" "digit_value b < 10" using d by (simp_all add: s digit_value_less)
  with d show ?thesis by (simp add: s two_digits_def v [unfolded s])
qed

lemma digits_padded:
  "s \<noteq> [] \<Longrightarrow> list_all is_digit s \<Longrightarrow>
     replicate (length s - length (itoa (dec_value s))) (CHR ''0'') @ itoa (dec_value s) = s"
proof (induction s rule: rev_induct)
  case (snoc c t)
  have d: "digit_value c < 10" using snoc.prems by (simp add: digit_value_less)
  show ?case
  proof (cases "dec_value t = 0")
    case True
    then have v: "itoa (dec_value (t @ [c])) = [c]" using snoc.prems d by (subst itoa.simps) simp
    have zeros: "t = replicate (length t) (CHR ''0'')"
    proof (cases "t = []")
      case False
      then obtain k where k: "length t = Suc k" by (cases t) auto
      have "itoa 0 = [CHR ''0'']" by code_simp
      with snoc True False have "replicate (length t - 1) (CHR ''0'') @ [CHR ''0''] = t" by simp
      with k show ?thesis by (simp add: replicate_append_same)
    qed simp
    then have "t @ [c] = replicate (length t) (CHR ''0'') @ [c]" by simp
    with v show ?thesis by simp
  next
    case False
    then have "t \<noteq> []" by auto
    have step: "itoa (dec_value (t @ [c])) = itoa (dec_value t) @ [c]"
      using snoc.prems d False by (subst itoa.simps) simp
    have "replicate (length t - length (itoa (dec_value t))) (CHR ''0'') @ itoa (dec_value t) = t"
      using snoc \<open>t \<noteq> []\<close> by simp
    then show ?thesis unfolding step by simp
  qed
qed simp

lemma time_parse_parts:
  assumes "time_parse_date s = Some n"
  obtains c where "valid_civil c" "n = day_number c"
    "s = pad_year (civil_year c) @ ''-'' @ two_digits (civil_month c) @ ''-'' @ two_digits (civil_day c)"
proof -
  let ?c = "\<lparr>civil_year = dec_value (take 4 s), civil_month = dec_value (take 2 (drop 5 s)),
              civil_day = dec_value (drop 8 s)\<rparr>"
  have len: "length s = 10" using assms by (simp add: time_parse_date_def split: if_splits)
  have ok: "list_all is_digit (take 4 s)" "s ! 4 = CHR ''-''" "list_all is_digit (take 2 (drop 5 s))"
      "s ! 7 = CHR ''-''" "list_all is_digit (drop 8 s)" "valid_civil ?c" "n = day_number ?c"
    using assms by (simp_all add: time_parse_date_def Let_def split: if_splits)
  have "s = take 4 s @ s ! 4 # drop 5 s" using len id_take_nth_drop [of 4 s] by simp
  also have "drop 5 s = take 2 (drop 5 s) @ s ! 7 # drop 8 s"
    using len id_take_nth_drop [of 2 "drop 5 s"] by simp
  finally have s: "s = take 4 s @ ''-'' @ take 2 (drop 5 s) @ ''-'' @ drop 8 s" using ok by simp
  have "s \<noteq> []" using len by auto
  then have "pad_year (dec_value (take 4 s)) = take 4 s"
    using digits_padded [of "take 4 s"] ok len by (simp add: pad_year_def min_def)
  moreover have "two_digits (dec_value (take 2 (drop 5 s))) = take 2 (drop 5 s)"
      "two_digits (dec_value (drop 8 s)) = drop 8 s"
    using ok len by (simp_all add: two_digits_of_value)
  ultimately have "s = pad_year (civil_year ?c) @ ''-'' @ two_digits (civil_month ?c) @ ''-'' @ two_digits (civil_day ?c)"
    using s by simp
  with ok that show thesis by blast
qed

lemma format_time_parse: "time_parse_date s = Some n \<Longrightarrow> format_date n = s"
  by (erule time_parse_parts) (simp add: format_date_def civil_of_day_number Let_def)

lemma time_parse_inject: "time_parse_date s = Some n \<Longrightarrow> time_parse_date t = Some n \<Longrightarrow> s = t"
  using format_time_parse by metis

section \<open>Instants\<close>

datatype go_time = Go_Time (time_seconds: int) (time_nanos: nat)

instantiation go_time :: linorder
begin

definition less_eq_go_time :: "go_time \<Rightarrow> go_time \<Rightarrow> bool" where
  "s \<le> t \<longleftrightarrow> time_seconds s < time_seconds t \<or> time_seconds s = time_seconds t \<and> time_nanos s \<le> time_nanos t"

definition less_go_time :: "go_time \<Rightarrow> go_time \<Rightarrow> bool" where
  "s < t \<longleftrightarrow> time_seconds s < time_seconds t \<or> time_seconds s = time_seconds t \<and> time_nanos s < time_nanos t"

instance
  by standard (auto simp: less_eq_go_time_def less_go_time_def intro: go_time.expand)

end

text \<open>The zero time is the first moment of year 1; year 0 is a leap year. A parse error leaves the
  zero time where the code drops the error.\<close>

definition zero_time :: go_time where
  "zero_time = Go_Time (86400 * 366) 0"

definition is_zero :: "go_time \<Rightarrow> bool" where
  "is_zero t \<longleftrightarrow> t = zero_time"

definition zero_day :: nat where
  "zero_day = 366"

text \<open>\<open>Sub\<close>: nanoseconds, saturated to a signed 64-bit integer.\<close>

definition time_sub :: "go_time \<Rightarrow> go_time \<Rightarrow> int" where
  "time_sub t u =
     max (- (2 ^ 63))
       (min (2 ^ 63 - 1)
         ((time_seconds t - time_seconds u) * 1000000000 + (int (time_nanos t) - int (time_nanos u))))"

text \<open>The UTC date of an instant, written as text and read again: a year outside 0 to 9999 is not
  read and leaves the zero time.\<close>

definition utc_date :: "go_time \<Rightarrow> nat" where
  "utc_date t =
     (let d = time_seconds t div 86400
      in if 0 \<le> d \<and> nat d < days_before_year 10000 then nat d else zero_day)"

section \<open>RFC 3339\<close>

text \<open>\<open>getnum\<close>: one or two digits, or exactly two.\<close>

definition get_num :: "bool \<Rightarrow> string \<Rightarrow> (nat \<times> string) option" where
  "get_num fixed s =
     (case s of
        [] \<Rightarrow> None
      | c # rest \<Rightarrow>
          if \<not> is_digit c then None
          else
            (case rest of
               d # rest' \<Rightarrow>
                 if is_digit d then Some (10 * digit_value c + digit_value d, rest')
                 else if fixed then None else Some (digit_value c, rest)
             | [] \<Rightarrow> if fixed then None else Some (digit_value c, [])))"

definition skip_char :: "char \<Rightarrow> string \<Rightarrow> string option" where
  "skip_char c s = (case s of d # rest \<Rightarrow> if d = c then Some rest else None | [] \<Rightarrow> None)"

text \<open>A fraction of a second after a period or comma: nine digits count, the others are skipped.\<close>

definition take_fraction :: "string \<Rightarrow> nat \<times> string" where
  "take_fraction s =
     (case s of
        c # d # rest \<Rightarrow>
          if (c = CHR ''.'' \<or> c = CHR '','') \<and> is_digit d
          then (let digits = takeWhile is_digit (d # rest); counted = take 9 digits
                in (dec_value counted * 10 ^ (9 - length counted), dropWhile is_digit (d # rest)))
          else (0, s)
      | _ \<Rightarrow> (0, s))"

text \<open>The zone: \<open>Z\<close>, or a signed offset in hours and minutes. The flag says \<open>Z\<close>.\<close>

definition parse_zone :: "string \<Rightarrow> (int \<times> bool) option" where
  "parse_zone s =
     (if s = ''Z'' then Some (0, True)
      else
        (case s of
           [sign, h1, h2, colon, m1, m2] \<Rightarrow>
             if list_all is_digit [h1, h2, m1, m2] \<and> colon = CHR '':'' \<and>
                (sign = CHR ''+'' \<or> sign = CHR ''-'') \<and> dec_value [h1, h2] \<le> 24 \<and> dec_value [m1, m2] \<le> 60
             then (let offset = int ((dec_value [h1, h2] * 60 + dec_value [m1, m2]) * 60)
                   in Some (if sign = CHR ''-'' then - offset else offset, False))
             else None
         | _ \<Rightarrow> None))"

text \<open>\<open>time.Parse(time.RFC3339, value)\<close>. The hour may be a single digit; a fraction may follow the
  seconds.\<close>

definition parse_clock :: "string \<Rightarrow> ((nat \<times> nat) \<times> string) option" where
  "parse_clock s =
     Option.bind (get_num False s) (\<lambda>(hour, s).
     Option.bind (skip_char (CHR '':'') s) (\<lambda>s.
     Option.bind (get_num True s) (\<lambda>(minute, s).
     Option.bind (skip_char (CHR '':'') s) (\<lambda>s.
     Option.bind (get_num True s) (\<lambda>(second, s).
       if hour < 24 \<and> minute < 60 \<and> second < 60
       then (case take_fraction s of (nanos, rest) \<Rightarrow> Some ((3600 * hour + 60 * minute + second, nanos), rest))
       else None)))))"

definition parse_rfc3339 :: "string \<Rightarrow> (go_time \<times> bool) option" where
  "parse_rfc3339 s =
     Option.bind (time_parse_date (take 10 s)) (\<lambda>day.
     Option.bind (skip_char (CHR ''T'') (drop 10 s)) (\<lambda>s.
     Option.bind (parse_clock s) (\<lambda>((clock, nanos), s).
     Option.bind (parse_zone s) (\<lambda>(offset, zulu).
       Some (Go_Time (int (86400 * day + clock) - offset) nanos, zulu)))))"

definition time_or_zero :: "string \<Rightarrow> go_time" where
  "time_or_zero s = (case parse_rfc3339 s of Some (t, _) \<Rightarrow> t | None \<Rightarrow> zero_time)"

text \<open>\<open>Format(time.RFC3339)\<close> of an instant in UTC, from year 0 on.\<close>

definition format_rfc3339 :: "go_time \<Rightarrow> string" where
  "format_rfc3339 t =
     (let n = nat (time_seconds t); clock = n mod 86400
      in format_date (n div 86400) @ ''T'' @ two_digits (clock div 3600) @ '':'' @ two_digits (clock div 60 mod 60) @
         '':'' @ two_digits (clock mod 60) @ ''Z'')"

text \<open>\<open>parseCanonicalTimestamp\<close>: whole seconds, in UTC, written the one way \<open>Format\<close> writes them.\<close>

definition parse_canonical_timestamp :: "string \<Rightarrow> go_time option" where
  "parse_canonical_timestamp s =
     (case parse_rfc3339 s of
        None \<Rightarrow> None
      | Some (t, zulu) \<Rightarrow> if time_nanos t \<noteq> 0 \<or> \<not> zulu \<or> format_rfc3339 t \<noteq> s then None else Some t)"

lemma canonical_timestamp_inject:
  "parse_canonical_timestamp s = Some t \<Longrightarrow> parse_canonical_timestamp s' = Some t \<Longrightarrow> s = s'"
  by (auto simp: parse_canonical_timestamp_def split: option.splits if_splits)

lemma canonical_timestamp_time: "parse_canonical_timestamp s = Some t \<Longrightarrow> time_or_zero s = t"
  by (auto simp: parse_canonical_timestamp_def time_or_zero_def split: option.splits if_splits)

end
