(* ===== verification/Compat_Manifest.thy ===== *)
theory Compat_Manifest
  imports Go_Url Go_Time Json_Values
begin

text \<open>
  \<open>internal/compat/manifest.go\<close>: the compatibility document, its validation, and reading it
  strictly. A document is its size in bytes, whether it is blank, and its tokens. The Go types
  \<open>BackendID\<close>, \<open>Platform\<close>, \<open>LaunchDecision\<close> and the like are strings with named
  constants; they are strings here too, since a decoded document can hold any value. Error
  messages are reduced to the check that failed, the index of the entry and the offending value.
\<close>

section \<open>Checked lists\<close>

text \<open>The loops over a list that keep the values already seen in a map: every value is known and
  none comes twice.\<close>

fun check_each :: "('a \<Rightarrow> bool) \<Rightarrow> ('a \<Rightarrow> 'e) \<Rightarrow> ('a \<Rightarrow> 'e) \<Rightarrow> 'a list \<Rightarrow> 'a list \<Rightarrow> 'e + unit" where
  "check_each known unknown repeated seen [] = Inr ()"
| "check_each known unknown repeated seen (x # xs) =
     (if \<not> known x then Inl (unknown x)
      else if x \<in> set seen then Inl (repeated x)
      else check_each known unknown repeated (x # seen) xs)"

lemma check_each_ok [result_simps]:
  "check_each known unknown repeated seen xs = Inr u \<longleftrightarrow>
     list_all known xs \<and> distinct xs \<and> set xs \<inter> set seen = {}"
  by (induction known unknown repeated seen xs rule: check_each.induct) auto

section \<open>The document\<close>

definition manifest_version :: string where
  "manifest_version = ''1.0.0''"

definition schema_id :: string where
  "schema_id = ''https://leaguebridge.dev/schemas/compatibility-manifest.schema.json''"

definition authoritative_as_of :: string where
  "authoritative_as_of = ''2026-09-23''"

definition max_manifest_bytes :: nat where
  "max_manifest_bytes = 1048576"

definition backend_ids :: "string list" where
  "backend_ids =
     [''native-linux'', ''native-bsd'', ''wine'', ''proton'', ''dockur-qemu'', ''bhyve'',
      ''physical-windows-remote'', ''physical-macos-remote'', ''hardware-kvm-remote'', ''dual-boot'']"

record game =
  game_name :: string
  game_publisher :: string

record manifest_policy =
  default_verdict :: string
  max_age_days :: int
  require_official_authorization :: bool

record source =
  source_id :: string
  source_title :: string
  source_publisher :: string
  source_url :: string
  source_published_at :: string
  source_checked_at :: string

record backend =
  backend_id :: string
  display_name :: string
  backend_kind :: string
  launch_mode :: string
  host_platforms :: "string list"
  host_architectures :: "string list"
  backend_state :: string
  launch_verdict :: string
  authorization :: string
  reason_code :: string
  backend_summary :: string
  source_ids :: "string list"
  safety_notes :: "string list"

record manifest =
  manifest_schema :: string
  manifest_schema_version :: string
  manifest_id :: string
  as_of :: string
  manifest_game :: game
  manifest_policy_of :: manifest_policy
  manifest_sources :: "source list"
  manifest_backends :: "backend list"

datatype source_error =
    Source_Id string | Duplicate_Source string | Source_Text | Url_Too_Long | Url_Invalid string
  | Url_Not_Https string | Url_User string | Checked_At_Invalid | Checked_After_Manifest
  | Published_At_Invalid | Published_After_Checked

datatype backend_error =
    Unknown_Backend string | Duplicate_Backend string | Display_Name_Missing | Bad_Kind string
  | Bad_Mode string | Bad_State string | Bad_Verdict string | Bad_Authorization string
  | No_Platforms | Unknown_Platform string | Duplicate_Platform string
  | No_Architectures | Unknown_Architecture string | Duplicate_Architecture string
  | Bad_Reason string | Summary_Missing
  | No_Sources | Too_Many_Sources | Unknown_Source string | Duplicate_Reference string
  | No_Notes | Too_Many_Notes | Empty_Note | Duplicate_Note
  | Must_Deny_Unsupported | Must_Deny_Unauthorized | Allow_Incomplete | Virtual_Machine_Allow
  | Handoff_Local | Wrong_Kind string | Wrong_Mode string | Wrong_Platforms | Wrong_Architectures
  | Macos_Route_Promoted | Kvm_Route_Promoted

datatype manifest_error =
    Manifest_Empty | Manifest_Too_Large | Manifest_Structure walk_error | Manifest_Trailing
  | Manifest_Syntax | Not_An_Object string | Unknown_Member string string | Not_An_Array string
  | Published_At_Not_Date nat | Member_Type string
  | Unknown_Schema string | Unsupported_Version string | Bad_Manifest_Id string | Bad_As_Of
  | Game_Missing | Default_Not_Deny | Bad_Max_Age | Authorization_Not_Required
  | Sources_Missing | Sources_Too_Many | Source_Fault nat source_error
  | Backend_Count nat | Backend_Fault nat backend_error | Missing_Backend string
  | Embedded_Date string

section \<open>The lexical checks\<close>

definition id_byte :: "char \<Rightarrow> bool" where
  "id_byte c \<longleftrightarrow> is_lower c \<or> is_digit c"

definition reason_byte :: "char \<Rightarrow> bool" where
  "reason_byte c \<longleftrightarrow> is_upper c \<or> is_digit c"

text \<open>\<open>idPattern\<close> and \<open>reasonPattern\<close>: non-empty runs joined by a single separator.\<close>

definition id_pattern :: "string \<Rightarrow> bool" where
  "id_pattern s \<longleftrightarrow> list_all (\<lambda>p. p \<noteq> [] \<and> list_all id_byte p) (split_on (CHR ''-'') s)"

definition reason_pattern :: "string \<Rightarrow> bool" where
  "reason_pattern s \<longleftrightarrow>
     s \<noteq> [] \<and> is_upper (hd s) \<and>
     list_all (\<lambda>p. p \<noteq> [] \<and> list_all reason_byte p) (split_on (CHR ''_'') s)"

definition valid_text :: "string \<Rightarrow> nat \<Rightarrow> bool" where
  "valid_text v max_bytes \<longleftrightarrow> length v \<le> max_bytes \<and> trim_space v \<noteq> []"

definition parse_date :: "string \<Rightarrow> nat option" where
  "parse_date v =
     (if length v \<noteq> 10 then None
      else
        (case time_parse_date v of
           None \<Rightarrow> None
         | Some d \<Rightarrow> if format_date d \<noteq> v then None else Some d))"

text \<open>\<open>url.ParseRequestURI\<close>: there is no fragment, and the text begins with a scheme or a path.\<close>

definition parse_request_uri :: "string \<Rightarrow> parsed_url option" where
  "parse_request_uri raw =
     (if has_ctl_byte raw \<or> raw = [] then None
      else if raw = ''*'' then
        Some \<lparr>url_scheme = [], url_opaque = [], url_has_user = False, url_host = [],
              url_raw_query = [], url_fragment = []\<rparr>
      else
        (case get_scheme [] raw of
           None \<Rightarrow> None
         | Some (scheme, rest) \<Rightarrow>
             (case cut_query rest of
                (rest', query) \<Rightarrow>
                  if scheme = [] \<and> (\<not> prefix ''/'' rest' \<or> prefix ''//'' rest')
                  then (if \<not> prefix ''/'' rest' \<or> unescape Path_Mode rest' = None then None
                        else Some \<lparr>url_scheme = [], url_opaque = [], url_has_user = False, url_host = [],
                                   url_raw_query = query, url_fragment = []\<rparr>)
                  else parse_hierarchy (to_lower scheme) rest' query)))"

definition validate_source_url :: "string \<Rightarrow> source_error + unit" where
  "validate_source_url v =
     (if 2048 < length v then Inl Url_Too_Long
      else
        (case parse_request_uri v of
           None \<Rightarrow> Inl (Url_Invalid v)
         | Some u \<Rightarrow>
             if url_scheme u \<noteq> ''https'' \<or> url_host u = [] then Inl (Url_Not_Https v)
             else if url_has_user u then Inl (Url_User v)
             else Inr ()))"

definition known_schema_reference :: "string \<Rightarrow> bool" where
  "known_schema_reference v \<longleftrightarrow>
     v \<in> {schema_id, ''../schemas/compatibility-manifest.schema.json'',
          ''../../../schemas/compatibility-manifest.schema.json''}"

definition all_host_platforms :: "string list" where
  "all_host_platforms = [''linux'', ''freebsd'', ''openbsd'', ''netbsd'', ''dragonflybsd'']"

definition bsd_platforms :: "string list" where
  "bsd_platforms = [''freebsd'', ''openbsd'', ''netbsd'', ''dragonflybsd'']"

definition all_host_architectures :: "string list" where
  "all_host_architectures = [''amd64'', ''arm64'']"

definition known_platform :: "string \<Rightarrow> bool" where
  "known_platform v \<longleftrightarrow> v \<in> {''linux'', ''freebsd'', ''openbsd'', ''netbsd'', ''dragonflybsd''}"

definition known_architecture :: "string \<Rightarrow> bool" where
  "known_architecture v \<longleftrightarrow> v = ''amd64'' \<or> v = ''arm64''"

definition one_of_backend_kind :: "string \<Rightarrow> bool" where
  "one_of_backend_kind v \<longleftrightarrow>
     v \<in> {''native'', ''translation'', ''virtual-machine'', ''remote-physical-windows'',
          ''remote-physical-macos'', ''remote-hardware-kvm'', ''dual-boot''}"

definition one_of_launch_mode :: "string \<Rightarrow> bool" where
  "one_of_launch_mode v \<longleftrightarrow> v = ''local'' \<or> v = ''remote'' \<or> v = ''handoff''"

definition one_of_state :: "string \<Rightarrow> bool" where
  "one_of_state v \<longleftrightarrow> v = ''blocked'' \<or> v = ''handoff-only'' \<or> v = ''supported''"

definition one_of_authorization :: "string \<Rightarrow> bool" where
  "one_of_authorization v \<longleftrightarrow> v = ''none'' \<or> v = ''unverified'' \<or> v = ''official''"

section \<open>Validation\<close>

definition same_set :: "string list \<Rightarrow> string list \<Rightarrow> bool" where
  "same_set got want \<longleftrightarrow> length got = length want \<and> list_all (\<lambda>v. v \<in> set got) want"

text \<open>What the identity of a backend fixes: its kind, its launch mode and its platforms.\<close>

definition backend_identity :: "string \<Rightarrow> (string \<times> string \<times> string list) option" where
  "backend_identity i =
     (if i = ''native-linux'' then Some (''native'', ''local'', [''linux''])
      else if i = ''native-bsd'' then Some (''native'', ''local'', bsd_platforms)
      else if i = ''wine'' then Some (''translation'', ''local'', all_host_platforms)
      else if i = ''proton'' then Some (''translation'', ''local'', [''linux''])
      else if i = ''dockur-qemu'' then Some (''virtual-machine'', ''local'', [''linux''])
      else if i = ''bhyve'' then Some (''virtual-machine'', ''local'', [''freebsd''])
      else if i = ''physical-windows-remote'' then Some (''remote-physical-windows'', ''remote'', all_host_platforms)
      else if i = ''physical-macos-remote'' then Some (''remote-physical-macos'', ''remote'', all_host_platforms)
      else if i = ''hardware-kvm-remote'' then Some (''remote-hardware-kvm'', ''remote'', all_host_platforms)
      else if i = ''dual-boot'' then Some (''dual-boot'', ''handoff'', all_host_platforms)
      else None)"

definition unpromoted :: "backend \<Rightarrow> bool" where
  "unpromoted b \<longleftrightarrow> backend_state b = ''handoff-only'' \<and> launch_verdict b = ''deny'' \<and> authorization b = ''unverified''"

definition validate_backend_identity :: "backend \<Rightarrow> backend_error + unit" where
  "validate_backend_identity b =
     (case backend_identity (backend_id b) of
        None \<Rightarrow> Inl (Unknown_Backend (backend_id b))
      | Some (want_kind, want_mode, want_platforms) \<Rightarrow>
          first_error
            [require (backend_kind b = want_kind) (Wrong_Kind (backend_kind b)),
             require (launch_mode b = want_mode) (Wrong_Mode (launch_mode b)),
             require (same_set (host_platforms b) want_platforms) Wrong_Platforms,
             require (same_set (host_architectures b) all_host_architectures) Wrong_Architectures,
             require (backend_id b = ''physical-macos-remote'' \<longrightarrow> unpromoted b) Macos_Route_Promoted,
             require (backend_id b = ''hardware-kvm-remote'' \<longrightarrow> unpromoted b) Kvm_Route_Promoted])"

definition validate_backend :: "backend \<Rightarrow> string list \<Rightarrow> backend_error + unit" where
  "validate_backend b known_sources =
     first_error
       [require (valid_text (display_name b) 4096) Display_Name_Missing,
        require (one_of_backend_kind (backend_kind b)) (Bad_Kind (backend_kind b)),
        require (one_of_launch_mode (launch_mode b)) (Bad_Mode (launch_mode b)),
        require (one_of_state (backend_state b)) (Bad_State (backend_state b)),
        require (launch_verdict b = ''deny'' \<or> launch_verdict b = ''allow'') (Bad_Verdict (launch_verdict b)),
        require (one_of_authorization (authorization b)) (Bad_Authorization (authorization b)),
        require (host_platforms b \<noteq> []) No_Platforms,
        check_each known_platform Unknown_Platform Duplicate_Platform [] (host_platforms b),
        require (host_architectures b \<noteq> []) No_Architectures,
        check_each known_architecture Unknown_Architecture Duplicate_Architecture [] (host_architectures b),
        require (length (reason_code b) \<le> 160 \<and> reason_pattern (reason_code b)) (Bad_Reason (reason_code b)),
        require (valid_text (backend_summary b) 4096) Summary_Missing,
        require (source_ids b \<noteq> []) No_Sources,
        require (length (source_ids b) \<le> 64) Too_Many_Sources,
        check_each (\<lambda>i. i \<in> set known_sources) Unknown_Source Duplicate_Reference [] (source_ids b),
        require (safety_notes b \<noteq> []) No_Notes,
        require (length (safety_notes b) \<le> 64) Too_Many_Notes,
        check_each (\<lambda>note. valid_text note 4096) (\<lambda>_. Empty_Note) (\<lambda>_. Duplicate_Note) []
          (map trim_space (safety_notes b)),
        require (backend_state b \<noteq> ''supported'' \<longrightarrow> launch_verdict b = ''deny'') Must_Deny_Unsupported,
        require (authorization b \<noteq> ''official'' \<longrightarrow> launch_verdict b = ''deny'') Must_Deny_Unauthorized,
        require (launch_verdict b = ''allow'' \<longrightarrow> backend_state b = ''supported'' \<and> authorization b = ''official'')
          Allow_Incomplete,
        require (backend_kind b = ''virtual-machine'' \<and> authorization b \<noteq> ''official'' \<longrightarrow> launch_verdict b = ''deny'')
          Virtual_Machine_Allow,
        require (\<not> (backend_state b = ''handoff-only'' \<and> launch_mode b = ''local'')) Handoff_Local,
        validate_backend_identity b]"

text \<open>The checks of one source against the date of the manifest.\<close>

definition check_dates :: "nat \<Rightarrow> source \<Rightarrow> source_error + unit" where
  "check_dates manifest_date s =
     (case parse_date (source_checked_at s) of
        None \<Rightarrow> Inl Checked_At_Invalid
      | Some checked \<Rightarrow>
          if manifest_date < checked then Inl Checked_After_Manifest
          else if source_published_at s = [] then Inr ()
          else
            (case parse_date (source_published_at s) of
               None \<Rightarrow> Inl Published_At_Invalid
             | Some published \<Rightarrow> require (published \<le> checked) Published_After_Checked))"

definition check_source :: "nat \<Rightarrow> string list \<Rightarrow> source \<Rightarrow> source_error + unit" where
  "check_source manifest_date seen s =
     first_error
       [require (length (source_id s) \<le> 128 \<and> id_pattern (source_id s)) (Source_Id (source_id s)),
        require (source_id s \<notin> set seen) (Duplicate_Source (source_id s)),
        require (valid_text (source_title s) 4096 \<and> valid_text (source_publisher s) 4096) Source_Text,
        validate_source_url (source_url s),
        check_dates manifest_date s]"

fun check_sources :: "nat \<Rightarrow> nat \<Rightarrow> string list \<Rightarrow> source list \<Rightarrow> manifest_error + string list" where
  "check_sources manifest_date i seen [] = Inr seen"
| "check_sources manifest_date i seen (s # ss) =
     bind_result (map_error (Source_Fault i) (check_source manifest_date seen s)) (\<lambda>_.
       check_sources manifest_date (Suc i) (seen @ [source_id s]) ss)"

definition check_backend :: "string list \<Rightarrow> string list \<Rightarrow> backend \<Rightarrow> backend_error + unit" where
  "check_backend known_sources seen b =
     first_error
       [require (backend_id b \<in> set backend_ids) (Unknown_Backend (backend_id b)),
        require (backend_id b \<notin> set seen) (Duplicate_Backend (backend_id b)),
        validate_backend b known_sources]"

fun check_backends :: "string list \<Rightarrow> nat \<Rightarrow> string list \<Rightarrow> backend list \<Rightarrow> manifest_error + string list" where
  "check_backends known_sources i seen [] = Inr seen"
| "check_backends known_sources i seen (b # bs) =
     bind_result (map_error (Backend_Fault i) (check_backend known_sources seen b)) (\<lambda>_.
       check_backends known_sources (Suc i) (seen @ [backend_id b]) bs)"

definition validate_manifest_header :: "manifest \<Rightarrow> manifest_error + unit" where
  "validate_manifest_header m =
     first_error
       [require (known_schema_reference (manifest_schema m)) (Unknown_Schema (manifest_schema m)),
        require (manifest_schema_version m = manifest_version) (Unsupported_Version (manifest_schema_version m)),
        require (length (manifest_id m) \<le> 128 \<and> id_pattern (manifest_id m)) (Bad_Manifest_Id (manifest_id m)),
        require (parse_date (as_of m) \<noteq> None) Bad_As_Of,
        require (valid_text (game_name (manifest_game m)) 200 \<and> valid_text (game_publisher (manifest_game m)) 200)
          Game_Missing,
        require (default_verdict (manifest_policy_of m) = ''deny'') Default_Not_Deny,
        require (1 \<le> max_age_days (manifest_policy_of m) \<and> max_age_days (manifest_policy_of m) \<le> 365) Bad_Max_Age,
        require (require_official_authorization (manifest_policy_of m)) Authorization_Not_Required,
        require (manifest_sources m \<noteq> []) Sources_Missing,
        require (length (manifest_sources m) \<le> 512) Sources_Too_Many]"

definition validate_manifest :: "manifest \<Rightarrow> manifest_error + unit" where
  "validate_manifest m =
     bind_result (validate_manifest_header m) (\<lambda>_.
     bind_result (check_sources (the (parse_date (as_of m))) 0 [] (manifest_sources m)) (\<lambda>ids.
     bind_result (require (length (manifest_backends m) = length backend_ids)
       (Backend_Count (length (manifest_backends m)))) (\<lambda>_.
     bind_result (check_backends ids 0 [] (manifest_backends m)) (\<lambda>seen.
       (case find (\<lambda>i. i \<notin> set seen) backend_ids of
          Some i \<Rightarrow> Inl (Missing_Backend i)
        | None \<Rightarrow> Inr ())))))"

section \<open>Reading a document\<close>

record document =
  doc_size :: nat
  doc_blank :: bool
  doc_tokens :: "json_token list"

text \<open>\<open>Decoder.Token\<close> at the end of the input.\<close>

definition expect_eof :: "json_token list \<Rightarrow> manifest_error + unit" where
  "expect_eof ts =
     (case ts of [] \<Rightarrow> Inr () | t # _ \<Rightarrow> Inl (if t = Bad then Manifest_Syntax else Manifest_Trailing))"

definition check_json_structure :: "json_token list \<Rightarrow> manifest_error + unit" where
  "check_json_structure ts = bind_result (map_error Manifest_Structure (walk 64 True (Value 0) ts)) expect_eof"

definition exact_object :: "json option \<Rightarrow> string \<Rightarrow> string list \<Rightarrow> manifest_error + json" where
  "exact_object v path allowed =
     (case v of
        Some (JObj ms) \<Rightarrow>
          (case find (\<lambda>(k, _). k \<notin> set allowed) ms of
             Some (k, _) \<Rightarrow> Inl (Unknown_Member path k)
           | None \<Rightarrow> Inr (JObj ms))
      | _ \<Rightarrow> Inl (Not_An_Object path))"

definition exact_array :: "json option \<Rightarrow> string \<Rightarrow> manifest_error + json list" where
  "exact_array v path = (case v of Some (JArr js) \<Rightarrow> Inr js | _ \<Rightarrow> Inl (Not_An_Array path))"

definition top_fields :: "string list" where
  "top_fields =
     [''$schema'', ''schemaVersion'', ''manifestId'', ''asOf'', ''game'', ''policy'', ''sources'', ''backends'']"

definition source_fields :: "string list" where
  "source_fields = [''id'', ''title'', ''publisher'', ''url'', ''publishedAt'', ''checkedAt'']"

definition backend_fields :: "string list" where
  "backend_fields =
     [''id'', ''displayName'', ''kind'', ''launchMode'', ''hostPlatforms'', ''hostArchitectures'', ''state'',
      ''launchVerdict'', ''authorization'', ''reasonCode'', ''summary'', ''sourceIds'', ''safetyNotes'']"

definition index_path :: "string \<Rightarrow> nat \<Rightarrow> string" where
  "index_path p i = p @ ''['' @ itoa i @ '']''"

definition check_published :: "nat \<Rightarrow> json \<Rightarrow> manifest_error + unit" where
  "check_published i v =
     (case member v ''publishedAt'' of
        None \<Rightarrow> Inr ()
      | Some (JStr d) \<Rightarrow> require (parse_date d \<noteq> None) (Published_At_Not_Date i)
      | Some _ \<Rightarrow> Inl (Published_At_Not_Date i))"

fun check_source_fields :: "nat \<Rightarrow> json list \<Rightarrow> manifest_error + unit" where
  "check_source_fields i [] = Inr ()"
| "check_source_fields i (v # vs) =
     bind_result (exact_object (Some v) (index_path ''$.sources'' i) source_fields) (\<lambda>s.
     bind_result (check_published i s) (\<lambda>_. check_source_fields (Suc i) vs))"

fun check_backend_fields :: "nat \<Rightarrow> json list \<Rightarrow> manifest_error + unit" where
  "check_backend_fields i [] = Inr ()"
| "check_backend_fields i (v # vs) =
     bind_result (exact_object (Some v) (index_path ''$.backends'' i) backend_fields) (\<lambda>_.
       check_backend_fields (Suc i) vs)"

definition check_exact_value :: "json \<Rightarrow> manifest_error + unit" where
  "check_exact_value raw =
     bind_result (exact_object (Some raw) ''$'' top_fields) (\<lambda>top.
     bind_result (exact_object (member top ''game'') ''$.game'' [''name'', ''publisher'']) (\<lambda>_.
     bind_result (exact_object (member top ''policy'') ''$.policy''
       [''defaultVerdict'', ''maxAgeDays'', ''requireOfficialAuthorization'']) (\<lambda>_.
     bind_result (exact_array (member top ''sources'') ''$.sources'') (\<lambda>sources.
     bind_result (check_source_fields 0 sources) (\<lambda>_.
     bind_result (exact_array (member top ''backends'') ''$.backends'') (\<lambda>backends.
       check_backend_fields 0 backends))))))"

definition check_exact_fields :: "json_token list \<Rightarrow> manifest_error + unit" where
  "check_exact_fields ts =
     (case read_value ts of None \<Rightarrow> Inl Manifest_Syntax | Some (raw, _) \<Rightarrow> check_exact_value raw)"

text \<open>Decoding into the records: a member that is absent or null leaves the zero value.\<close>

definition text_member :: "json \<Rightarrow> string \<Rightarrow> manifest_error + string" where
  "text_member v k =
     (case member v k of
        None \<Rightarrow> Inr []
      | Some JNull \<Rightarrow> Inr []
      | Some (JStr s) \<Rightarrow> Inr s
      | Some _ \<Rightarrow> Inl (Member_Type k))"

definition int_member :: "json \<Rightarrow> string \<Rightarrow> manifest_error + int" where
  "int_member v k =
     (case member v k of
        None \<Rightarrow> Inr 0
      | Some JNull \<Rightarrow> Inr 0
      | Some (JNum s) \<Rightarrow> (case decode_int s of Some n \<Rightarrow> Inr n | None \<Rightarrow> Inl (Member_Type k))
      | Some _ \<Rightarrow> Inl (Member_Type k))"

definition bool_member :: "json \<Rightarrow> string \<Rightarrow> manifest_error + bool" where
  "bool_member v k =
     (case member v k of
        None \<Rightarrow> Inr False
      | Some JNull \<Rightarrow> Inr False
      | Some (JBool b) \<Rightarrow> Inr b
      | Some _ \<Rightarrow> Inl (Member_Type k))"

fun map_results :: "('a \<Rightarrow> 'e + 'b) \<Rightarrow> 'a list \<Rightarrow> 'e + 'b list" where
  "map_results f [] = Inr []"
| "map_results f (x # xs) = bind_result (f x) (\<lambda>y. bind_result (map_results f xs) (\<lambda>ys. Inr (y # ys)))"

definition list_member :: "(json \<Rightarrow> manifest_error + 'a) \<Rightarrow> json \<Rightarrow> string \<Rightarrow> manifest_error + 'a list" where
  "list_member element v k =
     (case member v k of
        None \<Rightarrow> Inr []
      | Some JNull \<Rightarrow> Inr []
      | Some (JArr js) \<Rightarrow> map_results element js
      | Some _ \<Rightarrow> Inl (Member_Type k))"

definition text_element :: "json \<Rightarrow> manifest_error + string" where
  "text_element v =
     (case v of JStr s \<Rightarrow> Inr s | JNull \<Rightarrow> Inr [] | _ \<Rightarrow> Inl (Member_Type []))"

definition object_or_null :: "json \<Rightarrow> manifest_error + json" where
  "object_or_null v = (case v of JObj _ \<Rightarrow> Inr v | JNull \<Rightarrow> Inr v | _ \<Rightarrow> Inl (Member_Type []))"

definition object_member :: "json \<Rightarrow> string \<Rightarrow> manifest_error + json" where
  "object_member v k = (case member v k of None \<Rightarrow> Inr JNull | Some w \<Rightarrow> object_or_null w)"

definition decode_source :: "json \<Rightarrow> manifest_error + source" where
  "decode_source v =
     bind_result (object_or_null v) (\<lambda>_.
     bind_result (text_member v ''id'') (\<lambda>i.
     bind_result (text_member v ''title'') (\<lambda>title.
     bind_result (text_member v ''publisher'') (\<lambda>publisher.
     bind_result (text_member v ''url'') (\<lambda>url.
     bind_result (text_member v ''publishedAt'') (\<lambda>published.
     bind_result (text_member v ''checkedAt'') (\<lambda>checked.
       Inr \<lparr>source_id = i, source_title = title, source_publisher = publisher, source_url = url,
            source_published_at = published, source_checked_at = checked\<rparr>)))))))"

definition decode_backend :: "json \<Rightarrow> manifest_error + backend" where
  "decode_backend v =
     bind_result (object_or_null v) (\<lambda>_.
     bind_result (text_member v ''id'') (\<lambda>i.
     bind_result (text_member v ''displayName'') (\<lambda>name.
     bind_result (text_member v ''kind'') (\<lambda>kind.
     bind_result (text_member v ''launchMode'') (\<lambda>mode.
     bind_result (list_member text_element v ''hostPlatforms'') (\<lambda>platforms.
     bind_result (list_member text_element v ''hostArchitectures'') (\<lambda>architectures.
     bind_result (text_member v ''state'') (\<lambda>state.
     bind_result (text_member v ''launchVerdict'') (\<lambda>verdict.
     bind_result (text_member v ''authorization'') (\<lambda>auth.
     bind_result (text_member v ''reasonCode'') (\<lambda>reason.
     bind_result (text_member v ''summary'') (\<lambda>summary.
     bind_result (list_member text_element v ''sourceIds'') (\<lambda>ids.
     bind_result (list_member text_element v ''safetyNotes'') (\<lambda>notes.
       Inr \<lparr>backend_id = i, display_name = name, backend_kind = kind, launch_mode = mode,
            host_platforms = platforms, host_architectures = architectures, backend_state = state,
            launch_verdict = verdict, authorization = auth, reason_code = reason, backend_summary = summary,
            source_ids = ids, safety_notes = notes\<rparr>))))))))))))))"

definition decode_game :: "json \<Rightarrow> manifest_error + game" where
  "decode_game v =
     bind_result (text_member v ''name'') (\<lambda>name.
     bind_result (text_member v ''publisher'') (\<lambda>publisher.
       Inr \<lparr>game_name = name, game_publisher = publisher\<rparr>))"

definition decode_policy :: "json \<Rightarrow> manifest_error + manifest_policy" where
  "decode_policy v =
     bind_result (text_member v ''defaultVerdict'') (\<lambda>verdict.
     bind_result (int_member v ''maxAgeDays'') (\<lambda>age.
     bind_result (bool_member v ''requireOfficialAuthorization'') (\<lambda>official.
       Inr \<lparr>default_verdict = verdict, max_age_days = age, require_official_authorization = official\<rparr>)))"

definition decode_manifest :: "json \<Rightarrow> manifest_error + manifest" where
  "decode_manifest v =
     bind_result (text_member v ''$schema'') (\<lambda>schema.
     bind_result (text_member v ''schemaVersion'') (\<lambda>version.
     bind_result (text_member v ''manifestId'') (\<lambda>i.
     bind_result (text_member v ''asOf'') (\<lambda>date.
     bind_result (bind_result (object_member v ''game'') decode_game) (\<lambda>game.
     bind_result (bind_result (object_member v ''policy'') decode_policy) (\<lambda>pol.
     bind_result (list_member decode_source v ''sources'') (\<lambda>sources.
     bind_result (list_member decode_backend v ''backends'') (\<lambda>backends.
       Inr \<lparr>manifest_schema = schema, manifest_schema_version = version, manifest_id = i, as_of = date,
            manifest_game = game, manifest_policy_of = pol, manifest_sources = sources,
            manifest_backends = backends\<rparr>))))))))"

text \<open>\<open>Parse\<close>.\<close>

definition parse_manifest :: "document \<Rightarrow> manifest_error + manifest" where
  "parse_manifest d =
     (if doc_blank d then Inl Manifest_Empty
      else if max_manifest_bytes < doc_size d then Inl Manifest_Too_Large
      else
        bind_result (check_json_structure (doc_tokens d)) (\<lambda>_.
        bind_result (check_exact_fields (doc_tokens d)) (\<lambda>_.
        (case read_value (doc_tokens d) of
           None \<Rightarrow> Inl Manifest_Syntax
         | Some (v, rest) \<Rightarrow>
             bind_result (decode_manifest v) (\<lambda>m.
             bind_result (expect_eof rest) (\<lambda>_.
             bind_result (validate_manifest m) (\<lambda>_. Inr m)))))))"

text \<open>\<open>Embedded\<close>, on the compiled-in document.\<close>

definition embedded_manifest :: "document \<Rightarrow> manifest_error + manifest" where
  "embedded_manifest compiled_in =
     bind_result (parse_manifest compiled_in) (\<lambda>m.
       if as_of m \<noteq> authoritative_as_of then Inl (Embedded_Date (as_of m)) else Inr m)"

section \<open>What an accepted document says\<close>

lemma parse_date_time: "parse_date v = Some d \<longleftrightarrow> time_parse_date v = Some d"
proof
  assume t: "time_parse_date v = Some d"
  then have "length v = 10" by (simp add: time_parse_date_def split: if_splits)
  with t format_time_parse [OF t] show "parse_date v = Some d" by (simp add: parse_date_def)
qed (auto simp: parse_date_def split: if_splits option.splits)

lemma check_source_ok:
  "check_source d seen s = Inr u \<longleftrightarrow> source_id s \<notin> set seen \<and> check_source d [] s = Inr ()"
  unfolding check_source_def by (auto simp del: first_error.simps(2))

lemma check_sources_ok [result_simps]:
  "check_sources d i seen ss = Inr ids \<longleftrightarrow>
     ids = seen @ map source_id ss \<and> distinct (map source_id ss) \<and> set (map source_id ss) \<inter> set seen = {} \<and>
     (\<forall>s \<in> set ss. check_source d [] s = Inr ())"
proof (induction ss arbitrary: i seen)
  case (Cons s ss)
  then show ?case using check_source_ok [of d seen s "()"] by (auto simp: bind_result_ok)
qed auto

lemma check_backend_ok:
  "check_backend ids seen b = Inr u \<longleftrightarrow> backend_id b \<notin> set seen \<and> check_backend ids [] b = Inr ()"
  unfolding check_backend_def by (auto simp del: first_error.simps(2))

lemma check_backends_ok [result_simps]:
  "check_backends ids i seen bs = Inr all \<longleftrightarrow>
     all = seen @ map backend_id bs \<and> distinct (map backend_id bs) \<and> set (map backend_id bs) \<inter> set seen = {} \<and>
     (\<forall>b \<in> set bs. check_backend ids [] b = Inr ())"
proof (induction bs arbitrary: i seen)
  case (Cons b bs)
  then show ?case using check_backend_ok [of ids seen b "()"] by (auto simp: bind_result_ok)
qed auto

lemma validate_manifest_parts:
  assumes "validate_manifest m = Inr ()"
  obtains d where "validate_manifest_header m = Inr ()" "parse_date (as_of m) = Some d"
    "distinct (map source_id (manifest_sources m))"
    "\<And>s. s \<in> set (manifest_sources m) \<Longrightarrow> check_source d [] s = Inr ()"
    "distinct (map backend_id (manifest_backends m))"
    "set (map backend_id (manifest_backends m)) = set backend_ids"
    "\<And>b. b \<in> set (manifest_backends m) \<Longrightarrow>
       check_backend (map source_id (manifest_sources m)) [] b = Inr ()"
proof -
  from assms have h: "validate_manifest_header m = Inr ()"
    by (auto simp: validate_manifest_def bind_result_ok)
  then obtain d where d: "parse_date (as_of m) = Some d"
    by (auto simp: validate_manifest_header_def simp del: first_error.simps(2))
  from assms have s: "distinct (map source_id (manifest_sources m))"
      "\<forall>s \<in> set (manifest_sources m). check_source d [] s = Inr ()"
    and b: "distinct (map backend_id (manifest_backends m))"
      "\<forall>b \<in> set (manifest_backends m). check_backend (map source_id (manifest_sources m)) [] b = Inr ()"
      "find (\<lambda>i. i \<notin> set (map backend_id (manifest_backends m))) backend_ids = None"
    by (auto simp: validate_manifest_def bind_result_ok check_sources_ok check_backends_ok d
        split: option.splits if_splits)
  have "set (map backend_id (manifest_backends m)) \<subseteq> set backend_ids"
    using b(2) by (auto simp: check_backend_def simp del: first_error.simps(2))
  moreover have "set backend_ids \<subseteq> set (map backend_id (manifest_backends m))"
    using b(3) by (auto simp: find_None_iff)
  ultimately have "set (map backend_id (manifest_backends m)) = set backend_ids" by blast
  with h d s b that show thesis by blast
qed

lemma validate_backend_facts:
  assumes "validate_backend b ids = Inr ()"
  shows "distinct (source_ids b) \<and> set (source_ids b) \<subseteq> set ids \<and> source_ids b \<noteq> []"
    and "distinct (map trim_space (safety_notes b))"
    and "launch_verdict b \<in> {''allow'', ''deny''}"
    and "launch_verdict b = ''allow'' \<Longrightarrow> backend_state b = ''supported'' \<and> authorization b = ''official''"
    and "distinct (host_platforms b)" "list_all known_platform (host_platforms b)"
    and "distinct (host_architectures b)"
    and "validate_backend_identity b = Inr ()"
proof -
  note parts = assms [unfolded validate_backend_def first_error_Cons_ok require_ok check_each_ok]
  show "distinct (source_ids b) \<and> set (source_ids b) \<subseteq> set ids \<and> source_ids b \<noteq> []"
    using parts by (simp add: list_all_iff subset_iff)
  show "distinct (map trim_space (safety_notes b))" using parts by simp
  show "launch_verdict b \<in> {''allow'', ''deny''}" using parts by blast
  show "launch_verdict b = ''allow'' \<Longrightarrow> backend_state b = ''supported'' \<and> authorization b = ''official''"
    using parts by blast
  show "distinct (host_platforms b)" "list_all known_platform (host_platforms b)"
    "distinct (host_architectures b)" "validate_backend_identity b = Inr ()"
    using parts by simp_all
qed

lemma same_set_of_distinct: "distinct want \<Longrightarrow> same_set got want \<Longrightarrow> set got = set want \<and> distinct got"
proof -
  assume d: "distinct want" and s: "same_set got want"
  from s have sub: "set want \<subseteq> set got" and len: "length got = length want"
    by (auto simp: same_set_def list_all_iff)
  from d have "card (set want) = length want" by (rule distinct_card)
  with len have le: "card (set got) \<le> card (set want)" using card_length [of got] by simp
  from sub le have eq: "set want = set got" by (simp add: card_seteq)
  with \<open>card (set want) = length want\<close> len have "distinct got" by (simp add: card_distinct)
  with eq show ?thesis by simp
qed

lemma identity_platforms_distinct:
  "backend_identity i = Some (kind, mode, platforms) \<Longrightarrow> distinct platforms"
  by (auto simp: backend_identity_def bsd_platforms_def all_host_platforms_def split: if_splits)

lemma backend_identity_facts:
  assumes "validate_backend_identity b = Inr ()"
    and "backend_identity (backend_id b) = Some (kind, mode, platforms)"
  shows "backend_kind b = kind \<and> launch_mode b = mode \<and> set (host_platforms b) = set platforms \<and>
    set (host_architectures b) = {''amd64'', ''arm64''}"
  using assms same_set_of_distinct [OF identity_platforms_distinct [OF assms(2)]]
    same_set_of_distinct [of all_host_architectures "host_architectures b"]
  by (auto simp: validate_backend_identity_def all_host_architectures_def simp del: first_error.simps(2))

lemma unpromoted_routes:
  assumes "validate_backend_identity b = Inr ()"
    and "backend_id b \<in> {''physical-macos-remote'', ''hardware-kvm-remote''}"
  shows "unpromoted b"
  using assms
  by (auto simp: validate_backend_identity_def backend_identity_def simp del: first_error.simps(2))

lemma check_backend_facts:
  "check_backend ids seen b = Inr () \<Longrightarrow> backend_id b \<in> set backend_ids \<and> validate_backend b ids = Inr ()"
  by (simp add: check_backend_def del: first_error.simps(2))

lemma backend_ids_identified: "i \<in> set backend_ids \<Longrightarrow> backend_identity i \<noteq> None"
  by (auto simp: backend_ids_def backend_identity_def)

lemma parse_manifest_ok:
  "parse_manifest d = Inr m \<Longrightarrow>
     validate_manifest m = Inr () \<and> \<not> doc_blank d \<and> doc_size d \<le> max_manifest_bytes \<and>
     (\<exists>v. doc_tokens d = tokens v \<and> unique_keys v \<and> nesting v \<le> 64 \<and> decode_manifest v = Inr m)"
proof -
  assume p: "parse_manifest d = Inr m"
  then obtain v rest where r: "read_value (doc_tokens d) = Some (v, rest)"
      and v: "decode_manifest v = Inr m" "expect_eof rest = Inr ()" "validate_manifest m = Inr ()"
      and s: "check_json_structure (doc_tokens d) = Inr ()" "\<not> doc_blank d" "doc_size d \<le> max_manifest_bytes"
    by (auto simp: parse_manifest_def bind_result_ok split: if_splits option.splits)
  have rest: "rest = []" using v(2) by (cases rest) (simp_all add: expect_eof_def)
  then have t: "doc_tokens d = tokens v" using r by (simp add: read_value_iff)
  from s(1) obtain r' where "walk 64 True (Value 0) (tokens v) = Inr r'"
    by (auto simp: check_json_structure_def bind_result_ok t)
  then have "unique_keys v \<and> nesting v \<le> 64" using walk_tokens(1) [of 64 True 0 v "[]" r'] by simp
  with t v s show ?thesis by blast
qed

text \<open>C30. Whatever manifest is parsed, its backends are exactly the ten known routes, each once,
  with the kind, launch mode, platforms and architectures its identity fixes; every source
  reference names one of its sources, whose ids are distinct and whose checks are not dated
  after the manifest; and a backend may say \<open>allow\<close> only if it is supported and officially
  authorized and is neither the macOS nor the hardware KVM route.\<close>

theorem manifest_inventory:
  assumes "parse_manifest d = Inr m"
  shows "distinct (map backend_id (manifest_backends m)) \<and>
    set (map backend_id (manifest_backends m)) = set backend_ids \<and>
    distinct (map source_id (manifest_sources m)) \<and>
    (\<forall>s \<in> set (manifest_sources m). \<exists>checked date. parse_date (source_checked_at s) = Some checked \<and>
       parse_date (as_of m) = Some date \<and> checked \<le> date) \<and>
    (\<forall>b \<in> set (manifest_backends m). \<exists>platforms.
       backend_identity (backend_id b) = Some (backend_kind b, launch_mode b, platforms) \<and>
       set (host_platforms b) = set platforms \<and> set (host_architectures b) = {''amd64'', ''arm64''} \<and>
       set (source_ids b) \<subseteq> set (map source_id (manifest_sources m)) \<and>
       (launch_verdict b \<noteq> ''deny'' \<longrightarrow>
          launch_verdict b = ''allow'' \<and> backend_state b = ''supported'' \<and> authorization b = ''official'' \<and>
          backend_id b \<notin> {''physical-macos-remote'', ''hardware-kvm-remote''}))"
proof -
  from parse_manifest_ok [OF assms] have "validate_manifest m = Inr ()" by blast
  then obtain date where date: "parse_date (as_of m) = Some date"
    and sources: "distinct (map source_id (manifest_sources m))"
      "\<And>s. s \<in> set (manifest_sources m) \<Longrightarrow> check_source date [] s = Inr ()"
    and ids: "distinct (map backend_id (manifest_backends m))"
      "set (map backend_id (manifest_backends m)) = set backend_ids"
    and backends: "\<And>b. b \<in> set (manifest_backends m) \<Longrightarrow>
       check_backend (map source_id (manifest_sources m)) [] b = Inr ()"
    by (rule validate_manifest_parts) blast
  have "\<exists>checked. parse_date (source_checked_at s) = Some checked \<and> checked \<le> date"
    if "s \<in> set (manifest_sources m)" for s
  proof -
    from sources(2) [OF that] have "check_dates date s = Inr ()"
      by (simp add: check_source_def del: first_error.simps(2))
    then show ?thesis by (auto simp: check_dates_def split: option.splits if_splits)
  qed
  moreover have "\<exists>platforms.
       backend_identity (backend_id b) = Some (backend_kind b, launch_mode b, platforms) \<and>
       set (host_platforms b) = set platforms \<and> set (host_architectures b) = {''amd64'', ''arm64''} \<and>
       set (source_ids b) \<subseteq> set (map source_id (manifest_sources m)) \<and>
       (launch_verdict b \<noteq> ''deny'' \<longrightarrow>
          launch_verdict b = ''allow'' \<and> backend_state b = ''supported'' \<and> authorization b = ''official'' \<and>
          backend_id b \<notin> {''physical-macos-remote'', ''hardware-kvm-remote''})"
    if "b \<in> set (manifest_backends m)" for b
  proof -
    from check_backend_facts [OF backends [OF that]]
    have known: "backend_id b \<in> set backend_ids"
      and v: "validate_backend b (map source_id (manifest_sources m)) = Inr ()" by blast+
    note f = validate_backend_facts [OF v]
    from backend_ids_identified [OF known] obtain kind mode platforms
      where i: "backend_identity (backend_id b) = Some (kind, mode, platforms)" by force
    from unpromoted_routes [OF f(8)] have
      "backend_id b \<in> {''physical-macos-remote'', ''hardware-kvm-remote''} \<longrightarrow> launch_verdict b = ''deny''"
      by (auto simp: unpromoted_def)
    with f(1,3,4) i backend_identity_facts [OF f(8) i] show ?thesis by auto
  qed
  ultimately show ?thesis using date sources(1) ids by (intro conjI ballI) simp_all
qed

section \<open>Writing a document\<close>

definition source_json :: "source \<Rightarrow> json" where
  "source_json s = JObj
     ([(''id'', json_string (source_id s)), (''title'', json_string (source_title s)),
       (''publisher'', json_string (source_publisher s)), (''url'', json_string (source_url s))] @
      (if source_published_at s = [] then [] else [(''publishedAt'', json_string (source_published_at s))]) @
      [(''checkedAt'', json_string (source_checked_at s))])"

definition text_array :: "string list \<Rightarrow> json" where
  "text_array ss = JArr (map json_string ss)"

definition backend_json :: "backend \<Rightarrow> json" where
  "backend_json b = JObj
     [(''id'', json_string (backend_id b)), (''displayName'', json_string (display_name b)),
      (''kind'', json_string (backend_kind b)), (''launchMode'', json_string (launch_mode b)),
      (''hostPlatforms'', text_array (host_platforms b)),
      (''hostArchitectures'', text_array (host_architectures b)),
      (''state'', json_string (backend_state b)), (''launchVerdict'', json_string (launch_verdict b)),
      (''authorization'', json_string (authorization b)), (''reasonCode'', json_string (reason_code b)),
      (''summary'', json_string (backend_summary b)), (''sourceIds'', text_array (source_ids b)),
      (''safetyNotes'', text_array (safety_notes b))]"

definition game_json :: "game \<Rightarrow> json" where
  "game_json g = JObj [(''name'', json_string (game_name g)), (''publisher'', json_string (game_publisher g))]"

definition policy_json :: "manifest_policy \<Rightarrow> json" where
  "policy_json p = JObj
     [(''defaultVerdict'', json_string (default_verdict p)), (''maxAgeDays'', json_int (max_age_days p)),
      (''requireOfficialAuthorization'', JBool (require_official_authorization p))]"

definition manifest_json :: "manifest \<Rightarrow> json" where
  "manifest_json m = JObj
     [(''$schema'', json_string (manifest_schema m)), (''schemaVersion'', json_string (manifest_schema_version m)),
      (''manifestId'', json_string (manifest_id m)), (''asOf'', json_string (as_of m)),
      (''game'', game_json (manifest_game m)), (''policy'', policy_json (manifest_policy_of m)),
      (''sources'', JArr (map source_json (manifest_sources m))),
      (''backends'', JArr (map backend_json (manifest_backends m)))]"

text \<open>The texts that \<open>json.Marshal\<close> writes unchanged are those in valid UTF-8.\<close>

definition source_texts :: "source \<Rightarrow> string list" where
  "source_texts s =
     [source_id s, source_title s, source_publisher s, source_url s, source_published_at s, source_checked_at s]"

definition backend_texts :: "backend \<Rightarrow> string list" where
  "backend_texts b =
     [backend_id b, display_name b, backend_kind b, launch_mode b, backend_state b, launch_verdict b,
      authorization b, reason_code b, backend_summary b] @
     host_platforms b @ host_architectures b @ source_ids b @ safety_notes b"

definition manifest_texts :: "manifest \<Rightarrow> string list" where
  "manifest_texts m =
     [manifest_schema m, manifest_schema_version m, manifest_id m, as_of m, game_name (manifest_game m),
      game_publisher (manifest_game m), default_verdict (manifest_policy_of m)] @
     concat (map source_texts (manifest_sources m)) @ concat (map backend_texts (manifest_backends m))"

abbreviation all_utf8 :: "string list \<Rightarrow> bool" where
  "all_utf8 ts \<equiv> list_all utf8_valid ts"

lemma json_string_valid [simp]: "utf8_valid s \<Longrightarrow> json_string s = JStr s"
  by (simp add: json_string_def coerce_utf8_valid)

lemma map_results_inverse:
  "(\<And>x. x \<in> set xs \<Longrightarrow> g (f x) = Inr x) \<Longrightarrow> map_results g (map f xs) = Inr xs"
  by (induction xs) auto

lemma text_array_inverse: "all_utf8 ss \<Longrightarrow> map_results text_element (map json_string ss) = Inr ss"
  by (rule map_results_inverse) (auto simp: text_element_def list_all_iff)

lemma decode_source_json: "all_utf8 (source_texts s) \<Longrightarrow> decode_source (source_json s) = Inr s"
  by (simp add: decode_source_def source_json_def source_texts_def object_or_null_def text_member_def
      object_members_def)

lemma decode_backend_json: "all_utf8 (backend_texts b) \<Longrightarrow> decode_backend (backend_json b) = Inr b"
  by (simp add: decode_backend_def backend_json_def backend_texts_def object_or_null_def text_member_def
      list_member_def object_members_def text_array_def text_array_inverse)

lemma check_source_fields_json:
  "(\<And>s. s \<in> set ss \<Longrightarrow> all_utf8 (source_texts s) \<and> check_dates d s = Inr ()) \<Longrightarrow>
     check_source_fields i (map source_json ss) = Inr ()"
proof (induction ss arbitrary: i)
  case (Cons s ss)
  from Cons.prems [of s] have s: "all_utf8 (source_texts s)" "check_dates d s = Inr ()" by auto
  have "exact_object (Some (source_json s)) p source_fields = Inr (source_json s)" for p
    by (simp add: exact_object_def source_json_def source_fields_def)
  moreover have "check_published i (source_json s) = Inr ()" for i
    using s by (auto simp: check_published_def source_json_def source_texts_def object_members_def check_dates_def
        split: if_splits option.splits)
  ultimately show ?case using Cons by simp
qed simp

lemma check_backend_fields_json: "check_backend_fields i (map backend_json bs) = Inr ()"
  by (induction bs arbitrary: i) (simp_all add: exact_object_def backend_json_def backend_fields_def)

lemma unique_keys_elements_iff: "unique_keys_elements js \<longleftrightarrow> list_all unique_keys js"
  by (induction js) simp_all

lemma nesting_elements_le: "(\<And>j. j \<in> set js \<Longrightarrow> nesting j < n) \<Longrightarrow> nesting_elements js \<le> n"
  by (induction js) (auto simp: Suc_le_eq)

lemma text_array_shape [simp]:
  "unique_keys (text_array ss)" "nesting (text_array ss) \<le> Suc 0"
  by (simp_all add: text_array_def unique_keys_elements_iff json_string_def list_all_iff)
     (rule nesting_elements_le, auto simp: json_string_def)

lemma entry_shape:
  "unique_keys (source_json s)" "nesting (source_json s) \<le> 2"
  "unique_keys (backend_json b)" "nesting (backend_json b) \<le> 2"
  by (simp_all add: source_json_def backend_json_def json_string_def)

lemma manifest_json_shape: "unique_keys (manifest_json m) \<and> nesting (manifest_json m) \<le> 64"
proof -
  have "nesting_elements (map source_json ss) \<le> 63" "nesting_elements (map backend_json bs) \<le> 63" for ss bs
    by (auto intro!: nesting_elements_le le_less_trans [OF entry_shape(2)] le_less_trans [OF entry_shape(4)])
  then show ?thesis
    by (simp add: manifest_json_def game_json_def policy_json_def json_string_def json_int_def
        unique_keys_elements_iff list_all_iff entry_shape(1,3))
qed

lemma json_int_shape: "\<exists>s. json_int n = JNum s"
  by (simp add: json_int_def)

lemma int_member_json:
  assumes "member v k = Some (json_int n)" "- (2 ^ 63) \<le> n" "n < 2 ^ 63"
  shows "int_member v k = Inr n"
proof -
  obtain s where "json_int n = JNum s" using json_int_shape by blast
  with assms decode_json_int [OF assms(2,3)] show ?thesis by (simp add: int_member_def)
qed

lemma decode_policy_json:
  assumes "utf8_valid (default_verdict p)" "1 \<le> max_age_days p" "max_age_days p \<le> 365"
  shows "decode_policy (policy_json p) = Inr p"
proof -
  have "int_member (policy_json p) ''maxAgeDays'' = Inr (max_age_days p)"
    by (rule int_member_json) (use assms in \<open>simp_all add: policy_json_def object_members_def\<close>)
  moreover have "text_member (policy_json p) ''defaultVerdict'' = Inr (default_verdict p)"
    "bool_member (policy_json p) ''requireOfficialAuthorization'' = Inr (require_official_authorization p)"
    using assms by (simp_all add: policy_json_def object_members_def text_member_def bool_member_def)
  ultimately show ?thesis by (simp add: decode_policy_def)
qed

lemma manifest_json_members:
  "member (manifest_json m) ''$schema'' = Some (json_string (manifest_schema m))"
  "member (manifest_json m) ''schemaVersion'' = Some (json_string (manifest_schema_version m))"
  "member (manifest_json m) ''manifestId'' = Some (json_string (manifest_id m))"
  "member (manifest_json m) ''asOf'' = Some (json_string (as_of m))"
  "member (manifest_json m) ''game'' = Some (game_json (manifest_game m))"
  "member (manifest_json m) ''policy'' = Some (policy_json (manifest_policy_of m))"
  "member (manifest_json m) ''sources'' = Some (JArr (map source_json (manifest_sources m)))"
  "member (manifest_json m) ''backends'' = Some (JArr (map backend_json (manifest_backends m)))"
  by (simp_all add: manifest_json_def object_members_def)

lemma decode_game_json:
  "utf8_valid (game_name g) \<Longrightarrow> utf8_valid (game_publisher g) \<Longrightarrow> decode_game (game_json g) = Inr g"
  by (simp add: decode_game_def game_json_def text_member_def object_members_def)

lemma decode_manifest_json:
  assumes texts: "all_utf8 (manifest_texts m)" and v: "validate_manifest_header m = Inr ()"
  shows "decode_manifest (manifest_json m) = Inr m"
proof -
  have sources: "map_results decode_source (map source_json (manifest_sources m)) = Inr (manifest_sources m)"
    by (rule map_results_inverse, rule decode_source_json)
       (use texts in \<open>auto simp: manifest_texts_def list_all_iff\<close>)
  have backends: "map_results decode_backend (map backend_json (manifest_backends m)) = Inr (manifest_backends m)"
    by (rule map_results_inverse, rule decode_backend_json)
       (use texts in \<open>auto simp: manifest_texts_def list_all_iff\<close>)
  have policy: "decode_policy (policy_json (manifest_policy_of m)) = Inr (manifest_policy_of m)"
    by (rule decode_policy_json)
       (use texts v in \<open>auto simp: manifest_texts_def validate_manifest_header_def simp del: first_error.simps(2)\<close>)
  have game: "decode_game (game_json (manifest_game m)) = Inr (manifest_game m)"
    by (rule decode_game_json) (use texts in \<open>auto simp: manifest_texts_def\<close>)
  have shapes: "object_or_null (game_json g) = Inr (game_json g)" "object_or_null (policy_json p) = Inr (policy_json p)" for g p
    by (simp_all add: object_or_null_def game_json_def policy_json_def)
  have "utf8_valid (manifest_schema m)" "utf8_valid (manifest_schema_version m)" "utf8_valid (manifest_id m)"
    "utf8_valid (as_of m)" using texts by (simp_all add: manifest_texts_def)
  then show ?thesis
    by (simp add: decode_manifest_def text_member_def object_member_def list_member_def manifest_json_members
        sources backends policy game shapes)
qed

lemma check_exact_fields_json:
  assumes "all_utf8 (manifest_texts m)" "\<And>s. s \<in> set (manifest_sources m) \<Longrightarrow> check_dates d s = Inr ()"
  shows "check_exact_value (manifest_json m) = Inr ()"
proof -
  have objects: "exact_object (Some (manifest_json m)) ''$'' top_fields = Inr (manifest_json m)"
    "exact_object (Some (game_json g)) ''$.game'' [''name'', ''publisher''] = Inr (game_json g)"
    "exact_object (Some (policy_json p)) ''$.policy''
       [''defaultVerdict'', ''maxAgeDays'', ''requireOfficialAuthorization''] = Inr (policy_json p)" for g p
    by (simp_all add: exact_object_def manifest_json_def top_fields_def game_json_def policy_json_def)
  have "check_source_fields 0 (map source_json (manifest_sources m)) = Inr ()"
    by (rule check_source_fields_json [where d = d])
       (use assms in \<open>auto simp: manifest_texts_def list_all_iff\<close>)
  then show ?thesis
    by (simp add: check_exact_value_def manifest_json_members objects exact_array_def check_backend_fields_json)
qed

lemma parse_value_document:
  assumes "unique_keys v" "nesting v \<le> 64" "check_exact_value v = Inr ()" "decode_manifest v = Inr m"
    "validate_manifest m = Inr ()" "n \<le> max_manifest_bytes"
  shows "parse_manifest \<lparr>doc_size = n, doc_blank = False, doc_tokens = tokens v\<rparr> = Inr m"
proof -
  have "walk 64 True (Value 0) (tokens v @ []) = Inr []" using assms(1,2) by (simp only: walk_tokens(1)) simp
  then have "check_json_structure (tokens v) = Inr ()" by (simp add: check_json_structure_def expect_eof_def)
  moreover have "read_value (tokens v) = Some (v, [])" by (simp add: read_value_iff)
  ultimately show ?thesis using assms by (simp add: parse_manifest_def check_exact_fields_def expect_eof_def)
qed

lemma manifest_reads_back:
  assumes "validate_manifest m = Inr ()" "all_utf8 (manifest_texts m)" "n \<le> max_manifest_bytes"
  shows "parse_manifest \<lparr>doc_size = n, doc_blank = False, doc_tokens = tokens (manifest_json m)\<rparr> = Inr m"
proof -
  from assms(1) obtain d where h: "validate_manifest_header m = Inr ()"
    and "\<And>s. s \<in> set (manifest_sources m) \<Longrightarrow> check_source d [] s = Inr ()"
    by (rule validate_manifest_parts) blast
  then have "check_dates d s = Inr ()" if "s \<in> set (manifest_sources m)" for s
    using that by (simp add: check_source_def del: first_error.simps(2))
  then have "check_exact_value (manifest_json m) = Inr ()"
    using check_exact_fields_json [OF assms(2)] by blast
  with manifest_json_shape [of m] decode_manifest_json [OF assms(2) h] assms(1,3) show ?thesis
    by (intro parse_value_document) auto
qed

text \<open>A manifest that comes back has texts that marshalling did not change.\<close>

lemma map_results_fixed: "map_results g (map f xs) = Inr xs \<Longrightarrow> x \<in> set xs \<Longrightarrow> g (f x) = Inr x"
  by (induction xs) (auto simp: bind_result_ok)

lemma text_array_fixed: "map_results text_element (map json_string ss) = Inr ss \<Longrightarrow> all_utf8 ss"
  by (auto dest!: map_results_fixed simp: list_all_iff text_element_def json_string_def coerce_fixed_iff)

lemma text_member_string: "member v k = Some (json_string x) \<Longrightarrow> text_member v k = Inr (coerce_utf8 x)"
  by (simp add: text_member_def json_string_def)

lemma text_array_member: "member v k = Some (text_array xs) \<Longrightarrow>
    list_member text_element v k = map_results text_element (map json_string xs)"
  by (simp add: list_member_def text_array_def)

lemma source_reads_back:
  assumes "decode_source (source_json s) = Inr s"
  shows "all_utf8 (source_texts s)"
proof -
  have "coerce_utf8 [] = []" by code_simp
  then have "text_member (source_json s) ''publishedAt'' = Inr (coerce_utf8 (source_published_at s))"
    by (cases "source_published_at s = []")
       (simp_all add: source_json_def text_member_def object_members_def json_string_def)
  with assms show ?thesis
    by (cases s) (auto simp: decode_source_def bind_result_ok text_member_string source_json_def source_texts_def
        object_members_def coerce_fixed_iff)
qed

lemma backend_reads_back:
  assumes "decode_backend (backend_json b) = Inr b"
  shows "all_utf8 (backend_texts b)"
  using assms
  by (cases b) (auto simp: decode_backend_def bind_result_ok text_member_string text_array_member backend_texts_def
      backend_json_def object_members_def coerce_fixed_iff dest!: text_array_fixed)

lemma manifest_texts_read_back:
  assumes "decode_manifest (manifest_json m) = Inr m"
  shows "all_utf8 (manifest_texts m)"
proof -
  have game: "decode_game (game_json g) = Inr g' \<longleftrightarrow>
      g' = \<lparr>game_name = coerce_utf8 (game_name g), game_publisher = coerce_utf8 (game_publisher g)\<rparr>" for g g'
    by (auto simp: decode_game_def game_json_def text_member_def object_members_def json_string_def)
  have policy: "decode_policy (policy_json p) = Inr p' \<Longrightarrow> default_verdict p' = coerce_utf8 (default_verdict p)" for p p'
    by (auto simp: decode_policy_def policy_json_def text_member_def object_members_def json_string_def bind_result_ok)
  have shapes: "object_or_null (game_json g) = Inr (game_json g)" "object_or_null (policy_json p) = Inr (policy_json p)" for g p
    by (simp_all add: object_or_null_def game_json_def policy_json_def)
  have "decode_game (game_json (manifest_game m)) = Inr (manifest_game m)"
    and pol: "decode_policy (policy_json (manifest_policy_of m)) = Inr (manifest_policy_of m)"
    and sources: "map_results decode_source (map source_json (manifest_sources m)) = Inr (manifest_sources m)"
    and backends: "map_results decode_backend (map backend_json (manifest_backends m)) = Inr (manifest_backends m)"
    and header: "coerce_utf8 (manifest_schema m) = manifest_schema m"
      "coerce_utf8 (manifest_schema_version m) = manifest_schema_version m"
      "coerce_utf8 (manifest_id m) = manifest_id m" "coerce_utf8 (as_of m) = as_of m"
    using assms
    by (cases m; auto simp: decode_manifest_def bind_result_ok text_member_string object_member_def list_member_def
        manifest_json_members shapes)+
  then have "coerce_utf8 (game_name (manifest_game m)) = game_name (manifest_game m)"
    "coerce_utf8 (game_publisher (manifest_game m)) = game_publisher (manifest_game m)"
    unfolding game by (metis game.select_convs)+
  moreover have "\<forall>s \<in> set (manifest_sources m). all_utf8 (source_texts s)"
    "\<forall>b \<in> set (manifest_backends m). all_utf8 (backend_texts b)"
    using map_results_fixed [OF sources] map_results_fixed [OF backends] source_reads_back backend_reads_back by blast+
  ultimately show ?thesis
    using header policy [OF pol, symmetric] by (auto simp: manifest_texts_def coerce_fixed_iff list_all_iff)
qed

lemma parsed_documents_decode:
  assumes "parse_manifest \<lparr>doc_size = n, doc_blank = False, doc_tokens = tokens v\<rparr> = Inr m"
  shows "n \<le> max_manifest_bytes" "decode_manifest v = Inr m"
proof -
  have "read_value (tokens v) = Some (v, [])" by (simp add: read_value_iff)
  with assms show "n \<le> max_manifest_bytes" "decode_manifest v = Inr m"
    by (auto simp: parse_manifest_def bind_result_ok split: if_splits)
qed

text \<open>C36. A valid manifest survives being written and read back exactly when its texts are valid UTF-8
  and the printed document is within the size limit: then the document that marshalling makes of it
  passes the duplicate-key walk, the exact-field check and validation, and decodes to the same
  manifest. Validation asks for neither, and without either the same manifest does not come back.\<close>

theorem manifest_roundtrip:
  assumes "validate_manifest m = Inr ()"
  shows "parse_manifest \<lparr>doc_size = n, doc_blank = False, doc_tokens = tokens (manifest_json m)\<rparr> = Inr m \<longleftrightarrow>
    n \<le> 1048576 \<and> all_utf8 (manifest_texts m)"
  using manifest_reads_back [OF assms, of n] manifest_texts_read_back parsed_documents_decode
  by (auto simp: max_manifest_bytes_def)

text \<open>\<open>CanonicalSHA256\<close>: the digest of the document printed from a validated manifest, whose schema
  reference is made the canonical one. Printing and hashing are the argument.\<close>

definition canonical_sha256 :: "(json \<Rightarrow> string) \<Rightarrow> manifest \<Rightarrow> manifest_error + string" where
  "canonical_sha256 digest m =
     bind_result (validate_manifest m) (\<lambda>_. Inr (digest (manifest_json (m\<lparr>manifest_schema := schema_id\<rparr>))))"

end
