(* ===== verification/Compat_Policy.thy ===== *)
theory Compat_Policy
  imports Compat_Manifest
begin

text \<open>
  \<open>internal/compat/freshness.go\<close> and \<open>internal/compat/policy.go\<close>: how old the evidence of a
  manifest is, and the launch verdict. A time before year 0 counts as its first day (\<open>time.Now\<close>
  gives none). A message is a
  list of pieces, where \<open>Quoted\<close> stands for the \<open>%q\<close> of a format.
\<close>

section \<open>Freshness\<close>

definition date_only_utc :: "go_time \<Rightarrow> nat" where
  "date_only_utc t = nat (time_seconds t div 86400)"

datatype freshness_state = No_State | Fresh | Stale | Future

record freshness =
  freshness_state :: freshness_state
  freshness_as_of :: string
  oldest_source_checked_at :: string
  evaluated_at :: string
  expires_at :: string
  age_days :: int
  freshness_max_age_days :: int

definition no_freshness :: freshness where
  "no_freshness =
     \<lparr>freshness_state = No_State, freshness_as_of = [], oldest_source_checked_at = [], evaluated_at = [],
      expires_at = [], age_days = 0, freshness_max_age_days = 0\<rparr>"

datatype freshness_error = Time_Required | Manifest_Fault manifest_error

text \<open>The dates of a validated manifest; the errors of \<open>parseDate\<close> are dropped in the code, and
  the zero time would stand in.\<close>

definition date_of :: "string \<Rightarrow> nat" where
  "date_of s = (case parse_date s of Some d \<Rightarrow> d | None \<Rightarrow> zero_day)"

fun oldest_check :: "nat \<Rightarrow> source list \<Rightarrow> nat" where
  "oldest_check oldest [] = oldest"
| "oldest_check oldest (s # ss) =
     (let checked = date_of (source_checked_at s)
      in oldest_check (if checked < oldest then checked else oldest) ss)"

definition freshness_at :: "manifest \<Rightarrow> go_time \<Rightarrow> freshness_error + freshness" where
  "freshness_at m t =
     (if is_zero t then Inl Time_Required
      else
        bind_result (map_error Manifest_Fault (validate_manifest m)) (\<lambda>_.
          let date = date_of (as_of m);
              oldest = oldest_check date (manifest_sources m);
              evaluated = date_only_utc t;
              max_age = max_age_days (manifest_policy_of m);
              report = \<lparr>freshness_state = No_State, freshness_as_of = as_of m,
                        oldest_source_checked_at = format_date oldest, evaluated_at = format_date evaluated,
                        expires_at = format_date (nat (int oldest + max_age)),
                        age_days = int evaluated - int oldest, freshness_max_age_days = max_age\<rparr>
          in
            if evaluated < date \<or> evaluated < oldest then Inr (report\<lparr>freshness_state := Future\<rparr>)
            else if list_ex (\<lambda>s. evaluated < date_of (source_checked_at s)) (manifest_sources m)
            then Inr (report\<lparr>freshness_state := Future\<rparr>)
            else if freshness_max_age_days report < age_days report
            then Inr (report\<lparr>freshness_state := Stale\<rparr>)
            else Inr (report\<lparr>freshness_state := Fresh\<rparr>)))"

section \<open>Verdicts\<close>

record launch_request =
  request_backend :: string
  request_platform :: string
  request_architecture :: string

datatype piece = Text string | Quoted string

record verdict =
  decision :: string
  code :: string
  message :: "piece list"
  verdict_backend :: string
  manifest_as_of :: string
  verdict_freshness :: freshness
  evidence_urls :: "string list"
  external_loaded :: bool

definition is_allowed :: "verdict \<Rightarrow> bool" where
  "is_allowed v \<longleftrightarrow> decision v = ''allow''"

record policy =
  authoritative :: manifest
  external_manifest :: "manifest option"
  locked_code :: string
  locked_message :: string

definition empty_manifest :: manifest where
  "empty_manifest =
     \<lparr>manifest_schema = [], manifest_schema_version = [], manifest_id = [], as_of = [],
      manifest_game = \<lparr>game_name = [], game_publisher = []\<rparr>,
      manifest_policy_of = \<lparr>default_verdict = [], max_age_days = 0, require_official_authorization = False\<rparr>,
      manifest_sources = [], manifest_backends = []\<rparr>"

definition empty_policy :: policy where
  "empty_policy =
     \<lparr>authoritative = empty_manifest, external_manifest = None, locked_code = [], locked_message = []\<rparr>"

definition lock :: "string \<Rightarrow> string \<Rightarrow> policy \<Rightarrow> policy" where
  "lock c msg p = p\<lparr>locked_code := c, locked_message := msg\<rparr>"

text \<open>\<open>NewPolicy\<close>: a policy comes back with the error, if there is one.\<close>

definition new_policy :: "document \<Rightarrow> document \<Rightarrow> policy \<times> manifest_error option" where
  "new_policy compiled_in external_json =
     (case embedded_manifest compiled_in of
        Inl e \<Rightarrow>
          (lock ''EMBEDDED_MANIFEST_INVALID'' ''The compiled compatibility authority is invalid.'' empty_policy, Some e)
      | Inr m \<Rightarrow>
          (let p = empty_policy\<lparr>authoritative := m\<rparr>
           in if doc_blank external_json then (p, None)
              else
                (case parse_manifest external_json of
                   Inl e \<Rightarrow>
                     (lock ''EXTERNAL_MANIFEST_INVALID''
                        ''The external compatibility manifest is invalid; launch is locked.'' p, Some e)
                 | Inr external \<Rightarrow> (p\<lparr>external_manifest := Some external\<rparr>, None))))"

definition no_document :: document where
  "no_document = \<lparr>doc_size = 0, doc_blank = True, doc_tokens = []\<rparr>"

definition default_policy :: "document \<Rightarrow> policy \<times> manifest_error option" where
  "default_policy compiled_in = new_policy compiled_in no_document"

text \<open>\<open>AuthoritativeManifest\<close>, with the size of the text \<open>json.Marshal\<close> writes.\<close>

definition authoritative_manifest :: "(json \<Rightarrow> nat) \<Rightarrow> policy option \<Rightarrow> manifest_error option + manifest" where
  "authoritative_manifest printed_size p =
     (case p of
        None \<Rightarrow> Inl None
      | Some p \<Rightarrow>
          if manifest_schema_version (authoritative p) = [] then Inl None
          else
            map_error Some
              (parse_manifest \<lparr>doc_size = printed_size (manifest_json (authoritative p)), doc_blank = False,
                               doc_tokens = tokens (manifest_json (authoritative p))\<rparr>))"

definition find_backend :: "manifest \<Rightarrow> string \<Rightarrow> backend option" where
  "find_backend m i = find (\<lambda>b. backend_id b = i) (manifest_backends m)"

definition authoritative_evidence_urls :: "manifest \<Rightarrow> backend \<Rightarrow> string list" where
  "authoritative_evidence_urls m b =
     (let urls = map_of (rev (map (\<lambda>s. (source_id s, source_url s)) (manifest_sources m)))
      in List.map_filter urls (source_ids b))"

definition deny :: "string \<Rightarrow> piece list \<Rightarrow> string \<Rightarrow> verdict" where
  "deny c msg i =
     \<lparr>decision = ''deny'', code = (if trim_space c = [] then ''DENIED'' else trim_space c), message = msg,
      verdict_backend = i, manifest_as_of = [], verdict_freshness = no_freshness, evidence_urls = [],
      external_loaded = False\<rparr>"

definition denial :: "policy \<Rightarrow> string \<Rightarrow> piece list \<Rightarrow> string \<Rightarrow> freshness \<Rightarrow> verdict" where
  "denial p c msg i f =
     (deny c msg i)
       \<lparr>manifest_as_of := as_of (authoritative p), verdict_freshness := f,
        external_loaded := external_manifest p \<noteq> None,
        evidence_urls :=
          (case find_backend (authoritative p) i of
             Some b \<Rightarrow> authoritative_evidence_urls (authoritative p) b
           | None \<Rightarrow> [])\<rparr>"

section \<open>The launch verdict\<close>

text \<open>The gates in the order of \<open>EvaluateAt\<close>: each that fails is a denial.\<close>

definition request_gate :: "policy \<Rightarrow> launch_request \<Rightarrow> verdict + backend" where
  "request_gate p r =
     (if \<not> known_platform (request_platform r) then
        Inl (denial p ''UNKNOWN_HOST_PLATFORM''
          [Text ''Host platform '', Quoted (request_platform r), Text '' is not recognized.'']
          (request_backend r) no_freshness)
      else if \<not> known_architecture (request_architecture r) then
        Inl (denial p ''UNKNOWN_HOST_ARCHITECTURE''
          [Text ''Host architecture '', Quoted (request_architecture r), Text '' is not supported by this manifest.'']
          (request_backend r) no_freshness)
      else
        (case find_backend (authoritative p) (request_backend r) of
           None \<Rightarrow>
             Inl (denial p ''UNKNOWN_BACKEND''
               [Text ''Backend '', Quoted (request_backend r),
                Text '' is not present in the embedded compatibility authority.'']
               (request_backend r) no_freshness)
         | Some b \<Rightarrow>
             if request_platform r \<notin> set (host_platforms b) then
               Inl (denial p ''BACKEND_PLATFORM_MISMATCH''
                 [Text ''Backend '', Quoted (backend_id b), Text '' is not defined for host platform '',
                  Quoted (request_platform r), Text ''.'']
                 (backend_id b) no_freshness)
             else if request_architecture r \<notin> set (host_architectures b) then
               Inl (denial p ''BACKEND_ARCHITECTURE_MISMATCH''
                 [Text ''Backend '', Quoted (backend_id b), Text '' is not defined for host architecture '',
                  Quoted (request_architecture r), Text ''.'']
                 (backend_id b) no_freshness)
             else Inr b))"

definition freshness_gate :: "policy \<Rightarrow> backend \<Rightarrow> go_time \<Rightarrow> verdict + freshness" where
  "freshness_gate p b t =
     (case freshness_at (authoritative p) t of
        Inl _ \<Rightarrow>
          Inl (denial p ''MANIFEST_FRESHNESS_INVALID''
            [Text ''The embedded manifest freshness could not be verified.''] (backend_id b) no_freshness)
      | Inr f \<Rightarrow>
          (case freshness_state f of
             Fresh \<Rightarrow> Inr f
           | Stale \<Rightarrow>
               Inl (denial p ''MANIFEST_STALE''
                 [Text ''The embedded compatibility evidence is stale and must be reviewed before launch.'']
                 (backend_id b) f)
           | Future \<Rightarrow>
               Inl (denial p ''MANIFEST_NOT_YET_EFFECTIVE''
                 [Text ''The embedded compatibility evidence is dated in the future.''] (backend_id b) f)
           | No_State \<Rightarrow>
               Inl (denial p ''MANIFEST_FRESHNESS_INVALID''
                 [Text ''The embedded manifest has an unknown freshness state.''] (backend_id b) f)))"

definition embedded_gate :: "policy \<Rightarrow> backend \<Rightarrow> freshness \<Rightarrow> verdict + unit" where
  "embedded_gate p b f =
     first_error
       [require (launch_verdict b = ''allow'')
          (denial p (reason_code b) [Text (backend_summary b)] (backend_id b) f),
        require (backend_state b = ''supported'' \<and> authorization b = ''official'')
          (denial p ''EMBEDDED_AUTHORIZATION_INCOMPLETE''
            [Text ''The embedded authority lacks both supported state and official authorization.'']
            (backend_id b) f),
        require (default_verdict (manifest_policy_of (authoritative p)) = ''deny'' \<and>
            require_official_authorization (manifest_policy_of (authoritative p)))
          (denial p ''EMBEDDED_POLICY_INVARIANT_FAILED''
            [Text ''The embedded fail-closed policy invariant failed.''] (backend_id b) f)]"

definition external_gate :: "policy \<Rightarrow> backend \<Rightarrow> freshness \<Rightarrow> go_time \<Rightarrow> verdict + unit" where
  "external_gate p b f t =
     (case external_manifest p of
        None \<Rightarrow> Inr ()
      | Some m \<Rightarrow>
          first_error
            [require (case freshness_at m t of Inl _ \<Rightarrow> False | Inr f' \<Rightarrow> freshness_state f' = Fresh)
               (denial p ''EXTERNAL_RESTRICTION''
                 [Text ''External compatibility observations are invalid, stale, or not yet effective.'']
                 (backend_id b) f),
             require (case find_backend m (backend_id b) of
                 None \<Rightarrow> False
               | Some e \<Rightarrow> launch_verdict e = ''allow'' \<and> backend_state e = ''supported'' \<and>
                            authorization e = ''official'')
               (denial p ''EXTERNAL_RESTRICTION''
                 [Text ''External compatibility observations do not confirm the embedded allow decision.'']
                 (backend_id b) f)])"

definition authorized :: "policy \<Rightarrow> backend \<Rightarrow> freshness \<Rightarrow> verdict" where
  "authorized p b f =
     \<lparr>decision = ''allow'', code = ''AUTHORIZED'',
      message = [Text ''Launch is authorized by fresh embedded policy and was not restricted by external observations.''],
      verdict_backend = backend_id b, manifest_as_of = as_of (authoritative p), verdict_freshness = f,
      evidence_urls = authoritative_evidence_urls (authoritative p) b,
      external_loaded = external_manifest p \<noteq> None\<rparr>"

definition either :: "'a + 'a \<Rightarrow> 'a" where
  "either r = (case r of Inl a \<Rightarrow> a | Inr a \<Rightarrow> a)"

definition evaluate_at :: "policy option \<Rightarrow> launch_request \<Rightarrow> go_time \<Rightarrow> verdict" where
  "evaluate_at policy r t =
     (case policy of
        None \<Rightarrow> deny ''POLICY_UNAVAILABLE'' [Text ''Compatibility policy is unavailable.''] (request_backend r)
      | Some p \<Rightarrow>
          if locked_code p \<noteq> [] then
            (deny (locked_code p) [Text (locked_message p)] (request_backend r))
              \<lparr>external_loaded := external_manifest p \<noteq> None\<rparr>
          else
            either
              (bind_result (request_gate p r) (\<lambda>b.
               bind_result (freshness_gate p b t) (\<lambda>f.
               bind_result (embedded_gate p b f) (\<lambda>_.
               bind_result (external_gate p b f t) (\<lambda>_. Inr (authorized p b f)))))))"

section \<open>The window of freshness\<close>

lemma date_of_parse: "parse_date s = Some d \<Longrightarrow> date_of s = d"
  by (simp add: date_of_def)

lemma oldest_check_Min: "oldest_check d ss = Min (insert d ((\<lambda>s. date_of (source_checked_at s)) ` set ss))"
proof (induction ss arbitrary: d)
  case (Cons s ss)
  let ?c = "date_of (source_checked_at s)" and ?rest = "(\<lambda>s. date_of (source_checked_at s)) ` set ss"
  have "oldest_check d (s # ss) = Min (insert (min ?c d) ?rest)"
    using Cons.IH by (simp add: Let_def min_def)
  also have "\<dots> = min (min ?c d) (Min (insert ?c (insert d ?rest)))"
    by (cases "?rest = {}") (auto simp: min.assoc min.commute min.left_commute)
  also have "\<dots> = Min (insert d (insert ?c ?rest))"
    by (cases "?rest = {}") (auto simp: min.assoc min.commute min.left_commute)
  finally show ?case by simp
qed simp

definition evidence_dates :: "manifest \<Rightarrow> nat set" where
  "evidence_dates m = insert (date_of (as_of m)) ((\<lambda>s. date_of (source_checked_at s)) ` set (manifest_sources m))"

definition oldest_evidence :: "manifest \<Rightarrow> nat" where
  "oldest_evidence m = oldest_check (date_of (as_of m)) (manifest_sources m)"

lemma oldest_evidence_Min: "oldest_evidence m = Min (evidence_dates m)"
  by (simp add: oldest_evidence_def evidence_dates_def oldest_check_Min)

lemma checked_by_as_of:
  assumes "validate_manifest m = Inr ()" "s \<in> set (manifest_sources m)"
  shows "date_of (source_checked_at s) \<le> date_of (as_of m)"
proof -
  from assms(1) obtain d where d: "parse_date (as_of m) = Some d" "check_source d [] s = Inr ()"
    by (rule validate_manifest_parts) (use assms(2) in blast)
  from d(2) have "check_dates d s = Inr ()" by (simp add: check_source_def del: first_error.simps(2))
  with d(1) show ?thesis by (auto simp: check_dates_def date_of_def split: option.splits if_splits)
qed

lemma oldest_evidence_le: "oldest_evidence m \<le> date_of (as_of m)"
  by (simp add: oldest_evidence_Min evidence_dates_def)

definition in_window :: "manifest \<Rightarrow> go_time \<Rightarrow> bool" where
  "in_window m t \<longleftrightarrow>
     date_of (as_of m) \<le> date_only_utc t \<and>
     int (date_only_utc t) \<le> int (oldest_evidence m) + max_age_days (manifest_policy_of m)"

lemma freshness_state_at:
  assumes "validate_manifest m = Inr ()" "\<not> is_zero t"
  shows "\<exists>f. freshness_at m t = Inr f \<and>
    freshness_state f =
      (if date_only_utc t < date_of (as_of m) then Future else if in_window m t then Fresh else Stale)"
proof -
  have none: "\<not> list_ex (\<lambda>s. date_only_utc t < date_of (source_checked_at s)) (manifest_sources m)"
    if "\<not> date_only_utc t < date_of (as_of m)"
    using that checked_by_as_of [OF assms(1)] by (fastforce simp: list_ex_iff)
  show ?thesis
    using none oldest_evidence_le [of m] assms
    by (auto simp: freshness_at_def Let_def in_window_def oldest_evidence_def)
qed

lemma fresh_iff_in_window:
  "(case freshness_at m t of Inl _ \<Rightarrow> False | Inr f \<Rightarrow> freshness_state f = Fresh) \<longleftrightarrow>
     validate_manifest m = Inr () \<and> \<not> is_zero t \<and> in_window m t"
proof (cases "validate_manifest m = Inr () \<and> \<not> is_zero t")
  case True
  with freshness_state_at [of m t] obtain f where "freshness_at m t = Inr f"
    "freshness_state f = (if date_only_utc t < date_of (as_of m) then Future else if in_window m t then Fresh else Stale)"
    by blast
  with True show ?thesis by (auto simp: in_window_def)
next
  case False
  then have "\<exists>e. freshness_at m t = Inl e"
    by (cases "validate_manifest m") (auto simp: freshness_at_def)
  with False show ?thesis by auto
qed

text \<open>C28. The freshness of a valid manifest is a window of days: it is \<open>future\<close> before its date,
  \<open>fresh\<close> from that day until its maximum age has passed since the oldest of its date and its
  source checks, both days included, and \<open>stale\<close> from the next day on; the reported expiry is
  the last day of the window.\<close>

theorem freshness_window:
  assumes "validate_manifest m = Inr ()" "\<not> is_zero t"
  shows "\<exists>f. freshness_at m t = Inr f \<and>
    expires_at f = format_date (Min (evidence_dates m) + nat (max_age_days (manifest_policy_of m))) \<and>
    (freshness_state f = Future \<longleftrightarrow> date_only_utc t < date_of (as_of m)) \<and>
    (freshness_state f = Fresh \<longleftrightarrow>
       date_of (as_of m) \<le> date_only_utc t \<and>
       date_only_utc t \<le> Min (evidence_dates m) + nat (max_age_days (manifest_policy_of m))) \<and>
    (freshness_state f = Stale \<longleftrightarrow>
       date_of (as_of m) \<le> date_only_utc t \<and>
       Min (evidence_dates m) + nat (max_age_days (manifest_policy_of m)) < date_only_utc t)"
proof -
  from assms(1) have "validate_manifest_header m = Inr ()" by (rule validate_manifest_parts) blast
  then have age: "1 \<le> max_age_days (manifest_policy_of m)"
    by (simp add: validate_manifest_header_def del: first_error.simps(2))
  obtain f where f: "freshness_at m t = Inr f"
    "freshness_state f = (if date_only_utc t < date_of (as_of m) then Future else if in_window m t then Fresh else Stale)"
    using freshness_state_at [OF assms] by blast
  from f(1) assms have "expires_at f = format_date (nat (int (oldest_evidence m) + max_age_days (manifest_policy_of m)))"
    by (auto simp: freshness_at_def Let_def oldest_evidence_def split: if_splits)
  with f age show ?thesis
    by (auto simp: in_window_def oldest_evidence_Min [symmetric] nat_add_distrib nat_le_iff split: if_splits)
qed

section \<open>Verdicts that only restrict\<close>

text \<open>
  The contract of the launch gate towards its callers: an authority decides requests, further
  observations may be attached to it, and attaching them or locking it never turns a denial
  into a permission.
\<close>

locale deny_only =
  fixes permits :: "'p \<Rightarrow> 'r \<Rightarrow> bool"
    and attach :: "'o \<Rightarrow> 'p \<Rightarrow> 'p"
    and bare :: "'p \<Rightarrow> 'p"
    and locked :: "'p \<Rightarrow> bool"
  assumes restricts: "permits p r \<Longrightarrow> permits (bare p) r"
    and locked_denies: "locked p \<Longrightarrow> \<not> permits p r"
    and bare_attach: "bare (attach ob p) = bare p"
begin

lemma never_promoted: "\<not> permits (bare p) r \<Longrightarrow> \<not> permits (attach ob p) r"
  using restricts [of "attach ob p" r] by (auto simp: bare_attach)

lemma attached_chain: "permits (List.fold attach obs p) r \<Longrightarrow> permits (bare p) r"
proof (induction obs arbitrary: p)
  case (Cons ob obs)
  then have "permits (bare (attach ob p)) r" by simp
  then show ?case by (simp add: bare_attach)
qed (simp add: restricts)

lemma bare_locked: "locked (bare p) \<Longrightarrow> \<not> permits (attach ob p) r"
  using never_promoted locked_denies by blast

end

section \<open>When a launch is allowed\<close>

lemma deny_not_allowed [simp]: "\<not> is_allowed (deny c msg i)" "\<not> is_allowed (denial p c msg i f)"
  by (simp_all add: is_allowed_def denial_def deny_def)

lemma authorized_allowed [simp]: "is_allowed (authorized p b f)"
  by (simp add: is_allowed_def authorized_def)

lemma either_simps [simp]: "either (Inl a) = a" "either (Inr a) = a"
  by (simp_all add: either_def)

lemma first_error_Inl: "first_error cs = Inl e \<Longrightarrow> Inl e \<in> set cs"
  by (induction cs) (auto split: sum.splits)

lemma require_Inl: "require b e = Inl e' \<longleftrightarrow> \<not> b \<and> e' = e"
  by (auto simp: require_def)

lemma gates_deny:
  "request_gate p r = Inl v \<Longrightarrow> \<not> is_allowed v"
  "freshness_gate p b t = Inl v \<Longrightarrow> \<not> is_allowed v"
  "embedded_gate p b f = Inl v \<Longrightarrow> \<not> is_allowed v"
  "external_gate p b f t = Inl v \<Longrightarrow> \<not> is_allowed v"
proof -
  show "request_gate p r = Inl v \<Longrightarrow> \<not> is_allowed v"
    by (auto simp: request_gate_def split: if_splits option.splits)
  show "freshness_gate p b t = Inl v \<Longrightarrow> \<not> is_allowed v"
    by (auto simp: freshness_gate_def split: sum.splits freshness_state.splits)
  show "embedded_gate p b f = Inl v \<Longrightarrow> \<not> is_allowed v"
    unfolding embedded_gate_def by (drule first_error_Inl) (auto simp: require_Inl eq_commute [of "Inl v"])
  show "external_gate p b f t = Inl v \<Longrightarrow> \<not> is_allowed v"
    unfolding external_gate_def
    by (cases "external_manifest p"; simp only: option.case sum.distinct)
       (drule first_error_Inl; auto simp: require_Inl eq_commute [of "Inl v"])
qed

lemma allowed_iff_gates:
  "is_allowed (evaluate_at (Some p) r t) \<longleftrightarrow>
     locked_code p = [] \<and>
     (\<exists>b f. request_gate p r = Inr b \<and> freshness_gate p b t = Inr f \<and> embedded_gate p b f = Inr () \<and>
        external_gate p b f t = Inr ())"
proof (cases "locked_code p = []")
  case True
  show ?thesis
  proof (cases "\<exists>b f. request_gate p r = Inr b \<and> freshness_gate p b t = Inr f \<and> embedded_gate p b f = Inr () \<and>
      external_gate p b f t = Inr ()")
    case True
    then obtain b f where "request_gate p r = Inr b" "freshness_gate p b t = Inr f" "embedded_gate p b f = Inr ()"
      "external_gate p b f t = Inr ()" by blast
    with True \<open>locked_code p = []\<close> show ?thesis by (simp add: evaluate_at_def)
  next
    case False
    then have "\<not> is_allowed (evaluate_at (Some p) r t)"
      using \<open>locked_code p = []\<close>
      by (auto simp: evaluate_at_def bind_result_def dest: gates_deny split: sum.splits)
    with False show ?thesis by blast
  qed
next
  case False
  then show ?thesis by (simp add: evaluate_at_def is_allowed_def deny_def)
qed

lemma find_backend_Some: "find_backend m i = Some b \<Longrightarrow> b \<in> set (manifest_backends m) \<and> backend_id b = i"
  by (auto simp: find_backend_def find_Some_iff)

lemma request_gate_ok:
  "request_gate p r = Inr b \<longleftrightarrow>
     known_platform (request_platform r) \<and> known_architecture (request_architecture r) \<and>
     find_backend (authoritative p) (request_backend r) = Some b \<and>
     request_platform r \<in> set (host_platforms b) \<and> request_architecture r \<in> set (host_architectures b)"
  by (auto simp: request_gate_def split: option.splits)

lemma freshness_gate_ok:
  "freshness_gate p b t = Inr f \<longleftrightarrow> freshness_at (authoritative p) t = Inr f \<and> freshness_state f = Fresh"
  by (auto simp: freshness_gate_def split: sum.splits freshness_state.splits)

text \<open>A manifest grants a backend: its entry allows it, supported and officially authorized.\<close>

definition grants :: "manifest \<Rightarrow> string \<Rightarrow> bool" where
  "grants m i \<longleftrightarrow>
     (\<exists>b. find_backend m i = Some b \<and> launch_verdict b = ''allow'' \<and> backend_state b = ''supported'' \<and>
        authorization b = ''official'')"

definition grants_at :: "manifest \<Rightarrow> string \<Rightarrow> go_time \<Rightarrow> bool" where
  "grants_at m i t \<longleftrightarrow> validate_manifest m = Inr () \<and> \<not> is_zero t \<and> in_window m t \<and> grants m i"

lemma external_gate_ok:
  "external_gate p b f t = Inr () \<longleftrightarrow>
     (case external_manifest p of None \<Rightarrow> True | Some m \<Rightarrow> grants_at m (backend_id b) t)"
  by (auto simp: external_gate_def grants_at_def grants_def fresh_iff_in_window
      simp del: first_error.simps(2) split: option.splits)

lemma valid_policy_fields:
  assumes "validate_manifest m = Inr ()"
  shows "default_verdict (manifest_policy_of m) = ''deny''" "require_official_authorization (manifest_policy_of m)"
proof -
  from assms have "validate_manifest_header m = Inr ()" by (rule validate_manifest_parts) blast
  then show "default_verdict (manifest_policy_of m) = ''deny''"
    "require_official_authorization (manifest_policy_of m)"
    by (simp_all add: validate_manifest_header_def del: first_error.simps(2))
qed

lemma allowed_iff_grants:
  "is_allowed (evaluate_at (Some p) r t) \<longleftrightarrow>
     locked_code p = [] \<and> known_platform (request_platform r) \<and> known_architecture (request_architecture r) \<and>
     (\<exists>b. find_backend (authoritative p) (request_backend r) = Some b \<and>
        request_platform r \<in> set (host_platforms b) \<and> request_architecture r \<in> set (host_architectures b)) \<and>
     grants_at (authoritative p) (request_backend r) t \<and>
     (case external_manifest p of None \<Rightarrow> True | Some m \<Rightarrow> grants_at m (request_backend r) t)"
proof -
  have fresh: "(\<exists>f. freshness_at m t = Inr f \<and> freshness_state f = Fresh) \<longleftrightarrow>
      validate_manifest m = Inr () \<and> \<not> is_zero t \<and> in_window m t" for m
    using fresh_iff_in_window [of m t] by (auto split: sum.splits)
  have gate: "embedded_gate p b f = Inr () \<longleftrightarrow>
      launch_verdict b = ''allow'' \<and> backend_state b = ''supported'' \<and> authorization b = ''official''"
    if "validate_manifest (authoritative p) = Inr ()" for b f
    using valid_policy_fields [OF that] by (auto simp: embedded_gate_def simp del: first_error.simps(2))
  show ?thesis
  proof (cases "find_backend (authoritative p) (request_backend r)")
    case None
    then show ?thesis unfolding allowed_iff_gates request_gate_ok by simp
  next
    case (Some b)
    then have i: "backend_id b = request_backend r" using find_backend_Some by blast
    have g: "grants (authoritative p) (request_backend r) \<longleftrightarrow>
        launch_verdict b = ''allow'' \<and> backend_state b = ''supported'' \<and> authorization b = ''official''"
      using Some by (simp add: grants_def)
    show ?thesis
      unfolding allowed_iff_gates request_gate_ok freshness_gate_ok external_gate_ok grants_at_def [of "authoritative p"]
      using gate fresh [of "authoritative p"] by (auto simp: Some i g split: option.splits)
  qed
qed

text \<open>The policy without its observations, and attaching observations to it.\<close>

definition bare_policy :: "policy option \<Rightarrow> policy option" where
  "bare_policy p = map_option (\<lambda>p. p\<lparr>external_manifest := None\<rparr>) p"

definition attach_observations :: "manifest option \<Rightarrow> policy option \<Rightarrow> policy option" where
  "attach_observations m p = map_option (\<lambda>p. p\<lparr>external_manifest := m\<rparr>) p"

interpretation launch: deny_only
  "\<lambda>p (r, t). is_allowed (evaluate_at p r t)" attach_observations bare_policy
  "\<lambda>p. case p of None \<Rightarrow> True | Some p \<Rightarrow> locked_code p \<noteq> []"
proof unfold_locales
  fix p :: "policy option" and rt :: "launch_request \<times> go_time"
  assume a: "case rt of (r, t) \<Rightarrow> is_allowed (evaluate_at p r t)"
  obtain r t where rt: "rt = (r, t)" by force
  show "case rt of (r, t) \<Rightarrow> is_allowed (evaluate_at (bare_policy p) r t)"
  proof (cases p)
    case None
    with a show ?thesis by (simp add: rt bare_policy_def)
  next
    case (Some q)
    with a show ?thesis by (simp add: rt bare_policy_def allowed_iff_grants)
  qed
next
  fix p :: "policy option" and rt :: "launch_request \<times> go_time"
  assume "case p of None \<Rightarrow> True | Some p \<Rightarrow> locked_code p \<noteq> []"
  then show "\<not> (case rt of (r, t) \<Rightarrow> is_allowed (evaluate_at p r t))"
    by (cases p; cases rt) (simp_all add: allowed_iff_grants evaluate_at_def [of None])
next
  show "bare_policy (attach_observations ob p) = bare_policy p" for ob p
    by (cases p) (simp_all add: bare_policy_def attach_observations_def)
qed

lemma new_policy_cases:
  "fst (new_policy c d) =
     (case embedded_manifest c of
        Inl e \<Rightarrow> lock ''EMBEDDED_MANIFEST_INVALID'' ''The compiled compatibility authority is invalid.'' empty_policy
      | Inr m \<Rightarrow>
          if doc_blank d then empty_policy\<lparr>authoritative := m\<rparr>
          else
            (case parse_manifest d of
               Inl e \<Rightarrow>
                 lock ''EXTERNAL_MANIFEST_INVALID'' ''The external compatibility manifest is invalid; launch is locked.''
                   (empty_policy\<lparr>authoritative := m\<rparr>)
             | Inr m' \<Rightarrow> empty_policy\<lparr>authoritative := m, external_manifest := Some m'\<rparr>))"
  by (simp add: new_policy_def Let_def split: sum.splits)

lemma embedded_manifest_valid: "embedded_manifest c = Inr m \<Longrightarrow> validate_manifest m = Inr ()"
  using parse_manifest_ok by (auto simp: embedded_manifest_def bind_result_ok split: if_splits)

text \<open>C2. A launch is allowed exactly when the compiled-in manifest reads as the authority, defines
  the requested route for the requested platform and architecture and grants it on that day, and
  the external document is blank or is a manifest that grants the route on that day as well.\<close>

theorem launch_allowed_iff:
  "is_allowed (evaluate_at (Some (fst (new_policy compiled_in external_json))) r t) \<longleftrightarrow>
     (\<exists>m b. embedded_manifest compiled_in = Inr m \<and>
        find_backend m (request_backend r) = Some b \<and> request_platform r \<in> set (host_platforms b) \<and>
        request_architecture r \<in> set (host_architectures b) \<and> grants_at m (request_backend r) t) \<and>
     (doc_blank external_json \<or>
        (\<exists>m. parse_manifest external_json = Inr m \<and> grants_at m (request_backend r) t))"
proof (cases "embedded_manifest compiled_in")
  case (Inl e)
  then show ?thesis by (simp add: new_policy_cases allowed_iff_grants lock_def)
next
  case (Inr m)
  have known: "known_platform (request_platform r) \<and> known_architecture (request_architecture r)"
    if "find_backend m (request_backend r) = Some b" "request_platform r \<in> set (host_platforms b)"
      "request_architecture r \<in> set (host_architectures b)" for b
  proof -
    from embedded_manifest_valid [OF Inr] find_backend_Some [OF that(1)]
    have "check_backend (map source_id (manifest_sources m)) [] b = Inr ()"
      by (blast elim: validate_manifest_parts)
    then have "validate_backend b (map source_id (manifest_sources m)) = Inr ()"
      using check_backend_facts by blast
    then have "list_all known_platform (host_platforms b)" "list_all known_architecture (host_architectures b)"
      unfolding validate_backend_def first_error_Cons_ok require_ok check_each_ok by simp_all
    with that show ?thesis by (simp add: list_all_iff)
  qed
  with Inr show ?thesis
    by (cases "parse_manifest external_json")
       (auto simp: new_policy_cases allowed_iff_grants lock_def empty_policy_def)
qed

lemma evidence_urls_from:
  "set (authoritative_evidence_urls m b) \<subseteq> source_url ` set (manifest_sources m)"
proof
  fix u
  assume "u \<in> set (authoritative_evidence_urls m b)"
  then obtain i where "map_of (rev (map (\<lambda>s. (source_id s, source_url s)) (manifest_sources m))) i = Some u"
    by (auto simp: authoritative_evidence_urls_def Let_def List.map_filter_def)
  then show "u \<in> source_url ` set (manifest_sources m)" using map_of_SomeD by fastforce
qed

text \<open>What the verdicts of a policy have in common, whichever gate made them.\<close>

definition verdict_of :: "policy \<Rightarrow> verdict \<Rightarrow> bool" where
  "verdict_of p v \<longleftrightarrow>
     (decision v = ''allow'' \<or> decision v = ''deny'') \<and> code v \<noteq> [] \<and>
     set (evidence_urls v) \<subseteq> source_url ` set (manifest_sources (authoritative p)) \<and>
     external_loaded v = (external_manifest p \<noteq> None)"

lemma verdict_of_simps [simp]:
  "verdict_of p (denial p c msg i f)" "verdict_of p (authorized p b f)"
  "verdict_of p ((deny c msg i)\<lparr>external_loaded := external_manifest p \<noteq> None\<rparr>)"
  using evidence_urls_from
  by (auto simp: verdict_of_def denial_def deny_def authorized_def split: option.splits)

lemma gates_verdicts:
  "request_gate p r = Inl v \<Longrightarrow> verdict_of p v"
  "freshness_gate p b t = Inl v \<Longrightarrow> verdict_of p v"
  "embedded_gate p b f = Inl v \<Longrightarrow> verdict_of p v"
  "external_gate p b f t = Inl v \<Longrightarrow> verdict_of p v"
proof -
  show "request_gate p r = Inl v \<Longrightarrow> verdict_of p v"
    by (auto simp: request_gate_def split: if_splits option.splits)
  show "freshness_gate p b t = Inl v \<Longrightarrow> verdict_of p v"
    by (auto simp: freshness_gate_def split: sum.splits freshness_state.splits)
  show "embedded_gate p b f = Inl v \<Longrightarrow> verdict_of p v"
    unfolding embedded_gate_def by (drule first_error_Inl) (auto simp: require_Inl eq_commute [of "Inl v"])
  show "external_gate p b f t = Inl v \<Longrightarrow> verdict_of p v"
    unfolding external_gate_def
    by (cases "external_manifest p"; simp only: option.case sum.distinct)
       (drule first_error_Inl; auto simp: require_Inl eq_commute [of "Inl v"])
qed

lemma evaluate_verdict: "verdict_of p (evaluate_at (Some p) r t)"
proof (cases "locked_code p = []")
  case True
  then show ?thesis by (auto simp: evaluate_at_def bind_result_def dest: gates_verdicts split: sum.splits)
next
  case False
  then have "evaluate_at (Some p) r t =
      (deny (locked_code p) [Text (locked_message p)] (request_backend r))
        \<lparr>external_loaded := external_manifest p \<noteq> None\<rparr>"
    by (simp add: evaluate_at_def)
  then show ?thesis by (simp only: verdict_of_simps)
qed

lemma default_policy_bare:
  "locked_code (fst (new_policy c d)) = [] \<Longrightarrow>
     bare_policy (Some (fst (new_policy c d))) = Some (fst (default_policy c))"
  by (auto simp: new_policy_cases default_policy_def no_document_def bare_policy_def lock_def empty_policy_def
      split: sum.splits if_splits)

text \<open>C10. External data only restricts: a request that is allowed with an external document is
  allowed without one, and the evidence of every verdict is taken from the sources of the
  compiled-in manifest, whatever the external document holds.\<close>

theorem external_only_restricts:
  "(is_allowed (evaluate_at (Some (fst (new_policy compiled_in external_json))) r t) \<longrightarrow>
      is_allowed (evaluate_at (Some (fst (default_policy compiled_in))) r t)) \<and>
   (\<forall>u \<in> set (evidence_urls (evaluate_at (Some (fst (new_policy compiled_in external_json))) r t)).
      \<exists>m. embedded_manifest compiled_in = Inr m \<and> u \<in> source_url ` set (manifest_sources m))"
proof
  let ?p = "fst (new_policy compiled_in external_json)"
  show "is_allowed (evaluate_at (Some ?p) r t) \<longrightarrow> is_allowed (evaluate_at (Some (fst (default_policy compiled_in))) r t)"
    using launch.restricts [of "Some ?p" "(r, t)"] default_policy_bare [of compiled_in external_json]
    by (simp add: allowed_iff_grants [of ?p])
  have "manifest_sources (authoritative ?p) = [] \<or>
      (\<exists>m. embedded_manifest compiled_in = Inr m \<and> authoritative ?p = m)"
    by (auto simp: new_policy_cases lock_def empty_policy_def empty_manifest_def split: sum.splits)
  with evaluate_verdict [of ?p r t] show "\<forall>u \<in> set (evidence_urls (evaluate_at (Some ?p) r t)).
      \<exists>m. embedded_manifest compiled_in = Inr m \<and> u \<in> source_url ` set (manifest_sources m)"
    by (auto simp: verdict_of_def)
qed

text \<open>C39. The launch gate fails closed: without a policy, or with a locked one, every request is
  denied; observations attached to a policy never turn its denial into a permission; and every
  verdict is \<open>allow\<close> or \<open>deny\<close> with a reason code.\<close>

theorem launch_fails_closed:
  "\<not> is_allowed (evaluate_at None r t) \<and>
   (\<not> is_allowed (evaluate_at (Some p) r t) \<or> locked_code p = []) \<and>
   (\<not> is_allowed (evaluate_at (attach_observations ob policy) r t) \<or> is_allowed (evaluate_at (bare_policy policy) r t)) \<and>
   decision (evaluate_at policy r t) \<in> {''allow'', ''deny''} \<and> code (evaluate_at policy r t) \<noteq> []"
proof (intro conjI)
  show "\<not> is_allowed (evaluate_at None r t)" by (simp add: evaluate_at_def)
  show "\<not> is_allowed (evaluate_at (Some p) r t) \<or> locked_code p = []"
    using launch.locked_denies [of "Some p" "(r, t)"] by auto
  show "\<not> is_allowed (evaluate_at (attach_observations ob policy) r t) \<or> is_allowed (evaluate_at (bare_policy policy) r t)"
    using launch.never_promoted [of policy "(r, t)" ob] by auto
  have "decision v \<in> {''allow'', ''deny''} \<and> code v \<noteq> []" if "v = evaluate_at policy r t" for v
  proof (cases policy)
    case None
    have "trim_space ''POLICY_UNAVAILABLE'' \<noteq> []" by code_simp
    with None that show ?thesis by (simp add: evaluate_at_def deny_def)
  next
    case (Some q)
    with that evaluate_verdict [of q r t] show ?thesis by (auto simp: verdict_of_def)
  qed
  then show "decision (evaluate_at policy r t) \<in> {''allow'', ''deny''}" "code (evaluate_at policy r t) \<noteq> []" by auto
qed

lemma printed_manifest_reads_back:
  assumes "embedded_manifest compiled_in = Inr m" "all_utf8 (manifest_texts m)"
    "printed_size (manifest_json m) \<le> max_manifest_bytes" "authoritative p = m"
  shows "authoritative_manifest printed_size (Some p) = Inr m"
proof -
  note v = embedded_manifest_valid [OF assms(1)]
  then have "manifest_schema_version m \<noteq> []"
    by (auto simp: validate_manifest_def validate_manifest_header_def manifest_version_def bind_result_ok
        simp del: first_error.simps(2))
  with manifest_reads_back [OF v assms(2,3)] assms(4) show ?thesis
    by (simp add: authoritative_manifest_def)
qed

end
