(* ===== verification/Compat_Authority.thy ===== *)
theory Compat_Authority
  imports Compat_Policy
begin

text \<open>
  The compiled-in authority, \<open>internal/compat/data/manifest.json\<close>, as the value that its text
  denotes, and what the policy decides with it. The file is embedded into the binary by
  \<open>manifest.go\<close>; its sources and backends are written entry by entry in the order of the file.
\<close>

section \<open>The document\<close>

definition source_riot_system_requirements :: json where
  "source_riot_system_requirements =
     JObj [(''id'', JStr ''riot-system-requirements''),
           (''title'', JStr ''Minimum and Recommended System Requirements (League of Legends)''),
           (''publisher'', JStr ''Riot Games Player Support''),
           (''url'', JStr ''https://support.riotgames.com/en-us/league-of-legends/performance/minimum-and-recommended-system-requirements-league-of-legends''),
           (''checkedAt'', JStr ''2026-09-23'')]"

definition source_riot_vanguard_linux :: json where
  "source_riot_vanguard_linux =
     JObj [(''id'', JStr ''riot-vanguard-linux''),
           (''title'', JStr ''/dev: Vanguard x LoL''),
           (''publisher'', JStr ''Riot Games''),
           (''url'', JStr ''https://www.leagueoflegends.com/en-us/news/dev/dev-vanguard-x-lol/''),
           (''publishedAt'', JStr ''2024-04-11''),
           (''checkedAt'', JStr ''2026-09-23'')]"

definition source_riot_patch_14_9 :: json where
  "source_riot_patch_14_9 =
     JObj [(''id'', JStr ''riot-patch-14-9''),
           (''title'', JStr ''League of Legends patch 14.9 notes''),
           (''publisher'', JStr ''Riot Games''),
           (''url'', JStr ''https://www.leagueoflegends.com/en-us/news/game-updates/patch-14-9-notes/''),
           (''publishedAt'', JStr ''2024-04-30''),
           (''checkedAt'', JStr ''2026-09-23'')]"

definition source_riot_macos_embedded_vanguard :: json where
  "source_riot_macos_embedded_vanguard =
     JObj [(''id'', JStr ''riot-macos-embedded-vanguard''),
           (''title'', JStr ''Patch 25.S1.2 Notes: Vanguard comes to Mac''),
           (''publisher'', JStr ''Riot Games''),
           (''url'', JStr ''https://www.leagueoflegends.com/en-ph/news/game-updates/patch-25-s1-2-notes/''),
           (''publishedAt'', JStr ''2025-01-22''),
           (''checkedAt'', JStr ''2026-09-23'')]"

definition source_riot_vanguard_on_demand :: json where
  "source_riot_vanguard_on_demand =
     JObj [(''id'', JStr ''riot-vanguard-on-demand''),
           (''title'', JStr ''Vanguard On-Demand - Anti-Cheat Update''),
           (''publisher'', JStr ''Riot Games''),
           (''url'', JStr ''https://www.riotgames.com/en/news/vanguard-on-demand''),
           (''publishedAt'', JStr ''2026-06-24''),
           (''checkedAt'', JStr ''2026-09-23'')]"

definition source_riot_vm_policy :: json where
  "source_riot_vm_policy =
     JObj [(''id'', JStr ''riot-vm-policy''),
           (''title'', JStr ''Vanguard Error Codes and Solutions (VAN 138)''),
           (''publisher'', JStr ''Riot Games Player Support''),
           (''url'', JStr ''https://support.riotgames.com/en-us/riot/performance/error-van-138''),
           (''checkedAt'', JStr ''2026-09-23'')]"

definition source_valve_proton :: json where
  "source_valve_proton =
     JObj [(''id'', JStr ''valve-proton''),
           (''title'', JStr ''Steamworks Documentation: Proton Anti-Cheat Support''),
           (''publisher'', JStr ''Valve Corporation''),
           (''url'', JStr ''https://partner.steamgames.com/doc/steamhardware/proton''),
           (''checkedAt'', JStr ''2026-09-23'')]"

definition source_dockur_windows :: json where
  "source_dockur_windows =
     JObj [(''id'', JStr ''dockur-windows''),
           (''title'', JStr ''Windows inside a Docker container''),
           (''publisher'', JStr ''dockur''),
           (''url'', JStr ''https://github.com/dockur/windows''),
           (''checkedAt'', JStr ''2026-09-23'')]"

definition source_dockur_environment :: json where
  "source_dockur_environment =
     JObj [(''id'', JStr ''dockur-environment''),
           (''title'', JStr ''dockur/windows environment options''),
           (''publisher'', JStr ''dockur''),
           (''url'', JStr ''https://github.com/dockur/windows/blob/master/docs/environment.md''),
           (''checkedAt'', JStr ''2026-09-23'')]"

definition source_sunshine_docs :: json where
  "source_sunshine_docs =
     JObj [(''id'', JStr ''sunshine-docs''),
           (''title'', JStr ''Sunshine documentation''),
           (''publisher'', JStr ''LizardByte''),
           (''url'', JStr ''https://docs.lizardbyte.dev/projects/sunshine/latest/''),
           (''checkedAt'', JStr ''2026-09-23'')]"

definition source_sunshine_raw_input :: json where
  "source_sunshine_raw_input =
     JObj [(''id'', JStr ''sunshine-raw-input''),
           (''title'', JStr ''Sunshine Windows Raw Input troubleshooting''),
           (''publisher'', JStr ''LizardByte''),
           (''url'', JStr ''https://docs.lizardbyte.dev/projects/sunshine/master/md_docs_2troubleshooting.html?lng=en-US''),
           (''checkedAt'', JStr ''2026-09-23'')]"

definition source_sunshine_getting_started :: json where
  "source_sunshine_getting_started =
     JObj [(''id'', JStr ''sunshine-getting-started''),
           (''title'', JStr ''Sunshine Getting Started and Windows Virtual HID requirements''),
           (''publisher'', JStr ''LizardByte''),
           (''url'', JStr ''https://docs.lizardbyte.dev/projects/sunshine/master/md_docs_2getting__started.html?lng=en-US''),
           (''checkedAt'', JStr ''2026-09-23'')]"

definition source_libvirtualhid_driver_release :: json where
  "source_libvirtualhid_driver_release =
     JObj [(''id'', JStr ''libvirtualhid-driver-release''),
           (''title'', JStr ''libvirtualhid Virtual HID Driver release v2026.914.1218.10''),
           (''publisher'', JStr ''LizardByte''),
           (''url'', JStr ''https://github.com/LizardByte/libvirtualhid/releases/tag/v2026.914.1218.10''),
           (''checkedAt'', JStr ''2026-09-23'')]"

definition source_sunshine_stable_release :: json where
  "source_sunshine_stable_release =
     JObj [(''id'', JStr ''sunshine-stable-release''),
           (''title'', JStr ''Sunshine Windows AMD64 stable release v2026.914.233613''),
           (''publisher'', JStr ''LizardByte''),
           (''url'', JStr ''https://github.com/LizardByte/Sunshine/releases/tag/v2026.914.233613''),
           (''checkedAt'', JStr ''2026-09-23'')]"

definition source_moonlight_qt :: json where
  "source_moonlight_qt =
     JObj [(''id'', JStr ''moonlight-qt''),
           (''title'', JStr ''Moonlight PC''),
           (''publisher'', JStr ''Moonlight Game Streaming Project''),
           (''url'', JStr ''https://github.com/moonlight-stream/moonlight-qt''),
           (''checkedAt'', JStr ''2026-09-23'')]"

definition source_moonlight_embedded :: json where
  "source_moonlight_embedded =
     JObj [(''id'', JStr ''moonlight-embedded''),
           (''title'', JStr ''Moonlight Embedded''),
           (''publisher'', JStr ''Moonlight Game Streaming Project''),
           (''url'', JStr ''https://github.com/moonlight-stream/moonlight-embedded''),
           (''checkedAt'', JStr ''2026-09-23'')]"

definition source_microsoft_bcdboot :: json where
  "source_microsoft_bcdboot =
     JObj [(''id'', JStr ''microsoft-bcdboot''),
           (''title'', JStr ''BCDBoot command-line options''),
           (''publisher'', JStr ''Microsoft''),
           (''url'', JStr ''https://learn.microsoft.com/en-us/windows-hardware/manufacture/desktop/bcdboot-command-line-options-techref-di?view=windows-11''),
           (''publishedAt'', JStr ''2025-07-29''),
           (''checkedAt'', JStr ''2026-09-23'')]"

definition source_freebsd_bhyve :: json where
  "source_freebsd_bhyve =
     JObj [(''id'', JStr ''freebsd-bhyve''),
           (''title'', JStr ''FreeBSD Handbook: Virtualization - bhyve''),
           (''publisher'', JStr ''The FreeBSD Project''),
           (''url'', JStr ''https://docs.freebsd.org/en/books/handbook/virtualization/#virtualization-host-bhyve''),
           (''checkedAt'', JStr ''2026-09-23'')]"

definition source_riot_vanguard_faq :: json where
  "source_riot_vanguard_faq =
     JObj [(''id'', JStr ''riot-vanguard-faq''),
           (''title'', JStr ''Vanguard FAQ for Third Party Applications''),
           (''publisher'', JStr ''Riot Games''),
           (''url'', JStr ''https://www.riotgames.com/en/DevRel/vanguard-faq''),
           (''checkedAt'', JStr ''2026-09-23'')]"

definition source_pikvm_api :: json where
  "source_pikvm_api =
     JObj [(''id'', JStr ''pikvm-api''),
           (''title'', JStr ''PiKVM HTTP API reference''),
           (''publisher'', JStr ''PiKVM''),
           (''url'', JStr ''https://docs.pikvm.org/api/''),
           (''checkedAt'', JStr ''2026-09-23'')]"

definition source_pikvm_usb :: json where
  "source_pikvm_usb =
     JObj [(''id'', JStr ''pikvm-usb''),
           (''title'', JStr ''PiKVM USB configuration''),
           (''publisher'', JStr ''PiKVM''),
           (''url'', JStr ''https://docs.pikvm.org/usb/''),
           (''checkedAt'', JStr ''2026-09-23'')]"

definition source_pikvm_auth :: json where
  "source_pikvm_auth =
     JObj [(''id'', JStr ''pikvm-auth''),
           (''title'', JStr ''PiKVM Authentication''),
           (''publisher'', JStr ''PiKVM''),
           (''url'', JStr ''https://docs.pikvm.org/auth/''),
           (''checkedAt'', JStr ''2026-09-23'')]"

definition source_pikvm_audio :: json where
  "source_pikvm_audio =
     JObj [(''id'', JStr ''pikvm-audio''),
           (''title'', JStr ''PiKVM V4 and V3 two-way audio''),
           (''publisher'', JStr ''PiKVM''),
           (''url'', JStr ''https://docs.pikvm.org/audio/''),
           (''checkedAt'', JStr ''2026-09-23'')]"

definition backend_native_linux :: json where
  "backend_native_linux =
     JObj [(''id'', JStr ''native-linux''),
           (''displayName'', JStr ''Native Linux''),
           (''kind'', JStr ''native''),
           (''launchMode'', JStr ''local''),
           (''hostPlatforms'', JArr [JStr ''linux'']),
           (''hostArchitectures'', JArr [JStr ''amd64'',
                   JStr ''arm64'']),
           (''state'', JStr ''blocked''),
           (''launchVerdict'', JStr ''deny''),
           (''authorization'', JStr ''none''),
           (''reasonCode'', JStr ''NO_OFFICIAL_LINUX_CLIENT_OR_VANGUARD_PATH''),
           (''summary'', JStr ''Riot does not support a native Linux League client and has not published an authorized Vanguard path for Linux.''),
           (''sourceIds'', JArr [JStr ''riot-system-requirements'',
                   JStr ''riot-vanguard-linux'',
                   JStr ''riot-patch-14-9'',
                   JStr ''riot-vanguard-on-demand'']),
           (''safetyNotes'', JArr [JStr ''Do not emulate, disable, spoof, conceal, or bypass Vanguard.'',
                   JStr ''Do not install third-party Vanguard DLLs, drivers, or kernel modules.''])]"

definition backend_native_bsd :: json where
  "backend_native_bsd =
     JObj [(''id'', JStr ''native-bsd''),
           (''displayName'', JStr ''Native BSD''),
           (''kind'', JStr ''native''),
           (''launchMode'', JStr ''local''),
           (''hostPlatforms'', JArr [JStr ''freebsd'',
                   JStr ''openbsd'',
                   JStr ''netbsd'',
                   JStr ''dragonflybsd'']),
           (''hostArchitectures'', JArr [JStr ''amd64'',
                   JStr ''arm64'']),
           (''state'', JStr ''blocked''),
           (''launchVerdict'', JStr ''deny''),
           (''authorization'', JStr ''none''),
           (''reasonCode'', JStr ''NO_OFFICIAL_BSD_CLIENT_OR_VANGUARD_PATH''),
           (''summary'', JStr ''Riot publishes neither a native BSD League client nor an authorized Vanguard path for a supported BSD system.''),
           (''sourceIds'', JArr [JStr ''riot-system-requirements'',
                   JStr ''riot-vanguard-linux'',
                   JStr ''riot-patch-14-9'',
                   JStr ''riot-vanguard-on-demand'']),
           (''safetyNotes'', JArr [JStr ''Linux compatibility layers do not establish BSD support or anti-cheat authorization.'',
                   JStr ''Do not install third-party Vanguard DLLs, drivers, or kernel modules.''])]"

definition backend_wine :: json where
  "backend_wine =
     JObj [(''id'', JStr ''wine''),
           (''displayName'', JStr ''Wine''),
           (''kind'', JStr ''translation''),
           (''launchMode'', JStr ''local''),
           (''hostPlatforms'', JArr [JStr ''linux'',
                   JStr ''freebsd'',
                   JStr ''openbsd'',
                   JStr ''netbsd'',
                   JStr ''dragonflybsd'']),
           (''hostArchitectures'', JArr [JStr ''amd64'',
                   JStr ''arm64'']),
           (''state'', JStr ''blocked''),
           (''launchVerdict'', JStr ''deny''),
           (''authorization'', JStr ''none''),
           (''reasonCode'', JStr ''VANGUARD_DRIVER_REQUIREMENTS_UNSATISFIED''),
           (''summary'', JStr ''Riot states that the Wine-based League implementation cannot satisfy Vanguard's driver requirements.''),
           (''sourceIds'', JArr [JStr ''riot-vanguard-linux'',
                   JStr ''riot-patch-14-9'']),
           (''safetyNotes'', JArr [JStr ''Windows API compatibility is not equivalent to Vanguard kernel-driver compatibility.'',
                   JStr ''Never patch Riot binaries or add untrusted DLL overrides to evade the launch gate.''])]"

definition backend_proton :: json where
  "backend_proton =
     JObj [(''id'', JStr ''proton''),
           (''displayName'', JStr ''Proton''),
           (''kind'', JStr ''translation''),
           (''launchMode'', JStr ''local''),
           (''hostPlatforms'', JArr [JStr ''linux'']),
           (''hostArchitectures'', JArr [JStr ''amd64'',
                   JStr ''arm64'']),
           (''state'', JStr ''blocked''),
           (''launchVerdict'', JStr ''deny''),
           (''authorization'', JStr ''none''),
           (''reasonCode'', JStr ''VANGUARD_DRIVER_REQUIREMENTS_UNSATISFIED''),
           (''summary'', JStr ''Proton is Wine-based and does not provide an authorized way to satisfy the required Vanguard Windows driver and host-attestation path.''),
           (''sourceIds'', JArr [JStr ''riot-vanguard-linux'',
                   JStr ''riot-patch-14-9'',
                   JStr ''valve-proton'']),
           (''safetyNotes'', JArr [JStr ''A custom Proton build cannot replace Riot authorization or Vanguard's required trust boundary.'',
                   JStr ''Never use launch flags or patches intended to conceal the host environment.''])]"

definition backend_dockur_qemu :: json where
  "backend_dockur_qemu =
     JObj [(''id'', JStr ''dockur-qemu''),
           (''displayName'', JStr ''dockur/windows on QEMU/KVM''),
           (''kind'', JStr ''virtual-machine''),
           (''launchMode'', JStr ''local''),
           (''hostPlatforms'', JArr [JStr ''linux'']),
           (''hostArchitectures'', JArr [JStr ''amd64'',
                   JStr ''arm64'']),
           (''state'', JStr ''blocked''),
           (''launchVerdict'', JStr ''deny''),
           (''authorization'', JStr ''none''),
           (''reasonCode'', JStr ''VANGUARD_VIRTUAL_MACHINE_UNSUPPORTED''),
           (''summary'', JStr ''dockur/windows runs Windows in a QEMU virtual machine; Riot states that Vanguard is not supported in virtual machines.''),
           (''sourceIds'', JArr [JStr ''riot-vm-policy'',
                   JStr ''riot-vanguard-linux'',
                   JStr ''dockur-windows'',
                   JStr ''dockur-environment'']),
           (''safetyNotes'', JArr [JStr ''Do not hide virtualization, alter device identity, or modify boot evidence.'',
                   JStr ''Container packaging does not turn the Windows guest into a physical supported host.''])]"

definition backend_bhyve :: json where
  "backend_bhyve =
     JObj [(''id'', JStr ''bhyve''),
           (''displayName'', JStr ''Windows on bhyve''),
           (''kind'', JStr ''virtual-machine''),
           (''launchMode'', JStr ''local''),
           (''hostPlatforms'', JArr [JStr ''freebsd'']),
           (''hostArchitectures'', JArr [JStr ''amd64'',
                   JStr ''arm64'']),
           (''state'', JStr ''blocked''),
           (''launchVerdict'', JStr ''deny''),
           (''authorization'', JStr ''none''),
           (''reasonCode'', JStr ''VANGUARD_VIRTUAL_MACHINE_UNSUPPORTED''),
           (''summary'', JStr ''A Windows bhyve guest remains a virtual machine, which Riot does not support for Vanguard.''),
           (''sourceIds'', JArr [JStr ''riot-vm-policy'',
                   JStr ''riot-vanguard-linux'',
                   JStr ''freebsd-bhyve'']),
           (''safetyNotes'', JArr [JStr ''Do not hide the hypervisor or spoof hardware and boot identity.'',
                   JStr ''PCI passthrough does not establish Riot support for the virtual-machine trust boundary.''])]"

definition backend_physical_windows_remote :: json where
  "backend_physical_windows_remote =
     JObj [(''id'', JStr ''physical-windows-remote''),
           (''displayName'', JStr ''Physical Windows PC with remote streaming''),
           (''kind'', JStr ''remote-physical-windows''),
           (''launchMode'', JStr ''remote''),
           (''hostPlatforms'', JArr [JStr ''linux'',
                   JStr ''freebsd'',
                   JStr ''openbsd'',
                   JStr ''netbsd'',
                   JStr ''dragonflybsd'']),
           (''hostArchitectures'', JArr [JStr ''amd64'',
                   JStr ''arm64'']),
           (''state'', JStr ''handoff-only''),
           (''launchVerdict'', JStr ''deny''),
           (''authorization'', JStr ''unverified''),
           (''reasonCode'', JStr ''REMOTE_HANDOFF_NOT_A_LOCAL_COMPATIBILITY_PATH''),
           (''summary'', JStr ''A separately managed physical Windows computer may meet Riot's Windows requirements, but remote-control and streaming integration is not an authorized local Linux or BSD gameplay backend in this manifest.''),
           (''sourceIds'', JArr [JStr ''riot-system-requirements'',
                   JStr ''riot-vanguard-on-demand'',
                   JStr ''sunshine-docs'',
                   JStr ''sunshine-raw-input'',
                   JStr ''sunshine-getting-started'',
                   JStr ''libvirtualhid-driver-release'',
                   JStr ''sunshine-stable-release'',
                   JStr ''moonlight-qt'',
                   JStr ''moonlight-embedded'']),
           (''safetyNotes'', JArr [JStr ''The Windows machine must independently satisfy Riot's current requirements and policies.'',
                   JStr ''Do not forward credentials through LeagueBridge or claim that streaming makes Linux or BSD natively supported.'',
                   JStr ''Sunshine's vendor-provided Raw Input driver is an external, unvalidated candidate; it is not Riot authorization and must not be replaced with an unapproved input tool.''])]"

definition backend_physical_macos_remote :: json where
  "backend_physical_macos_remote =
     JObj [(''id'', JStr ''physical-macos-remote''),
           (''displayName'', JStr ''Physical macOS computer with remote streaming''),
           (''kind'', JStr ''remote-physical-macos''),
           (''launchMode'', JStr ''remote''),
           (''hostPlatforms'', JArr [JStr ''linux'',
                   JStr ''freebsd'',
                   JStr ''openbsd'',
                   JStr ''netbsd'',
                   JStr ''dragonflybsd'']),
           (''hostArchitectures'', JArr [JStr ''amd64'',
                   JStr ''arm64'']),
           (''state'', JStr ''handoff-only''),
           (''launchVerdict'', JStr ''deny''),
           (''authorization'', JStr ''unverified''),
           (''reasonCode'', JStr ''MACOS_REMOTE_HANDOFF_EXPERIMENTAL_AND_UNVALIDATED''),
           (''summary'', JStr ''A separately managed physical Mac may run Riot's native macOS client, while Sunshine documents macOS host support as experimental; LeagueBridge has no validated macOS capture, input, audio, gamepad, or gameplay evidence.''),
           (''sourceIds'', JArr [JStr ''riot-system-requirements'',
                   JStr ''riot-macos-embedded-vanguard'',
                   JStr ''sunshine-docs'',
                   JStr ''moonlight-qt'',
                   JStr ''moonlight-embedded'']),
           (''safetyNotes'', JArr [JStr ''League must run through Riot's unmodified native macOS client on the physical Mac; this route does not make Linux or BSD natively supported.'',
                   JStr ''Sunshine's macOS host behavior is experimental and gamepad support is unavailable; do not treat a successful handoff as Riot endorsement or gameplay validation.''])]"

definition backend_hardware_kvm_remote :: json where
  "backend_hardware_kvm_remote =
     JObj [(''id'', JStr ''hardware-kvm-remote''),
           (''displayName'', JStr ''Hardware KVM with physical Windows or macOS host''),
           (''kind'', JStr ''remote-hardware-kvm''),
           (''launchMode'', JStr ''remote''),
           (''hostPlatforms'', JArr [JStr ''linux'',
                   JStr ''freebsd'',
                   JStr ''openbsd'',
                   JStr ''netbsd'',
                   JStr ''dragonflybsd'']),
           (''hostArchitectures'', JArr [JStr ''amd64'',
                   JStr ''arm64'']),
           (''state'', JStr ''handoff-only''),
           (''launchVerdict'', JStr ''deny''),
           (''authorization'', JStr ''unverified''),
           (''reasonCode'', JStr ''HARDWARE_KVM_HANDOFF_UNVALIDATED''),
           (''summary'', JStr ''A hardware KVM may expose a physical Windows or Mac display, HDMI audio, and USB HID path to a Linux or BSD user, but the device, host, audio path, and League/Vanguard interaction remain unvalidated.''),
           (''sourceIds'', JArr [JStr ''riot-system-requirements'',
                   JStr ''riot-vanguard-on-demand'',
                   JStr ''riot-vanguard-faq'',
                   JStr ''pikvm-api'',
                   JStr ''pikvm-usb'',
                   JStr ''pikvm-auth'',
                   JStr ''pikvm-audio'']),
           (''safetyNotes'', JArr [JStr ''The League client and Vanguard must remain on an independently supported physical Windows PC or Mac; this is not a native Linux/BSD backend.'',
                   JStr ''Use the KVM's authenticated vendor UI and physical USB HID path; do not add USB/IP, software input interception, DLL overrides, or Vanguard changes.'',
                   JStr ''For full audio/video validation, use a vendor-documented HDMI-audio/WebRTC-capable model and verify audio; VNC or DIY capture may omit audio.'',
                   JStr ''A KVM device is only a manual candidate until route-bound video, audio, input, latency, and Practice Tool evidence exists.''])]"

definition backend_dual_boot :: json where
  "backend_dual_boot =
     JObj [(''id'', JStr ''dual-boot''),
           (''displayName'', JStr ''Dual boot into Windows''),
           (''kind'', JStr ''dual-boot''),
           (''launchMode'', JStr ''handoff''),
           (''hostPlatforms'', JArr [JStr ''linux'',
                   JStr ''freebsd'',
                   JStr ''openbsd'',
                   JStr ''netbsd'',
                   JStr ''dragonflybsd'']),
           (''hostArchitectures'', JArr [JStr ''amd64'',
                   JStr ''arm64'']),
           (''state'', JStr ''handoff-only''),
           (''launchVerdict'', JStr ''deny''),
           (''authorization'', JStr ''unverified''),
           (''reasonCode'', JStr ''REBOOT_HANDOFF_NOT_A_LOCAL_COMPATIBILITY_PATH''),
           (''summary'', JStr ''Booting a supported physical Windows installation is outside LeagueBridge's Linux or BSD launch process; the Windows installation must pass Riot's requirements on its own.''),
           (''sourceIds'', JArr [JStr ''riot-system-requirements'',
                   JStr ''riot-vanguard-on-demand'',
                   JStr ''microsoft-bcdboot'']),
           (''safetyNotes'', JArr [JStr ''Treat this only as guidance to leave the current operating system, not as a Linux or BSD launch backend.'',
                   JStr ''LeagueBridge must not weaken Secure Boot, TPM, VBS, HVCI, IOMMU, or other Windows security requirements.''])]"

definition compiled_sources :: "json list" where
  "compiled_sources =
     [source_riot_system_requirements,
      source_riot_vanguard_linux,
      source_riot_patch_14_9,
      source_riot_macos_embedded_vanguard,
      source_riot_vanguard_on_demand,
      source_riot_vm_policy,
      source_valve_proton,
      source_dockur_windows,
      source_dockur_environment,
      source_sunshine_docs,
      source_sunshine_raw_input,
      source_sunshine_getting_started,
      source_libvirtualhid_driver_release,
      source_sunshine_stable_release,
      source_moonlight_qt,
      source_moonlight_embedded,
      source_microsoft_bcdboot,
      source_freebsd_bhyve,
      source_riot_vanguard_faq,
      source_pikvm_api,
      source_pikvm_usb,
      source_pikvm_auth,
      source_pikvm_audio]"

definition compiled_backends :: "json list" where
  "compiled_backends =
     [backend_native_linux,
      backend_native_bsd,
      backend_wine,
      backend_proton,
      backend_dockur_qemu,
      backend_bhyve,
      backend_physical_windows_remote,
      backend_physical_macos_remote,
      backend_hardware_kvm_remote,
      backend_dual_boot]"

definition compiled_value :: json where
  "compiled_value =
     JObj [(''$schema'', JStr ''../../../schemas/compatibility-manifest.schema.json''),
           (''schemaVersion'', JStr ''1.0.0''),
           (''manifestId'', JStr ''leaguebridge-authoritative-compatibility''),
           (''asOf'', JStr ''2026-09-23''),
           (''game'', JObj [(''name'', JStr ''League of Legends''),
              (''publisher'', JStr ''Riot Games'')]),
           (''policy'', JObj [(''defaultVerdict'', JStr ''deny''),
              (''maxAgeDays'', JNum ''30''),
              (''requireOfficialAuthorization'', JBool True)]),
           (''sources'', JArr compiled_sources),
           (''backends'', JArr compiled_backends)]"

definition compiled_document :: document where
  "compiled_document = \<lparr>doc_size = 16258, doc_blank = False, doc_tokens = tokens compiled_value\<rparr>"

text \<open>The manifest it denotes.\<close>

definition decoded :: "('a \<Rightarrow> 'e + 'b) \<Rightarrow> 'a list \<Rightarrow> 'b list" where
  "decoded f xs = (case map_results f xs of Inr ys \<Rightarrow> ys | Inl _ \<Rightarrow> [])"

definition compiled_manifest :: manifest where
  "compiled_manifest =
     \<lparr>manifest_schema = ''../../../schemas/compatibility-manifest.schema.json'', manifest_schema_version = ''1.0.0'',
      manifest_id = ''leaguebridge-authoritative-compatibility'', as_of = ''2026-09-23'',
      manifest_game = \<lparr>game_name = ''League of Legends'', game_publisher = ''Riot Games''\<rparr>,
      manifest_policy_of =
        \<lparr>default_verdict = ''deny'', max_age_days = 30, require_official_authorization = True\<rparr>,
      manifest_sources = decoded decode_source compiled_sources,
      manifest_backends = decoded decode_backend compiled_backends\<rparr>"

section \<open>The document is accepted\<close>

lemma decoded_ok: "succeeds (map_results f xs) \<Longrightarrow> map_results f xs = Inr (decoded f xs)"
  by (auto simp: decoded_def succeeds_def split: sum.splits)

lemma map_results_member: "map_results f xs = Inr ys \<Longrightarrow> y \<in> set ys \<Longrightarrow> \<exists>x \<in> set xs. f x = Inr y"
  by (induction xs arbitrary: ys) (auto simp: bind_result_ok)

lemma decoded_all:
  assumes "list_all (\<lambda>x. case f x of Inr y \<Rightarrow> P y | Inl _ \<Rightarrow> False) xs" "y \<in> set (decoded f xs)"
  shows "P y"
proof -
  have "map_results f xs = Inr (decoded f xs)"
    using assms(2) by (auto simp: decoded_def split: sum.splits)
  from map_results_member [OF this assms(2)] assms(1) show ?thesis by (auto simp: list_all_iff)
qed

lemma compiled_sources_decode: "map_results decode_source compiled_sources = Inr (decoded decode_source compiled_sources)"
  by (rule decoded_ok) code_simp

lemma compiled_backends_decode:
  "map_results decode_backend compiled_backends = Inr (decoded decode_backend compiled_backends)"
  by (rule decoded_ok) code_simp

lemma compiled_members:
  "member compiled_value ''$schema'' = Some (JStr ''../../../schemas/compatibility-manifest.schema.json'')"
  "member compiled_value ''schemaVersion'' = Some (JStr ''1.0.0'')"
  "member compiled_value ''manifestId'' = Some (JStr ''leaguebridge-authoritative-compatibility'')"
  "member compiled_value ''asOf'' = Some (JStr ''2026-09-23'')"
  "member compiled_value ''game'' =
     Some (JObj [(''name'', JStr ''League of Legends''), (''publisher'', JStr ''Riot Games'')])"
  "member compiled_value ''policy'' =
     Some (JObj [(''defaultVerdict'', JStr ''deny''), (''maxAgeDays'', JNum ''30''),
                 (''requireOfficialAuthorization'', JBool True)])"
  "member compiled_value ''sources'' = Some (JArr compiled_sources)"
  "member compiled_value ''backends'' = Some (JArr compiled_backends)"
  by (simp_all add: compiled_value_def object_members_def)

lemma decode_int_30: "decode_int ''30'' = Some 30"
  by code_simp

lemma compiled_decode: "decode_manifest compiled_value = Inr compiled_manifest"
  by (simp add: decode_manifest_def text_member_def object_member_def object_or_null_def list_member_def
      compiled_members decode_game_def decode_policy_def int_member_def bool_member_def object_members_def
      decode_int_30 compiled_sources_decode compiled_backends_decode compiled_manifest_def)

text \<open>The dates in the document.\<close>

definition dated :: "(string \<times> nat) list" where
  "dated =
     [(''2024-04-11'', 739352), (''2024-04-30'', 739371), (''2025-01-22'', 739638), (''2025-07-29'', 739826),
      (''2026-06-24'', 740156), (''2026-09-23'', 740247)]"

lemma dated_parse: "\<forall>(s, n) \<in> set dated. parse_date s = Some n"
  by (simp add: dated_def parse_date_time time_parse_date_def dec_value_def digit_value_def byte_def is_digit_def
      valid_civil_def month_lengths_def leap_year_def day_number_def days_before_year_def)

lemma as_of_date: "parse_date ''2026-09-23'' = Some 740247"
  using dated_parse by (simp add: dated_def)

definition dates_known :: "source \<Rightarrow> bool" where
  "dates_known s \<longleftrightarrow>
     source_checked_at s = ''2026-09-23'' \<and>
     (source_published_at s = [] \<or> source_published_at s \<in> set (map fst dated))"

lemma dates_known_check: "dates_known s \<Longrightarrow> check_dates 740247 s = Inr ()"
proof -
  assume k: "dates_known s"
  have le: "\<forall>(d, n) \<in> set dated. n \<le> 740247" by (simp add: dated_def)
  show ?thesis
  proof (cases "source_published_at s = []")
    case True
    with k show ?thesis by (simp add: check_dates_def dates_known_def as_of_date)
  next
    case False
    with k obtain n where "(source_published_at s, n) \<in> set dated" by (auto simp: dates_known_def)
    with dated_parse le have "parse_date (source_published_at s) = Some n" "n \<le> 740247" by blast+
    with False k show ?thesis by (simp add: check_dates_def dates_known_def as_of_date)
  qed
qed

text \<open>What the checks look at apart from the dates, evaluated entry by entry.\<close>

definition source_text_ok :: "source \<Rightarrow> bool" where
  "source_text_ok s \<longleftrightarrow>
     length (source_id s) \<le> 128 \<and> id_pattern (source_id s) \<and> valid_text (source_title s) 4096 \<and>
     valid_text (source_publisher s) 4096 \<and> validate_source_url (source_url s) = Inr () \<and> dates_known s"

lemma compiled_sources_ok:
  "list_all (\<lambda>v. case decode_source v of Inr s \<Rightarrow> source_text_ok s | Inl _ \<Rightarrow> False) compiled_sources"
  by code_simp

definition compiled_ids :: "string list" where
  "compiled_ids = map source_id (decoded decode_source compiled_sources)"

lemma compiled_ids_distinct: "distinct compiled_ids"
  by code_simp

lemma compiled_backends_ok:
  "list_all (\<lambda>v. case decode_backend v of
      Inr b \<Rightarrow> check_backend compiled_ids [] b = Inr () \<and> launch_verdict b = ''deny''
    | Inl _ \<Rightarrow> False) compiled_backends"
  by code_simp

lemma compiled_inventory:
  "map backend_id (decoded decode_backend compiled_backends) = backend_ids"
  by code_simp

lemma compiled_header: "validate_manifest_header compiled_manifest = Inr ()"
proof -
  have "id_pattern ''leaguebridge-authoritative-compatibility''"
    "valid_text ''League of Legends'' 200" "valid_text ''Riot Games'' 200"
    "decoded decode_source compiled_sources \<noteq> []" "length (decoded decode_source compiled_sources) \<le> 512"
    by code_simp+
  then show ?thesis
    by (simp add: validate_manifest_header_def compiled_manifest_def known_schema_reference_def manifest_version_def
        as_of_date del: first_error.simps(2))
qed

lemma compiled_valid: "validate_manifest compiled_manifest = Inr ()"
proof -
  have s: "check_source 740247 [] s = Inr ()" if "s \<in> set (manifest_sources compiled_manifest)" for s
  proof -
    have "source_text_ok s"
      using decoded_all [OF compiled_sources_ok] that by (simp add: compiled_manifest_def)
    then show ?thesis
      by (simp add: check_source_def source_text_ok_def dates_known_check del: first_error.simps(2))
  qed
  have b: "check_backend compiled_ids [] b = Inr ()" if "b \<in> set (manifest_backends compiled_manifest)" for b
    using decoded_all [OF compiled_backends_ok] that by (auto simp: compiled_manifest_def)
  have ids: "map source_id (manifest_sources compiled_manifest) = compiled_ids"
    by (simp add: compiled_ids_def compiled_manifest_def)
  have inventory: "map backend_id (manifest_backends compiled_manifest) = backend_ids"
    by (simp add: compiled_inventory compiled_manifest_def)
  have "distinct backend_ids" by code_simp
  then have "check_backends compiled_ids 0 [] (manifest_backends compiled_manifest) = Inr backend_ids"
    using b by (simp add: check_backends_ok inventory)
  moreover have "check_sources 740247 0 [] (manifest_sources compiled_manifest) = Inr compiled_ids"
    using s compiled_ids_distinct by (simp add: check_sources_ok ids)
  moreover have "length (manifest_backends compiled_manifest) = length backend_ids"
    by (metis inventory length_map)
  moreover have "parse_date (as_of compiled_manifest) = Some 740247"
    by (simp add: compiled_manifest_def as_of_date)
  moreover have "find (\<lambda>i. i \<notin> set backend_ids) backend_ids = None" by (simp add: find_None_iff)
  ultimately show ?thesis by (simp add: validate_manifest_def compiled_header)
qed

lemma compiled_published:
  "list_all (\<lambda>v. (case v of JObj ms \<Rightarrow> list_all (\<lambda>(k, _). k \<in> set source_fields) ms | _ \<Rightarrow> False) \<and>
     (case member v ''publishedAt'' of
        None \<Rightarrow> True | Some (JStr d) \<Rightarrow> d \<in> set (map fst dated) | _ \<Rightarrow> False)) compiled_sources"
  by code_simp

lemma exact_object_ok:
  "exact_object (Some v) p fs = Inr w \<longleftrightarrow>
     w = v \<and> (case v of JObj ms \<Rightarrow> list_all (\<lambda>(k, _). k \<in> set fs) ms | _ \<Rightarrow> False)"
proof (cases v)
  case (JObj ms)
  have "find (\<lambda>(k, _). k \<notin> set fs) ms = None \<longleftrightarrow> list_all (\<lambda>(k, _). k \<in> set fs) ms"
    by (auto simp: find_None_iff list_all_iff)
  with JObj show ?thesis by (cases "find (\<lambda>(k, _). k \<notin> set fs) ms") (auto simp: exact_object_def)
qed (simp_all add: exact_object_def)

lemma check_source_fields_ok:
  assumes "\<And>v. v \<in> set vs \<Longrightarrow>
     (case v of JObj ms \<Rightarrow> list_all (\<lambda>(k, _). k \<in> set source_fields) ms | _ \<Rightarrow> False) \<and>
     (\<forall>i. check_published i v = Inr ())"
  shows "check_source_fields i vs = Inr ()"
  using assms
proof (induction vs arbitrary: i)
  case (Cons v vs)
  from Cons.prems [of v] have "exact_object (Some v) (index_path ''$.sources'' i) source_fields = Inr v"
    "check_published i v = Inr ()" by (simp_all add: exact_object_ok)
  with Cons show ?case by simp
qed simp

lemma compiled_exact: "check_exact_value compiled_value = Inr ()"
proof -
  have "check_source_fields 0 compiled_sources = Inr ()"
  proof (rule check_source_fields_ok)
    fix v
    assume "v \<in> set compiled_sources"
    with compiled_published have v: "case v of JObj ms \<Rightarrow> list_all (\<lambda>(k, _). k \<in> set source_fields) ms | _ \<Rightarrow> False"
      "case member v ''publishedAt'' of None \<Rightarrow> True | Some (JStr d) \<Rightarrow> d \<in> set (map fst dated) | _ \<Rightarrow> False"
      by (auto simp only: list_all_iff)
    have "parse_date d \<noteq> None" if "d \<in> set (map fst dated)" for d
      using that dated_parse by fastforce
    with v show "(case v of JObj ms \<Rightarrow> list_all (\<lambda>(k, _). k \<in> set source_fields) ms | _ \<Rightarrow> False) \<and>
        (\<forall>i. check_published i v = Inr ())"
      by (auto simp: check_published_def split: option.splits json.splits)
  qed
  moreover have "check_backend_fields 0 compiled_backends = Inr ()" by code_simp
  moreover have "exact_object (Some compiled_value) ''$'' top_fields = Inr compiled_value"
    by (simp add: exact_object_ok compiled_value_def top_fields_def)
  moreover have
    "exact_object (Some (JObj [(''name'', JStr n), (''publisher'', JStr p)])) ''$.game'' [''name'', ''publisher''] =
       Inr (JObj [(''name'', JStr n), (''publisher'', JStr p)])"
    "exact_object (Some (JObj [(''defaultVerdict'', JStr d), (''maxAgeDays'', JNum a),
         (''requireOfficialAuthorization'', JBool r)])) ''$.policy''
         [''defaultVerdict'', ''maxAgeDays'', ''requireOfficialAuthorization''] =
       Inr (JObj [(''defaultVerdict'', JStr d), (''maxAgeDays'', JNum a),
         (''requireOfficialAuthorization'', JBool r)])" for n p d a r
    by (simp_all add: exact_object_ok)
  ultimately show ?thesis by (simp add: check_exact_value_def compiled_members exact_array_def)
qed

lemma compiled_accepted: "embedded_manifest compiled_document = Inr compiled_manifest"
proof -
  have "unique_keys compiled_value" "nesting compiled_value \<le> 64" by code_simp+
  then have "parse_manifest compiled_document = Inr compiled_manifest"
    unfolding compiled_document_def
    by (rule parse_value_document)
       (simp_all add: compiled_exact compiled_decode compiled_valid max_manifest_bytes_def)
  then show ?thesis by (simp add: embedded_manifest_def authoritative_as_of_def compiled_manifest_def)
qed

lemma compiled_denies:
  "find_backend compiled_manifest i = Some b \<Longrightarrow> launch_verdict b = ''deny''"
  using find_backend_Some [of compiled_manifest i b] decoded_all [OF compiled_backends_ok, of b]
  by (auto simp: compiled_manifest_def)

lemma compiled_grants_nothing: "\<not> grants compiled_manifest i"
  by (auto simp: grants_def dest: compiled_denies)

lemma compiled_window: "in_window compiled_manifest t \<longleftrightarrow> 740247 \<le> date_only_utc t \<and> date_only_utc t \<le> 740277"
proof -
  have "date_of (source_checked_at s) = 740247" if "s \<in> set (manifest_sources compiled_manifest)" for s
  proof -
    have "source_text_ok s"
      using decoded_all [OF compiled_sources_ok] that by (simp add: compiled_manifest_def)
    then show ?thesis by (simp add: source_text_ok_def dates_known_def date_of_parse [OF as_of_date])
  qed
  moreover have "date_of (as_of compiled_manifest) = 740247"
    by (simp add: compiled_manifest_def date_of_parse [OF as_of_date])
  ultimately have "evidence_dates compiled_manifest = {740247}" by (auto simp: evidence_dates_def)
  then have "oldest_evidence compiled_manifest = 740247" by (simp add: oldest_evidence_Min)
  with \<open>date_of (as_of compiled_manifest) = 740247\<close> show ?thesis
    by (auto simp: in_window_def compiled_manifest_def)
qed

section \<open>What it decides\<close>

text \<open>C17. The compiled-in authority denies every launch: its document is accepted, the policy built
  from it is not locked, and whatever external document is loaded with it, every request at any
  time is denied.\<close>

theorem compiled_authority_denies:
  "new_policy compiled_document no_document = (empty_policy\<lparr>authoritative := compiled_manifest\<rparr>, None) \<and>
   \<not> is_allowed (evaluate_at (Some (fst (new_policy compiled_document external_json))) r t)"
  using compiled_grants_nothing
  by (simp add: new_policy_def no_document_def compiled_accepted Let_def allowed_iff_grants grants_at_def
      new_policy_cases lock_def split: sum.split)

lemma compiled_reasons:
  "list_all (\<lambda>v. case decode_backend v of
      Inr b \<Rightarrow> trim_space (reason_code b) = reason_code b \<and> reason_code b \<noteq> [] | Inl _ \<Rightarrow> False) compiled_backends"
  by code_simp

text \<open>Within the thirty days from its date, the authority answers a request for one of its
  routes, on a platform and architecture of that route, with the route's own reason code and
  summary and the addresses of the route's evidence.\<close>

theorem compiled_denial_reason:
  assumes "find_backend compiled_manifest (request_backend r) = Some b"
    and "request_platform r \<in> set (host_platforms b)" "request_architecture r \<in> set (host_architectures b)"
    and "740247 \<le> date_only_utc t" "date_only_utc t \<le> 740277"
  shows "evaluate_at (Some (fst (default_policy compiled_document))) r t =
    (deny (reason_code b) [Text (backend_summary b)] (backend_id b))
      \<lparr>manifest_as_of := ''2026-09-23'',
       verdict_freshness := (case freshness_at compiled_manifest t of Inr f \<Rightarrow> f | Inl _ \<Rightarrow> no_freshness),
       evidence_urls := authoritative_evidence_urls compiled_manifest b\<rparr> \<and>
    code (evaluate_at (Some (fst (default_policy compiled_document))) r t) = reason_code b"
proof -
  let ?p = "empty_policy\<lparr>authoritative := compiled_manifest\<rparr>"
  have p: "fst (default_policy compiled_document) = ?p"
    by (simp add: default_policy_def no_document_def new_policy_cases compiled_accepted)
  have b: "b \<in> set (manifest_backends compiled_manifest)" "backend_id b = request_backend r"
    using find_backend_Some [OF assms(1)] by blast+
  then have reason: "trim_space (reason_code b) = reason_code b" "reason_code b \<noteq> []"
    using decoded_all [OF compiled_reasons, of b] by (auto simp: compiled_manifest_def)
  have "check_backend compiled_ids [] b = Inr ()"
    using decoded_all [OF compiled_backends_ok, of b] b by (auto simp: compiled_manifest_def)
  then have "validate_backend b compiled_ids = Inr ()" using check_backend_facts by blast
  then have "list_all known_platform (host_platforms b)" "list_all known_architecture (host_architectures b)"
    unfolding validate_backend_def first_error_Cons_ok require_ok check_each_ok by simp_all
  with assms have gate: "request_gate ?p r = Inr b"
    by (simp add: request_gate_ok list_all_iff)
  have "\<not> is_zero t" using assms(4) by (auto simp: is_zero_def zero_time_def date_only_utc_def)
  then obtain f where f: "freshness_at compiled_manifest t = Inr f" "freshness_state f = Fresh"
    using fresh_iff_in_window [of compiled_manifest t] compiled_valid assms(4,5)
    by (auto simp: compiled_window split: sum.splits)
  then have "freshness_gate ?p b t = Inr f" by (simp add: freshness_gate_ok)
  moreover have "embedded_gate ?p b f = Inl (denial ?p (reason_code b) [Text (backend_summary b)] (backend_id b) f)"
    using compiled_denies [OF assms(1)] by (simp add: embedded_gate_def require_def)
  ultimately have "evaluate_at (Some ?p) r t = denial ?p (reason_code b) [Text (backend_summary b)] (backend_id b) f"
    using gate by (simp add: evaluate_at_def empty_policy_def)
  with f reason b assms(1) show ?thesis
    by (simp add: p denial_def deny_def empty_policy_def) (simp add: compiled_manifest_def)
qed

section \<open>Witnesses\<close>

definition midnight :: "nat \<Rightarrow> go_time" where
  "midnight d = Go_Time (86400 * int d) 0"

lemma midnight_facts: "date_only_utc (midnight d) = d" "is_zero (midnight d) \<longleftrightarrow> d = 366"
  by (simp_all add: date_only_utc_def is_zero_def zero_time_def midnight_def)

lemma wine_defined:
  "find_backend compiled_manifest ''wine'' \<noteq> None \<and>
   host_platforms (the (find_backend compiled_manifest ''wine'')) = all_host_platforms \<and>
   host_architectures (the (find_backend compiled_manifest ''wine'')) = all_host_architectures \<and>
   reason_code (the (find_backend compiled_manifest ''wine'')) = ''VANGUARD_DRIVER_REQUIREMENTS_UNSATISFIED''"
proof -
  have "find_backend compiled_manifest i = find (\<lambda>b. backend_id b = i) (decoded decode_backend compiled_backends)" for i
    by (simp add: find_backend_def compiled_manifest_def)
  moreover have "case find (\<lambda>b. backend_id b = ''wine'') (decoded decode_backend compiled_backends) of
      None \<Rightarrow> False
    | Some b \<Rightarrow> host_platforms b = all_host_platforms \<and> host_architectures b = all_host_architectures \<and>
        reason_code b = ''VANGUARD_DRIVER_REQUIREMENTS_UNSATISFIED''"
    by code_simp
  ultimately show ?thesis by (auto split: option.splits)
qed

theorem compiled_denial_reason_witness:
  "code (evaluate_at (Some (fst (default_policy compiled_document)))
     \<lparr>request_backend = ''wine'', request_platform = ''linux'', request_architecture = ''amd64''\<rparr> (midnight 740250)) =
   ''VANGUARD_DRIVER_REQUIREMENTS_UNSATISFIED''"
proof -
  obtain b where b: "find_backend compiled_manifest ''wine'' = Some b" using wine_defined by blast
  with wine_defined have "host_platforms b = all_host_platforms" "host_architectures b = all_host_architectures"
    "reason_code b = ''VANGUARD_DRIVER_REQUIREMENTS_UNSATISFIED''" by simp_all
  with b show ?thesis
    using compiled_denial_reason [THEN conjunct2,
        of "\<lparr>request_backend = ''wine'', request_platform = ''linux'', request_architecture = ''amd64''\<rparr>" b "midnight 740250"]
    by (simp add: all_host_platforms_def all_host_architectures_def midnight_facts)
qed

lemma utf8_of_bits: "list_all (list_all (\<lambda>c. \<not> digit7 c)) ss \<Longrightarrow> all_utf8 ss"
proof -
  have "is_ascii c \<longleftrightarrow> \<not> digit7 c" for c by (cases c) (auto simp: is_ascii_def byte_def of_char_def)
  then show "list_all (list_all (\<lambda>c. \<not> digit7 c)) ss \<Longrightarrow> all_utf8 ss"
    by (auto simp: list_all_iff intro!: utf8_valid_ascii)
qed

lemma compiled_texts_ascii:
  "list_all (list_all (\<lambda>c. \<not> digit7 c)) (concat (map source_texts (decoded decode_source compiled_sources)))"
  "list_all (list_all (\<lambda>c. \<not> digit7 c)) (concat (map backend_texts (decoded decode_backend compiled_backends)))"
  by code_simp+

lemma compiled_utf8: "all_utf8 (manifest_texts compiled_manifest)"
  by (rule utf8_of_bits)
     (use compiled_texts_ascii in \<open>simp add: manifest_texts_def compiled_manifest_def\<close>)

theorem manifest_roundtrip_witness:
  "parse_manifest \<lparr>doc_size = 20000, doc_blank = False, doc_tokens = tokens (manifest_json compiled_manifest)\<rparr> =
     Inr compiled_manifest"
  using manifest_roundtrip [OF compiled_valid, of 20000] compiled_utf8 by simp

lemma compiled_parses: "parse_manifest compiled_document = Inr compiled_manifest"
  using compiled_accepted by (auto simp: embedded_manifest_def bind_result_ok split: if_splits)

theorem manifest_inventory_witness:
  "distinct (map backend_id (manifest_backends compiled_manifest)) \<and>
   set (map backend_id (manifest_backends compiled_manifest)) = set backend_ids"
  using manifest_inventory [OF compiled_parses] by blast

theorem freshness_window_witness:
  "\<exists>f. freshness_at compiled_manifest (midnight 740277) = Inr f \<and> freshness_state f = Fresh"
proof -
  have "in_window compiled_manifest (midnight 740277)" by (simp add: compiled_window midnight_facts)
  then have "date_of (as_of compiled_manifest) \<le> 740277 \<and>
      740277 \<le> Min (evidence_dates compiled_manifest) + nat (max_age_days (manifest_policy_of compiled_manifest))"
    by (auto simp: in_window_def oldest_evidence_Min midnight_facts compiled_manifest_def)
  with freshness_window [OF compiled_valid, of "midnight 740277"] show ?thesis
    by (auto simp: midnight_facts)
qed

theorem external_only_restricts_witness:
  "\<not> is_allowed (evaluate_at (Some (fst (new_policy compiled_document compiled_document)))
      \<lparr>request_backend = ''wine'', request_platform = ''linux'', request_architecture = ''amd64''\<rparr> (midnight 740250))"
  using external_only_restricts [of compiled_document compiled_document
      "\<lparr>request_backend = ''wine'', request_platform = ''linux'', request_architecture = ''amd64''\<rparr>" "midnight 740250"]
    compiled_grants_nothing
  by (simp add: default_policy_def no_document_def compiled_accepted allowed_iff_grants grants_at_def new_policy_cases)

theorem launch_fails_closed_witness:
  "\<not> is_allowed (evaluate_at (Some (lock ''EMBEDDED_MANIFEST_INVALID'' ''invalid'' empty_policy))
      \<lparr>request_backend = ''wine'', request_platform = ''linux'', request_architecture = ''amd64''\<rparr> (midnight 740250))"
  using launch_fails_closed [of _ _ "lock ''EMBEDDED_MANIFEST_INVALID'' ''invalid'' empty_policy" None None]
  by (auto simp: lock_def)

end

