(* ===== verification/Go_Float.thy ===== *)
theory Go_Float
  imports Go_Base Complex_Main "HOL-Library.Log_Nat"
begin

text \<open>
  \<open>float64\<close>: a value is the rational number it denotes, an infinity or not a number. An operation
  rounds the exact result to the nearest value, ties to even, and overflows to an infinity. The
  sources compute with finite values only, which they check first; an operation on anything else
  is not a number here. Signed zeros are not told apart.
\<close>

datatype go_float = Finite rat | Pos_Inf | Neg_Inf | Not_A_Number

definition pow2 :: "int \<Rightarrow> rat" where
  "pow2 k = (if 0 \<le> k then 2 ^ nat k else 1 / 2 ^ nat (- k))"

text \<open>The exponent of the leading bit of a positive number.\<close>

definition leading_exponent :: "rat \<Rightarrow> int" where
  "leading_exponent a =
     (case quotient_of a of
        (n, d) \<Rightarrow> (let e = bitlen n - bitlen d in if pow2 e \<le> a then e else e - 1))"

definition round_half_even :: "rat \<Rightarrow> int" where
  "round_half_even q =
     (let f = \<lfloor>q\<rfloor>; r = q - of_int f
      in if r < 1 / 2 then f else if 1 / 2 < r then f + 1 else if even f then f else f + 1)"

definition round_positive :: "rat \<Rightarrow> go_float" where
  "round_positive a =
     (let ulp = pow2 (max (leading_exponent a) (-1022) - 52); v = of_int (round_half_even (a / ulp)) * ulp
      in if pow2 1024 \<le> v then Pos_Inf else Finite v)"

definition negate :: "go_float \<Rightarrow> go_float" where
  "negate x =
     (case x of Finite a \<Rightarrow> Finite (- a) | Pos_Inf \<Rightarrow> Neg_Inf | Neg_Inf \<Rightarrow> Pos_Inf | Not_A_Number \<Rightarrow> Not_A_Number)"

definition round_double :: "rat \<Rightarrow> go_float" where
  "round_double a =
     (if a = 0 then Finite 0 else if 0 < a then round_positive a else negate (round_positive (- a)))"

definition double_op :: "(rat \<Rightarrow> rat \<Rightarrow> rat) \<Rightarrow> go_float \<Rightarrow> go_float \<Rightarrow> go_float" where
  "double_op f x y =
     (case (x, y) of (Finite a, Finite b) \<Rightarrow> round_double (f a b) | _ \<Rightarrow> Not_A_Number)"

definition double_abs :: "go_float \<Rightarrow> go_float" where
  "double_abs x = (case x of Finite a \<Rightarrow> Finite \<bar>a\<bar> | Neg_Inf \<Rightarrow> Pos_Inf | _ \<Rightarrow> x)"

definition is_finite :: "go_float \<Rightarrow> bool" where
  "is_finite x = (case x of Finite _ \<Rightarrow> True | _ \<Rightarrow> False)"

text \<open>The comparisons are false when a side is not a number.\<close>

fun double_less :: "go_float \<Rightarrow> go_float \<Rightarrow> bool" where
  "double_less (Finite a) (Finite b) \<longleftrightarrow> a < b"
| "double_less Neg_Inf y \<longleftrightarrow> y = Pos_Inf \<or> is_finite y"
| "double_less (Finite a) y \<longleftrightarrow> y = Pos_Inf"
| "double_less _ _ \<longleftrightarrow> False"

lemma finite_cases: "is_finite x \<Longrightarrow> \<exists>a. x = Finite a"
  by (cases x) (simp_all add: is_finite_def)

text \<open>\<open>int64(math.Ceil(x))\<close> for a finite value in range.\<close>

definition ceil_int :: "go_float \<Rightarrow> int" where
  "ceil_int x = (case x of Finite a \<Rightarrow> \<lceil>a\<rceil> | _ \<Rightarrow> 0)"

section \<open>Decimal text\<close>

text \<open>A JSON number: its sign, its digits without the point, and its exponent of ten.\<close>

definition signed_exponent :: "string \<Rightarrow> int" where
  "signed_exponent s =
     (case s of
        [] \<Rightarrow> 0
      | c # rest \<Rightarrow>
          if c = CHR ''-'' then - int (dec_value rest)
          else if c = CHR ''+'' then int (dec_value rest) else int (dec_value s))"

definition decimal_value :: "string \<Rightarrow> rat" where
  "decimal_value s =
     (let negative = prefix ''-'' s; u = (if negative then tl s else s);
          mantissa = takeWhile (\<lambda>c. c \<noteq> CHR ''e'' \<and> c \<noteq> CHR ''E'') u;
          exponent = drop (length mantissa + 1) u;
          whole = takeWhile (\<lambda>c. c \<noteq> CHR ''.'') mantissa; fraction = drop (length whole + 1) mantissa;
          e = signed_exponent exponent - int (length fraction);
          m = of_nat (dec_value (whole @ fraction));
          v = (if 0 \<le> e then m * 10 ^ nat e else m / 10 ^ nat (- e))
      in if negative then - v else v)"

text \<open>\<open>strconv.ParseFloat\<close>: a number that rounds to an infinity is out of range.\<close>

definition decode_float :: "string \<Rightarrow> go_float option" where
  "decode_float s =
     (case round_double (decimal_value s) of Finite a \<Rightarrow> Some (Finite a) | _ \<Rightarrow> None)"

section \<open>Rounding\<close>

lemma round_half_even_near:
  assumes "\<bar>q - of_int n\<bar> < 1 / 2"
  shows "round_half_even q = n"
proof (cases "of_int n \<le> q")
  case True
  with assms have "\<lfloor>q\<rfloor> = n" by (intro floor_unique) auto
  with assms True show ?thesis by (simp add: round_half_even_def Let_def)
next
  case False
  with assms have "\<lfloor>q\<rfloor> = n - 1" by (intro floor_unique) auto
  with assms False show ?thesis by (simp add: round_half_even_def Let_def)
qed

lemma round_double_near:
  assumes "0 < a" "leading_exponent a = e" "- 1022 \<le> e" "e \<le> 52"
    and "\<bar>a * 2 ^ nat (52 - e) - of_int n\<bar> < 1 / 2" "of_int n / 2 ^ nat (52 - e) < (2 :: rat) ^ 1024"
  shows "round_double a = Finite (of_int n / 2 ^ nat (52 - e))"
proof -
  have ulp: "pow2 (max (leading_exponent a) (-1022) - 52) = 1 / 2 ^ nat (52 - e)"
    using assms(2-4) by (cases "e = 52") (simp_all add: pow2_def)
  have "round_half_even (a * 2 ^ nat (52 - e)) = n" using assms(5) by (rule round_half_even_near)
  with assms(1,6) ulp show ?thesis by (simp add: round_double_def round_positive_def Let_def pow2_def)
qed

text \<open>Small whole numbers are exact.\<close>

lemma round_double_int:
  assumes "0 \<le> n" "n < 2 ^ 53"
  shows "round_double (of_int n) = Finite (of_int n)"
proof (cases "n = 0")
  case False
  define e where "e = leading_exponent (of_int n)"
  have "0 < bitlen n" using False assms(1) bitlen_nonneg [of n] bitlen_eq_zero_iff [of n] by linarith
  moreover have "bitlen n \<le> 53" using assms by (intro bitlen_le_iff_power [THEN iffD2]) simp_all
  moreover have "bitlen 1 = 1" by code_simp
  ultimately have e: "- 1022 \<le> e" "e \<le> 52"
    by (auto simp: e_def leading_exponent_def Let_def)
  have "(of_int n :: rat) < 2 ^ 53" using assms(2) by (metis of_int_less_iff of_int_numeral of_int_power)
  then have "(of_int n :: rat) < 2 ^ 1024" by (rule less_le_trans) simp
  with e assms False show ?thesis
    using round_double_near [of "of_int n" e "n * 2 ^ nat (52 - e)"] by (simp add: e_def)
qed (simp add: round_double_def)

lemma round_double_nonneg: "0 \<le> a \<Longrightarrow> \<not> double_less (round_double a) (Finite 0)"
proof -
  have "0 \<le> pow2 k" for k by (simp add: pow2_def)
  moreover have "0 \<le> q \<Longrightarrow> 0 \<le> round_half_even q" for q by (simp add: round_half_even_def Let_def)
  ultimately show "0 \<le> a \<Longrightarrow> \<not> double_less (round_double a) (Finite 0)"
    by (simp add: round_double_def round_positive_def Let_def not_less)
qed

end
