(* ===== verification/Evidence_Record.thy ===== *)
theory Evidence_Record
  imports Compat_Policy Target Go_Float
begin

text \<open>
  \<open>internal/evidence/evidence.go\<close>: the validation records of hosts, clients and sessions, and what
  \<open>Validate\<close> asks of them. The Go types \<open>RecordType\<close>, \<open>CheckStatus\<close> and the like are strings with
  named constants and are strings here; an optional part is an option. An error is the check that
  failed with the values it names.
\<close>

section \<open>The record\<close>

record artifact =
  artifact_name :: string
  artifact_sha256 :: string
  artifact_size :: int
  artifact_media_type :: string

record subject =
  subject_role :: string
  subject_platform :: string
  subject_architecture :: string
  subject_environment :: string

record attestation =
  attestation_level :: string
  attestation_reviewer :: string
  attestation_reviewed_at :: string
  attestation_artifacts :: "artifact list"
  attestation_notes :: string

record bindings =
  host_record_sha256 :: string
  client_record_sha256 :: string

record check =
  check_id :: string
  check_status :: string
  check_method :: string
  check_observed_at :: string
  check_summary :: string
  check_artifacts :: "artifact list"

record stream_profile =
  profile_width :: int
  profile_height :: int
  profile_target_frame_rate :: go_float
  profile_codec :: string
  profile_transport :: string

record methodology =
  methodology_version :: string
  capture_started_at :: string
  capture_ended_at :: string
  sample_count :: int
  collector_id :: string
  collector_version :: string
  capture_artifact_sha256 :: string

record measurement =
  measurement_id :: string
  measurement_value :: go_float
  measurement_unit :: string

record evidence =
  ev_schema :: string
  ev_schema_version :: int
  ev_record_id :: string
  ev_record_type :: string
  ev_run_id :: string
  ev_route_id :: string
  ev_test_profile_id :: string
  ev_created_at :: string
  ev_expires_at :: string
  ev_manifest_as_of :: string
  ev_manifest_sha256 :: string
  ev_tool_version :: string
  ev_subject :: subject
  ev_attestation :: attestation
  ev_bindings :: "bindings option"
  ev_stream_profile :: "stream_profile option"
  ev_methodology :: "methodology option"
  ev_checks :: "check list"
  ev_measurements :: "measurement list"

datatype artifact_error =
    Artifact_Count | Artifact_Name string | Artifact_Duplicate string | Artifact_Sha string | Artifact_Size string
  | Artifact_Media_Type string

datatype subject_error =
    Subject_Role string | Subject_Environment | Host_Platform | Host_Architecture | Client_Platform

datatype attestation_error =
    Self_Reviewer | Self_Reviewed_At | Self_Artifacts | Reviewer_Missing | Attestation_Level string | Notes_Too_Long

datatype session_parts_error =
    Bindings_Missing | Bindings_Digest string | Profile_Missing | Methodology_Missing | Bindings_Not_Allowed
  | Profile_Not_Allowed | Methodology_Not_Allowed | Profile_Dimensions | Profile_Frame_Rate
  | Profile_Codec string | Profile_Transport string

datatype check_error =
    Check_Count nat | Check_Unexpected string | Check_Duplicate string | Check_Status string | Check_Method string
  | Check_Summary string | Check_Unverified_Claims string

datatype time_error =
    Reviewed_Before_Created | Reviewed_After_Expiry | Observed_Before_Created string
  | Observed_After_Expiry string | Observed_After_Review string

datatype measurement_error =
    Too_Many_Measurements | Measurement_Id string | Measurement_Duplicate string | Measurement_Value string
  | Measurement_Unit string | Measurement_Missing string

datatype capture_error =
    Methodology_Version string | Unverified_Methodology | Capture_Order | Capture_Before_Created
  | Capture_After_Expiry | Capture_Too_Long | Sample_Count | Collector_Id | Collector_Version | Capture_Sha
  | Capture_After_Review | Capture_Unbound | Capture_Duration

datatype identity_error =
    Ev_Schema string | Ev_Schema_Version int | Ev_Record_Id string | Ev_Record_Type string | Ev_Run_Id string
  | Ev_Route_Id string | Ev_Test_Profile string | Ev_Manifest_Sha

datatype parse_error =
    Ev_Empty | Ev_Too_Large | Ev_Structure walk_error | Ev_Decode

datatype evidence_error =
    Ev_Timestamp string | Ev_Validity | Ev_Manifest_Date | Ev_Created_Before_Manifest | Ev_Tool_Version
  | Ev_Artifacts string artifact_error | Name_Collision string | Bundle_Too_Large
  | Ev_Verification_Mismatch | Ev_Time_Required | Ev_Manifest manifest_error | Ev_Freshness freshness_error
  | Set_Record_Type string | Set_Digest | Set_Route | Set_Member string evidence_error
  | In_Subject subject_error | In_Attestation attestation_error | In_Session_Parts session_parts_error | In_Checks check_error | In_Times time_error
  | In_Measurements measurement_error | In_Capture capture_error | In_Identity identity_error | In_Parse parse_error

section \<open>Constants\<close>

definition evidence_schema_id :: string where
  "evidence_schema_id = ''https://leaguebridge.dev/schemas/validation-evidence.schema.json''"

definition max_validity :: int where
  "max_validity = 30 * 24 * 3600 * 1000000000"

definition max_record_size :: nat where
  "max_record_size = 1048576"

definition max_artifact_size :: int where
  "max_artifact_size = 1073741824"

definition max_artifact_bundle_size :: int where
  "max_artifact_bundle_size = 4294967296"

definition supported_route_ids :: "string list" where
  "supported_route_ids = [''physical-windows-remote'', ''physical-macos-remote'']"

definition required_checks :: "string \<Rightarrow> string list option" where
  "required_checks t =
     (if t = ''host'' then Some
        [''host.physical-machine'', ''host.supported-os'', ''host.hardware-requirements'',
         ''host.security-requirements'', ''host.riot-installation'', ''host.local-practice-tool'',
         ''host.streaming-server'']
      else if t = ''client'' then Some
        [''client.platform'', ''client.moonlight'', ''client.display'', ''client.audio'', ''client.decoder'']
      else if t = ''session'' then Some
        [''session.pair'', ''session.app-list'', ''session.video'', ''session.keyboard-mouse'', ''session.audio'',
         ''session.latency'', ''session.practice-tool'', ''session.vanguard-errors'', ''session.patch-current'']
      else None)"

record measurement_requirement =
  requirement_id :: string
  requirement_unit :: string
  require_positive :: bool
  minimum_inclusive :: rat
  maximum_inclusive :: rat

definition measurement_requirements :: "measurement_requirement list" where
  "measurement_requirements =
     [\<lparr>requirement_id = ''session-duration'', requirement_unit = ''seconds'', require_positive = False,
       minimum_inclusive = 1800, maximum_inclusive = 28800\<rparr>,
      \<lparr>requirement_id = ''average-frame-rate'', requirement_unit = ''fps'', require_positive = False,
       minimum_inclusive = 55, maximum_inclusive = 240\<rparr>,
      \<lparr>requirement_id = ''encode-latency'', requirement_unit = ''ms'', require_positive = True,
       minimum_inclusive = 0, maximum_inclusive = 30\<rparr>,
      \<lparr>requirement_id = ''network-latency'', requirement_unit = ''ms'', require_positive = True,
       minimum_inclusive = 0, maximum_inclusive = 80\<rparr>,
      \<lparr>requirement_id = ''decode-latency'', requirement_unit = ''ms'', require_positive = True,
       minimum_inclusive = 0, maximum_inclusive = 30\<rparr>,
      \<lparr>requirement_id = ''end-to-end-latency'', requirement_unit = ''ms'', require_positive = True,
       minimum_inclusive = 0, maximum_inclusive = 150\<rparr>,
      \<lparr>requirement_id = ''dropped-frames'', requirement_unit = ''percent'', require_positive = False,
       minimum_inclusive = 0, maximum_inclusive = 1\<rparr>]"

section \<open>Lexical checks\<close>

definition lower_hex_char :: "char \<Rightarrow> bool" where
  "lower_hex_char c \<longleftrightarrow> is_digit c \<or> 97 \<le> byte c \<and> byte c \<le> 102"

definition lower_hex :: "nat \<Rightarrow> string \<Rightarrow> bool" where
  "lower_hex n s \<longleftrightarrow> length s = n \<and> list_all lower_hex_char s"

definition is_sha256 :: "string \<Rightarrow> bool" where
  "is_sha256 s \<longleftrightarrow> lower_hex 64 s"

definition run_id_pattern :: "string \<Rightarrow> bool" where
  "run_id_pattern s \<longleftrightarrow> prefix ''run-'' s \<and> lower_hex 32 (drop 4 s)"

definition record_id_pattern :: "string \<Rightarrow> bool" where
  "record_id_pattern s \<longleftrightarrow>
     list_ex (\<lambda>t. prefix (t @ ''-'') s \<and> lower_hex 32 (drop (length t + 1) s)) [''host'', ''client'', ''session'']"

text \<open>Non-empty runs joined by a single period or hyphen.\<close>

definition dotted_pattern :: "string \<Rightarrow> bool" where
  "dotted_pattern s \<longleftrightarrow> id_pattern (map (\<lambda>c. if c = CHR ''.'' then CHR ''-'' else c) s)"

definition artifact_name_pattern :: "string \<Rightarrow> bool" where
  "artifact_name_pattern s \<longleftrightarrow>
     s \<noteq> [] \<and> is_alnum (hd s) \<and> length s \<le> 128 \<and> list_all (\<lambda>c. is_alnum c \<or> c \<in> set ''._-'') s"

text \<open>The media types that \<open>mime.ParseMediaType\<close> returns unchanged and without parameters: a token,
  or two joined by a slash, in lower case and without surrounding space.\<close>

definition mime_token_char :: "char \<Rightarrow> bool" where
  "mime_token_char c \<longleftrightarrow> 32 < byte c \<and> byte c < 127 \<and> \<not> List.member (''()<>@,;:/[]?='' @ [CHR 0x22, CHR 0x5C]) c"

definition canonical_media_type :: "string \<Rightarrow> bool" where
  "canonical_media_type s \<longleftrightarrow>
     CHR '';'' \<notin> set s \<and> trim_space (to_lower s) = s \<and> to_lower s = s \<and>
     (case cut_at (CHR ''/'') s of
        (kind, subkind, found) \<Rightarrow>
          kind \<noteq> [] \<and> list_all mime_token_char kind \<and>
          (found \<longrightarrow> subkind \<noteq> [] \<and> list_all mime_token_char subkind))"

definition parse_timestamp :: "string \<Rightarrow> string \<Rightarrow> evidence_error + go_time" where
  "parse_timestamp name v = (case parse_rfc3339 v of None \<Rightarrow> Inl (Ev_Timestamp name) | Some (t, _) \<Rightarrow> Inr t)"

section \<open>Artifacts\<close>

definition check_artifact :: "artifact \<Rightarrow> artifact_error + unit" where
  "check_artifact a =
     first_error
       [require (is_sha256 (artifact_sha256 a)) (Artifact_Sha (artifact_name a)),
        require (0 < artifact_size a \<and> artifact_size a \<le> max_artifact_size) (Artifact_Size (artifact_name a)),
        require (canonical_media_type (artifact_media_type a)) (Artifact_Media_Type (artifact_name a))]"

fun check_artifacts_loop :: "string list \<Rightarrow> artifact list \<Rightarrow> artifact_error + unit" where
  "check_artifacts_loop seen [] = Inr ()"
| "check_artifacts_loop seen (a # as) =
     (if \<not> artifact_name_pattern (artifact_name a) then Inl (Artifact_Name (artifact_name a))
      else if artifact_name a \<in> set seen then Inl (Artifact_Duplicate (artifact_name a))
      else bind_result (check_artifact a) (\<lambda>_. check_artifacts_loop (artifact_name a # seen) as))"

definition validate_artifacts :: "string \<Rightarrow> artifact list \<Rightarrow> nat \<Rightarrow> nat \<Rightarrow> evidence_error + unit" where
  "validate_artifacts name as minimum maximum =
     map_error (Ev_Artifacts name)
       (if length as < minimum \<or> maximum < length as then Inl Artifact_Count else check_artifacts_loop [] as)"

text \<open>\<open>declaredArtifacts\<close>, and the names and total size over the whole record
  (\<open>internal/evidence/artifacts.go\<close>).\<close>

definition declared_artifacts :: "evidence \<Rightarrow> artifact list" where
  "declared_artifacts r =
     attestation_artifacts (ev_attestation r) @ concat (map check_artifacts (ev_checks r))"

fun check_global_names :: "string list \<Rightarrow> int \<Rightarrow> artifact list \<Rightarrow> evidence_error + unit" where
  "check_global_names seen bytes [] = Inr ()"
| "check_global_names seen bytes (a # as) =
     (let portable = to_lower (artifact_name a) in
      if portable \<in> set seen then Inl (Name_Collision (artifact_name a))
      else if max_artifact_bundle_size - artifact_size a < bytes then Inl Bundle_Too_Large
      else check_global_names (portable # seen) (bytes + artifact_size a) as)"

definition validate_global_artifact_names :: "evidence \<Rightarrow> evidence_error + unit" where
  "validate_global_artifact_names r = check_global_names [] 0 (declared_artifacts r)"

section \<open>The parts of a record\<close>

definition validate_subject :: "string \<Rightarrow> subject \<Rightarrow> string \<Rightarrow> evidence_error + unit" where
  "validate_subject record_type s route =
     first_error
       [require (subject_role s = record_type) (In_Subject (Subject_Role (subject_role s))),
        require (valid_text (subject_environment s) 512) (In_Subject Subject_Environment),
        (if record_type = ''host'' then
           (if route = ''physical-windows-remote'' then
              first_error
                [require (subject_platform s = ''windows'') (In_Subject Host_Platform),
                 require (subject_architecture s = ''amd64'') (In_Subject Host_Architecture)]
            else if route = ''physical-macos-remote'' then
              first_error
                [require (subject_platform s = ''macos'') (In_Subject Host_Platform),
                 require (subject_architecture s = ''amd64'' \<or> subject_architecture s = ''arm64'') (In_Subject Host_Architecture)]
            else Inl (In_Identity (Ev_Route_Id route)))
         else if record_type = ''client'' \<or> record_type = ''session'' then
           require (is_supported_evidence_platform (subject_platform s) (subject_architecture s)) (In_Subject Client_Platform)
         else Inr ())]"

definition validate_attestation :: "attestation \<Rightarrow> evidence_error + unit" where
  "validate_attestation a =
     first_error
       [(if attestation_level a = ''self-attested'' then
           first_error
             [require (trim_space (attestation_reviewer a) = []) (In_Attestation Self_Reviewer),
              require (trim_space (attestation_reviewed_at a) = []) (In_Attestation Self_Reviewed_At),
              require (attestation_artifacts a = []) (In_Attestation Self_Artifacts)]
         else if attestation_level a = ''lab-observed'' \<or> attestation_level a = ''independent-review'' then
           first_error
             [require (valid_text (attestation_reviewer a) 256) (In_Attestation Reviewer_Missing),
              bind_result (parse_timestamp ''attestation.reviewed_at'' (attestation_reviewed_at a)) (\<lambda>_. Inr ()),
              validate_artifacts ''attestation.artifacts'' (attestation_artifacts a) 1 16]
         else Inl (In_Attestation (Attestation_Level (attestation_level a)))),
        require (length (attestation_notes a) \<le> 4096) (In_Attestation Notes_Too_Long)]"

definition validate_stream_profile :: "stream_profile \<Rightarrow> evidence_error + unit" where
  "validate_stream_profile p =
     first_error
       [require (0 \<le> profile_width p \<and> profile_width p \<le> 8192 \<and> 0 \<le> profile_height p \<and> profile_height p \<le> 8192)
          (In_Session_Parts Profile_Dimensions),
        require (is_finite (profile_target_frame_rate p) \<and>
            \<not> double_less (profile_target_frame_rate p) (Finite 0) \<and>
            \<not> double_less (Finite 240) (profile_target_frame_rate p)) (In_Session_Parts Profile_Frame_Rate),
        require (profile_codec p \<in> {''unverified'', ''h264'', ''hevc'', ''av1''}) (In_Session_Parts (Profile_Codec (profile_codec p))),
        require (profile_transport p \<in> {''unverified'', ''wired-lan'', ''wifi'', ''wan''})
          (In_Session_Parts (Profile_Transport (profile_transport p)))]"

definition validate_check :: "check \<Rightarrow> evidence_error + unit" where
  "validate_check c =
     first_error
       [require (check_status c \<in> {''pass'', ''fail'', ''unverified'', ''not-applicable''}) (In_Checks (Check_Status (check_id c))),
        require (check_method c \<in> {''automatic'', ''manual'', ''external''}) (In_Checks (Check_Method (check_id c))),
        require (valid_text (check_summary c) 1024) (In_Checks (Check_Summary (check_id c))),
        (if check_status c = ''unverified'' then
           require (trim_space (check_observed_at c) = [] \<and> check_artifacts c = []) (In_Checks (Check_Unverified_Claims (check_id c)))
         else
           first_error
             [bind_result (parse_timestamp (''check '' @ check_id c @ '' observed_at'') (check_observed_at c)) (\<lambda>_. Inr ()),
              validate_artifacts (''check '' @ check_id c @ '' artifacts'') (check_artifacts c) 1 16])]"

fun check_checks :: "string list \<Rightarrow> string list \<Rightarrow> check list \<Rightarrow> evidence_error + unit" where
  "check_checks required seen [] = Inr ()"
| "check_checks required seen (c # cs) =
     (if check_id c \<notin> set required then Inl (In_Checks (Check_Unexpected (check_id c)))
      else if check_id c \<in> set seen then Inl (In_Checks (Check_Duplicate (check_id c)))
      else bind_result (validate_check c) (\<lambda>_. check_checks required (check_id c # seen) cs))"

definition validate_checks :: "check list \<Rightarrow> string list \<Rightarrow> evidence_error + unit" where
  "validate_checks cs required =
     (if length cs \<noteq> length required then Inl (In_Checks (Check_Count (length cs))) else check_checks required [] cs)"

text \<open>A self-attested record has no review time to compare with.\<close>

definition self_attested :: "evidence \<Rightarrow> bool" where
  "self_attested r \<longleftrightarrow> attestation_level (ev_attestation r) = ''self-attested''"

definition reviewed_at :: "evidence \<Rightarrow> go_time" where
  "reviewed_at r = time_or_zero (attestation_reviewed_at (ev_attestation r))"

definition check_order :: "evidence \<Rightarrow> go_time \<Rightarrow> go_time \<Rightarrow> check \<Rightarrow> evidence_error + unit" where
  "check_order r created expires c =
     (if check_status c = ''unverified'' then Inr ()
      else
        (let observed = time_or_zero (check_observed_at c) in
         first_error
           [require (\<not> observed < created) (In_Times (Observed_Before_Created (check_id c))),
            require (observed < expires) (In_Times (Observed_After_Expiry (check_id c))),
            require (self_attested r \<or> \<not> reviewed_at r < observed) (In_Times (Observed_After_Review (check_id c)))]))"

definition validate_time_order :: "evidence \<Rightarrow> go_time \<Rightarrow> go_time \<Rightarrow> evidence_error + unit" where
  "validate_time_order r created expires =
     first_error
       ((if self_attested r then Inr ()
         else
           first_error
             [require (\<not> reviewed_at r < created) (In_Times Reviewed_Before_Created),
              require (reviewed_at r < expires) (In_Times Reviewed_After_Expiry)]) #
        map (check_order r created expires) (ev_checks r))"

section \<open>Measurements\<close>

definition check_measurement :: "measurement \<Rightarrow> evidence_error + unit" where
  "check_measurement m =
     first_error
       [require (is_finite (measurement_value m) \<and> \<not> double_less (measurement_value m) (Finite 0))
          (In_Measurements (Measurement_Value (measurement_id m))),
        require (valid_text (measurement_unit m) 64) (In_Measurements (Measurement_Unit (measurement_id m))),
        require (\<not> (measurement_id m = ''dropped-frames'' \<and> double_less (Finite 100) (measurement_value m)))
          (In_Measurements (Measurement_Value (measurement_id m))),
        require (\<not> (measurement_id m = ''session-duration'' \<and> double_less (Finite 28800) (measurement_value m)))
          (In_Measurements (Measurement_Value (measurement_id m))),
        require (\<not> (measurement_id m = ''average-frame-rate'' \<and> double_less (Finite 240) (measurement_value m)))
          (In_Measurements (Measurement_Value (measurement_id m)))]"

fun check_measurements :: "string list \<Rightarrow> measurement list \<Rightarrow> evidence_error + unit" where
  "check_measurements seen [] = Inr ()"
| "check_measurements seen (m # ms) =
     (if \<not> (length (measurement_id m) \<le> 128 \<and> dotted_pattern (measurement_id m))
      then Inl (In_Measurements (Measurement_Id (measurement_id m)))
      else if measurement_id m \<in> set seen then Inl (In_Measurements (Measurement_Duplicate (measurement_id m)))
      else bind_result (check_measurement m) (\<lambda>_. check_measurements (measurement_id m # seen) ms))"

definition find_measurement :: "measurement list \<Rightarrow> string \<Rightarrow> measurement option" where
  "find_measurement ms i = find (\<lambda>m. measurement_id m = i) ms"

definition check_requirement :: "measurement list \<Rightarrow> measurement_requirement \<Rightarrow> evidence_error + unit" where
  "check_requirement ms q =
     (case find_measurement ms (requirement_id q) of
        None \<Rightarrow> Inl (In_Measurements (Measurement_Missing (requirement_id q)))
      | Some m \<Rightarrow> require (measurement_unit m = requirement_unit q) (In_Measurements (Measurement_Unit (requirement_id q))))"

definition validate_measurements :: "string \<Rightarrow> measurement list \<Rightarrow> evidence_error + unit" where
  "validate_measurements record_type ms =
     first_error
       [require (length ms \<le> 64) (In_Measurements Too_Many_Measurements),
        check_measurements [] ms,
        (if record_type = ''session'' then first_error (map (check_requirement ms) measurement_requirements)
         else Inr ())]"

text \<open>\<open>Duration.Seconds\<close> of a positive duration: whole seconds plus the rest, each a \<open>float64\<close>.\<close>

definition duration_seconds :: "int \<Rightarrow> go_float" where
  "duration_seconds d =
     double_op (+) (round_double (of_int (d div 1000000000)))
       (double_op (/) (round_double (of_int (d mod 1000000000))) (Finite 1000000000))"

definition capture_bound :: "evidence \<Rightarrow> methodology \<Rightarrow> bool" where
  "capture_bound r m \<longleftrightarrow>
     list_ex (\<lambda>c. check_id c = ''session.latency'' \<and>
       list_ex (\<lambda>a. artifact_sha256 a = capture_artifact_sha256 m) (check_artifacts c)) (ev_checks r)"

definition session_duration :: "evidence \<Rightarrow> go_float" where
  "session_duration r =
     (case find_measurement (ev_measurements r) ''session-duration'' of
        Some m \<Rightarrow> measurement_value m | None \<Rightarrow> Finite 0)"

definition check_capture :: "evidence \<Rightarrow> methodology \<Rightarrow> go_time \<Rightarrow> go_time \<Rightarrow> go_time \<Rightarrow> go_time \<Rightarrow> evidence_error + unit" where
  "check_capture r m created expires started ended =
     (let duration = duration_seconds (time_sub ended started) in
      first_error
        [require (started < ended) (In_Capture Capture_Order),
         require (\<not> started < created) (In_Capture Capture_Before_Created),
         require (ended < expires) (In_Capture Capture_After_Expiry),
         require (\<not> double_less (Finite 28800) duration) (In_Capture Capture_Too_Long),
         require (1 \<le> sample_count m \<and> sample_count m \<le> 10000000) (In_Capture Sample_Count),
         require (ceil_int duration \<le> sample_count m \<and>
             sample_count m \<le> ceil_int (double_op (*) duration (Finite 1000))) (In_Capture Sample_Count),
         require (length (collector_id m) \<le> 128 \<and> dotted_pattern (collector_id m)) (In_Capture Collector_Id),
         require (valid_text (collector_version m) 128) (In_Capture Collector_Version),
         require (is_sha256 (capture_artifact_sha256 m)) (In_Capture Capture_Sha),
         require (self_attested r \<or> \<not> reviewed_at r < ended) (In_Capture Capture_After_Review),
         require (capture_bound r m) (In_Capture Capture_Unbound),
         require (\<not> double_less (round_double (1 / 1000)) (double_abs (double_op (-) (session_duration r) duration)))
           (In_Capture Capture_Duration)])"

definition validate_methodology :: "evidence \<Rightarrow> methodology \<Rightarrow> go_time \<Rightarrow> go_time \<Rightarrow> evidence_error + unit" where
  "validate_methodology r m created expires =
     (if methodology_version m \<noteq> ''session-metrics-v1'' then Inl (In_Capture (Methodology_Version (methodology_version m)))
      else if capture_started_at m = [] then
        require (capture_ended_at m = [] \<and> sample_count m = 0 \<and> collector_id m = [] \<and> collector_version m = [] \<and>
            capture_artifact_sha256 m = []) (In_Capture Unverified_Methodology)
      else
        bind_result (parse_timestamp ''measurement_methodology.capture_started_at'' (capture_started_at m)) (\<lambda>started.
        bind_result (parse_timestamp ''measurement_methodology.capture_ended_at'' (capture_ended_at m)) (\<lambda>ended.
          check_capture r m created expires started ended)))"

section \<open>Validation\<close>

text \<open>The parts that only a session record has.\<close>

definition check_binding :: "string \<Rightarrow> string \<Rightarrow> evidence_error + unit" where
  "check_binding name v = require (v = [] \<or> is_sha256 v) (In_Session_Parts (Bindings_Digest name))"

definition validate_session_parts :: "evidence \<Rightarrow> evidence_error + unit" where
  "validate_session_parts r =
     (if ev_record_type r = ''session'' then
        first_error
          [(case ev_bindings r of
              None \<Rightarrow> Inl (In_Session_Parts Bindings_Missing)
            | Some b \<Rightarrow>
                first_error
                  [check_binding ''host_record_sha256'' (host_record_sha256 b),
                   check_binding ''client_record_sha256'' (client_record_sha256 b)]),
           (case ev_stream_profile r of None \<Rightarrow> Inl (In_Session_Parts Profile_Missing) | Some p \<Rightarrow> validate_stream_profile p),
           require (ev_methodology r \<noteq> None) (In_Session_Parts Methodology_Missing)]
      else
        first_error
          [require (ev_bindings r = None) (In_Session_Parts Bindings_Not_Allowed),
           require (ev_stream_profile r = None) (In_Session_Parts Profile_Not_Allowed),
           require (ev_methodology r = None) (In_Session_Parts Methodology_Not_Allowed)])"

definition validate_identity :: "evidence \<Rightarrow> evidence_error + unit" where
  "validate_identity r =
     first_error
       [require (ev_schema r = evidence_schema_id) (In_Identity (Ev_Schema (ev_schema r))),
        require (ev_schema_version r = 1) (In_Identity (Ev_Schema_Version (ev_schema_version r))),
        require (record_id_pattern (ev_record_id r) \<and> prefix (ev_record_type r @ ''-'') (ev_record_id r))
          (In_Identity (Ev_Record_Id (ev_record_id r))),
        require (required_checks (ev_record_type r) \<noteq> None) (In_Identity (Ev_Record_Type (ev_record_type r))),
        require (run_id_pattern (ev_run_id r)) (In_Identity (Ev_Run_Id (ev_run_id r))),
        require (ev_route_id r \<in> set supported_route_ids) (In_Identity (Ev_Route_Id (ev_route_id r))),
        require (ev_test_profile_id r = ''remote-play-v1'') (In_Identity (Ev_Test_Profile (ev_test_profile_id r))),
        require (is_sha256 (ev_manifest_sha256 r)) (In_Identity Ev_Manifest_Sha)]"

definition validate_contents :: "evidence \<Rightarrow> go_time \<Rightarrow> go_time \<Rightarrow> evidence_error + unit" where
  "validate_contents r created expires =
     first_error
       [require (valid_text (ev_tool_version r) 256) Ev_Tool_Version,
        validate_subject (ev_record_type r) (ev_subject r) (ev_route_id r),
        validate_attestation (ev_attestation r),
        validate_session_parts r,
        validate_checks (ev_checks r) (the (required_checks (ev_record_type r))),
        validate_global_artifact_names r,
        validate_time_order r created expires,
        validate_measurements (ev_record_type r) (ev_measurements r),
        (if ev_record_type r = ''session'' then validate_methodology r (the (ev_methodology r)) created expires
         else Inr ())]"

definition check_manifest_date :: "string \<Rightarrow> go_time \<Rightarrow> evidence_error + unit" where
  "check_manifest_date date created =
     (case time_parse_date date of
        None \<Rightarrow> Inl Ev_Manifest_Date
      | Some d \<Rightarrow> require (\<not> utc_date created < d) Ev_Created_Before_Manifest)"

definition validate_evidence :: "evidence \<Rightarrow> evidence_error + unit" where
  "validate_evidence r =
     bind_result (validate_identity r) (\<lambda>_.
     bind_result (parse_timestamp ''created_at'' (ev_created_at r)) (\<lambda>created.
     bind_result (parse_timestamp ''expires_at'' (ev_expires_at r)) (\<lambda>expires.
     bind_result (require (created < expires \<and> time_sub expires created \<le> max_validity) Ev_Validity) (\<lambda>_.
     bind_result (check_manifest_date (ev_manifest_as_of r) created) (\<lambda>_.
       validate_contents r created expires)))))"

end
