(* ===== verification/Evidence_Evaluate.thy ===== *)
theory Evidence_Evaluate
  imports Evidence_Record
begin

text \<open>
  The evaluation of validation records in \<open>internal/evidence/evidence.go\<close>: one record at a time,
  and a host, client and session record as a chain. The hash functions are parts of the
  environment: the digest of a printed manifest, and the digest of a printed record that an
  artifact verification is bound to. A reason is a constructor with the values its text names.
\<close>

section \<open>The environment and the results\<close>

record evaluation_env =
  compiled_in :: document
  json_digest :: "json \<Rightarrow> string"
  record_digest :: "evidence \<Rightarrow> string"

record artifact_verification =
  av_digest :: string
  av_verified :: bool

datatype state = Complete | Claims_Complete | Pending | Expired

datatype reason =
    Record_Expired | Created_In_Future | Other_Manifest_Date | Other_Manifest_Content
  | Manifest_Not_Fresh freshness_state | Needs_Review | Review_In_Future | Not_Bound
  | Observation_In_Future string | Check_Is string string
  | Methodology_Unverified | Capture_Start_In_Future | Capture_End_In_Future
  | Stream_Too_Small int int | Frame_Rate_Too_Low go_float | Codec_Unverified | Transport_Unverified
  | Zero_Placeholder string | Below_Minimum string go_float | Above_Maximum string go_float
  | Latency_Inconsistent string | Below_Target_Rate
  | Claims_Hold bool bool
  | Host_Binding_Mismatch | Client_Binding_Mismatch | Subject_Mismatch | Run_Mismatch
  | Outlives_Host | Outlives_Client | Review_After_Capture string | Member_Reason string reason
  | Set_Holds bool

record evaluation =
  evaluation_state :: state
  promotion_safe :: bool
  reasons :: "reason list"

record set_evaluation =
  set_state :: state
  set_promotion_safe :: bool
  set_host :: evaluation
  set_client :: evaluation
  set_session :: evaluation
  set_reasons :: "reason list"

definition only_if :: "bool \<Rightarrow> 'a \<Rightarrow> 'a list" where
  "only_if b x = (if b then [x] else [])"

lemma only_if_simps [simp]: "only_if True x = [x]" "only_if False x = []" "only_if b x = [] \<longleftrightarrow> \<not> b"
  by (simp_all add: only_if_def)

section \<open>The reasons against a record\<close>

definition matches_artifact_verification :: "evaluation_env \<Rightarrow> evidence \<Rightarrow> artifact_verification \<Rightarrow> bool" where
  "matches_artifact_verification env r v \<longleftrightarrow> av_verified v \<and> record_digest env r = av_digest v"

definition stream_profile_reasons :: "stream_profile \<Rightarrow> reason list" where
  "stream_profile_reasons p =
     only_if (profile_width p < 1920 \<or> profile_height p < 1080) (Stream_Too_Small (profile_width p) (profile_height p)) @
     only_if (double_less (profile_target_frame_rate p) (Finite 60)) (Frame_Rate_Too_Low (profile_target_frame_rate p)) @
     only_if (profile_codec p = ''unverified'') Codec_Unverified @
     only_if (profile_transport p = ''unverified'') Transport_Unverified"

definition measured :: "measurement list \<Rightarrow> string \<Rightarrow> go_float" where
  "measured ms i =
     (case map_of (rev (map (\<lambda>m. (measurement_id m, measurement_value m)) ms)) i of
        Some v \<Rightarrow> v | None \<Rightarrow> Finite 0)"

definition requirement_reasons :: "measurement list \<Rightarrow> measurement_requirement \<Rightarrow> reason list" where
  "requirement_reasons ms q =
     (let v = measured ms (requirement_id q) in
      if require_positive q \<and> (v = Finite 0 \<or> double_less v (Finite 0)) then [Zero_Placeholder (requirement_id q)]
      else
        only_if (double_less v (Finite (minimum_inclusive q))) (Below_Minimum (requirement_id q) v) @
        only_if (double_less (Finite (maximum_inclusive q)) v) (Above_Maximum (requirement_id q) v))"

definition session_measurement_reasons :: "measurement list \<Rightarrow> stream_profile \<Rightarrow> reason list" where
  "session_measurement_reasons ms p =
     concat (map (requirement_reasons ms) measurement_requirements) @
     concat (map (\<lambda>c. only_if (double_less (measured ms ''end-to-end-latency'') (measured ms c)) (Latency_Inconsistent c))
       [''encode-latency'', ''network-latency'', ''decode-latency'']) @
     only_if (double_less (Finite 0) (profile_target_frame_rate p) \<and>
         double_less (measured ms ''average-frame-rate'')
           (double_op (*) (profile_target_frame_rate p) (round_double (9 / 10)))) Below_Target_Rate"

definition check_reasons :: "go_time \<Rightarrow> check \<Rightarrow> reason list" where
  "check_reasons now c =
     only_if (check_status c \<noteq> ''unverified'' \<and> now < time_or_zero (check_observed_at c))
       (Observation_In_Future (check_id c)) @
     only_if (check_status c \<noteq> ''pass'') (Check_Is (check_id c) (check_status c))"

definition capture_reasons :: "go_time \<Rightarrow> methodology \<Rightarrow> reason list" where
  "capture_reasons now m =
     (if capture_started_at m = [] then [Methodology_Unverified]
      else
        only_if (now < time_or_zero (capture_started_at m)) Capture_Start_In_Future @
        only_if (now < time_or_zero (capture_ended_at m)) Capture_End_In_Future)"

definition binding_reasons :: "evidence \<Rightarrow> reason list" where
  "binding_reasons r =
     only_if
       (ev_record_type r = ''session'' \<and>
        (host_record_sha256 (the (ev_bindings r)) = [] \<or> client_record_sha256 (the (ev_bindings r)) = [])) Not_Bound"

definition session_reasons :: "go_time \<Rightarrow> evidence \<Rightarrow> reason list" where
  "session_reasons now r =
     (if ev_record_type r = ''session'' then
        capture_reasons now (the (ev_methodology r)) @
        stream_profile_reasons (the (ev_stream_profile r)) @
        session_measurement_reasons (ev_measurements r) (the (ev_stream_profile r))
      else [])"

definition record_reasons :: "string \<Rightarrow> freshness_state \<Rightarrow> go_time \<Rightarrow> evidence \<Rightarrow> reason list" where
  "record_reasons digest fresh now r =
     only_if (now < time_or_zero (ev_created_at r)) Created_In_Future @
     only_if (ev_manifest_as_of r \<noteq> authoritative_as_of) Other_Manifest_Date @
     only_if (ev_manifest_sha256 r \<noteq> digest) Other_Manifest_Content @
     only_if (fresh \<noteq> Fresh) (Manifest_Not_Fresh fresh) @
     (if self_attested r then [Needs_Review] else only_if (now < reviewed_at r) Review_In_Future) @
     binding_reasons r @
     concat (map (check_reasons now) (ev_checks r)) @
     session_reasons now r"

definition expired_evaluation :: evaluation where
  "expired_evaluation = \<lparr>evaluation_state = Expired, promotion_safe = False, reasons = [Record_Expired]\<rparr>"

definition conclude :: "bool \<Rightarrow> evidence \<Rightarrow> reason list \<Rightarrow> evaluation" where
  "conclude verified r rs =
     (if rs \<noteq> [] then \<lparr>evaluation_state = Pending, promotion_safe = False, reasons = rs\<rparr>
      else
        \<lparr>evaluation_state = (if verified then Complete else Claims_Complete), promotion_safe = False,
         reasons = [Claims_Hold verified (ev_record_type r = ''session'')]\<rparr>)"

definition evaluate_record ::
    "evaluation_env \<Rightarrow> evidence \<Rightarrow> artifact_verification option \<Rightarrow> go_time \<Rightarrow> evidence_error + evaluation" where
  "evaluate_record env r verification now =
     bind_result (validate_evidence r) (\<lambda>_.
     bind_result
       (case verification of
          None \<Rightarrow> Inr ()
        | Some v \<Rightarrow> require (matches_artifact_verification env r v) Ev_Verification_Mismatch) (\<lambda>_.
     bind_result (require (\<not> is_zero now) Ev_Time_Required) (\<lambda>_.
       if \<not> now < time_or_zero (ev_expires_at r) then Inr expired_evaluation
       else
         bind_result (map_error Ev_Manifest (embedded_manifest (compiled_in env))) (\<lambda>m.
         bind_result (map_error Ev_Manifest (canonical_sha256 (json_digest env) m)) (\<lambda>digest.
         bind_result (map_error Ev_Freshness (freshness_at m now)) (\<lambda>f.
           Inr (conclude (verification \<noteq> None) r (record_reasons digest (freshness_state f) now r))))))))"

section \<open>The chain of three records\<close>

record verification_set =
  verification_host :: artifact_verification
  verification_client :: artifact_verification
  verification_session :: artifact_verification

definition check_set_shape :: "evidence \<Rightarrow> evidence \<Rightarrow> evidence \<Rightarrow> string \<Rightarrow> string \<Rightarrow> evidence_error + unit" where
  "check_set_shape host client session host_digest client_digest =
     first_error
       [require (ev_record_type host = ''host'') (Set_Record_Type ''host''),
        require (ev_record_type client = ''client'') (Set_Record_Type ''client''),
        require (ev_record_type session = ''session'') (Set_Record_Type ''session''),
        require (is_sha256 host_digest \<and> is_sha256 client_digest) Set_Digest,
        require (ev_route_id host = ev_route_id client \<and> ev_route_id host = ev_route_id session) Set_Route]"

definition review_reasons :: "go_time \<Rightarrow> string \<Rightarrow> evidence \<Rightarrow> reason list" where
  "review_reasons started name r =
     only_if (\<not> self_attested r \<and> \<not> reviewed_at r < started) (Review_After_Capture name)"

definition chain_reasons :: "evidence \<Rightarrow> evidence \<Rightarrow> evidence \<Rightarrow> string \<Rightarrow> string \<Rightarrow> reason list" where
  "chain_reasons host client session host_digest client_digest =
     (let b = the (ev_bindings session); started = capture_started_at (the (ev_methodology session)) in
      only_if (host_record_sha256 b \<noteq> host_digest) Host_Binding_Mismatch @
      only_if (client_record_sha256 b \<noteq> client_digest) Client_Binding_Mismatch @
      only_if (subject_platform (ev_subject session) \<noteq> subject_platform (ev_subject client) \<or>
          subject_architecture (ev_subject session) \<noteq> subject_architecture (ev_subject client)) Subject_Mismatch @
      only_if (ev_run_id host \<noteq> ev_run_id client \<or> ev_run_id host \<noteq> ev_run_id session) Run_Mismatch @
      only_if (time_or_zero (ev_expires_at host) < time_or_zero (ev_expires_at session)) Outlives_Host @
      only_if (time_or_zero (ev_expires_at client) < time_or_zero (ev_expires_at session)) Outlives_Client @
      (if started = [] then []
       else review_reasons (time_or_zero started) ''host'' host @
            review_reasons (time_or_zero started) ''client'' client))"

definition member_reasons :: "state \<Rightarrow> string \<Rightarrow> evaluation \<Rightarrow> reason list" where
  "member_reasons want name e =
     (if evaluation_state e = want then [] else map (Member_Reason name) (reasons e))"

definition conclude_set ::
    "bool \<Rightarrow> evaluation \<Rightarrow> evaluation \<Rightarrow> evaluation \<Rightarrow> reason list \<Rightarrow> set_evaluation" where
  "conclude_set verified host client session chain =
     (let want = (if verified then Complete else Claims_Complete);
          rs = chain @ member_reasons want ''host'' host @ member_reasons want ''client'' client @
               member_reasons want ''session'' session
      in \<lparr>set_state =
            (if rs = [] then want
             else if Expired \<in> set (map evaluation_state [host, client, session]) then Expired else Pending),
          set_promotion_safe = False, set_host = host, set_client = client, set_session = session,
          set_reasons = (if rs = [] then [Set_Holds verified] else rs)\<rparr>)"

definition evaluate_set ::
    "evaluation_env \<Rightarrow> evidence \<Rightarrow> evidence \<Rightarrow> evidence \<Rightarrow> string \<Rightarrow> string \<Rightarrow> verification_set option \<Rightarrow> go_time \<Rightarrow>
     evidence_error + set_evaluation" where
  "evaluate_set env host client session host_digest client_digest verifications now =
     bind_result (check_set_shape host client session host_digest client_digest) (\<lambda>_.
     bind_result (map_error (Set_Member ''host'')
       (evaluate_record env host (map_option verification_host verifications) now)) (\<lambda>h.
     bind_result (map_error (Set_Member ''client'')
       (evaluate_record env client (map_option verification_client verifications) now)) (\<lambda>c.
     bind_result (map_error (Set_Member ''session'')
       (evaluate_record env session (map_option verification_session verifications) now)) (\<lambda>s.
       Inr (conclude_set (verifications \<noteq> None) h c s
         (chain_reasons host client session host_digest client_digest))))))"

section \<open>What a complete record has\<close>

text \<open>The positive reading of the reasons: a session names its two records, was captured before the
  evaluation, and meets every minimum of the profile and of the measurements.\<close>

definition meets_profile :: "stream_profile \<Rightarrow> bool" where
  "meets_profile p \<longleftrightarrow>
     1920 \<le> profile_width p \<and> 1080 \<le> profile_height p \<and>
     (\<exists>f \<ge> 60. profile_target_frame_rate p = Finite f) \<and>
     profile_codec p \<in> {''h264'', ''hevc'', ''av1''} \<and> profile_transport p \<in> {''wired-lan'', ''wifi'', ''wan''}"

definition meets_requirement :: "measurement list \<Rightarrow> measurement_requirement \<Rightarrow> bool" where
  "meets_requirement ms q \<longleftrightarrow>
     (\<exists>x. measured ms (requirement_id q) = Finite x \<and> minimum_inclusive q \<le> x \<and> x \<le> maximum_inclusive q \<and>
       (require_positive q \<longrightarrow> 0 < x))"

definition consistent_measurements :: "measurement list \<Rightarrow> stream_profile \<Rightarrow> bool" where
  "consistent_measurements ms p \<longleftrightarrow>
     (\<forall>c \<in> {''encode-latency'', ''network-latency'', ''decode-latency''}.
        \<not> double_less (measured ms ''end-to-end-latency'') (measured ms c)) \<and>
     \<not> double_less (measured ms ''average-frame-rate'')
         (double_op (*) (profile_target_frame_rate p) (round_double (9 / 10)))"

definition session_claims :: "go_time \<Rightarrow> evidence \<Rightarrow> bool" where
  "session_claims now r \<longleftrightarrow>
     (\<exists>b p m. ev_bindings r = Some b \<and> ev_stream_profile r = Some p \<and> ev_methodology r = Some m \<and>
       is_sha256 (host_record_sha256 b) \<and> is_sha256 (client_record_sha256 b) \<and>
       capture_started_at m \<noteq> [] \<and> time_or_zero (capture_started_at m) < time_or_zero (capture_ended_at m) \<and>
       time_or_zero (capture_ended_at m) \<le> now \<and>
       meets_profile p \<and> list_all (meets_requirement (ev_measurements r)) measurement_requirements \<and>
       consistent_measurements (ev_measurements r) p)"

definition record_claims :: "string \<Rightarrow> freshness_state \<Rightarrow> go_time \<Rightarrow> evidence \<Rightarrow> bool" where
  "record_claims digest fresh now r \<longleftrightarrow>
     time_or_zero (ev_created_at r) \<le> now \<and>
     ev_manifest_as_of r = authoritative_as_of \<and> ev_manifest_sha256 r = digest \<and> fresh = Fresh \<and>
     \<not> self_attested r \<and> reviewed_at r \<le> now \<and>
     map check_id (ev_checks r) \<in> {cs. set cs = set (the (required_checks (ev_record_type r)))} \<and>
     (\<forall>c \<in> set (ev_checks r). check_status c = ''pass'' \<and> time_or_zero (check_observed_at c) \<le> now) \<and>
     (ev_record_type r = ''session'' \<longrightarrow> session_claims now r)"

section \<open>What validation has checked\<close>

lemma check_measurement_finite:
  assumes "check_measurement m = Inr ()"
  shows "\<exists>a \<ge> 0. measurement_value m = Finite a"
  using assms [unfolded check_measurement_def first_error_Cons_ok require_ok]
  by (auto dest!: finite_cases simp: not_less)

lemma check_measurements_finite:
  assumes "check_measurements seen ms = Inr ()" and "m \<in> set ms"
  shows "\<exists>a \<ge> 0. measurement_value m = Finite a"
  using assms
proof (induction seen ms rule: check_measurements.induct)
  case (2 seen n ns)
  show ?case
  proof (cases "m = n")
    case True
    with 2 show ?thesis by (auto simp: result_simps intro: check_measurement_finite split: if_splits)
  next
    case False
    with 2 show ?thesis by (auto simp: result_simps split: if_splits)
  qed
qed simp

lemma measured_finite:
  assumes "check_measurements [] ms = Inr ()"
  shows "\<exists>a \<ge> 0. measured ms i = Finite a"
proof (cases "map_of (rev (map (\<lambda>m. (measurement_id m, measurement_value m)) ms)) i")
  case (Some v)
  then obtain m where "m \<in> set ms" "v = measurement_value m" by (fastforce dest!: map_of_SomeD)
  with check_measurements_finite [OF assms] Some show ?thesis by (auto simp: measured_def)
qed (simp add: measured_def)

lemma requirement_reasons_empty:
  assumes "measured ms (requirement_id q) = Finite a"
  shows "requirement_reasons ms q = [] \<longleftrightarrow> meets_requirement ms q"
  using assms by (auto simp: requirement_reasons_def meets_requirement_def Let_def not_less)

lemma check_checks_covered:
  "check_checks required seen cs = Inr () \<Longrightarrow>
     set (map check_id cs) \<subseteq> set required \<and> distinct (map check_id cs) \<and> set seen \<inter> set (map check_id cs) = {} \<and>
     (\<forall>c \<in> set cs. validate_check c = Inr ())"
  by (induction required seen cs rule: check_checks.induct)
    (auto simp: result_simps split: if_splits)

lemma validate_checks_covered:
  assumes "validate_checks cs required = Inr ()" and "distinct required"
  shows "set (map check_id cs) = set required"
proof -
  from assms(1) have cs: "length cs = length required" "check_checks required [] cs = Inr ()"
    by (auto simp: validate_checks_def split: if_splits)
  from check_checks_covered [OF cs(2)]
  have "set (map check_id cs) \<subseteq> set required" "distinct (map check_id cs)" by auto
  moreover from this cs(1) assms(2) have "card (set (map check_id cs)) = card (set required)"
    by (metis distinct_card length_map)
  ultimately show ?thesis by (simp add: card_subset_eq)
qed

lemma required_checks_distinct: "required_checks t = Some cs \<Longrightarrow> distinct cs"
  by (auto simp: required_checks_def split: if_splits)

lemma parse_timestamp_time: "parse_timestamp name s = Inr t \<Longrightarrow> time_or_zero s = t"
  by (auto simp: parse_timestamp_def time_or_zero_def split: option.splits)

lemma validate_evidence_contents:
  assumes "validate_evidence r = Inr ()"
  obtains created expires cs where "validate_identity r = Inr ()"
    "time_or_zero (ev_created_at r) = created" "time_or_zero (ev_expires_at r) = expires"
    "created < expires" "time_sub expires created \<le> max_validity"
    "required_checks (ev_record_type r) = Some cs" "validate_contents r created expires = Inr ()"
proof -
  from assms have i: "validate_identity r = Inr ()" by (auto simp: validate_evidence_def result_simps)
  then obtain cs where cs: "required_checks (ev_record_type r) = Some cs"
    unfolding validate_identity_def first_error_Cons_ok require_ok by blast
  from assms obtain created expires where
    "parse_timestamp ''created_at'' (ev_created_at r) = Inr created"
    "parse_timestamp ''expires_at'' (ev_expires_at r) = Inr expires"
    "created < expires" "time_sub expires created \<le> max_validity" "validate_contents r created expires = Inr ()"
    by (auto simp: validate_evidence_def bind_result_ok split: if_splits)
  then show ?thesis using i cs by (auto intro!: that dest: parse_timestamp_time)
qed

text \<open>A conjunct of a list of checks.\<close>

lemmas contents_ok = validate_contents_def first_error_Cons_ok require_ok

lemma validated_profile:
  assumes "validate_stream_profile p = Inr ()"
  shows "\<exists>f \<ge> 0. f \<le> 240 \<and> profile_target_frame_rate p = Finite f"
    and "profile_codec p \<in> {''unverified'', ''h264'', ''hevc'', ''av1''}"
    and "profile_transport p \<in> {''unverified'', ''wired-lan'', ''wifi'', ''wan''}"
  using assms [unfolded validate_stream_profile_def first_error_Cons_ok require_ok]
  by (auto dest!: finite_cases simp: not_less simp del: insert_iff)

lemma validated_session:
  assumes "validate_contents r created expires = Inr ()" and "ev_record_type r = ''session''"
  obtains b p m where "ev_bindings r = Some b" "ev_stream_profile r = Some p" "ev_methodology r = Some m"
    "host_record_sha256 b = [] \<or> is_sha256 (host_record_sha256 b)"
    "client_record_sha256 b = [] \<or> is_sha256 (client_record_sha256 b)"
    "validate_stream_profile p = Inr ()" "validate_methodology r m created expires = Inr ()"
    "check_measurements [] (ev_measurements r) = Inr ()"
proof -
  note ok = assms(1) [unfolded contents_ok]
  from ok have parts: "validate_session_parts r = Inr ()"
    and ms: "validate_measurements (ev_record_type r) (ev_measurements r) = Inr ()"
    and meth: "validate_methodology r (the (ev_methodology r)) created expires = Inr ()"
    using assms(2) by simp_all
  from parts assms(2) obtain b p m where
    "ev_bindings r = Some b" "ev_stream_profile r = Some p" "ev_methodology r = Some m"
    "check_binding ''host_record_sha256'' (host_record_sha256 b) = Inr ()"
    "check_binding ''client_record_sha256'' (client_record_sha256 b) = Inr ()"
    "validate_stream_profile p = Inr ()"
    unfolding validate_session_parts_def
    by (cases "ev_bindings r"; cases "ev_stream_profile r"; cases "ev_methodology r")
      (auto simp del: first_error.simps)
  moreover from ms have "check_measurements [] (ev_measurements r) = Inr ()"
    unfolding validate_measurements_def first_error_Cons_ok by blast
  ultimately show ?thesis using meth by (auto intro: that simp: check_binding_def)
qed

lemma stream_profile_reasons_empty:
  assumes "validate_stream_profile p = Inr ()"
  shows "stream_profile_reasons p = [] \<longleftrightarrow> meets_profile p"
  using validated_profile [OF assms]
  by (auto simp: stream_profile_reasons_def meets_profile_def not_less)

lemma session_measurement_reasons_empty:
  assumes "check_measurements [] ms = Inr ()" and "validate_stream_profile p = Inr ()" and "meets_profile p"
  shows "session_measurement_reasons ms p = [] \<longleftrightarrow>
    list_all (meets_requirement ms) measurement_requirements \<and> consistent_measurements ms p"
proof -
  have "requirement_reasons ms q = [] \<longleftrightarrow> meets_requirement ms q" for q
    using measured_finite [OF assms(1)] requirement_reasons_empty by blast
  moreover from assms(3) have "double_less (Finite 0) (profile_target_frame_rate p)"
    by (auto simp: meets_profile_def)
  ultimately show ?thesis
    by (simp add: session_measurement_reasons_def consistent_measurements_def list_all_iff)
qed

lemma validated_capture:
  assumes "validate_methodology r m created expires = Inr ()" and "capture_started_at m \<noteq> []"
  shows "time_or_zero (capture_started_at m) < time_or_zero (capture_ended_at m)"
    and "\<not> time_or_zero (capture_started_at m) < created"
    and "time_or_zero (capture_ended_at m) < expires"
    and "self_attested r \<or> \<not> reviewed_at r < time_or_zero (capture_ended_at m)"
    and "capture_bound r m"
proof -
  from assms have "check_capture r m created expires (time_or_zero (capture_started_at m))
      (time_or_zero (capture_ended_at m)) = Inr ()"
    by (auto simp: validate_methodology_def bind_result_ok dest!: parse_timestamp_time split: if_splits)
  note ok = this [unfolded check_capture_def Let_def first_error_Cons_ok require_ok]
  show "time_or_zero (capture_started_at m) < time_or_zero (capture_ended_at m)"
    "\<not> time_or_zero (capture_started_at m) < created" "time_or_zero (capture_ended_at m) < expires"
    "self_attested r \<or> \<not> reviewed_at r < time_or_zero (capture_ended_at m)" "capture_bound r m"
    using ok by blast+
qed

lemma session_reasons_empty:
  assumes "validate_contents r created expires = Inr ()" and "ev_record_type r = ''session''"
  shows "binding_reasons r @ session_reasons now r = [] \<longleftrightarrow> session_claims now r"
proof -
  from validated_session [OF assms] obtain b p m where
    parts: "ev_bindings r = Some b" "ev_stream_profile r = Some p" "ev_methodology r = Some m"
    and b: "host_record_sha256 b = [] \<or> is_sha256 (host_record_sha256 b)"
      "client_record_sha256 b = [] \<or> is_sha256 (client_record_sha256 b)"
    and p: "validate_stream_profile p = Inr ()" and m: "validate_methodology r m created expires = Inr ()"
    and ms: "check_measurements [] (ev_measurements r) = Inr ()" .
  have sha: "is_sha256 s \<Longrightarrow> s \<noteq> []" for s by (auto simp: is_sha256_def lower_hex_def)
  have capture: "capture_reasons now m = [] \<longleftrightarrow> capture_started_at m \<noteq> [] \<and>
      time_or_zero (capture_started_at m) < time_or_zero (capture_ended_at m) \<and> time_or_zero (capture_ended_at m) \<le> now"
    using validated_capture(1) [OF m] by (auto simp: capture_reasons_def not_less)
  have "stream_profile_reasons p @ session_measurement_reasons (ev_measurements r) p = [] \<longleftrightarrow>
      meets_profile p \<and> list_all (meets_requirement (ev_measurements r)) measurement_requirements \<and>
      consistent_measurements (ev_measurements r) p"
    using stream_profile_reasons_empty [OF p] session_measurement_reasons_empty [OF ms p] by auto
  with capture sha b show ?thesis
    by (auto simp: binding_reasons_def session_reasons_def session_claims_def parts assms(2))
qed

lemma record_reasons_empty:
  assumes "validate_evidence r = Inr ()"
  shows "record_reasons digest fresh now r = [] \<longleftrightarrow> record_claims digest fresh now r"
proof -
  from validate_evidence_contents [OF assms] obtain created expires cs where
    cs: "required_checks (ev_record_type r) = Some cs" and c: "validate_contents r created expires = Inr ()" .
  from c [unfolded contents_ok] cs have "validate_checks (ev_checks r) cs = Inr ()" by simp
  from validate_checks_covered [OF this required_checks_distinct [OF cs]]
  have ids: "set (map check_id (ev_checks r)) = set cs" .
  have checks: "concat (map (check_reasons now) (ev_checks r)) = [] \<longleftrightarrow>
      (\<forall>c \<in> set (ev_checks r). check_status c = ''pass'' \<and> time_or_zero (check_observed_at c) \<le> now)"
    by (auto simp: check_reasons_def not_less)
  have session: "binding_reasons r = [] \<and> session_reasons now r = [] \<longleftrightarrow>
      (ev_record_type r = ''session'' \<longrightarrow> session_claims now r)"
  proof (cases "ev_record_type r = ''session''")
    case True
    with session_reasons_empty [OF c True] show ?thesis by simp
  qed (simp add: binding_reasons_def session_reasons_def)
  from ids cs have "map check_id (ev_checks r) \<in> {ids. set ids = set (the (required_checks (ev_record_type r)))}"
    by simp
  with checks session show ?thesis
    unfolding record_reasons_def record_claims_def append_is_Nil_conv
    by (auto simp: not_less)
qed

section \<open>The state of one record\<close>

text \<open>What the compiled authority says at a moment: its digest and its freshness.\<close>

definition authority_facts :: "evaluation_env \<Rightarrow> go_time \<Rightarrow> string \<Rightarrow> freshness_state \<Rightarrow> bool" where
  "authority_facts env now digest fresh \<longleftrightarrow>
     (\<exists>m f. embedded_manifest (compiled_in env) = Inr m \<and> canonical_sha256 (json_digest env) m = Inr digest \<and>
       freshness_at m now = Inr f \<and> freshness_state f = fresh)"

lemma evaluated_cases:
  assumes "evaluate_record env r v now = Inr e"
  shows "validate_evidence r = Inr ()"
    and "v = Some a \<Longrightarrow> matches_artifact_verification env r a"
    and "\<not> now < time_or_zero (ev_expires_at r) \<and> e = expired_evaluation \<or>
      now < time_or_zero (ev_expires_at r) \<and>
      (\<exists>digest fresh. authority_facts env now digest fresh \<and> e = conclude (v \<noteq> None) r (record_reasons digest fresh now r))"
  using assms by (auto simp: evaluate_record_def bind_result_ok authority_facts_def split: if_splits option.splits)

lemma authority_facts_unique:
  "authority_facts env now digest fresh \<Longrightarrow> authority_facts env now digest' fresh' \<Longrightarrow> digest' = digest \<and> fresh' = fresh"
  by (auto simp: authority_facts_def)

lemma conclude_state:
  "evaluation_state (conclude v r rs) = Complete \<longleftrightarrow> rs = [] \<and> v"
  "evaluation_state (conclude v r rs) = Claims_Complete \<longleftrightarrow> rs = [] \<and> \<not> v"
  "evaluation_state (conclude v r rs) \<noteq> Expired" "\<not> promotion_safe (conclude v r rs)"
  by (auto simp: conclude_def)

lemma expired_state [simp]: "evaluation_state expired_evaluation = Expired" "\<not> promotion_safe expired_evaluation"
  by (simp_all add: expired_evaluation_def)

lemma evaluated_claims:
  assumes "evaluate_record env r v now = Inr e"
  shows "evaluation_state e \<in> {Complete, Claims_Complete} \<longleftrightarrow>
      now < time_or_zero (ev_expires_at r) \<and> (\<exists>digest fresh. authority_facts env now digest fresh \<and> record_claims digest fresh now r)"
    and "evaluation_state e = Complete \<Longrightarrow> v \<noteq> None"
    and "evaluation_state e = Claims_Complete \<Longrightarrow> v = None"
    and "evaluation_state e = Expired \<longleftrightarrow> \<not> now < time_or_zero (ev_expires_at r)"
    and "\<not> promotion_safe e"
proof -
  note empty = record_reasons_empty [OF evaluated_cases(1) [OF assms]]
  consider (expired) "\<not> now < time_or_zero (ev_expires_at r)" "e = expired_evaluation"
    | (current) digest fresh where "now < time_or_zero (ev_expires_at r)" "authority_facts env now digest fresh"
        "e = conclude (v \<noteq> None) r (record_reasons digest fresh now r)"
    using evaluated_cases(3) [OF assms] by blast
  then have "(evaluation_state e \<in> {Complete, Claims_Complete} \<longleftrightarrow> now < time_or_zero (ev_expires_at r) \<and>
        (\<exists>digest fresh. authority_facts env now digest fresh \<and> record_claims digest fresh now r)) \<and>
      (evaluation_state e = Complete \<longrightarrow> v \<noteq> None) \<and> (evaluation_state e = Claims_Complete \<longrightarrow> v = None) \<and>
      (evaluation_state e = Expired \<longleftrightarrow> \<not> now < time_or_zero (ev_expires_at r)) \<and> \<not> promotion_safe e"
  proof cases
    case current
    have "(\<exists>digest fresh. authority_facts env now digest fresh \<and> record_claims digest fresh now r) \<longleftrightarrow>
        record_reasons digest fresh now r = []"
      using current(2) empty authority_facts_unique by blast
    with current show ?thesis by (cases v) (simp_all add: conclude_state)
  qed simp
  then show "evaluation_state e \<in> {Complete, Claims_Complete} \<longleftrightarrow> now < time_or_zero (ev_expires_at r) \<and>
        (\<exists>digest fresh. authority_facts env now digest fresh \<and> record_claims digest fresh now r)"
    "evaluation_state e = Complete \<Longrightarrow> v \<noteq> None" "evaluation_state e = Claims_Complete \<Longrightarrow> v = None"
    "evaluation_state e = Expired \<longleftrightarrow> \<not> now < time_or_zero (ev_expires_at r)" "\<not> promotion_safe e"
    by blast+
qed

text \<open>C22. An evaluation never calls a record safe to promote. It is expired exactly from the expiry
  time on. It is complete exactly when the record claims everything that is asked of it, now and
  against the compiled authority: created and reviewed by someone else in the past, bound to the date
  and digest of a fresh authority, each required check passed in the past, and for a session both
  records bound and every minimum met. Complete needs verified artifacts; without them the state is
  only that the claims are complete.\<close>

theorem evaluated_record:
  assumes "evaluate_record env r v now = Inr e"
  shows "\<not> promotion_safe e \<and>
    (evaluation_state e = Expired \<longleftrightarrow> time_or_zero (ev_expires_at r) \<le> now) \<and>
    (evaluation_state e \<in> {Complete, Claims_Complete} \<longleftrightarrow>
       now < time_or_zero (ev_expires_at r) \<and>
       (\<exists>digest fresh. authority_facts env now digest fresh \<and> record_claims digest fresh now r)) \<and>
    (evaluation_state e = Complete \<longrightarrow> (\<exists>a. v = Some a \<and> av_verified a \<and> av_digest a = record_digest env r)) \<and>
    (evaluation_state e = Claims_Complete \<longrightarrow> v = None)"
  using evaluated_claims [OF assms] evaluated_cases(2) [OF assms]
  by (auto simp: not_less matches_artifact_verification_def)

section \<open>The state of the chain\<close>

lemma evaluate_set_cases:
  assumes "evaluate_set env host client session hdig cdig vs now = Inr e"
  shows "check_set_shape host client session hdig cdig = Inr ()"
    and "evaluate_record env host (map_option verification_host vs) now = Inr (set_host e)"
    and "evaluate_record env client (map_option verification_client vs) now = Inr (set_client e)"
    and "evaluate_record env session (map_option verification_session vs) now = Inr (set_session e)"
    and "e = conclude_set (vs \<noteq> None) (set_host e) (set_client e) (set_session e)
      (chain_reasons host client session hdig cdig)"
proof -
  from assms obtain h c s where h: "evaluate_record env host (map_option verification_host vs) now = Inr h"
    and c: "evaluate_record env client (map_option verification_client vs) now = Inr c"
    and s: "evaluate_record env session (map_option verification_session vs) now = Inr s"
    and shape: "check_set_shape host client session hdig cdig = Inr ()"
    and e: "e = conclude_set (vs \<noteq> None) h c s (chain_reasons host client session hdig cdig)"
    unfolding evaluate_set_def bind_result_ok map_error_ok by auto
  have "set_host e = h" "set_client e = c" "set_session e = s"
    by (simp_all add: e conclude_set_def Let_def)
  with h c s shape e show "check_set_shape host client session hdig cdig = Inr ()"
    "evaluate_record env host (map_option verification_host vs) now = Inr (set_host e)"
    "evaluate_record env client (map_option verification_client vs) now = Inr (set_client e)"
    "evaluate_record env session (map_option verification_session vs) now = Inr (set_session e)"
    "e = conclude_set (vs \<noteq> None) (set_host e) (set_client e) (set_session e)
      (chain_reasons host client session hdig cdig)"
    by simp_all
qed

lemma evaluated_nonempty:
  assumes "evaluate_record env r v now = Inr e"
  shows "reasons e \<noteq> []"
proof -
  have "reasons (conclude b r rs) \<noteq> []" for b rs by (simp add: conclude_def)
  moreover have "reasons expired_evaluation \<noteq> []" by (simp add: expired_evaluation_def)
  ultimately show ?thesis using evaluated_cases(3) [OF assms] by blast
qed

text \<open>What holds a chain together.\<close>

definition chained :: "evidence \<Rightarrow> evidence \<Rightarrow> evidence \<Rightarrow> string \<Rightarrow> string \<Rightarrow> bool" where
  "chained host client session host_digest client_digest \<longleftrightarrow>
     ev_bindings session = Some \<lparr>host_record_sha256 = host_digest, client_record_sha256 = client_digest\<rparr> \<and>
     ev_route_id host = ev_route_id session \<and> ev_route_id client = ev_route_id session \<and>
     ev_run_id host = ev_run_id session \<and> ev_run_id client = ev_run_id session \<and>
     subject_platform (ev_subject client) = subject_platform (ev_subject session) \<and>
     subject_architecture (ev_subject client) = subject_architecture (ev_subject session) \<and>
     time_or_zero (ev_expires_at session) \<le> time_or_zero (ev_expires_at host) \<and>
     time_or_zero (ev_expires_at session) \<le> time_or_zero (ev_expires_at client) \<and>
     (\<exists>m. ev_methodology session = Some m \<and>
       reviewed_at host < time_or_zero (capture_started_at m) \<and>
       reviewed_at client < time_or_zero (capture_started_at m) \<and>
       time_or_zero (capture_started_at m) < time_or_zero (capture_ended_at m) \<and>
       time_or_zero (capture_ended_at m) \<le> reviewed_at session)"

lemma chain_reasons_empty:
  assumes "chain_reasons host client session hdig cdig = []" and "check_set_shape host client session hdig cdig = Inr ()"
    and "record_claims d f now host" "record_claims d f now client" "record_claims d f now session"
    and "validate_evidence session = Inr ()"
  shows "chained host client session hdig cdig"
proof -
  have session: "ev_record_type session = ''session''"
    and routes: "ev_route_id host = ev_route_id session" "ev_route_id client = ev_route_id session"
    using assms(2) [unfolded check_set_shape_def first_error_Cons_ok require_ok] by auto
  with assms(5) have "session_claims now session" by (simp add: record_claims_def)
  then obtain b p m where m: "ev_bindings session = Some b" "ev_methodology session = Some m"
    "capture_started_at m \<noteq> []" "time_or_zero (capture_started_at m) < time_or_zero (capture_ended_at m)"
    by (auto simp: session_claims_def)
  from validate_evidence_contents [OF assms(6)] obtain created expires where
    "validate_contents session created expires = Inr ()" .
  with validated_session [OF this session] m have "validate_methodology session m created expires = Inr ()"
    by auto
  from validated_capture(4) [OF this m(3)] assms(5)
  have reviewed: "time_or_zero (capture_ended_at m) \<le> reviewed_at session"
    by (auto simp: record_claims_def not_less)
  have "\<not> self_attested host" "\<not> self_attested client" using assms(3,4) by (auto simp: record_claims_def)
  with assms(1) m routes reviewed show ?thesis
    by (auto simp: chain_reasons_def chained_def review_reasons_def Let_def not_less)
qed

lemma set_holds:
  assumes e: "evaluate_set env host client session hdig cdig vs now = Inr e"
    and "set_state e \<in> {Complete, Claims_Complete}"
  shows "chain_reasons host client session hdig cdig = []"
    and "set_state e = (if vs = None then Claims_Complete else Complete)"
    and "evaluation_state (set_host e) = set_state e" "evaluation_state (set_client e) = set_state e"
      "evaluation_state (set_session e) = set_state e"
proof -
  define want where "want = (if vs \<noteq> None then Complete else Claims_Complete)"
  define rs where "rs = chain_reasons host client session hdig cdig @ member_reasons want ''host'' (set_host e) @
    member_reasons want ''client'' (set_client e) @ member_reasons want ''session'' (set_session e)"
  have state: "set_state e = (if rs = [] then want
      else if Expired \<in> set (map evaluation_state [set_host e, set_client e, set_session e]) then Expired else Pending)"
  proof -
    have "set_state (conclude_set (vs \<noteq> None) (set_host e) (set_client e) (set_session e)
          (chain_reasons host client session hdig cdig)) =
        (if rs = [] then want
         else if Expired \<in> set (map evaluation_state [set_host e, set_client e, set_session e]) then Expired else Pending)"
      by (simp only: conclude_set_def rs_def want_def Let_def set_evaluation.select_convs)
    then show ?thesis unfolding evaluate_set_cases(5) [OF e, symmetric] .
  qed
  with assms(2) have rs: "rs = []" by (auto split: if_splits)
  have member: "member_reasons want n x = [] \<Longrightarrow> reasons x \<noteq> [] \<Longrightarrow> evaluation_state x = want" for n x
    by (auto simp: member_reasons_def split: if_splits)
  show "chain_reasons host client session hdig cdig = []" using rs by (simp add: rs_def)
  show "set_state e = (if vs = None then Claims_Complete else Complete)" using state rs by (simp add: want_def)
  from rs have "member_reasons want ''host'' (set_host e) = []" "member_reasons want ''client'' (set_client e) = []"
    "member_reasons want ''session'' (set_session e) = []" by (simp_all add: rs_def)
  with state rs show "evaluation_state (set_host e) = set_state e" "evaluation_state (set_client e) = set_state e"
    "evaluation_state (set_session e) = set_state e"
    using member [OF _ evaluated_nonempty [OF evaluate_set_cases(2) [OF e]]]
      member [OF _ evaluated_nonempty [OF evaluate_set_cases(3) [OF e]]]
      member [OF _ evaluated_nonempty [OF evaluate_set_cases(4) [OF e]]]
    by simp_all
qed

lemma complete_set_facts:
  assumes "evaluate_set env host client session hdig cdig vs now = Inr e"
    and "set_state e \<in> {Complete, Claims_Complete}"
  shows "\<not> set_promotion_safe e \<and> chained host client session hdig cdig \<and>
    map ev_record_type [host, client, session] = [''host'', ''client'', ''session''] \<and>
    (\<exists>digest fresh. authority_facts env now digest fresh \<and>
      (\<forall>r \<in> {host, client, session}. validate_evidence r = Inr () \<and> now < time_or_zero (ev_expires_at r) \<and>
        record_claims digest fresh now r)) \<and>
    (set_state e = Complete \<longrightarrow>
      (\<exists>v. vs = Some v \<and>
        (\<forall>(r, a) \<in> {(host, verification_host v), (client, verification_client v), (session, verification_session v)}.
           av_verified a \<and> av_digest a = record_digest env r)))"
proof -
  note members = evaluate_set_cases [OF assms(1)] and holds = set_holds [OF assms]
  have states: "evaluation_state (set_host e) \<in> {Complete, Claims_Complete}"
    "evaluation_state (set_client e) \<in> {Complete, Claims_Complete}"
    "evaluation_state (set_session e) \<in> {Complete, Claims_Complete}"
    using holds(3-5) assms(2) by simp_all
  from evaluated_claims(1) [OF members(2)] states(1) obtain digest fresh where
    facts: "authority_facts env now digest fresh" and host: "record_claims digest fresh now host"
      "now < time_or_zero (ev_expires_at host)" by blast
  from evaluated_claims(1) [OF members(3)] states(2) authority_facts_unique [OF facts] have
    client: "record_claims digest fresh now client" "now < time_or_zero (ev_expires_at client)" by blast+
  from evaluated_claims(1) [OF members(4)] states(3) authority_facts_unique [OF facts] have
    session: "record_claims digest fresh now session" "now < time_or_zero (ev_expires_at session)" by blast+
  note valid = evaluated_cases(1) [OF members(2)] evaluated_cases(1) [OF members(3)] evaluated_cases(1) [OF members(4)]
  have "chained host client session hdig cdig"
    using chain_reasons_empty [OF holds(1) members(1) host(1) client(1) session(1) valid(3)] .
  moreover have "\<not> set_promotion_safe e"
    using members(5) by (metis conclude_set_def set_evaluation.select_convs(2))
  moreover have "map ev_record_type [host, client, session] = [''host'', ''client'', ''session'']"
    using members(1) [unfolded check_set_shape_def first_error_Cons_ok require_ok] by simp
  moreover have "\<exists>v. vs = Some v \<and>
        (\<forall>(r, a) \<in> {(host, verification_host v), (client, verification_client v), (session, verification_session v)}.
           av_verified a \<and> av_digest a = record_digest env r)" if complete: "set_state e = Complete"
  proof -
    from complete holds(2) obtain v where v: "vs = Some v" by (auto split: if_splits)
    show ?thesis
      using evaluated_cases(2) [OF members(2)] evaluated_cases(2) [OF members(3)] evaluated_cases(2) [OF members(4)]
      by (simp add: v matches_artifact_verification_def)
  qed
  ultimately show ?thesis using facts host client session valid by auto
qed

text \<open>C21. A complete chain is a chain: each of the three records is in date, complete on its own for
  the same authority, and of its own type; the session names the digests of the other two records,
  shares their run, route and client machine, and does not outlive them; the capture starts after both
  reviews and ends before the session's own. When artifacts were verified, all three bundles were.\<close>

theorem complete_set_chained:
  assumes "evaluate_set env host client session hdig cdig vs now = Inr e"
    and "set_state e \<in> {Complete, Claims_Complete}"
  shows "\<not> set_promotion_safe e \<and> chained host client session hdig cdig \<and>
    map ev_record_type [host, client, session] = [''host'', ''client'', ''session''] \<and>
    (\<exists>digest fresh. authority_facts env now digest fresh \<and>
      (\<forall>r \<in> {host, client, session}. validate_evidence r = Inr () \<and> now < time_or_zero (ev_expires_at r) \<and>
        record_claims digest fresh now r)) \<and>
    (set_state e = Complete \<longrightarrow>
      (\<exists>v. vs = Some v \<and>
        (\<forall>(r, a) \<in> {(host, verification_host v), (client, verification_client v), (session, verification_session v)}.
           av_verified a \<and> av_digest a = record_digest env r)))"
  using complete_set_facts [OF assms] .

end
