(* ===== verification/Evidence_Parse.thy ===== *)
theory Evidence_Parse
  imports Evidence_Evaluate Go_Net "HOL-Library.Monad_Syntax"
begin

text \<open>
  Reading and making validation records (\<open>internal/evidence/evidence.go\<close>): \<open>Parse\<close> with its exact
  keys and typed decoding, and the unverified templates of \<open>NewTemplate\<close>. A document is its size,
  whether it is blank, and its tokens. The code decodes the typed record, looks for trailing text and
  then compares the keys; every failure of these three is the one error \<open>Ev_Decode\<close>.
\<close>

section \<open>Exact keys\<close>

definition exact_keys :: "string list \<Rightarrow> json \<Rightarrow> bool" where
  "exact_keys allowed v = (case v of JObj ms \<Rightarrow> list_all (\<lambda>(k, _). k \<in> set allowed) ms | _ \<Rightarrow> False)"

definition require_keys :: "string list \<Rightarrow> json \<Rightarrow> bool" where
  "require_keys required v = list_all (\<lambda>k. case member v k of None \<Rightarrow> False | Some x \<Rightarrow> x \<noteq> JNull) required"

text \<open>An object with exactly the given keys, none of them null.\<close>

definition closed_object :: "string list \<Rightarrow> json \<Rightarrow> bool" where
  "closed_object keys v \<longleftrightarrow> exact_keys keys v \<and> require_keys keys v"

definition subject_keys :: "string list" where
  "subject_keys = [''role'', ''platform'', ''architecture'', ''environment'']"

definition attestation_keys :: "string list" where
  "attestation_keys = [''level'', ''reviewer'', ''reviewed_at'', ''artifacts'', ''notes'']"

definition binding_keys :: "string list" where
  "binding_keys = [''host_record_sha256'', ''client_record_sha256'']"

definition profile_keys :: "string list" where
  "profile_keys = [''width'', ''height'', ''target_frame_rate'', ''codec'', ''transport'']"

definition methodology_keys :: "string list" where
  "methodology_keys =
     [''version'', ''capture_started_at'', ''capture_ended_at'', ''sample_count'', ''collector_id'',
      ''collector_version'', ''capture_artifact_sha256'']"

definition check_keys :: "string list" where
  "check_keys = [''id'', ''status'', ''method'', ''observed_at'', ''summary'', ''artifacts'']"

definition artifact_keys :: "string list" where
  "artifact_keys = [''name'', ''sha256'', ''size_bytes'', ''media_type'']"

definition measurement_keys :: "string list" where
  "measurement_keys = [''id'', ''value'', ''unit'']"

definition required_record_keys :: "string list" where
  "required_record_keys =
     [''$schema'', ''schema_version'', ''record_id'', ''record_type'', ''validation_run_id'', ''route_id'',
      ''test_profile_id'', ''created_at'', ''expires_at'', ''manifest_as_of'', ''manifest_sha256'', ''tool_version'',
      ''subject'', ''attestation'', ''checks'']"

definition record_keys :: "string list" where
  "record_keys =
     required_record_keys @ [''bindings'', ''stream_profile'', ''measurement_methodology'', ''measurements'']"

text \<open>\<open>decodeArray\<close> and the loops over arrays of objects; an optional part is checked when its key is
  there.\<close>

definition array_of :: "(json \<Rightarrow> bool) \<Rightarrow> json option \<Rightarrow> bool" where
  "array_of p v = (case v of Some (JArr vs) \<Rightarrow> list_all p vs | _ \<Rightarrow> False)"

definition object_at :: "(json \<Rightarrow> bool) \<Rightarrow> json option \<Rightarrow> bool" where
  "object_at p v = (case v of Some x \<Rightarrow> p x | None \<Rightarrow> False)"

definition optional :: "(json option \<Rightarrow> bool) \<Rightarrow> json option \<Rightarrow> bool" where
  "optional p v \<longleftrightarrow> v = None \<or> p v"

definition raw_artifacts :: "json option \<Rightarrow> bool" where
  "raw_artifacts v = array_of (closed_object artifact_keys) v"

definition known_keys :: "json \<Rightarrow> bool" where
  "known_keys v \<longleftrightarrow>
     exact_keys record_keys v \<and> require_keys required_record_keys v \<and>
     object_at (closed_object subject_keys) (member v ''subject'') \<and>
     object_at (\<lambda>a. closed_object attestation_keys a \<and> raw_artifacts (member a ''artifacts''))
       (member v ''attestation'') \<and>
     optional (object_at (closed_object binding_keys)) (member v ''bindings'') \<and>
     optional (object_at (closed_object profile_keys)) (member v ''stream_profile'') \<and>
     optional (object_at (closed_object methodology_keys)) (member v ''measurement_methodology'') \<and>
     array_of (\<lambda>c. closed_object check_keys c \<and> raw_artifacts (member c ''artifacts'')) (member v ''checks'') \<and>
     optional (array_of (closed_object measurement_keys)) (member v ''measurements'')"

section \<open>Typed decoding\<close>

definition text_at :: "json \<Rightarrow> string \<Rightarrow> string option" where
  "text_at v k = (case member v k of Some (JStr s) \<Rightarrow> Some s | _ \<Rightarrow> None)"

definition int_at :: "json \<Rightarrow> string \<Rightarrow> int option" where
  "int_at v k = (case member v k of Some (JNum s) \<Rightarrow> decode_int s | _ \<Rightarrow> None)"

definition float_at :: "json \<Rightarrow> string \<Rightarrow> go_float option" where
  "float_at v k = (case member v k of Some (JNum s) \<Rightarrow> decode_float s | _ \<Rightarrow> None)"

fun decode_all :: "(json \<Rightarrow> 'a option) \<Rightarrow> json list \<Rightarrow> 'a list option" where
  "decode_all f [] = Some []"
| "decode_all f (v # vs) = Option.bind (f v) (\<lambda>x. map_option ((#) x) (decode_all f vs))"

definition list_at :: "(json \<Rightarrow> 'a option) \<Rightarrow> json \<Rightarrow> string \<Rightarrow> 'a list option" where
  "list_at f v k = (case member v k of Some (JArr vs) \<Rightarrow> decode_all f vs | _ \<Rightarrow> None)"

text \<open>An absent optional part is the zero value.\<close>

definition optional_at :: "(json \<Rightarrow> 'a option) \<Rightarrow> json \<Rightarrow> string \<Rightarrow> 'a option option" where
  "optional_at f v k = (case member v k of None \<Rightarrow> Some None | Some x \<Rightarrow> map_option Some (f x))"

definition decode_artifact :: "json \<Rightarrow> artifact option" where
  "decode_artifact v = do {
     name \<leftarrow> text_at v ''name''; sha \<leftarrow> text_at v ''sha256''; size \<leftarrow> int_at v ''size_bytes'';
     media \<leftarrow> text_at v ''media_type'';
     Some \<lparr>artifact_name = name, artifact_sha256 = sha, artifact_size = size, artifact_media_type = media\<rparr> }"

definition decode_subject :: "json \<Rightarrow> subject option" where
  "decode_subject v = do {
     role \<leftarrow> text_at v ''role''; platform \<leftarrow> text_at v ''platform''; architecture \<leftarrow> text_at v ''architecture'';
     environment \<leftarrow> text_at v ''environment'';
     Some \<lparr>subject_role = role, subject_platform = platform, subject_architecture = architecture,
           subject_environment = environment\<rparr> }"

definition decode_attestation :: "json \<Rightarrow> attestation option" where
  "decode_attestation v = do {
     level \<leftarrow> text_at v ''level''; reviewer \<leftarrow> text_at v ''reviewer''; moment \<leftarrow> text_at v ''reviewed_at'';
     artifacts \<leftarrow> list_at decode_artifact v ''artifacts''; notes \<leftarrow> text_at v ''notes'';
     Some \<lparr>attestation_level = level, attestation_reviewer = reviewer, attestation_reviewed_at = moment,
           attestation_artifacts = artifacts, attestation_notes = notes\<rparr> }"

definition decode_bindings :: "json \<Rightarrow> bindings option" where
  "decode_bindings v = do {
     host \<leftarrow> text_at v ''host_record_sha256''; client \<leftarrow> text_at v ''client_record_sha256'';
     Some \<lparr>host_record_sha256 = host, client_record_sha256 = client\<rparr> }"

definition decode_profile :: "json \<Rightarrow> stream_profile option" where
  "decode_profile v = do {
     width \<leftarrow> int_at v ''width''; height \<leftarrow> int_at v ''height''; rate \<leftarrow> float_at v ''target_frame_rate'';
     codec \<leftarrow> text_at v ''codec''; transport \<leftarrow> text_at v ''transport'';
     Some \<lparr>profile_width = width, profile_height = height, profile_target_frame_rate = rate,
           profile_codec = codec, profile_transport = transport\<rparr> }"

definition decode_methodology :: "json \<Rightarrow> methodology option" where
  "decode_methodology v = do {
     version \<leftarrow> text_at v ''version''; started \<leftarrow> text_at v ''capture_started_at'';
     ended \<leftarrow> text_at v ''capture_ended_at''; samples \<leftarrow> int_at v ''sample_count'';
     collector \<leftarrow> text_at v ''collector_id''; collector_version \<leftarrow> text_at v ''collector_version'';
     sha \<leftarrow> text_at v ''capture_artifact_sha256'';
     Some \<lparr>methodology_version = version, capture_started_at = started, capture_ended_at = ended,
           sample_count = samples, collector_id = collector, collector_version = collector_version,
           capture_artifact_sha256 = sha\<rparr> }"

definition decode_check :: "json \<Rightarrow> check option" where
  "decode_check v = do {
     id \<leftarrow> text_at v ''id''; status \<leftarrow> text_at v ''status''; method \<leftarrow> text_at v ''method'';
     moment \<leftarrow> text_at v ''observed_at''; summary \<leftarrow> text_at v ''summary'';
     artifacts \<leftarrow> list_at decode_artifact v ''artifacts'';
     Some \<lparr>check_id = id, check_status = status, check_method = method, check_observed_at = moment,
           check_summary = summary, check_artifacts = artifacts\<rparr> }"

definition decode_measurement :: "json \<Rightarrow> measurement option" where
  "decode_measurement v = do {
     id \<leftarrow> text_at v ''id''; x \<leftarrow> float_at v ''value''; unit \<leftarrow> text_at v ''unit'';
     Some \<lparr>measurement_id = id, measurement_value = x, measurement_unit = unit\<rparr> }"

definition decode_record :: "json \<Rightarrow> evidence option" where
  "decode_record v = do {
     schema \<leftarrow> text_at v ''$schema''; version \<leftarrow> int_at v ''schema_version''; id \<leftarrow> text_at v ''record_id'';
     kind \<leftarrow> text_at v ''record_type''; run \<leftarrow> text_at v ''validation_run_id''; route \<leftarrow> text_at v ''route_id'';
     profile \<leftarrow> text_at v ''test_profile_id''; created \<leftarrow> text_at v ''created_at'';
     expires \<leftarrow> text_at v ''expires_at''; as_of \<leftarrow> text_at v ''manifest_as_of'';
     sha \<leftarrow> text_at v ''manifest_sha256''; tool \<leftarrow> text_at v ''tool_version'';
     subject \<leftarrow> Option.bind (member v ''subject'') decode_subject;
     attestation \<leftarrow> Option.bind (member v ''attestation'') decode_attestation;
     bindings \<leftarrow> optional_at decode_bindings v ''bindings'';
     stream \<leftarrow> optional_at decode_profile v ''stream_profile'';
     methodology \<leftarrow> optional_at decode_methodology v ''measurement_methodology'';
     checks \<leftarrow> list_at decode_check v ''checks'';
     measurements \<leftarrow> (if member v ''measurements'' = None then Some []
                     else list_at decode_measurement v ''measurements'');
     Some \<lparr>ev_schema = schema, ev_schema_version = version, ev_record_id = id, ev_record_type = kind, ev_run_id = run,
           ev_route_id = route, ev_test_profile_id = profile, ev_created_at = created, ev_expires_at = expires,
           ev_manifest_as_of = as_of, ev_manifest_sha256 = sha, ev_tool_version = tool, ev_subject = subject,
           ev_attestation = attestation, ev_bindings = bindings, ev_stream_profile = stream,
           ev_methodology = methodology, ev_checks = checks, ev_measurements = measurements\<rparr> }"

definition decode_evidence :: "json_token list \<Rightarrow> evidence option" where
  "decode_evidence ts = do {
     (v, rest) \<leftarrow> read_value ts;
     if rest = [] \<and> known_keys v then decode_record v else None }"

definition parse_evidence :: "document \<Rightarrow> evidence_error + evidence" where
  "parse_evidence d =
     (if doc_blank d then Inl (In_Parse Ev_Empty)
      else if max_record_size < doc_size d then Inl (In_Parse Ev_Too_Large)
      else
        (case walk 64 False (Value 0) (doc_tokens d) of
           Inl e \<Rightarrow> Inl (In_Parse (Ev_Structure e))
         | Inr _ \<Rightarrow>
             (case decode_evidence (doc_tokens d) of
                None \<Rightarrow> Inl (In_Parse Ev_Decode)
              | Some r \<Rightarrow> bind_result (validate_evidence r) (\<lambda>_. Inr r))))"

section \<open>Templates\<close>

text \<open>\<open>hex.EncodeToString\<close>, and the random identifiers; the random bytes are arguments, absent when
  \<open>rand.Read\<close> fails.\<close>

definition hex_encode :: "string \<Rightarrow> string" where
  "hex_encode s = concat (map (\<lambda>c. [hex_char (byte c div 16), hex_char (byte c mod 16)]) s)"

datatype template_error =
    Template_Time | Template_Route string | Template_Type string | Template_Random | Template_Run_Id string
  | Template_Manifest manifest_error | Template_Invalid evidence_error

definition random_id :: "string \<Rightarrow> string option \<Rightarrow> template_error + string" where
  "random_id prefix_text bytes =
     (case bytes of None \<Rightarrow> Inl Template_Random | Some bs \<Rightarrow> Inr (prefix_text @ ''-'' @ hex_encode bs))"

definition new_record_id :: "string \<Rightarrow> string option \<Rightarrow> template_error + string" where
  "new_record_id kind bytes =
     (if required_checks kind = None then Inl (Template_Type kind) else random_id kind bytes)"

definition choose_run_id :: "string \<Rightarrow> string option \<Rightarrow> template_error + string" where
  "choose_run_id given bytes =
     (let run = trim_space given
      in if run = [] then random_id ''run'' bytes
         else if run_id_pattern run then Inr run else Inl (Template_Run_Id run))"

definition normalize_platform :: "string \<Rightarrow> string" where
  "normalize_platform v =
     (let p = to_lower (trim_space v)
      in if p = ''darwin'' then ''macos'' else if p = ''dragonfly'' then ''dragonflybsd'' else p)"

definition normalize_architecture :: "string \<Rightarrow> string" where
  "normalize_architecture v =
     (let a = to_lower (trim_space v)
      in if a = ''x86_64'' \<or> a = ''x64'' then ''amd64'' else if a = ''aarch64'' then ''arm64'' else a)"

definition check_summaries :: "(string \<times> string) list" where
  "check_summaries =
     [(''host.physical-machine'', ''Confirm a retail physical host without concealing or spoofing virtualization.''),
      (''host.supported-os'', ''Record a currently supported and updated host operating system.''),
      (''host.hardware-requirements'', ''Verify CPU, GPU, memory, storage, and driver requirements against Riot guidance.''),
      (''host.security-requirements'', ''Verify applicable Secure Boot, TPM, VBS/HVCI, and IOMMU requirements using vendor guidance.''),
      (''host.riot-installation'', ''Verify official Riot Client, League, and anti-cheat installation integrity.''),
      (''host.local-practice-tool'', ''Complete a direct local Practice Tool session before streaming.''),
      (''host.streaming-server'', ''Verify Sunshine is current, safely bound, and configured without exposing credentials.''),
      (''client.platform'', ''Record the native Linux or BSD kernel and userspace version.''),
      (''client.moonlight'', ''Verify a trusted Moonlight installation and record its version.''),
      (''client.display'', ''Verify the active desktop/display stack and fullscreen behavior.''),
      (''client.audio'', ''Verify usable audio output on the client.''),
      (''client.decoder'', ''Verify hardware or software decode capability under an actual stream.''),
      (''session.pair'', ''Pair Moonlight and Sunshine without routing credentials through LeagueBridge.''),
      (''session.app-list'', ''Retrieve the configured streaming application list successfully.''),
      (''session.video'', ''Verify stable video, fullscreen/window behavior, and reconnect.''),
      (''session.keyboard-mouse'', ''Verify keyboard, mouse, modifiers, cursor capture, camera movement, and chat input.''),
      (''session.audio'', ''Verify game audio throughout the session.''),
      (''session.latency'', ''Record encode, network, decode, and end-to-end latency plus dropped frames.''),
      (''session.practice-tool'', ''Complete Practice Tool or a custom game through the streamed session.''),
      (''session.vanguard-errors'', ''Confirm that Riot Client and Vanguard reported no streaming-related error.''),
      (''session.patch-current'', ''Record the League patch and repeat validation after material updates.'')]"

definition unverified_check :: "string \<Rightarrow> check" where
  "unverified_check i =
     \<lparr>check_id = i, check_status = ''unverified'', check_method = ''manual'', check_observed_at = [],
      check_summary = (case map_of check_summaries i of Some s \<Rightarrow> s | None \<Rightarrow> []), check_artifacts = []\<rparr>"

definition add_days :: "int \<Rightarrow> go_time \<Rightarrow> go_time" where
  "add_days n t = Go_Time (time_seconds t + n * 86400) (time_nanos t)"

definition template_attestation :: attestation where
  "template_attestation =
     \<lparr>attestation_level = ''self-attested'', attestation_reviewer = [], attestation_reviewed_at = [],
      attestation_artifacts = [],
      attestation_notes =
        ''Replace unverified checks only with observed evidence; do not include credentials or machine identifiers.''\<rparr>"

text \<open>What a session template adds.\<close>

definition session_template :: "evidence \<Rightarrow> evidence" where
  "session_template r =
     r\<lparr>ev_bindings := Some \<lparr>host_record_sha256 = [], client_record_sha256 = []\<rparr>,
       ev_stream_profile := Some \<lparr>profile_width = 0, profile_height = 0, profile_target_frame_rate = Finite 0,
         profile_codec = ''unverified'', profile_transport = ''unverified''\<rparr>,
       ev_methodology := Some \<lparr>methodology_version = ''session-metrics-v1'', capture_started_at = [],
         capture_ended_at = [], sample_count = 0, collector_id = [], collector_version = [],
         capture_artifact_sha256 = []\<rparr>,
       ev_measurements := map (\<lambda>q. \<lparr>measurement_id = requirement_id q, measurement_value = Finite 0,
         measurement_unit = requirement_unit q\<rparr>) measurement_requirements\<rparr>"

record template_request =
  tr_type :: string
  tr_platform :: string
  tr_architecture :: string
  tr_tool_version :: string
  tr_run_id :: string
  tr_route :: string

definition template_record :: "template_request \<Rightarrow> string \<Rightarrow> string \<Rightarrow> string \<Rightarrow> go_time \<Rightarrow> evidence" where
  "template_record q record_id run_id digest now =
     (let tool = trim_space (tr_tool_version q);
          r = \<lparr>ev_schema = evidence_schema_id, ev_schema_version = 1, ev_record_id = record_id,
               ev_record_type = tr_type q, ev_run_id = run_id, ev_route_id = tr_route q,
               ev_test_profile_id = ''remote-play-v1'', ev_created_at = format_rfc3339 now,
               ev_expires_at = format_rfc3339 (add_days 7 now), ev_manifest_as_of = authoritative_as_of,
               ev_manifest_sha256 = digest, ev_tool_version = (if tool = [] then ''unknown'' else tool),
               ev_subject = \<lparr>subject_role = tr_type q, subject_platform = normalize_platform (tr_platform q),
                 subject_architecture = normalize_architecture (tr_architecture q), subject_environment = ''unverified''\<rparr>,
               ev_attestation = template_attestation, ev_bindings = None, ev_stream_profile = None,
               ev_methodology = None,
               ev_checks = map unverified_check (the (required_checks (tr_type q))), ev_measurements = []\<rparr>
      in if tr_type q = ''session'' then session_template r else r)"

definition new_template ::
    "evaluation_env \<Rightarrow> string option \<Rightarrow> string option \<Rightarrow> template_request \<Rightarrow> go_time \<Rightarrow> template_error + evidence" where
  "new_template env record_bytes run_bytes q now =
     bind_result (require (\<not> is_zero now) Template_Time) (\<lambda>_.
     bind_result (require (tr_route q \<in> set supported_route_ids) (Template_Route (tr_route q))) (\<lambda>_.
     bind_result (new_record_id (tr_type q) record_bytes) (\<lambda>record_id.
     bind_result (choose_run_id (tr_run_id q) run_bytes) (\<lambda>run_id.
     bind_result (map_error Template_Manifest (embedded_manifest (compiled_in env))) (\<lambda>m.
     bind_result (map_error Template_Manifest (canonical_sha256 (json_digest env) m)) (\<lambda>digest.
       let r = template_record q record_id run_id digest now
       in bind_result (map_error Template_Invalid (validate_evidence r)) (\<lambda>_. Inr r)))))))"

lemma new_template_valid:
  assumes "new_template env rb ub q now = Inr r"
  shows "validate_evidence r = Inr ()" and "ev_attestation r = template_attestation"
    and "\<exists>cs. required_checks (tr_type q) = Some cs \<and> ev_checks r = map unverified_check cs \<and> ev_record_type r = tr_type q"
proof -
  from assms obtain i u d where r: "r = template_record q i u d now" "validate_evidence r = Inr ()"
    and i: "new_record_id (tr_type q) rb = Inr i"
    by (auto simp: new_template_def bind_result_ok Let_def split: if_splits)
  then show "validate_evidence r = Inr ()" "ev_attestation r = template_attestation"
    by (simp_all add: template_record_def session_template_def Let_def)
  from i have "required_checks (tr_type q) \<noteq> None" by (auto simp: new_record_id_def split: if_splits)
  with r(1) show "\<exists>cs. required_checks (tr_type q) = Some cs \<and> ev_checks r = map unverified_check cs \<and>
      ev_record_type r = tr_type q"
    by (auto simp: template_record_def session_template_def Let_def)
qed

text \<open>C23. A template is a valid record that proves nothing: it has exactly the required checks of its
  type, all unverified, nobody has reviewed it, and whatever artifacts are said to be verified, at no
  time does it evaluate to a complete state.\<close>

theorem template_unverified:
  assumes "new_template env record_bytes run_bytes q created = Inr r"
  shows "validate_evidence r = Inr () \<and> map check_id (ev_checks r) = the (required_checks (ev_record_type r)) \<and>
    (\<forall>c \<in> set (ev_checks r). check_status c = ''unverified'' \<and> check_artifacts c = []) \<and>
    (case evaluate_record env' r v now of
       Inr e \<Rightarrow> evaluation_state e \<in> {Pending, Expired} \<and> \<not> promotion_safe e
     | Inl _ \<Rightarrow> True)"
proof -
  note t = new_template_valid [OF assms]
  have "self_attested r" by (simp add: self_attested_def t(2) template_attestation_def)
  then have "\<not> record_claims digest fresh now r" for digest fresh by (simp add: record_claims_def)
  then have "evaluation_state e \<in> {Pending, Expired} \<and> \<not> promotion_safe e"
    if "evaluate_record env' r v now = Inr e" for e
    using evaluated_claims [OF that] by (cases "evaluation_state e") auto
  moreover have "map check_id (ev_checks r) = the (required_checks (ev_record_type r))"
    "\<forall>c \<in> set (ev_checks r). check_status c = ''unverified'' \<and> check_artifacts c = []"
    using t(3) by (auto simp: unverified_check_def comp_def)
  ultimately show ?thesis using t(1) by (auto split: sum.split)
qed

end
