(* ===== verification/Reviewer_Crypto.thy ===== *)
theory Reviewer_Crypto
  imports Evidence_Parse
begin

text \<open>
  \<open>internal/reviewercrypto\<close> and the byte encodings around signatures: the length-framed preimage
  that reviewers sign, lower-case hexadecimal, unpadded base64url, bounded identifiers and sorted
  lists. SHA-256, Ed25519 and the subgroup check of a public key (\<open>filippo.io/edwards25519\<close>) are
  the functions of a \<open>crypto\<close> record, and so is the lexer of \<open>encoding/json\<close>.
\<close>

record crypto =
  sha256_hex :: "string \<Rightarrow> string"
  valid_public_key :: "string \<Rightarrow> bool"
  ed25519_verify :: "string \<Rightarrow> string \<Rightarrow> string \<Rightarrow> bool"
  json_lexer :: "string \<Rightarrow> json_token list"

text \<open>The document that a byte string is.\<close>

definition document_of :: "crypto \<Rightarrow> string \<Rightarrow> document" where
  "document_of c data =
     \<lparr>doc_size = length data, doc_blank = (trim_space data = []), doc_tokens = json_lexer c data\<rparr>"

section \<open>Hexadecimal and base64url\<close>

text \<open>\<open>decodeLowerHex\<close>.\<close>

fun hex_decode :: "string \<Rightarrow> string option" where
  "hex_decode [] = Some []"
| "hex_decode [a] = None"
| "hex_decode (a # b # s) =
     (case (hex_value a, hex_value b) of
        (Some x, Some y) \<Rightarrow> map_option ((#) (char_of (16 * x + y))) (hex_decode s)
      | _ \<Rightarrow> None)"

definition decode_lower_hex :: "string \<Rightarrow> nat \<Rightarrow> string option" where
  "decode_lower_hex s n = (if length s \<noteq> 2 * n \<or> s \<noteq> to_lower s then None else hex_decode s)"

text \<open>\<open>base64.RawURLEncoding\<close>: six bits for each character; a line break is skipped, the bits left
  over at the end are dropped.\<close>

definition base64_alphabet :: string where
  "base64_alphabet = ''ABCDEFGHIJKLMNOPQRSTUVWXYZabcdefghijklmnopqrstuvwxyz0123456789-_''"

fun base64_encode :: "string \<Rightarrow> string" where
  "base64_encode [] = []"
| "base64_encode [a] =
     [base64_alphabet ! (byte a div 4), base64_alphabet ! (byte a mod 4 * 16)]"
| "base64_encode [a, b] =
     [base64_alphabet ! (byte a div 4), base64_alphabet ! (byte a mod 4 * 16 + byte b div 16),
      base64_alphabet ! (byte b mod 16 * 4)]"
| "base64_encode (a # b # c # s) =
     base64_alphabet ! (byte a div 4) # base64_alphabet ! (byte a mod 4 * 16 + byte b div 16) #
     base64_alphabet ! (byte b mod 16 * 4 + byte c div 64) # base64_alphabet ! (byte c mod 64) # base64_encode s"

definition base64_value :: "char \<Rightarrow> nat option" where
  "base64_value c =
     (if is_upper c then Some (byte c - 65)
      else if is_lower c then Some (byte c - 71)
      else if is_digit c then Some (byte c + 4)
      else if c = CHR ''-'' then Some 62
      else if c = CHR ''_'' then Some 63
      else None)"

fun base64_bytes :: "nat list \<Rightarrow> string option" where
  "base64_bytes [] = Some []"
| "base64_bytes [w] = None"
| "base64_bytes [w, x] = Some [char_of (w * 4 + x div 16)]"
| "base64_bytes [w, x, y] = Some [char_of (w * 4 + x div 16), char_of (x mod 16 * 16 + y div 4)]"
| "base64_bytes (w # x # y # z # s) =
     map_option (\<lambda>t. char_of (w * 4 + x div 16) # char_of (x mod 16 * 16 + y div 4) # char_of (y mod 4 * 64 + z) # t)
       (base64_bytes s)"

definition base64_decode :: "string \<Rightarrow> string option" where
  "base64_decode s =
     (let cs = filter (\<lambda>c. byte c \<noteq> 10 \<and> byte c \<noteq> 13) s
      in if list_ex (\<lambda>c. base64_value c = None) cs then None
         else base64_bytes (map (\<lambda>c. the (base64_value c)) cs))"

text \<open>A payload must be the one encoding of its bytes.\<close>

definition canonical_base64 :: "string \<Rightarrow> string option" where
  "canonical_base64 s =
     (case base64_decode s of
        None \<Rightarrow> None
      | Some bytes \<Rightarrow> if base64_encode bytes = s then Some bytes else None)"

section \<open>The preimage of a signature\<close>

definition append_length_prefixed :: "string \<Rightarrow> string \<Rightarrow> string" where
  "append_length_prefixed destination v =
     destination @ map (\<lambda>i. char_of (length v div 256 ^ i mod 256)) [7, 6, 5, 4, 3, 2, 1, 0] @ v"

definition signature_preimage :: "string \<Rightarrow> string \<Rightarrow> string \<Rightarrow> string \<Rightarrow> string \<Rightarrow> string" where
  "signature_preimage domain payload_type key_id signed_at payload =
     append_length_prefixed
       (append_length_prefixed
          (append_length_prefixed (append_length_prefixed domain payload_type) key_id) signed_at) payload"

section \<open>Identifiers and sorted lists\<close>

definition valid_slug :: "string \<Rightarrow> nat \<Rightarrow> bool" where
  "valid_slug v maximum \<longleftrightarrow> 0 < length v \<and> length v \<le> maximum \<and> dotted_pattern v"

text \<open>The order of Go strings is that of their bytes.\<close>

fun string_less :: "string \<Rightarrow> string \<Rightarrow> bool" where
  "string_less s [] \<longleftrightarrow> False"
| "string_less [] (d # t) \<longleftrightarrow> True"
| "string_less (c # s) (d # t) \<longleftrightarrow> byte c < byte d \<or> c = d \<and> string_less s t"

fun strings_sorted :: "string list \<Rightarrow> bool" where
  "strings_sorted (s # t # ss) \<longleftrightarrow> \<not> string_less t s \<and> strings_sorted (t # ss)"
| "strings_sorted _ \<longleftrightarrow> True"

text \<open>\<open>sort.SearchStrings\<close>: a binary search for the first value that is not smaller.\<close>

function search_strings :: "string list \<Rightarrow> string \<Rightarrow> nat \<Rightarrow> nat \<Rightarrow> nat" where
  "search_strings vs want i j =
     (if i < j then
        (let h = (i + j) div 2
         in if string_less (vs ! h) want then search_strings vs want (h + 1) j else search_strings vs want i h)
      else i)"
  by pat_completeness auto
termination by (relation "measure (\<lambda>(vs, want, i, j). j - i)") auto

definition contains_sorted :: "string list \<Rightarrow> string \<Rightarrow> bool" where
  "contains_sorted vs want =
     (let i = search_strings vs want 0 (length vs) in i < length vs \<and> vs ! i = want)"

section \<open>The encodings are injective\<close>

lemma char_of_inject_256: "(m :: nat) < 256 \<Longrightarrow> n < 256 \<Longrightarrow> char_of m = (char_of n :: char) \<longleftrightarrow> m = n"
  by (metis byte_char_of)

lemma big_endian_inject:
  assumes "m < 2 ^ 64" "n < 2 ^ 64"
    and "map (\<lambda>i. char_of (m div 256 ^ i mod 256) :: char) [7, 6, 5, 4, 3, 2, 1, 0] =
      map (\<lambda>i. char_of (n div 256 ^ i mod 256)) [7, 6, 5, 4, 3, 2, 1, 0]"
  shows "m = (n :: nat)"
proof -
  have digits: "m div 256 ^ i mod 256 = n div 256 ^ i mod 256" if "i \<in> {0 .. 7}" for i
  proof -
    from that have "i \<in> set [7, 6, 5, 4, 3, 2, 1, 0]" by auto
    with assms(3) have "char_of (m div 256 ^ i mod 256) = (char_of (n div 256 ^ i mod 256) :: char)"
      unfolding map_eq_conv by blast
    then show ?thesis by (simp add: char_of_inject_256)
  qed
  have "m mod 256 ^ k = n mod 256 ^ k" if "k \<le> 8" for k
    using that
  proof (induction k)
    case (Suc k)
    then have "m div 256 ^ k mod 256 = n div 256 ^ k mod 256" "m mod 256 ^ k = n mod 256 ^ k"
      using digits [of k] by auto
    then show ?case by (simp add: mod_mult2_eq [of _ "256 ^ k" 256] mult.commute [of 256])
  qed simp
  from this [of 8] assms(1,2) show ?thesis by simp
qed

lemma length_prefixed_inject:
  assumes "append_length_prefixed d v @ r = append_length_prefixed d w @ s" "length v < 2 ^ 64" "length w < 2 ^ 64"
  shows "v = w \<and> r = s"
proof -
  let ?l = "\<lambda>n :: nat. map (\<lambda>i. char_of (n div 256 ^ i mod 256) :: char) [7, 6, 5, 4, 3, 2, 1, 0]"
  from assms(1) have eq: "?l (length v) @ v @ r = ?l (length w) @ w @ s"
    by (simp add: append_length_prefixed_def)
  have "length (?l n) = 8" for n by simp
  with eq have "?l (length v) = ?l (length w)" "v @ r = w @ s"
    by (metis append_eq_append_conv)+
  with big_endian_inject [OF assms(2,3)] show ?thesis by (simp add: append_eq_append_conv)
qed

lemma append_length_prefixed_assoc: "append_length_prefixed (d @ e) v = d @ append_length_prefixed e v"
  by (simp add: append_length_prefixed_def)

lemma preimage_tail:
  "signature_preimage d p k t b =
     d @ append_length_prefixed [] p @ append_length_prefixed [] k @ append_length_prefixed [] t @
     append_length_prefixed [] b"
  by (simp add: signature_preimage_def append_length_prefixed_def)

text \<open>A domain ends with its only zero byte, so two preimages of different domains differ.\<close>

definition domain_text :: "string \<Rightarrow> bool" where
  "domain_text d \<longleftrightarrow> d \<noteq> [] \<and> byte (last d) = 0 \<and> list_all (\<lambda>c. byte c \<noteq> 0) (butlast d)"

lemma domain_inject:
  assumes "domain_text d" "domain_text e" "d @ r = e @ s"
  shows "d = e \<and> r = s"
  using assms
proof (induction d arbitrary: e)
  case (Cons c d)
  then obtain c' e' where e: "e = c' # e'" by (auto simp: domain_text_def neq_Nil_conv)
  with Cons.prems have [simp]: "c' = c" by simp
  show ?case
  proof (cases "d = []")
    case True
    with Cons.prems e have "byte c = 0" by (simp add: domain_text_def)
    with Cons.prems e have "e' = []" by (cases e') (auto simp: domain_text_def)
    with True e Cons.prems show ?thesis by simp
  next
    case False
    with Cons.prems have "byte c \<noteq> 0" by (simp add: domain_text_def)
    with Cons.prems e have "e' \<noteq> []" by (auto simp: domain_text_def)
    with False Cons.prems e have "domain_text d" "domain_text e'" "d @ r = e' @ s"
      by (auto simp: domain_text_def)
    with Cons.IH e show ?thesis by auto
  qed
qed (simp add: domain_text_def)

lemma preimage_inject:
  assumes eq: "signature_preimage d p k t b = signature_preimage d' p' k' t' b'"
    and "domain_text d" "domain_text d'"
    and "list_all (\<lambda>s. length s < 2 ^ 64) [p, k, t, b, p', k', t', b']"
  shows "d = d' \<and> p = p' \<and> k = k' \<and> t = t' \<and> b = b'"
proof -
  let ?f = "append_length_prefixed []"
  from eq domain_inject [OF assms(2,3)] have "d = d'" and 1: "?f p @ ?f k @ ?f t @ ?f b = ?f p' @ ?f k' @ ?f t' @ ?f b'"
    unfolding preimage_tail by blast+
  from length_prefixed_inject [OF 1] assms(4) have "p = p'" and 2: "?f k @ ?f t @ ?f b = ?f k' @ ?f t' @ ?f b'" by auto
  from length_prefixed_inject [OF 2] assms(4) have "k = k'" and 3: "?f t @ ?f b = ?f t' @ ?f b'" by auto
  from length_prefixed_inject [OF 3] assms(4) have "t = t'" and 4: "?f b @ [] = ?f b' @ []" by auto
  from length_prefixed_inject [OF 4] assms(4) have "b = b'" by auto
  with \<open>d = d'\<close> \<open>p = p'\<close> \<open>k = k'\<close> \<open>t = t'\<close> show ?thesis by blast
qed

section \<open>Searching a sorted list\<close>

lemma string_less_irrefl [simp]: "\<not> string_less s s"
  by (induction s) auto

lemma string_less_trans: "string_less s t \<Longrightarrow> string_less t u \<Longrightarrow> string_less s u"
proof (induction s t arbitrary: u rule: string_less.induct)
  case (2 d t)
  then show ?case by (cases u) auto
next
  case (3 c s d t)
  then show ?case by (cases u) auto
qed simp

lemma string_less_linear: "string_less s t \<or> s = t \<or> string_less t s"
proof (induction s t rule: string_less.induct)
  case (1 s)
  then show ?case by (cases s) auto
next
  case (3 c s d t)
  have "byte c < byte d \<or> c = d \<or> byte d < byte c" by (metis byte_inject linorder_neqE_nat)
  with 3 show ?case by auto
qed simp

lemma strings_sorted_wrt: "strings_sorted ss \<longleftrightarrow> sorted_wrt (\<lambda>s t. \<not> string_less t s) ss"
proof (induction ss rule: strings_sorted.induct)
  case (1 s t ss)
  show ?case
  proof
    assume sorted: "strings_sorted (s # t # ss)"
    with 1 have rest: "sorted_wrt (\<lambda>s t. \<not> string_less t s) (t # ss)" and st: "\<not> string_less t s" by auto
    have "\<not> string_less u s" if "u \<in> set ss" for u
      using that rest st string_less_linear [of s t] string_less_trans [of u s t] by auto
    with rest st show "sorted_wrt (\<lambda>s t. \<not> string_less t s) (s # t # ss)" by auto
  qed (use 1 in auto)
qed simp_all


declare search_strings.simps [simp del]

lemma search_strings_split:
  assumes "strings_sorted vs" "j \<le> length vs" "i \<le> j"
    and "\<forall>n < i. string_less (vs ! n) want" "\<forall>n. j \<le> n \<and> n < length vs \<longrightarrow> \<not> string_less (vs ! n) want"
  shows "let m = search_strings vs want i j in
    (\<forall>n < m. string_less (vs ! n) want) \<and> (\<forall>n. m \<le> n \<and> n < length vs \<longrightarrow> \<not> string_less (vs ! n) want)"
  using assms
proof (induction vs want i j rule: search_strings.induct)
  case (1 vs want i j)
  have mono: "\<not> string_less (vs ! n) (vs ! m)" if "m \<le> n" "n < length vs" for m n
    using 1(3) that unfolding strings_sorted_wrt
    by (cases "m = n") (auto simp: sorted_wrt_iff_nth_less)
  show ?case
  proof (cases "i < j")
    case True
    define h where "h = (i + j) div 2"
    have h: "i \<le> h" "h < j" using True by (auto simp: h_def)
    show ?thesis
    proof (cases "string_less (vs ! h) want")
      case True
      have "string_less (vs ! n) want" if "n < h + 1" for n
        using mono [of n h] that h 1(4) True string_less_linear [of "vs ! n" "vs ! h"] string_less_trans
        by (metis Suc_eq_plus1 less_Suc_eq_le less_le_trans)
      with 1(1) [OF \<open>i < j\<close> h_def True 1(3,4) _ _ 1(7)] h \<open>i < j\<close> True show ?thesis
        by (subst search_strings.simps) (simp add: h_def [symmetric] Let_def)
    next
      case False
      have "\<not> string_less (vs ! n) want" if "h \<le> n" "n < length vs" for n
        using mono [of h n] that False string_less_linear [of "vs ! h" "vs ! n"] string_less_trans by metis
      with 1(2) [OF \<open>i < j\<close> h_def False 1(3) _ _ 1(6)] h \<open>i < j\<close> False 1(4) show ?thesis
        by (subst search_strings.simps) (simp add: h_def [symmetric] Let_def)
    qed
  next
    case False
    with 1 show ?thesis by (subst search_strings.simps) (simp add: Let_def)
  qed
qed

lemma contains_sorted_iff:
  assumes "strings_sorted vs"
  shows "contains_sorted vs want \<longleftrightarrow> want \<in> set vs"
proof -
  define m where "m = search_strings vs want 0 (length vs)"
  have m: "\<forall>n < m. string_less (vs ! n) want" "\<forall>n. m \<le> n \<and> n < length vs \<longrightarrow> \<not> string_less (vs ! n) want"
  proof -
    have "let m = search_strings vs want 0 (length vs) in
        (\<forall>n < m. string_less (vs ! n) want) \<and> (\<forall>n. m \<le> n \<and> n < length vs \<longrightarrow> \<not> string_less (vs ! n) want)"
    proof (rule search_strings_split [OF assms])
      show "\<forall>n. length vs \<le> n \<and> n < length vs \<longrightarrow> \<not> string_less (vs ! n) want" by (meson not_le)
    qed simp_all
    then show "\<forall>n < m. string_less (vs ! n) want" "\<forall>n. m \<le> n \<and> n < length vs \<longrightarrow> \<not> string_less (vs ! n) want"
      unfolding Let_def m_def by blast+
  qed
  have "vs ! m = want \<and> m < length vs" if "want \<in> set vs"
  proof -
    from that obtain n where n: "n < length vs" "vs ! n = want" by (auto simp: in_set_conv_nth)
    with m(1) have "m \<le> n" by (metis not_le string_less_irrefl)
    with n have "m < length vs" by simp
    with m(2) have "\<not> string_less (vs ! m) want" by blast
    moreover have "\<not> string_less want (vs ! m)"
    proof (cases "m = n")
      case False
      with assms n \<open>m \<le> n\<close> show ?thesis unfolding strings_sorted_wrt by (auto simp: sorted_wrt_iff_nth_less)
    qed (simp add: n)
    ultimately show ?thesis using \<open>m < length vs\<close> string_less_linear by blast
  qed
  then show ?thesis by (auto simp: contains_sorted_def m_def [symmetric] Let_def)
qed

section \<open>Encoding and decoding\<close>

lemma base64_value_alphabet: "n < 64 \<Longrightarrow> base64_value (base64_alphabet ! n) = Some n"
proof -
  have "\<forall>n \<in> set [0..<64]. base64_value (base64_alphabet ! n) = Some n" by code_simp
  then show "n < 64 \<Longrightarrow> base64_value (base64_alphabet ! n) = Some n" by simp
qed

lemma base64_alphabet_no_break: "n < 64 \<Longrightarrow> byte (base64_alphabet ! n) \<noteq> 10 \<and> byte (base64_alphabet ! n) \<noteq> 13"
proof -
  have "\<forall>n \<in> set [0..<64]. byte (base64_alphabet ! n) \<noteq> 10 \<and> byte (base64_alphabet ! n) \<noteq> 13" by code_simp
  then show "n < 64 \<Longrightarrow> byte (base64_alphabet ! n) \<noteq> 10 \<and> byte (base64_alphabet ! n) \<noteq> 13" by simp
qed

text \<open>The six-bit values of the characters that are written.\<close>

fun base64_words :: "string \<Rightarrow> nat list" where
  "base64_words [] = []"
| "base64_words [a] = [byte a div 4, byte a mod 4 * 16]"
| "base64_words [a, b] = [byte a div 4, byte a mod 4 * 16 + byte b div 16, byte b mod 16 * 4]"
| "base64_words (a # b # c # s) =
     byte a div 4 # (byte a mod 4 * 16 + byte b div 16) # (byte b mod 16 * 4 + byte c div 64) # byte c mod 64 #
     base64_words s"

lemma base64_encode_words: "base64_encode s = map ((!) base64_alphabet) (base64_words s)"
  by (induction s rule: base64_encode.induct) simp_all

lemma byte_parts: "byte a div 4 < 64" "byte a div 16 < 16" "byte a div 64 < 4"
    "byte a mod 4 * 16 + byte b div 16 < 64" "byte b mod 16 * 4 + byte c div 64 < 64"
proof -
  have div: "byte x div 4 < 64 \<and> byte x div 16 < 16 \<and> byte x div 64 < 4" for x
    using byte_less [of x] by (simp add: less_mult_imp_div_less)
  then show "byte a div 4 < 64" "byte a div 16 < 16" "byte a div 64 < 4" by blast+
  have "byte a mod 4 < 4" "byte b mod 16 < 16" by simp_all
  then show "byte a mod 4 * 16 + byte b div 16 < 64" "byte b mod 16 * 4 + byte c div 64 < 64"
    using div [of b] div [of c] by linarith+
qed

lemma base64_words_less: "\<forall>w \<in> set (base64_words s). w < 64"
proof (induction s rule: base64_words.induct)
  case (4 a b c s)
  then show ?case by (auto simp: byte_parts)
next
  case (2 a)
  have "byte a mod 4 < 4" by simp
  then show ?case by (simp add: byte_parts)
next
  case (3 a b)
  have "byte b mod 16 < 16" by simp
  then have "byte b mod 16 * 4 < 64" by linarith
  then show ?case by (simp add: byte_parts)
qed simp

lemma byte_join:
  "char_of (byte a div 4 * 4 + (byte a mod 4 * 16 + byte b div 16) div 16) = a"
  "char_of ((byte a mod 4 * 16 + byte b div 16) mod 16 * 16 + (byte b mod 16 * 4 + byte c div 64) div 4) = b"
  "char_of ((byte b mod 16 * 4 + byte c div 64) mod 4 * 64 + byte c mod 64) = c"
  "char_of (byte a div 4 * 4 + byte a mod 4 * 16 div 16) = a"
  "char_of ((byte a mod 4 * 16 + byte b div 16) mod 16 * 16 + byte b mod 16 * 4 div 4) = b"
proof -
  have join: "char_of n = d" if "n = byte d" for n d using that by (simp add: byte_def)
  have small: "byte b div 16 < 16" "byte c div 64 < 4" by (simp_all add: byte_parts)
  then have "(byte a mod 4 * 16 + byte b div 16) div 16 = byte a mod 4" "(byte a mod 4 * 16 + byte b div 16) mod 16 = byte b div 16"
    "(byte b mod 16 * 4 + byte c div 64) div 4 = byte b mod 16" "(byte b mod 16 * 4 + byte c div 64) mod 4 = byte c div 64"
    by simp_all
  then show "char_of (byte a div 4 * 4 + (byte a mod 4 * 16 + byte b div 16) div 16) = a"
    "char_of ((byte a mod 4 * 16 + byte b div 16) mod 16 * 16 + (byte b mod 16 * 4 + byte c div 64) div 4) = b"
    "char_of ((byte b mod 16 * 4 + byte c div 64) mod 4 * 64 + byte c mod 64) = c"
    "char_of (byte a div 4 * 4 + byte a mod 4 * 16 div 16) = a"
    "char_of ((byte a mod 4 * 16 + byte b div 16) mod 16 * 16 + byte b mod 16 * 4 div 4) = b"
    by (intro join, simp)+
qed

lemma base64_bytes_words: "base64_bytes (base64_words s) = Some s"
  by (induction s rule: base64_words.induct) (simp_all only: base64_words.simps base64_bytes.simps byte_join option.map)

lemma base64_decode_encode: "base64_decode (base64_encode s) = Some s"
proof -
  have "filter (\<lambda>c. byte c \<noteq> 10 \<and> byte c \<noteq> 13) (base64_encode s) = base64_encode s"
    using base64_words_less [of s] base64_alphabet_no_break
    by (auto simp: base64_encode_words filter_id_conv)
  moreover have "\<not> list_ex (\<lambda>c. base64_value c = None) (base64_encode s)"
    using base64_words_less [of s] base64_value_alphabet by (auto simp: base64_encode_words list_ex_iff)
  moreover have "map (\<lambda>c. the (base64_value c)) (base64_encode s) = base64_words s"
    using base64_words_less [of s] base64_value_alphabet
    by (auto simp: base64_encode_words comp_def intro: map_idI)
  ultimately show ?thesis by (simp add: base64_decode_def base64_bytes_words)
qed

lemma canonical_base64_iff: "canonical_base64 s = Some bytes \<longleftrightarrow> s = base64_encode bytes"
  using base64_decode_encode by (auto simp: canonical_base64_def split: option.splits if_splits)

lemma length_hex_decode: "hex_decode s = Some bs \<Longrightarrow> length s = 2 * length bs"
  by (induction s arbitrary: bs rule: hex_decode.induct) (auto split: option.splits)

end
