(* ===== verification/Signed_Policy.thy ===== *)
theory Signed_Policy
  imports Reviewer_Crypto
begin

text \<open>
  The reviewer policy of \<open>internal/evidencev2/policy.go\<close> and the canonical timestamps and limits of
  \<open>types.go\<close>. An opaque \<open>TrustPolicy\<close> is an option: \<open>None\<close> is its zero value, \<open>Some p\<close> a policy that
  \<open>newTrustPolicy\<close> has validated.
\<close>

section \<open>Limits and names\<close>

definition envelope_schema_id :: string where
  "envelope_schema_id = ''https://leaguebridge.dev/schemas/evidence-signature-envelope.schema.json''"

definition payload_schema_id :: string where
  "payload_schema_id = ''https://leaguebridge.dev/schemas/validation-evidence-v2.schema.json''"

definition trust_policy_schema_id :: string where
  "trust_policy_schema_id = ''https://leaguebridge.dev/schemas/evidence-trust-policy.schema.json''"

definition set_payload_type :: string where
  "set_payload_type = ''leaguebridge.validation-evidence-set.v2''"

definition payload_encoding :: string where
  "payload_encoding = ''base64url-nopad''"

definition max_envelope_size :: nat where
  "max_envelope_size = 262144"

definition max_payload_size :: nat where
  "max_payload_size = 65536"

definition min_signatures :: nat where
  "min_signatures = 2"

definition max_signatures :: nat where
  "max_signatures = 8"

definition max_policy_keys :: nat where
  "max_policy_keys = 8"

definition remote_profile :: string where
  "remote_profile = ''remote-play-v1''"

definition supported_client_platforms :: "string list" where
  "supported_client_platforms = [''linux'', ''freebsd'', ''openbsd'', ''netbsd'', ''dragonflybsd'']"

section \<open>The policy\<close>

record trusted_key =
  tk_key_id :: string
  tk_algorithm :: string
  tk_public_key :: string
  tk_principal :: string
  tk_organization :: string
  tk_role :: string
  tk_routes :: "string list"
  tk_platforms :: "string list"
  tk_architectures :: "string list"
  tk_profiles :: "string list"
  tk_not_before :: string
  tk_not_after :: string
  tk_revoked :: bool

record trust_policy =
  tp_schema :: string
  tp_schema_version :: int
  tp_id :: string
  tp_status :: string
  tp_valid_from :: string
  tp_expires_at :: string
  tp_required_roles :: "string list"
  tp_min_signatures :: int
  tp_distinct_principals :: bool
  tp_distinct_organizations :: bool
  tp_keys :: "trusted_key list"

datatype key_error =
    Key_Algorithm | Key_Public_Key | Key_Unsafe | Key_Id_Mismatch string | Key_Principal | Key_Organization
  | Key_Role string | Scope_Empty string | Scope_Unsorted string | Scope_Unsupported string string
  | Scope_Duplicate string string | Key_Profiles | Key_Time string | Key_Time_Order | Key_Outside_Policy

datatype policy_error =
    Policy_Schema string | Policy_Version int | Policy_Id | Policy_Roles | Policy_Min_Signatures
  | Policy_Distinct | Policy_Unprovisioned_Contents | Policy_Status string | Policy_Key_Count
  | Policy_Time string | Policy_Time_Order | Policy_Key_Order | Policy_Key string key_error
  | Policy_Principal_Role string string | Policy_Role_Missing string

definition policy_time :: "(string \<Rightarrow> 'e) \<Rightarrow> string \<Rightarrow> string \<Rightarrow> 'e + go_time" where
  "policy_time err name v =
     (case parse_canonical_timestamp v of None \<Rightarrow> Inl (err name) | Some t \<Rightarrow> Inr t)"

definition derive_key_id :: "crypto \<Rightarrow> string \<Rightarrow> string" where
  "derive_key_id c public_key =
     ''lbk1-'' @ sha256_hex c (''LeagueBridge/reviewer-key/v1'' @ [char_of (0 :: nat)] @ public_key)"

fun check_scope :: "string \<Rightarrow> string list \<Rightarrow> string \<Rightarrow> string list \<Rightarrow> key_error + unit" where
  "check_scope name allowed previous [] = Inr ()"
| "check_scope name allowed previous (v # vs) =
     (if v \<notin> set allowed then Inl (Scope_Unsupported name v)
      else if v = previous then Inl (Scope_Duplicate name v)
      else check_scope name allowed v vs)"

definition validate_sorted_scope :: "string \<Rightarrow> string list \<Rightarrow> string list \<Rightarrow> key_error + unit" where
  "validate_sorted_scope name vs allowed =
     first_error
       [require (vs \<noteq> []) (Scope_Empty name),
        require (strings_sorted vs) (Scope_Unsorted name),
        check_scope name allowed [] vs]"

definition check_key_identity :: "crypto \<Rightarrow> trusted_key \<Rightarrow> key_error + unit" where
  "check_key_identity c k =
     (if tk_algorithm k \<noteq> ''ed25519'' then Inl Key_Algorithm
      else
        (case decode_lower_hex (tk_public_key k) 32 of
           None \<Rightarrow> Inl Key_Public_Key
         | Some pk \<Rightarrow>
             first_error
               [require (valid_public_key c pk) Key_Unsafe,
                require (tk_key_id k = derive_key_id c pk) (Key_Id_Mismatch (derive_key_id c pk))]))"

definition check_key_window :: "trusted_key \<Rightarrow> go_time \<Rightarrow> go_time \<Rightarrow> key_error + unit" where
  "check_key_window k policy_start policy_end =
     bind_result (policy_time Key_Time ''not_before'' (tk_not_before k)) (\<lambda>not_before.
     bind_result (policy_time Key_Time ''not_after'' (tk_not_after k)) (\<lambda>not_after.
       first_error
         [require (not_before < not_after) Key_Time_Order,
          require (\<not> not_before < policy_start \<and> \<not> policy_end < not_after) Key_Outside_Policy]))"

definition validate_trusted_key :: "crypto \<Rightarrow> trusted_key \<Rightarrow> go_time \<Rightarrow> go_time \<Rightarrow> key_error + unit" where
  "validate_trusted_key c k policy_start policy_end =
     first_error
       [check_key_identity c k,
        require (valid_slug (tk_principal k) 128) Key_Principal,
        require (valid_slug (tk_organization k) 128) Key_Organization,
        require (tk_role k = ''lab-observer'' \<or> tk_role k = ''independent-reviewer'') (Key_Role (tk_role k)),
        validate_sorted_scope ''route_ids'' (tk_routes k) [''physical-windows-remote'', ''physical-macos-remote''],
        validate_sorted_scope ''client_platforms'' (tk_platforms k) supported_client_platforms,
        validate_sorted_scope ''architectures'' (tk_architectures k) [''amd64'', ''arm64''],
        require (tk_profiles k = [remote_profile]) Key_Profiles,
        check_key_window k policy_start policy_end]"

text \<open>The loop over the keys: the identifier before, the pairs of principal and role seen.\<close>

fun check_policy_keys ::
    "crypto \<Rightarrow> go_time \<Rightarrow> go_time \<Rightarrow> string option \<Rightarrow> (string \<times> string) list \<Rightarrow> trusted_key list \<Rightarrow> policy_error + unit" where
  "check_policy_keys c from until previous seen [] = Inr ()"
| "check_policy_keys c from until previous seen (k # ks) =
     (if \<not> (case previous of None \<Rightarrow> True | Some p \<Rightarrow> string_less p (tk_key_id k)) then Inl Policy_Key_Order
      else
        bind_result (map_error (Policy_Key (tk_key_id k)) (validate_trusted_key c k from until)) (\<lambda>_.
          if (tk_principal k, tk_role k) \<in> set seen then Inl (Policy_Principal_Role (tk_principal k) (tk_role k))
          else check_policy_keys c from until (Some (tk_key_id k)) ((tk_principal k, tk_role k) # seen) ks))"

definition validate_policy_header :: "trust_policy \<Rightarrow> policy_error + unit" where
  "validate_policy_header p =
     first_error
       [require (tp_schema p = trust_policy_schema_id) (Policy_Schema (tp_schema p)),
        require (tp_schema_version p = 1) (Policy_Version (tp_schema_version p)),
        require (valid_slug (tp_id p) 128) Policy_Id,
        require (tp_required_roles p = [''lab-observer'', ''independent-reviewer'']) Policy_Roles,
        require (tp_min_signatures p = int min_signatures) Policy_Min_Signatures,
        require (tp_distinct_principals p \<and> tp_distinct_organizations p) Policy_Distinct]"

definition validate_provisioned :: "crypto \<Rightarrow> trust_policy \<Rightarrow> policy_error + unit" where
  "validate_provisioned c p =
     bind_result (require (min_signatures \<le> length (tp_keys p) \<and> length (tp_keys p) \<le> max_policy_keys)
       Policy_Key_Count) (\<lambda>_.
     bind_result (policy_time Policy_Time ''valid_from'' (tp_valid_from p)) (\<lambda>from.
     bind_result (policy_time Policy_Time ''expires_at'' (tp_expires_at p)) (\<lambda>until.
     bind_result (require (from < until) Policy_Time_Order) (\<lambda>_.
     bind_result (check_policy_keys c from until None [] (tp_keys p)) (\<lambda>_.
       (case find (\<lambda>role. role \<notin> set (map tk_role (tp_keys p))) (tp_required_roles p) of
          Some role \<Rightarrow> Inl (Policy_Role_Missing role)
        | None \<Rightarrow> Inr ()))))))"

definition validate_trust_policy :: "crypto \<Rightarrow> trust_policy \<Rightarrow> policy_error + unit" where
  "validate_trust_policy c p =
     bind_result (validate_policy_header p) (\<lambda>_.
       if tp_status p = ''unprovisioned'' then
         require (tp_valid_from p = [] \<and> tp_expires_at p = [] \<and> tp_keys p = []) Policy_Unprovisioned_Contents
       else if tp_status p = ''provisioned'' then validate_provisioned c p
       else Inl (Policy_Status (tp_status p)))"

definition new_trust_policy :: "crypto \<Rightarrow> trust_policy \<Rightarrow> policy_error + trust_policy option" where
  "new_trust_policy c raw = bind_result (validate_trust_policy c raw) (\<lambda>_. Inr (Some raw))"

definition policy_id_of :: "trust_policy option \<Rightarrow> string" where
  "policy_id_of p = (case p of None \<Rightarrow> [] | Some q \<Rightarrow> tp_id q)"

definition provisioned :: "trust_policy option \<Rightarrow> bool" where
  "provisioned p = (case p of None \<Rightarrow> False | Some q \<Rightarrow> tp_status q = ''provisioned'')"

text \<open>The policy of the application has no reviewer keys.\<close>

definition production_raw_policy :: trust_policy where
  "production_raw_policy =
     \<lparr>tp_schema = trust_policy_schema_id, tp_schema_version = 1, tp_id = ''leaguebridge-production-reviewers-v1'',
      tp_status = ''unprovisioned'', tp_valid_from = [], tp_expires_at = [],
      tp_required_roles = [''lab-observer'', ''independent-reviewer''], tp_min_signatures = int min_signatures,
      tp_distinct_principals = True, tp_distinct_organizations = True, tp_keys = []\<rparr>"

definition production_trust_policy :: "crypto \<Rightarrow> trust_policy option" where
  "production_trust_policy c = (case new_trust_policy c production_raw_policy of Inl _ \<Rightarrow> None | Inr p \<Rightarrow> p)"

lemma production_policy_valid: "production_trust_policy c = Some production_raw_policy"
proof -
  have "valid_slug (tp_id production_raw_policy) 128" by code_simp
  then have "validate_policy_header production_raw_policy = Inr ()"
    by (simp add: validate_policy_header_def production_raw_policy_def del: first_error.simps(2))
  then show ?thesis
    by (simp add: production_trust_policy_def new_trust_policy_def validate_trust_policy_def production_raw_policy_def)
qed

section \<open>What a provisioned policy has\<close>

lemma check_policy_keys_ok:
  assumes "check_policy_keys c from until previous seen ks = Inr ()"
  shows "\<forall>k \<in> set ks. validate_trusted_key c k from until = Inr ()"
    and "sorted_wrt string_less (map tk_key_id ks)"
    and "\<forall>p. previous = Some p \<longrightarrow> (\<forall>k \<in> set ks. string_less p (tk_key_id k))"
    and "distinct (map (\<lambda>k. (tk_principal k, tk_role k)) ks)"
proof -
  have "(\<forall>k \<in> set ks. validate_trusted_key c k from until = Inr ()) \<and> sorted_wrt string_less (map tk_key_id ks) \<and>
      (\<forall>p. previous = Some p \<longrightarrow> (\<forall>k \<in> set ks. string_less p (tk_key_id k))) \<and>
      distinct (map (\<lambda>k. (tk_principal k, tk_role k)) ks) \<and>
      set (map (\<lambda>k. (tk_principal k, tk_role k)) ks) \<inter> set seen = {}"
    using assms
  proof (induction c "from" until previous seen ks rule: check_policy_keys.induct)
    case (2 c "from" until previous seen k ks)
    then have order: "case previous of None \<Rightarrow> True | Some p \<Rightarrow> string_less p (tk_key_id k)"
      and k: "validate_trusted_key c k from until = Inr ()" "(tk_principal k, tk_role k) \<notin> set seen"
      and rest: "check_policy_keys c from until (Some (tk_key_id k)) ((tk_principal k, tk_role k) # seen) ks = Inr ()"
      by (auto simp: bind_result_ok split: if_splits)
    have "\<not> \<not> (case previous of None \<Rightarrow> True | Some p \<Rightarrow> string_less p (tk_key_id k))" using order by simp
    from 2(1) [OF this k(2) rest] show ?case using order k string_less_trans by (auto split: option.splits)
  qed simp
  then show "\<forall>k \<in> set ks. validate_trusted_key c k from until = Inr ()" "sorted_wrt string_less (map tk_key_id ks)"
    "\<forall>p. previous = Some p \<longrightarrow> (\<forall>k \<in> set ks. string_less p (tk_key_id k))"
    "distinct (map (\<lambda>k. (tk_principal k, tk_role k)) ks)"
    by blast+
qed

lemma string_less_distinct: "sorted_wrt string_less ss \<Longrightarrow> distinct ss"
  by (induction ss) auto

lemma provisioned_keys:
  assumes "validate_trust_policy c p = Inr ()" "tp_status p = ''provisioned''"
  obtains start stop where
    "parse_canonical_timestamp (tp_valid_from p) = Some start" "parse_canonical_timestamp (tp_expires_at p) = Some stop"
    "start < stop" "\<forall>k \<in> set (tp_keys p). validate_trusted_key c k start stop = Inr ()"
    "distinct (map tk_key_id (tp_keys p))"
proof -
  from assms have "validate_provisioned c p = Inr ()" by (simp add: validate_trust_policy_def bind_result_ok)
  then obtain start stop where
    "policy_time Policy_Time ''valid_from'' (tp_valid_from p) = Inr start"
    "policy_time Policy_Time ''expires_at'' (tp_expires_at p) = Inr stop" "start < stop"
    "check_policy_keys c start stop None [] (tp_keys p) = Inr ()"
    by (auto simp: validate_provisioned_def bind_result_ok split: if_splits)
  with check_policy_keys_ok [OF this(4)] show ?thesis
    by (intro that [of start stop]) (auto simp: policy_time_def string_less_distinct split: option.splits)
qed

text \<open>The scopes are searched as sorted lists.\<close>

lemma sorted_scope_contains:
  assumes "validate_sorted_scope name vs allowed = Inr ()"
  shows "contains_sorted vs x \<longleftrightarrow> x \<in> set vs"
  using assms [unfolded validate_sorted_scope_def first_error_Cons_ok require_ok] contains_sorted_iff by blast

end
