(* ===== verification/Signed_Set.thy ===== *)
theory Signed_Set
  imports Signed_Policy
begin

text \<open>
  The signed evidence sets of \<open>internal/evidencev2\<close>: the signature envelope and its payload
  (\<open>parse.go\<close>), and \<open>VerifySetAt\<close> (\<open>verify.go\<close>). The input bytes are strings; their tokens are those of
  the lexer in \<open>crypto\<close>. The code compares the keys of the signature objects after it has looked at the
  envelope's identity; here every failure of decoding and of exact keys is one error, reported first.
\<close>

section \<open>Envelope and payload\<close>

record signature_item =
  sg_algorithm :: string
  sg_key_id :: string
  sg_signed_at :: string
  sg_signature :: string

record envelope =
  en_schema :: string
  en_version :: int
  en_payload_type :: string
  en_payload_encoding :: string
  en_payload :: string
  en_signatures :: "signature_item list"

record payload =
  pl_schema :: string
  pl_version :: int
  pl_set_id :: string
  pl_run_id :: string
  pl_route_id :: string
  pl_profile_id :: string
  pl_policy_id :: string
  pl_created_at :: string
  pl_expires_at :: string
  pl_manifest_as_of :: string
  pl_manifest_sha256 :: string
  pl_host_platform :: string
  pl_host_architecture :: string
  pl_client_platform :: string
  pl_client_architecture :: string
  pl_host_record :: string
  pl_client_record :: string
  pl_session_record :: string

datatype payload_error =
    Pay_Empty | Pay_Too_Large | Pay_Utf8 | Pay_Json | Pay_Schema string | Pay_Version int | Pay_Set_Id string
  | Pay_Run_Id string | Pay_Route string | Pay_Profile string | Pay_Policy_Id | Pay_Time string | Pay_Validity
  | Pay_Manifest_Date | Pay_Before_Manifest | Pay_Manifest_Sha | Pay_Host | Pay_Client string string
  | Pay_Digest string

datatype envelope_error =
    Env_Empty | Env_Too_Large | Env_Utf8 | Env_Json | Env_Schema string | Env_Version int | Env_Payload_Type string
  | Env_Payload_Encoding string | Env_Signature_Count | Env_Algorithm nat string | Env_Key_Id nat string
  | Env_Signature_Order | Env_Signed_At nat | Env_Signature nat | Env_Base64 | Env_Payload_Empty
  | Env_Payload_Too_Large | Env_Payload payload_error

text \<open>\<open>inspectJSON\<close>: at most 32 levels, no repeated key, no null, nothing after the value.\<close>

definition inspect_json :: "nat \<Rightarrow> json_token list \<Rightarrow> bool" where
  "inspect_json limit ts \<longleftrightarrow>
     (case walk limit True (Value 0) ts of Inl _ \<Rightarrow> False | Inr rest \<Rightarrow> rest = [] \<and> Null \<notin> set ts)"

definition strict_value :: "nat \<Rightarrow> json_token list \<Rightarrow> json option" where
  "strict_value limit ts =
     (if inspect_json limit ts then (case read_value ts of Some (v, []) \<Rightarrow> Some v | _ \<Rightarrow> None) else None)"

section \<open>The payload\<close>

definition payload_keys :: "string list" where
  "payload_keys =
     [''$schema'', ''schema_version'', ''set_id'', ''validation_run_id'', ''route_id'', ''test_profile_id'', ''policy_id'',
      ''created_at'', ''expires_at'', ''manifest_as_of'', ''manifest_sha256'', ''host_platform'', ''host_architecture'',
      ''client_platform'', ''client_architecture'', ''host_record_sha256'', ''client_record_sha256'',
      ''session_record_sha256'']"

definition decode_payload :: "json \<Rightarrow> payload option" where
  "decode_payload v = do {
     schema \<leftarrow> text_at v ''$schema''; version \<leftarrow> int_at v ''schema_version''; set_id \<leftarrow> text_at v ''set_id'';
     run \<leftarrow> text_at v ''validation_run_id''; route \<leftarrow> text_at v ''route_id''; profile \<leftarrow> text_at v ''test_profile_id'';
     policy \<leftarrow> text_at v ''policy_id''; created \<leftarrow> text_at v ''created_at''; expires \<leftarrow> text_at v ''expires_at'';
     as_of \<leftarrow> text_at v ''manifest_as_of''; sha \<leftarrow> text_at v ''manifest_sha256'';
     hp \<leftarrow> text_at v ''host_platform''; ha \<leftarrow> text_at v ''host_architecture'';
     cp \<leftarrow> text_at v ''client_platform''; ca \<leftarrow> text_at v ''client_architecture'';
     host \<leftarrow> text_at v ''host_record_sha256''; client \<leftarrow> text_at v ''client_record_sha256'';
     session \<leftarrow> text_at v ''session_record_sha256'';
     Some \<lparr>pl_schema = schema, pl_version = version, pl_set_id = set_id, pl_run_id = run, pl_route_id = route,
           pl_profile_id = profile, pl_policy_id = policy, pl_created_at = created, pl_expires_at = expires,
           pl_manifest_as_of = as_of, pl_manifest_sha256 = sha, pl_host_platform = hp, pl_host_architecture = ha,
           pl_client_platform = cp, pl_client_architecture = ca, pl_host_record = host, pl_client_record = client,
           pl_session_record = session\<rparr> }"

definition set_id_pattern :: "string \<Rightarrow> bool" where
  "set_id_pattern s \<longleftrightarrow> prefix ''set-'' s \<and> lower_hex 32 (drop 4 s)"

definition key_id_pattern :: "string \<Rightarrow> bool" where
  "key_id_pattern s \<longleftrightarrow> prefix ''lbk1-'' s \<and> lower_hex 64 (drop 5 s)"

definition route_hosts :: "string \<Rightarrow> string \<Rightarrow> string \<Rightarrow> bool" where
  "route_hosts route platform architecture \<longleftrightarrow>
     (route = ''physical-windows-remote'' \<and> platform = ''windows'' \<and> architecture = ''amd64'') \<or>
     (route = ''physical-macos-remote'' \<and> platform = ''macos'' \<and> (architecture = ''amd64'' \<or> architecture = ''arm64''))"

definition check_payload_identity :: "payload \<Rightarrow> payload_error + unit" where
  "check_payload_identity p =
     first_error
       [require (pl_schema p = payload_schema_id) (Pay_Schema (pl_schema p)),
        require (pl_version p = 2) (Pay_Version (pl_version p)),
        require (set_id_pattern (pl_set_id p)) (Pay_Set_Id (pl_set_id p)),
        require (run_id_pattern (pl_run_id p)) (Pay_Run_Id (pl_run_id p)),
        require (pl_route_id p \<in> set supported_route_ids) (Pay_Route (pl_route_id p)),
        require (pl_profile_id p = remote_profile) (Pay_Profile (pl_profile_id p)),
        require (valid_slug (pl_policy_id p) 128) Pay_Policy_Id]"

definition check_payload_cell :: "payload \<Rightarrow> payload_error + unit" where
  "check_payload_cell p =
     first_error
       [require (is_sha256 (pl_manifest_sha256 p)) Pay_Manifest_Sha,
        require (route_hosts (pl_route_id p) (pl_host_platform p) (pl_host_architecture p)) Pay_Host,
        require (pl_client_platform p \<in> set supported_client_platforms \<and>
            is_supported_evidence_platform (pl_client_platform p) (pl_client_architecture p))
          (Pay_Client (pl_client_platform p) (pl_client_architecture p)),
        require (is_sha256 (pl_host_record p)) (Pay_Digest ''host_record_sha256''),
        require (is_sha256 (pl_client_record p)) (Pay_Digest ''client_record_sha256''),
        require (is_sha256 (pl_session_record p)) (Pay_Digest ''session_record_sha256'')]"

definition check_payload_dates :: "payload \<Rightarrow> go_time \<Rightarrow> go_time \<Rightarrow> payload_error + unit" where
  "check_payload_dates p created expires =
     bind_result (require (created < expires \<and> time_sub expires created \<le> max_validity) Pay_Validity) (\<lambda>_.
       (case time_parse_date (pl_manifest_as_of p) of
          None \<Rightarrow> Inl Pay_Manifest_Date
        | Some d \<Rightarrow>
            if format_date d \<noteq> pl_manifest_as_of p then Inl Pay_Manifest_Date
            else require (\<not> utc_date created < d) Pay_Before_Manifest))"

definition validate_payload :: "payload \<Rightarrow> payload_error + payload" where
  "validate_payload p =
     bind_result (check_payload_identity p) (\<lambda>_.
     bind_result (policy_time Pay_Time ''created_at'' (pl_created_at p)) (\<lambda>created.
     bind_result (policy_time Pay_Time ''expires_at'' (pl_expires_at p)) (\<lambda>expires.
     bind_result (check_payload_dates p created expires) (\<lambda>_.
     bind_result (check_payload_cell p) (\<lambda>_. Inr p)))))"

definition parse_payload :: "crypto \<Rightarrow> string \<Rightarrow> payload_error + payload" where
  "parse_payload c data =
     (if trim_space data = [] then Inl Pay_Empty
      else if max_payload_size < length data then Inl Pay_Too_Large
      else if \<not> utf8_valid data then Inl Pay_Utf8
      else
        (case Option.bind (strict_value 32 (json_lexer c data))
                (\<lambda>v. if closed_object payload_keys v then decode_payload v else None) of
           None \<Rightarrow> Inl Pay_Json
         | Some p \<Rightarrow> validate_payload p))"

section \<open>The envelope\<close>

definition envelope_keys :: "string list" where
  "envelope_keys = [''$schema'', ''envelope_version'', ''payload_type'', ''payload_encoding'', ''payload'', ''signatures'']"

definition signature_keys :: "string list" where
  "signature_keys = [''algorithm'', ''key_id'', ''signed_at'', ''signature'']"

definition decode_signature :: "json \<Rightarrow> signature_item option" where
  "decode_signature v =
     (if closed_object signature_keys v then do {
        algorithm \<leftarrow> text_at v ''algorithm''; key \<leftarrow> text_at v ''key_id''; signed \<leftarrow> text_at v ''signed_at'';
        signature \<leftarrow> text_at v ''signature'';
        Some \<lparr>sg_algorithm = algorithm, sg_key_id = key, sg_signed_at = signed, sg_signature = signature\<rparr> }
      else None)"

definition decode_envelope :: "json \<Rightarrow> envelope option" where
  "decode_envelope v =
     (if closed_object envelope_keys v then do {
        schema \<leftarrow> text_at v ''$schema''; version \<leftarrow> int_at v ''envelope_version''; kind \<leftarrow> text_at v ''payload_type'';
        encoding \<leftarrow> text_at v ''payload_encoding''; payload \<leftarrow> text_at v ''payload'';
        signatures \<leftarrow> list_at decode_signature v ''signatures'';
        Some \<lparr>en_schema = schema, en_version = version, en_payload_type = kind, en_payload_encoding = encoding,
              en_payload = payload, en_signatures = signatures\<rparr> }
      else None)"

definition check_envelope_identity :: "envelope \<Rightarrow> envelope_error + unit" where
  "check_envelope_identity e =
     first_error
       [require (en_schema e = envelope_schema_id) (Env_Schema (en_schema e)),
        require (en_version e = 1) (Env_Version (en_version e)),
        require (en_payload_type e = set_payload_type) (Env_Payload_Type (en_payload_type e)),
        require (en_payload_encoding e = payload_encoding) (Env_Payload_Encoding (en_payload_encoding e)),
        require (min_signatures \<le> length (en_signatures e) \<and> length (en_signatures e) \<le> max_signatures)
          Env_Signature_Count]"

fun check_signature_items :: "nat \<Rightarrow> string option \<Rightarrow> signature_item list \<Rightarrow> envelope_error + unit" where
  "check_signature_items i previous [] = Inr ()"
| "check_signature_items i previous (s # ss) =
     bind_result
       (first_error
          [require (sg_algorithm s = ''ed25519'') (Env_Algorithm i (sg_algorithm s)),
           require (key_id_pattern (sg_key_id s)) (Env_Key_Id i (sg_key_id s)),
           require (case previous of None \<Rightarrow> True | Some p \<Rightarrow> string_less p (sg_key_id s)) Env_Signature_Order,
           require (parse_canonical_timestamp (sg_signed_at s) \<noteq> None) (Env_Signed_At i),
           require (decode_lower_hex (sg_signature s) 64 \<noteq> None) (Env_Signature i)])
       (\<lambda>_. check_signature_items (Suc i) (Some (sg_key_id s)) ss)"

definition parse_envelope_payload :: "crypto \<Rightarrow> envelope \<Rightarrow> envelope_error + (string \<times> payload)" where
  "parse_envelope_payload c e =
     (case canonical_base64 (en_payload e) of
        None \<Rightarrow> Inl Env_Base64
      | Some data \<Rightarrow>
          if data = [] then Inl Env_Payload_Empty
          else if max_payload_size < length data then Inl Env_Payload_Too_Large
          else bind_result (map_error Env_Payload (parse_payload c data)) (\<lambda>p. Inr (data, p)))"

definition read_envelope :: "crypto \<Rightarrow> string \<Rightarrow> envelope_error + envelope" where
  "read_envelope c data =
     (if trim_space data = [] then Inl Env_Empty
      else if max_envelope_size < length data then Inl Env_Too_Large
      else if \<not> utf8_valid data then Inl Env_Utf8
      else
        (case Option.bind (strict_value 32 (json_lexer c data)) decode_envelope of
           None \<Rightarrow> Inl Env_Json
         | Some e \<Rightarrow> Inr e))"

definition parse_envelope :: "crypto \<Rightarrow> string \<Rightarrow> envelope_error + (envelope \<times> string \<times> payload)" where
  "parse_envelope c data =
     bind_result (read_envelope c data) (\<lambda>e.
     bind_result (check_envelope_identity e) (\<lambda>_.
     bind_result (check_signature_items 0 None (en_signatures e)) (\<lambda>_.
     bind_result (parse_envelope_payload c e) (\<lambda>(bytes, p). Inr (e, bytes, p)))))"

end
