(* ===== verification/Signed_Verify.thy ===== *)
theory Signed_Verify
  imports Signed_Set
begin

text \<open>
  \<open>VerifySetAt\<close> (\<open>internal/evidencev2/verify.go\<close>): three records, their artifact verifications and a
  signed payload, under the reviewer policy of the application.
\<close>

section \<open>Arguments and results\<close>

record expected_cell =
  ec_route :: string
  ec_platform :: string
  ec_architecture :: string

record verified_set =
  vs_valid :: bool
  vs_payload :: payload
  vs_payload_sha256 :: string
  vs_created :: go_time
  vs_expires :: go_time
  vs_key_ids :: "string list"
  vs_principals :: "string list"
  vs_organizations :: "string list"

datatype signature_error =
    Untrusted_Key string | Revoked_Key string | Outside_Scope string | Lifetime_Not_Covered string
  | Outside_Key_Window string | Outside_Policy_Window | Outside_Payload_Window | Signed_In_Future
  | No_Review_Time string | Before_Review string | Signature_Invalid string

datatype binding_error =
    Bind_Run string | Bind_Route string | Bind_Profile string | Bind_Manifest string | Bind_Host_Cell
  | Bind_Client_Cell | Bind_Session_Cell | Bind_Time string | Bind_Validity

datatype verify_error =
    Verify_Time | No_Policy | Policy_Invalid policy_error | Envelope_Invalid envelope_error | Wrong_Policy
  | Cell_Missing | Cell_Mismatch | Payload_In_Future | Payload_Expired
  | Record_Invalid string evidence_error | Digest_Mismatch string | Binding_Invalid binding_error
  | Evaluation_Failed evidence_error | Not_Complete state | Unprovisioned | Policy_Not_Yet | Policy_Expired
  | Outside_Policy | Signature_Rejected nat signature_error | Too_Few_Signatures | No_Quorum

definition canonical_or_zero :: "string \<Rightarrow> go_time" where
  "canonical_or_zero s = (case parse_canonical_timestamp s of None \<Rightarrow> zero_time | Some t \<Rightarrow> t)"

section \<open>Bindings\<close>

definition verify_expected_cell :: "expected_cell \<Rightarrow> payload \<Rightarrow> verify_error + unit" where
  "verify_expected_cell x p =
     first_error
       [require (ec_route x \<noteq> [] \<and> ec_platform x \<noteq> [] \<and> ec_architecture x \<noteq> []) Cell_Missing,
        require (ec_route x = pl_route_id p \<and> ec_platform x = pl_client_platform p \<and>
            ec_architecture x = pl_client_architecture p) Cell_Mismatch]"

definition check_record_binding :: "payload \<Rightarrow> string \<times> evidence \<Rightarrow> binding_error + unit" where
  "check_record_binding p nr =
     (case nr of (name, r) \<Rightarrow>
        first_error
          [require (ev_run_id r = pl_run_id p) (Bind_Run name),
           require (ev_route_id r = pl_route_id p) (Bind_Route name),
           require (ev_test_profile_id r = pl_profile_id p) (Bind_Profile name),
           require (ev_manifest_as_of r = pl_manifest_as_of p \<and> ev_manifest_sha256 r = pl_manifest_sha256 p)
             (Bind_Manifest name)])"

definition same_machine :: "evidence \<Rightarrow> string \<Rightarrow> string \<Rightarrow> bool" where
  "same_machine r platform architecture \<longleftrightarrow>
     subject_platform (ev_subject r) = platform \<and> subject_architecture (ev_subject r) = architecture"

definition record_time :: "string \<Rightarrow> string \<Rightarrow> binding_error + go_time" where
  "record_time name v = (case parse_rfc3339 v of None \<Rightarrow> Inl (Bind_Time name) | Some (t, _) \<Rightarrow> Inr t)"

definition check_validity_binding :: "payload \<Rightarrow> evidence \<Rightarrow> binding_error + unit" where
  "check_validity_binding p session =
     bind_result (policy_time Bind_Time ''payload created_at'' (pl_created_at p)) (\<lambda>pc.
     bind_result (policy_time Bind_Time ''payload expires_at'' (pl_expires_at p)) (\<lambda>pe.
     bind_result (record_time ''session created_at'' (ev_created_at session)) (\<lambda>sc.
     bind_result (record_time ''session expires_at'' (ev_expires_at session)) (\<lambda>se.
       require (sc = pc \<and> se = pe) Bind_Validity))))"

definition verify_record_bindings :: "payload \<Rightarrow> evidence \<Rightarrow> evidence \<Rightarrow> evidence \<Rightarrow> binding_error + unit" where
  "verify_record_bindings p host client session =
     first_error
       (map (check_record_binding p) [(''host'', host), (''client'', client), (''session'', session)] @
        [require (same_machine host (pl_host_platform p) (pl_host_architecture p)) Bind_Host_Cell,
         require (same_machine client (pl_client_platform p) (pl_client_architecture p)) Bind_Client_Cell,
         require (same_machine session (pl_client_platform p) (pl_client_architecture p)) Bind_Session_Cell,
         check_validity_binding p session])"

section \<open>Signatures\<close>

definition key_of :: "trust_policy \<Rightarrow> string \<Rightarrow> trusted_key option" where
  "key_of p i = map_of (rev (map (\<lambda>k. (tk_key_id k, k)) (tp_keys p))) i"

definition in_scope :: "trusted_key \<Rightarrow> payload \<Rightarrow> bool" where
  "in_scope k p \<longleftrightarrow>
     contains_sorted (tk_routes k) (pl_route_id p) \<and> contains_sorted (tk_platforms k) (pl_client_platform p) \<and>
     contains_sorted (tk_architectures k) (pl_client_architecture p) \<and> contains_sorted (tk_profiles k) (pl_profile_id p)"

definition follows_review :: "go_time \<Rightarrow> evidence \<Rightarrow> signature_error + unit" where
  "follows_review signed r =
     (case parse_rfc3339 (attestation_reviewed_at (ev_attestation r)) of
        None \<Rightarrow> Inl (No_Review_Time (ev_record_type r))
      | Some (reviewed, _) \<Rightarrow> require (\<not> signed < reviewed) (Before_Review (ev_record_type r)))"

definition set_preimage :: "string \<Rightarrow> string \<Rightarrow> string \<Rightarrow> string \<Rightarrow> string" where
  "set_preimage payload_type key_id signed_at bytes =
     signature_preimage (''LeagueBridge/validation-evidence-set/v2'' @ [char_of (0 :: nat)])
       payload_type key_id signed_at bytes"

definition authentic :: "crypto \<Rightarrow> trusted_key \<Rightarrow> string \<Rightarrow> signature_item \<Rightarrow> string \<Rightarrow> bool" where
  "authentic c k payload_type s bytes \<longleftrightarrow>
     ed25519_verify c (case decode_lower_hex (tk_public_key k) 32 of Some pk \<Rightarrow> pk | None \<Rightarrow> [])
       (set_preimage payload_type (sg_key_id s) (sg_signed_at s) bytes)
       (case decode_lower_hex (sg_signature s) 64 of Some b \<Rightarrow> b | None \<Rightarrow> [])"

record signing_context =
  sc_policy :: trust_policy
  sc_payload_type :: string
  sc_bytes :: string
  sc_payload :: payload
  sc_records :: "evidence list"
  sc_now :: go_time

definition check_signature :: "crypto \<Rightarrow> signing_context \<Rightarrow> signature_item \<Rightarrow> trusted_key \<Rightarrow> signature_error + unit" where
  "check_signature c x s k =
     (let p = sc_payload x;
          created = canonical_or_zero (pl_created_at p); expires = canonical_or_zero (pl_expires_at p);
          start = canonical_or_zero (tp_valid_from (sc_policy x)); stop = canonical_or_zero (tp_expires_at (sc_policy x));
          signed = canonical_or_zero (sg_signed_at s);
          from = canonical_or_zero (tk_not_before k); until = canonical_or_zero (tk_not_after k)
      in first_error
        ([require (\<not> tk_revoked k) (Revoked_Key (sg_key_id s)),
          require (in_scope k p) (Outside_Scope (sg_key_id s)),
          require (\<not> created < from \<and> \<not> until < expires) (Lifetime_Not_Covered (sg_key_id s)),
          require (\<not> signed < from \<and> signed < until) (Outside_Key_Window (sg_key_id s)),
          require (\<not> signed < start \<and> signed < stop) Outside_Policy_Window,
          require (\<not> signed < created \<and> signed < expires) Outside_Payload_Window,
          require (\<not> sc_now x < signed) Signed_In_Future] @
         map (follows_review signed) (sc_records x) @
         [require (authentic c k (sc_payload_type x) s (sc_bytes x)) (Signature_Invalid (sg_key_id s))]))"

fun verify_signatures ::
    "crypto \<Rightarrow> signing_context \<Rightarrow> nat \<Rightarrow> signature_item list \<Rightarrow> verify_error + trusted_key list" where
  "verify_signatures c x i [] = Inr []"
| "verify_signatures c x i (s # ss) =
     (case key_of (sc_policy x) (sg_key_id s) of
        None \<Rightarrow> Inl (Signature_Rejected i (Untrusted_Key (sg_key_id s)))
      | Some k \<Rightarrow>
          bind_result (map_error (Signature_Rejected i) (check_signature c x s k)) (\<lambda>_.
          bind_result (verify_signatures c x (Suc i) ss) (\<lambda>ks. Inr (k # ks))))"

definition has_independent_quorum :: "trusted_key list \<Rightarrow> bool" where
  "has_independent_quorum ks \<longleftrightarrow>
     list_ex (\<lambda>lab. tk_role lab = ''lab-observer'' \<and>
       list_ex (\<lambda>ind. tk_role ind = ''independent-reviewer'' \<and> tk_key_id lab \<noteq> tk_key_id ind \<and>
         tk_principal lab \<noteq> tk_principal ind \<and> tk_organization lab \<noteq> tk_organization ind) ks) ks"

section \<open>Verification\<close>

definition payload_window :: "payload \<Rightarrow> go_time \<Rightarrow> verify_error + unit" where
  "payload_window p now =
     first_error
       [require (\<not> now < canonical_or_zero (pl_created_at p)) Payload_In_Future,
        require (now < canonical_or_zero (pl_expires_at p)) Payload_Expired]"

definition policy_window :: "trust_policy \<Rightarrow> payload \<Rightarrow> go_time \<Rightarrow> verify_error + unit" where
  "policy_window q p now =
     (let start = canonical_or_zero (tp_valid_from q); stop = canonical_or_zero (tp_expires_at q)
      in first_error
        [require (tp_status q = ''provisioned'') Unprovisioned,
         require (\<not> now < start) Policy_Not_Yet,
         require (now < stop) Policy_Expired,
         require (\<not> canonical_or_zero (pl_created_at p) < start \<and> \<not> stop < canonical_or_zero (pl_expires_at p))
           Outside_Policy])"

record record_bytes =
  rb_host :: string
  rb_client :: string
  rb_session :: string

definition parse_record :: "crypto \<Rightarrow> string \<Rightarrow> string \<Rightarrow> verify_error + evidence" where
  "parse_record c name data = map_error (Record_Invalid name) (parse_evidence (document_of c data))"

definition check_digests :: "crypto \<Rightarrow> payload \<Rightarrow> record_bytes \<Rightarrow> verify_error + unit" where
  "check_digests c p b =
     first_error
       [require (pl_host_record p = sha256_hex c (rb_host b)) (Digest_Mismatch ''host_record_sha256''),
        require (pl_client_record p = sha256_hex c (rb_client b)) (Digest_Mismatch ''client_record_sha256''),
        require (pl_session_record p = sha256_hex c (rb_session b)) (Digest_Mismatch ''session_record_sha256'')]"

definition require_complete_set ::
    "evaluation_env \<Rightarrow> evidence \<Rightarrow> evidence \<Rightarrow> evidence \<Rightarrow> string \<Rightarrow> string \<Rightarrow> verification_set \<Rightarrow> go_time \<Rightarrow>
     verify_error + unit" where
  "require_complete_set env host client session host_digest client_digest v now =
     bind_result
       (map_error Evaluation_Failed (evaluate_set env host client session host_digest client_digest (Some v) now))
       (\<lambda>e. require (set_state e = Complete) (Not_Complete (set_state e)))"

definition verify_records ::
    "crypto \<Rightarrow> evaluation_env \<Rightarrow> payload \<Rightarrow> record_bytes \<Rightarrow> verification_set \<Rightarrow> go_time \<Rightarrow>
     verify_error + evidence list" where
  "verify_records c env p b v now =
     bind_result (parse_record c ''host'' (rb_host b)) (\<lambda>host.
     bind_result (parse_record c ''client'' (rb_client b)) (\<lambda>client.
     bind_result (parse_record c ''session'' (rb_session b)) (\<lambda>session.
     bind_result (check_digests c p b) (\<lambda>_.
     bind_result (map_error Binding_Invalid (verify_record_bindings p host client session)) (\<lambda>_.
     bind_result (require_complete_set env host client session (sha256_hex c (rb_host b)) (sha256_hex c (rb_client b))
       v now) (\<lambda>_. Inr [host, client, session]))))))"

definition verify_quorum :: "crypto \<Rightarrow> signing_context \<Rightarrow> signature_item list \<Rightarrow> verify_error + trusted_key list" where
  "verify_quorum c x ss =
     bind_result (verify_signatures c x 0 ss) (\<lambda>ks.
     bind_result (require (\<not> int (length ks) < tp_min_signatures (sc_policy x)) Too_Few_Signatures) (\<lambda>_.
     bind_result (require (has_independent_quorum ks) No_Quorum) (\<lambda>_. Inr ks)))"

definition verify_set_at ::
    "crypto \<Rightarrow> evaluation_env \<Rightarrow> string \<Rightarrow> record_bytes \<Rightarrow> expected_cell \<Rightarrow> verification_set \<Rightarrow>
     trust_policy option \<Rightarrow> go_time \<Rightarrow> verify_error + verified_set" where
  "verify_set_at c env envelope_data b expected v policy now =
     bind_result (require (\<not> is_zero now) Verify_Time) (\<lambda>_.
     bind_result (case policy of None \<Rightarrow> Inl No_Policy | Some q \<Rightarrow> Inr q) (\<lambda>q.
     bind_result (map_error Policy_Invalid (validate_trust_policy c q)) (\<lambda>_.
     bind_result (map_error Envelope_Invalid (parse_envelope c envelope_data)) (\<lambda>(e, bytes, p).
     bind_result (require (pl_policy_id p = tp_id q) Wrong_Policy) (\<lambda>_.
     bind_result (verify_expected_cell expected p) (\<lambda>_.
     bind_result (payload_window p now) (\<lambda>_.
     bind_result (verify_records c env p b v now) (\<lambda>records.
     bind_result (policy_window q p now) (\<lambda>_.
     bind_result (verify_quorum c
       \<lparr>sc_policy = q, sc_payload_type = en_payload_type e, sc_bytes = bytes, sc_payload = p, sc_records = records,
        sc_now = now\<rparr> (en_signatures e)) (\<lambda>ks.
       Inr \<lparr>vs_valid = True, vs_payload = p, vs_payload_sha256 = sha256_hex c bytes,
            vs_created = canonical_or_zero (pl_created_at p), vs_expires = canonical_or_zero (pl_expires_at p),
            vs_key_ids = map tk_key_id ks, vs_principals = map tk_principal ks,
            vs_organizations = map tk_organization ks\<rparr>))))))))))"

section \<open>What a verified set is\<close>

text \<open>The positive reading of the signature checks: the key is the policy's, unrevoked, its scope has the
  payload's cell, its window covers the payload's, and the signature was made inside every window,
  after every review, over exactly these payload bytes.\<close>

definition endorses :: "crypto \<Rightarrow> signing_context \<Rightarrow> signature_item \<Rightarrow> trusted_key \<Rightarrow> bool" where
  "endorses c x s k \<longleftrightarrow>
     (let p = sc_payload x; q = sc_policy x;
          created = canonical_or_zero (pl_created_at p); expires = canonical_or_zero (pl_expires_at p);
          signed = canonical_or_zero (sg_signed_at s)
      in k \<in> set (tp_keys q) \<and> tk_key_id k = sg_key_id s \<and> \<not> tk_revoked k \<and>
         pl_route_id p \<in> set (tk_routes k) \<and> pl_client_platform p \<in> set (tk_platforms k) \<and>
         pl_client_architecture p \<in> set (tk_architectures k) \<and> pl_profile_id p \<in> set (tk_profiles k) \<and>
         canonical_or_zero (tk_not_before k) \<le> created \<and> expires \<le> canonical_or_zero (tk_not_after k) \<and>
         created \<le> signed \<and> signed < expires \<and> signed \<le> sc_now x \<and>
         (\<forall>r \<in> set (sc_records x). reviewed_at r \<le> signed) \<and> authentic c k (sc_payload_type x) s (sc_bytes x))"

lemma key_of_member: "key_of q i = Some k \<Longrightarrow> k \<in> set (tp_keys q) \<and> tk_key_id k = i"
  unfolding key_of_def by (auto dest: map_of_SomeD)

lemma follows_review_ok:
  "follows_review signed r = Inr () \<Longrightarrow> reviewed_at r \<le> signed"
  by (auto simp: follows_review_def reviewed_at_def time_or_zero_def not_less split: option.splits if_splits)

lemma validated_key_scopes:
  assumes "validate_trusted_key c k start stop = Inr ()"
  shows "in_scope k p \<longleftrightarrow>
     pl_route_id p \<in> set (tk_routes k) \<and> pl_client_platform p \<in> set (tk_platforms k) \<and>
     pl_client_architecture p \<in> set (tk_architectures k) \<and> pl_profile_id p \<in> set (tk_profiles k)"
proof -
  have scopes: "validate_sorted_scope ''route_ids'' (tk_routes k) [''physical-windows-remote'', ''physical-macos-remote''] = Inr ()"
    "validate_sorted_scope ''client_platforms'' (tk_platforms k) supported_client_platforms = Inr ()"
    "validate_sorted_scope ''architectures'' (tk_architectures k) [''amd64'', ''arm64''] = Inr ()"
    and profiles: "tk_profiles k = [remote_profile]"
    using assms [unfolded validate_trusted_key_def first_error_Cons_ok require_ok] by auto
  have "contains_sorted (tk_profiles k) x \<longleftrightarrow> x \<in> set (tk_profiles k)" for x
    by (rule contains_sorted_iff) (simp add: profiles)
  then show ?thesis by (simp add: in_scope_def scopes [THEN sorted_scope_contains])
qed

lemma check_signature_endorses:
  assumes "check_signature c x s k = Inr ()" "key_of (sc_policy x) (sg_key_id s) = Some k"
    and "validate_trusted_key c k start stop = Inr ()"
  shows "endorses c x s k"
proof -
  note checks = assms(1) [unfolded check_signature_def Let_def first_error_append first_error_map_ok
      first_error_Cons_ok require_ok]
  have "\<forall>r \<in> set (sc_records x). follows_review (canonical_or_zero (sg_signed_at s)) r = Inr ()"
    using checks by blast
  then have "\<forall>r \<in> set (sc_records x). reviewed_at r \<le> canonical_or_zero (sg_signed_at s)"
    using follows_review_ok by blast
  with checks key_of_member [OF assms(2)] validated_key_scopes [OF assms(3), of "sc_payload x"] show ?thesis
    unfolding endorses_def Let_def not_less by blast
qed

lemma verify_signatures_endorse:
  assumes "verify_signatures c x i ss = Inr ks"
    and "\<forall>k \<in> set (tp_keys (sc_policy x)). validate_trusted_key c k start stop = Inr ()"
  shows "list_all2 (endorses c x) ss ks"
  using assms
proof (induction ss arbitrary: i ks)
  case (Cons s ss)
  then obtain k ks' where k: "key_of (sc_policy x) (sg_key_id s) = Some k" "check_signature c x s k = Inr ()"
    and ks: "verify_signatures c x (Suc i) ss = Inr ks'" "ks = k # ks'"
    by (auto simp: bind_result_ok map_error_ok split: option.splits)
  have "validate_trusted_key c k start stop = Inr ()" using key_of_member [OF k(1)] Cons.prems(2) by blast
  from check_signature_endorses [OF k(2,1) this] Cons.IH [OF ks(1) Cons.prems(2)] ks(2) show ?case by simp
qed simp

lemma independent_quorum_iff:
  "has_independent_quorum ks \<longleftrightarrow>
     (\<exists>lab \<in> set ks. \<exists>ind \<in> set ks. tk_role lab = ''lab-observer'' \<and> tk_role ind = ''independent-reviewer'' \<and>
       tk_key_id lab \<noteq> tk_key_id ind \<and> tk_principal lab \<noteq> tk_principal ind \<and>
       tk_organization lab \<noteq> tk_organization ind)"
  by (auto simp: has_independent_quorum_def list_ex_iff)

section \<open>Verified sets are reviewed\<close>

text \<open>What \<open>VerifySetAt\<close> relies on, one lemma for each group of its checks.\<close>

lemma verify_records_ok:
  assumes "verify_records c env p b v now = Inr records"
  shows "\<exists>host client session. records = [host, client, session] \<and>
    parse_evidence (document_of c (rb_host b)) = Inr host \<and>
    parse_evidence (document_of c (rb_client b)) = Inr client \<and>
    parse_evidence (document_of c (rb_session b)) = Inr session \<and>
    check_digests c p b = Inr () \<and> verify_record_bindings p host client session = Inr () \<and>
    (\<exists>e. evaluate_set env host client session (sha256_hex c (rb_host b)) (sha256_hex c (rb_client b)) (Some v) now = Inr e \<and>
      set_state e = Complete)"
  using assms unfolding verify_records_def parse_record_def require_complete_set_def bind_result_ok map_error_ok
  by (auto split: if_splits)

lemma verify_quorum_ok:
  assumes "verify_quorum c x ss = Inr ks"
  shows "verify_signatures c x 0 ss = Inr ks \<and> tp_min_signatures (sc_policy x) \<le> int (length ks) \<and>
    has_independent_quorum ks"
  using assms unfolding verify_quorum_def bind_result_ok by (auto split: if_splits)

lemma verify_set_at_cases:
  assumes "verify_set_at c env data b expected v policy now = Inr s"
  obtains q e bytes p records ks where
    "policy = Some q" "validate_trust_policy c q = Inr ()" "parse_envelope c data = Inr (e, bytes, p)"
    "pl_policy_id p = tp_id q" "verify_expected_cell expected p = Inr ()" "payload_window p now = Inr ()"
    "verify_records c env p b v now = Inr records" "policy_window q p now = Inr ()"
    "verify_quorum c \<lparr>sc_policy = q, sc_payload_type = en_payload_type e, sc_bytes = bytes, sc_payload = p,
       sc_records = records, sc_now = now\<rparr> (en_signatures e) = Inr ks"
    "s = \<lparr>vs_valid = True, vs_payload = p, vs_payload_sha256 = sha256_hex c bytes,
       vs_created = canonical_or_zero (pl_created_at p), vs_expires = canonical_or_zero (pl_expires_at p),
       vs_key_ids = map tk_key_id ks, vs_principals = map tk_principal ks, vs_organizations = map tk_organization ks\<rparr>"
  using assms unfolding verify_set_at_def
  by (auto simp: bind_result_ok map_error_ok split: option.splits prod.splits if_splits)

lemma verify_set_at_facts:
  assumes "verify_set_at c env data b expected v policy now = Inr s"
  obtains q e bytes p host client session ks x where
    "policy = Some q" "tp_status q = ''provisioned''" "parse_envelope c data = Inr (e, bytes, p)"
    "s = \<lparr>vs_valid = True, vs_payload = p, vs_payload_sha256 = sha256_hex c bytes,
       vs_created = canonical_or_zero (pl_created_at p), vs_expires = canonical_or_zero (pl_expires_at p),
       vs_key_ids = map tk_key_id ks, vs_principals = map tk_principal ks, vs_organizations = map tk_organization ks\<rparr>"
    "x = \<lparr>sc_policy = q, sc_payload_type = en_payload_type e, sc_bytes = bytes, sc_payload = p,
       sc_records = [host, client, session], sc_now = now\<rparr>"
    "list_all2 (endorses c x) (en_signatures e) ks" "has_independent_quorum ks" "distinct (map tk_key_id (tp_keys q))"
    "parse_evidence (document_of c (rb_host b)) = Inr host"
    "parse_evidence (document_of c (rb_client b)) = Inr client"
    "parse_evidence (document_of c (rb_session b)) = Inr session"
    "check_digests c p b = Inr ()" "verify_record_bindings p host client session = Inr ()"
    "verify_expected_cell expected p = Inr ()" "payload_window p now = Inr ()" "policy_window q p now = Inr ()"
    "\<exists>e. evaluate_set env host client session (sha256_hex c (rb_host b)) (sha256_hex c (rb_client b)) (Some v) now = Inr e \<and>
       set_state e = Complete"
proof -
  from verify_set_at_cases [OF assms] obtain q e bytes p records ks where
    q: "policy = Some q" "validate_trust_policy c q = Inr ()" and e: "parse_envelope c data = Inr (e, bytes, p)"
    and cell: "verify_expected_cell expected p = Inr ()" and window: "payload_window p now = Inr ()"
    and records: "verify_records c env p b v now = Inr records" and start: "policy_window q p now = Inr ()"
    and quorum: "verify_quorum c \<lparr>sc_policy = q, sc_payload_type = en_payload_type e, sc_bytes = bytes, sc_payload = p,
       sc_records = records, sc_now = now\<rparr> (en_signatures e) = Inr ks"
    and s: "s = \<lparr>vs_valid = True, vs_payload = p, vs_payload_sha256 = sha256_hex c bytes,
       vs_created = canonical_or_zero (pl_created_at p), vs_expires = canonical_or_zero (pl_expires_at p),
       vs_key_ids = map tk_key_id ks, vs_principals = map tk_principal ks, vs_organizations = map tk_organization ks\<rparr>" .
  from verify_records_ok [OF records] obtain host client session where
    parsed: "parse_evidence (document_of c (rb_host b)) = Inr host"
      "parse_evidence (document_of c (rb_client b)) = Inr client"
      "parse_evidence (document_of c (rb_session b)) = Inr session"
    and bound: "records = [host, client, session]" "check_digests c p b = Inr ()"
      "verify_record_bindings p host client session = Inr ()"
      "\<exists>e. evaluate_set env host client session (sha256_hex c (rb_host b)) (sha256_hex c (rb_client b)) (Some v) now = Inr e \<and>
        set_state e = Complete" by blast
  from start [unfolded policy_window_def Let_def first_error_Cons_ok require_ok]
  have active: "tp_status q = ''provisioned''" by blast
  from provisioned_keys [OF q(2) active] obtain start stop where
    "\<forall>k \<in> set (tp_keys q). validate_trusted_key c k start stop = Inr ()" and keys: "distinct (map tk_key_id (tp_keys q))"
    by metis
  with verify_signatures_endorse verify_quorum_ok [OF quorum] have
    "list_all2 (endorses c \<lparr>sc_policy = q, sc_payload_type = en_payload_type e, sc_bytes = bytes, sc_payload = p,
       sc_records = [host, client, session], sc_now = now\<rparr>) (en_signatures e) ks" "has_independent_quorum ks"
    by (fastforce simp: bound(1))+
  from that [OF q(1) active e s refl this keys parsed bound(2,3) cell window start bound(4)] show ?thesis .
qed

text \<open>The agreement of payload and records: the run, the route, the profile and the authority, the three
  machines, and the period of validity, which is the session's.\<close>

definition agrees_with :: "payload \<Rightarrow> evidence \<Rightarrow> evidence \<Rightarrow> evidence \<Rightarrow> bool" where
  "agrees_with p host client session \<longleftrightarrow>
     (\<forall>r \<in> {host, client, session}. ev_run_id r = pl_run_id p \<and> ev_route_id r = pl_route_id p \<and>
        ev_test_profile_id r = pl_profile_id p \<and> ev_manifest_as_of r = pl_manifest_as_of p \<and>
        ev_manifest_sha256 r = pl_manifest_sha256 p) \<and>
     subject_platform (ev_subject host) = pl_host_platform p \<and>
     subject_architecture (ev_subject host) = pl_host_architecture p \<and>
     (\<forall>r \<in> {client, session}. subject_platform (ev_subject r) = pl_client_platform p \<and>
        subject_architecture (ev_subject r) = pl_client_architecture p) \<and>
     time_or_zero (ev_created_at session) = canonical_or_zero (pl_created_at p) \<and>
     time_or_zero (ev_expires_at session) = canonical_or_zero (pl_expires_at p)"

lemma check_validity_agrees:
  assumes "check_validity_binding p session = Inr ()"
  shows "time_or_zero (ev_created_at session) = canonical_or_zero (pl_created_at p)"
    "time_or_zero (ev_expires_at session) = canonical_or_zero (pl_expires_at p)"
  using assms unfolding check_validity_binding_def bind_result_ok policy_time_def record_time_def
  by (auto simp: canonical_or_zero_def time_or_zero_def split: option.splits prod.splits if_splits)

lemma verify_record_bindings_agree:
  assumes "verify_record_bindings p host client session = Inr ()"
  shows "agrees_with p host client session"
proof -
  note b = assms [unfolded verify_record_bindings_def first_error_append first_error_map_ok first_error_Cons_ok require_ok]
  from b have "\<forall>nr \<in> set [(''host'', host), (''client'', client), (''session'', session)]. check_record_binding p nr = Inr ()"
    by blast
  moreover from b have "check_validity_binding p session = Inr ()" by blast
  ultimately show ?thesis
    using b check_validity_agrees [of p session]
    by (simp add: agrees_with_def check_record_binding_def same_machine_def del: first_error.simps(2))
qed

lemma verify_set_at_policy:
  assumes "verify_set_at c env data b expected v (Some q) now = Inr s" "parse_envelope c data = Inr (e, bytes, p)"
  shows "pl_policy_id p = tp_id q" "tp_min_signatures q \<le> int (length (en_signatures e))"
    "canonical_or_zero (tp_valid_from q) \<le> now" "now < canonical_or_zero (tp_expires_at q)"
    "canonical_or_zero (tp_valid_from q) \<le> canonical_or_zero (pl_created_at p)"
    "canonical_or_zero (pl_expires_at p) \<le> canonical_or_zero (tp_expires_at q)"
proof -
  have length: "length ks = length ss" if "verify_signatures c x i ss = Inr ks" for x i ss ks
    using that by (induction ss arbitrary: i ks) (auto simp: bind_result_ok split: option.splits)
  from verify_set_at_cases [OF assms(1)] assms(2) obtain records ks where "pl_policy_id p = tp_id q"
    and window: "policy_window q p now = Inr ()" and quorum: "verify_quorum c
      \<lparr>sc_policy = q, sc_payload_type = en_payload_type e, sc_bytes = bytes, sc_payload = p,
       sc_records = records, sc_now = now\<rparr> (en_signatures e) = Inr ks"
    by (metis Inr_inject option.inject prod.inject)
  then show "pl_policy_id p = tp_id q" by blast
  from verify_quorum_ok [OF quorum] length show "tp_min_signatures q \<le> int (length (en_signatures e))" by fastforce
  from window [unfolded policy_window_def Let_def first_error_Cons_ok require_ok] show
    "canonical_or_zero (tp_valid_from q) \<le> now" "now < canonical_or_zero (tp_expires_at q)"
    "canonical_or_zero (tp_valid_from q) \<le> canonical_or_zero (pl_created_at p)"
    "canonical_or_zero (pl_expires_at p) \<le> canonical_or_zero (tp_expires_at q)"
    by (simp_all add: not_less)
qed

lemma verified_records_complete:
  assumes "check_digests c p b = Inr ()"
    and "\<exists>e. evaluate_set env host client session (sha256_hex c (rb_host b)) (sha256_hex c (rb_client b)) (Some v) now = Inr e \<and>
      set_state e = Complete"
  shows "map (sha256_hex c) [rb_host b, rb_client b, rb_session b] = [pl_host_record p, pl_client_record p, pl_session_record p]"
    "\<exists>x. evaluate_set env host client session (pl_host_record p) (pl_client_record p) (Some v) now = Inr x \<and>
      set_state x = Complete"
    "map ev_record_type [host, client, session] = [''host'', ''client'', ''session'']"
    "chained host client session (pl_host_record p) (pl_client_record p)"
    "\<exists>digest fresh. authority_facts env now digest fresh \<and>
      (\<forall>r \<in> {host, client, session}. validate_evidence r = Inr () \<and> now < time_or_zero (ev_expires_at r) \<and>
        record_claims digest fresh now r)"
    "\<forall>(r, a) \<in> {(host, verification_host v), (client, verification_client v), (session, verification_session v)}.
       av_verified a \<and> av_digest a = record_digest env r"
proof -
  from assms(1) [unfolded check_digests_def first_error_Cons_ok require_ok] have
    d: "pl_host_record p = sha256_hex c (rb_host b)" "pl_client_record p = sha256_hex c (rb_client b)"
      "pl_session_record p = sha256_hex c (rb_session b)" by blast+
  then show "map (sha256_hex c) [rb_host b, rb_client b, rb_session b] =
      [pl_host_record p, pl_client_record p, pl_session_record p]" by simp
  from assms(2) show "\<exists>x. evaluate_set env host client session (pl_host_record p) (pl_client_record p) (Some v) now = Inr x \<and>
      set_state x = Complete" unfolding d .
  then obtain y where y: "evaluate_set env host client session (pl_host_record p) (pl_client_record p) (Some v) now = Inr y"
    "set_state y = Complete" by blast
  have "set_state y \<in> {Complete, Claims_Complete}" by (simp add: y(2))
  note facts = complete_set_facts [OF y(1) this]
  from facts show "map ev_record_type [host, client, session] = [''host'', ''client'', ''session'']"
    "chained host client session (pl_host_record p) (pl_client_record p)"
    "\<exists>digest fresh. authority_facts env now digest fresh \<and>
      (\<forall>r \<in> {host, client, session}. validate_evidence r = Inr () \<and> now < time_or_zero (ev_expires_at r) \<and>
        record_claims digest fresh now r)" by blast+
  from facts y(2) show "\<forall>(r, a) \<in> {(host, verification_host v), (client, verification_client v), (session, verification_session v)}.
      av_verified a \<and> av_digest a = record_digest env r" by auto
qed

text \<open>C3. A set that verifies was reviewed by independent people, and what they reviewed is complete. The
  policy is provisioned, in force now and for the whole period of the payload, which names it. The
  envelope has at least the policy's number of signatures, each made with an unrevoked key of the
  policy, inside the scope and every window of that key, after the reviews of all three records, over
  exactly the payload bytes; among them are a lab observer and an independent reviewer of different
  principals and organizations. The records are the ones whose digests the payload states; they parse,
  agree with it on the run, the authority, the machines and the period, and evaluate to a complete set:
  they chain, are in date, claim every measurement against one fresh authority, and the artifact bundle of
  each was verified for exactly that record.\<close>

theorem verified_set_reviewed:
  assumes "verify_set_at c env data b expected v policy now = Inr s"
  shows "\<exists>q e bytes p host client session. policy = Some q \<and> tp_status q = ''provisioned'' \<and>
    canonical_or_zero (tp_valid_from q) \<le> now \<and> now < canonical_or_zero (tp_expires_at q) \<and>
    canonical_or_zero (tp_valid_from q) \<le> vs_created s \<and> vs_expires s \<le> canonical_or_zero (tp_expires_at q) \<and>
    parse_envelope c data = Inr (e, bytes, p) \<and> pl_policy_id p = tp_id q \<and>
    vs_valid s \<and> vs_payload s = p \<and> vs_payload_sha256 s = sha256_hex c bytes \<and>
    tp_min_signatures q \<le> int (length (en_signatures e)) \<and>
    (\<exists>ks. list_all2 (endorses c \<lparr>sc_policy = q, sc_payload_type = en_payload_type e, sc_bytes = bytes,
         sc_payload = p, sc_records = [host, client, session], sc_now = now\<rparr>) (en_signatures e) ks \<and>
       vs_principals s = map tk_principal ks \<and>
       (\<exists>lab \<in> set ks. \<exists>ind \<in> set ks. tk_role lab = ''lab-observer'' \<and> tk_role ind = ''independent-reviewer'' \<and>
          tk_principal lab \<noteq> tk_principal ind \<and> tk_organization lab \<noteq> tk_organization ind)) \<and>
    map (\<lambda>d. parse_evidence (document_of c d)) [rb_host b, rb_client b, rb_session b] =
      map Inr [host, client, session] \<and>
    map (sha256_hex c) [rb_host b, rb_client b, rb_session b] = [pl_host_record p, pl_client_record p, pl_session_record p] \<and>
    agrees_with p host client session \<and>
    (\<exists>x. evaluate_set env host client session (pl_host_record p) (pl_client_record p) (Some v) now = Inr x \<and>
       set_state x = Complete) \<and>
    map ev_record_type [host, client, session] = [''host'', ''client'', ''session''] \<and>
    chained host client session (pl_host_record p) (pl_client_record p) \<and>
    (\<exists>digest fresh. authority_facts env now digest fresh \<and>
      (\<forall>r \<in> {host, client, session}. validate_evidence r = Inr () \<and> now < time_or_zero (ev_expires_at r) \<and>
        record_claims digest fresh now r)) \<and>
    (\<forall>(r, a) \<in> {(host, verification_host v), (client, verification_client v), (session, verification_session v)}.
       av_verified a \<and> av_digest a = record_digest env r) \<and>
    vs_created s \<le> now \<and> now < vs_expires s \<and>
    ec_route expected = pl_route_id p \<and> ec_platform expected = pl_client_platform p \<and>
    ec_architecture expected = pl_client_architecture p"
proof -
  from verify_set_at_facts [OF assms] obtain q e bytes p host client session ks x where
    q: "policy = Some q" "tp_status q = ''provisioned''" "parse_envelope c data = Inr (e, bytes, p)"
    and s: "s = \<lparr>vs_valid = True, vs_payload = p, vs_payload_sha256 = sha256_hex c bytes,
       vs_created = canonical_or_zero (pl_created_at p), vs_expires = canonical_or_zero (pl_expires_at p),
       vs_key_ids = map tk_key_id ks, vs_principals = map tk_principal ks, vs_organizations = map tk_organization ks\<rparr>"
    and x: "x = \<lparr>sc_policy = q, sc_payload_type = en_payload_type e, sc_bytes = bytes, sc_payload = p,
       sc_records = [host, client, session], sc_now = now\<rparr>"
    and signed: "list_all2 (endorses c x) (en_signatures e) ks" "has_independent_quorum ks"
    and parsed: "parse_evidence (document_of c (rb_host b)) = Inr host"
      "parse_evidence (document_of c (rb_client b)) = Inr client"
      "parse_evidence (document_of c (rb_session b)) = Inr session"
    and digests: "check_digests c p b = Inr ()" and bindings: "verify_record_bindings p host client session = Inr ()"
    and cell: "verify_expected_cell expected p = Inr ()" and window: "payload_window p now = Inr ()"
    and complete: "\<exists>e. evaluate_set env host client session (sha256_hex c (rb_host b)) (sha256_hex c (rb_client b))
       (Some v) now = Inr e \<and> set_state e = Complete" by metis
  note in_force = verify_set_at_policy [OF assms [unfolded q(1)] q(3)]
  note records = verified_records_complete [OF digests complete]
  from window [unfolded payload_window_def first_error_Cons_ok require_ok] have
    w: "vs_created s \<le> now" "now < vs_expires s" by (simp_all add: s not_less)
  from cell [unfolded verify_expected_cell_def first_error_Cons_ok require_ok] have
    "ec_route expected = pl_route_id p \<and> ec_platform expected = pl_client_platform p \<and>
     ec_architecture expected = pl_client_architecture p" by blast
  moreover have "\<exists>lab \<in> set ks. \<exists>ind \<in> set ks. tk_role lab = ''lab-observer'' \<and> tk_role ind = ''independent-reviewer'' \<and>
      tk_principal lab \<noteq> tk_principal ind \<and> tk_organization lab \<noteq> tk_organization ind"
    using signed(2) unfolding independent_quorum_iff by blast
  moreover have "vs_principals s = map tk_principal ks" "vs_payload s = p" "vs_valid s"
    "vs_payload_sha256 s = sha256_hex c bytes" "vs_created s = canonical_or_zero (pl_created_at p)"
    "vs_expires s = canonical_or_zero (pl_expires_at p)" by (simp_all add: s)
  moreover have "map (\<lambda>d. parse_evidence (document_of c d)) [rb_host b, rb_client b, rb_session b] =
      map Inr [host, client, session]" by (simp add: parsed)
  ultimately show ?thesis
    using q signed(1) [unfolded x] verify_record_bindings_agree [OF bindings] records w in_force
    by (rule_tac exI [of _ q], rule_tac exI [of _ e], rule_tac exI [of _ bytes], rule_tac exI [of _ p],
        rule_tac exI [of _ host], rule_tac exI [of _ client], rule_tac exI [of _ session])
       (intro conjI exI [of _ ks]; simp only:)
qed

end
