(* ===== verification/Signed_Promotion.thy ===== *)
theory Signed_Promotion
  imports Signed_Verify
begin

text \<open>
  The two ends of \<open>internal/evidencev2\<close>: \<open>PreparePayloadAt\<close> (\<open>prepare.go\<close>) makes the payload that
  reviewers sign, \<open>PromoteRemoteSetAt\<close> (\<open>promotion.go\<close>) turns a verified set into a readiness score.
  \<open>json.MarshalIndent\<close> of a payload is an argument, and so are the random bytes of a new set identifier.
\<close>

section \<open>Promotion\<close>

record readiness_gate =
  gate_id :: string
  gate_weight :: int
  gate_passed :: bool

record readiness_promotion =
  rp_schema :: string
  rp_schema_version :: int
  rp_evidence_type :: string
  rp_boundary :: string
  rp_set_id :: string
  rp_run_id :: string
  rp_route_id :: string
  rp_profile_id :: string
  rp_policy_id :: string
  rp_created_at :: string
  rp_expires_at :: string
  rp_manifest_as_of :: string
  rp_manifest_sha256 :: string
  rp_host :: "string \<times> string"
  rp_client :: "string \<times> string"
  rp_records :: "string list"
  rp_payload_sha256 :: string
  rp_score :: int
  rp_state :: string
  rp_safe :: bool
  rp_gates :: "readiness_gate list"
  rp_key_ids :: "string list"
  rp_principals :: "string list"
  rp_organizations :: "string list"

datatype promotion_error =
    Set_Invalid | Promotion_Time | No_Interval | Set_Not_Yet | Set_Expired | Unsupported_Profile string
  | Unsupported_Cell string string string | Invalid_Digest | Incomplete_Signers | Incomplete_Identity

definition readiness_gate_ids :: "string list" where
  "readiness_gate_ids = [''physical-host'', ''client-runtime'', ''session-quality'', ''gameplay-interaction'']"

definition readiness_gate_weight :: int where
  "readiness_gate_weight = 25"

definition valid_promotion_cell :: "payload \<Rightarrow> bool" where
  "valid_promotion_cell p \<longleftrightarrow>
     is_supported_evidence_platform (pl_client_platform p) (pl_client_architecture p) \<and>
     route_hosts (pl_route_id p) (pl_host_platform p) (pl_host_architecture p)"

definition promotion_check :: "verified_set \<Rightarrow> go_time \<Rightarrow> promotion_error + unit" where
  "promotion_check s now =
     (let p = vs_payload s
      in first_error
        [require (vs_valid s) Set_Invalid,
         require (\<not> is_zero now) Promotion_Time,
         require (\<not> is_zero (vs_created s) \<and> \<not> is_zero (vs_expires s)) No_Interval,
         require (\<not> now < vs_created s) Set_Not_Yet,
         require (now < vs_expires s) Set_Expired,
         require (pl_profile_id p = remote_profile) (Unsupported_Profile (pl_profile_id p)),
         require (valid_promotion_cell p)
           (Unsupported_Cell (pl_route_id p) (pl_client_platform p) (pl_client_architecture p)),
         require (list_all is_sha256 [pl_manifest_sha256 p, pl_host_record p, pl_client_record p, pl_session_record p,
             vs_payload_sha256 s]) Invalid_Digest,
         require (min_signatures \<le> length (vs_key_ids s) \<and> length (vs_key_ids s) = length (vs_principals s) \<and>
             length (vs_key_ids s) = length (vs_organizations s)) Incomplete_Signers,
         require (trim_space (pl_policy_id p) \<noteq> [] \<and> trim_space (pl_set_id p) \<noteq> [] \<and> trim_space (pl_run_id p) \<noteq> [])
           Incomplete_Identity])"

definition readiness_of :: "verified_set \<Rightarrow> readiness_promotion" where
  "readiness_of s =
     (let p = vs_payload s;
          gates = map (\<lambda>i. \<lparr>gate_id = i, gate_weight = readiness_gate_weight, gate_passed = True\<rparr>) readiness_gate_ids
      in \<lparr>rp_schema = ''https://leaguebridge.dev/schemas/readiness-promotion-v4.schema.json'', rp_schema_version = 4,
          rp_evidence_type = ''validation-evidence-v2'', rp_boundary = ''readiness-schema-v4'',
          rp_set_id = pl_set_id p, rp_run_id = pl_run_id p, rp_route_id = pl_route_id p, rp_profile_id = pl_profile_id p,
          rp_policy_id = pl_policy_id p, rp_created_at = format_rfc3339 (vs_created s),
          rp_expires_at = format_rfc3339 (vs_expires s), rp_manifest_as_of = pl_manifest_as_of p,
          rp_manifest_sha256 = pl_manifest_sha256 p, rp_host = (pl_host_platform p, pl_host_architecture p),
          rp_client = (pl_client_platform p, pl_client_architecture p),
          rp_records = [pl_host_record p, pl_client_record p, pl_session_record p],
          rp_payload_sha256 = vs_payload_sha256 s, rp_score = int (length gates) * readiness_gate_weight,
          rp_state = ''validated'', rp_safe = True, rp_gates = gates, rp_key_ids = vs_key_ids s,
          rp_principals = vs_principals s, rp_organizations = vs_organizations s\<rparr>)"

definition promote_remote_set_at :: "verified_set \<Rightarrow> go_time \<Rightarrow> promotion_error + readiness_promotion" where
  "promote_remote_set_at s now = bind_result (promotion_check s now) (\<lambda>_. Inr (readiness_of s))"

section \<open>Preparation\<close>

record prepare_request =
  pq_records :: record_bytes
  pq_expected :: expected_cell
  pq_verifications :: verification_set
  pq_set_id :: string
  pq_policy_id :: string

datatype prepare_error =
    Prepare_Time | Prepare_Policy_Id | Prepare_Verify verify_error | Prepare_Instant string | Prepare_Fraction string
  | Prepare_Random | Prepare_Set_Id string | Prepare_Too_Large | Prepare_Payload payload_error

definition canonical_record_instant :: "string \<Rightarrow> string \<Rightarrow> prepare_error + string" where
  "canonical_record_instant name v =
     (case parse_rfc3339 v of
        None \<Rightarrow> Inl (Prepare_Instant name)
      | Some (t, _) \<Rightarrow> if time_nanos t \<noteq> 0 then Inl (Prepare_Fraction name) else Inr (format_rfc3339 t))"

definition choose_set_id :: "string \<Rightarrow> string option \<Rightarrow> prepare_error + string" where
  "choose_set_id given random =
     bind_result
       (if trim_space given \<noteq> [] then Inr (trim_space given)
        else (case random of None \<Rightarrow> Inl Prepare_Random | Some bytes \<Rightarrow> Inr (''set-'' @ hex_encode bytes)))
       (\<lambda>i. if set_id_pattern i then Inr i else Inl (Prepare_Set_Id i))"

definition prepared_payload ::
    "crypto \<Rightarrow> prepare_request \<Rightarrow> evidence \<Rightarrow> evidence \<Rightarrow> string \<Rightarrow> string \<Rightarrow> string \<Rightarrow> payload" where
  "prepared_payload c r host client set_id created expires =
     \<lparr>pl_schema = payload_schema_id, pl_version = 2, pl_set_id = set_id, pl_run_id = ev_run_id host,
      pl_route_id = ev_route_id host, pl_profile_id = ev_test_profile_id host, pl_policy_id = pq_policy_id r,
      pl_created_at = created, pl_expires_at = expires, pl_manifest_as_of = ev_manifest_as_of host,
      pl_manifest_sha256 = ev_manifest_sha256 host, pl_host_platform = subject_platform (ev_subject host),
      pl_host_architecture = subject_architecture (ev_subject host),
      pl_client_platform = subject_platform (ev_subject client),
      pl_client_architecture = subject_architecture (ev_subject client),
      pl_host_record = sha256_hex c (rb_host (pq_records r)), pl_client_record = sha256_hex c (rb_client (pq_records r)),
      pl_session_record = sha256_hex c (rb_session (pq_records r))\<rparr>"

definition finish_payload ::
    "crypto \<Rightarrow> expected_cell \<Rightarrow> evidence \<Rightarrow> evidence \<Rightarrow> evidence \<Rightarrow> string \<Rightarrow> prepare_error + string" where
  "finish_payload c expected host client session data =
     (if max_payload_size < length data then Inl Prepare_Too_Large
      else
        bind_result (map_error Prepare_Payload (parse_payload c data)) (\<lambda>p.
        bind_result (map_error Prepare_Verify (verify_expected_cell expected p)) (\<lambda>_.
        bind_result (map_error (Prepare_Verify \<circ> Binding_Invalid) (verify_record_bindings p host client session)) (\<lambda>_.
          Inr data))))"

definition prepare_payload_at ::
    "crypto \<Rightarrow> evaluation_env \<Rightarrow> (payload \<Rightarrow> string) \<Rightarrow> prepare_request \<Rightarrow> string option \<Rightarrow> go_time \<Rightarrow>
     prepare_error + string" where
  "prepare_payload_at c env marshal r random now =
     (let b = pq_records r
      in bind_result (require (\<not> is_zero now) Prepare_Time) (\<lambda>_.
         bind_result (require (trim_space (pq_policy_id r) \<noteq> []) Prepare_Policy_Id) (\<lambda>_.
         bind_result (map_error Prepare_Verify (parse_record c ''host'' (rb_host b))) (\<lambda>host.
         bind_result (map_error Prepare_Verify (parse_record c ''client'' (rb_client b))) (\<lambda>client.
         bind_result (map_error Prepare_Verify (parse_record c ''session'' (rb_session b))) (\<lambda>session.
         bind_result (map_error Prepare_Verify (require_complete_set env host client session
           (sha256_hex c (rb_host b)) (sha256_hex c (rb_client b)) (pq_verifications r) now)) (\<lambda>_.
         bind_result (canonical_record_instant ''session created_at'' (ev_created_at session)) (\<lambda>created.
         bind_result (canonical_record_instant ''session expires_at'' (ev_expires_at session)) (\<lambda>expires.
         bind_result (choose_set_id (pq_set_id r) random) (\<lambda>i.
           finish_payload c (pq_expected r) host client session
             (marshal (prepared_payload c r host client i created expires) @ [char_of (10 :: nat)])))))))))))"

section \<open>A verified set is worth one hundred\<close>

lemma parse_envelope_ok:
  assumes "parse_envelope c data = Inr (e, bytes, p)"
  shows "check_envelope_identity e = Inr ()" "parse_payload c bytes = Inr p"
  using assms unfolding parse_envelope_def parse_envelope_payload_def
  by (auto simp: bind_result_ok map_error_ok split: option.splits if_splits prod.splits)

lemma parse_payload_ok:
  assumes "parse_payload c bytes = Inr p"
  shows "check_payload_identity p = Inr ()" "check_payload_cell p = Inr ()"
    "parse_canonical_timestamp (pl_created_at p) \<noteq> None" "parse_canonical_timestamp (pl_expires_at p) \<noteq> None"
proof -
  from assms obtain q where q: "validate_payload q = Inr p"
    by (auto simp: parse_payload_def split: if_splits option.splits)
  then have "q = p" unfolding validate_payload_def by (auto simp: bind_result_ok)
  with q show "check_payload_identity p = Inr ()" "check_payload_cell p = Inr ()"
    "parse_canonical_timestamp (pl_created_at p) \<noteq> None" "parse_canonical_timestamp (pl_expires_at p) \<noteq> None"
    unfolding validate_payload_def by (auto simp: bind_result_ok policy_time_def split: option.splits)
qed

lemma canonical_format: "parse_canonical_timestamp s \<noteq> None \<Longrightarrow> format_rfc3339 (canonical_or_zero s) = s"
  by (auto simp: canonical_or_zero_def parse_canonical_timestamp_def split: option.splits if_splits)

text \<open>Identifiers have no white space.\<close>

lemma plain_not_blank:
  assumes "s \<noteq> []" "\<forall>c \<in> set s. 32 < byte c \<and> byte c < 128"
  shows "trim_space s \<noteq> []"
proof -
  have "\<not> space_byte (hd s)" "\<not> space_byte (last s)"
    using assms space_byte_range by (metis hd_in_set leD, metis last_in_set leD)
  with assms(1) show ?thesis by (simp add: trim_space_clean)
qed

lemma split_on_set: "c \<in> set s \<Longrightarrow> c = d \<or> (\<exists>p \<in> set (split_on d s). c \<in> set p)"
proof (induction s)
  case (Cons a s)
  obtain q qs where "split_on d s = q # qs" by (meson list.exhaust split_on_nonempty)
  with Cons show ?case by auto
qed simp

lemma slug_bytes:
  assumes "dotted_pattern s" "c \<in> set s"
  shows "id_byte c \<or> c = CHR ''-'' \<or> c = CHR ''.''"
proof -
  let ?t = "map (\<lambda>c. if c = CHR ''.'' then CHR ''-'' else c) s"
  have "\<forall>p \<in> set (split_on (CHR ''-'') ?t). \<forall>c \<in> set p. id_byte c"
    using assms(1) by (auto simp: dotted_pattern_def id_pattern_def list_all_iff)
  then have "\<forall>c \<in> set ?t. id_byte c \<or> c = CHR ''-''" using split_on_set by blast
  with assms(2) show ?thesis by auto
qed

lemma identity_not_blank:
  assumes "check_payload_identity p = Inr ()"
  shows "trim_space (pl_policy_id p) \<noteq> [] \<and> trim_space (pl_set_id p) \<noteq> [] \<and> trim_space (pl_run_id p) \<noteq> []"
proof (intro conjI)
  note identity = assms [unfolded check_payload_identity_def first_error_Cons_ok require_ok]
  have plain: "id_byte c \<or> c = CHR ''-'' \<or> c = CHR ''.'' \<Longrightarrow> 32 < byte c \<and> byte c < 128" for c
    by (auto simp: id_byte_def is_lower_def is_digit_def byte_def)
  from identity have slug: "pl_policy_id p \<noteq> []" "dotted_pattern (pl_policy_id p)" by (auto simp: valid_slug_def)
  show "trim_space (pl_policy_id p) \<noteq> []"
    using slug slug_bytes plain by (intro plain_not_blank) blast+
  have marked: "trim_space s \<noteq> []" if "prefix q s" "lower_hex n (drop 4 s)" "length q = 4"
      "\<forall>c \<in> set q. 32 < byte c \<and> byte c < 128" for q s n
  proof (rule plain_not_blank)
    show "s \<noteq> []" using that by auto
    have "s = q @ drop 4 s" using that(1,3) by (auto simp: prefix_def)
    moreover have "\<forall>c \<in> set (drop 4 s). 32 < byte c \<and> byte c < 128"
      using that(2) by (auto simp: lower_hex_def lower_hex_char_def list_all_iff is_digit_def byte_def)
    ultimately show "\<forall>c \<in> set s. 32 < byte c \<and> byte c < 128" using that(4) by (metis Un_iff set_append)
  qed
  show "trim_space (pl_set_id p) \<noteq> []" "trim_space (pl_run_id p) \<noteq> []"
    using identity marked [of "''set-''"] marked [of "''run-''"]
    by (auto simp: set_id_pattern_def run_id_pattern_def byte_def)
qed

lemma route_hosts_cell:
  assumes "check_payload_cell p = Inr ()"
  shows "valid_promotion_cell p"
    "list_all is_sha256 [pl_manifest_sha256 p, pl_host_record p, pl_client_record p, pl_session_record p]"
  using assms [unfolded check_payload_cell_def first_error_Cons_ok require_ok] by (auto simp: valid_promotion_cell_def)

lemma readiness_score: "rp_score (readiness_of s) = 100" "list_all gate_passed (rp_gates (readiness_of s))"
  by (simp_all add: readiness_of_def Let_def readiness_gate_ids_def readiness_gate_weight_def)

text \<open>C20. A verified set is worth the full remote score, and only in its window: with digests that are
  SHA-256 in hexadecimal, promotion succeeds exactly from the payload's creation until its expiry (and not
  at Go's zero time), whatever clock is read later, and the promotion has the score 100, every gate passed,
  and the identity, records and validity texts of the signed payload.\<close>

theorem verified_set_promotes:
  assumes "verify_set_at c env data b expected v policy now = Inr s" and "\<forall>d. is_sha256 (sha256_hex c d)"
  shows "((\<exists>r. promote_remote_set_at s later = Inr r) \<longleftrightarrow>
      vs_created s \<le> later \<and> later < vs_expires s \<and> \<not> is_zero later \<and> \<not> is_zero (vs_created s) \<and>
      \<not> is_zero (vs_expires s)) \<and>
    (\<forall>r. promote_remote_set_at s later = Inr r \<longrightarrow>
      rp_score r = 100 \<and> list_all gate_passed (rp_gates r) \<and> rp_safe r \<and>
      (let p = vs_payload s in
        rp_set_id r = pl_set_id p \<and> rp_run_id r = pl_run_id p \<and> rp_route_id r = pl_route_id p \<and>
        rp_policy_id r = pl_policy_id p \<and> rp_client r = (pl_client_platform p, pl_client_architecture p) \<and>
        rp_records r = [pl_host_record p, pl_client_record p, pl_session_record p] \<and>
        rp_created_at r = pl_created_at p \<and> rp_expires_at r = pl_expires_at p))"
proof -
  from verify_set_at_facts [OF assms(1)] obtain q e bytes p ks x where
    parsed: "parse_envelope c data = Inr (e, bytes, p)"
    and s: "s = \<lparr>vs_valid = True, vs_payload = p, vs_payload_sha256 = sha256_hex c bytes,
       vs_created = canonical_or_zero (pl_created_at p), vs_expires = canonical_or_zero (pl_expires_at p),
       vs_key_ids = map tk_key_id ks, vs_principals = map tk_principal ks, vs_organizations = map tk_organization ks\<rparr>"
    and signed: "list_all2 (endorses c x) (en_signatures e) ks" by metis
  note envelope = parse_envelope_ok [OF parsed]
  note payload = parse_payload_ok [OF envelope(2)]
  have "min_signatures \<le> length ks"
    using envelope(1) [unfolded check_envelope_identity_def first_error_Cons_ok require_ok]
      list_all2_lengthD [OF signed] by simp
  moreover have "pl_profile_id p = remote_profile"
    using payload(1) [unfolded check_payload_identity_def first_error_Cons_ok require_ok] by blast
  ultimately have check: "promotion_check s later = Inr () \<longleftrightarrow>
      vs_created s \<le> later \<and> later < vs_expires s \<and> \<not> is_zero later \<and> \<not> is_zero (vs_created s) \<and>
      \<not> is_zero (vs_expires s)"
    using route_hosts_cell [OF payload(2)] identity_not_blank [OF payload(1)] assms(2)
    unfolding promotion_check_def Let_def first_error_Cons_ok require_ok
    by (auto simp: s not_less)
  have "rp_created_at (readiness_of s) = pl_created_at p" "rp_expires_at (readiness_of s) = pl_expires_at p"
    using canonical_format payload(3,4) by (simp_all add: readiness_of_def Let_def s)
  then show ?thesis
    using check readiness_score [of s] unfolding promote_remote_set_at_def bind_result_ok Let_def
    by (auto simp: readiness_of_def Let_def s)
qed

section \<open>What is prepared can be signed\<close>

lemma prepare_payload_ok:
  assumes "prepare_payload_at c env marshal r random now = Inr data"
  shows "\<exists>host client session p. parse_payload c data = Inr p \<and>
    verify_expected_cell (pq_expected r) p = Inr () \<and>
    parse_evidence (document_of c (rb_host (pq_records r))) = Inr host \<and>
    parse_evidence (document_of c (rb_client (pq_records r))) = Inr client \<and>
    parse_evidence (document_of c (rb_session (pq_records r))) = Inr session \<and>
    verify_record_bindings p host client session = Inr () \<and> \<not> is_zero now \<and>
    require_complete_set env host client session (sha256_hex c (rb_host (pq_records r)))
      (sha256_hex c (rb_client (pq_records r))) (pq_verifications r) now = Inr () \<and>
    (\<exists>i created expires. data = marshal (prepared_payload c r host client i created expires) @ [char_of (10 :: nat)])"
  using assms unfolding prepare_payload_at_def finish_payload_def parse_record_def Let_def
  by (auto simp: bind_result_ok map_error_ok comp_def split: if_splits)

lemma bound_window:
  assumes "check_validity_binding p session = Inr ()"
    and "time_or_zero (ev_created_at session) \<le> now" "now < time_or_zero (ev_expires_at session)"
  shows "payload_window p now = Inr ()"
proof -
  from assms(1) have "canonical_or_zero (pl_created_at p) = time_or_zero (ev_created_at session)"
    "canonical_or_zero (pl_expires_at p) = time_or_zero (ev_expires_at session)"
    unfolding check_validity_binding_def policy_time_def record_time_def
    by (auto simp: bind_result_ok canonical_or_zero_def time_or_zero_def split: option.splits)
  with assms(2,3) show ?thesis by (simp add: payload_window_def not_less)
qed

lemma complete_session_window:
  assumes "require_complete_set env host client session hd1 cd1 v now = Inr ()"
  shows "time_or_zero (ev_created_at session) \<le> now \<and> now < time_or_zero (ev_expires_at session)"
proof -
  from assms obtain e where "evaluate_set env host client session hd1 cd1 (Some v) now = Inr e" "set_state e = Complete"
    unfolding require_complete_set_def by (auto simp: bind_result_ok map_error_ok split: if_splits)
  with complete_set_facts obtain digest fresh where "record_claims digest fresh now session"
    "now < time_or_zero (ev_expires_at session)" by blast
  then show ?thesis by (auto simp: record_claims_def)
qed

text \<open>C25. What is prepared lacks nothing but reviewers. When the lexer reads a printed payload back as it
  was, an envelope around the prepared bytes verifies, for the same records, cell, verifications and
  moment under a valid policy of the payload's name, exactly when the policy is provisioned and in its
  window and the signatures are accepted as a quorum: every other check has been passed.\<close>

theorem prepared_set_needs_signatures:
  assumes "prepare_payload_at c env marshal r random now = Inr data"
    and "\<And>x y. parse_payload c (marshal x @ [char_of (10 :: nat)]) = Inr y \<Longrightarrow> y = x"
    and "parse_envelope c envelope_data = Inr (e, data, p)"
    and "validate_trust_policy c q = Inr ()" "tp_id q = pq_policy_id r"
  shows "\<exists>records. map (\<lambda>d. parse_evidence (document_of c d))
        [rb_host (pq_records r), rb_client (pq_records r), rb_session (pq_records r)] = map Inr records \<and>
      ((\<exists>s. verify_set_at c env envelope_data (pq_records r) (pq_expected r) (pq_verifications r) (Some q) now = Inr s) \<longleftrightarrow>
       policy_window q p now = Inr () \<and>
       (\<exists>ks. verify_quorum c \<lparr>sc_policy = q, sc_payload_type = en_payload_type e, sc_bytes = data, sc_payload = p,
         sc_records = records, sc_now = now\<rparr> (en_signatures e) = Inr ks))"
proof -
  let ?b = "pq_records r"
  from prepare_payload_ok [OF assms(1)] obtain host client session p' i created expires where
    parsed: "parse_payload c data = Inr p'" and cell: "verify_expected_cell (pq_expected r) p' = Inr ()"
    and records: "parse_evidence (document_of c (rb_host ?b)) = Inr host"
      "parse_evidence (document_of c (rb_client ?b)) = Inr client"
      "parse_evidence (document_of c (rb_session ?b)) = Inr session"
    and bound: "verify_record_bindings p' host client session = Inr ()" and now: "\<not> is_zero now"
    and complete: "require_complete_set env host client session (sha256_hex c (rb_host ?b)) (sha256_hex c (rb_client ?b))
      (pq_verifications r) now = Inr ()"
    and data: "data = marshal (prepared_payload c r host client i created expires) @ [char_of (10 :: nat)]" by blast
  have [simp]: "p' = p" using parsed parse_envelope_ok(2) [OF assms(3)] by simp
  have p: "p = prepared_payload c r host client i created expires" using assms(2) parsed unfolding data by simp
  have "check_digests c p ?b = Inr ()"
    by (simp add: check_digests_def p prepared_payload_def del: first_error.simps(2))
  then have "verify_records c env p ?b (pq_verifications r) now = Inr [host, client, session]"
    using records bound complete by (simp add: verify_records_def parse_record_def)
  moreover have "payload_window p now = Inr ()"
  proof (rule bound_window [of _ session])
    show "check_validity_binding p session = Inr ()"
      using bound unfolding verify_record_bindings_def by (simp del: first_error.simps(2))
  qed (use complete_session_window [OF complete] in blast)+
  moreover have "pl_policy_id p = tp_id q" by (simp add: p prepared_payload_def assms(5))
  ultimately have "(\<exists>s. verify_set_at c env envelope_data ?b (pq_expected r) (pq_verifications r) (Some q) now = Inr s) \<longleftrightarrow>
       policy_window q p now = Inr () \<and>
       (\<exists>ks. verify_quorum c \<lparr>sc_policy = q, sc_payload_type = en_payload_type e, sc_bytes = data, sc_payload = p,
         sc_records = [host, client, session], sc_now = now\<rparr> (en_signatures e) = Inr ks)"
    using now assms(3,4) cell by (simp add: verify_set_at_def bind_result_ok map_error_ok)
  with records show ?thesis by (intro exI [of _ "[host, client, session]"]) simp
qed

end
