(* ===== verification/Native_Policy.thy ===== *)
theory Native_Policy
  imports Signed_Set Release_Version
begin

text \<open>
  The inventory and the reviewer policy of \<open>internal/productionnative\<close> (\<open>types.go\<close>, \<open>policy.go\<close>): the
  fixed cells of each kind of observation, the binding to a release, and the keys of observers and
  reviewers with the cells they may sign for.
\<close>

section \<open>Kinds and cells\<close>

record cell =
  cell_family :: string
  cell_goos :: string
  cell_goarch :: string

definition mk_cell :: "string \<Rightarrow> string \<Rightarrow> string \<Rightarrow> cell" where
  "mk_cell family os arch = \<lparr>cell_family = family, cell_goos = os, cell_goarch = arch\<rparr>"

definition integration_cells :: "cell list" where
  "integration_cells =
     [mk_cell [] ''linux'' ''amd64'', mk_cell [] ''linux'' ''arm64'', mk_cell [] ''freebsd'' ''amd64'',
      mk_cell [] ''freebsd'' ''arm64'', mk_cell [] ''openbsd'' ''amd64'', mk_cell [] ''openbsd'' ''arm64'',
      mk_cell [] ''netbsd'' ''amd64'', mk_cell [] ''netbsd'' ''arm64'', mk_cell [] ''dragonfly'' ''amd64'']"

definition bsd_cells :: "cell list" where
  "bsd_cells =
     [mk_cell [] ''freebsd'' ''amd64'', mk_cell [] ''freebsd'' ''arm64'', mk_cell [] ''openbsd'' ''amd64'',
      mk_cell [] ''openbsd'' ''arm64'', mk_cell [] ''netbsd'' ''amd64'', mk_cell [] ''netbsd'' ''arm64'',
      mk_cell [] ''dragonfly'' ''amd64'']"

definition lifecycle_cells :: "cell list" where
  "lifecycle_cells =
     [mk_cell ''debian'' ''linux'' ''amd64'', mk_cell ''debian'' ''linux'' ''arm64'',
      mk_cell ''rpm'' ''linux'' ''amd64'', mk_cell ''rpm'' ''linux'' ''arm64'',
      mk_cell ''freebsd-pkg'' ''freebsd'' ''amd64'', mk_cell ''freebsd-pkg'' ''freebsd'' ''arm64'',
      mk_cell ''openbsd-pkg'' ''openbsd'' ''amd64'', mk_cell ''openbsd-pkg'' ''openbsd'' ''arm64'',
      mk_cell ''pkgsrc'' ''netbsd'' ''amd64'', mk_cell ''pkgsrc'' ''netbsd'' ''arm64'',
      mk_cell ''dports'' ''dragonfly'' ''amd64'']"

definition expected_cells :: "string \<Rightarrow> cell list" where
  "expected_cells kind =
     (if kind = ''native-integration'' then integration_cells
      else if kind = ''physical-bsd'' then bsd_cells
      else if kind = ''package-lifecycle'' then lifecycle_cells
      else [])"

definition supported_cell :: "string \<Rightarrow> cell \<Rightarrow> bool" where
  "supported_cell kind c \<longleftrightarrow> c \<in> set (expected_cells kind)"

definition scope_key :: "string \<Rightarrow> cell \<Rightarrow> string" where
  "scope_key kind c = kind @ '':'' @ cell_family c @ '':'' @ cell_goos c @ ''/'' @ cell_goarch c"

definition native_kinds :: "string list" where
  "native_kinds = [''native-integration'', ''physical-bsd'', ''package-lifecycle'']"

definition supported_scope :: "string \<Rightarrow> bool" where
  "supported_scope s \<longleftrightarrow> list_ex (\<lambda>kind. list_ex (\<lambda>c. s = scope_key kind c) (expected_cells kind)) native_kinds"

section \<open>The policy\<close>

record native_key =
  nk_key_id :: string
  nk_public_key :: string
  nk_principal :: string
  nk_organization :: string
  nk_role :: string
  nk_scopes :: "string list"
  nk_not_before :: string
  nk_not_after :: string
  nk_revoked :: bool

record native_policy =
  np_id :: string
  np_status :: string
  np_valid_from :: string
  np_expires_at :: string
  np_keys :: "native_key list"

datatype native_key_error =
    Native_Key_Public | Native_Key_Unsafe | Native_Key_Id | Native_Key_Identity | Native_Key_Role | Native_Key_Scopes
  | Native_Key_Scope string | Native_Key_Time string | Native_Key_Window

datatype native_policy_error =
    Native_Policy_Id | Native_Policy_Contents | Native_Policy_Status | Native_Policy_Count | Native_Policy_Time string
  | Native_Policy_Window | Native_Policy_Order | Native_Policy_Key string native_key_error | Native_Policy_Repeats
  | Native_Policy_Roles

definition native_policy_id :: string where
  "native_policy_id = ''leaguebridge-production-native-observations-v1''"

definition bounded_id :: "string \<Rightarrow> bool" where
  "bounded_id v \<longleftrightarrow> 0 < length v \<and> length v \<le> 128 \<and> dotted_pattern v"

definition native_key_id :: "crypto \<Rightarrow> string \<Rightarrow> string" where
  "native_key_id c public_key =
     ''lbn1-'' @ sha256_hex c (''LeagueBridge/production-native-reviewer-key/v1'' @ [char_of (0 :: nat)] @ public_key)"

fun check_native_scopes :: "string \<Rightarrow> string list \<Rightarrow> native_key_error + unit" where
  "check_native_scopes previous [] = Inr ()"
| "check_native_scopes previous (s # ss) =
     (if s = previous \<or> \<not> supported_scope s then Inl (Native_Key_Scope s) else check_native_scopes s ss)"

definition check_native_identity :: "crypto \<Rightarrow> native_key \<Rightarrow> native_key_error + unit" where
  "check_native_identity c k =
     (case decode_lower_hex (nk_public_key k) 32 of
        None \<Rightarrow> Inl Native_Key_Public
      | Some pk \<Rightarrow>
          first_error
            [require (valid_public_key c pk) Native_Key_Unsafe,
             require (nk_key_id k = native_key_id c pk) Native_Key_Id])"

definition validate_native_key :: "crypto \<Rightarrow> native_key \<Rightarrow> go_time \<Rightarrow> go_time \<Rightarrow> native_key_error + unit" where
  "validate_native_key c k policy_start policy_end =
     bind_result
       (first_error
          [check_native_identity c k,
           require (bounded_id (nk_principal k) \<and> bounded_id (nk_organization k)) Native_Key_Identity,
           require (nk_role k = ''lab-observer'' \<or> nk_role k = ''independent-reviewer'') Native_Key_Role,
           require (nk_scopes k \<noteq> [] \<and> length (nk_scopes k) \<le> 27 \<and> strings_sorted (nk_scopes k)) Native_Key_Scopes,
           check_native_scopes [] (nk_scopes k)]) (\<lambda>_.
     bind_result (policy_time Native_Key_Time ''not_before'' (nk_not_before k)) (\<lambda>start.
     bind_result (policy_time Native_Key_Time ''not_after'' (nk_not_after k)) (\<lambda>stop.
       require (start < stop \<and> \<not> start < policy_start \<and> \<not> policy_end < stop) Native_Key_Window)))"

text \<open>The loop over the keys: the identifier before, and the pairs of principal and role seen.\<close>

fun check_native_keys ::
    "crypto \<Rightarrow> go_time \<Rightarrow> go_time \<Rightarrow> string option \<Rightarrow> (string \<times> string) list \<Rightarrow> native_key list \<Rightarrow>
     native_policy_error + unit" where
  "check_native_keys c start stop previous seen [] = Inr ()"
| "check_native_keys c start stop previous seen (k # ks) =
     (if \<not> (case previous of None \<Rightarrow> True | Some p \<Rightarrow> string_less p (nk_key_id k)) then Inl Native_Policy_Order
      else
        bind_result (map_error (Native_Policy_Key (nk_key_id k)) (validate_native_key c k start stop)) (\<lambda>_.
          if (nk_principal k, nk_role k) \<in> set seen then Inl Native_Policy_Repeats
          else check_native_keys c start stop (Some (nk_key_id k)) ((nk_principal k, nk_role k) # seen) ks))"

definition active_role :: "native_policy \<Rightarrow> string \<Rightarrow> bool" where
  "active_role p role \<longleftrightarrow> list_ex (\<lambda>k. \<not> nk_revoked k \<and> nk_role k = role) (np_keys p)"

definition validate_active_policy :: "crypto \<Rightarrow> native_policy \<Rightarrow> native_policy_error + unit" where
  "validate_active_policy c p =
     bind_result (require (2 \<le> length (np_keys p) \<and> length (np_keys p) \<le> 16) Native_Policy_Count) (\<lambda>_.
     bind_result (policy_time Native_Policy_Time ''valid_from'' (np_valid_from p)) (\<lambda>start.
     bind_result (policy_time Native_Policy_Time ''expires_at'' (np_expires_at p)) (\<lambda>stop.
     bind_result (require (start < stop \<and> time_sub stop start \<le> 366 * 24 * 3600 * 10 ^ 9) Native_Policy_Window) (\<lambda>_.
     bind_result (check_native_keys c start stop None [] (np_keys p)) (\<lambda>_.
       require (active_role p ''lab-observer'' \<and> active_role p ''independent-reviewer'') Native_Policy_Roles)))))"

definition validate_native_policy :: "crypto \<Rightarrow> native_policy \<Rightarrow> native_policy_error + unit" where
  "validate_native_policy c p =
     bind_result (require (np_id p = native_policy_id) Native_Policy_Id) (\<lambda>_.
       if np_status p = ''unprovisioned'' then
         require (np_valid_from p = [] \<and> np_expires_at p = [] \<and> np_keys p = []) Native_Policy_Contents
       else if np_status p = ''provisioned'' then validate_active_policy c p
       else Inl Native_Policy_Status)"

definition new_native_policy :: "crypto \<Rightarrow> native_policy \<Rightarrow> native_policy_error + native_policy option" where
  "new_native_policy c raw = bind_result (validate_native_policy c raw) (\<lambda>_. Inr (Some raw))"

definition production_native_policy :: "crypto \<Rightarrow> native_policy option" where
  "production_native_policy c =
     (case new_native_policy c
        \<lparr>np_id = native_policy_id, np_status = ''unprovisioned'', np_valid_from = [], np_expires_at = [], np_keys = []\<rparr> of
        Inl _ \<Rightarrow> None
      | Inr p \<Rightarrow> p)"

lemma native_cells_distinct: "distinct (expected_cells kind)"
proof -
  have "distinct integration_cells" "distinct bsd_cells" "distinct lifecycle_cells" by code_simp+
  then show ?thesis by (simp add: expected_cells_def)
qed

lemma production_native_unprovisioned:
  "production_native_policy c = Some p \<Longrightarrow> np_status p = ''unprovisioned''"
  by (auto simp: production_native_policy_def new_native_policy_def validate_native_policy_def split: if_splits)

lemma check_native_keys_ok:
  assumes "check_native_keys c start stop previous seen ks = Inr ()"
  shows "(\<forall>k \<in> set ks. validate_native_key c k start stop = Inr ()) \<and> sorted_wrt string_less (map nk_key_id ks) \<and>
    (\<forall>p. previous = Some p \<longrightarrow> (\<forall>k \<in> set ks. string_less p (nk_key_id k)))"
  using assms
proof (induction c start stop previous seen ks rule: check_native_keys.induct)
  case (2 c start stop previous seen k ks)
  then have order: "case previous of None \<Rightarrow> True | Some p \<Rightarrow> string_less p (nk_key_id k)"
    and k: "validate_native_key c k start stop = Inr ()" "(nk_principal k, nk_role k) \<notin> set seen"
    and rest: "check_native_keys c start stop (Some (nk_key_id k)) ((nk_principal k, nk_role k) # seen) ks = Inr ()"
    by (auto simp: bind_result_ok split: if_splits)
  have "\<not> \<not> (case previous of None \<Rightarrow> True | Some p \<Rightarrow> string_less p (nk_key_id k))" using order by simp
  from 2(1) [OF this k(2) rest] show ?case using order k string_less_trans by (auto split: option.splits)
qed simp

text \<open>The scopes of a valid key are searched as a sorted list.\<close>

lemma native_scope_contains:
  assumes "validate_native_key c k start stop = Inr ()"
  shows "contains_sorted (nk_scopes k) s \<longleftrightarrow> s \<in> set (nk_scopes k)"
proof -
  from assms have "strings_sorted (nk_scopes k)"
    unfolding validate_native_key_def bind_result_ok first_error_Cons_ok require_ok by blast
  then show ?thesis by (rule contains_sorted_iff)
qed

lemma active_policy_keys:
  assumes "validate_native_policy c p = Inr ()" "np_status p = ''provisioned''"
  obtains start stop where
    "parse_canonical_timestamp (np_valid_from p) = Some start" "parse_canonical_timestamp (np_expires_at p) = Some stop"
    "start < stop" "\<forall>k \<in> set (np_keys p). validate_native_key c k start stop = Inr ()"
    "distinct (map nk_key_id (np_keys p))"
proof -
  from assms have "validate_active_policy c p = Inr ()" by (auto simp: validate_native_policy_def split: if_splits)
  then obtain start stop where
    "policy_time Native_Policy_Time ''valid_from'' (np_valid_from p) = Inr start"
    "policy_time Native_Policy_Time ''expires_at'' (np_expires_at p) = Inr stop" "start < stop"
    "check_native_keys c start stop None [] (np_keys p) = Inr ()"
    by (auto simp: validate_active_policy_def bind_result_ok split: if_splits)
  with check_native_keys_ok [OF this(4)] show ?thesis
    by (intro that [of start stop]) (auto simp: policy_time_def string_less_distinct split: option.splits)
qed

end
