(* ===== verification/Native_Parse.thy ===== *)
theory Native_Parse
  imports Native_Policy
begin

text \<open>
  Reading the signed observations of \<open>internal/productionnative\<close> (\<open>parse.go\<close>): an envelope and its
  payload must be the exact canonical text of what they decode to. The lexer, the digests and the
  signatures are those of \<open>crypto\<close>; \<open>native_codec\<close> adds \<open>json.MarshalIndent\<close> (with the line feed) of an
  envelope and of an observation, and \<open>json.Marshal\<close> of a policy.
\<close>

section \<open>Observations\<close>

record release_binding =
  rl_version :: string
  rl_commit :: string
  rl_tree :: string
  rl_release_id :: int
  rl_archive :: string
  rl_archive_sha256 :: string
  rl_executable_sha256 :: string

record native_artifact =
  na_kind :: string
  na_size :: int
  na_sha256 :: string

record observation =
  ob_schema :: string
  ob_schema_version :: int
  ob_type :: string
  ob_kind :: string
  ob_policy_id :: string
  ob_id :: string
  ob_run_id :: string
  ob_machine :: string
  ob_challenge :: string
  ob_created_at :: string
  ob_expires_at :: string
  ob_cell :: cell
  ob_release :: release_binding
  ob_package :: string
  ob_host_route :: string
  ob_kernel :: string
  ob_assertions :: "string list"
  ob_artifacts :: "native_artifact list"

record native_codec =
  nc_crypto :: crypto
  nc_envelope_text :: "envelope \<Rightarrow> string"
  nc_observation_text :: "observation \<Rightarrow> string"
  nc_policy_text :: "native_policy \<Rightarrow> string"

datatype observation_error =
    Obs_Identity | Obs_Cell | Obs_Identifiers | Obs_Time string | Obs_Validity | Obs_Release | Obs_Archive
  | Obs_Package | Obs_Route | Obs_Kernel | Obs_Assertions | Obs_Inventory | Obs_Artifact nat | Obs_Total

datatype canonical_error =
    Canonical_Utf8 | Canonical_Structure | Canonical_Keys exact_error | Canonical_Decode | Not_Canonical

datatype native_envelope_error =
    Nat_Size | Nat_Json canonical_error | Nat_Identity | Nat_Signature nat | Nat_Signed_At | Nat_Signature_Hex
  | Nat_Repeats_Key | Nat_Payload | Nat_Payload_Json canonical_error | Nat_Observation observation_error

definition assertion_set :: "string \<Rightarrow> string list" where
  "assertion_set kind =
     (if kind = ''native-integration'' then
        [''audio-pass'', ''display-pass'', ''input-pass'', ''moonlight-executed'', ''native-client-executed'',
         ''physical-game-host-usable'']
      else if kind = ''physical-bsd'' then
        [''native-cli-smoke-pass'', ''native-kernel-booted'', ''physical-machine-witnessed'', ''release-binary-installed'']
      else if kind = ''package-lifecycle'' then
        [''cli-pass'', ''install-pass'', ''published-package-current'', ''uninstall-pass'', ''unrelated-files-preserved'',
         ''upgrade-or-repair-pass'']
      else [])"

definition artifact_set :: "string \<Rightarrow> string list" where
  "artifact_set kind =
     (if kind = ''native-integration'' then
        [''audio-capture'', ''client-execution-log'', ''display-capture'', ''host-route-proof'', ''input-capture'',
         ''moonlight-execution-log'', ''native-dependency-record'', ''review-notes'']
      else if kind = ''physical-bsd'' then
        [''boot-evidence'', ''install-log'', ''machine-identity'', ''native-kernel-evidence'', ''native-smoke-log'',
         ''review-notes'']
      else if kind = ''package-lifecycle'' then
        [''cli-log'', ''index-membership'', ''install-log'', ''installed-files-manifest'', ''package-signature'',
         ''publication-proof'', ''review-notes'', ''uninstall-log'', ''unrelated-files-proof'', ''upgrade-repair-log'',
         ''withdrawal-state'']
      else [])"

definition native_kernel :: "string \<Rightarrow> string" where
  "native_kernel os =
     (if os = ''linux'' then ''Linux'' else if os = ''freebsd'' then ''FreeBSD'' else if os = ''openbsd'' then ''OpenBSD''
      else if os = ''netbsd'' then ''NetBSD'' else if os = ''dragonfly'' then ''DragonFly'' else [])"

definition max_native_artifact :: int where
  "max_native_artifact = 268435456"

definition max_artifact_set :: int where
  "max_artifact_set = 1073741824"

section \<open>Validation\<close>

definition object_id :: "string \<Rightarrow> bool" where
  "object_id s \<longleftrightarrow> lower_hex 40 s \<or> lower_hex 64 s"

definition marked_hex :: "string \<Rightarrow> nat \<Rightarrow> string \<Rightarrow> bool" where
  "marked_hex mark n s \<longleftrightarrow> prefix mark s \<and> lower_hex n (drop (length mark) s)"

definition archive_name :: "release_binding \<Rightarrow> cell \<Rightarrow> string" where
  "archive_name r c =
     ''leaguebridge_'' @ (if prefix ''v'' (rl_version r) then tl (rl_version r) else rl_version r) @ ''_'' @
     cell_goos c @ ''_'' @ cell_goarch c @ ''.tar.gz''"

definition validate_release_binding :: "release_binding \<Rightarrow> cell \<Rightarrow> observation_error + unit" where
  "validate_release_binding r c =
     first_error
       [require (valid_version (rl_version r) \<and> length (rl_version r) \<le> 128 \<and> \<not> contains_any (rl_version r) ''+-'' \<and>
          object_id (rl_commit r) \<and> object_id (rl_tree r) \<and> length (rl_commit r) = length (rl_tree r) \<and>
          0 < rl_release_id r \<and> is_sha256 (rl_archive_sha256 r) \<and> is_sha256 (rl_executable_sha256 r)) Obs_Release,
        require (rl_archive r = archive_name r c) Obs_Archive]"

definition game_host_route :: "string \<Rightarrow> bool" where
  "game_host_route r \<longleftrightarrow> r = ''physical-windows-remote'' \<or> r = ''physical-macos-remote''"

fun check_native_artifacts :: "nat \<Rightarrow> int \<Rightarrow> string list \<Rightarrow> native_artifact list \<Rightarrow> observation_error + unit" where
  "check_native_artifacts i n kinds [] = Inr ()"
| "check_native_artifacts i n kinds (a # as) =
     (if na_kind a \<noteq> kinds ! i \<or> na_size a \<le> 0 \<or> max_native_artifact < na_size a \<or> \<not> is_sha256 (na_sha256 a)
      then Inl (Obs_Artifact i)
      else if max_artifact_set < n + na_size a then Inl Obs_Total
      else check_native_artifacts (Suc i) (n + na_size a) kinds as)"

definition check_observation_header :: "observation \<Rightarrow> observation_error + unit" where
  "check_observation_header v =
     first_error
       [require (ob_schema v = ''https://leaguebridge.dev/schemas/production-native-observation-v1.json'' \<and>
          ob_schema_version v = 1 \<and> ob_type v = ''leaguebridge.production-native-observation.v1'' \<and>
          ob_policy_id v = native_policy_id) Obs_Identity,
        require (supported_cell (ob_kind v) (ob_cell v)) Obs_Cell,
        require (marked_hex ''observation-'' 32 (ob_id v) \<and> marked_hex ''run-'' 32 (ob_run_id v) \<and>
          marked_hex ''machine-'' 32 (ob_machine v) \<and> marked_hex ''challenge-'' 64 (ob_challenge v)) Obs_Identifiers]"

definition check_observation_contents :: "observation \<Rightarrow> observation_error + unit" where
  "check_observation_contents v =
     first_error
       [validate_release_binding (ob_release v) (ob_cell v),
        require (if ob_kind v = ''package-lifecycle'' then is_sha256 (ob_package v) else ob_package v = []) Obs_Package,
        require (if ob_kind v = ''native-integration'' then game_host_route (ob_host_route v) else ob_host_route v = [])
          Obs_Route,
        require (ob_kernel v = native_kernel (cell_goos (ob_cell v))) Obs_Kernel,
        require (ob_assertions v = assertion_set (ob_kind v)) Obs_Assertions,
        require (length (ob_artifacts v) = length (artifact_set (ob_kind v))) Obs_Inventory,
        check_native_artifacts 0 0 (artifact_set (ob_kind v)) (ob_artifacts v)]"

definition validate_observation :: "observation \<Rightarrow> observation_error + unit" where
  "validate_observation v =
     bind_result (check_observation_header v) (\<lambda>_.
     bind_result (policy_time Obs_Time ''created_at'' (ob_created_at v)) (\<lambda>start.
     bind_result (policy_time Obs_Time ''expires_at'' (ob_expires_at v)) (\<lambda>stop.
     bind_result (require (start < stop \<and> time_sub stop start \<le> 30 * 24 * 3600 * 10 ^ 9) Obs_Validity) (\<lambda>_.
       check_observation_contents v))))"

section \<open>Canonical documents\<close>

definition native_field :: "string \<Rightarrow> string \<Rightarrow> go_type \<Rightarrow> go_field" where
  "native_field name tag t = Go_Field name True False tag t"

definition native_envelope_type :: go_type where
  "native_envelope_type = Struct_Of
     [native_field ''Schema'' ''$schema'' String_Type, native_field ''EnvelopeVersion'' ''envelope_version'' Number_Type,
      native_field ''PayloadType'' ''payload_type'' String_Type,
      native_field ''PayloadEncoding'' ''payload_encoding'' String_Type, native_field ''Payload'' ''payload'' String_Type,
      native_field ''Signatures'' ''signatures'' (Slice_Of (Struct_Of
        [native_field ''Algorithm'' ''algorithm'' String_Type, native_field ''KeyID'' ''key_id'' String_Type,
         native_field ''SignedAt'' ''signed_at'' String_Type, native_field ''Signature'' ''signature'' String_Type]))]"

definition observation_type :: go_type where
  "observation_type = Struct_Of
     ([native_field ''Schema'' ''$schema'' String_Type, native_field ''SchemaVersion'' ''schema_version'' Number_Type] @
      map (\<lambda>(name, tag). native_field name tag String_Type)
        [(''ObservationType'', ''observation_type''), (''Kind'', ''kind''), (''PolicyID'', ''policy_id''),
         (''ObservationID'', ''observation_id''), (''RunID'', ''run_id''), (''MachineID'', ''machine_pseudonym''),
         (''Challenge'', ''challenge''), (''CreatedAt'', ''created_at''), (''ExpiresAt'', ''expires_at'')] @
      [native_field ''Cell'' ''cell'' (Struct_Of
         [native_field ''Family'' ''family'' String_Type, native_field ''GOOS'' ''goos'' String_Type,
          native_field ''GOARCH'' ''goarch'' String_Type]),
       native_field ''Release'' ''release'' (Struct_Of
         [native_field ''Version'' ''version'' String_Type, native_field ''Commit'' ''commit'' String_Type,
          native_field ''Tree'' ''tree'' String_Type, native_field ''ReleaseID'' ''release_id'' Number_Type,
          native_field ''ArchiveFilename'' ''archive_filename'' String_Type,
          native_field ''ArchiveSHA256'' ''archive_sha256'' String_Type,
          native_field ''ExecutableSHA256'' ''executable_sha256'' String_Type]),
       native_field ''PackageSHA256'' ''package_sha256'' String_Type, native_field ''HostRoute'' ''host_route'' String_Type,
       native_field ''NativeKernel'' ''native_kernel'' String_Type,
       native_field ''Assertions'' ''assertions'' (Slice_Of String_Type),
       native_field ''Artifacts'' ''artifacts'' (Slice_Of (Struct_Of
         [native_field ''Kind'' ''kind'' String_Type, native_field ''SizeBytes'' ''size_bytes'' Number_Type,
          native_field ''SHA256'' ''sha256'' String_Type]))])"

definition decode_native_signature :: "json \<Rightarrow> signature_item option" where
  "decode_native_signature v = do {
     algorithm \<leftarrow> text_at v ''algorithm''; key \<leftarrow> text_at v ''key_id''; signed \<leftarrow> text_at v ''signed_at'';
     signature \<leftarrow> text_at v ''signature'';
     Some \<lparr>sg_algorithm = algorithm, sg_key_id = key, sg_signed_at = signed, sg_signature = signature\<rparr> }"

definition decode_native_envelope :: "json \<Rightarrow> envelope option" where
  "decode_native_envelope v = do {
     schema \<leftarrow> text_at v ''$schema''; version \<leftarrow> int_at v ''envelope_version''; kind \<leftarrow> text_at v ''payload_type'';
     encoding \<leftarrow> text_at v ''payload_encoding''; payload \<leftarrow> text_at v ''payload'';
     signatures \<leftarrow> list_at decode_native_signature v ''signatures'';
     Some \<lparr>en_schema = schema, en_version = version, en_payload_type = kind, en_payload_encoding = encoding,
           en_payload = payload, en_signatures = signatures\<rparr> }"

definition decode_cell :: "json \<Rightarrow> cell option" where
  "decode_cell v = do {
     family \<leftarrow> text_at v ''family''; os \<leftarrow> text_at v ''goos''; arch \<leftarrow> text_at v ''goarch'';
     Some (mk_cell family os arch) }"

definition decode_release :: "json \<Rightarrow> release_binding option" where
  "decode_release v = do {
     version \<leftarrow> text_at v ''version''; commit \<leftarrow> text_at v ''commit''; tree \<leftarrow> text_at v ''tree'';
     n \<leftarrow> int_at v ''release_id''; archive \<leftarrow> text_at v ''archive_filename'';
     archive_sha \<leftarrow> text_at v ''archive_sha256''; executable_sha \<leftarrow> text_at v ''executable_sha256'';
     Some \<lparr>rl_version = version, rl_commit = commit, rl_tree = tree, rl_release_id = n, rl_archive = archive,
           rl_archive_sha256 = archive_sha, rl_executable_sha256 = executable_sha\<rparr> }"

definition decode_native_artifact :: "json \<Rightarrow> native_artifact option" where
  "decode_native_artifact v = do {
     kind \<leftarrow> text_at v ''kind''; n \<leftarrow> int_at v ''size_bytes''; sha \<leftarrow> text_at v ''sha256'';
     Some \<lparr>na_kind = kind, na_size = n, na_sha256 = sha\<rparr> }"

definition decode_text :: "json \<Rightarrow> string option" where
  "decode_text v = (case v of JStr s \<Rightarrow> Some s | _ \<Rightarrow> None)"

definition decode_observation :: "json \<Rightarrow> observation option" where
  "decode_observation v = do {
     schema \<leftarrow> text_at v ''$schema''; version \<leftarrow> int_at v ''schema_version''; typ \<leftarrow> text_at v ''observation_type'';
     kind \<leftarrow> text_at v ''kind''; policy \<leftarrow> text_at v ''policy_id''; i \<leftarrow> text_at v ''observation_id'';
     run \<leftarrow> text_at v ''run_id''; machine \<leftarrow> text_at v ''machine_pseudonym''; challenge \<leftarrow> text_at v ''challenge'';
     created \<leftarrow> text_at v ''created_at''; expires \<leftarrow> text_at v ''expires_at'';
     c \<leftarrow> Option.bind (member v ''cell'') decode_cell; release \<leftarrow> Option.bind (member v ''release'') decode_release;
     package \<leftarrow> text_at v ''package_sha256''; route \<leftarrow> text_at v ''host_route''; kernel \<leftarrow> text_at v ''native_kernel'';
     assertions \<leftarrow> list_at decode_text v ''assertions''; artifacts \<leftarrow> list_at decode_native_artifact v ''artifacts'';
     Some \<lparr>ob_schema = schema, ob_schema_version = version, ob_type = typ, ob_kind = kind, ob_policy_id = policy,
           ob_id = i, ob_run_id = run, ob_machine = machine, ob_challenge = challenge, ob_created_at = created,
           ob_expires_at = expires, ob_cell = c, ob_release = release, ob_package = package, ob_host_route = route,
           ob_kernel = kernel, ob_assertions = assertions, ob_artifacts = artifacts\<rparr> }"

definition parse_canonical_json ::
    "crypto \<Rightarrow> go_type \<Rightarrow> (json \<Rightarrow> 'a option) \<Rightarrow> ('a \<Rightarrow> string) \<Rightarrow> string \<Rightarrow> canonical_error + 'a" where
  "parse_canonical_json c t decode write data =
     (let ts = json_lexer c data
      in if \<not> utf8_valid data then Inl Canonical_Utf8
         else if \<not> inspect_json 24 ts then Inl Canonical_Structure
         else
           (case validate_keys ts (Some t) of
              Inl e \<Rightarrow> Inl (Canonical_Keys e)
            | Inr _ \<Rightarrow>
                (case Option.bind (read_value ts) (\<lambda>(v, _). decode v) of
                   None \<Rightarrow> Inl Canonical_Decode
                 | Some x \<Rightarrow> if write x = data then Inr x else Inl Not_Canonical)))"

section \<open>The envelope\<close>

definition check_native_envelope :: "envelope \<Rightarrow> native_envelope_error + unit" where
  "check_native_envelope e =
     require (en_schema e = ''https://leaguebridge.dev/schemas/production-native-envelope-v1.json'' \<and>
       en_version e = 1 \<and> en_payload_type e = ''leaguebridge.production-native-observation.v1'' \<and>
       en_payload_encoding e = ''base64url-nopad'' \<and> length (en_signatures e) = 2) Nat_Identity"

fun check_native_signatures :: "nat \<Rightarrow> signature_item list \<Rightarrow> native_envelope_error + unit" where
  "check_native_signatures i [] = Inr ()"
| "check_native_signatures i (s # ss) =
     bind_result
       (first_error
          [require (sg_algorithm s = ''ed25519'' \<and> prefix ''lbn1-'' (sg_key_id s) \<and> length (sg_key_id s) = 69 \<and>
             is_sha256 (drop 5 (sg_key_id s))) (Nat_Signature i),
           require (parse_canonical_timestamp (sg_signed_at s) \<noteq> None) Nat_Signed_At,
           require (decode_lower_hex (sg_signature s) 64 \<noteq> None) Nat_Signature_Hex])
       (\<lambda>_. check_native_signatures (Suc i) ss)"

definition parse_native_payload :: "native_codec \<Rightarrow> envelope \<Rightarrow> native_envelope_error + (string \<times> observation)" where
  "parse_native_payload n e =
     (case canonical_base64 (en_payload e) of
        None \<Rightarrow> Inl Nat_Payload
      | Some data \<Rightarrow>
          if data = [] \<or> 32768 < length data then Inl Nat_Payload
          else
            bind_result (map_error Nat_Payload_Json
              (parse_canonical_json (nc_crypto n) observation_type decode_observation (nc_observation_text n) data)) (\<lambda>v.
            bind_result (map_error Nat_Observation (validate_observation v)) (\<lambda>_. Inr (data, v))))"

definition parse_native_envelope ::
    "native_codec \<Rightarrow> string \<Rightarrow> native_envelope_error + (envelope \<times> string \<times> observation)" where
  "parse_native_envelope n data =
     (if data = [] \<or> 131072 < length data then Inl Nat_Size
      else
        bind_result (map_error Nat_Json
          (parse_canonical_json (nc_crypto n) native_envelope_type decode_native_envelope (nc_envelope_text n) data)) (\<lambda>e.
        bind_result (check_native_envelope e) (\<lambda>_.
        bind_result (check_native_signatures 0 (en_signatures e)) (\<lambda>_.
        bind_result (require (sg_key_id (en_signatures e ! 0) \<noteq> sg_key_id (en_signatures e ! 1)) Nat_Repeats_Key) (\<lambda>_.
        bind_result (parse_native_payload n e) (\<lambda>(bytes, v). Inr (e, bytes, v)))))))"

text \<open>A canonical document is the only text of what it says.\<close>

lemma canonical_text:
  "parse_canonical_json c t decode write data = Inr x \<Longrightarrow> write x = data"
  by (auto simp: parse_canonical_json_def Let_def split: if_splits sum.splits option.splits)

lemma parse_native_envelope_ok:
  assumes "parse_native_envelope n data = Inr (e, bytes, v)"
  shows "data = nc_envelope_text n e" "bytes = nc_observation_text n v" "validate_observation v = Inr ()"
    "check_native_envelope e = Inr ()" "sg_key_id (en_signatures e ! 0) \<noteq> sg_key_id (en_signatures e ! 1)"
  using assms unfolding parse_native_envelope_def parse_native_payload_def
  by (auto simp: bind_result_ok map_error_ok dest: canonical_text split: if_splits option.splits prod.splits)

end
