(* ===== verification/Native_Verify.thy ===== *)
theory Native_Verify
  imports Native_Parse "HOL-Library.Multiset"
begin

text \<open>
  \<open>VerifyObservationAt\<close> and \<open>VerifyCompleteSetAt\<close> (\<open>internal/productionnative/verify.go\<close>). The operating
  system is a world of outcomes: \<open>nw_hash\<close> says what the calls of the n-th \<open>hashArtifact\<close> for a path
  return, \<open>nw_cancelled\<close> what the n-th look at the context outside of hashing sees. SHA-256 of a file is
  that of the bytes which were read. A path is absolute as on the Unix builds.
\<close>

section \<open>Raw artifacts\<close>

record file_info =
  fi_identity :: nat
  fi_regular :: bool
  fi_size :: int
  fi_modified :: int

record hash_run =
  hr_cancelled :: bool
  hr_before :: "file_info option"
  hr_bytes :: "string option"
  hr_after :: "file_info option"
  hr_path :: "file_info option"
  hr_parents_plain :: bool
  hr_cancelled_after :: bool

record native_world =
  nw_hash :: "nat \<Rightarrow> string \<Rightarrow> hash_run"
  nw_cancelled :: "nat \<Rightarrow> bool"

record artifact_input =
  ai_kind :: string
  ai_path :: string

datatype artifact_failure =
    Artifact_Count | Artifact_Differs nat | Artifact_Unread string | Artifact_Bytes string | Artifact_Reused_Bytes
  | Artifact_Reused_File | Artifact_Too_Much | Artifact_Changed string

definition same_file :: "file_info \<Rightarrow> file_info \<Rightarrow> bool" where
  "same_file a b \<longleftrightarrow> fi_identity a = fi_identity b"

text \<open>\<open>hashArtifact\<close>: the file is hashed once it is known to be a bounded regular file, and must be the same
  file of the same size and time afterwards, at the same path without symbolic links.\<close>

definition hash_artifact :: "crypto \<Rightarrow> hash_run \<Rightarrow> (string \<times> int \<times> file_info) option" where
  "hash_artifact c r =
     (if hr_cancelled r then None
      else
        (case hr_before r of
           None \<Rightarrow> None
         | Some before \<Rightarrow>
             if \<not> fi_regular before \<or> fi_size before \<le> 0 \<or> max_native_artifact < fi_size before then None
             else
               (case hr_bytes r of
                  None \<Rightarrow> None
                | Some bytes \<Rightarrow>
                    if int (length bytes) \<noteq> fi_size before then None
                    else
                      (case (hr_after r, hr_path r) of
                         (Some after, Some path) \<Rightarrow>
                           if \<not> hr_parents_plain r \<or> \<not> fi_regular after \<or> \<not> fi_regular path \<or>
                              \<not> same_file before after \<or> \<not> same_file before path \<or>
                              fi_size after \<noteq> int (length bytes) \<or> fi_size path \<noteq> int (length bytes) \<or>
                              fi_modified before \<noteq> fi_modified after \<or> hr_cancelled_after r
                           then None else Some (sha256_hex c bytes, int (length bytes), before)
                       | _ \<Rightarrow> None))))"

record artifact_snapshot =
  as_input :: artifact_input
  as_item :: native_artifact
  as_info :: file_info

definition check_hashed ::
    "artifact_input \<Rightarrow> native_artifact \<Rightarrow> int \<Rightarrow> artifact_snapshot list \<Rightarrow> (string \<times> int \<times> file_info) option \<Rightarrow>
     artifact_failure + artifact_snapshot" where
  "check_hashed input item amount before hashed =
     (case hashed of
        None \<Rightarrow> Inl (Artifact_Unread (ai_kind input))
      | Some (digest, n, info) \<Rightarrow>
          if n \<noteq> na_size item \<or> digest \<noteq> na_sha256 item then Inl (Artifact_Bytes (ai_kind input))
          else if list_ex (\<lambda>s. na_sha256 (as_item s) = digest) before then Inl Artifact_Reused_Bytes
          else if list_ex (\<lambda>s. same_file (as_info s) info) before then Inl Artifact_Reused_File
          else if max_artifact_set < amount + n then Inl Artifact_Too_Much
          else Inr \<lparr>as_input = input, as_item = item, as_info = info\<rparr>)"

fun check_artifact_inputs ::
    "crypto \<Rightarrow> native_world \<Rightarrow> nat \<Rightarrow> nat \<Rightarrow> int \<Rightarrow> artifact_snapshot list \<Rightarrow> (artifact_input \<times> native_artifact) list \<Rightarrow>
     artifact_failure + artifact_snapshot list" where
  "check_artifact_inputs c w n i amount before [] = Inr before"
| "check_artifact_inputs c w n i amount before ((input, item) # rest) =
     (if ai_kind input \<noteq> na_kind item \<or> \<not> prefix ''/'' (ai_path input) then Inl (Artifact_Differs i)
      else
        bind_result (check_hashed input item amount before (hash_artifact c (nw_hash w n (ai_path input)))) (\<lambda>s.
          check_artifact_inputs c w (Suc n) (Suc i) (amount + na_size item) (before @ [s]) rest))"

definition verify_artifacts ::
    "crypto \<Rightarrow> native_world \<Rightarrow> nat \<Rightarrow> artifact_input list \<Rightarrow> native_artifact list \<Rightarrow>
     artifact_failure + artifact_snapshot list" where
  "verify_artifacts c w n inputs declared =
     (if length inputs \<noteq> length declared then Inl Artifact_Count
      else check_artifact_inputs c w n 0 0 [] (zip inputs declared))"

fun recheck_artifacts :: "crypto \<Rightarrow> native_world \<Rightarrow> nat \<Rightarrow> artifact_snapshot list \<Rightarrow> artifact_failure + unit" where
  "recheck_artifacts c w n [] = Inr ()"
| "recheck_artifacts c w n (s # ss) =
     (case hash_artifact c (nw_hash w n (ai_path (as_input s))) of
        None \<Rightarrow> Inl (Artifact_Unread (ai_kind (as_input s)))
      | Some (digest, k, info) \<Rightarrow>
          if \<not> same_file (as_info s) info \<or> k \<noteq> na_size (as_item s) \<or> digest \<noteq> na_sha256 (as_item s)
          then Inl (Artifact_Changed (na_kind (as_item s)))
          else recheck_artifacts c w (Suc n) ss)"

section \<open>Signatures\<close>

datatype native_signature_error =
    Signer_Count | Signer_Untrusted nat | Signer_Scope nat | Signer_Not_Distinct | Signer_Time nat | Signer_Order
  | Signer_Invalid nat

definition native_key_of :: "native_policy \<Rightarrow> string \<Rightarrow> native_key option" where
  "native_key_of p i = map_of (rev (map (\<lambda>k. (nk_key_id k, k)) (np_keys p))) i"

definition native_preimage :: "string \<Rightarrow> string \<Rightarrow> string \<Rightarrow> string" where
  "native_preimage key_id signed_at bytes =
     signature_preimage (''LeagueBridge/production-native-observation/v1'' @ [char_of (0 :: nat)])
       ''leaguebridge.production-native-observation.v1'' key_id signed_at bytes"

definition native_authentic :: "crypto \<Rightarrow> native_key \<Rightarrow> signature_item \<Rightarrow> string \<Rightarrow> bool" where
  "native_authentic c k s bytes \<longleftrightarrow>
     ed25519_verify c (case decode_lower_hex (nk_public_key k) 32 of Some pk \<Rightarrow> pk | None \<Rightarrow> [])
       (native_preimage (sg_key_id s) (sg_signed_at s) bytes)
       (case decode_lower_hex (sg_signature s) 64 of Some b \<Rightarrow> b | None \<Rightarrow> [])"

definition canonical_time :: "string \<Rightarrow> go_time" where
  "canonical_time s = (case parse_canonical_timestamp s of None \<Rightarrow> zero_time | Some t \<Rightarrow> t)"

record native_context =
  cx_policy :: native_policy
  cx_bytes :: string
  cx_observation :: observation
  cx_now :: go_time

text \<open>One turn of the loop, with the key and the signing time of the signature before.\<close>

definition check_native_signature ::
    "crypto \<Rightarrow> native_context \<Rightarrow> nat \<Rightarrow> (native_key \<times> go_time) option \<Rightarrow> signature_item \<Rightarrow> native_key \<Rightarrow>
     native_signature_error + unit" where
  "check_native_signature c x i previous s k =
     (let v = cx_observation x; created = canonical_time (ob_created_at v); expires = canonical_time (ob_expires_at v);
          signed = canonical_time (sg_signed_at s); start = canonical_time (nk_not_before k);
          stop = canonical_time (nk_not_after k)
      in first_error
        [require (\<not> nk_revoked k) (Signer_Untrusted i),
         require (nk_role k = (if i = 1 then ''independent-reviewer'' else ''lab-observer'') \<and>
           contains_sorted (nk_scopes k) (scope_key (ob_kind v) (ob_cell v))) (Signer_Scope i),
         require (case previous of None \<Rightarrow> True
           | Some (j, _) \<Rightarrow> nk_principal k \<noteq> nk_principal j \<and> nk_organization k \<noteq> nk_organization j) Signer_Not_Distinct,
         require (\<not> created < start \<and> \<not> stop < expires \<and> \<not> signed < start \<and> signed < stop \<and> \<not> signed < created \<and>
           signed < expires \<and> \<not> cx_now x < signed) (Signer_Time i),
         require (case previous of None \<Rightarrow> True | Some (_, t) \<Rightarrow> t < signed) Signer_Order,
         require (native_authentic c k s (cx_bytes x)) (Signer_Invalid i)])"

fun check_native_signers ::
    "crypto \<Rightarrow> native_context \<Rightarrow> nat \<Rightarrow> (native_key \<times> go_time) option \<Rightarrow> signature_item list \<Rightarrow>
     native_signature_error + unit" where
  "check_native_signers c x i previous [] = Inr ()"
| "check_native_signers c x i previous (s # ss) =
     (case native_key_of (cx_policy x) (sg_key_id s) of
        None \<Rightarrow> Inl (Signer_Untrusted i)
      | Some k \<Rightarrow>
          bind_result (check_native_signature c x i previous s k) (\<lambda>_.
            check_native_signers c x (Suc i) (Some (k, canonical_time (sg_signed_at s))) ss))"

definition verify_native_signatures :: "crypto \<Rightarrow> native_context \<Rightarrow> signature_item list \<Rightarrow> native_signature_error + unit" where
  "verify_native_signatures c x ss =
     (if length ss \<noteq> 2 then Inl Signer_Count else check_native_signers c x 0 None ss)"

section \<open>One observation\<close>

record expected_observation =
  eo_kind :: string
  eo_cell :: cell
  eo_release :: release_binding
  eo_package :: string
  eo_challenge :: string
  eo_host_route :: string

record verified_observation =
  vo_valid :: bool
  vo_kind :: string
  vo_cell :: cell
  vo_release :: release_binding
  vo_package :: string
  vo_policy_id :: string
  vo_policy_digest :: string
  vo_id :: string
  vo_run_id :: string
  vo_machine :: string
  vo_challenge :: string
  vo_payload_sha256 :: string
  vo_created :: go_time
  vo_expires :: go_time
  vo_verified :: go_time
  vo_inputs :: "artifact_input list"
  vo_artifacts :: "native_artifact list"

datatype native_error =
    Native_Time | Native_Cancelled | Expected_Cell | Expected_Release observation_error | Expected_Challenge
  | Expected_Route | Expected_Package | Native_No_Policy | Native_Policy_Invalid native_policy_error
  | Native_Envelope native_envelope_error | Native_Differs | Native_Window | Native_Unprovisioned | Native_Policy_Outside
  | Native_Artifacts artifact_failure | Native_Signatures native_signature_error

definition validate_expected :: "expected_observation \<Rightarrow> native_error + unit" where
  "validate_expected x =
     first_error
       [require (supported_cell (eo_kind x) (eo_cell x)) Expected_Cell,
        map_error Expected_Release (validate_release_binding (eo_release x) (eo_cell x)),
        require (marked_hex ''challenge-'' 64 (eo_challenge x)) Expected_Challenge,
        require (if eo_kind x = ''native-integration'' then game_host_route (eo_host_route x) else eo_host_route x = [])
          Expected_Route,
        require (if eo_kind x = ''package-lifecycle'' then is_sha256 (eo_package x) else eo_package x = []) Expected_Package]"

definition matches_expected :: "native_policy \<Rightarrow> expected_observation \<Rightarrow> observation \<Rightarrow> bool" where
  "matches_expected p x v \<longleftrightarrow>
     ob_policy_id v = np_id p \<and> ob_kind v = eo_kind x \<and> ob_cell v = eo_cell x \<and> ob_release v = eo_release x \<and>
     ob_package v = eo_package x \<and> ob_challenge v = eo_challenge x \<and> ob_host_route v = eo_host_route x"

definition native_policy_digest :: "native_codec \<Rightarrow> native_policy \<Rightarrow> string" where
  "native_policy_digest n p = sha256_hex (nc_crypto n) (nc_policy_text n p)"

definition check_native_windows :: "native_policy \<Rightarrow> observation \<Rightarrow> go_time \<Rightarrow> native_error + unit" where
  "check_native_windows p v now =
     (let created = canonical_time (ob_created_at v); expires = canonical_time (ob_expires_at v);
          start = canonical_time (np_valid_from p); stop = canonical_time (np_expires_at p)
      in first_error
        [require (\<not> now < created \<and> now < expires) Native_Window,
         require (np_status p = ''provisioned'') Native_Unprovisioned,
         require (\<not> now < start \<and> now < stop \<and> \<not> created < start \<and> \<not> stop < expires) Native_Policy_Outside])"

definition retain_artifacts ::
    "crypto \<Rightarrow> native_world \<Rightarrow> artifact_input list \<Rightarrow> native_context \<Rightarrow> signature_item list \<Rightarrow> native_error + unit" where
  "retain_artifacts c w inputs x ss =
     bind_result (map_error Native_Artifacts (verify_artifacts c w 0 inputs (ob_artifacts (cx_observation x)))) (\<lambda>snapshots.
     bind_result (map_error Native_Signatures (verify_native_signatures c x ss)) (\<lambda>_.
     bind_result (map_error Native_Artifacts (recheck_artifacts c w (length snapshots) snapshots)) (\<lambda>_.
       if nw_cancelled w 1 then Inl Native_Cancelled else Inr ())))"

definition verify_observation_at ::
    "native_codec \<Rightarrow> native_world \<Rightarrow> string \<Rightarrow> artifact_input list \<Rightarrow> expected_observation \<Rightarrow> native_policy option \<Rightarrow>
     go_time \<Rightarrow> native_error + verified_observation" where
  "verify_observation_at n w data inputs expected policy now =
     bind_result (require (\<not> is_zero now) Native_Time) (\<lambda>_.
     bind_result (require (\<not> nw_cancelled w 0) Native_Cancelled) (\<lambda>_.
     bind_result (validate_expected expected) (\<lambda>_.
     bind_result (case policy of None \<Rightarrow> Inl Native_No_Policy | Some p \<Rightarrow> Inr p) (\<lambda>p.
     bind_result (map_error Native_Policy_Invalid (validate_native_policy (nc_crypto n) p)) (\<lambda>_.
     bind_result (map_error Native_Envelope (parse_native_envelope n data)) (\<lambda>(e, bytes, v).
     bind_result (require (matches_expected p expected v) Native_Differs) (\<lambda>_.
     bind_result (check_native_windows p v now) (\<lambda>_.
     bind_result (retain_artifacts (nc_crypto n) w inputs
       \<lparr>cx_policy = p, cx_bytes = bytes, cx_observation = v, cx_now = now\<rparr> (en_signatures e)) (\<lambda>_.
       Inr \<lparr>vo_valid = True, vo_kind = ob_kind v, vo_cell = ob_cell v, vo_release = ob_release v,
            vo_package = ob_package v, vo_policy_id = ob_policy_id v, vo_policy_digest = native_policy_digest n p,
            vo_id = ob_id v, vo_run_id = ob_run_id v, vo_machine = ob_machine v, vo_challenge = ob_challenge v,
            vo_payload_sha256 = sha256_hex (nc_crypto n) bytes, vo_created = canonical_time (ob_created_at v),
            vo_expires = canonical_time (ob_expires_at v), vo_verified = now, vo_inputs = inputs,
            vo_artifacts = ob_artifacts v\<rparr>)))))))))"

section \<open>A complete set\<close>

record native_set =
  ns_valid :: bool
  ns_kind :: string
  ns_version :: string
  ns_commit :: string
  ns_tree :: string
  ns_release_id :: int
  ns_policy_id :: string
  ns_observations :: "verified_observation list"

datatype set_error =
    Set_Arguments | Set_Cancelled | Set_Policy | Set_Policy_Window | Set_Count | Set_Item nat | Set_Mixed_Releases
  | Set_Repeats | Set_Target_Disagrees | Set_Repeats_Package | Set_Unsupported | Set_Artifacts nat artifact_failure
  | Set_Incomplete

definition no_release :: release_binding where
  "no_release =
     \<lparr>rl_version = [], rl_commit = [], rl_tree = [], rl_release_id = 0, rl_archive = [], rl_archive_sha256 = [],
      rl_executable_sha256 = []\<rparr>"

definition no_observation :: verified_observation where
  "no_observation =
     \<lparr>vo_valid = False, vo_kind = [], vo_cell = mk_cell [] [] [], vo_release = no_release, vo_package = [],
      vo_policy_id = [], vo_policy_digest = [], vo_id = [], vo_run_id = [], vo_machine = [], vo_challenge = [],
      vo_payload_sha256 = [], vo_created = zero_time, vo_expires = zero_time, vo_verified = zero_time, vo_inputs = [],
      vo_artifacts = []\<rparr>"

text \<open>What the loop has seen: the observations so far, the release of each target, the slots of the cells,
  and the number of files hashed.\<close>

record set_progress =
  sp_seen :: "verified_observation list"
  sp_targets :: "(string \<times> release_binding) list"
  sp_ordered :: "verified_observation list"
  sp_hashed :: nat

definition same_release :: "release_binding \<Rightarrow> release_binding \<Rightarrow> bool" where
  "same_release a b \<longleftrightarrow>
     rl_version a = rl_version b \<and> rl_commit a = rl_commit b \<and> rl_tree a = rl_tree b \<and> rl_release_id a = rl_release_id b"

definition target_of :: "verified_observation \<Rightarrow> string" where
  "target_of v = cell_goos (vo_cell v) @ ''/'' @ cell_goarch (vo_cell v)"

definition repeats :: "verified_observation list \<Rightarrow> verified_observation \<Rightarrow> bool" where
  "repeats seen v \<longleftrightarrow>
     list_ex (\<lambda>u. vo_cell u = vo_cell v \<or> vo_id u = vo_id v \<or> vo_run_id u = vo_run_id v \<or> vo_challenge u = vo_challenge v)
       seen"

definition check_set_item ::
    "string \<Rightarrow> native_policy \<Rightarrow> string \<Rightarrow> go_time \<Rightarrow> verified_observation \<Rightarrow> set_progress \<Rightarrow> nat \<Rightarrow> verified_observation \<Rightarrow>
     set_error + unit" where
  "check_set_item kind p digest now first s i v =
     first_error
       [require (vo_valid v \<and> vo_kind v = kind \<and> vo_policy_id v = np_id p \<and> vo_policy_digest v = digest \<and>
          \<not> now < vo_created v \<and> \<not> now < vo_verified v \<and> now < vo_expires v) (Set_Item i),
        require (same_release (vo_release v) (vo_release first)) Set_Mixed_Releases,
        require (\<not> repeats (sp_seen s) v) Set_Repeats,
        require (case map_of (sp_targets s) (target_of v) of None \<Rightarrow> True | Some r \<Rightarrow> r = vo_release v) Set_Target_Disagrees,
        require (kind = ''package-lifecycle'' \<longrightarrow> \<not> list_ex (\<lambda>u. vo_package u = vo_package v) (sp_seen s))
          Set_Repeats_Package]"

definition cell_index :: "cell list \<Rightarrow> cell \<Rightarrow> nat option" where
  "cell_index cells c = find (\<lambda>j. cells ! j = c) [0 ..< length cells]"

definition reread_artifacts :: "crypto \<Rightarrow> native_world \<Rightarrow> nat \<Rightarrow> verified_observation \<Rightarrow> artifact_failure + unit" where
  "reread_artifacts c w n v =
     bind_result (verify_artifacts c w n (vo_inputs v) (vo_artifacts v)) (\<lambda>snapshots.
       recheck_artifacts c w (n + length snapshots) snapshots)"

definition set_step ::
    "native_codec \<Rightarrow> native_world \<Rightarrow> string \<Rightarrow> native_policy \<Rightarrow> go_time \<Rightarrow> verified_observation \<Rightarrow> set_progress \<Rightarrow> nat \<Rightarrow>
     verified_observation \<Rightarrow> set_error + set_progress" where
  "set_step n w kind p now first s i v =
     bind_result (check_set_item kind p (native_policy_digest n p) now first s i v) (\<lambda>_.
       case cell_index (expected_cells kind) (vo_cell v) of
         None \<Rightarrow> Inl Set_Unsupported
       | Some j \<Rightarrow>
           bind_result (map_error (Set_Artifacts i) (reread_artifacts (nc_crypto n) w (sp_hashed s) v)) (\<lambda>_.
             Inr \<lparr>sp_seen = sp_seen s @ [v], sp_targets = (target_of v, vo_release v) # sp_targets s,
                  sp_ordered = (sp_ordered s)[j := v], sp_hashed = sp_hashed s + 2 * length (vo_artifacts v)\<rparr>))"

fun set_loop ::
    "native_codec \<Rightarrow> native_world \<Rightarrow> string \<Rightarrow> native_policy \<Rightarrow> go_time \<Rightarrow> verified_observation \<Rightarrow> set_progress \<Rightarrow> nat \<Rightarrow>
     verified_observation list \<Rightarrow> set_error + set_progress" where
  "set_loop n w kind p now first s i [] = Inr s"
| "set_loop n w kind p now first s i (v # vs) =
     bind_result (set_step n w kind p now first s i v) (\<lambda>s'. set_loop n w kind p now first s' (Suc i) vs)"

definition set_start :: "string \<Rightarrow> set_progress" where
  "set_start kind =
     \<lparr>sp_seen = [], sp_targets = [], sp_ordered = replicate (length (expected_cells kind)) no_observation, sp_hashed = 0\<rparr>"

definition check_set_policy :: "native_codec \<Rightarrow> native_policy \<Rightarrow> go_time \<Rightarrow> set_error + unit" where
  "check_set_policy n p now =
     first_error
       [require (validate_native_policy (nc_crypto n) p = Inr () \<and> np_status p = ''provisioned'') Set_Policy,
        require (\<not> now < canonical_time (np_valid_from p) \<and> now < canonical_time (np_expires_at p)) Set_Policy_Window]"

definition verify_complete_set_at ::
    "native_codec \<Rightarrow> native_world \<Rightarrow> string \<Rightarrow> verified_observation list \<Rightarrow> native_policy option \<Rightarrow> go_time \<Rightarrow>
     set_error + native_set" where
  "verify_complete_set_at n w kind vs policy now =
     bind_result (case policy of None \<Rightarrow> Inl Set_Arguments | Some p \<Rightarrow> if is_zero now then Inl Set_Arguments else Inr p) (\<lambda>p.
     bind_result (require (\<not> nw_cancelled w 0) Set_Cancelled) (\<lambda>_.
     bind_result (check_set_policy n p now) (\<lambda>_.
     bind_result (require (expected_cells kind \<noteq> [] \<and> length vs = length (expected_cells kind)) Set_Count) (\<lambda>_.
     bind_result (set_loop n w kind p now (vs ! 0) (set_start kind) 0 vs) (\<lambda>s.
     bind_result (require (length (sp_seen s) = length (expected_cells kind)) Set_Incomplete) (\<lambda>_.
     bind_result (require (\<not> nw_cancelled w 1) Set_Cancelled) (\<lambda>_.
       let r = vo_release (vs ! 0)
       in Inr \<lparr>ns_valid = True, ns_kind = kind, ns_version = rl_version r, ns_commit = rl_commit r, ns_tree = rl_tree r,
               ns_release_id = rl_release_id r, ns_policy_id = np_id p, ns_observations = sp_ordered s\<rparr>)))))))"

section \<open>What a verified observation is\<close>

text \<open>The positive reading of the checks of one signature.\<close>

definition native_endorses :: "crypto \<Rightarrow> native_context \<Rightarrow> string \<Rightarrow> signature_item \<Rightarrow> native_key \<Rightarrow> bool" where
  "native_endorses c x role s k \<longleftrightarrow>
     (let v = cx_observation x; signed = canonical_time (sg_signed_at s)
      in k \<in> set (np_keys (cx_policy x)) \<and> nk_key_id k = sg_key_id s \<and> \<not> nk_revoked k \<and> nk_role k = role \<and>
         scope_key (ob_kind v) (ob_cell v) \<in> set (nk_scopes k) \<and>
         canonical_time (nk_not_before k) \<le> canonical_time (ob_created_at v) \<and>
         canonical_time (ob_expires_at v) \<le> canonical_time (nk_not_after k) \<and>
         canonical_time (ob_created_at v) \<le> signed \<and> signed < canonical_time (ob_expires_at v) \<and> signed \<le> cx_now x \<and>
         native_authentic c k s (cx_bytes x))"

lemma native_key_of_member: "native_key_of p i = Some k \<Longrightarrow> k \<in> set (np_keys p) \<and> nk_key_id k = i"
  unfolding native_key_of_def by (auto dest: map_of_SomeD)

lemma check_native_signature_endorses:
  assumes "check_native_signature c x i previous s k = Inr ()" "native_key_of (cx_policy x) (sg_key_id s) = Some k"
    and "validate_native_key c k start stop = Inr ()"
  shows "native_endorses c x (if i = 1 then ''independent-reviewer'' else ''lab-observer'') s k"
    and "\<And>j t. previous = Some (j, t) \<Longrightarrow>
      nk_principal k \<noteq> nk_principal j \<and> nk_organization k \<noteq> nk_organization j \<and> t < canonical_time (sg_signed_at s)"
proof -
  note checks = assms(1) [unfolded check_native_signature_def Let_def first_error_Cons_ok require_ok]
  show "native_endorses c x (if i = 1 then ''independent-reviewer'' else ''lab-observer'') s k"
    using checks native_key_of_member [OF assms(2)] native_scope_contains [OF assms(3)]
    unfolding native_endorses_def Let_def not_less by blast
  show "nk_principal k \<noteq> nk_principal j \<and> nk_organization k \<noteq> nk_organization j \<and> t < canonical_time (sg_signed_at s)"
    if "previous = Some (j, t)" for j t
    using checks that by simp
qed

text \<open>An observer signs first, and a reviewer of another organization after that.\<close>

definition observed_and_reviewed :: "crypto \<Rightarrow> native_context \<Rightarrow> signature_item list \<Rightarrow> bool" where
  "observed_and_reviewed c x ss \<longleftrightarrow>
     (\<exists>s t observer reviewer. ss = [s, t] \<and>
        native_endorses c x ''lab-observer'' s observer \<and> native_endorses c x ''independent-reviewer'' t reviewer \<and>
        nk_principal reviewer \<noteq> nk_principal observer \<and> nk_organization reviewer \<noteq> nk_organization observer \<and>
        canonical_time (sg_signed_at s) < canonical_time (sg_signed_at t))"

lemma verify_native_signatures_ok:
  assumes "verify_native_signatures c x ss = Inr ()"
    and keys: "\<forall>k \<in> set (np_keys (cx_policy x)). validate_native_key c k start stop = Inr ()"
  shows "observed_and_reviewed c x ss"
proof -
  from assms(1) have "length ss = 2" and loop: "check_native_signers c x 0 None ss = Inr ()"
    by (auto simp: verify_native_signatures_def split: if_splits)
  then obtain s t where ss: "ss = [s, t]" by (auto simp: length_Suc_conv numeral_2_eq_2)
  with loop obtain j k where
    j: "native_key_of (cx_policy x) (sg_key_id s) = Some j" "check_native_signature c x 0 None s j = Inr ()"
    and k: "native_key_of (cx_policy x) (sg_key_id t) = Some k"
      "check_native_signature c x 1 (Some (j, canonical_time (sg_signed_at s))) t k = Inr ()"
    by (auto simp: bind_result_ok split: option.splits)
  have "validate_native_key c j start stop = Inr ()" "validate_native_key c k start stop = Inr ()"
    using keys native_key_of_member [OF j(1)] native_key_of_member [OF k(1)] by blast+
  with check_native_signature_endorses [OF j(2,1)] check_native_signature_endorses [OF k(2,1)] ss
  show ?thesis unfolding observed_and_reviewed_def by fastforce
qed

text \<open>A snapshot stands for a file that was read with the declared digest and size.\<close>

definition read_as :: "crypto \<Rightarrow> native_world \<Rightarrow> nat \<Rightarrow> artifact_snapshot \<Rightarrow> bool" where
  "read_as c w n s \<longleftrightarrow>
     (\<exists>info. hash_artifact c (nw_hash w n (ai_path (as_input s))) = Some (na_sha256 (as_item s), na_size (as_item s), info) \<and>
        same_file (as_info s) info)"

lemma check_hashed_ok:
  assumes "check_hashed input item amount before hashed = Inr s"
  shows "\<exists>info. hashed = Some (na_sha256 item, na_size item, info)  \<and> s = \<lparr>as_input = input, as_item = item, as_info = info\<rparr>"
    and "na_sha256 item \<notin> na_sha256 ` as_item ` set before"
  using assms by (auto simp: check_hashed_def list_ex_iff split: option.splits prod.splits if_splits)

lemma check_artifact_inputs_ok:
  assumes "check_artifact_inputs c w n i amount before rest = Inr ss"
    and "distinct (map (\<lambda>s. na_sha256 (as_item s)) before)"
  shows "\<exists>more. ss = before @ more \<and> map (\<lambda>s. (as_input s, as_item s)) more = rest \<and>
    (\<forall>j < length more. read_as c w (n + j) (more ! j)) \<and> distinct (map (\<lambda>s. na_sha256 (as_item s)) ss)"
  using assms
proof (induction c w n i amount before rest rule: check_artifact_inputs.induct)
  case (2 c w n i amount before input item rest)
  then obtain s where s: "check_hashed input item amount before (hash_artifact c (nw_hash w n (ai_path input))) = Inr s"
    and rest: "check_artifact_inputs c w (Suc n) (Suc i) (amount + na_size item) (before @ [s]) rest = Inr ss"
    by (auto simp: bind_result_ok split: if_splits)
  from check_hashed_ok [OF s] have item: "as_input s = input" "as_item s = item" and first: "read_as c w n s"
    and new: "na_sha256 item \<notin> na_sha256 ` as_item ` set before"
    by (auto simp: read_as_def same_file_def)
  have "distinct (map (\<lambda>s. na_sha256 (as_item s)) (before @ [s]))" using 2(3) new item by (auto simp: comp_def)
  moreover have "\<not> (ai_kind input \<noteq> na_kind item \<or> \<not> prefix ''/'' (ai_path input))" using 2(2) by (auto split: if_splits)
  ultimately obtain more where more: "ss = (before @ [s]) @ more" "map (\<lambda>s. (as_input s, as_item s)) more = rest"
    "\<forall>j < length more. read_as c w (Suc n + j) (more ! j)" "distinct (map (\<lambda>s. na_sha256 (as_item s)) ss)"
    using 2(1) [OF _ rest] by blast
  have "\<forall>j < length (s # more). read_as c w (n + j) ((s # more) ! j)"
    using first more(3) by (auto simp: less_Suc_eq_0_disj nth_Cons')
  with more item show ?case by (intro exI [of _ "s # more"]) simp
qed simp

lemma recheck_artifacts_ok:
  "recheck_artifacts c w n ss = Inr () \<Longrightarrow> \<forall>j < length ss. read_as c w (n + j) (ss ! j)"
proof (induction c w n ss rule: recheck_artifacts.induct)
  case (2 c w n s ss)
  then have "read_as c w n s" "recheck_artifacts c w (Suc n) ss = Inr ()"
    by (auto simp: read_as_def split: option.splits if_splits)
  moreover from this(2) 2 have "\<forall>j < length ss. read_as c w (Suc n + j) (ss ! j)"
    by (auto split: option.splits if_splits)
  ultimately show ?case by (auto simp: less_Suc_eq_0_disj)
qed simp

lemma verify_artifacts_ok:
  assumes "verify_artifacts c w n inputs declared = Inr ss"
  shows "map (\<lambda>s. (as_input s, as_item s)) ss = zip inputs declared" "length inputs = length declared"
    "\<forall>j < length ss. read_as c w (n + j) (ss ! j)" "distinct (map (\<lambda>s. na_sha256 (as_item s)) ss)"
  using assms check_artifact_inputs_ok [of c w n 0 0 "[]" "zip inputs declared" ss]
  by (auto simp: verify_artifacts_def split: if_splits)

lemma retain_artifacts_ok:
  assumes "retain_artifacts c w inputs x ss = Inr ()"
  shows "verify_native_signatures c x ss = Inr ()"
    "\<exists>snapshots. verify_artifacts c w 0 inputs (ob_artifacts (cx_observation x)) = Inr snapshots \<and>
      recheck_artifacts c w (length snapshots) snapshots = Inr ()"
  using assms unfolding retain_artifacts_def by (auto simp: bind_result_ok map_error_ok split: if_splits)

lemma verify_observation_at_cases:
  assumes "verify_observation_at n w data inputs expected policy now = Inr r"
  obtains p e bytes v where
    "policy = Some p" "validate_native_policy (nc_crypto n) p = Inr ()" "parse_native_envelope n data = Inr (e, bytes, v)"
    "matches_expected p expected v" "check_native_windows p v now = Inr ()"
    "retain_artifacts (nc_crypto n) w inputs
       \<lparr>cx_policy = p, cx_bytes = bytes, cx_observation = v, cx_now = now\<rparr> (en_signatures e) = Inr ()"
    "r = \<lparr>vo_valid = True, vo_kind = ob_kind v, vo_cell = ob_cell v, vo_release = ob_release v,
            vo_package = ob_package v, vo_policy_id = ob_policy_id v, vo_policy_digest = native_policy_digest n p,
            vo_id = ob_id v, vo_run_id = ob_run_id v, vo_machine = ob_machine v, vo_challenge = ob_challenge v,
            vo_payload_sha256 = sha256_hex (nc_crypto n) bytes, vo_created = canonical_time (ob_created_at v),
            vo_expires = canonical_time (ob_expires_at v), vo_verified = now, vo_inputs = inputs,
            vo_artifacts = ob_artifacts v\<rparr>"
  using assms unfolding verify_observation_at_def
  by (auto simp: bind_result_ok map_error_ok split: option.splits prod.splits if_splits)

text \<open>Two readings of every raw file, one before and one after the signatures are checked.\<close>

definition retained :: "crypto \<Rightarrow> native_world \<Rightarrow> artifact_input list \<Rightarrow> native_artifact list \<Rightarrow> bool" where
  "retained c w inputs declared \<longleftrightarrow>
     length inputs = length declared \<and> distinct (map na_sha256 declared) \<and>
     (\<forall>j < length declared. \<exists>before after.
        hash_artifact c (nw_hash w j (ai_path (inputs ! j))) = Some (na_sha256 (declared ! j), na_size (declared ! j), before) \<and>
        hash_artifact c (nw_hash w (length declared + j) (ai_path (inputs ! j))) =
          Some (na_sha256 (declared ! j), na_size (declared ! j), after) \<and> same_file before after)"

lemma snapshots_retained:
  assumes "verify_artifacts c w 0 inputs declared = Inr ss" "recheck_artifacts c w (length ss) ss = Inr ()"
  shows "retained c w inputs declared"
proof -
  note first = verify_artifacts_ok [OF assms(1)] and second = recheck_artifacts_ok [OF assms(2)]
  have len: "length ss = length declared" using arg_cong [OF first(1), of length] first(2) by simp
  have items: "as_input (ss ! j) = inputs ! j \<and> as_item (ss ! j) = declared ! j" if "j < length declared" for j
  proof -
    have "map (\<lambda>s. (as_input s, as_item s)) ss ! j = (inputs ! j, declared ! j)"
      unfolding first(1) using that first(2) by simp
    with that len show ?thesis by simp
  qed
  have "map as_item ss = declared" using items len by (intro nth_equalityI) auto
  then have "distinct (map na_sha256 declared)" using first(4) by (metis (mono_tags, lifting) map_map comp_def map_eq_conv)
  moreover have "\<exists>before after.
        hash_artifact c (nw_hash w j (ai_path (inputs ! j))) = Some (na_sha256 (declared ! j), na_size (declared ! j), before) \<and>
        hash_artifact c (nw_hash w (length declared + j) (ai_path (inputs ! j))) =
          Some (na_sha256 (declared ! j), na_size (declared ! j), after) \<and> same_file before after"
    if j: "j < length declared" for j
  proof -
    have "read_as c w j (ss ! j)" "read_as c w (length declared + j) (ss ! j)"
      using first(3) second j len by auto
    with items [OF j] show ?thesis by (auto simp: read_as_def same_file_def)
  qed
  ultimately show ?thesis using first(2) by (simp add: retained_def)
qed

text \<open>C6. A verified observation is what the verifier asked for, signed twice and kept. The envelope and
  the payload are the one canonical text of what they say; the policy is provisioned; every selected
  field agrees; an observer signed first and a reviewer of another principal and organization after it,
  both with unrevoked keys in scope and in date over exactly the payload; and each raw artifact was read
  with the signed digest, from the same file, both before and after the signatures were checked.\<close>

theorem observation_authenticated:
  assumes "verify_observation_at n w data inputs expected policy now = Inr r"
  shows "\<exists>p e v. policy = Some p \<and> np_status p = ''provisioned'' \<and> data = nc_envelope_text n e \<and>
    validate_observation v = Inr () \<and> matches_expected p expected v \<and> vo_release r = eo_release expected \<and>
    vo_cell r = eo_cell expected \<and> vo_challenge r = eo_challenge expected \<and>
    observed_and_reviewed (nc_crypto n)
      \<lparr>cx_policy = p, cx_bytes = nc_observation_text n v, cx_observation = v, cx_now = now\<rparr> (en_signatures e) \<and>
    retained (nc_crypto n) w inputs (ob_artifacts v) \<and> vo_artifacts r = ob_artifacts v \<and>
    vo_created r \<le> now \<and> now < vo_expires r"
proof -
  from verify_observation_at_cases [OF assms] obtain p e bytes v where
    p: "policy = Some p" "validate_native_policy (nc_crypto n) p = Inr ()"
    and parsed: "parse_native_envelope n data = Inr (e, bytes, v)" and expected: "matches_expected p expected v"
    and windows: "check_native_windows p v now = Inr ()"
    and kept: "retain_artifacts (nc_crypto n) w inputs
       \<lparr>cx_policy = p, cx_bytes = bytes, cx_observation = v, cx_now = now\<rparr> (en_signatures e) = Inr ()"
    and r: "vo_cell r = ob_cell v" "vo_release r = ob_release v" "vo_challenge r = ob_challenge v"
      "vo_artifacts r = ob_artifacts v" "vo_created r = canonical_time (ob_created_at v)"
      "vo_expires r = canonical_time (ob_expires_at v)" by (metis verified_observation.select_convs)
  note w = windows [unfolded check_native_windows_def Let_def first_error_Cons_ok require_ok not_less]
  from w have active: "np_status p = ''provisioned''" by blast
  from active_policy_keys [OF p(2) active] obtain start stop where
    "\<forall>k \<in> set (np_keys p). validate_native_key (nc_crypto n) k start stop = Inr ()" by metis
  with verify_native_signatures_ok [OF retain_artifacts_ok(1) [OF kept]] have
    "observed_and_reviewed (nc_crypto n)
      \<lparr>cx_policy = p, cx_bytes = bytes, cx_observation = v, cx_now = now\<rparr> (en_signatures e)" by simp
  moreover have "retained (nc_crypto n) w inputs (ob_artifacts v)"
    using retain_artifacts_ok(2) [OF kept] snapshots_retained by auto
  ultimately show ?thesis
    using p(1) active parse_native_envelope_ok [OF parsed] expected r w
    by (intro exI [of _ p] exI [of _ e] exI [of _ v]) (auto simp: matches_expected_def)
qed

section \<open>What a complete set is\<close>

definition current_item ::
    "native_codec \<Rightarrow> native_world \<Rightarrow> string \<Rightarrow> native_policy \<Rightarrow> go_time \<Rightarrow> release_binding \<Rightarrow> verified_observation \<Rightarrow> bool" where
  "current_item n w kind p now r v \<longleftrightarrow>
     vo_valid v \<and> vo_kind v = kind \<and> vo_policy_id v = np_id p \<and> vo_policy_digest v = native_policy_digest n p \<and>
     vo_created v \<le> now \<and> vo_verified v \<le> now \<and> now < vo_expires v \<and> same_release (vo_release v) r \<and>
     (\<exists>m. reread_artifacts (nc_crypto n) w m v = Inr ())"

definition all_different :: "string \<Rightarrow> verified_observation list \<Rightarrow> bool" where
  "all_different kind vs \<longleftrightarrow>
     distinct (map vo_cell vs) \<and> distinct (map vo_id vs) \<and> distinct (map vo_run_id vs) \<and> distinct (map vo_challenge vs) \<and>
     (kind = ''package-lifecycle'' \<longrightarrow> distinct (map vo_package vs)) \<and>
     (\<forall>u \<in> set vs. \<forall>v \<in> set vs. target_of u = target_of v \<longrightarrow> vo_release u = vo_release v)"

text \<open>The loop keeps the observations seen apart, each in the slot of its cell.\<close>

definition set_invariant ::
    "native_codec \<Rightarrow> native_world \<Rightarrow> string \<Rightarrow> native_policy \<Rightarrow> go_time \<Rightarrow> verified_observation \<Rightarrow> set_progress \<Rightarrow> bool" where
  "set_invariant n w kind p now first s \<longleftrightarrow>
     length (sp_ordered s) = length (expected_cells kind) \<and> all_different kind (sp_seen s) \<and>
     (\<forall>v \<in> set (sp_seen s). current_item n w kind p now (vo_release first) v) \<and>
     (\<forall>v \<in> set (sp_seen s). map_of (sp_targets s) (target_of v) = Some (vo_release v)) \<and>
     (\<forall>v \<in> set (sp_seen s). \<exists>j < length (expected_cells kind).
        expected_cells kind ! j = vo_cell v \<and> sp_ordered s ! j = v)"

lemma cell_index_ok: "cell_index cells c = Some j \<Longrightarrow> j < length cells \<and> cells ! j = c"
  by (auto simp: cell_index_def find_Some_iff)

lemma all_different_snoc:
  assumes "all_different kind vs"
    and "\<And>u. u \<in> set vs \<Longrightarrow> vo_cell u \<noteq> vo_cell v \<and> vo_id u \<noteq> vo_id v \<and> vo_run_id u \<noteq> vo_run_id v \<and>
      vo_challenge u \<noteq> vo_challenge v"
    and "\<And>u. kind = ''package-lifecycle'' \<Longrightarrow> u \<in> set vs \<Longrightarrow> vo_package u \<noteq> vo_package v"
    and "\<And>u. u \<in> set vs \<Longrightarrow> target_of u = target_of v \<Longrightarrow> vo_release u = vo_release v"
  shows "all_different kind (vs @ [v])"
proof -
  have snoc: "distinct (map f (vs @ [v]))" if "distinct (map f vs)" "\<And>u. u \<in> set vs \<Longrightarrow> f u \<noteq> f v"
    for f :: "verified_observation \<Rightarrow> 'b"
    using that by (auto, metis)
  have "\<forall>u \<in> set (vs @ [v]). \<forall>u' \<in> set (vs @ [v]). target_of u = target_of u' \<longrightarrow> vo_release u = vo_release u'"
    using assms(1,4) unfolding all_different_def set_append by (metis Un_iff empty_iff list.set(1) set_ConsD)
  with assms show ?thesis unfolding all_different_def by (blast intro: snoc)
qed

lemma set_step_ok:
  assumes "set_step n w kind p now first s i v = Inr s'" and inv: "set_invariant n w kind p now first s"
  shows "set_invariant n w kind p now first s'" and "sp_seen s' = sp_seen s @ [v]"
proof -
  from assms(1) obtain j where check: "check_set_item kind p (native_policy_digest n p) now first s i v = Inr ()"
    and j: "cell_index (expected_cells kind) (vo_cell v) = Some j"
    and reread: "reread_artifacts (nc_crypto n) w (sp_hashed s) v = Inr ()"
    and s': "s' = \<lparr>sp_seen = sp_seen s @ [v], sp_targets = (target_of v, vo_release v) # sp_targets s,
                  sp_ordered = (sp_ordered s)[j := v], sp_hashed = sp_hashed s + 2 * length (vo_artifacts v)\<rparr>"
    unfolding set_step_def by (auto simp: bind_result_ok map_error_ok split: option.splits)
  show "sp_seen s' = sp_seen s @ [v]" by (simp add: s')
  note c = check [unfolded check_set_item_def first_error_Cons_ok require_ok]
  from cell_index_ok [OF j] have slot: "j < length (expected_cells kind)" "expected_cells kind ! j = vo_cell v" by blast+
  have new: "vo_cell u \<noteq> vo_cell v \<and> vo_id u \<noteq> vo_id v \<and> vo_run_id u \<noteq> vo_run_id v \<and> vo_challenge u \<noteq> vo_challenge v"
    if "u \<in> set (sp_seen s)" for u
    using c that by (auto simp: repeats_def list_ex_iff)
  have package: "kind = ''package-lifecycle'' \<Longrightarrow> u \<in> set (sp_seen s) \<Longrightarrow> vo_package u \<noteq> vo_package v" for u
    using c by (auto simp: list_ex_iff)
  have agree: "vo_release u = vo_release v" if "u \<in> set (sp_seen s)" "target_of u = target_of v" for u
    using c that inv by (auto simp: set_invariant_def split: option.splits)
  have "all_different kind (sp_seen s @ [v])"
    using inv new package agree by (intro all_different_snoc) (auto simp: set_invariant_def)
  moreover have "current_item n w kind p now (vo_release first) v"
    using c reread by (auto simp: current_item_def not_less)
  moreover have "\<forall>u \<in> set (sp_seen s @ [v]). \<exists>i < length (expected_cells kind).
      expected_cells kind ! i = vo_cell u \<and> (sp_ordered s)[j := v] ! i = u"
  proof
    fix u assume "u \<in> set (sp_seen s @ [v])"
    then consider "u = v" | "u \<in> set (sp_seen s)" by auto
    then show "\<exists>i < length (expected_cells kind). expected_cells kind ! i = vo_cell u \<and> (sp_ordered s)[j := v] ! i = u"
    proof cases
      case 1
      then show ?thesis using slot inv by (intro exI [of _ j]) (simp add: set_invariant_def)
    next
      case 2
      with inv obtain i where "i < length (expected_cells kind)" "expected_cells kind ! i = vo_cell u" "sp_ordered s ! i = u"
        by (auto simp: set_invariant_def)
      moreover from this slot new [OF 2] have "i \<noteq> j" by auto
      ultimately show ?thesis by auto
    qed
  qed
  moreover have "\<forall>u \<in> set (sp_seen s @ [v]).
      map_of ((target_of v, vo_release v) # sp_targets s) (target_of u) = Some (vo_release u)"
    using inv agree by (auto simp: set_invariant_def)
  ultimately show "set_invariant n w kind p now first s'"
    using inv unfolding set_invariant_def s' set_progress.select_convs length_list_update by simp
qed

lemma set_loop_ok:
  "set_loop n w kind p now first s i vs = Inr s' \<Longrightarrow> set_invariant n w kind p now first s \<Longrightarrow>
     set_invariant n w kind p now first s' \<and> sp_seen s' = sp_seen s @ vs"
proof (induction vs arbitrary: s i)
  case (Cons v vs)
  from Cons.prems(1) obtain t where t: "set_step n w kind p now first s i v = Inr t"
    "set_loop n w kind p now first t (Suc i) vs = Inr s'" by (auto simp: bind_result_ok)
  from set_step_ok [OF t(1) Cons.prems(2)] Cons.IH [OF t(2)] show ?case by simp
qed simp

lemma ordered_cells:
  assumes "set_invariant n w kind p now first s" "length (sp_seen s) = length (expected_cells kind)"
  shows "map vo_cell (sp_ordered s) = expected_cells kind" "mset (sp_ordered s) = mset (sp_seen s)"
proof -
  let ?cells = "expected_cells kind"
  from assms(1) have len: "length (sp_ordered s) = length ?cells" and distinct: "distinct (map vo_cell (sp_seen s))"
    and slots: "\<forall>v \<in> set (sp_seen s). \<exists>j < length ?cells. ?cells ! j = vo_cell v \<and> sp_ordered s ! j = v"
    by (auto simp: set_invariant_def all_different_def)
  from slots have "set (map vo_cell (sp_seen s)) \<subseteq> set ?cells" by (auto, metis nth_mem)
  moreover have "card (set (map vo_cell (sp_seen s))) = card (set ?cells)"
    using distinct_card [OF distinct] distinct_card [OF native_cells_distinct] assms(2) by simp
  ultimately have all: "set (map vo_cell (sp_seen s)) = set ?cells" by (simp add: card_subset_eq)
  have filled: "vo_cell (sp_ordered s ! j) = ?cells ! j \<and> sp_ordered s ! j \<in> set (sp_seen s)" if j: "j < length ?cells" for j
  proof -
    from j all obtain v where "v \<in> set (sp_seen s)" "vo_cell v = ?cells ! j" by (metis imageE list.set_map nth_mem)
    with slots obtain i where "i < length ?cells" "?cells ! i = ?cells ! j" "sp_ordered s ! i = v" by metis
    with j nth_eq_iff_index_eq [OF native_cells_distinct] \<open>v \<in> _\<close> \<open>vo_cell v = _\<close> show ?thesis by metis
  qed
  then show cells: "map vo_cell (sp_ordered s) = ?cells" using len by (intro nth_equalityI) auto
  have sub: "set (sp_ordered s) \<subseteq> set (sp_seen s)" using filled len by (auto simp: in_set_conv_nth)
  have "set (sp_seen s) \<subseteq> set (sp_ordered s)" using slots len by (metis nth_mem subsetI)
  moreover have "distinct (sp_seen s)" using distinct by (simp add: distinct_map)
  moreover have "distinct (sp_ordered s)"
    using native_cells_distinct [of kind] unfolding cells [symmetric] by (simp add: distinct_map)
  ultimately show "mset (sp_ordered s) = mset (sp_seen s)" using sub by (simp add: set_eq_iff_mset_eq_distinct [symmetric])
qed

text \<open>C11. A complete set covers the inventory exactly. Its observations are a reordering of the ones given,
  one for each fixed cell in the fixed order; no observation, run or challenge occurs twice, and no
  package when packages are observed; all belong to one release, and to one archive and executable for
  each target; each is valid, in date, verified no later than now under this very policy, and its raw
  artifacts were read again with the signed digests.\<close>

theorem complete_set_covers:
  assumes "verify_complete_set_at n w kind vs policy now = Inr s"
  shows "map vo_cell (ns_observations s) = expected_cells kind \<and> expected_cells kind \<noteq> [] \<and>
    mset (ns_observations s) = mset vs \<and> all_different kind vs \<and>
    (\<exists>p. policy = Some p \<and> np_status p = ''provisioned'' \<and>
      (\<forall>v \<in> set vs. current_item n w kind p now (vo_release (hd vs)) v \<and>
         rl_version (vo_release v) = ns_version s \<and> rl_commit (vo_release v) = ns_commit s))"
proof -
  from assms obtain p t where p: "policy = Some p" "check_set_policy n p now = Inr ()"
    and cells: "expected_cells kind \<noteq> []" "length vs = length (expected_cells kind)"
    and loop: "set_loop n w kind p now (vs ! 0) (set_start kind) 0 vs = Inr t"
    and full: "length (sp_seen t) = length (expected_cells kind)"
    and s: "s = \<lparr>ns_valid = True, ns_kind = kind, ns_version = rl_version (vo_release (vs ! 0)),
       ns_commit = rl_commit (vo_release (vs ! 0)), ns_tree = rl_tree (vo_release (vs ! 0)),
       ns_release_id = rl_release_id (vo_release (vs ! 0)), ns_policy_id = np_id p, ns_observations = sp_ordered t\<rparr>"
    unfolding verify_complete_set_at_def by (auto simp: bind_result_ok Let_def split: option.splits if_splits)
  have "set_invariant n w kind p now (vs ! 0) (set_start kind)"
    by (simp add: set_invariant_def set_start_def all_different_def)
  from set_loop_ok [OF loop this] have inv: "set_invariant n w kind p now (vs ! 0) t" and seen: "sp_seen t = vs"
    by (simp_all add: set_start_def)
  have "vs \<noteq> []" using cells by auto
  then have hd: "hd vs = vs ! 0" by (rule hd_conv_nth)
  have items: "\<forall>v \<in> set vs. current_item n w kind p now (vo_release (vs ! 0)) v" "all_different kind vs"
    using inv seen by (auto simp: set_invariant_def)
  moreover have "\<forall>v \<in> set vs. rl_version (vo_release v) = ns_version s \<and> rl_commit (vo_release v) = ns_commit s"
    using items(1) by (auto simp: current_item_def same_release_def s)
  moreover have "np_status p = ''provisioned''"
    using p(2) [unfolded check_set_policy_def first_error_Cons_ok require_ok] by blast
  ultimately show ?thesis
    using ordered_cells [OF inv full] cells(1) p(1) seen by (simp add: hd s)
qed

end
