(* ===== verification/Review_Independence.thy ===== *)
theory Review_Independence
  imports Signed_Promotion Native_Verify
begin

text \<open>
  What the two verifiers of signed reviews promise alike (\<open>VerifySetAt\<close> of \<open>internal/evidencev2\<close> and
  \<open>VerifyObservationAt\<close> of \<open>internal/productionnative\<close>), as one interface: whatever is accepted was
  signed by people who do not depend on each other.
\<close>

section \<open>The interface\<close>

text \<open>A verifier accepts some submissions; a key has signed a submission when its signature verifies.\<close>

locale independent_review =
  fixes accepted :: "'submission \<Rightarrow> bool"
    and signed_by :: "'submission \<Rightarrow> 'person \<Rightarrow> bool"
    and role :: "'person \<Rightarrow> string"
    and principal :: "'person \<Rightarrow> string"
    and organization :: "'person \<Rightarrow> string"
  assumes reviewed: "accepted x \<Longrightarrow>
    \<exists>j k. signed_by x j \<and> signed_by x k \<and> role j = ''lab-observer'' \<and> role k = ''independent-reviewer'' \<and>
      principal j \<noteq> principal k \<and> organization j \<noteq> organization k"
begin

lemma no_single_organization:
  assumes "\<And>k. signed_by x k \<Longrightarrow> organization k = someone"
  shows "\<not> accepted x"
  using reviewed [of x] assms by metis

lemma no_single_principal:
  assumes "\<And>k. signed_by x k \<Longrightarrow> principal k = someone"
  shows "\<not> accepted x"
  using reviewed [of x] assms by metis

lemma needs_reviewer:
  assumes "\<And>k. signed_by x k \<Longrightarrow> role k \<noteq> ''independent-reviewer''"
  shows "\<not> accepted x"
  using reviewed [of x] assms by metis

end

text \<open>Acceptance that also looks at a clock: outside of the time in which a key's signature counts, a
  submission is not accepted.\<close>

locale timed_review = independent_review accepted signed_by role principal organization
  for accepted :: "'submission \<Rightarrow> bool" and signed_by :: "'submission \<Rightarrow> 'person \<Rightarrow> bool"
    and role :: "'person \<Rightarrow> string" and principal :: "'person \<Rightarrow> string" and organization :: "'person \<Rightarrow> string" +
  fixes clock :: "'submission \<Rightarrow> go_time"
    and ends :: "'person \<Rightarrow> go_time"
    and revoked :: "'person \<Rightarrow> bool"
  assumes in_time: "accepted x \<Longrightarrow> signed_by x k \<Longrightarrow> clock x < ends k \<and> \<not> revoked k"
begin

lemma expired_keys_reject:
  assumes "\<And>k. signed_by x k \<Longrightarrow> ends k \<le> clock x"
  shows "\<not> accepted x"
  using reviewed [of x] in_time [of x] assms by (meson not_le)

lemma revocation_rejects:
  assumes "signed_by x k" "revoked k"
  shows "\<not> accepted x"
  using in_time assms by blast

end

section \<open>Signed evidence sets\<close>

text \<open>A submission is the arguments of \<open>VerifySetAt\<close> that evidence and application supply.\<close>

record set_submission =
  ss_crypto :: crypto
  ss_env :: evaluation_env
  ss_envelope :: string
  ss_records :: record_bytes
  ss_expected :: expected_cell
  ss_verifications :: verification_set
  ss_policy :: "trust_policy option"
  ss_now :: go_time

definition set_accepted :: "set_submission \<Rightarrow> bool" where
  "set_accepted x \<longleftrightarrow>
     (case verify_set_at (ss_crypto x) (ss_env x) (ss_envelope x) (ss_records x) (ss_expected x) (ss_verifications x)
        (ss_policy x) (ss_now x) of Inr _ \<Rightarrow> True | Inl _ \<Rightarrow> False)"

definition set_signed_by :: "set_submission \<Rightarrow> trusted_key \<Rightarrow> bool" where
  "set_signed_by x k \<longleftrightarrow>
     (case (ss_policy x, parse_envelope (ss_crypto x) (ss_envelope x)) of
        (Some q, Inr (e, bytes, p)) \<Rightarrow>
          k \<in> set (tp_keys q) \<and>
          list_ex (\<lambda>s. sg_key_id s = tk_key_id k \<and> authentic (ss_crypto x) k (en_payload_type e) s bytes) (en_signatures e)
      | _ \<Rightarrow> False)"

lemma list_all2_members:
  assumes "list_all2 P xs ys"
  shows "y \<in> set ys \<Longrightarrow> \<exists>x \<in> set xs. P x y" and "x \<in> set xs \<Longrightarrow> \<exists>y \<in> set ys. P x y"
  using assms by (metis in_set_conv_nth list_all2_conv_all_nth)+

lemma set_accepted_signers:
  assumes "set_accepted x"
  shows "\<exists>j k. set_signed_by x j \<and> set_signed_by x k \<and> tk_role j = ''lab-observer'' \<and>
      tk_role k = ''independent-reviewer'' \<and> tk_principal j \<noteq> tk_principal k \<and> tk_organization j \<noteq> tk_organization k"
    and "set_signed_by x k \<Longrightarrow> ss_now x < canonical_or_zero (tk_not_after k) \<and> \<not> tk_revoked k"
proof -
  from assms obtain r where "verify_set_at (ss_crypto x) (ss_env x) (ss_envelope x) (ss_records x) (ss_expected x)
      (ss_verifications x) (ss_policy x) (ss_now x) = Inr r" by (auto simp: set_accepted_def split: sum.splits)
  from verify_set_at_facts [OF this] obtain q e bytes p ks y host client session where
    q: "ss_policy x = Some q" and parsed: "parse_envelope (ss_crypto x) (ss_envelope x) = Inr (e, bytes, p)"
    and y: "y = \<lparr>sc_policy = q, sc_payload_type = en_payload_type e, sc_bytes = bytes, sc_payload = p,
       sc_records = [host, client, session], sc_now = ss_now x\<rparr>"
    and signed: "list_all2 (endorses (ss_crypto x) y) (en_signatures e) ks" and quorum: "has_independent_quorum ks"
    and keys: "distinct (map tk_key_id (tp_keys q))" and window: "payload_window p (ss_now x) = Inr ()" by metis
  have by_key: "set_signed_by x k \<longleftrightarrow> k \<in> set (tp_keys q) \<and>
      (\<exists>s \<in> set (en_signatures e). sg_key_id s = tk_key_id k \<and> authentic (ss_crypto x) k (en_payload_type e) s bytes)" for k
    by (simp add: set_signed_by_def q parsed list_ex_iff)
  have "set_signed_by x k" if "k \<in> set ks" for k
    using list_all2_members(1) [OF signed that] by (auto simp: by_key endorses_def Let_def y)
  with quorum show "\<exists>j k. set_signed_by x j \<and> set_signed_by x k \<and> tk_role j = ''lab-observer'' \<and>
      tk_role k = ''independent-reviewer'' \<and> tk_principal j \<noteq> tk_principal k \<and> tk_organization j \<noteq> tk_organization k"
    unfolding independent_quorum_iff by blast
  assume "set_signed_by x k"
  then obtain s where k: "k \<in> set (tp_keys q)" and s: "s \<in> set (en_signatures e)" "sg_key_id s = tk_key_id k"
    by (auto simp: by_key)
  from list_all2_members(2) [OF signed s(1)] obtain k' where k': "endorses (ss_crypto x) y s k'" by blast
  then have "k' \<in> set (tp_keys q)" "tk_key_id k' = tk_key_id k" using s(2) by (auto simp: endorses_def Let_def y)
  with keys k have "k' = k" by (auto simp: distinct_map dest: inj_onD)
  moreover have "ss_now x < canonical_or_zero (pl_expires_at p)"
    using window [unfolded payload_window_def first_error_Cons_ok require_ok] by blast
  ultimately show "ss_now x < canonical_or_zero (tk_not_after k) \<and> \<not> tk_revoked k"
    using k' by (auto simp: endorses_def Let_def y)
qed

interpretation signed_sets: timed_review set_accepted set_signed_by tk_role tk_principal tk_organization
    ss_now "\<lambda>k. canonical_or_zero (tk_not_after k)" tk_revoked
  by unfold_locales (use set_accepted_signers in blast)+

section \<open>Native observations\<close>

record native_submission =
  sn_codec :: native_codec
  sn_world :: native_world
  sn_envelope :: string
  sn_inputs :: "artifact_input list"
  sn_expected :: expected_observation
  sn_policy :: "native_policy option"
  sn_now :: go_time

definition native_accepted :: "native_submission \<Rightarrow> bool" where
  "native_accepted x \<longleftrightarrow>
     (case verify_observation_at (sn_codec x) (sn_world x) (sn_envelope x) (sn_inputs x) (sn_expected x) (sn_policy x)
        (sn_now x) of Inr _ \<Rightarrow> True | Inl _ \<Rightarrow> False)"

definition native_signed_by :: "native_submission \<Rightarrow> native_key \<Rightarrow> bool" where
  "native_signed_by x k \<longleftrightarrow>
     (case (sn_policy x, parse_native_envelope (sn_codec x) (sn_envelope x)) of
        (Some p, Inr (e, bytes, v)) \<Rightarrow>
          k \<in> set (np_keys p) \<and>
          list_ex (\<lambda>s. sg_key_id s = nk_key_id k \<and> native_authentic (nc_crypto (sn_codec x)) k s bytes) (en_signatures e)
      | _ \<Rightarrow> False)"

lemma native_accepted_signers:
  assumes "native_accepted x"
  shows "\<exists>j k. native_signed_by x j \<and> native_signed_by x k \<and> nk_role j = ''lab-observer'' \<and>
      nk_role k = ''independent-reviewer'' \<and> nk_principal j \<noteq> nk_principal k \<and> nk_organization j \<noteq> nk_organization k"
    and "native_signed_by x k \<Longrightarrow> sn_now x < canonical_time (nk_not_after k) \<and> \<not> nk_revoked k"
proof -
  let ?c = "nc_crypto (sn_codec x)"
  from assms obtain r where "verify_observation_at (sn_codec x) (sn_world x) (sn_envelope x) (sn_inputs x) (sn_expected x)
      (sn_policy x) (sn_now x) = Inr r" by (auto simp: native_accepted_def split: sum.splits)
  from verify_observation_at_cases [OF this] obtain p e bytes v y where
    p: "sn_policy x = Some p" "validate_native_policy ?c p = Inr ()"
    and parsed: "parse_native_envelope (sn_codec x) (sn_envelope x) = Inr (e, bytes, v)"
    and windows: "check_native_windows p v (sn_now x) = Inr ()"
    and y: "y = \<lparr>cx_policy = p, cx_bytes = bytes, cx_observation = v, cx_now = sn_now x\<rparr>"
    and kept: "retain_artifacts ?c (sn_world x) (sn_inputs x) y (en_signatures e) = Inr ()" by metis
  note w = windows [unfolded check_native_windows_def Let_def first_error_Cons_ok require_ok]
  then have "np_status p = ''provisioned''" by blast
  from active_policy_keys [OF p(2) this] obtain start stop where
    valid: "\<forall>k \<in> set (np_keys p). validate_native_key ?c k start stop = Inr ()" and keys: "distinct (map nk_key_id (np_keys p))"
    by metis
  then have "observed_and_reviewed ?c y (en_signatures e)"
    using verify_native_signatures_ok [OF retain_artifacts_ok(1) [OF kept]] by (simp add: y)
  then obtain s t observer reviewer where ss: "en_signatures e = [s, t]"
    and ends: "native_endorses ?c y ''lab-observer'' s observer" "native_endorses ?c y ''independent-reviewer'' t reviewer"
    and different: "nk_principal reviewer \<noteq> nk_principal observer" "nk_organization reviewer \<noteq> nk_organization observer"
    unfolding observed_and_reviewed_def by blast
  have by_key: "native_signed_by x k \<longleftrightarrow> k \<in> set (np_keys p) \<and>
      (\<exists>s \<in> set (en_signatures e). sg_key_id s = nk_key_id k \<and> native_authentic ?c k s bytes)" for k
    by (simp add: native_signed_by_def p(1) parsed list_ex_iff)
  have "native_signed_by x observer" "native_signed_by x reviewer"
    using ends by (auto simp: by_key native_endorses_def Let_def y ss)
  with ends different show "\<exists>j k. native_signed_by x j \<and> native_signed_by x k \<and> nk_role j = ''lab-observer'' \<and>
      nk_role k = ''independent-reviewer'' \<and> nk_principal j \<noteq> nk_principal k \<and> nk_organization j \<noteq> nk_organization k"
    by (intro exI [of _ observer] exI [of _ reviewer]) (simp add: native_endorses_def Let_def)
  assume "native_signed_by x k"
  then obtain u where k: "k \<in> set (np_keys p)" and u: "u \<in> set [s, t]" "sg_key_id u = nk_key_id k"
    by (auto simp: by_key ss)
  from u(1) ends obtain role k' where k': "native_endorses ?c y role u k'" by auto
  then have "k' \<in> set (np_keys p)" "nk_key_id k' = nk_key_id k" using u(2) by (auto simp: native_endorses_def Let_def y)
  with keys k have "k' = k" by (auto simp: distinct_map dest: inj_onD)
  moreover have "sn_now x < canonical_time (ob_expires_at v)" using w by blast
  ultimately show "sn_now x < canonical_time (nk_not_after k) \<and> \<not> nk_revoked k"
    using k' by (auto simp: native_endorses_def Let_def y)
qed

interpretation native_reviews: timed_review native_accepted native_signed_by nk_role nk_principal nk_organization
    sn_now "\<lambda>k. canonical_time (nk_not_after k)" nk_revoked
  by unfold_locales (use native_accepted_signers in blast)+

section \<open>Nobody can review alone\<close>

text \<open>C9. No organization can have its own evidence accepted. When every key whose signature over the
  submission verifies belongs to one organization, or to one person, neither an evidence set nor a
  native observation is accepted, whatever else is submitted.\<close>

theorem no_self_review:
  assumes "\<And>k. set_signed_by x k \<Longrightarrow> tk_organization k = a" and "\<And>k. native_signed_by y k \<Longrightarrow> nk_organization k = a"
  shows "\<not> set_accepted x \<and> \<not> native_accepted y"
  using signed_sets.no_single_organization [OF assms(1)] native_reviews.no_single_organization [OF assms(2)] by blast

text \<open>C18. A revoked or outdated key spoils a set: an envelope that carries a verifying signature of a
  revoked key, or of a key whose validity has ended, is rejected even when enough others have signed.\<close>

theorem revoked_signature_rejects:
  assumes "set_signed_by x k" "tk_revoked k \<or> canonical_or_zero (tk_not_after k) \<le> ss_now x"
  shows "\<not> set_accepted x"
  using assms signed_sets.revocation_rejects signed_sets.in_time by (meson not_le)

text \<open>C16. The application as it ships accepts no reviewed evidence at all: with the compiled-in policies,
  which have no keys, no evidence set, no native observation and no complete set of observations verifies,
  whatever bytes, files, clock and digests there are.\<close>

theorem production_accepts_nothing:
  "verify_set_at c env data b expected v (production_trust_policy c) now \<noteq> Inr s \<and>
   verify_observation_at n w native_data inputs selected (production_native_policy c') now' \<noteq> Inr o1 \<and>
   verify_complete_set_at n w kind vs (production_native_policy c') now' \<noteq> Inr o2"
proof (intro conjI notI)
  assume "verify_set_at c env data b expected v (production_trust_policy c) now = Inr s"
  from verify_set_at_facts [OF this] obtain q where
    "production_trust_policy c = Some q" "tp_status q = ''provisioned''" by metis
  then show False by (auto simp: production_policy_valid production_raw_policy_def)
next
  assume "verify_observation_at n w native_data inputs selected (production_native_policy c') now' = Inr o1"
  from verify_observation_at_cases [OF this] obtain p u where "production_native_policy c' = Some p"
    "check_native_windows p u now' = Inr ()" by metis
  then show False using production_native_unprovisioned
    unfolding check_native_windows_def Let_def first_error_Cons_ok require_ok by fastforce
next
  assume "verify_complete_set_at n w kind vs (production_native_policy c') now' = Inr o2"
  then obtain p where "production_native_policy c' = Some p" "check_set_policy n p now' = Inr ()"
    unfolding verify_complete_set_at_def by (auto simp: bind_result_ok split: option.splits if_splits)
  then show False using production_native_unprovisioned
    unfolding check_set_policy_def first_error_Cons_ok require_ok by fastforce
qed

section \<open>What a signature is of\<close>

text \<open>C19. A signature cannot be moved. The preimage that a reviewer signs determines its payload bytes, the
  key, the signing time and the payload type, and no preimage of an evidence set is one of a native
  observation, for texts of less than \<open>2 ^ 64\<close> bytes (what Go can hold).\<close>

theorem preimage_binds:
  assumes "list_all (\<lambda>s. length s < 2 ^ 64) [pt, k, t, b, pt', k', t', b']"
  shows "(set_preimage pt k t b = set_preimage pt' k' t' b' \<longleftrightarrow> pt = pt' \<and> k = k' \<and> t = t' \<and> b = b') \<and>
    (native_preimage k t b = native_preimage k' t' b' \<longleftrightarrow> k = k' \<and> t = t' \<and> b = b') \<and>
    set_preimage pt k t b \<noteq> native_preimage k' t' b'"
proof -
  define d where "d = ''LeagueBridge/validation-evidence-set/v2'' @ [char_of (0 :: nat)]"
  define d' where "d' = ''LeagueBridge/production-native-observation/v1'' @ [char_of (0 :: nat)]"
  define native where "native = ''leaguebridge.production-native-observation.v1''"
  have domains: "domain_text d" "domain_text d'" unfolding d_def d'_def by code_simp+
  have small: "length native < 2 ^ 64" by (simp add: native_def)
  have different: "d \<noteq> d'" by (simp add: d_def d'_def)
  have set: "set_preimage = (\<lambda>pt. signature_preimage d pt)" and native: "native_preimage = signature_preimage d' native"
    by (simp_all add: fun_eq_iff set_preimage_def native_preimage_def d_def d'_def native_def)
  have "signature_preimage d pt k t b = signature_preimage d pt' k' t' b' \<Longrightarrow> pt = pt' \<and> k = k' \<and> t = t' \<and> b = b'"
    using preimage_inject [OF _ domains(1) domains(1)] assms by blast
  moreover have "signature_preimage d' native k t b = signature_preimage d' native k' t' b' \<Longrightarrow> k = k' \<and> t = t' \<and> b = b'"
    using preimage_inject [OF _ domains(2) domains(2), of native k t b native k' t' b'] assms small by simp
  moreover have "signature_preimage d pt k t b \<noteq> signature_preimage d' native k' t' b'"
    using preimage_inject [OF _ domains, of pt k t b native k' t' b'] assms small different by auto
  ultimately show ?thesis unfolding set native by blast
qed

lemma preimage_binds_witness:
  "set_preimage ''t'' ''k'' ''a'' ''bc'' \<noteq> set_preimage ''t'' ''k'' ''ab'' ''c''"
  using preimage_binds [of "''t''" "''k''" "''a''" "''bc''" "''t''" "''k''" "''ab''" "''c''"] by simp

end
