(* ===== verification/Evidence_Examples.thy ===== *)
theory Evidence_Examples
  imports Evidence_Parse Compat_Authority
begin

text \<open>
  A host, a client and a session record that form a complete chain under the compiled authority, with
  digests that are fixed strings: the hypotheses of the theorems on evaluation can be met.
\<close>

definition hex_of :: "char \<Rightarrow> string" where
  "hex_of c = replicate 64 c"

definition sample_env :: evaluation_env where
  "sample_env =
     \<lparr>compiled_in = compiled_document, json_digest = (\<lambda>_. hex_of (CHR ''a'')),
      record_digest = (\<lambda>r. hex_of (hd (ev_record_type r)))\<rparr>"

definition sample_artifact :: "string \<Rightarrow> artifact" where
  "sample_artifact n =
     \<lparr>artifact_name = n, artifact_sha256 = hex_of (CHR ''b''), artifact_size = 1024, artifact_media_type = ''text/plain''\<rparr>"

definition sample_check :: "string \<Rightarrow> string \<Rightarrow> check" where
  "sample_check observed i =
     \<lparr>check_id = i, check_status = ''pass'', check_method = ''manual'', check_observed_at = observed,
      check_summary = ''observed'', check_artifacts = [sample_artifact i]\<rparr>"

definition sample_attestation :: "string \<Rightarrow> attestation" where
  "sample_attestation reviewed =
     \<lparr>attestation_level = ''lab-observed'', attestation_reviewer = ''reviewer'', attestation_reviewed_at = reviewed,
      attestation_artifacts = [sample_artifact ''review''], attestation_notes = []\<rparr>"

definition sample_record :: "string \<Rightarrow> subject \<Rightarrow> string \<Rightarrow> string \<Rightarrow> string \<Rightarrow> evidence" where
  "sample_record kind s created observed reviewed =
     \<lparr>ev_schema = evidence_schema_id, ev_schema_version = 1, ev_record_id = kind @ ''-'' @ replicate 32 (CHR ''1''),
      ev_record_type = kind, ev_run_id = ''run-'' @ replicate 32 (CHR ''2''), ev_route_id = ''physical-windows-remote'',
      ev_test_profile_id = ''remote-play-v1'', ev_created_at = created, ev_expires_at = ''2026-10-10T00:00:00Z'',
      ev_manifest_as_of = ''2026-09-23'', ev_manifest_sha256 = hex_of (CHR ''a''), ev_tool_version = ''v1.0.0'',
      ev_subject = s, ev_attestation = sample_attestation reviewed, ev_bindings = None, ev_stream_profile = None,
      ev_methodology = None, ev_checks = map (sample_check observed) (the (required_checks kind)), ev_measurements = []\<rparr>"

definition sample_host :: evidence where
  "sample_host =
     sample_record ''host''
       \<lparr>subject_role = ''host'', subject_platform = ''windows'', subject_architecture = ''amd64'',
        subject_environment = ''lab''\<rparr>
       ''2026-09-24T08:00:00Z'' ''2026-09-24T08:00:00Z'' ''2026-09-24T11:00:00Z''"

definition sample_client :: evidence where
  "sample_client =
     sample_record ''client''
       \<lparr>subject_role = ''client'', subject_platform = ''linux'', subject_architecture = ''amd64'',
        subject_environment = ''lab''\<rparr>
       ''2026-09-24T08:00:00Z'' ''2026-09-24T08:00:00Z'' ''2026-09-24T11:00:00Z''"

definition sample_session :: evidence where
  "sample_session =
     (sample_record ''session''
       \<lparr>subject_role = ''session'', subject_platform = ''linux'', subject_architecture = ''amd64'',
        subject_environment = ''lab''\<rparr>
       ''2026-09-24T08:00:00Z'' ''2026-09-24T13:00:00Z'' ''2026-09-24T13:00:00Z'')
     \<lparr>ev_bindings := Some \<lparr>host_record_sha256 = hex_of (CHR ''c''), client_record_sha256 = hex_of (CHR ''d'')\<rparr>,
      ev_stream_profile := Some \<lparr>profile_width = 1920, profile_height = 1080, profile_target_frame_rate = Finite 60,
        profile_codec = ''hevc'', profile_transport = ''wired-lan''\<rparr>,
      ev_methodology := Some \<lparr>methodology_version = ''session-metrics-v1'',
        capture_started_at = ''2026-09-24T12:00:00Z'', capture_ended_at = ''2026-09-24T12:30:00Z'',
        sample_count = 108000, collector_id = ''collector'', collector_version = ''v1'',
        capture_artifact_sha256 = hex_of (CHR ''b'')\<rparr>,
      ev_measurements :=
       [\<lparr>measurement_id = ''session-duration'', measurement_value = Finite 1800, measurement_unit = ''seconds''\<rparr>,
        \<lparr>measurement_id = ''average-frame-rate'', measurement_value = Finite 60, measurement_unit = ''fps''\<rparr>,
        \<lparr>measurement_id = ''encode-latency'', measurement_value = Finite 5, measurement_unit = ''ms''\<rparr>,
        \<lparr>measurement_id = ''network-latency'', measurement_value = Finite 10, measurement_unit = ''ms''\<rparr>,
        \<lparr>measurement_id = ''decode-latency'', measurement_value = Finite 5, measurement_unit = ''ms''\<rparr>,
        \<lparr>measurement_id = ''end-to-end-latency'', measurement_value = Finite 40, measurement_unit = ''ms''\<rparr>,
        \<lparr>measurement_id = ''dropped-frames'', measurement_value = Finite 0, measurement_unit = ''percent''\<rparr>]\<rparr>"

text \<open>The moments of the records.\<close>

lemma sample_times:
  "parse_rfc3339 ''2026-09-24T08:00:00Z'' = Some (Go_Time 63957456000 0, True)"
  "parse_rfc3339 ''2026-09-24T11:00:00Z'' = Some (Go_Time 63957466800 0, True)"
  "parse_rfc3339 ''2026-09-24T12:00:00Z'' = Some (Go_Time 63957470400 0, True)"
  "parse_rfc3339 ''2026-09-24T12:30:00Z'' = Some (Go_Time 63957472200 0, True)"
  "parse_rfc3339 ''2026-09-24T13:00:00Z'' = Some (Go_Time 63957474000 0, True)"
  "parse_rfc3339 ''2026-10-10T00:00:00Z'' = Some (Go_Time 63958809600 0, True)"
  by (simp_all add: parse_rfc3339_def time_parse_date_def dec_value_def digit_value_def byte_def is_digit_def
      valid_civil_def month_lengths_def leap_year_def day_number_def days_before_year_def skip_char_def parse_clock_def
      get_num_def take_fraction_def parse_zone_def)

lemmas sample_defs = sample_record_def sample_attestation_def

lemma sample_identity:
  "validate_identity sample_host = Inr ()" "validate_identity sample_client = Inr ()"
  "validate_identity sample_session = Inr ()"
  by code_simp+

lemma sample_parts:
  "validate_session_parts sample_host = Inr ()" "validate_session_parts sample_client = Inr ()"
  "validate_session_parts sample_session = Inr ()"
  "validate_subject (ev_record_type sample_host) (ev_subject sample_host) (ev_route_id sample_host) = Inr ()"
  "validate_subject (ev_record_type sample_client) (ev_subject sample_client) (ev_route_id sample_client) = Inr ()"
  "validate_subject (ev_record_type sample_session) (ev_subject sample_session) (ev_route_id sample_session) = Inr ()"
  "validate_global_artifact_names sample_host = Inr ()" "validate_global_artifact_names sample_client = Inr ()"
  "validate_global_artifact_names sample_session = Inr ()"
  "validate_measurements (ev_record_type sample_host) (ev_measurements sample_host) = Inr ()"
  "validate_measurements (ev_record_type sample_client) (ev_measurements sample_client) = Inr ()"
  "validate_measurements (ev_record_type sample_session) (ev_measurements sample_session) = Inr ()"
  by code_simp+

lemma sample_tool: "valid_text ''v1.0.0'' 256" "valid_text ''observed'' 1024" "valid_text ''reviewer'' 256"
    "validate_artifacts ''attestation.artifacts'' [sample_artifact ''review''] 1 16 = Inr ()"
    "list_all (\<lambda>i. validate_artifacts (''check '' @ i @ '' artifacts'') [sample_artifact i] 1 16 = Inr ())
       (concat (map (the \<circ> required_checks) [''host'', ''client'', ''session'']))"
  by code_simp+

lemma sample_check_valid:
  assumes "i \<in> set (concat (map (the \<circ> required_checks) [''host'', ''client'', ''session'']))"
    and "parse_rfc3339 observed = Some t"
  shows "validate_check (sample_check observed i) = Inr ()"
proof -
  have "validate_artifacts (''check '' @ i @ '' artifacts'') [sample_artifact i] 1 16 = Inr ()"
    using assms(1) sample_tool(5) by (simp only: list_all_iff)
  with assms(2) show ?thesis
    by (cases t) (simp add: validate_check_def sample_check_def sample_tool parse_timestamp_def del: first_error.simps(2))
qed

lemma sample_checks_loop:
  assumes "set is \<subseteq> set (concat (map (the \<circ> required_checks) [''host'', ''client'', ''session'']))"
    and "set is \<subseteq> set required" "set seen \<inter> set is = {}" "distinct is" "parse_rfc3339 observed = Some t"
  shows "check_checks required seen (map (sample_check observed) is) = Inr ()"
  using assms
proof (induction "is" arbitrary: seen)
  case (Cons i "is")
  then have "validate_check (sample_check observed i) = Inr ()" by (intro sample_check_valid [OF _ Cons.prems(5)]) auto
  with Cons show ?case by (simp add: sample_check_def)
qed simp

lemma sample_checks:
  assumes "k \<in> {''host'', ''client'', ''session''}" and "parse_rfc3339 observed = Some t"
  shows "validate_checks (map (sample_check observed) (the (required_checks k))) (the (required_checks k)) = Inr ()"
proof -
  have "set (the (required_checks k)) \<subseteq> set (concat (map (the \<circ> required_checks) [''host'', ''client'', ''session'']))"
    using assms(1) by auto
  moreover have "distinct (the (required_checks k))"
    using assms(1) required_checks_distinct [of k] by (auto simp: required_checks_def)
  ultimately show ?thesis
    using sample_checks_loop [OF _ _ _ _ assms(2)] by (simp add: validate_checks_def)
qed

lemma sample_attestation_valid:
  "parse_rfc3339 reviewed = Some t \<Longrightarrow> validate_attestation (sample_attestation reviewed) = Inr ()"
  by (cases t) (simp add: validate_attestation_def sample_attestation_def sample_tool parse_timestamp_def
      del: first_error.simps(2) One_nat_def)

lemma sample_order:
  assumes "\<not> time_or_zero observed < created" "time_or_zero observed < expires"
    "\<not> time_or_zero reviewed < time_or_zero observed" "\<not> time_or_zero reviewed < created"
    "time_or_zero reviewed < expires"
    and "ev_checks r = map (sample_check observed) cs" "ev_attestation r = sample_attestation reviewed"
  shows "validate_time_order r created expires = Inr ()"
  using assms
  by (auto simp: validate_time_order_def first_error_map_ok check_order_def sample_check_def self_attested_def
      reviewed_at_def sample_attestation_def Let_def simp del: first_error.simps(2))

lemma sample_dates:
  "time_parse_date ''2026-09-23'' = Some 740247"
  using as_of_date by (simp add: parse_date_time)

lemma sample_duration:
  "duration_seconds (time_sub (Go_Time 63957472200 0) (Go_Time 63957470400 0)) = Finite 1800"
  "double_op (*) (Finite 1800) (Finite 1000) = Finite 1800000"
  using round_double_int [of 1800] round_double_int [of 1800000]
  by (simp_all add: duration_seconds_def time_sub_def double_op_def round_double_def [of 0])

lemma sample_capture: "validate_methodology sample_session (the (ev_methodology sample_session))
    (Go_Time 63957456000 0) (Go_Time 63958809600 0) = Inr ()"
proof -
  have close: "\<not> double_less (round_double (1 / 1000)) (Finite 0)" by (rule round_double_nonneg) simp
  have "double_abs (double_op (-) (session_duration sample_session) (Finite 1800)) = Finite 0"
    by (simp add: session_duration_def find_measurement_def sample_session_def sample_defs double_op_def
        double_abs_def round_double_def)
  with close have "\<not> double_less (round_double (1 / 1000))
      (double_abs (double_op (-) (session_duration sample_session) (Finite 1800)))" by simp
  moreover have "dotted_pattern ''collector''" "valid_text ''v1'' 128" "is_sha256 (hex_of (CHR ''b''))"
    "capture_bound sample_session (the (ev_methodology sample_session))" "\<not> self_attested sample_session"
    by code_simp+
  moreover have "reviewed_at sample_session = Go_Time 63957474000 0"
    by (simp add: reviewed_at_def time_or_zero_def sample_times sample_session_def sample_defs)
  moreover obtain m where "ev_methodology sample_session = Some m"
    and "methodology_version m = ''session-metrics-v1''" "capture_started_at m = ''2026-09-24T12:00:00Z''"
      "capture_ended_at m = ''2026-09-24T12:30:00Z''" "sample_count m = 108000" "collector_id m = ''collector''"
      "collector_version m = ''v1''" "capture_artifact_sha256 m = hex_of (CHR ''b'')"
    by (rule that [of "the (ev_methodology sample_session)"]) (simp_all add: sample_session_def)
  ultimately show ?thesis
    by (simp add: validate_methodology_def parse_timestamp_def sample_times check_capture_def Let_def ceil_int_def
        sample_duration less_go_time_def del: first_error.simps(2))
qed

lemma sample_window: "time_sub (Go_Time 63958809600 0) (Go_Time 63957456000 0) \<le> max_validity"
  "utc_date (Go_Time 63957456000 0) = 740248"
proof -
  have "days_before_year 10000 = 3652425" by (simp add: days_before_year_def)
  then show "utc_date (Go_Time 63957456000 0) = 740248" by (simp add: utc_date_def Let_def)
qed (simp add: time_sub_def max_validity_def)

lemma sample_orders:
  "validate_time_order sample_host (Go_Time 63957456000 0) (Go_Time 63958809600 0) = Inr ()"
  "validate_time_order sample_client (Go_Time 63957456000 0) (Go_Time 63958809600 0) = Inr ()"
  "validate_time_order sample_session (Go_Time 63957456000 0) (Go_Time 63958809600 0) = Inr ()"
proof -
  note times = sample_times time_or_zero_def less_go_time_def
  show "validate_time_order sample_host (Go_Time 63957456000 0) (Go_Time 63958809600 0) = Inr ()"
    by (rule sample_order [where observed = "''2026-09-24T08:00:00Z''" and reviewed = "''2026-09-24T11:00:00Z''"])
      (simp_all add: times sample_host_def sample_record_def)
  show "validate_time_order sample_client (Go_Time 63957456000 0) (Go_Time 63958809600 0) = Inr ()"
    by (rule sample_order [where observed = "''2026-09-24T08:00:00Z''" and reviewed = "''2026-09-24T11:00:00Z''"])
      (simp_all add: times sample_client_def sample_record_def)
  show "validate_time_order sample_session (Go_Time 63957456000 0) (Go_Time 63958809600 0) = Inr ()"
    by (rule sample_order [where observed = "''2026-09-24T13:00:00Z''" and reviewed = "''2026-09-24T13:00:00Z''"])
      (simp_all add: times sample_session_def sample_record_def)
qed

lemma sample_fields:
  assumes "(r, k, s, observed, reviewed) \<in>
     {(sample_host, ''host'', sample_host, ''2026-09-24T08:00:00Z'', ''2026-09-24T11:00:00Z''),
      (sample_client, ''client'', sample_client, ''2026-09-24T08:00:00Z'', ''2026-09-24T11:00:00Z''),
      (sample_session, ''session'', sample_session, ''2026-09-24T13:00:00Z'', ''2026-09-24T13:00:00Z'')}"
  shows "ev_record_type r = k" "ev_created_at r = ''2026-09-24T08:00:00Z''" "ev_expires_at r = ''2026-10-10T00:00:00Z''"
    "ev_manifest_as_of r = ''2026-09-23''" "ev_tool_version r = ''v1.0.0''"
    "ev_manifest_sha256 r = hex_of (CHR ''a'')"
    "ev_attestation r = sample_attestation reviewed"
    "ev_checks r = map (sample_check observed) (the (required_checks k))"
    "k \<in> {''host'', ''client'', ''session''}" "\<exists>t. parse_rfc3339 observed = Some t" "\<exists>t. parse_rfc3339 reviewed = Some t"
  using assms by (auto simp: sample_host_def sample_client_def sample_session_def sample_record_def sample_times)

lemma sample_valid:
  assumes "r \<in> {sample_host, sample_client, sample_session}"
  shows "validate_evidence r = Inr ()"
proof -
  from assms obtain k observed reviewed where k: "(r, k, r, observed, reviewed) \<in>
     {(sample_host, ''host'', sample_host, ''2026-09-24T08:00:00Z'', ''2026-09-24T11:00:00Z''),
      (sample_client, ''client'', sample_client, ''2026-09-24T08:00:00Z'', ''2026-09-24T11:00:00Z''),
      (sample_session, ''session'', sample_session, ''2026-09-24T13:00:00Z'', ''2026-09-24T13:00:00Z'')}"
    by blast
  note f = sample_fields [OF k]
  from f(10,11) obtain t u where t: "parse_rfc3339 observed = Some t" and u: "parse_rfc3339 reviewed = Some u"
    by blast
  have "validate_checks (ev_checks r) (the (required_checks (ev_record_type r))) = Inr ()"
    using sample_checks [OF f(9) t] by (simp add: f(1,8))
  moreover have "validate_attestation (ev_attestation r) = Inr ()"
    using sample_attestation_valid [OF u] by (simp add: f(7))
  moreover have "valid_text (ev_tool_version r) 256" by (simp add: f(5) sample_tool)
  ultimately have "validate_contents r (Go_Time 63957456000 0) (Go_Time 63958809600 0) = Inr ()"
    unfolding contents_ok
    using assms sample_parts sample_orders sample_capture sample_fields(1) [OF k] k by auto
  moreover have "validate_identity r = Inr ()" using assms sample_identity by blast
  ultimately show ?thesis
    by (simp add: validate_evidence_def parse_timestamp_def f(2-4) sample_times sample_window check_manifest_date_def
        sample_dates less_go_time_def)
qed

section \<open>The chain\<close>

definition sample_now :: go_time where
  "sample_now = Go_Time 63957513600 0"

lemma sample_authority: "authority_facts sample_env sample_now (hex_of (CHR ''a'')) Fresh"
proof -
  have "\<not> is_zero sample_now" by (simp add: sample_now_def is_zero_def zero_time_def)
  moreover have "in_window compiled_manifest sample_now"
    by (simp add: compiled_window sample_now_def date_only_utc_def utc_date_def days_before_year_def)
  ultimately obtain f where "freshness_at compiled_manifest sample_now = Inr f" "freshness_state f = Fresh"
    using fresh_iff_in_window [of compiled_manifest sample_now] compiled_valid by (auto split: sum.splits)
  then show ?thesis
    by (simp add: authority_facts_def sample_env_def compiled_accepted canonical_sha256_def compiled_valid)
qed

lemma sample_rate: "double_op (*) (Finite 60) (round_double (9 / 10)) = Finite 54"
proof -
  have "leading_exponent (9 / 10) = -1" by code_simp
  then have a: "round_double (9 / 10) = Finite (8106479329266893 / 9007199254740992)"
    using round_double_near [of "9 / 10" "-1" 8106479329266893] by simp
  have "leading_exponent (60 * (8106479329266893 / 9007199254740992)) = 5" by code_simp
  then have "round_double (60 * (8106479329266893 / 9007199254740992)) = Finite 54"
    using round_double_near [of "60 * (8106479329266893 / 9007199254740992)" 5 7599824371187712] by simp
  with a show ?thesis by (simp add: double_op_def)
qed

lemma sample_measured:
  "measured (ev_measurements sample_session) ''session-duration'' = Finite 1800"
  "measured (ev_measurements sample_session) ''average-frame-rate'' = Finite 60"
  "measured (ev_measurements sample_session) ''encode-latency'' = Finite 5"
  "measured (ev_measurements sample_session) ''network-latency'' = Finite 10"
  "measured (ev_measurements sample_session) ''decode-latency'' = Finite 5"
  "measured (ev_measurements sample_session) ''end-to-end-latency'' = Finite 40"
  "measured (ev_measurements sample_session) ''dropped-frames'' = Finite 0"
  by (simp_all add: measured_def sample_session_def)

lemma sample_session_claims: "session_claims sample_now sample_session"
proof -
  have sha: "is_sha256 (hex_of (CHR ''c''))" "is_sha256 (hex_of (CHR ''d''))" by code_simp+
  obtain b p m where parts: "ev_bindings sample_session = Some b" "ev_stream_profile sample_session = Some p"
      "ev_methodology sample_session = Some m"
    and b: "host_record_sha256 b = hex_of (CHR ''c'')" "client_record_sha256 b = hex_of (CHR ''d'')"
    and p: "profile_width p = 1920" "profile_height p = 1080" "profile_target_frame_rate p = Finite 60"
      "profile_codec p = ''hevc''" "profile_transport p = ''wired-lan''"
    and m: "capture_started_at m = ''2026-09-24T12:00:00Z''" "capture_ended_at m = ''2026-09-24T12:30:00Z''"
    by (rule that [of "the (ev_bindings sample_session)" "the (ev_stream_profile sample_session)"
          "the (ev_methodology sample_session)"]) (simp_all add: sample_session_def)
  have "meets_profile p" by (simp add: meets_profile_def p)
  moreover have "list_all (meets_requirement (ev_measurements sample_session)) measurement_requirements"
    by (simp add: measurement_requirements_def meets_requirement_def sample_measured)
  moreover have "consistent_measurements (ev_measurements sample_session) p"
    by (simp add: consistent_measurements_def sample_measured p sample_rate)
  ultimately show ?thesis
    by (simp add: session_claims_def parts b m sha time_or_zero_def sample_times less_go_time_def
        less_eq_go_time_def sample_now_def)
qed

lemma sample_record_claims:
  assumes "r \<in> {sample_host, sample_client, sample_session}"
  shows "record_claims (hex_of (CHR ''a'')) Fresh sample_now r" and "sample_now < time_or_zero (ev_expires_at r)"
proof -
  from assms obtain k observed reviewed where k: "(r, k, r, observed, reviewed) \<in>
     {(sample_host, ''host'', sample_host, ''2026-09-24T08:00:00Z'', ''2026-09-24T11:00:00Z''),
      (sample_client, ''client'', sample_client, ''2026-09-24T08:00:00Z'', ''2026-09-24T11:00:00Z''),
      (sample_session, ''session'', sample_session, ''2026-09-24T13:00:00Z'', ''2026-09-24T13:00:00Z'')}"
    by blast
  note f = sample_fields [OF k]
  have times: "time_or_zero reviewed \<le> sample_now" "time_or_zero observed \<le> sample_now"
    using k by (auto simp: time_or_zero_def sample_times sample_now_def less_eq_go_time_def)
  have session: "k = ''session'' \<longrightarrow> r = sample_session"
    using k by auto
  have "\<not> self_attested r" "reviewed_at r = time_or_zero reviewed"
    by (simp_all add: self_attested_def reviewed_at_def f(7) sample_attestation_def)
  moreover have "time_or_zero (ev_created_at r) \<le> sample_now"
    by (simp add: f(2) time_or_zero_def sample_times sample_now_def less_eq_go_time_def)
  moreover have "(\<forall>c \<in> set (ev_checks r). check_status c = ''pass'' \<and> time_or_zero (check_observed_at c) \<le> sample_now)"
    "map check_id (ev_checks r) = the (required_checks k)"
    using times by (auto simp: f(8) sample_check_def comp_def)
  ultimately show "record_claims (hex_of (CHR ''a'')) Fresh sample_now r"
    using times session sample_session_claims
    by (simp add: record_claims_def f(1,4,6) authoritative_as_of_def)
  show "sample_now < time_or_zero (ev_expires_at r)"
    by (simp add: f(3) time_or_zero_def sample_times sample_now_def less_go_time_def)
qed

text \<open>A verification of each record's artifacts.\<close>

definition sample_verification :: "evidence \<Rightarrow> artifact_verification" where
  "sample_verification r = \<lparr>av_digest = record_digest sample_env r, av_verified = True\<rparr>"

lemma sample_evaluated:
  assumes "r \<in> {sample_host, sample_client, sample_session}"
  shows "evaluate_record sample_env r (Some (sample_verification r)) sample_now =
    Inr \<lparr>evaluation_state = Complete, promotion_safe = False,
         reasons = [Claims_Hold True (ev_record_type r = ''session'')]\<rparr>"
proof -
  obtain m f where "embedded_manifest (compiled_in sample_env) = Inr m"
    "canonical_sha256 (json_digest sample_env) m = Inr (hex_of (CHR ''a''))" "freshness_at m sample_now = Inr f"
    "freshness_state f = Fresh"
    using sample_authority by (auto simp: authority_facts_def)
  moreover have "record_reasons (hex_of (CHR ''a'')) Fresh sample_now r = []"
    using record_reasons_empty [OF sample_valid [OF assms]] sample_record_claims(1) [OF assms] by simp
  moreover have "\<not> is_zero sample_now" by (simp add: sample_now_def is_zero_def zero_time_def)
  moreover have "matches_artifact_verification sample_env r (sample_verification r)"
    by (simp add: matches_artifact_verification_def sample_verification_def)
  ultimately show ?thesis
    using sample_valid [OF assms] sample_record_claims(2) [OF assms]
    by (simp add: evaluate_record_def conclude_def)
qed

definition sample_verifications :: verification_set where
  "sample_verifications =
     \<lparr>verification_host = sample_verification sample_host, verification_client = sample_verification sample_client,
      verification_session = sample_verification sample_session\<rparr>"

lemma sample_chain: "chain_reasons sample_host sample_client sample_session (hex_of (CHR ''c'')) (hex_of (CHR ''d'')) = []"
proof -
  have "review_reasons (time_or_zero ''2026-09-24T12:00:00Z'') ''host'' sample_host = []"
    "review_reasons (time_or_zero ''2026-09-24T12:00:00Z'') ''client'' sample_client = []"
    by (simp_all add: review_reasons_def reviewed_at_def sample_host_def sample_client_def sample_defs
        time_or_zero_def sample_times less_go_time_def)
  moreover have "capture_started_at (the (ev_methodology sample_session)) = ''2026-09-24T12:00:00Z''"
    "ev_bindings sample_session = Some \<lparr>host_record_sha256 = hex_of (CHR ''c''), client_record_sha256 = hex_of (CHR ''d'')\<rparr>"
    "ev_expires_at sample_session = ''2026-10-10T00:00:00Z''" "ev_expires_at sample_host = ''2026-10-10T00:00:00Z''"
    "ev_expires_at sample_client = ''2026-10-10T00:00:00Z''" "ev_run_id sample_host = ev_run_id sample_session"
    "ev_run_id sample_client = ev_run_id sample_session"
    "subject_platform (ev_subject sample_session) = subject_platform (ev_subject sample_client)"
    "subject_architecture (ev_subject sample_session) = subject_architecture (ev_subject sample_client)"
    by (simp_all add: sample_host_def sample_client_def sample_session_def sample_record_def)
  ultimately show ?thesis by (simp add: chain_reasons_def Let_def)
qed

lemma sample_set:
  "\<exists>e. evaluate_set sample_env sample_host sample_client sample_session (hex_of (CHR ''c'')) (hex_of (CHR ''d''))
     (Some sample_verifications) sample_now = Inr e \<and> set_state e = Complete"
proof -
  have "check_set_shape sample_host sample_client sample_session (hex_of (CHR ''c'')) (hex_of (CHR ''d'')) = Inr ()"
    by code_simp
  then show ?thesis
    by (simp add: evaluate_set_def sample_verifications_def sample_evaluated sample_chain conclude_set_def
        member_reasons_def)
qed

lemma evaluated_record_witness:
  "\<exists>e. evaluate_record sample_env sample_session (Some (sample_verification sample_session)) sample_now = Inr e \<and>
     \<not> promotion_safe e"
  using sample_evaluated [of sample_session] evaluated_record [OF sample_evaluated [of sample_session]] by blast

lemma complete_set_chained_witness:
  "chained sample_host sample_client sample_session (hex_of (CHR ''c'')) (hex_of (CHR ''d''))"
  using sample_set complete_set_chained by blast

section \<open>A template\<close>

definition sample_request :: template_request where
  "sample_request =
     \<lparr>tr_type = ''session'', tr_platform = '' Linux'', tr_architecture = ''x86_64'', tr_tool_version = [], tr_run_id = [],
      tr_route = ''physical-windows-remote''\<rparr>"

definition sample_bytes :: "string option" where
  "sample_bytes = Some (replicate 16 (CHR ''k''))"

text \<open>The record that the request makes, written out.\<close>

definition sample_made :: evidence where
  "sample_made =
     session_template
      \<lparr>ev_schema = evidence_schema_id, ev_schema_version = 1, ev_record_id = ''session-'' @ concat (replicate 16 ''6b''),
       ev_record_type = ''session'', ev_run_id = ''run-'' @ concat (replicate 16 ''6b''),
       ev_route_id = ''physical-windows-remote'', ev_test_profile_id = ''remote-play-v1'',
       ev_created_at = ''2026-09-24T08:00:00Z'', ev_expires_at = ''2026-10-01T08:00:00Z'',
       ev_manifest_as_of = ''2026-09-23'', ev_manifest_sha256 = hex_of (CHR ''a''), ev_tool_version = ''unknown'',
       ev_subject = \<lparr>subject_role = ''session'', subject_platform = ''linux'', subject_architecture = ''amd64'',
         subject_environment = ''unverified''\<rparr>,
       ev_attestation = template_attestation, ev_bindings = None, ev_stream_profile = None, ev_methodology = None,
       ev_checks = map unverified_check (the (required_checks ''session'')), ev_measurements = []\<rparr>"

lemma sample_made_parts:
  "validate_identity sample_made = Inr ()" "valid_text (ev_tool_version sample_made) 256"
  "validate_subject (ev_record_type sample_made) (ev_subject sample_made) (ev_route_id sample_made) = Inr ()"
  "validate_attestation (ev_attestation sample_made) = Inr ()" "validate_session_parts sample_made = Inr ()"
  "validate_checks (ev_checks sample_made) (the (required_checks (ev_record_type sample_made))) = Inr ()"
  "validate_global_artifact_names sample_made = Inr ()"
  "validate_measurements (ev_record_type sample_made) (ev_measurements sample_made) = Inr ()"
  by code_simp+

lemma sample_made_times:
  "format_rfc3339 (Go_Time 63957456000 0) = ''2026-09-24T08:00:00Z''"
  "format_rfc3339 (add_days 7 (Go_Time 63957456000 0)) = ''2026-10-01T08:00:00Z''"
  "parse_rfc3339 ''2026-10-01T08:00:00Z'' = Some (add_days 7 (Go_Time 63957456000 0), True)"
  by code_simp+

lemma sample_made_valid: "validate_evidence sample_made = Inr ()"
proof -
  let ?t = "Go_Time 63957456000 0"
  have "validate_time_order sample_made ?t (add_days 7 ?t) = Inr ()"
    "validate_methodology sample_made (the (ev_methodology sample_made)) ?t (add_days 7 ?t) = Inr ()"
    by (simp_all add: validate_time_order_def first_error_map_ok self_attested_def sample_made_def
        session_template_def template_attestation_def check_order_def unverified_check_def validate_methodology_def
        Let_def del: first_error.simps(2))
  moreover have "time_sub (add_days 7 ?t) ?t \<le> max_validity" "?t < add_days 7 ?t"
    by (simp_all add: time_sub_def add_days_def max_validity_def less_go_time_def)
  moreover have "ev_created_at sample_made = ''2026-09-24T08:00:00Z''" "ev_expires_at sample_made = ''2026-10-01T08:00:00Z''"
    "ev_manifest_as_of sample_made = ''2026-09-23''" "ev_record_type sample_made = ''session''"
    by (simp_all add: sample_made_def session_template_def)
  ultimately show ?thesis
    using sample_made_parts
    by (simp add: validate_evidence_def validate_contents_def parse_timestamp_def sample_times sample_window
        sample_made_times check_manifest_date_def sample_dates del: first_error.simps(2))
qed

lemma sample_template:
  "new_template sample_env sample_bytes sample_bytes sample_request (Go_Time 63957456000 0) = Inr sample_made"
proof -
  have "new_record_id ''session'' sample_bytes = Inr (''session-'' @ concat (replicate 16 ''6b''))"
    "choose_run_id [] sample_bytes = Inr (''run-'' @ concat (replicate 16 ''6b''))"
    "normalize_platform '' Linux'' = ''linux''" "normalize_architecture ''x86_64'' = ''amd64''" "trim_space [] = []"
    by code_simp+
  moreover from this have "template_record sample_request (''session-'' @ concat (replicate 16 ''6b''))
      (''run-'' @ concat (replicate 16 ''6b'')) (hex_of (CHR ''a'')) (Go_Time 63957456000 0) = sample_made"
    by (simp add: template_record_def sample_request_def sample_made_def sample_made_times authoritative_as_of_def
        del: concat_replicate_trivial)
  moreover have "\<not> is_zero (Go_Time 63957456000 0)" "tr_route sample_request \<in> set supported_route_ids"
    "tr_type sample_request = ''session''" "tr_run_id sample_request = []"
    by (simp_all add: is_zero_def zero_time_def sample_request_def supported_route_ids_def)
  moreover have "embedded_manifest (compiled_in sample_env) = Inr compiled_manifest"
    "canonical_sha256 (json_digest sample_env) compiled_manifest = Inr (hex_of (CHR ''a''))"
    by (simp_all add: sample_env_def compiled_accepted canonical_sha256_def compiled_valid)
  ultimately show ?thesis by (simp only: new_template_def bind_result_Inr map_error_Inr require_decided
        Let_def sample_made_valid simp_thms)
qed

lemma template_unverified_witness:
  "new_template sample_env sample_bytes sample_bytes sample_request (Go_Time 63957456000 0) = Inr sample_made \<and>
     list_all (\<lambda>c. check_status c = ''unverified'') (ev_checks sample_made)"
  using sample_template template_unverified [OF sample_template] by (simp add: list_all_iff)

end
