(* ===== verification/Signed_Examples.thy ===== *)
theory Signed_Examples
  imports Signed_Promotion Evidence_Examples
begin

text \<open>
  A signed set that verifies: the records of \<open>Evidence_Examples\<close> as JSON, a payload and an envelope
  around them, two keys of different people, and an instance of \<open>crypto\<close> in which every function is
  concrete. The hypotheses of the theorems on signed sets can be met.
\<close>

section \<open>Records as JSON\<close>

text \<open>The members of an object under the names of the struct tags; an absent optional part is left out.
  The numbers of the sample are whole.\<close>

definition artifact_json :: "artifact \<Rightarrow> json" where
  "artifact_json a =
     JObj [(''name'', JStr (artifact_name a)), (''sha256'', JStr (artifact_sha256 a)),
       (''size_bytes'', json_int (artifact_size a)), (''media_type'', JStr (artifact_media_type a))]"

definition attestation_json :: "attestation \<Rightarrow> json" where
  "attestation_json a =
     JObj [(''level'', JStr (attestation_level a)), (''reviewer'', JStr (attestation_reviewer a)),
       (''reviewed_at'', JStr (attestation_reviewed_at a)),
       (''artifacts'', JArr (map artifact_json (attestation_artifacts a))), (''notes'', JStr (attestation_notes a))]"

definition check_json :: "check \<Rightarrow> json" where
  "check_json c =
     JObj [(''id'', JStr (check_id c)), (''status'', JStr (check_status c)), (''method'', JStr (check_method c)),
       (''observed_at'', JStr (check_observed_at c)), (''summary'', JStr (check_summary c)),
       (''artifacts'', JArr (map artifact_json (check_artifacts c)))]"

definition subject_json :: "subject \<Rightarrow> json" where
  "subject_json s =
     JObj [(''role'', JStr (subject_role s)), (''platform'', JStr (subject_platform s)),
       (''architecture'', JStr (subject_architecture s)), (''environment'', JStr (subject_environment s))]"

definition bindings_json :: "bindings \<Rightarrow> json" where
  "bindings_json b =
     JObj [(''host_record_sha256'', JStr (host_record_sha256 b)), (''client_record_sha256'', JStr (client_record_sha256 b))]"

definition whole_json :: "go_float \<Rightarrow> json" where
  "whole_json x = (case x of Finite a \<Rightarrow> json_int \<lfloor>a\<rfloor> | _ \<Rightarrow> JNull)"

definition profile_json :: "stream_profile \<Rightarrow> json" where
  "profile_json p =
     JObj [(''width'', json_int (profile_width p)), (''height'', json_int (profile_height p)),
       (''target_frame_rate'', whole_json (profile_target_frame_rate p)), (''codec'', JStr (profile_codec p)),
       (''transport'', JStr (profile_transport p))]"

definition methodology_json :: "methodology \<Rightarrow> json" where
  "methodology_json m =
     JObj [(''version'', JStr (methodology_version m)), (''capture_started_at'', JStr (capture_started_at m)),
       (''capture_ended_at'', JStr (capture_ended_at m)), (''sample_count'', json_int (sample_count m)),
       (''collector_id'', JStr (collector_id m)), (''collector_version'', JStr (collector_version m)),
       (''capture_artifact_sha256'', JStr (capture_artifact_sha256 m))]"

definition measurement_json :: "measurement \<Rightarrow> json" where
  "measurement_json m =
     JObj [(''id'', JStr (measurement_id m)), (''value'', whole_json (measurement_value m)),
       (''unit'', JStr (measurement_unit m))]"

definition record_header :: "evidence \<Rightarrow> (string \<times> json) list" where
  "record_header r =
     [(''$schema'', JStr (ev_schema r)), (''schema_version'', json_int (ev_schema_version r)),
      (''record_id'', JStr (ev_record_id r)), (''record_type'', JStr (ev_record_type r)),
      (''validation_run_id'', JStr (ev_run_id r)), (''route_id'', JStr (ev_route_id r)),
      (''test_profile_id'', JStr (ev_test_profile_id r)), (''created_at'', JStr (ev_created_at r)),
      (''expires_at'', JStr (ev_expires_at r)), (''manifest_as_of'', JStr (ev_manifest_as_of r)),
      (''manifest_sha256'', JStr (ev_manifest_sha256 r)), (''tool_version'', JStr (ev_tool_version r)),
      (''subject'', subject_json (ev_subject r)), (''attestation'', attestation_json (ev_attestation r)),
      (''checks'', JArr (map check_json (ev_checks r)))]"

definition optional_json :: "string \<Rightarrow> ('a \<Rightarrow> json) \<Rightarrow> 'a option \<Rightarrow> (string \<times> json) list" where
  "optional_json k f x = (case x of None \<Rightarrow> [] | Some v \<Rightarrow> [(k, f v)])"

definition record_json :: "evidence \<Rightarrow> json" where
  "record_json r =
     JObj (record_header r @ optional_json ''bindings'' bindings_json (ev_bindings r) @
       optional_json ''stream_profile'' profile_json (ev_stream_profile r) @
       optional_json ''measurement_methodology'' methodology_json (ev_methodology r) @
       (if ev_measurements r = [] then [] else [(''measurements'', JArr (map measurement_json (ev_measurements r)))]))"

lemma decode_int_json: "0 \<le> n \<Longrightarrow> n < 2 ^ 63 \<Longrightarrow> \<exists>s. json_int n = JNum s \<and> decode_int s = Some n"
  using decode_json_int [of n] by (cases "json_int n") (auto simp: json_int_def)

lemma int_at_json:
  assumes "0 \<le> n" "n < 2 ^ 63" "member v k = Some (json_int n)"
  shows "int_at v k = Some n"
  using decode_int_json [OF assms(1,2)] assms(3) by (auto simp: int_at_def)

lemma decode_all_map: "(\<And>x. x \<in> set xs \<Longrightarrow> f (g x) = Some x) \<Longrightarrow> decode_all f (map g xs) = Some xs"
  by (induction xs) auto

lemmas object_simps = member_def object_members_def text_at_def

lemma decode_artifact_json:
  "0 \<le> artifact_size a \<Longrightarrow> artifact_size a < 2 ^ 63 \<Longrightarrow> decode_artifact (artifact_json a) = Some a"
  using int_at_json [of "artifact_size a" "artifact_json a" "''size_bytes''"]
  by (simp add: decode_artifact_def artifact_json_def object_simps)

definition small_artifacts :: "artifact list \<Rightarrow> bool" where
  "small_artifacts as \<longleftrightarrow> (\<forall>a \<in> set as. 0 \<le> artifact_size a \<and> artifact_size a < 2 ^ 63)"

lemma decode_artifacts_json:
  "small_artifacts as \<Longrightarrow> member v k = Some (JArr (map artifact_json as)) \<Longrightarrow> list_at decode_artifact v k = Some as"
  by (simp add: list_at_def) (rule decode_all_map, simp add: decode_artifact_json small_artifacts_def)

lemma decode_attestation_json:
  "small_artifacts (attestation_artifacts a) \<Longrightarrow> decode_attestation (attestation_json a) = Some a"
  using decode_artifacts_json [of "attestation_artifacts a" "attestation_json a" "''artifacts''"]
  by (simp add: decode_attestation_def attestation_json_def object_simps)

lemma decode_check_json: "small_artifacts (check_artifacts c) \<Longrightarrow> decode_check (check_json c) = Some c"
  using decode_artifacts_json [of "check_artifacts c" "check_json c" "''artifacts''"]
  by (simp add: decode_check_def check_json_def object_simps)

lemma decode_subject_json: "decode_subject (subject_json s) = Some s"
  by (simp add: decode_subject_def subject_json_def object_simps)

lemma decode_bindings_json: "decode_bindings (bindings_json b) = Some b"
  by (simp add: decode_bindings_def bindings_json_def object_simps)

lemma decimal_value_itoa: "decimal_value (itoa n) = of_nat n"
proof -
  have digits: "list_all is_digit (itoa n)" by (rule itoa_digits)
  have plain: "c \<noteq> CHR ''e'' \<and> c \<noteq> CHR ''E'' \<and> c \<noteq> CHR ''.'' \<and> c \<noteq> CHR ''-''" if "c \<in> set (itoa n)" for c
    using digits that by (auto simp: list_all_iff is_digit_def byte_def)
  have a: "takeWhile (\<lambda>c. c \<noteq> CHR ''e'' \<and> c \<noteq> CHR ''E'') (itoa n) = itoa n"
    and b: "takeWhile (\<lambda>c. c \<noteq> CHR ''.'') (itoa n) = itoa n"
    using plain by (auto simp: takeWhile_eq_all_conv)
  have "\<not> prefix ''-'' (itoa n)" using plain by (cases "itoa n") auto
  then show ?thesis unfolding decimal_value_def Let_def by (simp add: a b signed_exponent_def)
qed

definition whole_float :: "go_float \<Rightarrow> bool" where
  "whole_float x \<longleftrightarrow> (\<exists>n. x = Finite (of_int n) \<and> 0 \<le> n \<and> n < 2 ^ 53)"

lemma float_at_json: "whole_float x \<Longrightarrow> member v k = Some (whole_json x) \<Longrightarrow> float_at v k = Some x"
  using decimal_value_itoa round_double_int
  by (auto simp: whole_float_def float_at_def whole_json_def json_int_def decode_float_def)

lemma decode_measurement_json:
  "whole_float (measurement_value m) \<Longrightarrow> decode_measurement (measurement_json m) = Some m"
  using float_at_json [of "measurement_value m" "measurement_json m" "''value''"]
  by (simp add: decode_measurement_def measurement_json_def object_simps)

lemma decode_profile_json:
  assumes "0 \<le> profile_width p" "profile_width p < 2 ^ 63" "0 \<le> profile_height p" "profile_height p < 2 ^ 63"
    and "whole_float (profile_target_frame_rate p)"
  shows "decode_profile (profile_json p) = Some p"
  using assms int_at_json [of "profile_width p" "profile_json p" "''width''"]
    int_at_json [of "profile_height p" "profile_json p" "''height''"]
    float_at_json [of "profile_target_frame_rate p" "profile_json p" "''target_frame_rate''"]
  by (simp add: decode_profile_def profile_json_def object_simps)

lemma decode_methodology_json:
  "0 \<le> sample_count m \<Longrightarrow> sample_count m < 2 ^ 63 \<Longrightarrow> decode_methodology (methodology_json m) = Some m"
  using int_at_json [of "sample_count m" "methodology_json m" "''sample_count''"]
  by (simp add: decode_methodology_def methodology_json_def object_simps)

text \<open>The members of a record, one by one.\<close>

definition optional_members :: "evidence \<Rightarrow> (string \<times> json) list" where
  "optional_members r =
     optional_json ''bindings'' bindings_json (ev_bindings r) @
     optional_json ''stream_profile'' profile_json (ev_stream_profile r) @
     optional_json ''measurement_methodology'' methodology_json (ev_methodology r) @
     (if ev_measurements r = [] then [] else [(''measurements'', JArr (map measurement_json (ev_measurements r)))])"

lemma record_json_members: "record_json r = JObj (record_header r @ optional_members r)"
  by (simp add: record_json_def optional_members_def)

lemma optional_members_fst: "fst ` set (optional_members r) \<subseteq> {''bindings'', ''stream_profile'', ''measurement_methodology'', ''measurements''}"
  by (auto simp: optional_members_def optional_json_def split: option.splits)

lemma member_header:
  assumes "k \<notin> {''bindings'', ''stream_profile'', ''measurement_methodology'', ''measurements''}"
  shows "member (record_json r) k = map_of (rev (record_header r)) k"
proof -
  have "map_of (rev (optional_members r)) k = None"
    using optional_members_fst [of r] assms by (auto simp: map_of_eq_None_iff)
  then show ?thesis by (simp add: record_json_members member_def object_members_def map_add_def)
qed

lemma header_keys: "map fst (record_header r) = required_record_keys"
  by (simp add: record_header_def required_record_keys_def)

lemma member_optional:
  "member (record_json r) ''bindings'' = map_option bindings_json (ev_bindings r)"
  "member (record_json r) ''stream_profile'' = map_option profile_json (ev_stream_profile r)"
  "member (record_json r) ''measurement_methodology'' = map_option methodology_json (ev_methodology r)"
  "member (record_json r) ''measurements'' =
     (if ev_measurements r = [] then None else Some (JArr (map measurement_json (ev_measurements r))))"
proof -
  have header: "map_of (rev (record_header r)) k = None"
    if "k \<in> {''bindings'', ''stream_profile'', ''measurement_methodology'', ''measurements''}" for k
  proof -
    have "list_all (\<lambda>k. k \<notin> set required_record_keys)
        [''bindings'', ''stream_profile'', ''measurement_methodology'', ''measurements'']" by code_simp
    with that have "k \<notin> set required_record_keys" unfolding list_all_iff by auto
    then show ?thesis unfolding header_keys [of r, symmetric] map_of_eq_None_iff by simp
  qed
  show "member (record_json r) ''bindings'' = map_option bindings_json (ev_bindings r)"
    "member (record_json r) ''stream_profile'' = map_option profile_json (ev_stream_profile r)"
    "member (record_json r) ''measurement_methodology'' = map_option methodology_json (ev_methodology r)"
    "member (record_json r) ''measurements'' =
       (if ev_measurements r = [] then None else Some (JArr (map measurement_json (ev_measurements r))))"
    by (simp_all add: record_json_members member_def object_members_def map_add_def header optional_members_def
        optional_json_def split: option.splits)
qed

lemma header_member:
  assumes "(k, v) \<in> set (record_header r)"
  shows "member (record_json r) k = Some v"
proof -
  have k: "k \<in> set required_record_keys" using assms unfolding header_keys [of r, symmetric] by force
  have other: "list_all (\<lambda>k. k \<notin> {''bindings'', ''stream_profile'', ''measurement_methodology'', ''measurements''})
      required_record_keys" and keys: "distinct required_record_keys" by code_simp+
  have "map_of (rev (record_header r)) k = Some v"
  proof (rule map_of_is_SomeI)
    show "distinct (map fst (rev (record_header r)))"
      using keys by (simp only: rev_map [symmetric] header_keys distinct_rev)
  qed (use assms in simp)
  moreover have "k \<notin> {''bindings'', ''stream_profile'', ''measurement_methodology'', ''measurements''}"
    using k other unfolding list_all_iff by blast
  ultimately show ?thesis by (simp only: member_header not_False_eq_True)
qed

definition printable_record :: "evidence \<Rightarrow> bool" where
  "printable_record r \<longleftrightarrow>
     0 \<le> ev_schema_version r \<and> ev_schema_version r < 2 ^ 63 \<and>
     small_artifacts (attestation_artifacts (ev_attestation r)) \<and>
     (\<forall>c \<in> set (ev_checks r). small_artifacts (check_artifacts c)) \<and>
     (\<forall>p. ev_stream_profile r = Some p \<longrightarrow> 0 \<le> profile_width p \<and> profile_width p < 2 ^ 63 \<and> 0 \<le> profile_height p \<and>
        profile_height p < 2 ^ 63 \<and> whole_float (profile_target_frame_rate p)) \<and>
     (\<forall>m. ev_methodology r = Some m \<longrightarrow> 0 \<le> sample_count m \<and> sample_count m < 2 ^ 63) \<and>
     (\<forall>m \<in> set (ev_measurements r). whole_float (measurement_value m))"

lemma header_at:
  "text_at (record_json r) ''$schema'' = Some (ev_schema r)" "text_at (record_json r) ''record_id'' = Some (ev_record_id r)"
  "text_at (record_json r) ''record_type'' = Some (ev_record_type r)"
  "text_at (record_json r) ''validation_run_id'' = Some (ev_run_id r)"
  "text_at (record_json r) ''route_id'' = Some (ev_route_id r)"
  "text_at (record_json r) ''test_profile_id'' = Some (ev_test_profile_id r)"
  "text_at (record_json r) ''created_at'' = Some (ev_created_at r)"
  "text_at (record_json r) ''expires_at'' = Some (ev_expires_at r)"
  "text_at (record_json r) ''manifest_as_of'' = Some (ev_manifest_as_of r)"
  "text_at (record_json r) ''manifest_sha256'' = Some (ev_manifest_sha256 r)"
  "text_at (record_json r) ''tool_version'' = Some (ev_tool_version r)"
  "member (record_json r) ''schema_version'' = Some (json_int (ev_schema_version r))"
  "member (record_json r) ''subject'' = Some (subject_json (ev_subject r))"
  "member (record_json r) ''attestation'' = Some (attestation_json (ev_attestation r))"
  "member (record_json r) ''checks'' = Some (JArr (map check_json (ev_checks r)))"
proof -
  have str: "text_at (record_json r) k = Some s" if "(k, JStr s) \<in> set (record_header r)" for k s
    using header_member [OF that] by (simp add: text_at_def)
  show "text_at (record_json r) ''$schema'' = Some (ev_schema r)" "text_at (record_json r) ''record_id'' = Some (ev_record_id r)"
  "text_at (record_json r) ''record_type'' = Some (ev_record_type r)"
  "text_at (record_json r) ''validation_run_id'' = Some (ev_run_id r)"
  "text_at (record_json r) ''route_id'' = Some (ev_route_id r)"
  "text_at (record_json r) ''test_profile_id'' = Some (ev_test_profile_id r)"
  "text_at (record_json r) ''created_at'' = Some (ev_created_at r)"
  "text_at (record_json r) ''expires_at'' = Some (ev_expires_at r)"
  "text_at (record_json r) ''manifest_as_of'' = Some (ev_manifest_as_of r)"
  "text_at (record_json r) ''manifest_sha256'' = Some (ev_manifest_sha256 r)"
  "text_at (record_json r) ''tool_version'' = Some (ev_tool_version r)"
    by (rule str, simp add: record_header_def)+
  show "member (record_json r) ''schema_version'' = Some (json_int (ev_schema_version r))"
    "member (record_json r) ''subject'' = Some (subject_json (ev_subject r))"
    "member (record_json r) ''attestation'' = Some (attestation_json (ev_attestation r))"
    "member (record_json r) ''checks'' = Some (JArr (map check_json (ev_checks r)))"
    by (rule header_member, simp add: record_header_def)+
qed

lemma decode_record_json:
  assumes "printable_record r"
  shows "decode_record (record_json r) = Some r"
proof -
  have "int_at (record_json r) ''schema_version'' = Some (ev_schema_version r)"
    using assms by (intro int_at_json header_at) (simp_all add: printable_record_def)
  moreover have "list_at decode_check (record_json r) ''checks'' = Some (ev_checks r)"
    using assms decode_check_json by (simp add: list_at_def header_at decode_all_map printable_record_def)
  moreover have "optional_at decode_bindings (record_json r) ''bindings'' = Some (ev_bindings r)"
    by (cases "ev_bindings r") (simp_all add: optional_at_def member_optional decode_bindings_json)
  moreover have "optional_at decode_profile (record_json r) ''stream_profile'' = Some (ev_stream_profile r)"
    using assms by (cases "ev_stream_profile r")
      (simp_all add: optional_at_def member_optional decode_profile_json printable_record_def)
  moreover have "optional_at decode_methodology (record_json r) ''measurement_methodology'' = Some (ev_methodology r)"
    using assms by (cases "ev_methodology r")
      (simp_all add: optional_at_def member_optional decode_methodology_json printable_record_def)
  moreover have "(if member (record_json r) ''measurements'' = None then Some []
      else list_at decode_measurement (record_json r) ''measurements'') = Some (ev_measurements r)"
    using assms decode_measurement_json
    by (simp add: member_optional list_at_def decode_all_map printable_record_def)
  moreover have "decode_attestation (attestation_json (ev_attestation r)) = Some (ev_attestation r)"
    using assms by (intro decode_attestation_json) (simp add: printable_record_def)
  ultimately show ?thesis
    by (simp only: decode_record_def header_at decode_subject_json Option.bind.bind_lunit) simp
qed

text \<open>The shape of what is written: closed objects, no repeated key, a few levels.\<close>

lemma int_json_shape [simp]: "unique_keys (json_int n)" "nesting (json_int n) = 0" "json_int n \<noteq> JNull"
  by (simp_all add: json_int_def)

lemma part_shapes:
  "closed_object artifact_keys (artifact_json a)" "unique_keys (artifact_json a)" "nesting (artifact_json a) \<le> 1"
  "closed_object subject_keys (subject_json s)" "unique_keys (subject_json s)" "nesting (subject_json s) \<le> 1"
  "closed_object binding_keys (bindings_json b)" "unique_keys (bindings_json b)" "nesting (bindings_json b) \<le> 1"
  "closed_object methodology_keys (methodology_json m)" "unique_keys (methodology_json m)" "nesting (methodology_json m) \<le> 1"
  by (simp_all add: closed_object_def exact_keys_def require_keys_def object_simps artifact_keys_def artifact_json_def
      subject_keys_def subject_json_def binding_keys_def bindings_json_def methodology_keys_def methodology_json_def)

lemma unique_elements: "unique_keys_elements (map f xs) \<longleftrightarrow> (\<forall>x \<in> set xs. unique_keys (f x))"
  by (induction xs) auto

lemma nesting_mapped_le: "(\<And>x. x \<in> set xs \<Longrightarrow> nesting (f x) \<le> n) \<Longrightarrow> nesting_elements (map f xs) \<le> Suc n"
  by (induction xs) auto

lemma unique_members: "unique_keys_members ms \<longleftrightarrow> (\<forall>(k, v) \<in> set ms. unique_keys v)"
  by (induction ms) auto

lemma nesting_members_le: "(\<And>k v. (k, v) \<in> set ms \<Longrightarrow> nesting v \<le> n) \<Longrightarrow> nesting_members ms \<le> Suc n"
proof (induction ms)
  case (Cons m ms)
  obtain k v where "m = (k, v)" by (cases m)
  moreover from Cons.IH have "nesting_members ms \<le> Suc n" using Cons.prems by (meson list.set_intros(2))
  ultimately show ?case using Cons.prems [of k v] by simp
qed simp

lemma artifacts_shape:
  "array_of (closed_object artifact_keys) (Some (JArr (map artifact_json as)))"
  "unique_keys_elements (map artifact_json as)" "nesting_elements (map artifact_json as) \<le> 2"
  using nesting_mapped_le [of as artifact_json 1] part_shapes(1-3)
  by (auto simp: array_of_def list_all_iff unique_elements numeral_2_eq_2)

lemma whole_json_shape: "whole_float x \<Longrightarrow> unique_keys (whole_json x) \<and> nesting (whole_json x) = 0 \<and> whole_json x \<noteq> JNull"
  by (auto simp: whole_float_def whole_json_def)

lemma nested_shapes:
  "closed_object attestation_keys (attestation_json a)" "unique_keys (attestation_json a)"
  "nesting (attestation_json a) \<le> 3" "member (attestation_json a) ''artifacts'' = Some (JArr (map artifact_json (attestation_artifacts a)))"
  "closed_object check_keys (check_json c)" "unique_keys (check_json c)" "nesting (check_json c) \<le> 3"
  "member (check_json c) ''artifacts'' = Some (JArr (map artifact_json (check_artifacts c)))"
  using artifacts_shape(2,3) [of "attestation_artifacts a"] artifacts_shape(2,3) [of "check_artifacts c"]
  by (simp_all add: closed_object_def exact_keys_def require_keys_def object_simps attestation_keys_def
      attestation_json_def check_keys_def check_json_def)

lemma float_shapes:
  "whole_float (measurement_value m) \<Longrightarrow> closed_object measurement_keys (measurement_json m) \<and>
     unique_keys (measurement_json m) \<and> nesting (measurement_json m) \<le> 1"
  "whole_float (profile_target_frame_rate p) \<Longrightarrow> closed_object profile_keys (profile_json p) \<and>
     unique_keys (profile_json p) \<and> nesting (profile_json p) \<le> 1"
  using whole_json_shape [of "measurement_value m"] whole_json_shape [of "profile_target_frame_rate p"]
  by (simp_all add: closed_object_def exact_keys_def require_keys_def object_simps measurement_keys_def
      measurement_json_def profile_keys_def profile_json_def)

lemma header_values:
  "list_all (\<lambda>v. v \<noteq> JNull \<and> unique_keys v \<and> nesting v \<le> 4) (map snd (record_header r))"
proof -
  have "unique_keys_elements (map check_json (ev_checks r))" "nesting_elements (map check_json (ev_checks r)) \<le> 4"
    using nesting_mapped_le [of "ev_checks r" check_json 3] nested_shapes(6,7) by (simp_all add: unique_elements)
  moreover have "nesting (attestation_json (ev_attestation r)) \<le> 4" "nesting (subject_json (ev_subject r)) \<le> 4"
    using nested_shapes(3) [of "ev_attestation r"] part_shapes(6) [of "ev_subject r"] by linarith+
  moreover have "attestation_json (ev_attestation r) \<noteq> JNull" "subject_json (ev_subject r) \<noteq> JNull"
    by (simp_all add: attestation_json_def subject_json_def)
  ultimately show ?thesis
    by (simp add: record_header_def nested_shapes(2) part_shapes(5))
qed

lemma optional_values:
  assumes "printable_record r"
  shows "list_all (\<lambda>v. v \<noteq> JNull \<and> unique_keys v \<and> nesting v \<le> 4) (map snd (optional_members r))"
proof -
  have "unique_keys_elements (map measurement_json (ev_measurements r)) \<and>
      nesting_elements (map measurement_json (ev_measurements r)) \<le> 2"
    using nesting_mapped_le [of "ev_measurements r" measurement_json 1] float_shapes(1) assms
    by (simp add: unique_elements printable_record_def numeral_2_eq_2)
  moreover have "unique_keys (profile_json p) \<and> nesting (profile_json p) \<le> 1" if "ev_stream_profile r = Some p" for p
    using that assms float_shapes(2) by (simp add: printable_record_def)
  moreover have "nesting (bindings_json b) \<le> 4" "nesting (methodology_json m) \<le> 4" for b m
    using part_shapes(9) [of b] part_shapes(12) [of m] by linarith+
  moreover have "bindings_json b \<noteq> JNull" "methodology_json m \<noteq> JNull" "profile_json p \<noteq> JNull" for b m p
    by (simp_all add: bindings_json_def methodology_json_def profile_json_def)
  ultimately show ?thesis
    using part_shapes(8,11) by (auto simp: optional_members_def optional_json_def split: option.splits)
qed

lemma record_json_shape:
  assumes "printable_record r"
  shows "unique_keys (record_json r)" "nesting (record_json r) \<le> 5"
proof -
  let ?ms = "record_header r @ optional_members r"
  have vals: "v \<noteq> JNull \<and> unique_keys v \<and> nesting v \<le> 4" if "(k, v) \<in> set ?ms" for k v
    using that header_values [of r] optional_values [OF assms] by (force simp: list_all_iff)
  have other: "list_all (\<lambda>k. k \<notin> set required_record_keys)
      [''bindings'', ''stream_profile'', ''measurement_methodology'', ''measurements'']" by code_simp
  have "distinct required_record_keys" by code_simp
  moreover have "set (map fst (optional_members r)) \<inter> set required_record_keys = {}"
    using other optional_members_fst [of r] unfolding list_all_iff by auto
  moreover have "distinct (map fst (optional_members r))"
    by (simp add: optional_members_def optional_json_def split: option.splits)
  ultimately have "distinct (map fst ?ms)" by (simp only: map_append distinct_append header_keys) blast
  with vals show "unique_keys (record_json r)"
    unfolding record_json_members by (simp only: unique_keys.simps unique_members) blast
  show "nesting (record_json r) \<le> 5"
    using nesting_members_le [of ?ms 4] vals unfolding record_json_members by simp
qed

lemma record_json_known:
  assumes "printable_record r"
  shows "known_keys (record_json r)"
proof -
  have header: "fst ` set (record_header r) = set required_record_keys"
    by (metis header_keys list.set_map)
  have "exact_keys record_keys (record_json r)"
  proof -
    have "fst ` set (record_header r @ optional_members r) \<subseteq> set record_keys"
      using header optional_members_fst [of r] by (auto simp: record_keys_def)
    then show ?thesis by (force simp: record_json_members exact_keys_def list_all_iff)
  qed
  moreover have "require_keys required_record_keys (record_json r)"
    unfolding require_keys_def list_all_iff
  proof
    fix k assume "k \<in> set required_record_keys"
    then obtain v where v: "(k, v) \<in> set (record_header r)" unfolding header [symmetric] by auto
    moreover have "v \<noteq> JNull" using v header_values [of r] by (force simp: list_all_iff)
    ultimately show "case member (record_json r) k of None \<Rightarrow> False | Some x \<Rightarrow> x \<noteq> JNull"
      using header_member by simp
  qed
  moreover have "optional (object_at (closed_object binding_keys)) (member (record_json r) ''bindings'')"
    "optional (object_at (closed_object methodology_keys)) (member (record_json r) ''measurement_methodology'')"
    using part_shapes(7,10) by (auto simp: optional_def object_at_def member_optional split: option.splits)
  moreover have "optional (object_at (closed_object profile_keys)) (member (record_json r) ''stream_profile'')"
    "optional (array_of (closed_object measurement_keys)) (member (record_json r) ''measurements'')"
    using assms float_shapes
    by (auto simp: optional_def object_at_def array_of_def member_optional printable_record_def list_all_iff
        split: option.splits)
  ultimately show ?thesis
    unfolding known_keys_def
    by (simp add: header_at object_at_def part_shapes(4) nested_shapes raw_artifacts_def artifacts_shape(1))
      (simp add: array_of_def list_all_iff nested_shapes part_shapes(1))
qed

lemma parse_printed_record:
  assumes "printable_record r" "validate_evidence r = Inr ()"
    and "\<not> doc_blank d" "doc_size d \<le> max_record_size" "doc_tokens d = tokens (record_json r)"
  shows "parse_evidence d = Inr r"
proof -
  have "walk 64 False (Value 0) (tokens (record_json r)) = Inr []"
    using walk_tokens(1) [of 64 False 0 "record_json r" "[]" "[]"] record_json_shape [OF assms(1)] by simp
  moreover have "decode_evidence (tokens (record_json r)) = Some r"
    using read_value_iff [of "tokens (record_json r)" "record_json r" "[]"] record_json_known [OF assms(1)]
      decode_record_json [OF assms(1)] by (simp add: decode_evidence_def)
  ultimately show ?thesis using assms by (simp add: parse_evidence_def)
qed

section \<open>A signed set\<close>

lemma sample_printable: "r \<in> {sample_host, sample_client, sample_session} \<Longrightarrow> printable_record r"
proof -
  have whole: "whole_float (Finite (of_int n))" if "0 \<le> n" "n < 2 ^ 53" for n
    using that by (auto simp: whole_float_def)
  have floats: "whole_float (Finite 1800)" "whole_float (Finite 60)" "whole_float (Finite 5)" "whole_float (Finite 10)"
    "whole_float (Finite 40)" "whole_float (Finite 0)"
    using whole [of 1800] whole [of 60] whole [of 5] whole [of 10] whole [of 40] whole [of 0] by simp_all
  have small: "small_artifacts [sample_artifact n]" for n by (simp add: small_artifacts_def sample_artifact_def)
  have checks: "\<forall>c \<in> set (map (sample_check observed) cs). small_artifacts (check_artifacts c)" for observed cs
    by (auto simp: sample_check_def small)
  have parts: "printable_record (sample_record k s created observed reviewed)" for k s created observed reviewed
    using checks by (simp add: printable_record_def sample_record_def sample_attestation_def small)
  show "printable_record r" if "r \<in> {sample_host, sample_client, sample_session}"
    using that parts floats
    by (auto simp: sample_host_def sample_client_def sample_session_def printable_record_def)
qed

definition sample_payload :: payload where
  "sample_payload =
     \<lparr>pl_schema = payload_schema_id, pl_version = 2, pl_set_id = ''set-'' @ replicate 32 (CHR ''3''),
      pl_run_id = ''run-'' @ replicate 32 (CHR ''2''), pl_route_id = ''physical-windows-remote'',
      pl_profile_id = ''remote-play-v1'', pl_policy_id = ''lab-policy'', pl_created_at = ''2026-09-24T08:00:00Z'',
      pl_expires_at = ''2026-10-10T00:00:00Z'', pl_manifest_as_of = ''2026-09-23'',
      pl_manifest_sha256 = hex_of (CHR ''a''), pl_host_platform = ''windows'', pl_host_architecture = ''amd64'',
      pl_client_platform = ''linux'', pl_client_architecture = ''amd64'', pl_host_record = hex_of (CHR ''c''),
      pl_client_record = hex_of (CHR ''d''), pl_session_record = hex_of (CHR ''e'')\<rparr>"

definition sample_data :: string where
  "sample_data = ''payload'' @ [char_of (10 :: nat)]"

definition payload_json :: "payload \<Rightarrow> json" where
  "payload_json p =
     JObj (zip payload_keys
       [JStr (pl_schema p), json_int (pl_version p), JStr (pl_set_id p), JStr (pl_run_id p), JStr (pl_route_id p),
        JStr (pl_profile_id p), JStr (pl_policy_id p), JStr (pl_created_at p), JStr (pl_expires_at p),
        JStr (pl_manifest_as_of p), JStr (pl_manifest_sha256 p), JStr (pl_host_platform p),
        JStr (pl_host_architecture p), JStr (pl_client_platform p), JStr (pl_client_architecture p),
        JStr (pl_host_record p), JStr (pl_client_record p), JStr (pl_session_record p)])"

text \<open>Two signatures, by the keys of an observer and of a reviewer.\<close>

definition sample_key_id :: "char \<Rightarrow> string" where
  "sample_key_id ch = ''lbk1-'' @ hex_of ch"

definition sample_key :: "char \<Rightarrow> string \<Rightarrow> string \<Rightarrow> string \<Rightarrow> trusted_key" where
  "sample_key ch who organization role =
     \<lparr>tk_key_id = sample_key_id ch, tk_algorithm = ''ed25519'', tk_public_key = hex_of ch, tk_principal = who,
      tk_organization = organization, tk_role = role, tk_routes = [''physical-windows-remote''],
      tk_platforms = [''linux''], tk_architectures = [''amd64''], tk_profiles = [''remote-play-v1''],
      tk_not_before = ''2026-09-24T08:00:00Z'', tk_not_after = ''2026-10-10T00:00:00Z'', tk_revoked = False\<rparr>"

definition sample_policy :: trust_policy where
  "sample_policy =
     \<lparr>tp_schema = trust_policy_schema_id, tp_schema_version = 1, tp_id = ''lab-policy'', tp_status = ''provisioned'',
      tp_valid_from = ''2026-09-24T08:00:00Z'', tp_expires_at = ''2026-10-10T00:00:00Z'',
      tp_required_roles = [''lab-observer'', ''independent-reviewer''], tp_min_signatures = int min_signatures,
      tp_distinct_principals = True, tp_distinct_organizations = True,
      tp_keys = [sample_key (CHR ''1'') ''observer'' ''lab'' ''lab-observer'',
        sample_key (CHR ''2'') ''reviewer'' ''university'' ''independent-reviewer'']\<rparr>"

definition sample_signature :: "char \<Rightarrow> signature_item" where
  "sample_signature ch =
     \<lparr>sg_algorithm = ''ed25519'', sg_key_id = sample_key_id ch, sg_signed_at = ''2026-09-24T13:00:00Z'',
      sg_signature = replicate 128 ch\<rparr>"

definition sample_envelope :: envelope where
  "sample_envelope =
     \<lparr>en_schema = envelope_schema_id, en_version = 1, en_payload_type = set_payload_type,
      en_payload_encoding = payload_encoding, en_payload = ''cGF5bG9hZAo'',
      en_signatures = [sample_signature (CHR ''1''), sample_signature (CHR ''2'')]\<rparr>"

definition signature_json :: "signature_item \<Rightarrow> json" where
  "signature_json s =
     JObj [(''algorithm'', JStr (sg_algorithm s)), (''key_id'', JStr (sg_key_id s)),
       (''signed_at'', JStr (sg_signed_at s)), (''signature'', JStr (sg_signature s))]"

definition envelope_json :: "envelope \<Rightarrow> json" where
  "envelope_json e =
     JObj [(''$schema'', JStr (en_schema e)), (''envelope_version'', json_int (en_version e)),
       (''payload_type'', JStr (en_payload_type e)), (''payload_encoding'', JStr (en_payload_encoding e)),
       (''payload'', JStr (en_payload e)), (''signatures'', JArr (map signature_json (en_signatures e)))]"

text \<open>Documents are known by name; a digest is that of the name, or of a public key; a signature is its
  key's byte repeated.\<close>

definition sample_digest :: "string \<Rightarrow> string" where
  "sample_digest s =
     hex_of (if s = ''host'' then CHR ''c'' else if s = ''client'' then CHR ''d'' else if s = ''session'' then CHR ''e''
       else if s \<noteq> [] \<and> byte (last s) = 0x11 then CHR ''1'' else CHR ''2'')"

definition sample_crypto :: crypto where
  "sample_crypto =
     \<lparr>sha256_hex = sample_digest, valid_public_key = (\<lambda>_. True),
      ed25519_verify = (\<lambda>k m s. k \<noteq> [] \<and> s = replicate 64 (hd k)),
      json_lexer = (\<lambda>s.
        if s = ''host'' then tokens (record_json sample_host)
        else if s = ''client'' then tokens (record_json sample_client)
        else if s = ''session'' then tokens (record_json sample_session)
        else if prefix ''payload'' s then tokens (payload_json sample_payload)
        else tokens (envelope_json sample_envelope))\<rparr>"

lemma sample_canonical:
  "parse_canonical_timestamp ''2026-09-24T08:00:00Z'' = Some (Go_Time 63957456000 0)"
  "parse_canonical_timestamp ''2026-09-24T13:00:00Z'' = Some (Go_Time 63957474000 0)"
  "parse_canonical_timestamp ''2026-10-10T00:00:00Z'' = Some (Go_Time 63958809600 0)"
proof -
  have "format_rfc3339 (Go_Time 63957456000 0) = ''2026-09-24T08:00:00Z''"
    "format_rfc3339 (Go_Time 63957474000 0) = ''2026-09-24T13:00:00Z''"
    "format_rfc3339 (Go_Time 63958809600 0) = ''2026-10-10T00:00:00Z''" by code_simp+
  then show "parse_canonical_timestamp ''2026-09-24T08:00:00Z'' = Some (Go_Time 63957456000 0)"
    "parse_canonical_timestamp ''2026-09-24T13:00:00Z'' = Some (Go_Time 63957474000 0)"
    "parse_canonical_timestamp ''2026-10-10T00:00:00Z'' = Some (Go_Time 63958809600 0)"
    by (simp_all add: parse_canonical_timestamp_def sample_times)
qed

lemma sample_documents:
  "document_of sample_crypto ''host'' = \<lparr>doc_size = 4, doc_blank = False, doc_tokens = tokens (record_json sample_host)\<rparr>"
  "document_of sample_crypto ''client'' = \<lparr>doc_size = 6, doc_blank = False, doc_tokens = tokens (record_json sample_client)\<rparr>"
  "document_of sample_crypto ''session'' = \<lparr>doc_size = 7, doc_blank = False, doc_tokens = tokens (record_json sample_session)\<rparr>"
proof -
  have "trim_space ''host'' \<noteq> []" "trim_space ''client'' \<noteq> []" "trim_space ''session'' \<noteq> []" by code_simp+
  then show "document_of sample_crypto ''host'' = \<lparr>doc_size = 4, doc_blank = False, doc_tokens = tokens (record_json sample_host)\<rparr>"
    "document_of sample_crypto ''client'' = \<lparr>doc_size = 6, doc_blank = False, doc_tokens = tokens (record_json sample_client)\<rparr>"
    "document_of sample_crypto ''session'' = \<lparr>doc_size = 7, doc_blank = False, doc_tokens = tokens (record_json sample_session)\<rparr>"
    by (simp_all add: document_of_def sample_crypto_def)
qed

lemma sample_parsed:
  "parse_evidence (document_of sample_crypto ''host'') = Inr sample_host"
  "parse_evidence (document_of sample_crypto ''client'') = Inr sample_client"
  "parse_evidence (document_of sample_crypto ''session'') = Inr sample_session"
  by (rule parse_printed_record; use sample_printable sample_valid in \<open>simp add: sample_documents max_record_size_def\<close>)+

lemma strict_tokens:
  assumes "unique_keys j" "nesting j \<le> limit" "Null \<notin> set (tokens j)"
  shows "strict_value limit (tokens j) = Some j"
  using assms walk_tokens(1) [of limit True 0 j "[]" "[]"] read_value_iff [of "tokens j" j "[]"]
  by (simp add: strict_value_def inspect_json_def)

lemma sample_payload_json:
  "unique_keys (payload_json sample_payload)" "nesting (payload_json sample_payload) \<le> 32"
  "Null \<notin> set (tokens (payload_json sample_payload))"
  "closed_object payload_keys (payload_json sample_payload)"
  "decode_payload (payload_json sample_payload) = Some sample_payload"
  by code_simp+

lemma sample_envelope_json:
  "unique_keys (envelope_json sample_envelope)" "nesting (envelope_json sample_envelope) \<le> 32"
  "Null \<notin> set (tokens (envelope_json sample_envelope))"
  "decode_envelope (envelope_json sample_envelope) = Some sample_envelope"
  by code_simp+

lemma sample_payload_parts:
  "check_payload_identity sample_payload = Inr ()" "check_payload_cell sample_payload = Inr ()"
  "check_envelope_identity sample_envelope = Inr ()" "canonical_base64 ''cGF5bG9hZAo'' = Some sample_data"
  "trim_space sample_data \<noteq> []" "utf8_valid sample_data" "trim_space ''envelope'' \<noteq> []" "utf8_valid ''envelope''"
  "key_id_pattern (sample_key_id (CHR ''1''))" "key_id_pattern (sample_key_id (CHR ''2''))"
  "string_less (sample_key_id (CHR ''1'')) (sample_key_id (CHR ''2''))"
  "decode_lower_hex (replicate 128 (CHR ''1'')) 64 = Some (replicate 64 (CHR 0x11))"
  "decode_lower_hex (replicate 128 (CHR ''2'')) 64 = Some (replicate 64 (CHR 0x22))"
  "decode_lower_hex (hex_of (CHR ''1'')) 32 = Some (replicate 32 (CHR 0x11))"
  "decode_lower_hex (hex_of (CHR ''2'')) 32 = Some (replicate 32 (CHR 0x22))"
  by code_simp+

lemma sample_lexer:
  "json_lexer sample_crypto sample_data = tokens (payload_json sample_payload)"
  "json_lexer sample_crypto ''envelope'' = tokens (envelope_json sample_envelope)"
  by (simp_all add: sample_crypto_def sample_data_def)

lemma sample_data_size: "length sample_data = 8" "sample_data \<noteq> []"
  by (simp_all add: sample_data_def)

lemma sample_dates_ok:
  "check_payload_dates sample_payload (Go_Time 63957456000 0) (Go_Time 63958809600 0) = Inr ()"
proof -
  have "format_date 740247 = ''2026-09-23''" by code_simp
  then show ?thesis
    using sample_window by (simp add: check_payload_dates_def sample_payload_def sample_dates less_go_time_def)
qed

lemma sample_payload_valid: "validate_payload sample_payload = Inr sample_payload"
proof -
  have "pl_created_at sample_payload = ''2026-09-24T08:00:00Z''" "pl_expires_at sample_payload = ''2026-10-10T00:00:00Z''"
    by (simp_all add: sample_payload_def)
  then show ?thesis
    by (simp add: validate_payload_def sample_payload_parts policy_time_def sample_canonical sample_dates_ok)
qed

lemma sample_payload_parsed: "parse_payload sample_crypto sample_data = Inr sample_payload"
  using strict_tokens [OF sample_payload_json(1-3)]
  by (simp add: parse_payload_def sample_payload_parts max_payload_size_def sample_data_size sample_lexer sample_payload_json
      sample_payload_valid)

lemma sample_envelope_parsed: "parse_envelope sample_crypto ''envelope'' = Inr (sample_envelope, sample_data, sample_payload)"
proof -
  have "read_envelope sample_crypto ''envelope'' = Inr sample_envelope"
    using strict_tokens [OF sample_envelope_json(1-3)]
    by (simp add: read_envelope_def sample_payload_parts max_envelope_size_def sample_lexer sample_envelope_json)
  moreover have "check_signature_items 0 None (en_signatures sample_envelope) = Inr ()"
    by (simp add: sample_envelope_def sample_signature_def sample_payload_parts sample_canonical)
  moreover have "parse_envelope_payload sample_crypto sample_envelope = Inr (sample_data, sample_payload)"
    using sample_payload_parts(4)
    by (simp add: parse_envelope_payload_def max_payload_size_def sample_data_size sample_payload_parsed sample_envelope_def)
  ultimately show ?thesis by (simp add: parse_envelope_def sample_payload_parts)
qed

section \<open>Its policy\<close>

lemma sample_key_valid:
  assumes "(ch, pk, role) \<in> {(CHR ''1'', replicate 32 (CHR 0x11), ''lab-observer''), (CHR ''2'', replicate 32 (CHR 0x22), ''independent-reviewer'')}"
    and "valid_slug who 128" "valid_slug organization 128"
  shows "validate_trusted_key sample_crypto (sample_key ch who organization role) (Go_Time 63957456000 0)
    (Go_Time 63958809600 0) = Inr ()"
proof -
  have "decode_lower_hex (hex_of ch) 32 = Some pk" using assms(1) sample_payload_parts(14,15) by auto
  moreover have "sample_key_id ch = derive_key_id sample_crypto pk"
    using assms(1) by (auto simp: derive_key_id_def sample_crypto_def sample_digest_def sample_key_id_def byte_def)
  ultimately have "check_key_identity sample_crypto (sample_key ch who organization role) = Inr ()"
    by (simp add: check_key_identity_def sample_key_def sample_crypto_def)
  moreover have "check_key_window (sample_key ch who organization role) (Go_Time 63957456000 0) (Go_Time 63958809600 0) = Inr ()"
    by (simp add: check_key_window_def sample_key_def policy_time_def sample_canonical less_go_time_def)
  moreover have "validate_sorted_scope ''route_ids'' [''physical-windows-remote''] [''physical-windows-remote'', ''physical-macos-remote''] = Inr ()"
    "validate_sorted_scope ''client_platforms'' [''linux''] supported_client_platforms = Inr ()"
    "validate_sorted_scope ''architectures'' [''amd64''] [''amd64'', ''arm64''] = Inr ()"
    by code_simp+
  moreover have "role = ''lab-observer'' \<or> role = ''independent-reviewer''" using assms(1) by auto
  ultimately show ?thesis
    using assms(2,3)
    by (simp add: validate_trusted_key_def remote_profile_def sample_key_def del: first_error.simps(2))
qed

lemma sample_policy_valid: "validate_trust_policy sample_crypto sample_policy = Inr ()"
proof -
  have slugs: "valid_slug ''observer'' 128" "valid_slug ''lab'' 128" "valid_slug ''reviewer'' 128" "valid_slug ''university'' 128"
    "valid_slug ''lab-policy'' 128" by code_simp+
  have "validate_policy_header sample_policy = Inr ()"
    by (simp add: validate_policy_header_def sample_policy_def slugs del: first_error.simps(2))
  moreover have "check_policy_keys sample_crypto (Go_Time 63957456000 0) (Go_Time 63958809600 0) None [] (tp_keys sample_policy) = Inr ()"
    using sample_key_valid [of "CHR ''1''" _ "''lab-observer''" "''observer''" "''lab''"] slugs sample_payload_parts(11)
      sample_key_valid [of "CHR ''2''" _ "''independent-reviewer''" "''reviewer''" "''university''"]
    by (simp add: sample_policy_def) (simp add: sample_key_def)
  ultimately show ?thesis
    by (simp add: validate_trust_policy_def validate_provisioned_def policy_time_def sample_canonical less_go_time_def
        min_signatures_def max_policy_keys_def sample_policy_def sample_key_def)
qed

section \<open>Its verification\<close>

definition sample_bytes_of :: record_bytes where
  "sample_bytes_of = \<lparr>rb_host = ''host'', rb_client = ''client'', rb_session = ''session''\<rparr>"

definition sample_cell :: expected_cell where
  "sample_cell = \<lparr>ec_route = ''physical-windows-remote'', ec_platform = ''linux'', ec_architecture = ''amd64''\<rparr>"

definition sample_context :: signing_context where
  "sample_context =
     \<lparr>sc_policy = sample_policy, sc_payload_type = set_payload_type, sc_bytes = sample_data, sc_payload = sample_payload,
      sc_records = [sample_host, sample_client, sample_session], sc_now = sample_now\<rparr>"

lemma sample_record_times:
  assumes "r \<in> {sample_host, sample_client, sample_session}"
  shows "follows_review (Go_Time 63957474000 0) r = Inr ()"
  using assms by (auto simp: follows_review_def sample_host_def sample_client_def sample_session_def sample_record_def
      sample_attestation_def sample_times less_go_time_def)

definition sample_signers :: "trusted_key list" where
  "sample_signers = tp_keys sample_policy"

lemma sample_signed:
  assumes "(s, k) \<in> {(sample_signature (CHR ''1''), sample_key (CHR ''1'') ''observer'' ''lab'' ''lab-observer''),
      (sample_signature (CHR ''2''), sample_key (CHR ''2'') ''reviewer'' ''university'' ''independent-reviewer'')}"
  shows "key_of sample_policy (sg_key_id s) = Some k" and "check_signature sample_crypto sample_context s k = Inr ()"
proof -
  have different: "sample_key_id (CHR ''2'') \<noteq> sample_key_id (CHR ''1'')" by code_simp
  show "key_of sample_policy (sg_key_id s) = Some k"
    using assms different by (auto simp: key_of_def sample_policy_def sample_key_def sample_signature_def)
  have scope: "in_scope k sample_payload"
    using assms by (auto simp: in_scope_def sample_key_def sample_payload_def contains_sorted_iff)
  have signature: "authentic sample_crypto k set_payload_type s sample_data"
    using assms sample_payload_parts(12-15)
    by (auto simp: authentic_def sample_key_def sample_signature_def) (simp_all add: sample_crypto_def)
  have times: "canonical_or_zero ''2026-09-24T08:00:00Z'' = Go_Time 63957456000 0"
    "canonical_or_zero ''2026-09-24T13:00:00Z'' = Go_Time 63957474000 0"
    "canonical_or_zero ''2026-10-10T00:00:00Z'' = Go_Time 63958809600 0"
    by (simp_all add: canonical_or_zero_def sample_canonical)
  have at: "sg_signed_at s = ''2026-09-24T13:00:00Z''" "tk_not_before k = ''2026-09-24T08:00:00Z''"
    "tk_not_after k = ''2026-10-10T00:00:00Z''" "\<not> tk_revoked k"
    using assms by (auto simp: sample_signature_def sample_key_def)
  have "sc_records sample_context = [sample_host, sample_client, sample_session]" "sc_now sample_context = sample_now"
    "sc_payload sample_context = sample_payload" "sc_policy sample_context = sample_policy"
    "sc_payload_type sample_context = set_payload_type" "sc_bytes sample_context = sample_data"
    by (simp_all add: sample_context_def)
  moreover have "pl_created_at sample_payload = ''2026-09-24T08:00:00Z''" "pl_expires_at sample_payload = ''2026-10-10T00:00:00Z''"
    "tp_valid_from sample_policy = ''2026-09-24T08:00:00Z''" "tp_expires_at sample_policy = ''2026-10-10T00:00:00Z''"
    by (simp_all add: sample_payload_def sample_policy_def)
  ultimately show "check_signature sample_crypto sample_context s k = Inr ()"
    unfolding check_signature_def Let_def first_error_append first_error_map_ok first_error_Cons_ok require_ok
    by (simp add: at times scope signature sample_record_times less_go_time_def sample_now_def)
qed

lemma sample_quorum: "verify_quorum sample_crypto sample_context (en_signatures sample_envelope) = Inr sample_signers"
proof -
  have "verify_signatures sample_crypto sample_context 0 (en_signatures sample_envelope) = Inr sample_signers"
  proof -
    have "sc_policy sample_context = sample_policy" by (simp add: sample_context_def)
    moreover have "en_signatures sample_envelope = [sample_signature (CHR ''1''), sample_signature (CHR ''2'')]"
      "sample_signers = [sample_key (CHR ''1'') ''observer'' ''lab'' ''lab-observer'',
         sample_key (CHR ''2'') ''reviewer'' ''university'' ''independent-reviewer'']"
      by (simp_all add: sample_envelope_def sample_signers_def sample_policy_def)
    ultimately show ?thesis
      using sample_signed [of "sample_signature (CHR ''1'')" "sample_key (CHR ''1'') ''observer'' ''lab'' ''lab-observer''"]
        sample_signed [of "sample_signature (CHR ''2'')" "sample_key (CHR ''2'') ''reviewer'' ''university'' ''independent-reviewer''"]
      by simp
  qed
  moreover have "has_independent_quorum sample_signers" by code_simp
  moreover have "length sample_signers = 2" "tp_min_signatures (sc_policy sample_context) = 2"
    by (simp_all add: sample_signers_def sample_policy_def sample_context_def min_signatures_def)
  ultimately show ?thesis by (simp add: verify_quorum_def)
qed

lemma sample_bindings: "verify_record_bindings sample_payload sample_host sample_client sample_session = Inr ()"
proof -
  have "check_validity_binding sample_payload sample_session = Inr ()"
    by (simp add: check_validity_binding_def policy_time_def record_time_def sample_payload_def sample_session_def
        sample_record_def sample_canonical sample_times)
  moreover have "\<forall>nr \<in> set [(''host'', sample_host), (''client'', sample_client), (''session'', sample_session)].
      check_record_binding sample_payload nr = Inr ()"
    by (simp add: check_record_binding_def sample_payload_def sample_host_def sample_client_def sample_session_def
        sample_record_def del: first_error.simps(2))
  moreover have "same_machine sample_host ''windows'' ''amd64''" "same_machine sample_client ''linux'' ''amd64''"
    "same_machine sample_session ''linux'' ''amd64''"
    by (simp_all add: same_machine_def sample_host_def sample_client_def sample_session_def sample_record_def)
  moreover have "pl_host_platform sample_payload = ''windows''" "pl_host_architecture sample_payload = ''amd64''"
    "pl_client_platform sample_payload = ''linux''" "pl_client_architecture sample_payload = ''amd64''"
    by (simp_all add: sample_payload_def)
  ultimately show ?thesis
    unfolding verify_record_bindings_def first_error_append first_error_map_ok by simp
qed

lemma sample_records_verified:
  "verify_records sample_crypto sample_env sample_payload sample_bytes_of sample_verifications sample_now =
     Inr [sample_host, sample_client, sample_session]"
proof -
  have sha: "sha256_hex sample_crypto ''host'' = hex_of (CHR ''c'')" "sha256_hex sample_crypto ''client'' = hex_of (CHR ''d'')"
    "sha256_hex sample_crypto ''session'' = hex_of (CHR ''e'')"
    by (simp_all add: sample_crypto_def sample_digest_def)
  have "check_digests sample_crypto sample_payload sample_bytes_of = Inr ()"
    by (simp add: check_digests_def sample_payload_def sample_bytes_of_def sha del: first_error.simps(2))
  moreover have "require_complete_set sample_env sample_host sample_client sample_session (hex_of (CHR ''c''))
      (hex_of (CHR ''d'')) sample_verifications sample_now = Inr ()"
    using sample_set by (auto simp: require_complete_set_def)
  ultimately show ?thesis
    using sample_bindings by (simp add: verify_records_def parse_record_def sample_parsed sha) (simp add: sample_bytes_of_def sample_parsed sha)
qed

lemma sample_verified:
  "\<exists>s. verify_set_at sample_crypto sample_env ''envelope'' sample_bytes_of sample_cell sample_verifications
     (Some sample_policy) sample_now = Inr s \<and> vs_created s = Go_Time 63957456000 0 \<and> vs_expires s = Go_Time 63958809600 0"
proof -
  have times: "canonical_or_zero (pl_created_at sample_payload) = Go_Time 63957456000 0"
    "canonical_or_zero (pl_expires_at sample_payload) = Go_Time 63958809600 0"
    "canonical_or_zero (tp_valid_from sample_policy) = Go_Time 63957456000 0"
    "canonical_or_zero (tp_expires_at sample_policy) = Go_Time 63958809600 0"
    by (simp_all add: canonical_or_zero_def sample_canonical sample_payload_def sample_policy_def)
  have "payload_window sample_payload sample_now = Inr ()"
    by (simp add: payload_window_def times sample_now_def less_go_time_def)
  moreover have "policy_window sample_policy sample_payload sample_now = Inr ()"
    by (simp add: policy_window_def Let_def times sample_now_def less_go_time_def) (simp add: sample_policy_def)
  moreover have "verify_expected_cell sample_cell sample_payload = Inr ()"
    by (simp add: verify_expected_cell_def sample_cell_def sample_payload_def del: first_error.simps(2))
  moreover have "\<not> is_zero sample_now" by (simp add: sample_now_def is_zero_def zero_time_def)
  moreover have "pl_policy_id sample_payload = tp_id sample_policy" by (simp add: sample_payload_def sample_policy_def)
  moreover have "\<lparr>sc_policy = sample_policy, sc_payload_type = en_payload_type sample_envelope, sc_bytes = sample_data,
      sc_payload = sample_payload, sc_records = [sample_host, sample_client, sample_session], sc_now = sample_now\<rparr> =
      sample_context" by (simp add: sample_context_def sample_envelope_def)
  ultimately show ?thesis
    by (simp add: verify_set_at_def sample_policy_valid sample_envelope_parsed sample_records_verified sample_quorum times)
qed

lemma verified_set_reviewed_witness:
  "\<exists>s. verify_set_at sample_crypto sample_env ''envelope'' sample_bytes_of sample_cell sample_verifications
     (Some sample_policy) sample_now = Inr s \<and> vs_created s \<le> sample_now"
proof -
  obtain s where s: "verify_set_at sample_crypto sample_env ''envelope'' sample_bytes_of sample_cell sample_verifications
     (Some sample_policy) sample_now = Inr s" using sample_verified by blast
  from verified_set_reviewed [OF s] have "vs_created s \<le> sample_now" by blast
  with s show ?thesis by blast
qed

lemma sample_digest_sha: "\<forall>d. is_sha256 (sha256_hex sample_crypto d)"
proof -
  have "is_sha256 (hex_of (CHR ''c''))" "is_sha256 (hex_of (CHR ''d''))" "is_sha256 (hex_of (CHR ''e''))"
    "is_sha256 (hex_of (CHR ''1''))" "is_sha256 (hex_of (CHR ''2''))" by code_simp+
  then show ?thesis by (simp add: sample_crypto_def sample_digest_def)
qed

lemma verified_set_promotes_witness:
  "\<exists>s r. verify_set_at sample_crypto sample_env ''envelope'' sample_bytes_of sample_cell sample_verifications
      (Some sample_policy) sample_now = Inr s \<and> promote_remote_set_at s sample_now = Inr r \<and> rp_score r = 100"
proof -
  obtain s where s: "verify_set_at sample_crypto sample_env ''envelope'' sample_bytes_of sample_cell sample_verifications
      (Some sample_policy) sample_now = Inr s" "vs_created s = Go_Time 63957456000 0" "vs_expires s = Go_Time 63958809600 0"
    using sample_verified by blast
  have "vs_created s \<le> sample_now" "sample_now < vs_expires s" "\<not> is_zero sample_now" "\<not> is_zero (vs_created s)"
    "\<not> is_zero (vs_expires s)"
    by (simp_all add: s sample_now_def less_go_time_def less_eq_go_time_def is_zero_def zero_time_def)
  with verified_set_promotes [OF s(1) sample_digest_sha, of sample_now] s(1) show ?thesis by blast
qed

section \<open>Its preparation\<close>

definition sample_marshal :: "payload \<Rightarrow> string" where
  "sample_marshal p = (if p = sample_payload then ''payload'' else [])"

definition sample_request_v2 :: prepare_request where
  "sample_request_v2 =
     \<lparr>pq_records = sample_bytes_of, pq_expected = sample_cell, pq_verifications = sample_verifications,
      pq_set_id = ''set-'' @ replicate 32 (CHR ''3''), pq_policy_id = ''lab-policy''\<rparr>"

lemma sample_prepared:
  "prepare_payload_at sample_crypto sample_env sample_marshal sample_request_v2 None sample_now = Inr sample_data"
proof -
  obtain i where i: "i = ''set-'' @ replicate 32 (CHR ''3'')" by blast
  have sha: "sha256_hex sample_crypto ''host'' = hex_of (CHR ''c'')" "sha256_hex sample_crypto ''client'' = hex_of (CHR ''d'')"
    "sha256_hex sample_crypto ''session'' = hex_of (CHR ''e'')"
    by (simp_all add: sample_crypto_def sample_digest_def)
  have "prepared_payload sample_crypto sample_request_v2 sample_host sample_client i
      ''2026-09-24T08:00:00Z'' ''2026-10-10T00:00:00Z'' = sample_payload"
    by (simp add: prepared_payload_def sample_request_v2_def sample_bytes_of_def sha sample_payload_def sample_host_def
        sample_client_def sample_record_def i)
  then have data: "sample_marshal (prepared_payload sample_crypto sample_request_v2 sample_host sample_client
      i ''2026-09-24T08:00:00Z'' ''2026-10-10T00:00:00Z'') @ [char_of (10 :: nat)] =
      sample_data" by (simp add: sample_marshal_def sample_data_def)
  have instants: "canonical_record_instant name ''2026-09-24T08:00:00Z'' = Inr ''2026-09-24T08:00:00Z''"
    "canonical_record_instant name ''2026-10-10T00:00:00Z'' = Inr ''2026-10-10T00:00:00Z''" for name
    using sample_canonical by (simp_all add: canonical_record_instant_def parse_canonical_timestamp_def sample_times
        split: if_splits)
  have session: "ev_created_at sample_session = ''2026-09-24T08:00:00Z''" "ev_expires_at sample_session = ''2026-10-10T00:00:00Z''"
    by (simp_all add: sample_session_def sample_record_def)
  have "choose_set_id i None = Inr i" unfolding i by code_simp
  moreover have "finish_payload sample_crypto sample_cell sample_host sample_client sample_session sample_data = Inr sample_data"
    using sample_bindings
    by (simp add: finish_payload_def sample_data_size max_payload_size_def sample_payload_parsed verify_expected_cell_def
        sample_cell_def del: first_error.simps(2)) (simp add: sample_payload_def)
  moreover have "trim_space ''lab-policy'' \<noteq> []" by code_simp
  moreover have "require_complete_set sample_env sample_host sample_client sample_session (hex_of (CHR ''c''))
      (hex_of (CHR ''d'')) sample_verifications sample_now = Inr ()"
    using sample_set by (auto simp: require_complete_set_def)
  moreover have "\<not> is_zero sample_now" by (simp add: sample_now_def is_zero_def zero_time_def)
  moreover have "pq_records sample_request_v2 = sample_bytes_of" "pq_expected sample_request_v2 = sample_cell"
    "pq_verifications sample_request_v2 = sample_verifications" "pq_policy_id sample_request_v2 = ''lab-policy''"
    "pq_set_id sample_request_v2 = i"
    "rb_host sample_bytes_of = ''host''" "rb_client sample_bytes_of = ''client''" "rb_session sample_bytes_of = ''session''"
    by (simp_all add: sample_request_v2_def sample_bytes_of_def i)
  ultimately show ?thesis
    by (simp add: prepare_payload_at_def Let_def parse_record_def sample_parsed sha session instants data)
qed

lemma sample_marshal_reads_back:
  "parse_payload sample_crypto (sample_marshal x @ [char_of (10 :: nat)]) = Inr y \<Longrightarrow> y = x"
proof (cases "x = sample_payload")
  case True
  then show "parse_payload sample_crypto (sample_marshal x @ [char_of (10 :: nat)]) = Inr y \<Longrightarrow> y = x"
    using sample_payload_parsed by (simp add: sample_marshal_def sample_data_def)
next
  case False
  have "trim_space [char_of (10 :: nat)] = []" by code_simp
  with False show "parse_payload sample_crypto (sample_marshal x @ [char_of (10 :: nat)]) = Inr y \<Longrightarrow> y = x"
    by (simp add: sample_marshal_def parse_payload_def)
qed

lemma prepared_set_needs_signatures_witness:
  "\<exists>records ks. verify_quorum sample_crypto
     \<lparr>sc_policy = sample_policy, sc_payload_type = en_payload_type sample_envelope, sc_bytes = sample_data,
      sc_payload = sample_payload, sc_records = records, sc_now = sample_now\<rparr> (en_signatures sample_envelope) = Inr ks"
proof -
  have "tp_id sample_policy = pq_policy_id sample_request_v2" by (simp add: sample_policy_def sample_request_v2_def)
  moreover have "\<exists>s. verify_set_at sample_crypto sample_env ''envelope'' (pq_records sample_request_v2)
      (pq_expected sample_request_v2) (pq_verifications sample_request_v2) (Some sample_policy) sample_now = Inr s"
    using sample_verified by (simp add: sample_request_v2_def) blast
  ultimately show ?thesis
    using prepared_set_needs_signatures [OF sample_prepared sample_marshal_reads_back sample_envelope_parsed
        sample_policy_valid] by blast
qed

end
