(* ===== verification/Native_Examples.thy ===== *)
theory Native_Examples
  imports Review_Independence Signed_Examples
begin

text \<open>
  A native observation that verifies, with its raw files, and a complete set of observations: the
  hypotheses of the theorems on native records and on independent reviews can be met.
\<close>

section \<open>An observation\<close>

definition sample_bsd_cell :: cell where
  "sample_bsd_cell = mk_cell [] ''freebsd'' ''amd64''"

definition sample_release :: "string \<Rightarrow> release_binding" where
  "sample_release archive =
     \<lparr>rl_version = ''v1.2.3'', rl_commit = replicate 40 (CHR ''4''), rl_tree = replicate 40 (CHR ''5''), rl_release_id = 7,
      rl_archive = archive, rl_archive_sha256 = hex_of (CHR ''6''), rl_executable_sha256 = hex_of (CHR ''7'')\<rparr>"

definition bsd_archive :: string where
  "bsd_archive = ''leaguebridge_1.2.3_freebsd_amd64.tar.gz''"

text \<open>The file at a path consists of the path; its digest is its last character repeated.\<close>

definition sample_paths :: "string list" where
  "sample_paths = [''/a'', ''/b'', ''/c'', ''/d'', ''/e'', ''/f'']"

definition sample_raw :: "(string \<times> string) list" where
  "sample_raw = zip (artifact_set ''physical-bsd'') sample_paths"

definition sample_inputs :: "artifact_input list" where
  "sample_inputs = map (\<lambda>(k, p). \<lparr>ai_kind = k, ai_path = p\<rparr>) sample_raw"

definition sample_native_artifacts :: "native_artifact list" where
  "sample_native_artifacts = map (\<lambda>(k, p). \<lparr>na_kind = k, na_size = 2, na_sha256 = hex_of (last p)\<rparr>) sample_raw"

definition sample_observation :: observation where
  "sample_observation =
     \<lparr>ob_schema = ''https://leaguebridge.dev/schemas/production-native-observation-v1.json'', ob_schema_version = 1,
      ob_type = ''leaguebridge.production-native-observation.v1'', ob_kind = ''physical-bsd'',
      ob_policy_id = native_policy_id, ob_id = ''observation-'' @ replicate 32 (CHR ''1''),
      ob_run_id = ''run-'' @ replicate 32 (CHR ''2''), ob_machine = ''machine-'' @ replicate 32 (CHR ''3''),
      ob_challenge = ''challenge-'' @ hex_of (CHR ''8''), ob_created_at = ''2026-09-24T08:00:00Z'',
      ob_expires_at = ''2026-10-10T00:00:00Z'', ob_cell = sample_bsd_cell, ob_release = sample_release bsd_archive,
      ob_package = [], ob_host_route = [], ob_kernel = ''FreeBSD'', ob_assertions = assertion_set ''physical-bsd'',
      ob_artifacts = sample_native_artifacts\<rparr>"

definition observation_json :: "observation \<Rightarrow> json" where
  "observation_json v =
     JObj
      ([(''$schema'', JStr (ob_schema v)), (''schema_version'', json_int (ob_schema_version v)),
        (''observation_type'', JStr (ob_type v)), (''kind'', JStr (ob_kind v)), (''policy_id'', JStr (ob_policy_id v)),
        (''observation_id'', JStr (ob_id v)), (''run_id'', JStr (ob_run_id v)),
        (''machine_pseudonym'', JStr (ob_machine v)), (''challenge'', JStr (ob_challenge v)),
        (''created_at'', JStr (ob_created_at v)), (''expires_at'', JStr (ob_expires_at v)),
        (''cell'', JObj [(''family'', JStr (cell_family (ob_cell v))), (''goos'', JStr (cell_goos (ob_cell v))),
           (''goarch'', JStr (cell_goarch (ob_cell v)))]),
        (''release'', let r = ob_release v in
           JObj [(''version'', JStr (rl_version r)), (''commit'', JStr (rl_commit r)), (''tree'', JStr (rl_tree r)),
             (''release_id'', json_int (rl_release_id r)), (''archive_filename'', JStr (rl_archive r)),
             (''archive_sha256'', JStr (rl_archive_sha256 r)), (''executable_sha256'', JStr (rl_executable_sha256 r))]),
        (''package_sha256'', JStr (ob_package v)), (''host_route'', JStr (ob_host_route v)),
        (''native_kernel'', JStr (ob_kernel v)), (''assertions'', JArr (map JStr (ob_assertions v))),
        (''artifacts'', JArr (map (\<lambda>a. JObj [(''kind'', JStr (na_kind a)), (''size_bytes'', json_int (na_size a)),
           (''sha256'', JStr (na_sha256 a))]) (ob_artifacts v)))])"

definition sample_native_key_id :: "char \<Rightarrow> string" where
  "sample_native_key_id ch = ''lbn1-'' @ hex_of ch"

definition sample_native_key :: "char \<Rightarrow> string \<Rightarrow> string \<Rightarrow> string \<Rightarrow> native_key" where
  "sample_native_key ch who organization role =
     \<lparr>nk_key_id = sample_native_key_id ch, nk_public_key = hex_of ch, nk_principal = who, nk_organization = organization,
      nk_role = role, nk_scopes = [''physical-bsd::freebsd/amd64''], nk_not_before = ''2026-09-24T08:00:00Z'',
      nk_not_after = ''2026-10-10T00:00:00Z'', nk_revoked = False\<rparr>"

definition sample_native_policy :: native_policy where
  "sample_native_policy =
     \<lparr>np_id = native_policy_id, np_status = ''provisioned'', np_valid_from = ''2026-09-24T08:00:00Z'',
      np_expires_at = ''2026-10-10T00:00:00Z'',
      np_keys = [sample_native_key (CHR ''1'') ''observer'' ''lab'' ''lab-observer'',
        sample_native_key (CHR ''2'') ''reviewer'' ''university'' ''independent-reviewer'']\<rparr>"

definition sample_native_signature :: "char \<Rightarrow> string \<Rightarrow> signature_item" where
  "sample_native_signature ch moment =
     \<lparr>sg_algorithm = ''ed25519'', sg_key_id = sample_native_key_id ch, sg_signed_at = moment,
      sg_signature = replicate 128 ch\<rparr>"

definition sample_native_envelope :: envelope where
  "sample_native_envelope =
     \<lparr>en_schema = ''https://leaguebridge.dev/schemas/production-native-envelope-v1.json'', en_version = 1,
      en_payload_type = ''leaguebridge.production-native-observation.v1'', en_payload_encoding = ''base64url-nopad'',
      en_payload = ''cGF5bG9hZAo'',
      en_signatures = [sample_native_signature (CHR ''1'') ''2026-09-24T08:00:00Z'',
        sample_native_signature (CHR ''2'') ''2026-09-24T13:00:00Z'']\<rparr>"

definition sample_native_digest :: "string \<Rightarrow> string" where
  "sample_native_digest s =
     hex_of (if s = [] then CHR ''0'' else if byte (last s) = 0x11 then CHR ''1'' else if byte (last s) = 0x22 then CHR ''2''
       else last s)"

definition sample_native_codec :: native_codec where
  "sample_native_codec =
     \<lparr>nc_crypto =
       \<lparr>sha256_hex = sample_native_digest, valid_public_key = (\<lambda>_. True),
        ed25519_verify = (\<lambda>k m s. k \<noteq> [] \<and> s = replicate 64 (hd k)),
        json_lexer = (\<lambda>s. if s = sample_data then tokens (observation_json sample_observation)
          else tokens (envelope_json sample_native_envelope))\<rparr>,
      nc_envelope_text = (\<lambda>_. ''envelope''), nc_observation_text = (\<lambda>_. sample_data), nc_policy_text = (\<lambda>_. ''policy9'')\<rparr>"

definition sample_info :: "string \<Rightarrow> file_info" where
  "sample_info path =
     \<lparr>fi_identity = byte (last path), fi_regular = True, fi_size = int (length path), fi_modified = 0\<rparr>"

definition sample_world :: native_world where
  "sample_world =
     \<lparr>nw_hash = (\<lambda>_ path. \<lparr>hr_cancelled = False, hr_before = Some (sample_info path), hr_bytes = Some path,
        hr_after = Some (sample_info path), hr_path = Some (sample_info path), hr_parents_plain = True,
        hr_cancelled_after = False\<rparr>),
      nw_cancelled = (\<lambda>_. False)\<rparr>"

lemma sample_native_json:
  "unique_keys (observation_json sample_observation)" "nesting (observation_json sample_observation) \<le> 24"
  "Null \<notin> set (tokens (observation_json sample_observation))"
  "decode_observation (observation_json sample_observation) = Some sample_observation"
  "validate_value (observation_json sample_observation) observation_type ''$'' 0 = Inr ()"
  "unique_keys (envelope_json sample_native_envelope)" "nesting (envelope_json sample_native_envelope) \<le> 24"
  "Null \<notin> set (tokens (envelope_json sample_native_envelope))"
  "decode_native_envelope (envelope_json sample_native_envelope) = Some sample_native_envelope"
  "validate_value (envelope_json sample_native_envelope) native_envelope_type ''$'' 0 = Inr ()"
  by code_simp+

lemma sample_observation_parts:
  "check_observation_header sample_observation = Inr ()" "check_observation_contents sample_observation = Inr ()"
  "check_native_envelope sample_native_envelope = Inr ()" "validate_release_binding (sample_release bsd_archive) sample_bsd_cell = Inr ()"
  "marked_hex ''challenge-'' 64 (''challenge-'' @ hex_of (CHR ''8''))" "supported_cell ''physical-bsd'' sample_bsd_cell"
  "is_sha256 (drop 5 (sample_native_key_id (CHR ''1'')))" "is_sha256 (drop 5 (sample_native_key_id (CHR ''2'')))"
  "length (sample_native_key_id (CHR ''1'')) = 69" "length (sample_native_key_id (CHR ''2'')) = 69"
  "sample_native_key_id (CHR ''1'') \<noteq> sample_native_key_id (CHR ''2'')"
  "string_less (sample_native_key_id (CHR ''1'')) (sample_native_key_id (CHR ''2''))"
  "supported_scope ''physical-bsd::freebsd/amd64''" "scope_key ''physical-bsd'' sample_bsd_cell = ''physical-bsd::freebsd/amd64''"
  "bounded_id ''observer''" "bounded_id ''lab''" "bounded_id ''reviewer''" "bounded_id ''university''"
  by code_simp+


lemma canonical_tokens:
  assumes "json_lexer c data = tokens j" "utf8_valid data" "unique_keys j" "nesting j \<le> 24" "Null \<notin> set (tokens j)"
    and "validate_value j t ''$'' 0 = Inr ()" "decode j = Some x" "write x = data"
  shows "parse_canonical_json c t decode write data = Inr x"
  using assms walk_tokens(1) [of 24 True 0 j "[]" "[]"] read_value_iff [of "tokens j" j "[]"]
  by (simp add: parse_canonical_json_def inspect_json_def validate_keys_def)

lemma sample_observation_valid: "validate_observation sample_observation = Inr ()"
proof -
  have "policy_time Obs_Time f (ob_created_at sample_observation) = Inr (Go_Time 63957456000 0)"
    "policy_time Obs_Time f (ob_expires_at sample_observation) = Inr (Go_Time 63958809600 0)" for f
    by (simp_all add: policy_time_def sample_observation_def sample_canonical)
  moreover have "time_sub (Go_Time 63958809600 0) (Go_Time 63957456000 0) \<le> 30 * 24 * 3600 * 10 ^ 9" by code_simp
  ultimately show ?thesis
    by (simp add: validate_observation_def sample_observation_parts less_go_time_def del: power_numeral)
qed

lemma sample_native_codec_simps:
  "nc_envelope_text sample_native_codec e = ''envelope''" "nc_observation_text sample_native_codec v = sample_data"
  "nc_policy_text sample_native_codec p = ''policy9''"
  "sha256_hex (nc_crypto sample_native_codec) = sample_native_digest"
  "valid_public_key (nc_crypto sample_native_codec) pk"
  "ed25519_verify (nc_crypto sample_native_codec) k m s \<longleftrightarrow> k \<noteq> [] \<and> s = replicate 64 (hd k)"
  "json_lexer (nc_crypto sample_native_codec) sample_data = tokens (observation_json sample_observation)"
  "json_lexer (nc_crypto sample_native_codec) ''envelope'' = tokens (envelope_json sample_native_envelope)"
  by (simp_all add: sample_native_codec_def sample_data_def)

lemma sample_native_parsed:
  "parse_native_envelope sample_native_codec ''envelope'' = Inr (sample_native_envelope, sample_data, sample_observation)"
proof -
  have "parse_canonical_json (nc_crypto sample_native_codec) native_envelope_type decode_native_envelope
      (nc_envelope_text sample_native_codec) ''envelope'' = Inr sample_native_envelope"
    by (rule canonical_tokens [where j = "envelope_json sample_native_envelope"])
      (simp_all add: sample_native_codec_simps sample_payload_parts sample_native_json)
  moreover have "parse_canonical_json (nc_crypto sample_native_codec) observation_type decode_observation
      (nc_observation_text sample_native_codec) sample_data = Inr sample_observation"
    by (rule canonical_tokens [where j = "observation_json sample_observation"])
      (simp_all add: sample_native_codec_simps sample_payload_parts sample_native_json)
  moreover have "check_native_signatures 0 (en_signatures sample_native_envelope) = Inr ()"
    by (simp add: sample_native_envelope_def sample_native_signature_def sample_payload_parts sample_canonical
        sample_observation_parts del: first_error.simps(2))
      (simp add: sample_native_key_id_def)
  moreover have "en_payload sample_native_envelope = ''cGF5bG9hZAo''"
    "sg_key_id (en_signatures sample_native_envelope ! 0) \<noteq> sg_key_id (en_signatures sample_native_envelope ! 1)"
    using sample_observation_parts(11) by (simp_all add: sample_native_envelope_def sample_native_signature_def)
  ultimately show ?thesis
    using sample_payload_parts(4)
    by (simp add: parse_native_envelope_def parse_native_payload_def sample_observation_parts sample_observation_valid
        sample_data_size)
qed

section \<open>Its policy\<close>

lemma sample_native_key_valid:
  assumes "(ch, pk, role) \<in> {(CHR ''1'', replicate 32 (CHR 0x11), ''lab-observer''), (CHR ''2'', replicate 32 (CHR 0x22), ''independent-reviewer'')}"
    and "bounded_id who" "bounded_id organization"
  shows "validate_native_key (nc_crypto sample_native_codec) (sample_native_key ch who organization role)
    (Go_Time 63957456000 0) (Go_Time 63958809600 0) = Inr ()"
proof -
  have "decode_lower_hex (hex_of ch) 32 = Some pk" using assms(1) sample_payload_parts(14,15) by auto
  moreover have "sample_native_key_id ch = native_key_id (nc_crypto sample_native_codec) pk"
    using assms(1) by (auto simp: native_key_id_def sample_native_codec_simps sample_native_digest_def
        sample_native_key_id_def byte_def)
  ultimately have "check_native_identity (nc_crypto sample_native_codec) (sample_native_key ch who organization role) = Inr ()"
    by (simp add: check_native_identity_def sample_native_key_def sample_native_codec_simps)
  moreover have "strings_sorted [''physical-bsd::freebsd/amd64'']" by code_simp
  moreover have "role = ''lab-observer'' \<or> role = ''independent-reviewer''" using assms(1) by auto
  ultimately show ?thesis
    using assms(2,3) sample_observation_parts(13)
    by (simp add: validate_native_key_def bind_result_ok sample_native_key_def policy_time_def sample_canonical less_go_time_def
        del: first_error.simps(2))
qed

lemma sample_native_policy_valid: "validate_native_policy (nc_crypto sample_native_codec) sample_native_policy = Inr ()"
proof -
  have "check_native_keys (nc_crypto sample_native_codec) (Go_Time 63957456000 0) (Go_Time 63958809600 0) None []
      (np_keys sample_native_policy) = Inr ()"
    using sample_native_key_valid [of "CHR ''1''" _ "''lab-observer''" "''observer''" "''lab''"] sample_observation_parts(12,15-18)
      sample_native_key_valid [of "CHR ''2''" _ "''independent-reviewer''" "''reviewer''" "''university''"]
    by (simp add: sample_native_policy_def) (simp add: sample_native_key_def)
  moreover have "time_sub (Go_Time 63958809600 0) (Go_Time 63957456000 0) \<le> 366 * 24 * 3600 * 10 ^ 9" by code_simp
  ultimately show ?thesis
    by (simp add: validate_native_policy_def validate_active_policy_def policy_time_def sample_canonical less_go_time_def
        sample_native_policy_def sample_native_key_def active_role_def del: power_numeral)
qed

section \<open>Its files\<close>

definition sample_snapshots :: "artifact_snapshot list" where
  "sample_snapshots = map2 (\<lambda>input item. \<lparr>as_input = input, as_item = item, as_info = sample_info (ai_path input)\<rparr>)
     sample_inputs sample_native_artifacts"

lemma sample_hashed:
  assumes "path \<in> set sample_paths"
  shows "hash_artifact (nc_crypto sample_native_codec) (nw_hash sample_world n path) =
    Some (hex_of (last path), 2, sample_info path)"
  using assms by (auto simp: hash_artifact_def sample_world_def sample_info_def sample_paths_def max_native_artifact_def
      sample_native_codec_simps sample_native_digest_def same_file_def byte_def)

lemma sample_files:
  "verify_artifacts (nc_crypto sample_native_codec) sample_world n sample_inputs sample_native_artifacts = Inr sample_snapshots"
  "recheck_artifacts (nc_crypto sample_native_codec) sample_world n sample_snapshots = Inr ()"
proof -
  have hashed: "hash_artifact (nc_crypto sample_native_codec) (nw_hash sample_world n [CHR ''/'', ch]) =
      Some (hex_of ch, 2, sample_info [CHR ''/'', ch])" if "ch \<in> set ''abcdef''" for ch n
    using sample_hashed [of "[CHR ''/'', ch]" n] that by (auto simp: sample_paths_def)
  show "verify_artifacts (nc_crypto sample_native_codec) sample_world n sample_inputs sample_native_artifacts = Inr sample_snapshots"
    by (simp add: verify_artifacts_def sample_snapshots_def sample_inputs_def sample_native_artifacts_def sample_raw_def
        sample_paths_def artifact_set_def hashed check_hashed_def max_artifact_set_def hex_of_def same_file_def
        sample_info_def byte_def)
  show "recheck_artifacts (nc_crypto sample_native_codec) sample_world n sample_snapshots = Inr ()"
    by (simp add: sample_snapshots_def sample_inputs_def sample_native_artifacts_def sample_raw_def
        sample_paths_def artifact_set_def hashed same_file_def)
qed

section \<open>Its verification\<close>

definition sample_expected :: expected_observation where
  "sample_expected =
     \<lparr>eo_kind = ''physical-bsd'', eo_cell = sample_bsd_cell, eo_release = sample_release bsd_archive, eo_package = [],
      eo_challenge = ''challenge-'' @ hex_of (CHR ''8''), eo_host_route = []\<rparr>"

definition sample_native_context :: native_context where
  "sample_native_context =
     \<lparr>cx_policy = sample_native_policy, cx_bytes = sample_data, cx_observation = sample_observation, cx_now = sample_now\<rparr>"

lemma sample_native_times:
  "canonical_time ''2026-09-24T08:00:00Z'' = Go_Time 63957456000 0"
  "canonical_time ''2026-09-24T13:00:00Z'' = Go_Time 63957474000 0"
  "canonical_time ''2026-10-10T00:00:00Z'' = Go_Time 63958809600 0"
  by (simp_all add: canonical_time_def sample_canonical)

lemma sample_native_signed:
  "verify_native_signatures (nc_crypto sample_native_codec) sample_native_context (en_signatures sample_native_envelope) = Inr ()"
proof -
  let ?j = "sample_native_key (CHR ''1'') ''observer'' ''lab'' ''lab-observer''"
  let ?k = "sample_native_key (CHR ''2'') ''reviewer'' ''university'' ''independent-reviewer''"
  let ?s = "sample_native_signature (CHR ''1'') ''2026-09-24T08:00:00Z''"
  let ?t = "sample_native_signature (CHR ''2'') ''2026-09-24T13:00:00Z''"
  have keys: "native_key_of sample_native_policy (sg_key_id ?s) = Some ?j" "native_key_of sample_native_policy (sg_key_id ?t) = Some ?k"
    using sample_observation_parts(11)
    by (simp_all add: native_key_of_def sample_native_policy_def sample_native_key_def sample_native_signature_def)
  have "native_authentic (nc_crypto sample_native_codec) ?j ?s sample_data"
    "native_authentic (nc_crypto sample_native_codec) ?k ?t sample_data"
    using sample_payload_parts(12-15)
    by (simp_all add: native_authentic_def sample_native_key_def sample_native_signature_def sample_native_codec_simps)
  moreover have "ob_created_at sample_observation = ''2026-09-24T08:00:00Z''"
    "ob_expires_at sample_observation = ''2026-10-10T00:00:00Z''" "ob_kind sample_observation = ''physical-bsd''"
    "ob_cell sample_observation = sample_bsd_cell" by (simp_all add: sample_observation_def)
  moreover have "contains_sorted [''physical-bsd::freebsd/amd64''] (scope_key ''physical-bsd'' sample_bsd_cell)"
    by (simp add: sample_observation_parts contains_sorted_iff)
  moreover have "cx_now sample_native_context = sample_now" "cx_observation sample_native_context = sample_observation"
    "cx_bytes sample_native_context = sample_data" "cx_policy sample_native_context = sample_native_policy"
    by (simp_all add: sample_native_context_def)
  moreover have fields: "nk_revoked (sample_native_key ch who o1 r) = False" "nk_role (sample_native_key ch who o1 r) = r"
    "nk_scopes (sample_native_key ch who o1 r) = [''physical-bsd::freebsd/amd64'']"
    "nk_principal (sample_native_key ch who o1 r) = who" "nk_organization (sample_native_key ch who o1 r) = o1"
    "nk_not_before (sample_native_key ch who o1 r) = ''2026-09-24T08:00:00Z''"
    "nk_not_after (sample_native_key ch who o1 r) = ''2026-10-10T00:00:00Z''"
    "sg_signed_at (sample_native_signature ch moment) = moment" for ch who o1 r moment
    by (simp_all add: sample_native_key_def sample_native_signature_def)
  ultimately have
    "check_native_signature (nc_crypto sample_native_codec) sample_native_context 0 None ?s ?j = Inr ()"
    "check_native_signature (nc_crypto sample_native_codec) sample_native_context 1
       (Some (?j, canonical_time (sg_signed_at ?s))) ?t ?k = Inr ()"
    unfolding check_native_signature_def Let_def first_error_Cons_ok require_ok
    by (simp_all add: sample_native_times less_go_time_def sample_now_def)
  then show ?thesis
    by (simp add: verify_native_signatures_def sample_native_envelope_def keys sample_native_context_def)
qed

lemma sample_observation_verified:
  "\<exists>r. verify_observation_at sample_native_codec sample_world ''envelope'' sample_inputs sample_expected
     (Some sample_native_policy) sample_now = Inr r"
proof -
  have "validate_expected sample_expected = Inr ()"
    using sample_observation_parts(5)
    by (simp add: validate_expected_def sample_expected_def sample_observation_parts del: first_error.simps(2))
  moreover have "matches_expected sample_native_policy sample_expected sample_observation"
    by (simp add: matches_expected_def sample_expected_def sample_observation_def sample_native_policy_def)
  moreover have "check_native_windows sample_native_policy sample_observation sample_now = Inr ()"
    by (simp add: check_native_windows_def Let_def sample_observation_def sample_native_policy_def sample_native_times
        less_go_time_def sample_now_def)
  moreover have "retain_artifacts (nc_crypto sample_native_codec) sample_world sample_inputs sample_native_context
      (en_signatures sample_native_envelope) = Inr ()"
    using sample_native_signed
    by (simp add: retain_artifacts_def sample_files sample_native_context_def sample_observation_def) 
      (simp add: sample_world_def)
  moreover have "\<not> is_zero sample_now" by (simp add: sample_now_def is_zero_def zero_time_def)
  moreover have "\<not> nw_cancelled sample_world 0" by (simp add: sample_world_def)
  ultimately show ?thesis
    by (simp add: verify_observation_at_def sample_native_policy_valid sample_native_parsed
        sample_native_context_def [symmetric])
qed

text \<open>A verified observation keeps its release, cell and challenge.\<close>

lemma observation_authenticated_witness:
  "\<exists>r. verify_observation_at sample_native_codec sample_world ''envelope'' sample_inputs sample_expected
     (Some sample_native_policy) sample_now = Inr r \<and> vo_cell r = sample_bsd_cell \<and> sample_now < vo_expires r \<and>
     retained (nc_crypto sample_native_codec) sample_world sample_inputs (vo_artifacts r)"
proof -
  obtain r where r: "verify_observation_at sample_native_codec sample_world ''envelope'' sample_inputs sample_expected
     (Some sample_native_policy) sample_now = Inr r" using sample_observation_verified by blast
  have "eo_cell sample_expected = sample_bsd_cell" by (simp add: sample_expected_def)
  with observation_authenticated [OF r] r show ?thesis by auto
qed

section \<open>A complete set\<close>

definition sample_item :: "char \<Rightarrow> cell \<Rightarrow> verified_observation" where
  "sample_item ch t =
     \<lparr>vo_valid = True, vo_kind = ''physical-bsd'', vo_cell = t,
      vo_release = sample_release (''leaguebridge_1.2.3_'' @ cell_goos t @ ''_'' @ cell_goarch t @ ''.tar.gz''),
      vo_package = [], vo_policy_id = native_policy_id,
      vo_policy_digest = native_policy_digest sample_native_codec sample_native_policy,
      vo_id = ''observation-'' @ replicate 32 ch, vo_run_id = ''run-'' @ replicate 32 ch,
      vo_machine = ''machine-'' @ replicate 32 ch, vo_challenge = ''challenge-'' @ hex_of ch,
      vo_payload_sha256 = hex_of ch, vo_created = Go_Time 63957456000 0, vo_expires = Go_Time 63958809600 0,
      vo_verified = sample_now, vo_inputs = sample_inputs, vo_artifacts = sample_native_artifacts\<rparr>"

text \<open>The items arrive in the reverse of the fixed order.\<close>

definition sample_items :: "verified_observation list" where
  "sample_items = rev (map2 sample_item ''0123456'' (expected_cells ''physical-bsd''))"

lemma sample_item_checked:
  assumes "same_release (vo_release (sample_item ch t)) (vo_release first)" "\<not> repeats (sp_seen p) (sample_item ch t)"
    and "case map_of (sp_targets p) (target_of (sample_item ch t)) of None \<Rightarrow> True | Some r \<Rightarrow> r = vo_release (sample_item ch t)"
    and "cell_index (expected_cells ''physical-bsd'') t = Some j"
  shows "set_step sample_native_codec sample_world ''physical-bsd'' sample_native_policy sample_now first p i (sample_item ch t) =
    Inr \<lparr>sp_seen = sp_seen p @ [sample_item ch t],
         sp_targets = (target_of (sample_item ch t), vo_release (sample_item ch t)) # sp_targets p,
         sp_ordered = (sp_ordered p)[j := sample_item ch t], sp_hashed = sp_hashed p + 12\<rparr>"
proof -
  have "check_set_item ''physical-bsd'' sample_native_policy (native_policy_digest sample_native_codec sample_native_policy)
      sample_now first p i (sample_item ch t) = Inr ()"
    unfolding check_set_item_def first_error_Cons_ok require_ok
    using assms by (simp add: sample_item_def sample_native_policy_def sample_now_def less_go_time_def)
  moreover have "reread_artifacts (nc_crypto sample_native_codec) sample_world n (sample_item ch t) = Inr ()" for n
    by (simp add: reread_artifacts_def sample_item_def sample_files)
  moreover have "vo_cell (sample_item ch t) = t" by (simp add: sample_item_def)
  moreover have "length (vo_artifacts (sample_item ch t)) = 6"
    by (simp add: sample_item_def sample_native_artifacts_def sample_raw_def sample_paths_def artifact_set_def)
  ultimately show ?thesis using assms(4) by (simp add: set_step_def)
qed

lemma sample_item_facts:
  "same_release (vo_release (sample_item ch t)) (vo_release (sample_item ch' t'))"
  "target_of (sample_item ch t) = cell_goos t @ ''/'' @ cell_goarch t"
  "repeats seen (sample_item ch t) \<longleftrightarrow> list_ex (\<lambda>u. vo_cell u = t \<or> vo_id u = ''observation-'' @ replicate 32 ch \<or>
     vo_run_id u = ''run-'' @ replicate 32 ch \<or> vo_challenge u = ''challenge-'' @ hex_of ch) seen"
  "vo_cell (sample_item ch t) = t" "vo_id (sample_item ch t) = ''observation-'' @ replicate 32 ch"
  "vo_run_id (sample_item ch t) = ''run-'' @ replicate 32 ch" "vo_challenge (sample_item ch t) = ''challenge-'' @ hex_of ch"
  by (simp_all add: same_release_def sample_item_def sample_release_def target_of_def repeats_def)

lemma sample_hex_differs: "replicate 32 a = replicate 32 b \<longleftrightarrow> a = b" "hex_of a = hex_of b \<longleftrightarrow> a = b"
  by (simp_all add: hex_of_def replicate_eq_replicate)

lemma sample_index:
  "cell_index (expected_cells ''physical-bsd'') (mk_cell [] ''freebsd'' ''amd64'') = Some 0"
  "cell_index (expected_cells ''physical-bsd'') (mk_cell [] ''freebsd'' ''arm64'') = Some 1"
  "cell_index (expected_cells ''physical-bsd'') (mk_cell [] ''openbsd'' ''amd64'') = Some 2"
  "cell_index (expected_cells ''physical-bsd'') (mk_cell [] ''openbsd'' ''arm64'') = Some 3"
  "cell_index (expected_cells ''physical-bsd'') (mk_cell [] ''netbsd'' ''amd64'') = Some 4"
  "cell_index (expected_cells ''physical-bsd'') (mk_cell [] ''netbsd'' ''arm64'') = Some 5"
  "cell_index (expected_cells ''physical-bsd'') (mk_cell [] ''dragonfly'' ''amd64'') = Some 6"
  by code_simp+

lemma sample_set_verified:
  "\<exists>s. verify_complete_set_at sample_native_codec sample_world ''physical-bsd'' sample_items (Some sample_native_policy)
     sample_now = Inr s"
proof -
  have "check_set_policy sample_native_codec sample_native_policy sample_now = Inr ()"
    unfolding check_set_policy_def first_error_Cons_ok require_ok
    by (simp add: sample_native_policy_valid)
      (simp add: sample_native_policy_def sample_native_times sample_now_def less_go_time_def)
  moreover have cells: "expected_cells ''physical-bsd'' = bsd_cells" by (simp add: expected_cells_def)
  moreover have "length bsd_cells = 7" by (simp add: bsd_cells_def)
  moreover have items: "sample_items = map2 sample_item ''6543210'' (rev bsd_cells)"
    by (simp add: sample_items_def cells bsd_cells_def)
  moreover have "\<exists>t. set_loop sample_native_codec sample_world ''physical-bsd'' sample_native_policy sample_now
      (sample_item (CHR ''6'') (bsd_cells ! 6)) (set_start ''physical-bsd'') 0 sample_items = Inr t \<and> length (sp_seen t) = 7"
    unfolding items
    by (simp add: sample_item_checked sample_item_facts sample_index [unfolded mk_cell_def] sample_hex_differs
        set_start_def bsd_cells_def mk_cell_def)
  moreover have "\<not> nw_cancelled sample_world n" for n by (simp add: sample_world_def)
  moreover have "\<not> is_zero sample_now" by (simp add: sample_now_def is_zero_def zero_time_def)
  moreover have "sample_items ! 0 = sample_item (CHR ''6'') (bsd_cells ! 6)" "length sample_items = 7" "bsd_cells \<noteq> []"
    by (simp_all add: items bsd_cells_def)
  ultimately show ?thesis by (auto simp: verify_complete_set_at_def Let_def)
qed

lemma complete_set_covers_witness:
  "\<exists>s. verify_complete_set_at sample_native_codec sample_world ''physical-bsd'' sample_items (Some sample_native_policy)
     sample_now = Inr s \<and> map vo_cell (ns_observations s) = expected_cells ''physical-bsd''"
  using sample_set_verified complete_set_covers by blast

section \<open>Reviews that are not independent\<close>

text \<open>Both signatures verify, but both people work for one laboratory; or the reviewer's key is revoked.\<close>

definition set_of_policy :: "trust_policy \<Rightarrow> set_submission" where
  "set_of_policy p =
     \<lparr>ss_crypto = sample_crypto, ss_env = sample_env, ss_envelope = ''envelope'', ss_records = sample_bytes_of,
      ss_expected = sample_cell, ss_verifications = sample_verifications, ss_policy = Some p, ss_now = sample_now\<rparr>"

definition native_of_policy :: "native_policy \<Rightarrow> native_submission" where
  "native_of_policy p =
     \<lparr>sn_codec = sample_native_codec, sn_world = sample_world, sn_envelope = ''envelope'', sn_inputs = sample_inputs,
      sn_expected = sample_expected, sn_policy = Some p, sn_now = sample_now\<rparr>"

definition one_lab :: trust_policy where
  "one_lab = sample_policy\<lparr>tp_keys := map (\<lambda>k. k\<lparr>tk_organization := ''lab''\<rparr>) (tp_keys sample_policy)\<rparr>"

definition one_native_lab :: native_policy where
  "one_native_lab = sample_native_policy\<lparr>np_keys := map (\<lambda>k. k\<lparr>nk_organization := ''lab''\<rparr>) (np_keys sample_native_policy)\<rparr>"

lemma signed_by_parts:
  "set_signed_by (set_of_policy p) k \<longleftrightarrow> k \<in> set (tp_keys p) \<and>
     (\<exists>s \<in> set (en_signatures sample_envelope). sg_key_id s = tk_key_id k \<and>
        authentic sample_crypto k (en_payload_type sample_envelope) s sample_data)"
  "native_signed_by (native_of_policy q) j \<longleftrightarrow> j \<in> set (np_keys q) \<and>
     (\<exists>s \<in> set (en_signatures sample_native_envelope). sg_key_id s = nk_key_id j \<and>
        native_authentic (nc_crypto sample_native_codec) j s sample_data)"
  by (simp_all add: set_signed_by_def set_of_policy_def native_signed_by_def native_of_policy_def sample_envelope_parsed
      sample_native_parsed list_ex_iff)

lemma sample_reviewer_signs:
  assumes "k = sample_key (CHR ''2'') ''reviewer'' organization ''independent-reviewer''\<lparr>tk_revoked := revoked\<rparr>"
    "k \<in> set (tp_keys p)"
  shows "set_signed_by (set_of_policy p) k"
proof -
  have "authentic sample_crypto k (en_payload_type sample_envelope) (sample_signature (CHR ''2'')) sample_data"
    using assms(1) sample_payload_parts(13,15)
    by (simp add: authentic_def sample_key_def sample_signature_def) (simp add: sample_crypto_def)
  moreover have "sample_signature (CHR ''2'') \<in> set (en_signatures sample_envelope)" by (simp add: sample_envelope_def)
  moreover have "sg_key_id (sample_signature (CHR ''2'')) = tk_key_id k"
    by (simp add: assms(1) sample_signature_def sample_key_def)
  ultimately show ?thesis using assms(2) unfolding signed_by_parts by blast
qed

lemma no_self_review_witness:
  "set_signed_by (set_of_policy one_lab) (sample_key (CHR ''2'') ''reviewer'' ''lab'' ''independent-reviewer'') \<and>
   \<not> set_accepted (set_of_policy one_lab) \<and> \<not> native_accepted (native_of_policy one_native_lab)"
proof -
  have "tk_organization k = ''lab''" if "set_signed_by (set_of_policy one_lab) k" for k
    using that by (auto simp: signed_by_parts one_lab_def)
  moreover have "nk_organization k = ''lab''" if "native_signed_by (native_of_policy one_native_lab) k" for k
    using that by (auto simp: signed_by_parts one_native_lab_def)
  ultimately have "\<not> set_accepted (set_of_policy one_lab) \<and> \<not> native_accepted (native_of_policy one_native_lab)"
    by (rule no_self_review)
  moreover have "set_signed_by (set_of_policy one_lab) (sample_key (CHR ''2'') ''reviewer'' ''lab'' ''independent-reviewer'')"
    by (rule sample_reviewer_signs [where revoked = False])
      (simp_all add: one_lab_def sample_policy_def sample_key_def)
  ultimately show ?thesis by blast
qed

definition revoked_policy :: trust_policy where
  "revoked_policy = sample_policy\<lparr>tp_keys := map (\<lambda>k. k\<lparr>tk_revoked := True\<rparr>) (tp_keys sample_policy)\<rparr>"

lemma revoked_signature_rejects_witness:
  "\<exists>k. set_signed_by (set_of_policy revoked_policy) k \<and> tk_revoked k \<and> \<not> set_accepted (set_of_policy revoked_policy)"
proof -
  define k where "k = sample_key (CHR ''2'') ''reviewer'' ''university'' ''independent-reviewer''\<lparr>tk_revoked := True\<rparr>"
  have "set_signed_by (set_of_policy revoked_policy) k"
    by (rule sample_reviewer_signs [OF k_def]) (simp add: k_def revoked_policy_def sample_policy_def sample_key_def)
  moreover have "tk_revoked k" by (simp add: k_def)
  ultimately show ?thesis using revoked_signature_rejects by blast
qed

end
