(* ===== verification/Production_Assessment.thy ===== *)
theory Production_Assessment
  imports Native_Parse
begin

text \<open>
  \<open>internal/productionassessment\<close>: a live verified release and the external criteria compose into the
  production score. The live release verifier and the external verifiers are outcomes: what their methods
  return in one run of \<open>verify\<close>. SHA-256 and \<open>json.Marshal\<close> of a release identity (which can fail) are the functions of
  \<open>assessment_codec\<close>. The map of missing criteria is an association list with distinct keys; which of
  several faults in it is reported is not determined by the code.
\<close>

section \<open>Releases\<close>

record asset =
  asset_name :: string
  asset_sha256 :: string
  asset_size :: int

text \<open>\<open>releaseBinding\<close>, and the \<open>Release\<close> of the result.\<close>

record release_scope =
  rs_version :: string
  rs_commit :: string
  rs_tree :: string
  rs_release_id :: int
  rs_release_run :: int
  rs_release_attempt :: int
  rs_ci_run :: int
  rs_ci_attempt :: int
  rs_scorecard :: string
  rs_expires :: go_time
  rs_assets :: "asset list"

record release_criterion =
  rc_id :: string
  rc_name :: string
  rc_evidence_type :: string
  rc_verifier :: string
  rc_points :: int

text \<open>What \<open>releaseassessment\<close> reports.\<close>

record release_result =
  rr_schema_version :: int
  rr_version :: string
  rr_commit :: string
  rr_tree :: string
  rr_release_id :: int
  rr_release_run :: int
  rr_release_attempt :: int
  rr_ci_run :: int
  rr_ci_attempt :: int
  rr_observed :: go_time
  rr_expires :: go_time
  rr_repository_score :: int
  rr_score :: int
  rr_criteria :: "release_criterion list"

record executable =
  ex_version :: string
  ex_commit :: string
  ex_tree :: string
  ex_release_id :: int
  ex_goos :: string
  ex_goarch :: string
  ex_archive :: string
  ex_archive_sha256 :: string
  ex_sha256 :: string

text \<open>The methods of the live release: \<open>None\<close> for an error.\<close>

record live_release =
  lr_assessment :: "release_result option"
  lr_scorecard :: "string option"
  lr_assets :: "asset list option"
  lr_executable :: "string \<Rightarrow> string \<Rightarrow> executable option"
  lr_rechecked :: bool

record assessment_codec =
  ac_sha256 :: "string \<Rightarrow> string"
  ac_scope_text :: "release_scope \<Rightarrow> string option"

definition repository_score :: int where
  "repository_score = 74"

definition release_score :: int where
  "release_score = 83"

definition maximum_score :: int where
  "maximum_score = 100"

definition stable_version :: "string \<Rightarrow> bool" where
  "stable_version v \<longleftrightarrow>
     v \<noteq> [] \<and> hd v = CHR ''v'' \<and>
     (let parts = split_on (CHR ''.'') (tl v) in length parts = 3 \<and> list_all valid_numeric_identifier parts)"

definition asset_names :: "string \<Rightarrow> string list" where
  "asset_names version =
     (let base = ''leaguebridge_'' @ tl version @ ''_''
      in ''checksums.txt'' #
         map (\<lambda>target. base @ target @ ''.tar.gz'')
           [''dragonfly_amd64'', ''freebsd_amd64'', ''freebsd_arm64'', ''linux_amd64'', ''linux_arm64'', ''netbsd_amd64'',
            ''netbsd_arm64'', ''openbsd_amd64'', ''openbsd_arm64''])"

definition valid_assets :: "string \<Rightarrow> asset list \<Rightarrow> bool" where
  "valid_assets version as \<longleftrightarrow>
     length as = 10 \<and> stable_version version \<and>
     list_all (\<lambda>(a, name). asset_name a = name \<and> is_sha256 (asset_sha256 a) \<and> 0 < asset_size a)
       (zip as (asset_names version))"

definition expected_release_criteria :: "release_criterion list" where
  "expected_release_criteria =
     [\<lparr>rc_id = ''tests-race-vet-linux'', rc_name = ''Linux race and vet'', rc_evidence_type = ''ci-attestation-v1'',
       rc_verifier = ''ci-race-vet-v1'', rc_points = 3\<rparr>,
      \<lparr>rc_id = ''tests-nine-target-cross-build'', rc_name = ''Nine-target Linux/BSD cross-build'',
       rc_evidence_type = ''ci-attestation-v1'', rc_verifier = ''ci-nine-target-cross-build-v1'', rc_points = 3\<rparr>,
      \<lparr>rc_id = ''packaging-nine-release-archives'', rc_name = ''Nine published Linux/BSD release archives'',
       rc_evidence_type = ''release-attestation-v1'', rc_verifier = ''release-nine-archives-v1'', rc_points = 2\<rparr>,
      \<lparr>rc_id = ''packaging-publication-attestation'', rc_name = ''Release publication and attestation'',
       rc_evidence_type = ''release-attestation-v1'', rc_verifier = ''release-publication-attestation-v1'', rc_points = 1\<rparr>]"

definition check_release_assessment :: "string \<Rightarrow> release_result \<Rightarrow> bool" where
  "check_release_assessment version r \<longleftrightarrow>
     rr_schema_version r = 1 \<and> stable_version (rr_version r) \<and> rr_version r = version \<and>
     object_id (rr_commit r) \<and> object_id (rr_tree r) \<and> length (rr_commit r) = length (rr_tree r) \<and>
     0 < rr_release_id r \<and> 0 < rr_release_run r \<and> 0 < rr_release_attempt r \<and> 0 < rr_ci_run r \<and> 0 < rr_ci_attempt r \<and>
     \<not> is_zero (rr_observed r) \<and> \<not> is_zero (rr_expires r) \<and> rr_observed r < rr_expires r \<and>
     rr_repository_score r = repository_score \<and> rr_score r = release_score \<and>
     rr_criteria r = expected_release_criteria"

definition release_scope_valid :: "release_scope \<Rightarrow> bool" where
  "release_scope_valid b \<longleftrightarrow>
     stable_version (rs_version b) \<and> object_id (rs_commit b) \<and> object_id (rs_tree b) \<and>
     length (rs_commit b) = length (rs_tree b) \<and> 0 < rs_release_id b \<and> 0 < rs_release_run b \<and>
     0 < rs_release_attempt b \<and> 0 < rs_ci_run b \<and> 0 < rs_ci_attempt b \<and> is_sha256 (rs_scorecard b) \<and>
     \<not> is_zero (rs_expires b) \<and> valid_assets (rs_version b) (rs_assets b)"

definition release_binding_digest :: "assessment_codec \<Rightarrow> release_scope \<Rightarrow> string option" where
  "release_binding_digest c b = (if release_scope_valid b then map_option (ac_sha256 c) (ac_scope_text c b) else None)"

section \<open>External criteria\<close>

record criterion_spec =
  cs_id :: string
  cs_name :: string
  cs_weight :: int
  cs_evidence_type :: string
  cs_verifier :: string
  cs_missing :: string

definition external_criterion_specs :: "criterion_spec list" where
  "external_criterion_specs =
     [\<lparr>cs_id = ''architecture-upstream-authorization'', cs_name = ''Authorized upstream extension contract'', cs_weight = 2,
       cs_evidence_type = ''vendor-authorization-v1'', cs_verifier = ''riot-linux-bsd-authorization-v1'',
       cs_missing = ''Authenticated Riot authorization and current validity are not provisioned''\<rparr>,
      \<lparr>cs_id = ''implementation-native-validated-integration'', cs_name = ''Native validated platform integration'',
       cs_weight = 3, cs_evidence_type = ''native-runtime-attestation-v2'', cs_verifier = ''native-integration-v2'',
       cs_missing = ''Independently governed physical native integration proof is not provisioned''\<rparr>,
      \<lparr>cs_id = ''tests-native-bsd-physical-smoke'', cs_name = ''Native BSD and physical-hardware smoke tests'',
       cs_weight = 5, cs_evidence_type = ''native-runtime-attestation-v2'', cs_verifier = ''native-bsd-physical-smoke-v2'',
       cs_missing = ''Independently witnessed physical BSD smoke proof is not provisioned''\<rparr>,
      \<lparr>cs_id = ''security-independent-audit-closed'', cs_name = ''Closed independent audit findings'', cs_weight = 2,
       cs_evidence_type = ''independent-audit-v1'', cs_verifier = ''independent-audit-v1'',
       cs_missing = ''Independent auditor identity, findings, and closure proof are not provisioned''\<rparr>,
      \<lparr>cs_id = ''packaging-native-os-packages'', cs_name = ''Native OS packages'', cs_weight = 3,
       cs_evidence_type = ''package-attestation-v1'', cs_verifier = ''native-packages-v1'',
       cs_missing = ''Native package signing, publication, and withdrawal proof are not provisioned''\<rparr>,
      \<lparr>cs_id = ''packaging-install-uninstall-native-smoke'', cs_name = ''Install/uninstall and native smoke evidence'',
       cs_weight = 2, cs_evidence_type = ''native-runtime-attestation-v2'', cs_verifier = ''install-native-smoke-v2'',
       cs_missing = ''Independent production-package lifecycle proof is not provisioned''\<rparr>]"

record criterion_proof =
  cp_valid :: bool
  cp_criterion :: string
  cp_binding :: string
  cp_evidence :: string
  cp_verified :: go_time
  cp_expires :: go_time

text \<open>What an external verifier returns; the two rechecks are absent when it gives no recheck.\<close>

record external_verification =
  xv_proofs :: "criterion_proof list"
  xv_missing :: "(string \<times> string list) list"
  xv_rechecks :: "(bool \<times> bool) option"

record production_criterion =
  pc_spec :: criterion_spec
  pc_points :: int
  pc_verified :: bool
  pc_missing :: "string list"

datatype criteria_error =
    Criteria_Time | Criteria_Expired | Criteria_Binding | Proof_Unknown | Proof_Repeated string | Proof_Unbound string
  | Proof_Window string | Missing_Unknown string | Missing_Count string | Missing_Proven string | Missing_Reason string
  | Criteria_Too_Many

datatype proof_error = New_Unknown string | New_Digest | New_Validity | New_Binding

definition known_external_criterion :: "string \<Rightarrow> bool" where
  "known_external_criterion i \<longleftrightarrow> i \<in> set (map cs_id external_criterion_specs)"

definition new_criterion_proof ::
    "assessment_codec \<Rightarrow> string \<Rightarrow> release_scope \<Rightarrow> string \<Rightarrow> go_time \<Rightarrow> go_time \<Rightarrow> proof_error + criterion_proof" where
  "new_criterion_proof c i b evidence verified expires =
     (if \<not> known_external_criterion i then Inl (New_Unknown i)
      else if \<not> is_sha256 evidence then Inl New_Digest
      else if is_zero verified \<or> is_zero expires \<or> \<not> verified < expires \<or> rs_expires b < expires then Inl New_Validity
      else
        (case release_binding_digest c b of
           None \<Rightarrow> Inl New_Binding
         | Some digest \<Rightarrow>
             Inr \<lparr>cp_valid = True, cp_criterion = i, cp_binding = digest, cp_evidence = evidence,
                  cp_verified = verified, cp_expires = expires\<rparr>))"

definition check_proof :: "release_scope \<Rightarrow> string \<Rightarrow> go_time \<Rightarrow> criterion_proof list \<Rightarrow> criterion_proof \<Rightarrow> criteria_error + unit" where
  "check_proof b digest observed seen p =
     first_error
       [require (known_external_criterion (cp_criterion p) \<and> cp_valid p) Proof_Unknown,
        require (cp_criterion p \<notin> set (map cp_criterion seen)) (Proof_Repeated (cp_criterion p)),
        require (cp_binding p = digest \<and> is_sha256 (cp_evidence p)) (Proof_Unbound (cp_criterion p)),
        require (\<not> is_zero (cp_verified p) \<and> \<not> is_zero (cp_expires p) \<and> \<not> observed < cp_verified p \<and>
          observed < cp_expires p \<and> cp_verified p < cp_expires p \<and> \<not> rs_expires b < cp_expires p)
          (Proof_Window (cp_criterion p))]"

fun check_proofs ::
    "release_scope \<Rightarrow> string \<Rightarrow> go_time \<Rightarrow> criterion_proof list \<Rightarrow> criterion_proof list \<Rightarrow> criteria_error + unit" where
  "check_proofs b digest observed seen [] = Inr ()"
| "check_proofs b digest observed seen (p # ps) =
     bind_result (check_proof b digest observed seen p) (\<lambda>_. check_proofs b digest observed (p # seen) ps)"

definition check_missing :: "criterion_proof list \<Rightarrow> string \<times> string list \<Rightarrow> criteria_error + unit" where
  "check_missing proofs entry =
     (case entry of (i, why) \<Rightarrow>
        first_error
          [require (known_external_criterion i) (Missing_Unknown i),
           require (why \<noteq> [] \<and> length why \<le> 16) (Missing_Count i),
           require (i \<notin> set (map cp_criterion proofs)) (Missing_Proven i),
           require (list_all (\<lambda>r. trim_space r \<noteq> [] \<and> length r \<le> 512) why \<and> distinct why) (Missing_Reason i)])"

definition proof_of :: "criterion_proof list \<Rightarrow> string \<Rightarrow> criterion_proof option" where
  "proof_of ps i = find (\<lambda>p. cp_criterion p = i) ps"

definition criterion_of :: "external_verification \<Rightarrow> criterion_spec \<Rightarrow> production_criterion" where
  "criterion_of x s =
     (case proof_of (xv_proofs x) (cs_id s) of
        Some p \<Rightarrow> \<lparr>pc_spec = s, pc_points = cs_weight s, pc_verified = True, pc_missing = []\<rparr>
      | None \<Rightarrow>
          \<lparr>pc_spec = s, pc_points = 0, pc_verified = False,
           pc_missing = (case map_of (xv_missing x) (cs_id s) of Some why \<Rightarrow> why | None \<Rightarrow> [cs_missing s])\<rparr>)"

definition earliest_expiry :: "external_verification \<Rightarrow> go_time \<Rightarrow> go_time" where
  "earliest_expiry x expires =
     foldl (\<lambda>t s. case proof_of (xv_proofs x) (cs_id s) of Some p \<Rightarrow> if cp_expires p < t then cp_expires p else t | None \<Rightarrow> t)
       expires external_criterion_specs"

definition derive_external_criteria ::
    "assessment_codec \<Rightarrow> release_scope \<Rightarrow> external_verification \<Rightarrow> go_time \<Rightarrow>
     criteria_error + (production_criterion list \<times> int \<times> go_time)" where
  "derive_external_criteria c b x observed =
     bind_result (require (\<not> is_zero observed) Criteria_Time) (\<lambda>_.
     bind_result (require (observed < rs_expires b) Criteria_Expired) (\<lambda>_.
     bind_result (case release_binding_digest c b of None \<Rightarrow> Inl Criteria_Binding | Some d \<Rightarrow> Inr d) (\<lambda>digest.
     bind_result (check_proofs b digest observed [] (xv_proofs x)) (\<lambda>_.
     bind_result (first_error (map (check_missing (xv_proofs x)) (xv_missing x))) (\<lambda>_.
       let criteria = map (criterion_of x) external_criterion_specs; earned = sum_list (map pc_points criteria)
       in bind_result (require (earned \<le> maximum_score - release_score) Criteria_Too_Many) (\<lambda>_.
            Inr (criteria, earned, earliest_expiry x (rs_expires b))))))))"

text \<open>The verifier that the application has: no proofs, every criterion missing, and a recheck that only
  looks at the context.\<close>

definition unprovisioned_external :: "bool \<Rightarrow> bool \<times> bool \<Rightarrow> external_verification option" where
  "unprovisioned_external cancelled later =
     (if cancelled then None
      else Some \<lparr>xv_proofs = [], xv_missing = map (\<lambda>s. (cs_id s, [cs_missing s])) external_criterion_specs,
                 xv_rechecks = Some (\<not> fst later, \<not> snd later)\<rparr>)"

section \<open>The assessment\<close>

record production_result =
  pr_release :: release_scope
  pr_observed :: go_time
  pr_evidence_expires :: go_time
  pr_repository_score :: int
  pr_release_score :: int
  pr_score :: int
  pr_criteria :: "production_criterion list"

text \<open>One run: what the live verifier and the external verifier return, the two readings of the clock, and
  whether the context is cancelled at the start and at the end.\<close>

record assessment_run =
  ar_cancelled :: bool
  ar_release :: "live_release option option"
  ar_external :: "live_release \<Rightarrow> release_scope \<Rightarrow> external_verification option"
  ar_first_time :: go_time
  ar_cancelled_late :: bool
  ar_last_time :: go_time

datatype assessment_error =
    Run_Cancelled | Release_Failed | Release_Absent | Release_Identity | Release_Baseline | Scorecard_Digest
  | Release_Inventory | External_Failed | No_Recheck | Criteria_Invalid criteria_error | First_Recheck | Release_Recheck
  | Last_Recheck | Observation_Time | Score_Too_High

definition scope_of :: "release_result \<Rightarrow> string \<Rightarrow> asset list \<Rightarrow> release_scope" where
  "scope_of r scorecard as =
     \<lparr>rs_version = rr_version r, rs_commit = rr_commit r, rs_tree = rr_tree r, rs_release_id = rr_release_id r,
      rs_release_run = rr_release_run r, rs_release_attempt = rr_release_attempt r, rs_ci_run = rr_ci_run r,
      rs_ci_attempt = rr_ci_attempt r, rs_scorecard = scorecard, rs_expires = rr_expires r, rs_assets = as\<rparr>"

definition authenticate_release :: "string \<Rightarrow> live_release \<Rightarrow> assessment_error + (release_result \<times> release_scope)" where
  "authenticate_release version v =
     bind_result (case lr_assessment v of None \<Rightarrow> Inl Release_Identity | Some r \<Rightarrow> Inr r) (\<lambda>r.
     bind_result (require (check_release_assessment version r) Release_Baseline) (\<lambda>_.
     bind_result (case lr_scorecard v of
         None \<Rightarrow> Inl Scorecard_Digest
       | Some s \<Rightarrow> if is_sha256 s then Inr s else Inl Scorecard_Digest) (\<lambda>s.
     bind_result (case lr_assets v of
         None \<Rightarrow> Inl Release_Inventory
       | Some as \<Rightarrow> if valid_assets (rr_version r) as then Inr as else Inl Release_Inventory) (\<lambda>as.
       Inr (r, scope_of r s as)))))"

definition recheck_all :: "live_release \<Rightarrow> bool \<times> bool \<Rightarrow> bool \<Rightarrow> assessment_error + unit" where
  "recheck_all v rechecks cancelled =
     first_error
       [require (fst rechecks) First_Recheck,
        require (lr_rechecked v) Release_Recheck,
        require (snd rechecks) Last_Recheck,
        require (\<not> cancelled) Run_Cancelled]"

definition verify_production :: "assessment_codec \<Rightarrow> string \<Rightarrow> assessment_run \<Rightarrow> assessment_error + production_result" where
  "verify_production c version run =
     bind_result (require (\<not> ar_cancelled run) Run_Cancelled) (\<lambda>_.
     bind_result (case ar_release run of None \<Rightarrow> Inl Release_Failed | Some None \<Rightarrow> Inl Release_Absent | Some (Some v) \<Rightarrow> Inr v) (\<lambda>v.
     bind_result (authenticate_release version v) (\<lambda>(r, b).
     bind_result (case ar_external run v b of None \<Rightarrow> Inl External_Failed | Some x \<Rightarrow> Inr x) (\<lambda>x.
     bind_result (case xv_rechecks x of None \<Rightarrow> Inl No_Recheck | Some again \<Rightarrow> Inr again) (\<lambda>again.
     bind_result (map_error Criteria_Invalid (derive_external_criteria c b x (ar_first_time run))) (\<lambda>_.
     bind_result (recheck_all v again (ar_cancelled_late run)) (\<lambda>_.
       let observed = ar_last_time run
       in bind_result (require (\<not> is_zero observed \<and> \<not> observed < rr_observed r \<and> observed < rr_expires r) Observation_Time) (\<lambda>_.
          bind_result (map_error Criteria_Invalid (derive_external_criteria c b x observed)) (\<lambda>(criteria, earned, expires).
          bind_result (require (release_score + earned \<le> maximum_score) Score_Too_High) (\<lambda>_.
            Inr \<lparr>pr_release = b, pr_observed = observed, pr_evidence_expires = expires,
                 pr_repository_score = repository_score, pr_release_score = release_score,
                 pr_score = release_score + earned, pr_criteria = criteria\<rparr>))))))))))"

section \<open>The binding of native observations\<close>

datatype native_binding_error =
    No_Release | Unknown_Target | Invalid_Release | No_Executable | Executable_Differs | Archive_Differs | Archive_Count

definition native_release_binding ::
    "assessment_codec \<Rightarrow> live_release option \<Rightarrow> release_scope \<Rightarrow> cell \<Rightarrow> native_binding_error + release_binding" where
  "native_release_binding c live b t =
     (case live of
        None \<Rightarrow> Inl No_Release
      | Some v \<Rightarrow>
          if \<not> list_ex (\<lambda>k. cell_goos k = cell_goos t \<and> cell_goarch k = cell_goarch t) (expected_cells ''native-integration'')
          then Inl Unknown_Target
          else if release_binding_digest c b = None then Inl Invalid_Release
          else
            (case lr_executable v (cell_goos t) (cell_goarch t) of
               None \<Rightarrow> Inl No_Executable
             | Some x \<Rightarrow>
                 let name = ''leaguebridge_'' @ (if prefix ''v'' (rs_version b) then tl (rs_version b) else rs_version b) @
                       ''_'' @ cell_goos t @ ''_'' @ cell_goarch t @ ''.tar.gz'';
                     named = filter (\<lambda>a. asset_name a = name) (rs_assets b)
                 in if ex_version x \<noteq> rs_version b \<or> ex_commit x \<noteq> rs_commit b \<or> ex_tree x \<noteq> rs_tree b \<or>
                       ex_release_id x \<noteq> rs_release_id b \<or> ex_goos x \<noteq> cell_goos t \<or> ex_goarch x \<noteq> cell_goarch t \<or>
                       ex_archive x \<noteq> name \<or> \<not> is_sha256 (ex_sha256 x)
                    then Inl Executable_Differs
                    else if list_ex (\<lambda>a. ex_archive_sha256 x \<noteq> asset_sha256 a) named then Inl Archive_Differs
                    else if length named \<noteq> 1 then Inl Archive_Count
                    else Inr \<lparr>rl_version = ex_version x, rl_commit = ex_commit x, rl_tree = ex_tree x,
                              rl_release_id = ex_release_id x, rl_archive = ex_archive x,
                              rl_archive_sha256 = ex_archive_sha256 x, rl_executable_sha256 = ex_sha256 x\<rparr>))"

section \<open>What the score means\<close>

lemma spec_facts:
  "distinct (map cs_id external_criterion_specs)" "sum_list (map cs_weight external_criterion_specs) = 17"
  "\<forall>s \<in> set external_criterion_specs. 0 < cs_weight s"
  by (simp_all add: external_criterion_specs_def)

text \<open>A proof that counts at a moment.\<close>

definition proof_counts :: "release_scope \<Rightarrow> string \<Rightarrow> go_time \<Rightarrow> criterion_proof \<Rightarrow> bool" where
  "proof_counts b digest observed p \<longleftrightarrow>
     cp_valid p \<and> known_external_criterion (cp_criterion p) \<and> cp_binding p = digest \<and> is_sha256 (cp_evidence p) \<and>
     cp_verified p \<le> observed \<and> observed < cp_expires p \<and> cp_expires p \<le> rs_expires b"

lemma check_proofs_ok:
  assumes "check_proofs b digest observed seen ps = Inr ()"
  shows "(\<forall>p \<in> set ps. proof_counts b digest observed p) \<and> distinct (map cp_criterion ps) \<and>
    set (map cp_criterion ps) \<inter> set (map cp_criterion seen) = {}"
  using assms
proof (induction b digest observed seen ps rule: check_proofs.induct)
  case (2 b digest observed seen p ps)
  then have "check_proof b digest observed seen p = Inr ()" and rest: "check_proofs b digest observed (p # seen) ps = Inr ()"
    by (auto simp: bind_result_ok)
  then have "proof_counts b digest observed p" "cp_criterion p \<notin> set (map cp_criterion seen)"
    unfolding check_proof_def first_error_Cons_ok require_ok proof_counts_def by (auto simp: not_less)
  with 2(1) [OF rest] show ?case by auto
qed simp

lemma proof_of_Some: "proof_of ps i = Some p \<Longrightarrow> p \<in> set ps \<and> cp_criterion p = i"
  by (auto simp: proof_of_def find_Some_iff)

lemma criterion_points:
  "pc_points (criterion_of x s) = (if pc_verified (criterion_of x s) then cs_weight s else 0)"
  "pc_verified (criterion_of x s) \<longleftrightarrow> proof_of (xv_proofs x) (cs_id s) \<noteq> None" "pc_spec (criterion_of x s) = s"
  by (auto simp: criterion_of_def split: option.splits)

lemma earliest_expiry_bounds:
  assumes "\<forall>p \<in> set (xv_proofs x). observed < cp_expires p" "observed < expires"
  shows "observed < earliest_expiry x expires" "earliest_expiry x expires \<le> expires"
proof -
  have "observed < foldl (\<lambda>t s. case proof_of (xv_proofs x) (cs_id s) of
        Some p \<Rightarrow> if cp_expires p < t then cp_expires p else t | None \<Rightarrow> t) e ss \<and>
      foldl (\<lambda>t s. case proof_of (xv_proofs x) (cs_id s) of
        Some p \<Rightarrow> if cp_expires p < t then cp_expires p else t | None \<Rightarrow> t) e ss \<le> e"
    if "observed < e" for e ss
    using that
  proof (induction ss arbitrary: e)
    case (Cons s ss)
    let ?e = "case proof_of (xv_proofs x) (cs_id s) of Some p \<Rightarrow> if cp_expires p < e then cp_expires p else e | None \<Rightarrow> e"
    have "observed < ?e" "?e \<le> e"
      using Cons.prems assms(1) proof_of_Some [of "xv_proofs x" "cs_id s"] by (auto split: option.splits)
    with Cons.IH [of ?e] show ?case by auto
  qed simp
  from this [OF assms(2)] show "observed < earliest_expiry x expires" "earliest_expiry x expires \<le> expires"
    unfolding earliest_expiry_def by blast+
qed

lemma earned_bounds:
  assumes "criteria = map (criterion_of x) external_criterion_specs"
  shows "0 \<le> sum_list (map pc_points criteria)" "sum_list (map pc_points criteria) \<le> 17"
    "sum_list (map pc_points criteria) = 17 \<longleftrightarrow> (\<forall>k \<in> set criteria. pc_verified k)"
    "sum_list (map pc_points criteria) = 0 \<longleftrightarrow> (\<forall>k \<in> set criteria. \<not> pc_verified k)"
  unfolding assms
  by (simp_all add: external_criterion_specs_def criterion_points)

lemma derive_ok:
  assumes "derive_external_criteria c b x observed = Inr (criteria, earned, expires)"
  obtains digest where "release_binding_digest c b = Some digest" "observed < rs_expires b"
    "\<forall>p \<in> set (xv_proofs x). proof_counts b digest observed p" "distinct (map cp_criterion (xv_proofs x))"
    "criteria = map (criterion_of x) external_criterion_specs" "earned = sum_list (map pc_points criteria)"
    "expires = earliest_expiry x (rs_expires b)"
  using assms check_proofs_ok [of b _ observed "[]" "xv_proofs x"] unfolding derive_external_criteria_def
  by (auto simp: bind_result_ok Let_def split: option.splits if_splits)

lemma present_ok:
  "(case z of None \<Rightarrow> Inl e | Some a \<Rightarrow> Inr a) = Inr y \<longleftrightarrow> z = Some y"
  "(case w of None \<Rightarrow> Inl e | Some None \<Rightarrow> Inl e' | Some (Some a) \<Rightarrow> Inr a) = Inr y \<longleftrightarrow> w = Some (Some y)"
  by (auto split: option.splits)

lemma verify_production_cases:
  assumes "verify_production c version run = Inr r"
  obtains v b x rr criteria earned expires where
    "ar_release run = Some (Some v)" "authenticate_release version v = Inr (rr, b)" "ar_external run v b = Some x"
    "derive_external_criteria c b x (ar_last_time run) = Inr (criteria, earned, expires)"
    "lr_rechecked v" "rr_observed rr \<le> ar_last_time run"
    "r = \<lparr>pr_release = b, pr_observed = ar_last_time run, pr_evidence_expires = expires,
          pr_repository_score = repository_score, pr_release_score = release_score,
          pr_score = release_score + earned, pr_criteria = criteria\<rparr>"
  using assms unfolding verify_production_def recheck_all_def
  by (auto simp: bind_result_ok map_error_ok Let_def not_less present_ok split: if_splits prod.splits
      simp del: first_error.simps(2))

lemma authenticated_release:
  assumes "authenticate_release version v = Inr (r, b)"
  shows "check_release_assessment version r" "rs_version b = version" "rs_expires b = rr_expires r"
    "valid_assets version (rs_assets b)" "release_scope_valid b"
  using assms unfolding authenticate_release_def
  by (auto simp: bind_result_ok scope_of_def check_release_assessment_def release_scope_valid_def
      split: option.splits if_splits)

text \<open>C7. The score is exactly what is proved now. An assessment is of a release that was authenticated in
  this call against the fixed baseline; its score is 83 and the points of the external criteria, never more
  than 100, and 100 only when every criterion is verified; a criterion earns its whole weight, and only with
  a proof that is bound to the digest of this very release and valid at the moment of observation; and the
  evidence is said to expire after that moment and no later than the released scorecard.\<close>

theorem production_score_proved:
  assumes "verify_production c version run = Inr r"
  shows "83 \<le> pr_score r \<and> pr_score r \<le> 100 \<and> pr_score r = 83 + sum_list (map pc_points (pr_criteria r)) \<and>
    (pr_score r = 100 \<longleftrightarrow> list_all pc_verified (pr_criteria r)) \<and>
    map pc_spec (pr_criteria r) = external_criterion_specs \<and>
    rs_version (pr_release r) = version \<and> valid_assets version (rs_assets (pr_release r)) \<and>
    pr_observed r < pr_evidence_expires r \<and> pr_evidence_expires r \<le> rs_expires (pr_release r) \<and>
    (\<forall>k \<in> set (pr_criteria r). pc_points k = (if pc_verified k then cs_weight (pc_spec k) else 0)) \<and>
    (\<exists>v x digest. ar_release run = Some (Some v) \<and> lr_rechecked v \<and> ar_external run v (pr_release r) = Some x \<and>
      release_binding_digest c (pr_release r) = Some digest \<and>
      (\<forall>k \<in> set (pr_criteria r). pc_verified k \<longrightarrow>
        (\<exists>p \<in> set (xv_proofs x). cp_criterion p = cs_id (pc_spec k) \<and> proof_counts (pr_release r) digest (pr_observed r) p)))"
proof -
  from verify_production_cases [OF assms] obtain v b x rr criteria earned expires where
    v: "ar_release run = Some (Some v)" "authenticate_release version v = Inr (rr, b)" "ar_external run v b = Some x"
    and derive: "derive_external_criteria c b x (ar_last_time run) = Inr (criteria, earned, expires)"
    and rechecked: "lr_rechecked v"
    and r: "r = \<lparr>pr_release = b, pr_observed = ar_last_time run, pr_evidence_expires = expires,
          pr_repository_score = repository_score, pr_release_score = release_score,
          pr_score = release_score + earned, pr_criteria = criteria\<rparr>" by metis
  from derive_ok [OF derive] obtain digest where digest: "release_binding_digest c b = Some digest"
    and time: "ar_last_time run < rs_expires b"
    and proofs: "\<forall>p \<in> set (xv_proofs x). proof_counts b digest (ar_last_time run) p"
    and criteria: "criteria = map (criterion_of x) external_criterion_specs"
    and earned: "earned = sum_list (map pc_points criteria)" and expires: "expires = earliest_expiry x (rs_expires b)"
    by metis
  note points = earned_bounds [OF criteria, folded earned]
  have "\<forall>p \<in> set (xv_proofs x). ar_last_time run < cp_expires p" using proofs by (auto simp: proof_counts_def)
  from earliest_expiry_bounds [OF this time] have
    window: "pr_observed r < pr_evidence_expires r" "pr_evidence_expires r \<le> rs_expires b" by (simp_all add: r expires)
  have proved: "\<exists>p \<in> set (xv_proofs x). cp_criterion p = cs_id (pc_spec k) \<and> proof_counts b digest (ar_last_time run) p"
    if "k \<in> set criteria" "pc_verified k" for k
    using that proofs proof_of_Some by (fastforce simp: criteria criterion_points)
  have "map pc_spec criteria = external_criterion_specs" by (simp add: criteria comp_def criterion_points map_idI)
  moreover have "\<forall>k \<in> set criteria. pc_points k = (if pc_verified k then cs_weight (pc_spec k) else 0)"
    by (auto simp: criteria criterion_points)
  ultimately show ?thesis
    using points window proved v rechecked digest authenticated_release [OF v(2)]
    by (simp add: r release_score_def list_all_iff earned)
qed

text \<open>As it ships, an assessment is worth 83: the application's own external verifier proves nothing, so
  every criterion is reported as missing with its fixed reason, and the evidence expires with the
  scorecard.\<close>

theorem unprovisioned_score:
  assumes "verify_production c version run = Inr r" "\<And>v b. ar_external run v b = unprovisioned_external cancelled later"
  shows "pr_score r = 83 \<and> pr_evidence_expires r = rs_expires (pr_release r) \<and>
    (\<forall>k \<in> set (pr_criteria r). \<not> pc_verified k \<and> pc_missing k = [cs_missing (pc_spec k)])"
proof -
  from verify_production_cases [OF assms(1)] obtain v b x rr criteria earned expires where
    x: "ar_external run v b = Some x"
    and derive: "derive_external_criteria c b x (ar_last_time run) = Inr (criteria, earned, expires)"
    and r: "r = \<lparr>pr_release = b, pr_observed = ar_last_time run, pr_evidence_expires = expires,
          pr_repository_score = repository_score, pr_release_score = release_score,
          pr_score = release_score + earned, pr_criteria = criteria\<rparr>" by metis
  from x have none: "xv_proofs x = []"
    and missing: "xv_missing x = map (\<lambda>s. (cs_id s, [cs_missing s])) external_criterion_specs"
    by (auto simp: assms(2) unprovisioned_external_def split: if_splits)
  from derive_ok [OF derive] have criteria: "criteria = map (criterion_of x) external_criterion_specs"
    and earned: "earned = sum_list (map pc_points criteria)" and expires: "expires = earliest_expiry x (rs_expires b)"
    by metis+
  have reason: "map_of (xv_missing x) (cs_id s) = Some [cs_missing s]" if "s \<in> set external_criterion_specs" for s
    unfolding missing using spec_facts(1) that by (intro map_of_is_SomeI) (auto simp: comp_def)
  have "earliest_expiry x e = e" for e by (simp add: earliest_expiry_def none proof_of_def external_criterion_specs_def)
  moreover have verified: "\<forall>k \<in> set criteria. \<not> pc_verified k"
    by (auto simp: criteria criterion_points none proof_of_def)
  moreover have "\<forall>k \<in> set criteria. pc_missing k = [cs_missing (pc_spec k)]"
    using reason by (auto simp: criteria criterion_of_def none proof_of_def)
  ultimately show ?thesis using earned_bounds(4) [OF criteria] by (simp add: r release_score_def earned expires)
qed

lemma stable_is_valid:
  assumes "stable_version v"
  shows "valid_version v" "\<not> contains_any v ''+-''" "prefix ''v'' v"
proof -
  from assms obtain u where v: "v = CHR ''v'' # u"
    and parts: "length (split_on (CHR ''.'') u) = 3" "list_all valid_numeric_identifier (split_on (CHR ''.'') u)"
    by (cases v) (auto simp: stable_version_def Let_def)
  have digits: "is_digit ch \<or> ch = CHR ''.''" if "ch \<in> set u" for ch
  proof -
    have "ch = CHR ''.'' \<or> (\<exists>p \<in> set (split_on (CHR ''.'') u). ch \<in> set p)"
      using that
    proof (induction u)
      case (Cons a u)
      obtain q qs where "split_on (CHR ''.'') u = q # qs" by (meson list.exhaust split_on_nonempty)
      with Cons show ?case by auto
    qed simp
    with parts(2) show ?thesis by (auto simp: list_all_iff valid_numeric_identifier_def)
  qed
  have free: "CHR ''+'' \<notin> set u" "CHR ''-'' \<notin> set u"
    using digits [of "CHR ''+''"] digits [of "CHR ''-''"] by (auto simp: is_digit_def byte_def)
  then show "\<not> contains_any v ''+-''" by (auto simp: v contains_any_iff)
  have ne: "u \<noteq> []" using parts by (cases u) auto
  then have "2 \<le> length v" by (cases u) (auto simp: v)
  then show "valid_version v" using free parts ne by (simp add: valid_version_def v cut_at_def Let_def)
  show "prefix ''v'' v" by (simp add: v)
qed

text \<open>C26. Native observations are bound to the published release. The binding that is selected for a target
  is of the release's version, commit, tree and identifier and names the one published archive of that
  target with its published digest. The verifier of native observations accepts it exactly when the
  version has at most 128 bytes; the selection leaves that limit to the reader of live releases.\<close>

theorem native_binding_published:
  assumes "native_release_binding c live b t = Inr r"
  shows "(validate_release_binding r t = Inr () \<longleftrightarrow> length (rs_version b) \<le> 128) \<and>
    rl_version r = rs_version b \<and> rl_commit r = rs_commit b \<and> rl_tree r = rs_tree b \<and>
    rl_release_id r = rs_release_id b \<and>
    (\<exists>a. filter (\<lambda>a. asset_name a = rl_archive r) (rs_assets b) = [a] \<and> asset_sha256 a = rl_archive_sha256 r)"
proof -
  define name where "name = ''leaguebridge_'' @ (if prefix ''v'' (rs_version b) then tl (rs_version b) else rs_version b) @
     ''_'' @ cell_goos t @ ''_'' @ cell_goarch t @ ''.tar.gz''"
  define named where "named = filter (\<lambda>a. asset_name a = name) (rs_assets b)"
  obtain v where v: "live = Some v" using assms by (cases live) (auto simp: native_release_binding_def)
  obtain x where lookup: "lr_executable v (cell_goos t) (cell_goarch t) = Some x"
    using assms by (cases "lr_executable v (cell_goos t) (cell_goarch t)")
      (auto simp: native_release_binding_def v split: if_splits)
  note bound = assms [unfolded native_release_binding_def Let_def name_def [symmetric] named_def [symmetric] v
      option.case lookup]
  from bound have x: "ex_version x = rs_version b" "ex_commit x = rs_commit b" "ex_tree x = rs_tree b"
      "ex_release_id x = rs_release_id b" "ex_archive x = name" "is_sha256 (ex_sha256 x)"
    and digest: "release_binding_digest c b \<noteq> None"
    and archive: "\<not> list_ex (\<lambda>a. ex_archive_sha256 x \<noteq> asset_sha256 a) named" "length named = 1"
    and r: "r = \<lparr>rl_version = ex_version x, rl_commit = ex_commit x, rl_tree = ex_tree x,
       rl_release_id = ex_release_id x, rl_archive = ex_archive x, rl_archive_sha256 = ex_archive_sha256 x,
       rl_executable_sha256 = ex_sha256 x\<rparr>"
    by (simp_all split: if_splits)
  from archive(2) obtain a where a: "named = [a]" by (auto simp: length_Suc_conv)
  have "a \<in> set named" by (simp add: a)
  then have published: "a \<in> set (rs_assets b)" "asset_name a = name" by (auto simp: named_def)
  with archive(1) have sha: "asset_sha256 a = ex_archive_sha256 x" by (simp add: a)
  from digest have valid: "release_scope_valid b" by (auto simp: release_binding_digest_def split: if_splits)
  then have assets: "valid_assets (rs_version b) (rs_assets b)" and stable: "stable_version (rs_version b)"
    by (auto simp: release_scope_valid_def)
  have "is_sha256 (asset_sha256 a)"
  proof -
    from published(1) obtain i where i: "i < length (rs_assets b)" "rs_assets b ! i = a" by (auto simp: in_set_conv_nth)
    have "length (asset_names (rs_version b)) = 10" by (simp add: asset_names_def Let_def)
    with assets i have "(a, asset_names (rs_version b) ! i) \<in> set (zip (rs_assets b) (asset_names (rs_version b)))"
      by (auto simp: in_set_zip valid_assets_def)
    with assets show ?thesis by (auto simp: valid_assets_def list_all_iff)
  qed
  with sha x valid stable_is_valid [OF stable] have "validate_release_binding r t = Inr () \<longleftrightarrow> length (rs_version b) \<le> 128"
    by (simp add: validate_release_binding_def r release_scope_valid_def archive_name_def name_def
        del: first_error.simps(2))
  moreover have "filter (\<lambda>a. asset_name a = rl_archive r) (rs_assets b) = [a]" using a by (simp add: r x named_def)
  ultimately show ?thesis using sha x by (simp add: r)
qed

end
