(* ===== verification/Production_Examples.thy ===== *)
theory Production_Examples
  imports Production_Assessment
begin

text \<open>
  A published release whose assessment succeeds, once with the verifier that the application ships and once
  with a proof of one criterion, and the executable of one target: the hypotheses of the theorems on the
  production score can be met.
\<close>

definition sample_text :: "char \<Rightarrow> string" where
  "sample_text ch = replicate 64 ch"

definition live_assets :: "asset list" where
  "live_assets = map (\<lambda>n. \<lparr>asset_name = n, asset_sha256 = sample_text (CHR ''a''), asset_size = 5\<rparr>) (asset_names ''v1.2.3'')"

definition live_result :: release_result where
  "live_result =
     \<lparr>rr_schema_version = 1, rr_version = ''v1.2.3'', rr_commit = replicate 40 (CHR ''4''), rr_tree = replicate 40 (CHR ''5''),
      rr_release_id = 7, rr_release_run = 8, rr_release_attempt = 1, rr_ci_run = 9, rr_ci_attempt = 1,
      rr_observed = Go_Time 63957456000 0, rr_expires = Go_Time 63958809600 0, rr_repository_score = 74, rr_score = 83,
      rr_criteria = expected_release_criteria\<rparr>"

definition live_executable :: executable where
  "live_executable =
     \<lparr>ex_version = ''v1.2.3'', ex_commit = replicate 40 (CHR ''4''), ex_tree = replicate 40 (CHR ''5''), ex_release_id = 7,
      ex_goos = ''freebsd'', ex_goarch = ''amd64'', ex_archive = ''leaguebridge_1.2.3_freebsd_amd64.tar.gz'',
      ex_archive_sha256 = sample_text (CHR ''a''), ex_sha256 = sample_text (CHR ''b'')\<rparr>"

definition live_sample :: live_release where
  "live_sample =
     \<lparr>lr_assessment = Some live_result, lr_scorecard = Some (sample_text (CHR ''c'')), lr_assets = Some live_assets,
      lr_executable = (\<lambda>os arch. if os = ''freebsd'' \<and> arch = ''amd64'' then Some live_executable else None),
      lr_rechecked = True\<rparr>"

definition live_scope :: release_scope where
  "live_scope = scope_of live_result (sample_text (CHR ''c'')) live_assets"

definition live_codec :: assessment_codec where
  "live_codec = \<lparr>ac_sha256 = (\<lambda>_. sample_text (CHR ''d'')), ac_scope_text = (\<lambda>b. Some (rs_version b))\<rparr>"

definition live_run :: "(live_release \<Rightarrow> release_scope \<Rightarrow> external_verification option) \<Rightarrow> assessment_run" where
  "live_run external =
     \<lparr>ar_cancelled = False, ar_release = Some (Some live_sample), ar_external = external,
      ar_first_time = Go_Time 63957513600 0, ar_cancelled_late = False, ar_last_time = Go_Time 63957513700 0\<rparr>"

definition live_proof :: criterion_proof where
  "live_proof =
     \<lparr>cp_valid = True, cp_criterion = ''packaging-native-os-packages'', cp_binding = sample_text (CHR ''d''),
      cp_evidence = sample_text (CHR ''e''), cp_verified = Go_Time 63957513500 0, cp_expires = Go_Time 63958000000 0\<rparr>"

definition one_proof :: external_verification where
  "one_proof = \<lparr>xv_proofs = [live_proof], xv_missing = [], xv_rechecks = Some (True, True)\<rparr>"

lemma live_texts:
  "stable_version ''v1.2.3''" "valid_assets ''v1.2.3'' live_assets" "object_id (replicate 40 (CHR ''4''))"
  "object_id (replicate 40 (CHR ''5''))" "is_sha256 (sample_text (CHR ''a''))" "is_sha256 (sample_text (CHR ''b''))"
  "is_sha256 (sample_text (CHR ''c''))" "is_sha256 (sample_text (CHR ''e''))"
  "known_external_criterion ''packaging-native-os-packages''"
  "list_all (\<lambda>s. trim_space (cs_missing s) \<noteq> [] \<and> length (cs_missing s) \<le> 512 \<and> known_external_criterion (cs_id s))
     external_criterion_specs"
  by code_simp+

lemma live_times:
  "\<not> is_zero (Go_Time 63957456000 0)" "\<not> is_zero (Go_Time 63958809600 0)" "\<not> is_zero (Go_Time 63957513600 0)"
  "\<not> is_zero (Go_Time 63957513700 0)" "\<not> is_zero (Go_Time 63957513500 0)" "\<not> is_zero (Go_Time 63958000000 0)"
  by (simp_all add: is_zero_def zero_time_def)

lemma live_authenticated: "authenticate_release ''v1.2.3'' live_sample = Inr (live_result, live_scope)"
proof -
  have "check_release_assessment ''v1.2.3'' live_result"
    by (simp add: check_release_assessment_def live_result_def live_texts live_times less_go_time_def repository_score_def
        release_score_def)
  then show ?thesis
    by (simp add: authenticate_release_def live_sample_def live_texts live_scope_def) (simp add: live_result_def live_texts)
qed

lemma live_digest: "release_binding_digest live_codec live_scope = Some (sample_text (CHR ''d''))"
  by (simp add: release_binding_digest_def release_scope_valid_def live_scope_def scope_of_def live_result_def live_texts
      live_times) (simp add: live_codec_def)

lemma live_unproved:
  assumes "time \<in> {Go_Time 63957513600 0, Go_Time 63957513700 0}" "unprovisioned_external False (False, False) = Some x"
  shows "\<exists>r. derive_external_criteria live_codec live_scope x time = Inr r"
proof -
  have x: "xv_proofs x = []" "xv_missing x = map (\<lambda>s. (cs_id s, [cs_missing s])) external_criterion_specs"
    using assms(2) by (auto simp: unprovisioned_external_def)
  have "first_error (map (check_missing []) (xv_missing x)) = Inr ()"
    using live_texts(10) by (simp add: x(2) first_error_map_ok check_missing_def list_all_iff del: first_error.simps(2))
  moreover have "time < rs_expires live_scope" "\<not> is_zero time"
    using assms(1) live_times by (auto simp: live_scope_def scope_of_def live_result_def less_go_time_def)
  moreover have "sum_list (map pc_points (map (criterion_of x) external_criterion_specs)) \<le> 17"
    by (rule earned_bounds(2)) (rule refl)
  ultimately show ?thesis
    by (simp add: derive_external_criteria_def live_digest x(1) maximum_score_def release_score_def Let_def)
qed

lemma live_proved:
  assumes "time \<in> {Go_Time 63957513600 0, Go_Time 63957513700 0}"
  shows "\<exists>r. derive_external_criteria live_codec live_scope one_proof time = Inr r"
proof -
  have "check_proofs live_scope (sample_text (CHR ''d'')) time [] (xv_proofs one_proof) = Inr ()"
    using assms by (auto simp: one_proof_def check_proof_def live_proof_def live_texts live_times less_go_time_def
        live_scope_def scope_of_def live_result_def)
  moreover have "time < rs_expires live_scope" "\<not> is_zero time"
    using assms(1) live_times by (auto simp: live_scope_def scope_of_def live_result_def less_go_time_def)
  moreover have "xv_missing one_proof = []" by (simp add: one_proof_def)
  moreover have "sum_list (map pc_points (map (criterion_of one_proof) external_criterion_specs)) \<le> 17"
    by (rule earned_bounds(2)) (rule refl)
  ultimately show ?thesis
    by (simp add: derive_external_criteria_def live_digest maximum_score_def release_score_def Let_def)
qed

lemma live_assessed:
  assumes "\<And>v b. external v b = Some x" "xv_rechecks x = Some (True, True)"
    and "\<And>t. t \<in> {Go_Time 63957513600 0, Go_Time 63957513700 0} \<Longrightarrow>
      \<exists>r. derive_external_criteria live_codec live_scope x t = Inr r"
  shows "\<exists>r. verify_production live_codec ''v1.2.3'' (live_run external) = Inr r \<and>
    derive_external_criteria live_codec live_scope x (Go_Time 63957513700 0) =
      Inr (pr_criteria r, pr_score r - 83, pr_evidence_expires r)"
proof -
  obtain r where first: "derive_external_criteria live_codec live_scope x (Go_Time 63957513600 0) = Inr r"
    using assms(3) by blast
  obtain criteria earned expires where
    last: "derive_external_criteria live_codec live_scope x (Go_Time 63957513700 0) = Inr (criteria, earned, expires)"
    using assms(3) [of "Go_Time 63957513700 0"] by auto
  from derive_ok [OF last] earned_bounds(2) have "earned \<le> 17" by metis
  moreover have "recheck_all live_sample (True, True) False = Inr ()" by (simp add: recheck_all_def live_sample_def)
  moreover have "rr_observed live_result = Go_Time 63957456000 0" "rr_expires live_result = Go_Time 63958809600 0"
    by (simp_all add: live_result_def)
  ultimately show ?thesis
    by (simp add: verify_production_def live_run_def live_authenticated assms(1,2) first last live_times less_go_time_def
        maximum_score_def release_score_def Let_def)
qed

lemma production_score_proved_witness:
  "\<exists>r. verify_production live_codec ''v1.2.3'' (live_run (\<lambda>_ _. Some one_proof)) = Inr r \<and> pr_score r = 86"
proof -
  have "xv_rechecks one_proof = Some (True, True)" by (simp add: one_proof_def)
  from live_assessed [OF refl this live_proved] obtain r where
    r: "verify_production live_codec ''v1.2.3'' (live_run (\<lambda>_ _. Some one_proof)) = Inr r"
    and derive: "derive_external_criteria live_codec live_scope one_proof (Go_Time 63957513700 0) =
      Inr (pr_criteria r, pr_score r - 83, pr_evidence_expires r)" by blast
  have "pr_criteria r = map (criterion_of one_proof) external_criterion_specs" using derive_ok [OF derive] by metis
  then have "sum_list (map pc_points (pr_criteria r)) = 3"
    by (simp add: external_criterion_specs_def criterion_of_def proof_of_def one_proof_def live_proof_def)
  with production_score_proved [OF r] r show ?thesis by simp
qed

lemma unprovisioned_score_witness:
  "\<exists>r. verify_production live_codec ''v1.2.3'' (live_run (\<lambda>_ _. unprovisioned_external False (False, False))) = Inr r \<and>
     pr_score r = 83"
proof -
  obtain x where x: "unprovisioned_external False (False, False) = Some x" "xv_rechecks x = Some (True, True)"
    by (simp add: unprovisioned_external_def)
  from live_assessed [OF x(1) x(2) live_unproved [OF _ x(1)]] obtain r where
    r: "verify_production live_codec ''v1.2.3'' (live_run (\<lambda>_ _. unprovisioned_external False (False, False))) = Inr r"
    by blast
  have "ar_external (live_run (\<lambda>_ _. unprovisioned_external False (False, False))) v b =
      unprovisioned_external False (False, False)" for v b by (simp add: live_run_def)
  from unprovisioned_score [OF r this] r show ?thesis by blast
qed

lemma native_binding_published_witness:
  "\<exists>r. native_release_binding live_codec (Some live_sample) live_scope (mk_cell [] ''freebsd'' ''amd64'') = Inr r \<and>
     validate_release_binding r (mk_cell [] ''freebsd'' ''amd64'') = Inr ()"
proof -
  have known: "list_ex (\<lambda>k. cell_goos k = ''freebsd'' \<and> cell_goarch k = ''amd64'') (expected_cells ''native-integration'')"
    by code_simp
  have assets: "rs_assets live_scope = live_assets" "rs_version live_scope = ''v1.2.3''"
    "rs_commit live_scope = replicate 40 (CHR ''4'')" "rs_tree live_scope = replicate 40 (CHR ''5'')"
    "rs_release_id live_scope = 7"
    by (simp_all add: live_scope_def scope_of_def live_result_def)
  have named: "filter (\<lambda>a. asset_name a = ''leaguebridge_1.2.3_freebsd_amd64.tar.gz'') live_assets =
      [\<lparr>asset_name = ''leaguebridge_1.2.3_freebsd_amd64.tar.gz'', asset_sha256 = sample_text (CHR ''a''), asset_size = 5\<rparr>]"
    by (simp add: live_assets_def asset_names_def Let_def)
  have "\<exists>r. native_release_binding live_codec (Some live_sample) live_scope (mk_cell [] ''freebsd'' ''amd64'') = Inr r"
    using known by (simp add: native_release_binding_def mk_cell_def live_digest assets live_sample_def live_executable_def
        live_texts named)
  then obtain r where "native_release_binding live_codec (Some live_sample) live_scope (mk_cell [] ''freebsd'' ''amd64'') = Inr r"
    by blast
  moreover from native_binding_published [OF this] have "validate_release_binding r (mk_cell [] ''freebsd'' ''amd64'') = Inr ()"
    by (simp add: assets)
  ultimately show ?thesis by blast
qed

end
