(* ===== verification/Readiness_Contract.thy ===== *)
theory Readiness_Contract
  imports Production_Assessment
begin

text \<open>
  The fixed inventory of \<open>internal/readiness\<close>: the categories of the engineering score with their
  subcriteria and the repository paths that each of them needs, and the remote routes with their platforms
  and gates.
\<close>

record subcriterion_contract =
  sc_id :: string
  sc_name :: string
  sc_weight :: int
  sc_evidence_type :: string
  sc_verifier :: string
  sc_paths :: "string list"

record category_contract =
  cc_id :: string
  cc_name :: string
  cc_weight :: int
  cc_subcriteria :: "subcriterion_contract list"

definition repository_content :: string where
  "repository_content = ''repository-content-v1''"

section \<open>The engineering contract\<close>

definition engineering_contract :: "category_contract list" where
  "engineering_contract =
     [\<lparr>cc_id = ''honest-scope'', cc_name = ''Honest scope and documentation'', cc_weight = 10,
        cc_subcriteria =
         [\<lparr>sc_id = ''scope-support-matrix'', sc_name = ''Support matrix'', sc_weight = 4,
           sc_evidence_type = repository_content, sc_verifier = ''docs-support-matrix-v1'',
           sc_paths =
             [''README.md'']\<rparr>,
          \<lparr>sc_id = ''scope-explicit-limitations'', sc_name = ''Explicit limitations'', sc_weight = 3,
           sc_evidence_type = repository_content, sc_verifier = ''docs-explicit-limitations-v1'',
           sc_paths =
             [''docs/SUPPORT_POLICY.md'', ''docs/READINESS.md'', ''docs/RELEASE_ASSESSMENT.md'',
                    ''docs/PACKAGING.md'', ''docs/PRODUCTION_ASSESSMENT_V4_DESIGN.md'']\<rparr>,
          \<lparr>sc_id = ''scope-primary-source-research'', sc_name = ''Dated primary-source research'', sc_weight = 3,
           sc_evidence_type = repository_content, sc_verifier = ''docs-primary-source-research-v1'',
           sc_paths =
             [''docs/research/2026-08-26-platform-feasibility.md'',
                    ''docs/research/2026-09-23-route-revalidation.md'']\<rparr>]\<rparr>,
      \<lparr>cc_id = ''governance-legal-privacy'', cc_name = ''Governance, legal, and privacy'', cc_weight = 10,
        cc_subcriteria =
         [\<lparr>sc_id = ''governance-policy-conduct'', sc_name = ''Governance and conduct'', sc_weight = 3,
           sc_evidence_type = repository_content, sc_verifier = ''governance-policy-conduct-v1'',
           sc_paths =
             [''CODE_OF_CONDUCT.md'', ''GOVERNANCE.md'']\<rparr>,
          \<lparr>sc_id = ''governance-security-policy'', sc_name = ''Security policy'', sc_weight = 3,
           sc_evidence_type = repository_content, sc_verifier = ''governance-security-policy-v1'',
           sc_paths =
             [''SECURITY.md'']\<rparr>,
          \<lparr>sc_id = ''governance-legal-privacy'', sc_name = ''Legal and privacy boundaries'', sc_weight = 4,
           sc_evidence_type = repository_content, sc_verifier = ''governance-legal-privacy-v1'',
           sc_paths =
             [''LICENSE'', ''docs/LEGAL-AND-AUTHORIZATION.md'', ''docs/PRIVACY.md'']\<rparr>]\<rparr>,
      \<lparr>cc_id = ''architecture-contracts'', cc_name = ''Architecture and data contracts'', cc_weight = 15,
        cc_subcriteria =
         [\<lparr>sc_id = ''architecture-versioned-schemas'', sc_name = ''Versioned schemas'', sc_weight = 5,
           sc_evidence_type = repository_content, sc_verifier = ''schemas-offline-conformance-v1'',
           sc_paths =
             [''schemas/compatibility-manifest.schema.json'', ''schemas/config.schema.json'',
                    ''schemas/evidence-signature-envelope.schema.json'', ''schemas/evidence-trust-policy.schema.json'',
                    ''schemas/package-manifest.schema.json'', ''schemas/readiness-scorecard.schema.json'',
                    ''schemas/readiness-promotion-v4.schema.json'', ''schemas/validation-evidence-v2.schema.json'',
                    ''schemas/validation-evidence.schema.json'', ''schemas/ci-attestation.schema.json'',
                    ''schemas/native-package-staging.schema.json'', ''schemas/native-runtime-attestation.schema.json'',
                    ''schemas/native-package-attestation.schema.json'', ''schemas/release-assessment.schema.json'',
                    ''schemas/production-assessment.schema.json'']\<rparr>,
          \<lparr>sc_id = ''architecture-fail-closed-policy'', sc_name = ''Fail-closed policy'', sc_weight = 5,
           sc_evidence_type = repository_content, sc_verifier = ''compat-fail-closed-v1'',
           sc_paths =
             [''internal/compat/policy.go'', ''internal/compat/policy_test.go'']\<rparr>,
          \<lparr>sc_id = ''architecture-reason-codes-adrs'', sc_name = ''Stable reason codes and ADRs'', sc_weight = 3,
           sc_evidence_type = repository_content, sc_verifier = ''reason-codes-adrs-v1'',
           sc_paths =
             [''docs/adr/0001-fail-closed-policy.md'', ''docs/adr/0002-no-wine-vm-or-dll-backend.md'',
                    ''docs/adr/0003-remote-physical-host-handoff.md'',
                    ''docs/adr/0004-physical-macos-remote-handoff.md'',
                    ''docs/adr/0005-authenticated-validation-evidence-v2.md'', ''internal/compat/manifest.go'']\<rparr>,
          \<lparr>sc_id = ''architecture-upstream-authorization'', sc_name = ''Authorized upstream extension contract'', sc_weight = 2,
           sc_evidence_type = ''vendor-authorization-v1'', sc_verifier = ''riot-linux-bsd-authorization-v1'',
           sc_paths =
             []\<rparr>]\<rparr>,
      \<lparr>cc_id = ''implementation'', cc_name = ''Implementation quality'', cc_weight = 20,
        cc_subcriteria =
         [\<lparr>sc_id = ''implementation-cli-controller'', sc_name = ''CLI/controller'', sc_weight = 5,
           sc_evidence_type = repository_content, sc_verifier = ''cli-controller-v1'',
           sc_paths =
             [''cmd/leaguebridge/main.go'', ''internal/app/app.go'', ''internal/app/evidence.go'',
                    ''internal/app/evidence_v2.go'', ''internal/app/readiness.go'',
                    ''internal/app/readiness_production.go'', ''internal/evidence/artifacts.go'',
                    ''internal/evidence/evidence.go'', ''internal/evidencev2/parse.go'',
                    ''internal/evidencev2/policy.go'', ''internal/evidencev2/prepare.go'',
                    ''internal/evidencev2/promotion.go'', ''internal/evidencev2/types.go'',
                    ''internal/evidencev2/verify.go'', ''internal/readiness/readiness.go'',
                    ''internal/app/readiness_release.go'', ''internal/releaseassessment/assessment.go'',
                    ''internal/releaseassessment/production_contract.go'', ''internal/releaseassessment/verified.go'',
                    ''internal/productionassessment/assessment.go'', ''internal/releaseassessment/publication.go'',
                    ''internal/releaseassessment/source.go'', ''internal/releaseassessment/staging.go'',
                    ''internal/releaseassessment/transport.go'', ''internal/releasecheck/releasecheck.go'']\<rparr>,
          \<lparr>sc_id = ''implementation-strict-config-fixed-argv'', sc_name = ''Strict config and fixed remote argv'', sc_weight = 4,
           sc_evidence_type = repository_content, sc_verifier = ''strict-config-fixed-argv-v1'',
           sc_paths =
             [''internal/app/remote.go'', ''internal/kvm/kvm.go'', ''internal/config/config.go'',
                    ''internal/exactjson/exactjson.go'', ''internal/fileinput/fileinput.go'',
                    ''internal/fileinput/open_other.go'', ''internal/fileinput/open_unix.go'',
                    ''internal/remote/remote.go'', ''internal/remote/control.go'']\<rparr>,
          \<lparr>sc_id = ''implementation-bounded-diagnostics-redaction'', sc_name = ''Bounded diagnostics and redaction'', sc_weight = 4,
           sc_evidence_type = repository_content, sc_verifier = ''bounded-diagnostics-redaction-v1'',
           sc_paths =
             [''internal/diagnostics/bundle.go'', ''internal/diagnostics/report.go'',
                    ''internal/redact/redact.go'']\<rparr>,
          \<lparr>sc_id = ''implementation-read-only-probes'', sc_name = ''Read-only host/client probes'', sc_weight = 4,
           sc_evidence_type = repository_content, sc_verifier = ''read-only-probes-v1'',
           sc_paths =
             [''compatibility/sunshine-windows-amd64.lock.json'', ''internal/probe/alternatives.go'',
                    ''internal/probe/client.go'', ''internal/probe/macos_host.go'', ''internal/probe/probe.go'',
                    ''internal/probe/service.go'', ''internal/probe/service_other.go'',
                    ''internal/probe/service_windows.go'', ''internal/probe/system.go'',
                    ''internal/probe/system_tool_other.go'', ''internal/probe/system_tool_windows.go'',
                    ''internal/probe/windows_host.go'', ''scripts/inspect-sunshine-host.ps1'']\<rparr>,
          \<lparr>sc_id = ''implementation-native-validated-integration'', sc_name = ''Native validated platform integration'', sc_weight = 3,
           sc_evidence_type = ''native-runtime-attestation-v2'', sc_verifier = ''native-integration-v2'',
           sc_paths =
             []\<rparr>]\<rparr>,
      \<lparr>cc_id = ''tests-ci'', cc_name = ''Tests and CI'', cc_weight = 20,
        cc_subcriteria =
         [\<lparr>sc_id = ''tests-unit-negative'', sc_name = ''Unit and negative tests'', sc_weight = 5,
           sc_evidence_type = repository_content, sc_verifier = ''unit-negative-tests-v1'',
           sc_paths =
             [''internal/app/app_test.go'', ''internal/kvm/kvm_test.go'', ''internal/app/evidence_v2_test.go'',
                    ''internal/compat/manifest_test.go'', ''internal/compat/policy_test.go'',
                    ''internal/config/config_test.go'', ''internal/contracts/evidence_v2_schema_test.go'',
                    ''internal/contracts/readiness_v4_schema_test.go'',
                    ''internal/contracts/sunshine_workflow_test.go'',
                    ''internal/contracts/sunshine_workflow_windows_test.go'', ''internal/evidence/artifacts_test.go'',
                    ''internal/evidence/evidence_test.go'', ''internal/evidencev2/evidencev2_test.go'',
                    ''internal/evidencev2/promotion_test.go'', ''internal/exactjson/exactjson_test.go'',
                    ''internal/fileinput/fileinput_test.go'', ''internal/fileinput/fileinput_unix_test.go'',
                    ''internal/packageinfo/manifest_test.go'', ''internal/probe/alternatives_test.go'',
                    ''internal/probe/macos_host_test.go'', ''internal/probe/probe_test.go'',
                    ''internal/probe/windows_host_hardening_test.go'', ''internal/remote/remote_test.go'',
                    ''internal/vendorintegrity/vendorintegrity_test.go'', ''tools/releasecheck/main_test.go'',
                    ''tools/releasecheck/release_script_test.go'', ''tools/sbom/main_test.go'',
                    ''tools/vendorcheck/main_test.go'', ''internal/contracts/ci_attestation_schema_test.go'',
                    ''internal/nativepackage/staging_test.go'', ''internal/nativepackage/coverage_extra_test.go'',
                    ''internal/nativepackage/staging_context_test.go'', ''tools/ciattestation/main_test.go'',
                    ''tools/nativepackagestage/main_test.go'', ''tools/releasecheck/workflow_format_test.go'',
                    ''internal/app/remote_runtime_test.go'', ''internal/remote/runtime_regression_test.go'',
                    ''internal/probe/control_readiness_test.go'', ''tools/ciartifact/main_test.go'',
                    ''tools/cireleasegate/main_test.go'', ''tools/releasecheck/ci_transport_test.go'',
                    ''internal/fileinput/directory_test.go'', ''internal/remote/control_test.go'',
                    ''internal/ciattestation/ciattestation_test.go'', ''internal/cireleasegate/cireleasegate_test.go'',
                    ''internal/currentci/currentci_test.go'', ''tools/currentci/main_test.go'',
                    ''internal/app/readiness_release_test.go'', ''internal/app/readiness_production_test.go'',
                    ''internal/contracts/release_assessment_schema_test.go'',
                    ''internal/contracts/production_assessment_schema_test.go'',
                    ''internal/releasecheck/releasecheck_test.go'', ''internal/releasecheck/api_test.go'',
                    ''internal/releaseassessment/assessment_test.go'',
                    ''internal/releaseassessment/production_contract_test.go'',
                    ''internal/releaseassessment/verified_test.go'',
                    ''internal/productionassessment/assessment_test.go'',
                    ''internal/reviewercrypto/reviewercrypto_test.go'',
                    ''internal/productionpackage/candidate_test.go'',
                    ''tools/productionpackagecandidate/main_test.go'',
                    ''internal/releaseassessment/testdata/reviewed-v0.1.0-scorecard.json'',
                    ''internal/currentci/output_bound_test.go'', ''internal/cireleasegate/output_bound_test.go'',
                    ''internal/ciattestation/output_bound_test.go'', ''internal/diagnostics/output_bound_test.go'',
                    ''tools/nativeattestation/output_bound_test.go'',
                    ''internal/nativeattestation/nativeattestation_test.go'',
                    ''internal/nativepackageattestation/attestation_test.go'',
                    ''internal/nativepackageattestation/output_bound_test.go'']\<rparr>,
          \<lparr>sc_id = ''tests-coverage-80'', sc_name = ''80% aggregate core coverage gate'', sc_weight = 4,
           sc_evidence_type = repository_content, sc_verifier = ''core-coverage-80-v1'',
           sc_paths =
             [''tools/coverage/main.go'', ''tools/coverage/main_test.go'']\<rparr>,
          \<lparr>sc_id = ''tests-race-vet-linux'', sc_name = ''Linux race and vet'', sc_weight = 3,
           sc_evidence_type = ''ci-attestation-v1'', sc_verifier = ''ci-race-vet-v1'',
           sc_paths =
             []\<rparr>,
          \<lparr>sc_id = ''tests-nine-target-cross-build'', sc_name = ''Nine-target Linux/BSD cross-build'', sc_weight = 3,
           sc_evidence_type = ''ci-attestation-v1'', sc_verifier = ''ci-nine-target-cross-build-v1'',
           sc_paths =
             []\<rparr>,
          \<lparr>sc_id = ''tests-native-bsd-physical-smoke'', sc_name = ''Native BSD and physical-hardware smoke tests'', sc_weight = 5,
           sc_evidence_type = ''native-runtime-attestation-v2'', sc_verifier = ''native-bsd-physical-smoke-v2'',
           sc_paths =
             []\<rparr>]\<rparr>,
      \<lparr>cc_id = ''security-supply-chain'', cc_name = ''Security and supply chain'', cc_weight = 15,
        cc_subcriteria =
         [\<lparr>sc_id = ''security-threat-model'', sc_name = ''Threat model and scope'', sc_weight = 4,
           sc_evidence_type = repository_content, sc_verifier = ''threat-model-v1'',
           sc_paths =
             [''SECURITY.md'', ''docs/THREAT_MODEL.md'']\<rparr>,
          \<lparr>sc_id = ''security-injection-bounds-redaction'', sc_name = ''Injection, bounds, and redaction tests'', sc_weight = 4,
           sc_evidence_type = repository_content, sc_verifier = ''security-negative-tests-v1'',
           sc_paths =
             [''internal/kvm/kvm_test.go'', ''internal/app/evidence_v2_test.go'',
                    ''internal/compat/manifest_test.go'', ''internal/config/config_test.go'',
                    ''internal/contracts/evidence_v2_schema_test.go'',
                    ''internal/contracts/readiness_v4_schema_test.go'',
                    ''internal/contracts/sunshine_workflow_test.go'',
                    ''internal/contracts/sunshine_workflow_windows_test.go'', ''internal/diagnostics/bundle_test.go'',
                    ''internal/diagnostics/report_test.go'', ''internal/evidence/artifacts_test.go'',
                    ''internal/evidence/evidence_test.go'', ''internal/evidencev2/evidencev2_test.go'',
                    ''internal/evidencev2/promotion_test.go'', ''internal/exactjson/exactjson_test.go'',
                    ''internal/fileinput/fileinput_test.go'', ''internal/fileinput/fileinput_unix_test.go'',
                    ''internal/probe/alternatives_test.go'', ''internal/probe/probe_test.go'',
                    ''internal/probe/windows_host_hardening_test.go'', ''internal/redact/redact_test.go'',
                    ''internal/remote/remote_test.go'', ''internal/vendorintegrity/vendorintegrity_test.go'',
                    ''tools/releasecheck/main_test.go'', ''tools/releasecheck/release_script_test.go'',
                    ''tools/vendorcheck/main_test.go'', ''internal/contracts/ci_attestation_schema_test.go'',
                    ''tools/ciattestation/main_test.go'', ''internal/app/remote_runtime_test.go'',
                    ''internal/remote/runtime_regression_test.go'', ''internal/probe/control_readiness_test.go'',
                    ''tools/ciartifact/main_test.go'', ''tools/cireleasegate/main_test.go'',
                    ''tools/releasecheck/ci_transport_test.go'', ''internal/fileinput/directory_test.go'',
                    ''internal/remote/control_test.go'', ''internal/ciattestation/ciattestation_test.go'',
                    ''internal/cireleasegate/cireleasegate_test.go'', ''internal/currentci/currentci_test.go'',
                    ''tools/currentci/main_test.go'', ''internal/app/readiness_release_test.go'',
                    ''internal/app/readiness_production_test.go'',
                    ''internal/contracts/release_assessment_schema_test.go'',
                    ''internal/contracts/production_assessment_schema_test.go'',
                    ''internal/releasecheck/releasecheck_test.go'', ''internal/releasecheck/api_test.go'',
                    ''internal/releaseassessment/assessment_test.go'',
                    ''internal/releaseassessment/production_contract_test.go'',
                    ''internal/releaseassessment/verified_test.go'',
                    ''internal/productionassessment/assessment_test.go'',
                    ''internal/reviewercrypto/reviewercrypto_test.go'',
                    ''internal/productionpackage/candidate_test.go'',
                    ''tools/productionpackagecandidate/main_test.go'',
                    ''internal/releaseassessment/testdata/reviewed-v0.1.0-scorecard.json'',
                    ''internal/currentci/output_bound_test.go'', ''internal/cireleasegate/output_bound_test.go'',
                    ''internal/ciattestation/output_bound_test.go'', ''internal/diagnostics/output_bound_test.go'',
                    ''tools/nativeattestation/output_bound_test.go'',
                    ''internal/nativeattestation/nativeattestation_test.go'',
                    ''internal/nativepackageattestation/attestation_test.go'',
                    ''internal/nativepackageattestation/output_bound_test.go'',
                    ''internal/nativepackage/coverage_extra_test.go'',
                    ''internal/nativepackage/staging_context_test.go'']\<rparr>,
          \<lparr>sc_id = ''security-pinned-least-privilege-ci'', sc_name = ''Pinned least-privilege CI'', sc_weight = 3,
           sc_evidence_type = repository_content, sc_verifier = ''pinned-least-privilege-ci-v1'',
           sc_paths =
             [''.github/workflows/ci.yml'', ''.github/workflows/evidence-freshness.yml'',
                    ''.github/workflows/release.yml'', ''tools/cireleasegate/main.go'',
                    ''tools/cireleasegate/main_test.go'', ''internal/cireleasegate/cireleasegate.go'',
                    ''internal/cireleasegate/cireleasegate_test.go'', ''internal/currentci/currentci.go'',
                    ''internal/currentci/currentci_test.go'', ''tools/currentci/main.go'',
                    ''tools/currentci/main_test.go'']\<rparr>,
          \<lparr>sc_id = ''security-sbom-checksum-provenance'', sc_name = ''SBOM, checksum, and provenance tooling'', sc_weight = 2,
           sc_evidence_type = repository_content, sc_verifier = ''sbom-checksum-provenance-tools-v1'',
           sc_paths =
             [''.gitattributes'', ''go.mod'', ''go.sum'', ''scripts/release.sh'',
                    ''scripts/native-package-linux-smoke.sh'', ''scripts/install.sh'', ''scripts/uninstall.sh'',
                    ''scripts/verify-install.sh'', ''scripts/verify-release-reproducible.sh'',
                    ''internal/packageinfo/manifest.go'', ''internal/packageinfo/manifest_test.go'',
                    ''internal/vendorintegrity/lock.go'', ''internal/vendorintegrity/vendorintegrity.go'',
                    ''internal/vendorintegrity/vendorintegrity_test.go'', ''vendor/filippo.io/edwards25519/LICENSE'',
                    ''vendor/modules.txt'', ''tools/canonicaltar/main.go'', ''tools/packagemanifest/main.go'',
                    ''tools/readinesscheck/main.go'', ''tools/releasecheck/main.go'',
                    ''tools/releasecheck/main_test.go'', ''tools/releasecheck/release_script_test.go'',
                    ''tools/sbom/main.go'', ''tools/sbom/main_test.go'', ''tools/vendorcheck/main.go'',
                    ''tools/vendorcheck/main_test.go'', ''tools/ciartifact/main.go'',
                    ''tools/ciartifact/main_test.go'', ''tools/releasecheck/ci_transport_test.go'',
                    ''tools/ciattestation/main.go'', ''internal/ciattestation/ciattestation.go'',
                    ''internal/releasecheck/releasecheck.go'', ''internal/releasecheck/releasecheck_test.go'',
                    ''internal/releasecheck/api_test.go'', ''internal/releaseassessment/assessment.go'',
                    ''internal/releaseassessment/production_contract.go'', ''internal/releaseassessment/verified.go'',
                    ''internal/productionassessment/assessment.go'', ''internal/releaseassessment/publication.go'',
                    ''internal/releaseassessment/source.go'', ''internal/releaseassessment/staging.go'',
                    ''internal/releaseassessment/transport.go'', ''internal/nativeattestation/nativeattestation.go'',
                    ''internal/nativepackageattestation/attestation.go'', ''internal/nativepackage/staging.go'',
                    ''internal/reviewercrypto/reviewercrypto.go'', ''internal/productionpackage/candidate.go'',
                    ''tools/productionpackagecandidate/main.go'', ''tools/nativeattestation/main.go'',
                    ''tools/nativepackageattestation/main.go'']\<rparr>,
          \<lparr>sc_id = ''security-independent-audit-closed'', sc_name = ''Closed independent audit findings'', sc_weight = 2,
           sc_evidence_type = ''independent-audit-v1'', sc_verifier = ''independent-audit-v1'',
           sc_paths =
             []\<rparr>]\<rparr>,
      \<lparr>cc_id = ''packaging-operations'', cc_name = ''Packaging and operations'', cc_weight = 10,
        cc_subcriteria =
         [\<lparr>sc_id = ''packaging-nine-release-archives'', sc_name = ''Nine published Linux/BSD release archives'', sc_weight = 2,
           sc_evidence_type = ''release-attestation-v1'', sc_verifier = ''release-nine-archives-v1'',
           sc_paths =
             []\<rparr>,
          \<lparr>sc_id = ''packaging-version-sbom-checksums'', sc_name = ''Version metadata, SBOMs, and checksums tooling'', sc_weight = 2,
           sc_evidence_type = repository_content, sc_verifier = ''release-metadata-tools-v1'',
           sc_paths =
             [''internal/packageinfo/manifest.go'', ''internal/version/version.go'',
                    ''tools/releasecheck/main.go'', ''tools/sbom/main.go'', ''internal/releasecheck/releasecheck.go'',
                    ''internal/productionpackage/candidate.go'', ''tools/productionpackagecandidate/main.go'',
                    ''scripts/native-package-linux-smoke.sh'']\<rparr>,
          \<lparr>sc_id = ''packaging-publication-attestation'', sc_name = ''Release publication and attestation'', sc_weight = 1,
           sc_evidence_type = ''release-attestation-v1'', sc_verifier = ''release-publication-attestation-v1'',
           sc_paths =
             []\<rparr>,
          \<lparr>sc_id = ''packaging-native-os-packages'', sc_name = ''Native OS packages'', sc_weight = 3,
           sc_evidence_type = ''package-attestation-v1'', sc_verifier = ''native-packages-v1'',
           sc_paths =
             []\<rparr>,
          \<lparr>sc_id = ''packaging-install-uninstall-native-smoke'', sc_name = ''Install/uninstall and native smoke evidence'', sc_weight = 2,
           sc_evidence_type = ''native-runtime-attestation-v2'', sc_verifier = ''install-native-smoke-v2'',
           sc_paths =
             []\<rparr>]\<rparr>]"

section \<open>The remote contract\<close>

definition remote_platform_contract :: "(string \<times> string) list" where
  "remote_platform_contract =
     map (\<lambda>t. (case evidence_platform (goos t) of Some p \<Rightarrow> p | None \<Rightarrow> [], goarch t)) ordered_targets"

definition remote_gate_contract :: "string list" where
  "remote_gate_contract = [''physical-host'', ''client-runtime'', ''session-quality'', ''gameplay-interaction'']"

definition remote_route_contract :: "(string \<times> string) list" where
  "remote_route_contract =
     [(''physical-windows-remote'',
       ''The physical Windows host and all client/session/gameplay gates remain unvalidated: the validation-evidence v2 verifier is implemented, but no production reviewer trust keys or authenticated physical-run evidence are provisioned; schema-v1 manual evidence remains non-promotable and readiness schema v3 remains hard-zero.''),
      (''physical-macos-remote'',
       ''Sunshine'' @ [CHR 0x27] @ ''s macOS host support is experimental and gamepad hosting is unavailable; validation-evidence v2 now verifies route-bound Windows or macOS/v1-record-backed sets, but no production reviewer trust keys or authenticated physical-run evidence are provisioned, and readiness schema v3 remains hard-zero.'')]"

definition local_gameplay_reason :: string where
  "local_gameplay_reason =
     ''Riot does not support Linux/BSD and states that Wine cannot satisfy Vanguard requirements; Riot also rejects virtual machines.''"

end
