(* ===== verification/Readiness.thy ===== *)
theory Readiness
  imports Readiness_Contract
begin

text \<open>
  The readiness scorecard of \<open>internal/readiness\<close>: its strict parsing and validation against the fixed
  contract, the engineering score that is derived from it, the remote matrices, and the verification of its
  repository evidence. A document is a token stream; \<open>document_times_plain\<close> says that its two timestamps
  are written without escape sequences, because \<open>time.Time\<close> reads the raw text between the quotes. SHA-256
  is an argument, the repository a world of outcomes.
\<close>

section \<open>The scorecard\<close>

record evidence_reference =
  er_path :: string
  er_sha256 :: string

text \<open>A nil slice is \<open>None\<close>.\<close>

record subcriterion =
  sb_id :: string
  sb_name :: string
  sb_weight :: int
  sb_evidence_type :: string
  sb_verifier :: string
  sb_evidence :: "evidence_reference list option"

record category =
  ct_id :: string
  ct_name :: string
  ct_weight :: int
  ct_subcriteria :: "subcriterion list"

record outcome =
  oc_score :: int
  oc_state :: string
  oc_reason :: string

record evidence_set_reference =
  es_evidence_type :: string
  es_schema_version :: int
  es_path :: string
  es_sha256 :: string

record handoff_platform =
  hp_platform :: string
  hp_architecture :: string
  hp_evidence_sets :: "evidence_set_reference list option"

record remote_handoff =
  rh_route :: string
  rh_evidence_version :: int
  rh_reason :: string
  rh_platforms :: "handoff_platform list"

record scorecard =
  card_version :: int
  card_assessed :: go_time
  card_expires :: go_time
  card_engineering :: "category list"
  card_gameplay :: outcome
  card_remote :: "remote_handoff list"

datatype scorecard_error =
    Card_Version int | Card_Now | Card_Times | Card_Future | Card_Validity | Card_Expired | Category_Count
  | Category_Differs string | Subcriteria_Count string | Criterion_Differs string | Evidence_Nil string
  | Evidence_Unsupported string | Reference_Count string | Reference_Path string | Reference_Invalid string
  | Category_Sum string | Contract_Sum | Gameplay_Reason | Gameplay_Score | Route_Count | Route_Id string
  | Route_Version string | Route_Reason string | Platform_Count string | Platform_Differs string
  | Architecture_Differs string | Sets_Nil string | Sets_Present string

datatype scorecard_document_error =
    Card_Too_Large | Card_Structure walk_error | Card_Keys exact_error | Card_Decode | Card_Invalid scorecard_error

section \<open>Validation\<close>

text \<open>\<open>path.Clean\<close>: a rooted path loses the dot-dots that would leave the root.\<close>

definition clean_segment :: "bool \<Rightarrow> string list \<Rightarrow> string \<Rightarrow> string list" where
  "clean_segment rooted done part =
     (if part = [] \<or> part = ''.'' then done
      else if part \<noteq> ''..'' then done @ [part]
      else if done \<noteq> [] \<and> last done \<noteq> ''..'' then butlast done
      else if rooted then done
      else done @ [part])"

definition path_clean :: "string \<Rightarrow> string" where
  "path_clean p =
     (let rooted = prefix ''/'' p;
          rest = join_with ''/'' (foldl (clean_segment rooted) [] (split_on (CHR ''/'') p))
      in if rooted then ''/'' @ rest else if rest = [] then ''.'' else rest)"

definition evidence_segment :: "string \<Rightarrow> bool" where
  "evidence_segment s \<longleftrightarrow>
     s \<noteq> [] \<and> (is_upper (hd s) \<or> is_lower (hd s) \<or> is_digit (hd s) \<or> hd s = CHR ''.'') \<and>
     list_all (\<lambda>c. is_upper c \<or> is_lower c \<or> is_digit c \<or> c \<in> set ''._+-'') (tl s)"

definition valid_repository_path :: "string \<Rightarrow> bool" where
  "valid_repository_path p \<longleftrightarrow>
     p \<noteq> [] \<and> length p \<le> 512 \<and> CHR 0x5C \<notin> set p \<and> \<not> prefix ''/'' p \<and> path_clean p = p \<and> p \<noteq> ''.'' \<and>
     \<not> prefix ''../'' p \<and>
     list_all (\<lambda>s. s \<noteq> ''.'' \<and> s \<noteq> ''..'' \<and> evidence_segment s) (split_on (CHR ''/'') p)"

definition check_reference :: "string \<Rightarrow> evidence_reference \<times> string \<Rightarrow> scorecard_error + unit" where
  "check_reference i rp =
     (case rp of (r, path) \<Rightarrow>
        first_error
          [require (er_path r = path) (Reference_Path i),
           require (valid_repository_path (er_path r) \<and> is_sha256 (er_sha256 r)) (Reference_Invalid i)])"

definition check_evidence :: "subcriterion_contract \<Rightarrow> evidence_reference list \<Rightarrow> scorecard_error + unit" where
  "check_evidence required references =
     (let i = sc_id required
      in if sc_evidence_type required \<noteq> repository_content then require (references = []) (Evidence_Unsupported i)
         else if length references \<noteq> length (sc_paths required) then Inl (Reference_Count i)
         else first_error (map (check_reference i) (zip references (sc_paths required))))"

definition same_criterion :: "subcriterion \<Rightarrow> subcriterion_contract \<Rightarrow> bool" where
  "same_criterion k required \<longleftrightarrow>
     sb_id k = sc_id required \<and> sb_name k = sc_name required \<and> sb_weight k = sc_weight required \<and>
     sb_evidence_type k = sc_evidence_type required \<and> sb_verifier k = sc_verifier required"

definition check_criterion :: "subcriterion \<times> subcriterion_contract \<Rightarrow> scorecard_error + unit" where
  "check_criterion kr =
     (case kr of (k, required) \<Rightarrow>
        if \<not> same_criterion k required then Inl (Criterion_Differs (sc_id required))
        else (case sb_evidence k of None \<Rightarrow> Inl (Evidence_Nil (sb_id k)) | Some references \<Rightarrow> check_evidence required references))"

definition check_category :: "category \<times> category_contract \<Rightarrow> scorecard_error + unit" where
  "check_category cc =
     (case cc of (c, contract) \<Rightarrow>
        if ct_id c \<noteq> cc_id contract \<or> ct_name c \<noteq> cc_name contract \<or> ct_weight c \<noteq> cc_weight contract
        then Inl (Category_Differs (cc_id contract))
        else if length (ct_subcriteria c) \<noteq> length (cc_subcriteria contract) then Inl (Subcriteria_Count (ct_id c))
        else
          first_error
            (map check_criterion (zip (ct_subcriteria c) (cc_subcriteria contract)) @
             [require (sum_list (map sb_weight (ct_subcriteria c)) = ct_weight c) (Category_Sum (ct_id c))]))"

definition check_engineering :: "category list \<Rightarrow> scorecard_error + unit" where
  "check_engineering cs =
     (if length cs \<noteq> length engineering_contract then Inl Category_Count
      else
        first_error
          (map check_category (zip cs engineering_contract) @
           [require (sum_list (map ct_weight cs) = 100) Contract_Sum]))"

definition check_gameplay :: "outcome \<Rightarrow> scorecard_error + unit" where
  "check_gameplay o' =
     first_error
       [require (oc_reason o' = local_gameplay_reason) Gameplay_Reason,
        require (oc_score o' = 0 \<and> oc_state o' = ''blocked'') Gameplay_Score]"

definition check_platform :: "string \<Rightarrow> handoff_platform \<times> string \<times> string \<Rightarrow> scorecard_error + unit" where
  "check_platform route pc =
     (case pc of (p, platform, architecture) \<Rightarrow>
        first_error
          [require (hp_platform p = platform) (Platform_Differs route),
           require (hp_architecture p = architecture) (Architecture_Differs route),
           require (hp_evidence_sets p \<noteq> None) (Sets_Nil route),
           require (hp_evidence_sets p = Some []) (Sets_Present route)])"

definition check_route :: "remote_handoff \<times> string \<times> string \<Rightarrow> scorecard_error + unit" where
  "check_route rc =
     (case rc of (r, route, reason) \<Rightarrow>
        if rh_route r \<noteq> route then Inl (Route_Id route)
        else if rh_evidence_version r \<noteq> 2 then Inl (Route_Version route)
        else if rh_reason r \<noteq> reason then Inl (Route_Reason route)
        else if length (rh_platforms r) \<noteq> length remote_platform_contract then Inl (Platform_Count route)
        else first_error (map (check_platform route) (zip (rh_platforms r) remote_platform_contract)))"

definition check_remote :: "remote_handoff list \<Rightarrow> scorecard_error + unit" where
  "check_remote rs =
     (if length rs \<noteq> length remote_route_contract then Inl Route_Count
      else first_error (map check_route (zip rs remote_route_contract)))"

definition check_card_window :: "scorecard \<Rightarrow> go_time \<Rightarrow> scorecard_error + unit" where
  "check_card_window s now =
     first_error
       [require (\<not> is_zero (card_assessed s) \<and> \<not> is_zero (card_expires s)) Card_Times,
        require (\<not> Go_Time (time_seconds now + 300) (time_nanos now) < card_assessed s) Card_Future,
        require (card_assessed s < card_expires s \<and> time_sub (card_expires s) (card_assessed s) \<le> 30 * 24 * 3600 * 10 ^ 9)
          Card_Validity,
        require (\<not> card_expires s < now) Card_Expired]"

definition validate_scorecard :: "scorecard \<Rightarrow> go_time \<Rightarrow> scorecard_error + unit" where
  "validate_scorecard s now =
     first_error
       [require (card_version s = 3) (Card_Version (card_version s)),
        require (\<not> is_zero now) Card_Now,
        check_card_window s now,
        check_engineering (card_engineering s),
        check_gameplay (card_gameplay s),
        check_remote (card_remote s)]"

section \<open>Parsing\<close>

record scorecard_document = document +
  document_times_plain :: bool

definition reference_type :: go_type where
  "reference_type =
     Struct_Of [native_field ''Path'' ''path'' String_Type, native_field ''SHA256'' ''sha256'' String_Type]"

definition category_type :: go_type where
  "category_type =
     Struct_Of
       [native_field ''ID'' ''id'' String_Type, native_field ''Name'' ''name'' String_Type,
        native_field ''Weight'' ''weight'' Number_Type,
        native_field ''Subcriteria'' ''subcriteria'' (Slice_Of (Struct_Of
          [native_field ''ID'' ''id'' String_Type, native_field ''Name'' ''name'' String_Type,
           native_field ''Weight'' ''weight'' Number_Type, native_field ''EvidenceType'' ''evidence_type'' String_Type,
           native_field ''VerifierID'' ''verifier_id'' String_Type,
           native_field ''Evidence'' ''evidence'' (Slice_Of reference_type)]))]"

definition remote_handoff_type :: go_type where
  "remote_handoff_type =
     Struct_Of
       [native_field ''RouteID'' ''route_id'' String_Type,
        native_field ''RequiredEvidenceSchemaVersion'' ''required_evidence_schema_version'' Number_Type,
        native_field ''Reason'' ''reason'' String_Type,
        native_field ''Platforms'' ''platforms'' (Slice_Of (Struct_Of
          [native_field ''Platform'' ''platform'' String_Type, native_field ''Architecture'' ''architecture'' String_Type,
           native_field ''EvidenceSets'' ''evidence_sets'' (Slice_Of (Struct_Of
             [native_field ''EvidenceType'' ''evidence_type'' String_Type,
              native_field ''SchemaVersion'' ''schema_version'' Number_Type, native_field ''Path'' ''path'' String_Type,
              native_field ''SHA256'' ''sha256'' String_Type]))]))]"

definition scorecard_type :: go_type where
  "scorecard_type =
     Struct_Of
       [native_field ''SchemaVersion'' ''schema_version'' Number_Type,
        native_field ''AssessedAt'' ''assessed_at'' Opaque_Type, native_field ''ExpiresAt'' ''expires_at'' Opaque_Type,
        native_field ''Engineering'' ''engineering'' (Slice_Of category_type),
        native_field ''LocalGameplay'' ''local_gameplay'' (Struct_Of
          [native_field ''Score'' ''score'' Number_Type, native_field ''State'' ''state'' String_Type,
           native_field ''Reason'' ''reason'' String_Type]),
        native_field ''RemoteHandoffs'' ''remote_handoffs'' (Slice_Of remote_handoff_type)]"

definition decode_reference :: "json \<Rightarrow> evidence_reference option" where
  "decode_reference v = do {
     p \<leftarrow> text_at v ''path''; sha \<leftarrow> text_at v ''sha256''; Some \<lparr>er_path = p, er_sha256 = sha\<rparr> }"

definition decode_subcriterion :: "json \<Rightarrow> subcriterion option" where
  "decode_subcriterion v = do {
     i \<leftarrow> text_at v ''id''; name \<leftarrow> text_at v ''name''; weight \<leftarrow> int_at v ''weight'';
     kind \<leftarrow> text_at v ''evidence_type''; verifier \<leftarrow> text_at v ''verifier_id'';
     evidence \<leftarrow> list_at decode_reference v ''evidence'';
     Some \<lparr>sb_id = i, sb_name = name, sb_weight = weight, sb_evidence_type = kind, sb_verifier = verifier,
           sb_evidence = Some evidence\<rparr> }"

definition decode_category :: "json \<Rightarrow> category option" where
  "decode_category v = do {
     i \<leftarrow> text_at v ''id''; name \<leftarrow> text_at v ''name''; weight \<leftarrow> int_at v ''weight'';
     subcriteria \<leftarrow> list_at decode_subcriterion v ''subcriteria'';
     Some \<lparr>ct_id = i, ct_name = name, ct_weight = weight, ct_subcriteria = subcriteria\<rparr> }"

definition decode_outcome :: "json \<Rightarrow> outcome option" where
  "decode_outcome v = do {
     score \<leftarrow> int_at v ''score''; state \<leftarrow> text_at v ''state''; reason \<leftarrow> text_at v ''reason'';
     Some \<lparr>oc_score = score, oc_state = state, oc_reason = reason\<rparr> }"

definition decode_evidence_set :: "json \<Rightarrow> evidence_set_reference option" where
  "decode_evidence_set v = do {
     kind \<leftarrow> text_at v ''evidence_type''; version \<leftarrow> int_at v ''schema_version''; p \<leftarrow> text_at v ''path'';
     sha \<leftarrow> text_at v ''sha256'';
     Some \<lparr>es_evidence_type = kind, es_schema_version = version, es_path = p, es_sha256 = sha\<rparr> }"

definition decode_platform :: "json \<Rightarrow> handoff_platform option" where
  "decode_platform v = do {
     p \<leftarrow> text_at v ''platform''; a \<leftarrow> text_at v ''architecture''; sets \<leftarrow> list_at decode_evidence_set v ''evidence_sets'';
     Some \<lparr>hp_platform = p, hp_architecture = a, hp_evidence_sets = Some sets\<rparr> }"

definition decode_remote_handoff :: "json \<Rightarrow> remote_handoff option" where
  "decode_remote_handoff v = do {
     route \<leftarrow> text_at v ''route_id''; version \<leftarrow> int_at v ''required_evidence_schema_version'';
     reason \<leftarrow> text_at v ''reason''; platforms \<leftarrow> list_at decode_platform v ''platforms'';
     Some \<lparr>rh_route = route, rh_evidence_version = version, rh_reason = reason, rh_platforms = platforms\<rparr> }"

definition time_at :: "bool \<Rightarrow> json \<Rightarrow> string \<Rightarrow> go_time option" where
  "time_at plain v k =
     (case member v k of Some (JStr s) \<Rightarrow> if plain then map_option fst (parse_rfc3339 s) else None | _ \<Rightarrow> None)"

definition decode_scorecard :: "bool \<Rightarrow> json \<Rightarrow> scorecard option" where
  "decode_scorecard plain v = do {
     version \<leftarrow> int_at v ''schema_version''; assessed \<leftarrow> time_at plain v ''assessed_at'';
     expires \<leftarrow> time_at plain v ''expires_at''; engineering \<leftarrow> list_at decode_category v ''engineering'';
     gameplay \<leftarrow> Option.bind (member v ''local_gameplay'') decode_outcome;
     remote \<leftarrow> list_at decode_remote_handoff v ''remote_handoffs'';
     Some \<lparr>card_version = version, card_assessed = assessed, card_expires = expires, card_engineering = engineering,
           card_gameplay = gameplay, card_remote = remote\<rparr> }"

definition parse_scorecard_at :: "scorecard_document \<Rightarrow> go_time \<Rightarrow> scorecard_document_error + scorecard" where
  "parse_scorecard_at d now =
     (if 1048576 < doc_size d then Inl Card_Too_Large
      else
        bind_result (map_error Card_Structure (walk 64 True (Value 0) (doc_tokens d))) (\<lambda>_.
        bind_result (map_error Card_Keys (validate_keys (doc_tokens d) (Some scorecard_type))) (\<lambda>_.
        (case Option.bind (read_value (doc_tokens d)) (\<lambda>(v, _). decode_scorecard (document_times_plain d) v) of
           None \<Rightarrow> Inl Card_Decode
         | Some s \<Rightarrow> bind_result (map_error Card_Invalid (validate_scorecard s now)) (\<lambda>_. Inr s)))))"

section \<open>The scores\<close>

definition references_of :: "subcriterion \<Rightarrow> evidence_reference list" where
  "references_of k = (case sb_evidence k of None \<Rightarrow> [] | Some rs \<Rightarrow> rs)"

definition repository_criterion_satisfied :: "subcriterion \<Rightarrow> subcriterion_contract \<Rightarrow> bool" where
  "repository_criterion_satisfied k required \<longleftrightarrow>
     sc_evidence_type required = repository_content \<and> same_criterion k required \<and>
     length (references_of k) = length (sc_paths required) \<and>
     list_all (\<lambda>(r, path). er_path r = path \<and> valid_repository_path (er_path r) \<and> is_sha256 (er_sha256 r))
       (zip (references_of k) (sc_paths required))"

definition contract_score :: "category \<Rightarrow> category_contract \<Rightarrow> int" where
  "contract_score c contract =
     (if ct_name c \<noteq> cc_name contract \<or> ct_weight c \<noteq> cc_weight contract \<or>
         length (ct_subcriteria c) \<noteq> length (cc_subcriteria contract) then 0
      else
        sum_list (map (\<lambda>(k, required). if repository_criterion_satisfied k required then sc_weight required else 0)
          (zip (ct_subcriteria c) (cc_subcriteria contract))))"

definition engineering_category_score :: "scorecard \<Rightarrow> string \<Rightarrow> int" where
  "engineering_category_score s i =
     (case find (\<lambda>(c, _). ct_id c = i) (zip (card_engineering s) engineering_contract) of
        None \<Rightarrow> 0
      | Some (c, contract) \<Rightarrow> contract_score c contract)"

definition engineering_score :: "scorecard \<Rightarrow> int" where
  "engineering_score s = sum_list (map (\<lambda>contract. engineering_category_score s (cc_id contract)) engineering_contract)"

text \<open>The code's \<open>EngineeringEvaluation\<close> also holds \<open>VerificationReason\<close>, one of two fixed texts that
  \<open>ee_verified\<close> tells apart; it is left out.\<close>

record engineering_evaluation =
  ee_score :: int
  ee_verified :: bool
  ee_categories :: "(string \<times> int) list"

definition expected_verification :: "string \<Rightarrow> string" where
  "expected_verification embedded_sha = ''leaguebridge-repository-evidence-v1:'' @ embedded_sha"

definition evaluate_engineering :: "string \<Rightarrow> scorecard \<Rightarrow> string \<Rightarrow> engineering_evaluation" where
  "evaluate_engineering embedded_sha s stamp =
     (if stamp \<noteq> expected_verification embedded_sha then \<lparr>ee_score = 0, ee_verified = False, ee_categories = []\<rparr>
      else
        (let scores = map (\<lambda>contract. (cc_id contract, engineering_category_score s (cc_id contract))) engineering_contract
         in \<lparr>ee_score = sum_list (map snd scores), ee_verified = True, ee_categories = scores\<rparr>))"

definition category_score_of :: "engineering_evaluation \<Rightarrow> string \<Rightarrow> int" where
  "category_score_of e i = (case map_of (ee_categories e) i of None \<Rightarrow> 0 | Some n \<Rightarrow> n)"

record remote_gate =
  rg_id :: string
  rg_weight :: int
  rg_passed :: bool

record platform_evaluation =
  pe_platform :: string
  pe_architecture :: string
  pe_score :: int
  pe_state :: string
  pe_gates :: "remote_gate list"

record remote_evaluation =
  re_route :: string
  re_score :: int
  re_state :: string
  re_reason :: string
  re_platforms :: "platform_evaluation list"

definition evaluate_remote_handoffs :: "remote_evaluation list" where
  "evaluate_remote_handoffs =
     map (\<lambda>(route, reason).
       \<lparr>re_route = route, re_score = 0, re_state = ''unvalidated'', re_reason = reason,
        re_platforms = map (\<lambda>(platform, architecture).
          \<lparr>pe_platform = platform, pe_architecture = architecture, pe_score = 0, pe_state = ''unvalidated'',
           pe_gates = map (\<lambda>g. \<lparr>rg_id = g, rg_weight = 25, rg_passed = False\<rparr>) remote_gate_contract\<rparr>)
          remote_platform_contract\<rparr>) remote_route_contract"

section \<open>The repository\<close>

text \<open>The answer of \<open>Lstat\<close>.\<close>

record tree_info =
  ti_file :: nat
  ti_link :: bool
  ti_directory :: bool
  ti_regular :: bool
  ti_size :: int

text \<open>What the calls for one reference of a criterion return: \<open>Lstat\<close> of each prefix of its path, opening the file,
  \<open>Stat\<close> of it, \<open>Lstat\<close> again, the bytes that are read (at most one more than the limit), and \<open>Lstat\<close> at
  the end.\<close>

record evidence_run =
  er_prefixes :: "string \<Rightarrow> tree_info option"
  er_opens :: bool
  er_opened :: "tree_info option"
  er_again :: "tree_info option"
  er_bytes :: "string option"
  er_last :: "tree_info option"

record root_run =
  rt_path :: bool
  rt_parents_plain :: bool
  rt_lstat :: "tree_info option"
  rt_opens :: bool
  rt_opened :: "tree_info option"

datatype repository_error =
    Repository_Card scorecard_error | Repository_Root | Repository_Unsatisfied string | Repository_Evidence string
  | Repository_Contract

definition same_tree_file :: "tree_info \<Rightarrow> tree_info \<Rightarrow> bool" where
  "same_tree_file a b \<longleftrightarrow> ti_file a = ti_file b"

definition max_evidence_size :: int where
  "max_evidence_size = 4194304"

definition open_evidence_root :: "root_run \<Rightarrow> bool" where
  "open_evidence_root r \<longleftrightarrow>
     rt_path r \<and> rt_parents_plain r \<and>
     (case rt_lstat r of
        None \<Rightarrow> False
      | Some info \<Rightarrow>
          \<not> ti_link info \<and> ti_directory info \<and> rt_opens r \<and>
          (case rt_opened r of None \<Rightarrow> False | Some opened \<Rightarrow> same_tree_file info opened))"

definition check_prefixes :: "evidence_run \<Rightarrow> string list \<Rightarrow> bool" where
  "check_prefixes w segments \<longleftrightarrow>
     list_all (\<lambda>i. case er_prefixes w (join_with ''/'' (take (Suc i) segments)) of
         None \<Rightarrow> False
       | Some info \<Rightarrow>
           \<not> ti_link info \<and>
           (if Suc i < length segments then ti_directory info
            else ti_regular info \<and> ti_size info \<le> max_evidence_size))
       [0 ..< length segments]"

definition verify_evidence :: "(string \<Rightarrow> string) \<Rightarrow> evidence_run \<Rightarrow> evidence_reference \<Rightarrow> bool" where
  "verify_evidence sha w r \<longleftrightarrow>
     valid_repository_path (er_path r) \<and> is_sha256 (er_sha256 r) \<and>
     check_prefixes w (split_on (CHR ''/'') (er_path r)) \<and> er_opens w \<and>
     (case (er_opened w, er_again w, er_bytes w, er_last w) of
        (Some opened, Some again, Some bytes, Some final) \<Rightarrow>
          \<not> ti_link again \<and> same_tree_file opened again \<and> int (length bytes) \<le> max_evidence_size \<and>
          \<not> ti_link final \<and> ti_regular final \<and> same_tree_file opened final \<and> ti_size final = int (length bytes) \<and>
          sha bytes = er_sha256 r
      | _ \<Rightarrow> False)"

definition verify_criterion ::
    "(string \<Rightarrow> string) \<Rightarrow> (string \<Rightarrow> string \<Rightarrow> evidence_run) \<Rightarrow> subcriterion \<times> subcriterion_contract \<Rightarrow> repository_error + unit" where
  "verify_criterion sha w kr =
     (case kr of (k, required) \<Rightarrow>
        if sc_evidence_type required \<noteq> repository_content then Inr ()
        else if \<not> repository_criterion_satisfied k required then Inl (Repository_Unsatisfied (sc_id required))
        else first_error (map (\<lambda>r. require (verify_evidence sha (w (sc_id required) (er_path r)) r) (Repository_Evidence (er_path r)))
               (references_of k)))"

text \<open>The scorecard has been validated when the loops run, so that they never leave the contract.\<close>

definition verify_from_root ::
    "(string \<Rightarrow> string) \<Rightarrow> (string \<Rightarrow> string \<Rightarrow> evidence_run) \<Rightarrow> scorecard \<Rightarrow> repository_error + unit" where
  "verify_from_root sha w s =
     (if length engineering_contract < length (card_engineering s) \<or>
         list_ex (\<lambda>(c, contract). length (cc_subcriteria contract) < length (ct_subcriteria c))
           (zip (card_engineering s) engineering_contract)
      then Inl Repository_Contract
      else
        first_error (concat (map (\<lambda>(c, contract). map (verify_criterion sha w) (zip (ct_subcriteria c) (cc_subcriteria contract)))
          (zip (card_engineering s) engineering_contract))))"

definition verify_repository_evidence ::
    "(string \<Rightarrow> string) \<Rightarrow> root_run \<Rightarrow> (string \<Rightarrow> string \<Rightarrow> evidence_run) \<Rightarrow> scorecard \<Rightarrow> go_time \<Rightarrow> repository_error + unit" where
  "verify_repository_evidence sha entry w s now =
     bind_result (map_error Repository_Card (validate_scorecard s now)) (\<lambda>_.
     bind_result (require (open_evidence_root entry) Repository_Root) (\<lambda>_. verify_from_root sha w s))"


section \<open>What the scorecard can say\<close>

lemma contract_facts:
  "distinct (map cc_id engineering_contract)" "sum_list (map cc_weight engineering_contract) = 100"
  "list_all (\<lambda>c. sum_list (map sc_weight (cc_subcriteria c)) = cc_weight c) engineering_contract"
  "map (\<lambda>c. (cc_id c, sum_list (map (\<lambda>k. if sc_evidence_type k = repository_content then sc_weight k else 0)
     (cc_subcriteria c)))) engineering_contract =
   [(''honest-scope'', 10), (''governance-legal-privacy'', 10), (''architecture-contracts'', 13), (''implementation'', 17),
    (''tests-ci'', 9), (''security-supply-chain'', 13), (''packaging-operations'', 2)]"
  by code_simp+

lemma check_criterion_ok:
  assumes "check_criterion (k, required) = Inr ()"
  shows "same_criterion k required"
    and "repository_criterion_satisfied k required \<longleftrightarrow> sc_evidence_type required = repository_content"
    and "map er_path (references_of k) = (if sc_evidence_type required = repository_content then sc_paths required else [])"
proof -
  from assms obtain rs where same: "same_criterion k required" and rs: "sb_evidence k = Some rs"
    and evidence: "check_evidence required rs = Inr ()"
    by (auto simp: check_criterion_def split: if_splits option.splits)
  then have of: "references_of k = rs" by (simp add: references_of_def)
  show "same_criterion k required" by (rule same)
  have satisfied: "length rs = length (sc_paths required) \<and>
      list_all (\<lambda>(r, path). er_path r = path \<and> valid_repository_path (er_path r) \<and> is_sha256 (er_sha256 r))
        (zip rs (sc_paths required))" if "sc_evidence_type required = repository_content"
    using evidence that
    by (auto simp: check_evidence_def Let_def first_error_map_ok check_reference_def list_all_iff
        simp del: first_error.simps(2) split: if_splits) 
  with same of show "repository_criterion_satisfied k required \<longleftrightarrow> sc_evidence_type required = repository_content"
    by (auto simp: repository_criterion_satisfied_def)
  show "map er_path (references_of k) = (if sc_evidence_type required = repository_content then sc_paths required else [])"
  proof (cases "sc_evidence_type required = repository_content")
    case True
    with satisfied have "map er_path rs = sc_paths required"
      by (intro nth_equalityI) (auto simp: list_all_length)
    with True of show ?thesis by simp
  next
    case False
    with evidence of show ?thesis by (auto simp: check_evidence_def Let_def)
  qed
qed

definition repository_weight :: "category_contract \<Rightarrow> int" where
  "repository_weight contract =
     sum_list (map (\<lambda>k. if sc_evidence_type k = repository_content then sc_weight k else 0) (cc_subcriteria contract))"

lemma check_category_ok:
  assumes "check_category (c, contract) = Inr ()"
  shows "ct_id c = cc_id contract" "contract_score c contract = repository_weight contract"
    "list_all2 (\<lambda>k required. check_criterion (k, required) = Inr ()) (ct_subcriteria c) (cc_subcriteria contract)"
proof -
  from assms have header: "ct_id c = cc_id contract" "ct_name c = cc_name contract" "ct_weight c = cc_weight contract"
    and len: "length (ct_subcriteria c) = length (cc_subcriteria contract)"
    and criteria: "\<forall>kr \<in> set (zip (ct_subcriteria c) (cc_subcriteria contract)). check_criterion kr = Inr ()"
    by (auto simp: check_category_def first_error_append first_error_map_ok simp del: first_error.simps(2) split: if_splits)
  show "ct_id c = cc_id contract" by (rule header)
  show all: "list_all2 (\<lambda>k required. check_criterion (k, required) = Inr ()) (ct_subcriteria c) (cc_subcriteria contract)"
    using len criteria by (auto simp: list_all2_iff)
  have "map (\<lambda>(k, required). if repository_criterion_satisfied k required then sc_weight required else 0) (zip ks rs) =
      map (\<lambda>k. if sc_evidence_type k = repository_content then sc_weight k else 0) rs"
    if "list_all2 (\<lambda>k required. check_criterion (k, required) = Inr ()) ks rs" for ks rs
    using that by (induction rule: list_all2_induct) (auto simp: check_criterion_ok)
  from this [OF all] header len show "contract_score c contract = repository_weight contract"
    by (simp add: contract_score_def repository_weight_def)
qed

lemma validated_parts:
  assumes "validate_scorecard s now = Inr ()"
  shows "list_all2 (\<lambda>c contract. check_category (c, contract) = Inr ()) (card_engineering s) engineering_contract"
    "check_gameplay (card_gameplay s) = Inr ()" "check_remote (card_remote s) = Inr ()"
    "check_card_window s now = Inr ()"
proof -
  note checks = assms [unfolded validate_scorecard_def first_error_Cons_ok]
  then show "check_gameplay (card_gameplay s) = Inr ()" "check_remote (card_remote s) = Inr ()"
    "check_card_window s now = Inr ()" by blast+
  from checks have "check_engineering (card_engineering s) = Inr ()" by blast
  then show "list_all2 (\<lambda>c contract. check_category (c, contract) = Inr ()) (card_engineering s) engineering_contract"
    by (auto simp: check_engineering_def first_error_append first_error_map_ok list_all2_iff
        simp del: first_error.simps(2) split: if_splits)
qed

text \<open>Categories are found by identifiers, which are distinct.\<close>

lemma category_score_found:
  assumes "list_all2 (\<lambda>c contract. check_category (c, contract) = Inr ()) cs contracts" "distinct (map cc_id contracts)"
    and "contract \<in> set contracts"
  shows "\<exists>c. find (\<lambda>(c, _). ct_id c = cc_id contract) (zip cs contracts) = Some (c, contract) \<and>
    contract_score c contract = repository_weight contract"
  using assms
proof (induction rule: list_all2_induct)
  case (Cons c cs k contracts)
  note k = check_category_ok [OF Cons.hyps(1)]
  show ?case
  proof (cases "contract = k")
    case False
    with Cons.prems have "contract \<in> set contracts" "cc_id k \<noteq> cc_id contract" by auto
    with Cons k show ?thesis by simp
  qed (use k in simp)
qed simp

lemma validated_scores:
  assumes "validate_scorecard s now = Inr ()" "contract \<in> set engineering_contract"
  shows "engineering_category_score s (cc_id contract) = repository_weight contract"
proof -
  from category_score_found [OF validated_parts(1) [OF assms(1)] contract_facts(1) assms(2)] obtain c where
    "find (\<lambda>(c, _). ct_id c = cc_id contract) (zip (card_engineering s) engineering_contract) = Some (c, contract)"
    "contract_score c contract = repository_weight contract" by blast
  then show ?thesis by (simp add: engineering_category_score_def)
qed

lemma remote_sets_empty:
  assumes "check_remote rs = Inr ()" "r \<in> set rs" "p \<in> set (rh_platforms r)"
  shows "hp_evidence_sets p = Some []"
proof -
  from assms(1) have len: "length rs = length remote_route_contract"
    and routes: "\<forall>rc \<in> set (zip rs remote_route_contract). check_route rc = Inr ()"
    by (auto simp: check_remote_def first_error_map_ok simp del: first_error.simps(2) split: if_splits)
  from assms(2) len obtain c where "(r, c) \<in> set (zip rs remote_route_contract)"
    by (metis in_set_conv_nth in_set_zip fst_conv snd_conv)
  with routes obtain route reason where "check_route (r, route, reason) = Inr ()" by (cases c) auto
  then have plen: "length (rh_platforms r) = length remote_platform_contract"
    and platforms: "\<forall>pc \<in> set (zip (rh_platforms r) remote_platform_contract). check_platform route pc = Inr ()"
    by (auto simp: check_route_def first_error_map_ok simp del: first_error.simps(2) split: if_splits)
  from assms(3) plen obtain d where "(p, d) \<in> set (zip (rh_platforms r) remote_platform_contract)"
    by (metis in_set_conv_nth in_set_zip fst_conv snd_conv)
  with platforms have "check_platform route (p, d) = Inr ()" by blast
  then show ?thesis
    by (cases d) (auto simp: check_platform_def first_error_Cons_ok simp del: first_error.simps(2))
qed

text \<open>C13. A scorecard cannot supply its score. Whatever a validated scorecard says, its engineering score is
  the 74 points of the repository criteria that the production assessment starts from, category by
  category, and is given out only to a build with the stamp of the embedded scorecard; otherwise it is zero.
  Its gameplay score is zero, and no platform of a remote route has a set of evidence.\<close>

theorem valid_scorecard_scores:
  assumes "validate_scorecard s now = Inr ()"
  shows "engineering_score s = repository_score \<and>
    evaluate_engineering sha s stamp =
      (if stamp = expected_verification sha
       then \<lparr>ee_score = repository_score, ee_verified = True, ee_categories =
         [(''honest-scope'', 10), (''governance-legal-privacy'', 10), (''architecture-contracts'', 13),
          (''implementation'', 17), (''tests-ci'', 9), (''security-supply-chain'', 13), (''packaging-operations'', 2)]\<rparr>
       else \<lparr>ee_score = 0, ee_verified = False, ee_categories = []\<rparr>) \<and>
    oc_score (card_gameplay s) = 0 \<and>
    (\<forall>r \<in> set (card_remote s). \<forall>p \<in> set (rh_platforms r). hp_evidence_sets p = Some []) \<and>
    card_assessed s \<le> Go_Time (time_seconds now + 300) (time_nanos now) \<and> now \<le> card_expires s"
proof -
  have scores: "map (\<lambda>contract. (cc_id contract, engineering_category_score s (cc_id contract))) engineering_contract =
      [(''honest-scope'', 10), (''governance-legal-privacy'', 10), (''architecture-contracts'', 13),
       (''implementation'', 17), (''tests-ci'', 9), (''security-supply-chain'', 13), (''packaging-operations'', 2)]"
    unfolding contract_facts(4) [symmetric]
    using validated_scores [OF assms] by (auto simp: repository_weight_def)
  from arg_cong [OF this, of "map snd"]
  have "map (\<lambda>contract. engineering_category_score s (cc_id contract)) engineering_contract = [10, 10, 13, 17, 9, 13, 2]"
    by (simp add: comp_def)
  moreover have "oc_score (card_gameplay s) = 0"
    using validated_parts(2) [OF assms] by (auto simp: check_gameplay_def first_error_Cons_ok simp del: first_error.simps(2))
  moreover have "card_assessed s \<le> Go_Time (time_seconds now + 300) (time_nanos now) \<and> now \<le> card_expires s"
    using validated_parts(4) [OF assms] unfolding check_card_window_def first_error_Cons_ok require_ok by (simp add: not_less)
  ultimately show ?thesis
    using scores remote_sets_empty [OF validated_parts(3) [OF assms]]
    by (simp add: engineering_score_def evaluate_engineering_def Let_def repository_score_def)
qed

section \<open>What verified repository evidence is\<close>

text \<open>The file at a path was opened behind plain directories, read whole, and is still the regular file
  there, with the given digest.\<close>

definition holds_file :: "(string \<Rightarrow> string) \<Rightarrow> evidence_run \<Rightarrow> string \<Rightarrow> string \<Rightarrow> bool" where
  "holds_file sha w p digest \<longleftrightarrow>
     (\<exists>opened final bytes. er_opened w = Some opened \<and> er_bytes w = Some bytes \<and> er_last w = Some final \<and>
        same_tree_file opened final \<and> ti_regular final \<and> \<not> ti_link final \<and> ti_size final = int (length bytes) \<and>
        int (length bytes) \<le> max_evidence_size \<and> sha bytes = digest) \<and>
     (\<forall>i < length (split_on (CHR ''/'') p). \<exists>info. er_prefixes w (join_with ''/'' (take (Suc i) (split_on (CHR ''/'') p))) = Some info \<and>
        \<not> ti_link info \<and> (Suc i < length (split_on (CHR ''/'') p) \<longrightarrow> ti_directory info))"

lemma verify_evidence_holds:
  assumes "verify_evidence sha w r"
  shows "holds_file sha w (er_path r) (er_sha256 r)" "is_sha256 (er_sha256 r)"
    "\<forall>s \<in> set (split_on (CHR ''/'') (er_path r)). s \<noteq> [] \<and> s \<noteq> ''.'' \<and> s \<noteq> ''..''"
proof -
  show "is_sha256 (er_sha256 r)" using assms by (simp add: verify_evidence_def)
  show "\<forall>s \<in> set (split_on (CHR ''/'') (er_path r)). s \<noteq> [] \<and> s \<noteq> ''.'' \<and> s \<noteq> ''..''"
    using assms by (auto simp: verify_evidence_def valid_repository_path_def evidence_segment_def list_all_iff)
  from assms have prefixes: "check_prefixes w (split_on (CHR ''/'') (er_path r))" by (simp add: verify_evidence_def)
  have "\<exists>info. er_prefixes w (join_with ''/'' (take (Suc i) parts)) = Some info \<and>
      \<not> ti_link info \<and> (Suc i < length parts \<longrightarrow> ti_directory info)"
    if "check_prefixes w parts" "i < length parts" for i parts
    using that by (auto simp: check_prefixes_def list_all_iff dest!: bspec [of _ _ i] split: option.splits if_splits)
  from this [OF prefixes] show "holds_file sha w (er_path r) (er_sha256 r)"
    using assms unfolding holds_file_def by (auto simp: verify_evidence_def split: option.splits)
qed

lemma verify_from_root_ok:
  assumes "verify_from_root sha w s = Inr ()" "(c, contract) \<in> set (zip (card_engineering s) engineering_contract)"
    and "(k, required) \<in> set (zip (ct_subcriteria c) (cc_subcriteria contract))"
  shows "verify_criterion sha w (k, required) = Inr ()"
proof -
  have "\<forall>x \<in> set (concat (map (\<lambda>(c, contract). map (verify_criterion sha w) (zip (ct_subcriteria c) (cc_subcriteria contract)))
          (zip (card_engineering s) engineering_contract))). x = Inr ()"
    using assms(1) unfolding verify_from_root_def by (metis first_error_ok Inl_Inr_False)
  moreover have "verify_criterion sha w (k, required) \<in> set (concat (map (\<lambda>(c, contract).
      map (verify_criterion sha w) (zip (ct_subcriteria c) (cc_subcriteria contract)))
          (zip (card_engineering s) engineering_contract)))"
    using assms(2,3) by force
  ultimately show ?thesis by blast
qed

text \<open>C14. Verified points are backed by files. When the repository evidence of a scorecard verifies, every
  path of the contract, for every criterion that earns points, has a reference in the scorecard whose digest
  is that of the file which was read there: a bounded regular file, the same one before and after reading,
  reached through plain directories below the root, by a path that never leaves it.\<close>

theorem repository_evidence_backed:
  assumes "verify_repository_evidence sha entry w s now = Inr ()"
    and "contract \<in> set engineering_contract" "required \<in> set (cc_subcriteria contract)"
    and "sc_evidence_type required = repository_content" "p \<in> set (sc_paths required)"
  shows "open_evidence_root entry \<and>
    (\<forall>part \<in> set (split_on (CHR ''/'') p). part \<noteq> [] \<and> part \<noteq> ''.'' \<and> part \<noteq> ''..'') \<and>
    (\<exists>c \<in> set (card_engineering s). \<exists>k \<in> set (ct_subcriteria c). \<exists>r \<in> set (references_of k).
       sb_id k = sc_id required \<and> er_path r = p \<and> is_sha256 (er_sha256 r) \<and>
       holds_file sha (w (sc_id required) p) p (er_sha256 r))"
proof -
  from assms(1) have valid: "validate_scorecard s now = Inr ()" and entry: "open_evidence_root entry"
    and files: "verify_from_root sha w s = Inr ()"
    by (auto simp: verify_repository_evidence_def bind_result_ok map_error_ok split: if_splits)
  note categories = validated_parts(1) [OF valid]
  from assms(2) categories obtain c where c: "(c, contract) \<in> set (zip (card_engineering s) engineering_contract)"
    by (metis in_set_conv_nth in_set_zip fst_conv snd_conv list_all2_lengthD)
  with categories have "check_category (c, contract) = Inr ()" by (auto simp: list_all2_iff)
  note criteria = check_category_ok(3) [OF this]
  from assms(3) criteria obtain k where k: "(k, required) \<in> set (zip (ct_subcriteria c) (cc_subcriteria contract))"
    by (metis in_set_conv_nth in_set_zip fst_conv snd_conv list_all2_lengthD)
  with criteria have checked: "check_criterion (k, required) = Inr ()" by (auto simp: list_all2_iff)
  from check_criterion_ok(3) [OF checked] assms(4,5) obtain r where r: "r \<in> set (references_of k)" "er_path r = p"
    by (metis (no_types, lifting) imageE list.set_map)
  from verify_from_root_ok [OF files c k] assms(4) r have "verify_evidence sha (w (sc_id required) p) r"
    by (auto simp: verify_criterion_def first_error_map_ok simp del: first_error.simps(2) split: if_splits)
  note holds = verify_evidence_holds [OF this, unfolded r(2)]
  have "c \<in> set (card_engineering s)" "k \<in> set (ct_subcriteria c)" using c k by (auto dest: set_zip_leftD)
  moreover have "sb_id k = sc_id required" using check_criterion_ok(1) [OF checked] by (simp add: same_criterion_def)
  ultimately show ?thesis using entry holds r by blast
qed

end
