(* ===== verification/Readiness_Examples.thy ===== *)
theory Readiness_Examples
  imports Readiness
begin

text \<open>
  The scorecard that the contract prescribes, and a repository in which every file has the digest that the
  scorecard gives: the hypotheses of the theorems on readiness can be met.
\<close>

definition sample_hash :: string where
  "sample_hash = replicate 64 (CHR ''a'')"

definition sample_subcriterion :: "subcriterion_contract \<Rightarrow> subcriterion" where
  "sample_subcriterion k =
     \<lparr>sb_id = sc_id k, sb_name = sc_name k, sb_weight = sc_weight k, sb_evidence_type = sc_evidence_type k,
      sb_verifier = sc_verifier k, sb_evidence = Some (map (\<lambda>p. \<lparr>er_path = p, er_sha256 = sample_hash\<rparr>) (sc_paths k))\<rparr>"

definition sample_category :: "category_contract \<Rightarrow> category" where
  "sample_category c =
     \<lparr>ct_id = cc_id c, ct_name = cc_name c, ct_weight = cc_weight c,
      ct_subcriteria = map sample_subcriterion (cc_subcriteria c)\<rparr>"

definition sample_card :: scorecard where
  "sample_card =
     \<lparr>card_version = 3, card_assessed = Go_Time 63957456000 0, card_expires = Go_Time 63958809600 0,
      card_engineering = map sample_category engineering_contract,
      card_gameplay = \<lparr>oc_score = 0, oc_state = ''blocked'', oc_reason = local_gameplay_reason\<rparr>,
      card_remote = map (\<lambda>(route, reason). \<lparr>rh_route = route, rh_evidence_version = 2, rh_reason = reason,
        rh_platforms = map (\<lambda>(p, a). \<lparr>hp_platform = p, hp_architecture = a, hp_evidence_sets = Some []\<rparr>)
          remote_platform_contract\<rparr>) remote_route_contract\<rparr>"

definition sample_card_time :: go_time where
  "sample_card_time = Go_Time 63957513600 0"

text \<open>Every file consists of its path.\<close>

definition sample_tree :: "bool \<Rightarrow> string \<Rightarrow> tree_info" where
  "sample_tree directory p =
     \<lparr>ti_file = length p, ti_link = False, ti_directory = directory, ti_regular = \<not> directory, ti_size = int (length p)\<rparr>"

definition sample_run :: "string \<Rightarrow> evidence_run" where
  "sample_run p =
     \<lparr>er_prefixes = (\<lambda>q. Some (sample_tree (q \<noteq> p) q)), er_opens = True, er_opened = Some (sample_tree False p),
      er_again = Some (sample_tree False p), er_bytes = Some p, er_last = Some (sample_tree False p)\<rparr>"

definition sample_entry :: root_run where
  "sample_entry =
     \<lparr>rt_path = True, rt_parents_plain = True, rt_lstat = Some (sample_tree True ''/''), rt_opens = True,
      rt_opened = Some (sample_tree True ''/'')\<rparr>"

lemma contract_paths:
  "list_all (\<lambda>c. list_all (\<lambda>k. list_all (\<lambda>p. valid_repository_path p \<and> check_prefixes (sample_run p) (split_on (CHR ''/'') p))
     (sc_paths k)) (cc_subcriteria c)) engineering_contract"
  by code_simp

lemma contract_authenticated:
  "list_all (\<lambda>c. list_all (\<lambda>k. sc_evidence_type k \<noteq> repository_content \<longrightarrow> sc_paths k = []) (cc_subcriteria c))
     engineering_contract"
  by code_simp

lemma sample_hash_valid: "is_sha256 sample_hash"
  by code_simp

lemma sample_criterion_checked:
  assumes "c \<in> set engineering_contract" "k \<in> set (cc_subcriteria c)"
  shows "check_criterion (sample_subcriterion k, k) = Inr ()"
proof -
  have paths: "\<forall>p \<in> set (sc_paths k). valid_repository_path p" using contract_paths assms by (auto simp: list_all_iff)
  have "first_error (map (check_reference (sc_id k)) (zip (map (\<lambda>p. \<lparr>er_path = p, er_sha256 = sample_hash\<rparr>) ps) ps)) = Inr ()"
    if "\<forall>p \<in> set ps. valid_repository_path p" for ps
    using that by (induction ps) (simp_all add: check_reference_def sample_hash_valid)
  from this [OF paths] show ?thesis
    using contract_authenticated assms
    by (auto simp: check_criterion_def same_criterion_def sample_subcriterion_def check_evidence_def Let_def list_all_iff)
qed

lemma sample_category_checked:
  assumes "c \<in> set engineering_contract"
  shows "check_category (sample_category c, c) = Inr ()"
proof -
  have "sum_list (map sc_weight (cc_subcriteria c)) = cc_weight c" using contract_facts(3) assms by (auto simp: list_all_iff)
  moreover have "sb_weight \<circ> sample_subcriterion = sc_weight" by (simp add: fun_eq_iff sample_subcriterion_def)
  moreover have "first_error (map check_criterion (zip (map sample_subcriterion ks) ks)) = Inr ()"
    if "\<forall>k \<in> set ks. check_criterion (sample_subcriterion k, k) = Inr ()" for ks
    using that by (induction ks) simp_all
  ultimately show ?thesis
    using sample_criterion_checked [OF assms]
    by (simp add: check_category_def sample_category_def del: first_error.simps(2))
qed

lemma sample_card_valid: "validate_scorecard sample_card sample_card_time = Inr ()"
proof -
  have "first_error (map check_category (zip (map sample_category cs) cs)) = Inr ()"
    if "\<forall>c \<in> set cs. check_category (sample_category c, c) = Inr ()" for cs
    using that by (induction cs) simp_all
  moreover have "ct_weight \<circ> sample_category = cc_weight" by (simp add: fun_eq_iff sample_category_def)
  ultimately have engineering: "check_engineering (card_engineering sample_card) = Inr ()"
    using sample_category_checked contract_facts(2)
    by (simp add: check_engineering_def sample_card_def del: first_error.simps(2))
  have gameplay: "check_gameplay (card_gameplay sample_card) = Inr ()" by (simp add: check_gameplay_def sample_card_def)
  have remote: "check_remote (card_remote sample_card) = Inr ()" by code_simp
  have "time_sub (Go_Time 63958809600 0) (Go_Time 63957456000 0) \<le> 30 * 24 * 3600 * 10 ^ 9" by code_simp
  then have "check_card_window sample_card sample_card_time = Inr ()"
    unfolding check_card_window_def first_error_Cons_ok require_ok
    by (simp add: sample_card_def sample_card_time_def is_zero_def zero_time_def less_go_time_def del: power_numeral)
  moreover have "card_version sample_card = 3" "\<not> is_zero sample_card_time"
    by (simp_all add: sample_card_def sample_card_time_def is_zero_def zero_time_def)
  ultimately show ?thesis
    unfolding validate_scorecard_def first_error_Cons_ok using engineering gameplay remote by simp
qed

lemma valid_scorecard_scores_witness:
  "validate_scorecard sample_card sample_card_time = Inr () \<and>
   ee_score (evaluate_engineering ''abc'' sample_card ''leaguebridge-repository-evidence-v1:abc'') = 74"
proof -
  have "expected_verification ''abc'' = ''leaguebridge-repository-evidence-v1:abc''" by (simp add: expected_verification_def)
  with valid_scorecard_scores [OF sample_card_valid, of "''abc''" "''leaguebridge-repository-evidence-v1:abc''"] show ?thesis
    using sample_card_valid by (simp add: repository_score_def)
qed

lemma sample_evidence_verified:
  assumes "c \<in> set engineering_contract" "k \<in> set (cc_subcriteria c)" "r \<in> set (references_of (sample_subcriterion k))"
  shows "verify_evidence (\<lambda>_. sample_hash) (sample_run (er_path r)) r"
proof -
  from assms(3) have r: "er_path r \<in> set (sc_paths k)" "er_sha256 r = sample_hash"
    by (auto simp: references_of_def sample_subcriterion_def)
  then have valid: "valid_repository_path (er_path r)"
    and prefixes: "check_prefixes (sample_run (er_path r)) (split_on (CHR ''/'') (er_path r))"
    using contract_paths assms(1,2) by (auto simp: list_all_iff)
  then have "length (er_path r) \<le> 512" by (simp add: valid_repository_path_def)
  with valid prefixes r(2) show ?thesis
    by (simp add: verify_evidence_def sample_hash_valid)
      (simp add: sample_run_def sample_tree_def same_tree_file_def max_evidence_size_def)
qed

lemma sample_repository_verified:
  "verify_repository_evidence (\<lambda>_. sample_hash) sample_entry (\<lambda>_. sample_run) sample_card sample_card_time = Inr ()"
proof -
  have criterion: "verify_criterion (\<lambda>_. sample_hash) (\<lambda>_. sample_run) (sample_subcriterion k, k) = Inr ()"
    if "c \<in> set engineering_contract" "k \<in> set (cc_subcriteria c)" for c k
    using check_criterion_ok(2) [OF sample_criterion_checked [OF that]] sample_evidence_verified [OF that]
    by (auto simp: verify_criterion_def first_error_map_ok simp del: first_error.simps(2))
  have members: "x \<in> set (zip (map f xs) xs) \<Longrightarrow> snd x \<in> set xs \<and> fst x = f (snd x)" for f :: "'a \<Rightarrow> 'b" and xs x
    by (auto simp: in_set_zip) (metis nth_mem)
  have "verify_from_root (\<lambda>_. sample_hash) (\<lambda>_. sample_run) sample_card = Inr ()"
  proof -
    have "card_engineering sample_card = map sample_category engineering_contract" by (simp add: sample_card_def)
    moreover have "\<not> list_ex (\<lambda>(c, contract). length (cc_subcriteria contract) < length (ct_subcriteria c))
        (zip (map sample_category engineering_contract) engineering_contract)"
      by (auto simp: list_ex_iff sample_category_def dest!: members)
    moreover have "first_error (concat (map (\<lambda>(c, contract). map (verify_criterion (\<lambda>_. sample_hash) (\<lambda>_. sample_run))
        (zip (ct_subcriteria c) (cc_subcriteria contract)))
        (zip (map sample_category engineering_contract) engineering_contract))) = Inr ()"
      unfolding first_error_ok by (auto simp: sample_category_def criterion dest!: members)
    ultimately show ?thesis by (simp add: verify_from_root_def del: first_error.simps(2))
  qed
  moreover have "open_evidence_root sample_entry"
    by (simp add: open_evidence_root_def sample_entry_def sample_tree_def same_tree_file_def)
  ultimately show ?thesis by (simp add: verify_repository_evidence_def sample_card_valid)
qed

lemma repository_evidence_backed_witness:
  "\<exists>contract \<in> set engineering_contract. \<exists>required \<in> set (cc_subcriteria contract). ''README.md'' \<in> set (sc_paths required) \<and>
     open_evidence_root sample_entry \<and> holds_file (\<lambda>_. sample_hash) (sample_run ''README.md'') ''README.md'' sample_hash"
proof -
  have "list_ex (\<lambda>c. list_ex (\<lambda>k. sc_evidence_type k = repository_content \<and> ''README.md'' \<in> set (sc_paths k))
      (cc_subcriteria c)) engineering_contract" by code_simp
  then obtain c k where k: "c \<in> set engineering_contract" "k \<in> set (cc_subcriteria c)"
    "sc_evidence_type k = repository_content" "''README.md'' \<in> set (sc_paths k)" by (auto simp: list_ex_iff)
  note backed = repository_evidence_backed [OF sample_repository_verified k]
  from backed have "holds_file (\<lambda>_. sample_hash) (sample_run ''README.md'') ''README.md'' sample_hash"
    by (auto simp: holds_file_def)
  with backed k show ?thesis by blast
qed

end
