(* ===== verification/Spec2Isabelle.thy ===== *)
theory Spec2Isabelle
  imports Release_Version Target Wake_On_Lan Kvm_Launch Moonlight_Discovery Compat_Authority Native_Examples Production_Examples
    Readiness_Examples
begin

text \<open>
  LeagueBridge plans and starts handoffs from a Linux or BSD desktop to a physical Windows or
  macOS machine: a Moonlight streaming client, a browser opened on a hardware KVM, or a
  Wake-on-LAN packet. Around the launchers it keeps a configuration file and a compatibility
  authority that decides whether a launch may be offered at all, and beside the launcher it verifies
  the evidence that a combination works: records of tests, sets of them signed by reviewers, native
  observations with their raw files, and the production score of a release. This development models
  those parts of \<open>src/internal\<close> and proves what they promise to each other.

  \<^bold>\<open>How the parts interact.\<close> A configuration (\<open>config\<close>) is read strictly: the tokens of the document
  are walked for repeated keys, compared with the exact field names (\<open>exactjson\<close>), decoded and
  validated. Its host and endpoint texts are the input of the planners. A planner (\<open>remote\<close>,
  \<open>kvm\<close>, \<open>wol\<close>) turns a request into a plan with exported fields that anyone can overwrite and
  private fields that record what was planned; an executor accepts a plan only if its exported
  fields still agree with the record, and only then calls the runner or the socket. Discovery
  binds a launcher to the file it found, and the executor compares that file again. The
  compatibility policy (\<open>compat\<close>) reads a compiled-in manifest and, optionally, an external one
  that can only restrict.

  \<^bold>\<open>The prelude.\<close> \<open>Go_Base\<close> (results of fallible functions, bytes, decimal text, the functions of
  \<open>strings\<close> and \<open>strconv\<close>), \<open>Go_Text\<close> (UTF-8, runes, normalisation), \<open>Go_Net\<close> (addresses of
  \<open>net/netip\<close> and \<open>net\<close>), \<open>Go_Url\<close> (\<open>net/url\<close>), \<open>Go_Time\<close> (calendar dates) and \<open>Host_Files\<close> (what
  \<open>os.Stat\<close> tells) model the parts of Go's library the sources call; \<open>Json_Tokens\<close> and
  \<open>Json_Values\<close> the token streams and values of \<open>encoding/json\<close>. A Go string is a list of bytes. A
  function that returns an error is a sum, and a chain of early returns is \<open>first_error\<close> on the
  list of its checks in the order of the code.

  \<^bold>\<open>The components.\<close>
  \<^item> \<open>Release_Version\<close>: \<open>internal/releaseversion\<close>, against the productions of Semantic Versioning.
  \<^item> \<open>Target\<close>: \<open>internal/target\<close>, the target table and its views.
  \<^item> \<open>Json_Tokens\<close>, \<open>Exact_Json\<close>: the duplicate-key walkers of \<open>config\<close> and \<open>compat\<close>, and
    \<open>internal/exactjson\<close>; both decide a property of the decoded document, the latter a match with the
    struct types as they are declared.
  \<^item> \<open>Host_Endpoint\<close>, \<open>Config\<close>: \<open>internal/config\<close>, the endpoint syntax, the KVM endpoint check,
    validation, strict parsing with the legacy schema, and the round trip through marshalling.
  \<^item> \<open>Wake_On_Lan\<close>: \<open>internal/wol/wol.go\<close>, normalisation, planning, the magic packet, execution.
  \<^item> \<open>Kvm_Launch\<close>: \<open>internal/kvm/kvm.go\<close>, discovery, planning and execution.
  \<^item> \<open>Moonlight_Text\<close>: terminal text, application lists and Embedded's control output
    (\<open>internal/remote\<close>); \<open>Moonlight_Options\<close>: the stream options and the arguments written for them;
    \<open>Moonlight_Argv\<close>: the parser at the execution boundary, with \<open>Moonlight_Grammar\<close>,
    \<open>Moonlight_Accepts\<close> (what is written is accepted), \<open>Moonlight_Allowlist\<close> and
    \<open>Moonlight_Boundary\<close> (what is accepted is on the list, as inductive grammars).
  \<^item> \<open>Moonlight_Plan\<close>, \<open>Moonlight_Execute\<close>, \<open>Moonlight_Handoff\<close>, \<open>Moonlight_Contract\<close>,
    \<open>Moonlight_Discovery\<close>: \<open>BuildPlan\<close> and its variants, \<open>Execute\<close> and \<open>ExecRunner\<close>, the calls and the
    process they make, the contract of planner and executor, and \<open>Discover\<close> with the way from
    discovery to the process.
  \<^item> \<open>Compat_Manifest\<close>, \<open>Compat_Policy\<close>, \<open>Compat_Authority\<close>: \<open>internal/compat\<close>, the manifest with its
    strict parsing and validation, freshness and the launch verdict, and the compiled-in document
    \<open>data/manifest.json\<close> as a value.

  \<^item> \<open>Evidence_Record\<close>, \<open>Evidence_Evaluate\<close>, \<open>Evidence_Parse\<close>: \<open>internal/evidence\<close>, the validation
    records of hosts, clients and sessions with everything \<open>Validate\<close> asks, the evaluation of one
    record and of a chain of three against the compiled authority, strict parsing and the unverified
    templates. \<open>Evidence_Examples\<close> has a concrete chain.
  \<^item> \<open>Reviewer_Crypto\<close> (\<open>internal/reviewercrypto\<close> and the byte encodings), \<open>Signed_Policy\<close>,
    \<open>Signed_Set\<close>, \<open>Signed_Verify\<close>, \<open>Signed_Promotion\<close>: \<open>internal/evidencev2\<close>, the reviewer policy, the
    signed envelope and payload, \<open>VerifySetAt\<close>, \<open>PreparePayloadAt\<close> and \<open>PromoteRemoteSetAt\<close>.
    \<open>Signed_Examples\<close> has a set that verifies.
  \<^item> \<open>Native_Policy\<close>, \<open>Native_Parse\<close>, \<open>Native_Verify\<close>: \<open>internal/productionnative\<close>, the fixed cells, the
    observer policy, canonical envelopes and observations, \<open>VerifyObservationAt\<close> with the hashing of
    raw files, and \<open>VerifyCompleteSetAt\<close>. \<open>Native_Examples\<close> has an observation and a complete set.
  \<^item> \<open>Production_Assessment\<close>: \<open>internal/productionassessment\<close>, the criteria, their proofs and the score
    of a live release, and the binding of native observations. \<open>Production_Examples\<close> has two releases.
  \<^item> \<open>Readiness_Contract\<close>, \<open>Readiness\<close>: \<open>internal/readiness\<close>, the fixed contract of the engineering score,
    the scorecard with its parsing and validation, what is derived from it, and the verification of the
    repository files it refers to. \<open>Readiness_Examples\<close> has a scorecard and a repository.

  \<^bold>\<open>The contracts.\<close> \<open>Handoff_Boundary\<close> states the contract between a planner and an executor as a
  locale: what is built passes the guard, the guard refuses what was not built, and overwriting
  the exported fields cannot make it accept anything else. It is interpreted on the Wake-on-LAN,
  KVM and Moonlight models (\<open>complete_boundary\<close> where the guard also accepts every plan that agrees
  with the planned one). \<open>Compat_Policy\<close> states the contract of a gate that observations can only
  restrict (\<open>deny_only\<close>) and interprets it on the launch policy. \<open>Review_Independence\<close> states what the
  two verifiers of reviews promise alike, as a locale and its extension by a clock
  (\<open>independent_review\<close>, \<open>timed_review\<close>), and interprets it on signed sets and on native observations.

  \<^bold>\<open>What the properties show.\<close> The executors call nothing but the planned command of a discovered,
  unreplaced binary, in the allowlisted grammar, and after any overwriting of exported fields
  either the planned process or none; a planned handoff does run, with two exceptions where planner
  and parser disagree, the H.264 codec of the Qt clients and an Embedded address whose zone is
  decoded twice; discovery binds the first installed client of a fixed priority; configurations and
  manifests survive being written and read exactly when their texts are valid UTF-8 (and a manifest
  is within the size limit);
  a launch is allowed exactly when the compiled-in authority grants it in its window of days and
  no external document restricts it, and the authority that is compiled in grants nothing.
  Validation records evaluate to a complete state exactly when they claim everything that is asked
  of them at that moment, and three of them only as a chain of the same run; a template never does.
  A signed set and a native observation are accepted only with the signatures of an observer and a
  reviewer of another organization, in scope and in time over exactly the bytes that were read; no
  organization can review itself, a signature cannot be moved to other bytes, a key that is revoked
  spoils what it signs, and the policies that are compiled in accept nothing. A verified set is
  promoted exactly in its window, a complete set covers its cells exactly, and the production score
  is 83 and the points of what is proved for this release at this moment. A scorecard cannot supply
  points: what validates is worth the same 74 that the production score starts from, and verified
  repository evidence backs each of them with a file.

  \<^bold>\<open>Bounds and termination.\<close> No definition takes fuel. The duplicate-key walkers are proved to
  consume tokens, the other loops recurse on their input or on a measure stated with them. Sizes
  (the 1 MiB documents, 64 levels of nesting, 512 sources, port and rate limits) are those of the
  code. An instant is a whole number of seconds from year 0 and its nanoseconds; a \<open>float64\<close> is the
  rational number it denotes (\<open>Go_Float\<close>), rounded after each operation.

  \<^bold>\<open>What is not modelled.\<close> The operating system is a world of outcomes (what a lookup, a stat, a run
  or a write answers); the Windows builds of the launchers, printing for the command line and the
  wording of errors beyond the check that failed are left out. SHA-256, Ed25519 with the subgroup
  check of a public key, and the printing of JSON are arguments. The live queries of
  \<open>internal/releaseassessment\<close> are outcomes of the assessment. The probe, release and
  attestation packages and the command line (\<open>internal/app\<close>, \<open>tools\<close>) are not modelled here.
  Documents are token streams: the lexer of \<open>encoding/json\<close> is not modelled, or an argument where
  bytes are compared.
\<close>

end
